(* ===== verification/Prelude.thy ===== *)
theory Prelude
  imports Main "HOL-Library.Word" "HOL-Library.Char_ord" "HOL-Library.List_Lexorder"
begin

text \<open>
  What the components share: Rust's \<open>Result\<close> as a sum with the \<open>?\<close> operator, byte strings
  with the standard-library operations the sources call on them (\<open>trim\<close>, the ASCII classes,
  \<open>is_lower_hex_len\<close>), fixed-width integers with their checked and saturating operations, and
  the SQL statements of the node's tables as functions on lists of rows.
\<close>

named_theorems result_simps
named_theorems string_simps
named_theorems table_simps

section \<open>Types\<close>

text \<open>
  A Rust \<open>String\<close> is a sequence of UTF-8 bytes; \<open>char\<close> is a byte. Unsigned machine
  integers are words. Timestamps (\<open>i64\<close>) are integers: the sources only compare them, and
  the few places that add to one write the range check out.
\<close>

type_synonym bytes = string
type_synonym u32 = "32 word"
type_synonym u64 = "64 word"
type_synonym usize = "64 word"
type_synonym i64 = int
type_synonym 'a result = "string + 'a"

section \<open>Results\<close>

definition and_then :: "'e + 'a \<Rightarrow> ('a \<Rightarrow> 'e + 'b) \<Rightarrow> 'e + 'b" where
  "and_then r f = (case r of Inl e \<Rightarrow> Inl e | Inr x \<Rightarrow> f x)"

definition map_err :: "('e \<Rightarrow> 'f) \<Rightarrow> 'e + 'a \<Rightarrow> 'f + 'a" where
  "map_err g r = (case r of Inl e \<Rightarrow> Inl (g e) | Inr x \<Rightarrow> Inr x)"

definition map_ok :: "('a \<Rightarrow> 'b) \<Rightarrow> 'e + 'a \<Rightarrow> 'e + 'b" where
  "map_ok g r = (case r of Inl e \<Rightarrow> Inl e | Inr x \<Rightarrow> Inr (g x))"

definition ok_or :: "'e \<Rightarrow> 'a option \<Rightarrow> 'e + 'a" where
  "ok_or e x = (case x of None \<Rightarrow> Inl e | Some y \<Rightarrow> Inr y)"

definition is_ok :: "'e + 'a \<Rightarrow> bool" where
  "is_ok r = (case r of Inl e \<Rightarrow> False | Inr x \<Rightarrow> True)"

fun for_each :: "('a \<Rightarrow> 'e + unit) \<Rightarrow> 'a list \<Rightarrow> 'e + unit" where
  "for_each f [] = Inr ()"
| "for_each f (x # xs) = and_then (f x) (\<lambda>_. for_each f xs)"

section \<open>Byte strings\<close>

text \<open>
  \<open>str::trim\<close> removes characters with the Unicode property White\_Space from both ends. On
  UTF-8 bytes these are the following encodings; a character boundary of a valid string is
  recognised by its whole encoding, so stripping one encoding at a time from either end is
  what the library does.
\<close>

definition white_space_encodings :: "string list" where
  "white_space_encodings =
     [[CHR 0x09], [CHR 0x0A], [CHR 0x0B], [CHR 0x0C], [CHR 0x0D], [CHR 0x20],
      [CHR 0xC2, CHR 0x85], [CHR 0xC2, CHR 0xA0], [CHR 0xE1, CHR 0x9A, CHR 0x80],
      [CHR 0xE2, CHR 0x80, CHR 0x80], [CHR 0xE2, CHR 0x80, CHR 0x81],
      [CHR 0xE2, CHR 0x80, CHR 0x82], [CHR 0xE2, CHR 0x80, CHR 0x83],
      [CHR 0xE2, CHR 0x80, CHR 0x84], [CHR 0xE2, CHR 0x80, CHR 0x85],
      [CHR 0xE2, CHR 0x80, CHR 0x86], [CHR 0xE2, CHR 0x80, CHR 0x87],
      [CHR 0xE2, CHR 0x80, CHR 0x88], [CHR 0xE2, CHR 0x80, CHR 0x89],
      [CHR 0xE2, CHR 0x80, CHR 0x8A], [CHR 0xE2, CHR 0x80, CHR 0xA8],
      [CHR 0xE2, CHR 0x80, CHR 0xA9], [CHR 0xE2, CHR 0x80, CHR 0xAF],
      [CHR 0xE2, CHR 0x81, CHR 0x9F], [CHR 0xE3, CHR 0x80, CHR 0x80]]"

fun strip_one :: "'a list list \<Rightarrow> 'a list \<Rightarrow> 'a list option" where
  "strip_one [] s = None"
| "strip_one (p # ps) s =
     (if p \<noteq> [] \<and> take (length p) s = p then Some (drop (length p) s) else strip_one ps s)"

lemma strip_one_shorter [simp]: "strip_one ps s = Some r \<Longrightarrow> length r < length s"
proof (induction ps)
  case (Cons p ps)
  show ?case
  proof (cases "p \<noteq> [] \<and> take (length p) s = p")
    case True
    then have "0 < length p" and "length p \<le> length s"
      by (simp, metis length_take min.cobounded1)
    moreover from True Cons.prems have "length r = length s - length p" by auto
    ultimately show ?thesis by linarith
  next
    case False
    with Cons show ?thesis by (simp split: if_splits)
  qed
qed simp

function trim_with :: "'a list list \<Rightarrow> 'a list \<Rightarrow> 'a list" where
  "trim_with ps s = (case strip_one ps s of None \<Rightarrow> s | Some r \<Rightarrow> trim_with ps r)"
  by pat_completeness auto
termination
  by (relation "measure (\<lambda>(ps, s). length s)") auto

declare trim_with.simps [simp del]

definition trim_start :: "string \<Rightarrow> string" where
  "trim_start s = trim_with white_space_encodings s"

definition trim_end :: "string \<Rightarrow> string" where
  "trim_end s = rev (trim_with (map rev white_space_encodings) (rev s))"

definition trim :: "string \<Rightarrow> string" where
  "trim s = trim_end (trim_start s)"

definition is_ascii_digit :: "char \<Rightarrow> bool" where
  "is_ascii_digit c = (let n = (of_char c :: nat) in 48 \<le> n \<and> n \<le> 57)"

definition is_ascii_uppercase :: "char \<Rightarrow> bool" where
  "is_ascii_uppercase c = (let n = (of_char c :: nat) in 65 \<le> n \<and> n \<le> 90)"

definition is_ascii_lowercase :: "char \<Rightarrow> bool" where
  "is_ascii_lowercase c = (let n = (of_char c :: nat) in 97 \<le> n \<and> n \<le> 122)"

definition is_ascii_hexdigit :: "char \<Rightarrow> bool" where
  "is_ascii_hexdigit c =
     (let n = (of_char c :: nat)
      in (48 \<le> n \<and> n \<le> 57) \<or> (65 \<le> n \<and> n \<le> 70) \<or> (97 \<le> n \<and> n \<le> 102))"

definition ascii_lower :: "char \<Rightarrow> char" where
  "ascii_lower c = (if is_ascii_uppercase c then char_of ((of_char c :: nat) + 32) else c)"

definition to_ascii_lowercase :: "string \<Rightarrow> string" where
  "to_ascii_lowercase s = map ascii_lower s"

text \<open>\<open>str::starts_with\<close>.\<close>

definition starts_with :: "string \<Rightarrow> string \<Rightarrow> bool" where
  "starts_with s p = (take (length p) s = p)"

text \<open>Decimal rendering of integers, as \<open>format!\<close> writes them.\<close>

fun nat_digits :: "nat \<Rightarrow> string" where
  "nat_digits n =
     (if n < 10 then [char_of (48 + n)] else nat_digits (n div 10) @ [char_of (48 + n mod 10)])"

declare nat_digits.simps [simp del]

definition int_to_string :: "int \<Rightarrow> string" where
  "int_to_string i = (if i < 0 then CHR ''-'' # nat_digits (nat (- i)) else nat_digits (nat i))"

text \<open>
  \<open>str::ends_with\<close>, \<open>str::contains\<close> and \<open>str::split\<close> with a character; \<open>char::is_control\<close> on some
  character (the code points below 32, 127, and 128 to 159, which UTF-8 writes as \<open>C2 80\<close> to
  \<open>C2 9F\<close>).
\<close>

definition ends_with :: "string \<Rightarrow> string \<Rightarrow> bool" where
  "ends_with s p = starts_with (rev s) (rev p)"

definition str_contains :: "string \<Rightarrow> string \<Rightarrow> bool" where
  "str_contains s p = list_ex (\<lambda>k. starts_with (drop k s) p) [0..<length s + 1]"

fun split_char :: "char \<Rightarrow> string \<Rightarrow> string list" where
  "split_char c [] = [[]]"
| "split_char c (x # s) =
     (if x = c then [] # split_char c s
      else (case split_char c s of [] \<Rightarrow> [[x]] | w # ws \<Rightarrow> (x # w) # ws))"

fun any_control :: "string \<Rightarrow> bool" where
  "any_control [] = False"
| "any_control (c # s) =
     (let n = (of_char c :: nat)
      in n < 32 \<or> n = 127 \<or>
         (n = 194 \<and> (case s of [] \<Rightarrow> False
                      | d # _ \<Rightarrow> 128 \<le> (of_char d :: nat) \<and> (of_char d :: nat) < 160)) \<or>
         any_control s)"

text \<open>
  \<open>String::from_utf8\<close>: the byte sequences of the Unicode standard's table of well-formed UTF-8.
\<close>

definition utf8_tail :: "char \<Rightarrow> bool" where
  "utf8_tail c = (let n = (of_char c :: nat) in 128 \<le> n \<and> n \<le> 191)"

definition utf8_second :: "char \<Rightarrow> char \<Rightarrow> bool" where
  "utf8_second b c =
     (let m = (of_char b :: nat); n = (of_char c :: nat)
      in (if m = 224 then 160 else if m = 240 then 144 else 128) \<le> n \<and>
         n \<le> (if m = 237 then 159 else if m = 244 then 143 else 191))"

fun utf8_width :: "char \<Rightarrow> nat" where
  "utf8_width b =
     (let m = (of_char b :: nat)
      in if m \<le> 127 then 1 else if 194 \<le> m \<and> m \<le> 223 then 2
         else if 224 \<le> m \<and> m \<le> 239 then 3 else if 240 \<le> m \<and> m \<le> 244 then 4 else 0)"

fun utf8_valid :: "bytes \<Rightarrow> bool" where
  "utf8_valid [] = True"
| "utf8_valid (b # s) =
     (let w = utf8_width b
      in w \<noteq> 0 \<and> w \<le> Suc (length s) \<and> (1 < w \<longrightarrow> utf8_second b (hd s)) \<and>
         list_all utf8_tail (take (w - 1) s) \<and> utf8_valid (drop (w - 1) s))"

definition is_ascii_alphanumeric :: "char \<Rightarrow> bool" where
  "is_ascii_alphanumeric c \<longleftrightarrow> is_ascii_digit c \<or> is_ascii_uppercase c \<or> is_ascii_lowercase c"

text \<open>
  A message built by \<open>format!\<close>: plain text, or text around one argument printed with \<open>{:?}\<close> or
  before a list printed so, which are kept as the arguments themselves.
\<close>

datatype message = Msg string | MsgDebug string string string | MsgDebugs string "string list"

fun prefixed :: "string \<Rightarrow> message \<Rightarrow> message" where
  "prefixed p (Msg s) = Msg (p @ s)"
| "prefixed p (MsgDebug a x b) = MsgDebug (p @ a) x b"
| "prefixed p (MsgDebugs a xs) = MsgDebugs (p @ a) xs"

fun comma_separated :: "string list \<Rightarrow> string" where
  "comma_separated [] = []"
| "comma_separated [x] = x"
| "comma_separated (x # xs) = x @ '', '' @ comma_separated xs"

text \<open>The text of a message, given the rendering of strings by \<open>{:?}\<close>.\<close>

fun render_message :: "(string \<Rightarrow> string) \<Rightarrow> message \<Rightarrow> string" where
  "render_message dbg (Msg s) = s"
| "render_message dbg (MsgDebug a x b) = a @ dbg x @ b"
| "render_message dbg (MsgDebugs a xs) = a @ ''['' @ comma_separated (map dbg xs) @ '']''"

text \<open>Adjacent elements increase strictly: the negation of \<open>windows(2).any(|p| p[0] >= p[1])\<close>.\<close>

fun strictly_sorted :: "'a::linorder list \<Rightarrow> bool" where
  "strictly_sorted (x # y # xs) = (x < y \<and> strictly_sorted (y # xs))"
| "strictly_sorted _ = True"

section \<open>Machine integers\<close>

definition checked_add :: "'a::len word \<Rightarrow> 'a word \<Rightarrow> 'a word option" where
  "checked_add a b = (if unat a + unat b < 2 ^ LENGTH('a) then Some (a + b) else None)"

definition checked_mul :: "'a::len word \<Rightarrow> 'a word \<Rightarrow> 'a word option" where
  "checked_mul a b = (if unat a * unat b < 2 ^ LENGTH('a) then Some (a * b) else None)"

definition saturating_add :: "'a::len word \<Rightarrow> 'a word \<Rightarrow> 'a word" where
  "saturating_add a b = (if unat a + unat b < 2 ^ LENGTH('a) then a + b else - 1)"

definition saturating_sub :: "'a::len word \<Rightarrow> 'a word \<Rightarrow> 'a word" where
  "saturating_sub a b = (if b \<le> a then a - b else 0)"

definition saturating_mul :: "'a::len word \<Rightarrow> 'a word \<Rightarrow> 'a word" where
  "saturating_mul a b = (if unat a * unat b < 2 ^ LENGTH('a) then a * b else - 1)"

text \<open>\<open>i64::try_from(u64)\<close> and \<open>u64::try_from(i64)\<close>.\<close>

definition i64_of_u64 :: "u64 \<Rightarrow> i64 option" where
  "i64_of_u64 a = (if uint a < 2 ^ 63 then Some (uint a) else None)"

definition u64_of_i64 :: "i64 \<Rightarrow> u64 option" where
  "u64_of_i64 i = (if 0 \<le> i then Some (word_of_int i) else None)"

text \<open>
  The plain \<open>+\<close> of \<open>i64\<close> and the cast \<open>u64 as i64\<close> wrap at 64 bits (release builds; a debug build
  panics where the addition wraps). \<open>i64::saturating_sub\<close> and \<open>i64::checked_add\<close> do not.
\<close>

definition wrap_i64 :: "int \<Rightarrow> i64" where
  "wrap_i64 i = (i + 2 ^ 63) mod 2 ^ 64 - 2 ^ 63"

definition in_i64 :: "int \<Rightarrow> bool" where
  "in_i64 i \<longleftrightarrow> - (2 ^ 63) \<le> i \<and> i < 2 ^ 63"

definition i64_add :: "i64 \<Rightarrow> i64 \<Rightarrow> i64" where
  "i64_add a b = wrap_i64 (a + b)"

definition as_i64 :: "u64 \<Rightarrow> i64" where
  "as_i64 a = wrap_i64 (uint a)"

definition i64_saturating_sub :: "i64 \<Rightarrow> i64 \<Rightarrow> i64" where
  "i64_saturating_sub a b = max (- (2 ^ 63)) (min (2 ^ 63 - 1) (a - b))"

definition i64_checked_add :: "i64 \<Rightarrow> i64 \<Rightarrow> i64 option" where
  "i64_checked_add a b = (if in_i64 (a + b) then Some (a + b) else None)"

section \<open>Parsing of strings\<close>

text \<open>\<open>str::strip_prefix\<close> and \<open>str::splitn\<close> with a character.\<close>

definition strip_prefix :: "string \<Rightarrow> string \<Rightarrow> string option" where
  "strip_prefix s p = (if starts_with s p then Some (drop (length p) s) else None)"

fun splitn :: "nat \<Rightarrow> char \<Rightarrow> string \<Rightarrow> string list" where
  "splitn 0 c s = []"
| "splitn (Suc 0) c s = [s]"
| "splitn (Suc (Suc n)) c s =
     (case dropWhile (\<lambda>x. x \<noteq> c) s of
        [] \<Rightarrow> [s]
      | _ # rest \<Rightarrow> takeWhile (\<lambda>x. x \<noteq> c) s # splitn (Suc n) c rest)"

text \<open>\<open>str::parse\<close> at \<open>u64\<close> and \<open>i64\<close>: an optional sign, then at least one digit, in range.\<close>

definition digits_value :: "string \<Rightarrow> nat" where
  "digits_value s = foldl (\<lambda>a c. a * 10 + ((of_char c :: nat) - 48)) 0 s"

definition parse_digits :: "string \<Rightarrow> nat option" where
  "parse_digits s = (if s \<noteq> [] \<and> list_all is_ascii_digit s then Some (digits_value s) else None)"

definition parse_u64 :: "string \<Rightarrow> u64 option" where
  "parse_u64 s =
     (case parse_digits (if starts_with s ''+'' then tl s else s) of
        None \<Rightarrow> None
      | Some n \<Rightarrow> if n < 2 ^ 64 then Some (word_of_nat n) else None)"

definition parse_i64 :: "string \<Rightarrow> i64 option" where
  "parse_i64 s =
     (if starts_with s ''-''
      then (case parse_digits (tl s) of
              None \<Rightarrow> None
            | Some n \<Rightarrow> if n \<le> 2 ^ 63 then Some (- int n) else None)
      else (case parse_digits (if starts_with s ''+'' then tl s else s) of
              None \<Rightarrow> None
            | Some n \<Rightarrow> if n < 2 ^ 63 then Some (int n) else None))"

section \<open>Tables\<close>

text \<open>
  A table is the list of its rows in insertion (rowid) order. An \<open>UPDATE\<close> or \<open>DELETE\<close>
  returns the new table and the number of rows it changed.
\<close>

definition update_where :: "('r \<Rightarrow> bool) \<Rightarrow> ('r \<Rightarrow> 'r) \<Rightarrow> 'r list \<Rightarrow> 'r list \<times> nat" where
  "update_where P f t = (map (\<lambda>r. if P r then f r else r) t, length (filter P t))"

definition delete_where :: "('r \<Rightarrow> bool) \<Rightarrow> 'r list \<Rightarrow> 'r list \<times> nat" where
  "delete_where P t = (filter (\<lambda>r. \<not> P r) t, length (filter P t))"

definition query_row :: "('r \<Rightarrow> bool) \<Rightarrow> 'r list \<Rightarrow> 'r option" where
  "query_row P t = List.find P t"

section \<open>Lemmas on results\<close>

lemma and_then_simps [simp]:
  "and_then (Inl e) f = Inl e"
  "and_then (Inr x) f = f x"
  by (simp_all add: and_then_def)

lemma and_then_Inr [result_simps]:
  "and_then r f = Inr y \<longleftrightarrow> (\<exists>x. r = Inr x \<and> f x = Inr y)"
  by (cases r) auto

lemma and_then_unit_Inr [result_simps]:
  "and_then (r :: 'e + unit) f = Inr y \<longleftrightarrow> r = Inr () \<and> f () = Inr y"
  by (cases r) auto

lemma map_err_simps [simp]:
  "map_err g (Inl e) = Inl (g e)"
  "map_err g (Inr x) = Inr x"
  by (simp_all add: map_err_def)

lemma map_err_Inr [simp]: "map_err g r = Inr x \<longleftrightarrow> r = Inr x"
  by (cases r) auto

lemma map_ok_simps [simp]:
  "map_ok g (Inl e) = Inl e"
  "map_ok g (Inr x) = Inr (g x)"
  by (simp_all add: map_ok_def)

lemma map_ok_Inr [simp]: "map_ok g r = Inr y \<longleftrightarrow> (\<exists>x. r = Inr x \<and> y = g x)"
  by (cases r) auto

lemma ok_or_simps [simp]:
  "ok_or e None = Inl e"
  "ok_or e (Some x) = Inr x"
  by (simp_all add: ok_or_def)

lemma ok_or_Inr [simp]: "ok_or e x = Inr y \<longleftrightarrow> x = Some y"
  by (cases x) auto

lemma is_ok_simps [simp]:
  "\<not> is_ok (Inl e)"
  "is_ok (Inr x)"
  by (simp_all add: is_ok_def)

lemma is_ok_unit_iff: "is_ok (r :: 'e + unit) \<longleftrightarrow> r = Inr ()"
  by (cases r) auto

lemma unit_result_cases: "(r :: 'e + unit) = Inr () \<or> (\<exists>e. r = Inl e)"
  by (cases r) auto

lemma for_each_Inr [result_simps]: "for_each f xs = Inr () \<longleftrightarrow> (\<forall>x\<in>set xs. f x = Inr ())"
  by (induction xs) (auto simp: result_simps)

section \<open>Lemmas on strings\<close>

lemma strip_one_None_iff:
  "strip_one ps s = None \<longleftrightarrow> (\<forall>p\<in>set ps. p = [] \<or> take (length p) s \<noteq> p)"
  by (induction ps) auto

lemma trim_with_stop [simp]: "strip_one ps s = None \<Longrightarrow> trim_with ps s = s"
  by (subst trim_with.simps) simp

lemma trim_with_fixed: "strip_one ps (trim_with ps s) = None"
proof (induction ps s rule: trim_with.induct)
  case (1 ps s)
  show ?case
  proof (cases "strip_one ps s")
    case None
    then show ?thesis by simp
  next
    case (Some r)
    then have "trim_with ps s = trim_with ps r" by (subst trim_with.simps) simp
    with "1" Some show ?thesis by simp
  qed
qed

lemma strip_one_hd:
  assumes "s \<noteq> []" and "\<forall>p\<in>set ps. p \<noteq> [] \<longrightarrow> hd p \<noteq> hd s"
  shows "strip_one ps s = None"
proof -
  have "take (length p) s \<noteq> p" if "p \<in> set ps" "p \<noteq> []" for p
  proof
    assume eq: "take (length p) s = p"
    from that(2) have "hd (take (length p) s) = hd s" by simp
    with eq that assms(2) show False by simp
  qed
  then show ?thesis by (auto simp: strip_one_None_iff)
qed

text \<open>
  A string that begins and ends with a printable ASCII character is unchanged by \<open>trim\<close>.
\<close>

definition printable_ascii :: "char \<Rightarrow> bool" where
  "printable_ascii c = (let n = (of_char c :: nat) in 33 \<le> n \<and> n \<le> 126)"

lemma white_space_hd_not_printable:
  "p \<in> set white_space_encodings \<Longrightarrow> \<not> printable_ascii (hd p) \<and> \<not> printable_ascii (last p) \<and> p \<noteq> []"
  by (auto simp: white_space_encodings_def printable_ascii_def)

lemma trim_printable [string_simps]:
  assumes "s \<noteq> []" and "printable_ascii (hd s)" and "printable_ascii (last s)"
  shows "trim s = s"
proof -
  have start: "trim_start s = s"
    unfolding trim_start_def using assms white_space_hd_not_printable
    by (intro trim_with_stop strip_one_hd) fastforce+
  have "trim_with (map rev white_space_encodings) (rev s) = rev s"
    using assms white_space_hd_not_printable
    by (intro trim_with_stop strip_one_hd) (fastforce simp: hd_rev)+
  then show ?thesis by (simp add: trim_def trim_end_def start)
qed

lemma trim_with_Nil [simp]: "trim_with ps [] = []"
proof -
  have "strip_one ps ([] :: 'a list) = None" by (auto simp: strip_one_None_iff)
  then show ?thesis by simp
qed

lemma trim_Nil [simp]: "trim [] = []"
  by (simp add: trim_def trim_start_def trim_end_def)

lemma trim_nonempty_imp: "trim s \<noteq> [] \<Longrightarrow> s \<noteq> []"
  by auto

definition is_lower_hex_char :: "char \<Rightarrow> bool" where
  "is_lower_hex_char c = (is_ascii_hexdigit c \<and> \<not> is_ascii_uppercase c)"

lemma lower_hex_printable: "is_lower_hex_char c \<Longrightarrow> printable_ascii c"
  by (auto simp: is_lower_hex_char_def is_ascii_hexdigit_def is_ascii_uppercase_def
      printable_ascii_def Let_def)

lemma trim_lower_hex:
  assumes "list_all is_lower_hex_char s" and "s \<noteq> []"
  shows "trim s = s"
  using assms by (intro trim_printable) (auto simp: list_all_iff intro: lower_hex_printable)

lemma ascii_lower_hex: "is_lower_hex_char c \<Longrightarrow> ascii_lower c = c"
  by (simp add: ascii_lower_def is_lower_hex_char_def)

text \<open>Decimal rendering is injective and uses digits only.\<close>

lemma digits_value_nat_digits: "digits_value (nat_digits n) = n"
proof (induction n rule: nat_digits.induct)
  case (1 n)
  then show ?case
    by (subst nat_digits.simps) (auto simp: digits_value_def)
qed

lemma nat_digits_inject [simp]: "nat_digits m = nat_digits n \<longleftrightarrow> m = n"
  by (metis digits_value_nat_digits)

lemma nat_digits_ascii: "list_all is_ascii_digit (nat_digits n)"
proof (induction n rule: nat_digits.induct)
  case (1 n)
  then show ?case
    by (subst nat_digits.simps)
      (auto simp: is_ascii_digit_def [of "char_of m" for m] Let_def)
qed

lemma nat_digits_nonempty [simp]: "nat_digits n \<noteq> []"
  by (subst nat_digits.simps) simp

lemma nat_digits_not_minus: "nat_digits n \<noteq> CHR ''-'' # s"
  using nat_digits_ascii [of n] by (auto simp: is_ascii_digit_def)

lemma int_to_string_inject [simp]: "int_to_string i = int_to_string j \<longleftrightarrow> i = j"
  using nat_digits_not_minus [symmetric] nat_digits_not_minus by (auto simp: int_to_string_def)

lemma int_to_string_chars:
  "list_all (\<lambda>c. is_ascii_digit c \<or> c = CHR ''-'') (int_to_string i)"
  using nat_digits_ascii by (auto simp: int_to_string_def list_all_iff)

text \<open>Fields without the separator are recovered from their joined form.\<close>

lemma split_at_separator:
  "\<lbrakk>x @ c # r = y @ c # s; c \<notin> set x; c \<notin> set y\<rbrakk> \<Longrightarrow> x = y \<and> r = s"
proof (induction x arbitrary: y)
  case Nil
  then show ?case by (cases y) auto
next
  case (Cons a x)
  then show ?case by (cases y) auto
qed

lemma newline_not_hex: "list_all is_ascii_hexdigit s \<Longrightarrow> CHR 0x0A \<notin> set s"
  by (auto simp: list_all_iff is_ascii_hexdigit_def)

lemma newline_not_lower_hex: "list_all is_lower_hex_char s \<Longrightarrow> CHR 0x0A \<notin> set s"
  by (auto simp: list_all_iff is_lower_hex_char_def is_ascii_hexdigit_def)

lemma newline_not_int: "CHR 0x0A \<notin> set (int_to_string i)"
  using int_to_string_chars [of i] by (auto simp: list_all_iff is_ascii_digit_def)

lemma int_to_string_not_dash: "int_to_string i \<noteq> ''-''"
  using nat_digits_not_minus by (auto simp: int_to_string_def)

lemma to_ascii_lowercase_hex: "list_all is_lower_hex_char s \<Longrightarrow> to_ascii_lowercase s = s"
  by (induction s) (auto simp: to_ascii_lowercase_def ascii_lower_hex)

lemma to_ascii_lowercase_idem: "to_ascii_lowercase (to_ascii_lowercase s) = to_ascii_lowercase s"
proof -
  have "ascii_lower (ascii_lower c) = ascii_lower c" for c
    by (cases c) (auto simp: ascii_lower_def is_ascii_uppercase_def Let_def)
  then show ?thesis by (simp add: to_ascii_lowercase_def)
qed

section \<open>Lemmas on machine integers\<close>

lemma checked_add_Some:
  "checked_add a b = Some c \<Longrightarrow> unat c = unat a + unat b"
  by (auto simp: checked_add_def unat_word_ariths split: if_splits)

lemma checked_mul_Some:
  "checked_mul a b = Some c \<Longrightarrow> unat c = unat a * unat b"
  by (auto simp: checked_mul_def unat_word_ariths split: if_splits)

lemma unat_saturating_sub: "unat (saturating_sub a b) = unat a - unat b"
  by (auto simp: saturating_sub_def unat_sub word_le_nat_alt)

lemma unat_saturating_add:
  "unat (saturating_add (a :: 'a::len word) b) = min (unat a + unat b) (2 ^ LENGTH('a) - 1)"
  by (auto simp: saturating_add_def unat_word_ariths unsigned_minus_1_eq_mask mask_eq_exp_minus_1)

lemma i64_of_u64_Some: "i64_of_u64 a = Some i \<longleftrightarrow> i = uint a \<and> i < 2 ^ 63"
  by (auto simp: i64_of_u64_def)

lemma wrap_i64_id [simp]: "in_i64 i \<Longrightarrow> wrap_i64 i = i"
  by (simp add: wrap_i64_def in_i64_def)

lemma as_i64_id: "uint a < 2 ^ 63 \<Longrightarrow> as_i64 a = uint a"
  using uint_ge_0 [of a] by (simp add: as_i64_def wrap_i64_def)

lemma i64_add_id: "in_i64 (a + b) \<Longrightarrow> i64_add a b = a + b"
  by (simp add: i64_add_def)

section \<open>Lemmas on parsing\<close>

lemma nat_digits_hd: "starts_with (nat_digits n @ r) [c] \<Longrightarrow> is_ascii_digit c"
  using nat_digits_ascii [of n] by (cases "nat_digits n") (auto simp: starts_with_def)

lemma nat_digits_no_sign:
  "\<not> starts_with (nat_digits n) ''+''" "\<not> starts_with (nat_digits n) ''-''"
  using nat_digits_hd [of n "[]" "CHR ''+''"] nat_digits_hd [of n "[]" "CHR ''-''"]
  by (auto simp: is_ascii_digit_def)

lemma parse_digits_nat_digits [simp]: "parse_digits (nat_digits n) = Some n"
  using nat_digits_ascii by (simp add: parse_digits_def digits_value_nat_digits)

lemma parse_u64_print: "parse_u64 (nat_digits (unat a)) = Some a"
  using unsigned_less [of a] by (auto simp: parse_u64_def nat_digits_no_sign)

lemma parse_i64_print:
  assumes "in_i64 i"
  shows "parse_i64 (int_to_string i) = Some i"
proof (cases "i < 0")
  case True
  have "starts_with (CHR ''-'' # s) ''-''" for s
    by (simp add: starts_with_def)
  with True assms show ?thesis
    by (auto simp: parse_i64_def int_to_string_def in_i64_def)
next
  case False
  with assms show ?thesis
    by (auto simp: parse_i64_def int_to_string_def in_i64_def nat_digits_no_sign)
qed

lemma splitn_field:
  assumes "c \<notin> set f"
  shows "splitn (Suc (Suc n)) c (f @ c # r) = f # splitn (Suc n) c r"
proof -
  have "\<forall>x\<in>set f. x \<noteq> c" using assms by auto
  then show ?thesis by (simp add: takeWhile_append2 dropWhile_append2)
qed

lemma strip_prefix_append [simp]: "strip_prefix (p @ s) p = Some s"
  by (simp add: strip_prefix_def starts_with_def)

lemma strictly_sorted_iff: "strictly_sorted xs \<longleftrightarrow> sorted xs \<and> distinct xs"
proof (induction xs rule: strictly_sorted.induct)
  case (1 x y xs)
  have "x < y \<and> sorted (y # xs) \<Longrightarrow> x \<notin> set (y # xs)" by auto
  with 1 show ?case by (auto intro: order.trans [OF less_imp_le])
qed auto

lemma starts_with_Nil [simp]: "starts_with s []"
  by (simp add: starts_with_def)

lemma starts_with_append [simp]: "starts_with (p @ s) p"
  by (simp add: starts_with_def)

section \<open>Lemmas on tables\<close>

lemma update_where_length [table_simps]: "length (fst (update_where P f t)) = length t"
  by (simp add: update_where_def)

lemma update_where_none [table_simps]:
  "snd (update_where P f t) = 0 \<Longrightarrow> fst (update_where P f t) = t"
  by (auto simp: update_where_def filter_empty_conv intro: map_idI)

lemma update_where_positive [table_simps]:
  "0 < snd (update_where P f t) \<longleftrightarrow> (\<exists>r\<in>set t. P r)"
  by (auto simp: update_where_def filter_empty_conv)

lemma query_row_Some: "query_row P t = Some r \<Longrightarrow> r \<in> set t \<and> P r"
  by (auto simp: query_row_def find_Some_iff)

lemma query_row_None: "query_row P t = None \<longleftrightarrow> (\<forall>r\<in>set t. \<not> P r)"
  by (auto simp: query_row_def find_None_iff)

lemma query_row_append:
  "query_row P (t @ [r]) = (case query_row P t of Some x \<Rightarrow> Some x | None \<Rightarrow> if P r then Some r else None)"
  by (induction t) (auto simp: query_row_def)

text \<open>A key looked up in a table whose keys are distinct finds the row that carries it.\<close>

lemma query_row_key:
  assumes "distinct (map k t)" and "r \<in> set t"
  shows "query_row (\<lambda>x. k x = k r) t = Some r"
  using assms by (induction t) (auto simp: query_row_def)

lemma distinct_map_update:
  "(\<And>r. k (f r) = k r) \<Longrightarrow> map k (fst (update_where P f t)) = map k t"
  by (simp add: update_where_def)

lemma delete_where_distinct:
  "distinct (map k t) \<Longrightarrow> distinct (map k (fst (delete_where P t)))"
  by (simp add: delete_where_def distinct_map_filter)

end
