(* ===== verification/Json.thy ===== *)
theory Json
  imports Prelude "HOL-Library.Multiset"
begin

text \<open>
  The JSON values the sources build and inspect (\<open>serde_json::Value\<close>). An object is kept as
  serde\_json keeps it, sorted by key with each key at most once. A number is an integer or the
  64 bits of a finite double (the variants of \<open>serde_json::Number\<close>). \<open>mk_obj\<close> builds one from the
  fields of a struct, leaving out the fields that \<open>skip_serializing_if\<close> leaves out. The lemma
  \<open>mk_obj_inject\<close> is what every payload's injectivity proof rests on: two structs with the same
  field names and the same JSON object agree in every field.
\<close>

datatype json =
    JNull
  | JBool bool
  | JNum int
  | JFloat "64 word"
  | JStr string
  | JArr "json list"
  | JObj "(string \<times> json) list"

section \<open>Encoders for the field types of the payload structs\<close>

definition j_u64 :: "u64 \<Rightarrow> json" where
  "j_u64 w = JNum (uint w)"

definition j_u32 :: "u32 \<Rightarrow> json" where
  "j_u32 w = JNum (uint w)"

definition j_i64 :: "i64 \<Rightarrow> json" where
  "j_i64 i = JNum i"

definition j_strs :: "string list \<Rightarrow> json" where
  "j_strs xs = JArr (map JStr xs)"

text \<open>
  How a field is written: always, unless it is \<open>None\<close>, unless it is an empty \<open>Vec\<close>, unless
  it is an empty \<open>String\<close> (the \<open>skip_serializing_if\<close> attributes of the sources).
\<close>

definition always :: "json \<Rightarrow> json option" where
  "always v = Some v"

definition unless_none :: "('a \<Rightarrow> json) \<Rightarrow> 'a option \<Rightarrow> json option" where
  "unless_none f x = map_option f x"

definition unless_empty :: "('a list \<Rightarrow> json) \<Rightarrow> 'a list \<Rightarrow> json option" where
  "unless_empty f xs = (if xs = [] then None else Some (f xs))"

text \<open>An \<open>Option\<close> field without the attribute is written as \<open>null\<close>.\<close>

definition j_opt :: "('a \<Rightarrow> json) \<Rightarrow> 'a option \<Rightarrow> json" where
  "j_opt f x = (case x of None \<Rightarrow> JNull | Some y \<Rightarrow> f y)"

fun present :: "(string \<times> json option) list \<Rightarrow> (string \<times> json) list" where
  "present [] = []"
| "present ((k, None) # fs) = present fs"
| "present ((k, Some v) # fs) = (k, v) # present fs"

definition mk_obj :: "(string \<times> json option) list \<Rightarrow> json" where
  "mk_obj fs = JObj (sort_key fst (present fs))"

definition lookup_field :: "string \<Rightarrow> json \<Rightarrow> json option" where
  "lookup_field k v = (case v of JObj fs \<Rightarrow> map_of fs k | _ \<Rightarrow> None)"

text \<open>
  The invariant of a \<open>serde_json::Value\<close>: the keys of every object are in order and occur once.
\<close>

fun wf_json :: "json \<Rightarrow> bool" where
  "wf_json (JArr vs) = list_all wf_json vs"
| "wf_json (JObj fs) =
     (sorted (map fst fs) \<and> distinct (map fst fs) \<and> list_all (\<lambda>f. wf_json (snd f)) fs)"
| "wf_json _ = True"

definition wf_field :: "json option \<Rightarrow> bool" where
  "wf_field v = (case v of None \<Rightarrow> True | Some w \<Rightarrow> wf_json w)"

section \<open>Objects determine their fields\<close>

lemma set_fst_present: "(k, v) \<in> set (present fs) \<Longrightarrow> k \<in> fst ` set fs"
  by (induction fs rule: present.induct) auto

lemma distinct_present: "distinct (map fst fs) \<Longrightarrow> distinct (map fst (present fs))"
  by (induction fs rule: present.induct) (auto dest: set_fst_present)

lemma map_of_present:
  "distinct (map fst fs) \<Longrightarrow> map_of (present fs) k = Option.bind (map_of fs k) (\<lambda>x. x)"
proof (induction fs rule: present.induct)
  case (2 k' fs)
  then have "map_of fs k' = None" by (simp add: map_of_eq_None_iff)
  with 2 show ?case by auto
qed auto

lemma map_of_sort_key:
  assumes "distinct (map fst fs)"
  shows "map_of (sort_key fst fs) = map_of fs"
proof (rule map_of_inject_set [THEN iffD2])
  have "mset (map fst (sort_key fst fs)) = mset (map fst fs)" by (simp add: mset_map)
  then show "distinct (map fst (sort_key fst fs))"
    using assms by (metis mset_eq_imp_distinct_iff)
qed (use assms in auto)

lemma lookup_mk_obj:
  assumes "distinct (map fst fs)"
  shows "lookup_field k (mk_obj fs) = Option.bind (map_of fs k) (\<lambda>x. x)"
  using assms
  by (simp add: lookup_field_def mk_obj_def map_of_sort_key distinct_present map_of_present)

theorem mk_obj_inject:
  assumes "distinct (map fst fs)" and "map fst fs = map fst gs"
  shows "mk_obj fs = mk_obj gs \<longleftrightarrow> fs = gs"
proof
  assume eq: "mk_obj fs = mk_obj gs"
  have lk: "Option.bind (map_of fs k) (\<lambda>x. x) = Option.bind (map_of gs k) (\<lambda>x. x)" for k
    using arg_cong [OF eq, of "lookup_field k"] assms by (simp add: lookup_mk_obj)
  show "fs = gs"
  proof (rule nth_equalityI)
    show len: "length fs = length gs" using assms(2) by (metis length_map)
    fix i assume i: "i < length fs"
    have f: "map_of fs (fst (fs ! i)) = Some (snd (fs ! i))"
      using assms(1) i by (intro map_of_is_SomeI) auto
    have key: "fst (gs ! i) = fst (fs ! i)"
      using assms(2) i len by (metis nth_map)
    have "map_of gs (fst (gs ! i)) = Some (snd (gs ! i))"
      using assms i len by (intro map_of_is_SomeI) auto
    with f key lk [of "fst (fs ! i)"] have "snd (fs ! i) = snd (gs ! i)" by simp
    with key show "fs ! i = gs ! i" by (simp add: prod_eq_iff)
  qed
qed simp

section \<open>The encoders build well-formed values\<close>

lemma wf_encoders [simp]:
  "wf_json (j_u64 a)" "wf_json (j_u32 b)" "wf_json (j_i64 c)" "wf_json (j_strs d)"
  by (simp_all add: j_u64_def j_u32_def j_i64_def j_strs_def list_all_iff)

lemma wf_field_simps [simp]:
  "wf_field (always v) \<longleftrightarrow> wf_json v"
  "(\<And>y. wf_json (f y)) \<Longrightarrow> wf_field (unless_none f x)"
  "(\<And>ys. wf_json (g ys)) \<Longrightarrow> wf_field (unless_empty g xs)"
  by (simp_all add: wf_field_def always_def unless_none_def unless_empty_def split: option.split)

lemma wf_present:
  "list_all (\<lambda>f. wf_field (snd f)) fs \<Longrightarrow> list_all (\<lambda>f. wf_json (snd f)) (present fs)"
  by (induction fs rule: present.induct) (auto simp: wf_field_def)

lemma wf_mk_obj:
  assumes "distinct (map fst fs)" and "list_all (\<lambda>f. wf_field (snd f)) fs"
  shows "wf_json (mk_obj fs)"
proof -
  have "mset (map fst (sort_key fst (present fs))) = mset (map fst (present fs))"
    by (simp add: mset_map)
  then have "distinct (map fst (sort_key fst (present fs)))"
    using distinct_present [OF assms(1)] by (metis mset_eq_imp_distinct_iff)
  with wf_present [OF assms(2)] show ?thesis
    by (simp add: mk_obj_def list_all_iff)
qed

section \<open>The encoders are injective\<close>

lemma j_u64_inject [simp]: "j_u64 a = j_u64 b \<longleftrightarrow> a = b"
  by (simp add: j_u64_def word_uint_eq_iff)

lemma j_u32_inject [simp]: "j_u32 a = j_u32 b \<longleftrightarrow> a = b"
  by (simp add: j_u32_def word_uint_eq_iff)

lemma j_i64_inject [simp]: "j_i64 a = j_i64 b \<longleftrightarrow> a = b"
  by (simp add: j_i64_def)

lemma j_strs_inject [simp]: "j_strs a = j_strs b \<longleftrightarrow> a = b"
  by (simp add: j_strs_def inj_map_eq_map inj_on_def)

lemma always_inject [simp]: "always a = always b \<longleftrightarrow> a = b"
  by (simp add: always_def)

lemma unless_none_inject:
  "(\<And>x y. f x = f y \<longleftrightarrow> x = y) \<Longrightarrow> unless_none f a = unless_none f b \<longleftrightarrow> a = b"
  by (cases a; cases b) (auto simp: unless_none_def)

lemma unless_empty_inject:
  "(\<And>x y. f x = f y \<longleftrightarrow> x = y) \<Longrightarrow> unless_empty f a = unless_empty f b \<longleftrightarrow> a = b"
  by (auto simp: unless_empty_def)

lemma unless_none_simps [simp]:
  "unless_none JStr a = unless_none JStr b \<longleftrightarrow> a = b"
  "unless_none j_i64 c = unless_none j_i64 d \<longleftrightarrow> c = d"
  "unless_none j_u64 e = unless_none j_u64 f \<longleftrightarrow> e = f"
  "unless_none j_u32 g = unless_none j_u32 h \<longleftrightarrow> g = h"
  by (auto intro!: unless_none_inject)

lemma unless_empty_simps [simp]:
  "unless_empty JStr a = unless_empty JStr b \<longleftrightarrow> a = b"
  "unless_empty j_strs c = unless_empty j_strs d \<longleftrightarrow> c = d"
  by (auto intro!: unless_empty_inject)

lemma map_json_inject:
  "(\<And>x y. f x = f y \<longleftrightarrow> x = y) \<Longrightarrow> (map f xs = map f ys) \<longleftrightarrow> xs = ys"
  by (simp add: inj_map_eq_map inj_on_def)

end
