(* ===== verification/Crypto.thy ===== *)
theory Crypto
  imports Json
begin

text \<open>
  \<open>froglet-protocol/src/crypto.rs\<close> and \<open>canonical_json.rs\<close>. The primitives come from other
  crates (\<open>serde_json_canonicalizer\<close>, \<open>sha2\<close>, \<open>hex\<close>, \<open>k256\<close>), so they are the fields of a
  record that every definition takes as an argument; what the crate itself does around them
  (length checks, the order of the checks, the hex encodings) is defined here. The documented
  behaviour of the primitives is stated as predicates on the record, which the theorems that
  need it take as hypotheses.
\<close>

record crypto_env =
  jcs_to_vec :: "json \<Rightarrow> bytes result"
  sha256 :: "bytes \<Rightarrow> bytes"
  hex_encode :: "bytes \<Rightarrow> string"
  hex_decode :: "string \<Rightarrow> bytes option"
  hmac_sha256 :: "bytes \<Rightarrow> bytes \<Rightarrow> bytes"
  secret_key_from_slice :: "bytes \<Rightarrow> bytes result"
  verifying_key :: "bytes \<Rightarrow> bytes"
  to_sec1_bytes :: "bytes \<Rightarrow> bytes"
  schnorr_sign :: "bytes \<Rightarrow> bytes \<Rightarrow> bytes"
  verifying_key_ok :: "bytes \<Rightarrow> bool"
  schnorr_signature_ok :: "bytes \<Rightarrow> bool"
  schnorr_verify :: "bytes \<Rightarrow> bytes \<Rightarrow> bytes \<Rightarrow> bool"

section \<open>Definitions\<close>

definition canonical_json_to_vec :: "crypto_env \<Rightarrow> json \<Rightarrow> bytes result" where
  "canonical_json_to_vec cs v = jcs_to_vec cs v"

definition verify_message :: "crypto_env \<Rightarrow> string \<Rightarrow> string \<Rightarrow> bytes \<Rightarrow> bool" where
  "verify_message cs pubkey_hex sig_hex message =
     (case hex_decode cs pubkey_hex of
        None \<Rightarrow> False
      | Some pubkey_bytes \<Rightarrow>
          if length pubkey_bytes \<noteq> 32 then False
          else
            (case hex_decode cs sig_hex of
               None \<Rightarrow> False
             | Some sig_bytes \<Rightarrow>
                 if length sig_bytes \<noteq> 64 then False
                 else if \<not> verifying_key_ok cs pubkey_bytes then False
                 else if \<not> schnorr_signature_ok cs sig_bytes then False
                 else schnorr_verify cs pubkey_bytes message sig_bytes))"

text \<open>A signing key is represented by its 32 seed bytes.\<close>

definition signing_key_from_seed_bytes :: "crypto_env \<Rightarrow> bytes \<Rightarrow> bytes result" where
  "signing_key_from_seed_bytes cs seed =
     map_err (\<lambda>e. ''invalid secp256k1 seed: '' @ e) (secret_key_from_slice cs seed)"

definition signing_key_seed_bytes :: "bytes \<Rightarrow> bytes" where
  "signing_key_seed_bytes signing_key = signing_key"

definition public_key_hex :: "crypto_env \<Rightarrow> bytes \<Rightarrow> string" where
  "public_key_hex cs signing_key = hex_encode cs (verifying_key cs signing_key)"

definition compressed_public_key_hex :: "crypto_env \<Rightarrow> bytes \<Rightarrow> string" where
  "compressed_public_key_hex cs signing_key =
     hex_encode cs (to_sec1_bytes cs (verifying_key cs signing_key))"

definition sign_message_hex :: "crypto_env \<Rightarrow> bytes \<Rightarrow> bytes \<Rightarrow> string" where
  "sign_message_hex cs signing_key message = hex_encode cs (schnorr_sign cs signing_key message)"

definition sha256_hex :: "crypto_env \<Rightarrow> bytes \<Rightarrow> string" where
  "sha256_hex cs input = hex_encode cs (sha256 cs input)"

definition hmac_sha256_hex :: "crypto_env \<Rightarrow> bytes \<Rightarrow> bytes \<Rightarrow> string" where
  "hmac_sha256_hex cs key message = hex_encode cs (hmac_sha256 cs key message)"

section \<open>Documented behaviour of the primitives\<close>

definition secret_key_ok :: "crypto_env \<Rightarrow> bytes \<Rightarrow> bool" where
  "secret_key_ok cs seed = (secret_key_from_slice cs seed = Inr seed)"

text \<open>\<open>hex\<close>: lower-case output, two digits per byte, decoding inverts encoding and accepts hex digits only.\<close>

definition hex_laws :: "crypto_env \<Rightarrow> bool" where
  "hex_laws cs \<longleftrightarrow>
     (\<forall>b. hex_decode cs (hex_encode cs b) = Some b) \<and>
     (\<forall>b. length (hex_encode cs b) = 2 * length b) \<and>
     (\<forall>b. list_all is_lower_hex_char (hex_encode cs b)) \<and>
     (\<forall>s b. hex_decode cs s = Some b \<longrightarrow>
        length s = 2 * length b \<and> list_all is_ascii_hexdigit s)"

text \<open>\<open>sha2\<close>: the digest has 32 bytes.\<close>

definition sha256_laws :: "crypto_env \<Rightarrow> bool" where
  "sha256_laws cs \<longleftrightarrow> (\<forall>m. length (sha256 cs m) = 32)"

text \<open>\<open>k256\<close>: keys and signatures have their BIP340 sizes and a signature verifies.\<close>

definition schnorr_laws :: "crypto_env \<Rightarrow> bool" where
  "schnorr_laws cs \<longleftrightarrow>
     (\<forall>sk. secret_key_ok cs sk \<longrightarrow>
        length (verifying_key cs sk) = 32 \<and> verifying_key_ok cs (verifying_key cs sk) \<and>
        (\<forall>m. length (schnorr_sign cs sk m) = 64 \<and>
             schnorr_signature_ok cs (schnorr_sign cs sk m) \<and>
             schnorr_verify cs (verifying_key cs sk) m (schnorr_sign cs sk m)))"

text \<open>
  RFC 8785 writes a number the way ECMAScript prints a double, which is exact up to \<open>2 ^ 53\<close>;
  on values whose numbers are integers in that range, different values have different canonical bytes.
\<close>

fun exact_numbers :: "json \<Rightarrow> bool" where
  "exact_numbers (JNum i) = (\<bar>i\<bar> \<le> 2 ^ 53)"
| "exact_numbers (JFloat _) = False"
| "exact_numbers (JArr vs) = list_all exact_numbers vs"
| "exact_numbers (JObj fs) = list_all (\<lambda>f. exact_numbers (snd f)) fs"
| "exact_numbers _ = True"

definition jcs_laws :: "crypto_env \<Rightarrow> bool" where
  "jcs_laws cs \<longleftrightarrow>
     (\<forall>v. wf_json v \<longrightarrow> exact_numbers v \<longrightarrow> is_ok (jcs_to_vec cs v)) \<and>
     (\<forall>v w b. wf_json v \<longrightarrow> wf_json w \<longrightarrow> exact_numbers v \<longrightarrow> exact_numbers w \<longrightarrow>
        jcs_to_vec cs v = Inr b \<longrightarrow> jcs_to_vec cs w = Inr b \<longrightarrow> v = w)"

definition crypto_laws :: "crypto_env \<Rightarrow> bool" where
  "crypto_laws cs \<longleftrightarrow> hex_laws cs \<and> sha256_laws cs \<and> schnorr_laws cs \<and> jcs_laws cs"

section \<open>Lemmas\<close>

lemma crypto_lawsD:
  assumes "crypto_laws cs"
  shows "hex_laws cs" "sha256_laws cs" "schnorr_laws cs" "jcs_laws cs"
  using assms by (simp_all add: crypto_laws_def)

lemma jcs_total:
  assumes "jcs_laws cs" and "wf_json v" and "exact_numbers v"
  shows "\<exists>b. jcs_to_vec cs v = Inr b"
proof -
  from assms have "is_ok (jcs_to_vec cs v)" by (simp add: jcs_laws_def)
  then show ?thesis by (cases "jcs_to_vec cs v") auto
qed

lemma hex_encode_inject: "hex_laws cs \<Longrightarrow> hex_encode cs a = hex_encode cs b \<longleftrightarrow> a = b"
  by (metis hex_laws_def option.inject)

lemma sha256_hex_lower:
  assumes "hex_laws cs" and "sha256_laws cs"
  shows "length (sha256_hex cs m) = 64" and "list_all is_lower_hex_char (sha256_hex cs m)"
  using assms by (simp_all add: sha256_hex_def hex_laws_def sha256_laws_def)

lemma sha256_hex_nonempty:
  assumes "hex_laws cs" and "sha256_laws cs"
  shows "sha256_hex cs m \<noteq> []"
  using sha256_hex_lower(1) [OF assms, of m] by auto

lemma trim_sha256_hex:
  assumes "hex_laws cs" and "sha256_laws cs"
  shows "trim (sha256_hex cs m) = sha256_hex cs m"
  using sha256_hex_lower [OF assms] sha256_hex_nonempty [OF assms] by (intro trim_lower_hex)

lemma sha256_hex_collision:
  "hex_laws cs \<Longrightarrow> sha256_hex cs a = sha256_hex cs b \<longleftrightarrow> sha256 cs a = sha256 cs b"
  by (simp add: sha256_hex_def hex_encode_inject)

text \<open>Signing and verifying with the matching key succeeds: the crate's own round trip.\<close>

lemma verify_sign_message:
  assumes "hex_laws cs" and "schnorr_laws cs" and "secret_key_ok cs sk"
  shows "verify_message cs (public_key_hex cs sk) (sign_message_hex cs sk m) m"
  using assms
  by (simp add: verify_message_def public_key_hex_def sign_message_hex_def hex_laws_def
      schnorr_laws_def)

lemma verify_message_lengths:
  assumes "hex_laws cs" and "verify_message cs pk sig m"
  shows "length pk = 64" and "length sig = 128"
  using assms
  by (auto simp: verify_message_def hex_laws_def split: option.splits if_splits)

end
