(* ===== verification/Artifacts.thy ===== *)
theory Artifacts
  imports Crypto
begin

text \<open>
  The data of \<open>froglet-protocol/src/protocol/kernel.rs\<close>: the signed envelope
  \<open>SignedArtifact<T>\<close>, the constants, and the payload structs of the six artifact types, field
  by field. Field names carry a short prefix of their struct.
\<close>

section \<open>Constants\<close>

abbreviation FROGLET_SCHEMA_V1 :: string where
  "FROGLET_SCHEMA_V1 \<equiv> ''froglet/v1''"

abbreviation ARTIFACT_TYPE_DESCRIPTOR :: string where
  "ARTIFACT_TYPE_DESCRIPTOR \<equiv> ''descriptor''"

abbreviation ARTIFACT_TYPE_OFFER :: string where
  "ARTIFACT_TYPE_OFFER \<equiv> ''offer''"

abbreviation ARTIFACT_TYPE_QUOTE :: string where
  "ARTIFACT_TYPE_QUOTE \<equiv> ''quote''"

abbreviation ARTIFACT_TYPE_DEAL :: string where
  "ARTIFACT_TYPE_DEAL \<equiv> ''deal''"

abbreviation ARTIFACT_TYPE_RECEIPT :: string where
  "ARTIFACT_TYPE_RECEIPT \<equiv> ''receipt''"

abbreviation TRANSPORT_TYPE_INVOICE_BUNDLE :: string where
  "TRANSPORT_TYPE_INVOICE_BUNDLE \<equiv> ''invoice_bundle''"

abbreviation SETTLEMENT_METHOD_NONE :: string where
  "SETTLEMENT_METHOD_NONE \<equiv> ''none''"

abbreviation SETTLEMENT_METHOD_LIGHTNING_ESCROW :: string where
  "SETTLEMENT_METHOD_LIGHTNING_ESCROW \<equiv> ''lightning.base_fee_plus_success_fee.v1''"

abbreviation SETTLEMENT_METHOD_STRIPE_MPP :: string where
  "SETTLEMENT_METHOD_STRIPE_MPP \<equiv> ''stripe_mpp.v1''"

abbreviation SETTLEMENT_METHOD_LIGHTNING_PREPAID :: string where
  "SETTLEMENT_METHOD_LIGHTNING_PREPAID \<equiv> ''lightning.prepaid.v1''"

abbreviation SETTLEMENT_METHOD_X402_EIP3009 :: string where
  "SETTLEMENT_METHOD_X402_EIP3009 \<equiv> ''x402.eip3009.v1''"

abbreviation LINKED_IDENTITY_KIND_NOSTR :: string where
  "LINKED_IDENTITY_KIND_NOSTR \<equiv> ''nostr''"

abbreviation LINKED_IDENTITY_SIGNATURE_ALGORITHM_BIP340 :: string where
  "LINKED_IDENTITY_SIGNATURE_ALGORITHM_BIP340 \<equiv> ''secp256k1_schnorr_bip340''"

section \<open>Data\<close>

record 'p signed_artifact =
  art_type :: string
  art_schema_version :: string
  art_signer :: string
  art_created_at :: i64
  art_payload_hash :: string
  art_hash :: string
  art_payload :: 'p
  art_signature :: string

record linked_identity =
  li_identity_kind :: string
  li_identity :: string
  li_scope :: "string list"
  li_created_at :: i64
  li_expires_at :: "i64 option"
  li_signature_algorithm :: string
  li_linked_signature :: string

record transport_endpoint =
  te_transport :: string
  te_uri :: string
  te_created_at :: "i64 option"
  te_expires_at :: "i64 option"
  te_priority :: u32
  te_features :: "string list"

record descriptor_capabilities =
  dc_service_kinds :: "string list"
  dc_execution_runtimes :: "string list"
  dc_max_concurrent_deals :: "u32 option"

record descriptor_payload =
  desc_provider_id :: string
  desc_seq :: u64
  desc_protocol_version :: string
  desc_expires_at :: "i64 option"
  desc_linked_identities :: "linked_identity list"
  desc_transport_endpoints :: "transport_endpoint list"
  desc_capabilities :: descriptor_capabilities
  desc_accepted_payment_methods :: "string list"

datatype execution_runtime =
    RtAny | RtWasm | RtPython | RtContainer | RtBuiltin | RtTeeService | RtTeeWasm | RtTeePython

record offer_execution_profile =
  prof_runtime :: execution_runtime
  prof_package_kind :: string
  prof_contract_version :: string
  prof_access_handles :: "string list"
  prof_abi_version :: string
  prof_capabilities :: "string list"
  prof_max_input_bytes :: usize
  prof_max_runtime_ms :: u64
  prof_max_memory_bytes :: usize
  prof_max_output_bytes :: usize
  prof_fuel_limit :: u64

record offer_price_schedule =
  price_base_fee_msat :: u64
  price_success_fee_msat :: u64

record offer_payload =
  offer_provider_id :: string
  offer_id :: string
  offer_descriptor_hash :: string
  offer_expires_at :: "i64 option"
  offer_kind :: string
  offer_settlement_method :: string
  offer_quote_ttl_secs :: u64
  offer_execution_profile :: offer_execution_profile
  offer_price_schedule :: offer_price_schedule
  offer_terms_hash :: "string option"
  offer_confidential_profile_hash :: "string option"

record quote_settlement_terms =
  terms_method :: string
  terms_destination_identity :: string
  terms_base_fee_msat :: u64
  terms_success_fee_msat :: u64
  terms_max_base_invoice_expiry_secs :: u64
  terms_max_success_hold_expiry_secs :: u64
  terms_min_final_cltv_expiry :: u32

record execution_limits =
  lim_max_input_bytes :: usize
  lim_max_runtime_ms :: u64
  lim_max_memory_bytes :: usize
  lim_max_output_bytes :: usize
  lim_fuel_limit :: u64

record quote_payload =
  quote_provider_id :: string
  quote_requester_id :: string
  quote_descriptor_hash :: string
  quote_offer_hash :: string
  quote_expires_at :: i64
  quote_workload_kind :: string
  quote_workload_hash :: string
  quote_confidential_session_hash :: "string option"
  quote_capabilities_granted :: "string list"
  quote_extension_refs :: "string list"
  quote_use :: "string option"
  quote_settlement_terms :: quote_settlement_terms
  quote_execution_limits :: execution_limits

datatype invoice_bundle_leg_state =
    IblOpen | IblAccepted | IblSettled | IblCanceled | IblExpired

record invoice_bundle_leg =
  ibl_amount_msat :: u64
  ibl_invoice_bolt11 :: string
  ibl_invoice_hash :: string
  ibl_payment_hash :: string
  ibl_state :: invoice_bundle_leg_state

record invoice_bundle_payload =
  ib_provider_id :: string
  ib_requester_id :: string
  ib_quote_hash :: string
  ib_deal_hash :: string
  ib_expires_at :: i64
  ib_destination_identity :: string
  ib_base_fee :: invoice_bundle_leg
  ib_success_fee :: invoice_bundle_leg
  ib_min_final_cltv_expiry :: u32

record deal_payload =
  deal_requester_id :: string
  deal_provider_id :: string
  deal_quote_hash :: string
  deal_workload_hash :: string
  deal_confidential_session_hash :: "string option"
  deal_extension_refs :: "string list"
  deal_authority_ref :: "string option"
  deal_supersedes_deal_hash :: "string option"
  deal_client_nonce :: "string option"
  deal_success_payment_hash :: string
  deal_admission_deadline :: i64
  deal_completion_deadline :: i64
  deal_acceptance_deadline :: i64

datatype receipt_leg_state = RlOpen | RlAccepted | RlSettled | RlCanceled | RlExpired

record receipt_settlement_leg =
  rsl_amount_msat :: u64
  rsl_invoice_hash :: string
  rsl_payment_hash :: string
  rsl_state :: receipt_leg_state

record receipt_executor =
  exec_runtime :: string
  exec_runtime_version :: string
  exec_execution_mode :: "string option"
  exec_attestation_platform :: "string option"
  exec_measurement :: "string option"
  exec_abi_version :: "string option"
  exec_module_hash :: "string option"
  exec_capabilities_granted :: "string list"

record receipt_settlement_refs =
  refs_method :: string
  refs_bundle_hash :: "string option"
  refs_destination_identity :: string
  refs_base_fee :: receipt_settlement_leg
  refs_success_fee :: receipt_settlement_leg

record receipt_payload =
  rcpt_provider_id :: string
  rcpt_requester_id :: string
  rcpt_deal_hash :: string
  rcpt_quote_hash :: string
  rcpt_extension_refs :: "string list"
  rcpt_acceptance_ref :: "string option"
  rcpt_started_at :: "i64 option"
  rcpt_finished_at :: i64
  rcpt_deal_state :: string
  rcpt_execution_state :: string
  rcpt_settlement_state :: string
  rcpt_result_hash :: "string option"
  rcpt_confidential_session_hash :: "string option"
  rcpt_result_envelope_hash :: "string option"
  rcpt_result_format :: "string option"
  rcpt_executor :: receipt_executor
  rcpt_limits_applied :: execution_limits
  rcpt_settlement_refs :: receipt_settlement_refs
  rcpt_failure_code :: "string option"
  rcpt_failure_message :: "string option"
  rcpt_result_ref :: "string option"

type_synonym descriptor_artifact = "descriptor_payload signed_artifact"
type_synonym offer_artifact = "offer_payload signed_artifact"
type_synonym quote_artifact = "quote_payload signed_artifact"
type_synonym deal_artifact = "deal_payload signed_artifact"
type_synonym invoice_bundle_artifact = "invoice_bundle_payload signed_artifact"
type_synonym receipt_artifact = "receipt_payload signed_artifact"

end
