(* ===== verification/Wire.thy ===== *)
theory Wire
  imports Artifacts
begin

text \<open>
  The wire form of the payload structs: the JSON object serde's derived \<open>Serialize\<close> writes for
  each, with the struct's own \<open>skip_serializing_if\<close> and \<open>rename_all\<close> attributes. A payload is
  signed through this form, so the form has to determine the payload: \<open>*_value_inject\<close> shows it
  for every struct (in particular leaving out an empty or absent field never makes two different
  payloads look the same).
\<close>

section \<open>Definitions\<close>

definition linked_identity_value :: "linked_identity \<Rightarrow> json" where
  "linked_identity_value x = mk_obj
     [(''identity_kind'', always (JStr (li_identity_kind x))),
      (''identity'', always (JStr (li_identity x))),
      (''scope'', always (j_strs (li_scope x))),
      (''created_at'', always (j_i64 (li_created_at x))),
      (''expires_at'', unless_none j_i64 (li_expires_at x)),
      (''signature_algorithm'', always (JStr (li_signature_algorithm x))),
      (''linked_signature'', always (JStr (li_linked_signature x)))]"

definition transport_endpoint_value :: "transport_endpoint \<Rightarrow> json" where
  "transport_endpoint_value x = mk_obj
     [(''transport'', always (JStr (te_transport x))),
      (''uri'', always (JStr (te_uri x))),
      (''created_at'', unless_none j_i64 (te_created_at x)),
      (''expires_at'', unless_none j_i64 (te_expires_at x)),
      (''priority'', always (j_u32 (te_priority x))),
      (''features'', unless_empty j_strs (te_features x))]"

definition descriptor_capabilities_value :: "descriptor_capabilities \<Rightarrow> json" where
  "descriptor_capabilities_value x = mk_obj
     [(''service_kinds'', always (j_strs (dc_service_kinds x))),
      (''execution_runtimes'', always (j_strs (dc_execution_runtimes x))),
      (''max_concurrent_deals'', unless_none j_u32 (dc_max_concurrent_deals x))]"

definition linked_identities_value :: "linked_identity list \<Rightarrow> json" where
  "linked_identities_value xs = JArr (map linked_identity_value xs)"

definition transport_endpoints_value :: "transport_endpoint list \<Rightarrow> json" where
  "transport_endpoints_value xs = JArr (map transport_endpoint_value xs)"

definition descriptor_value :: "descriptor_payload \<Rightarrow> json" where
  "descriptor_value x = mk_obj
     [(''provider_id'', always (JStr (desc_provider_id x))),
      (''descriptor_seq'', always (j_u64 (desc_seq x))),
      (''protocol_version'', always (JStr (desc_protocol_version x))),
      (''expires_at'', unless_none j_i64 (desc_expires_at x)),
      (''linked_identities'', unless_empty linked_identities_value (desc_linked_identities x)),
      (''transport_endpoints'',
         unless_empty transport_endpoints_value (desc_transport_endpoints x)),
      (''capabilities'', always (descriptor_capabilities_value (desc_capabilities x))),
      (''accepted_payment_methods'', unless_empty j_strs (desc_accepted_payment_methods x))]"

fun execution_runtime_value :: "execution_runtime \<Rightarrow> json" where
  "execution_runtime_value RtAny = JStr ''any''"
| "execution_runtime_value RtWasm = JStr ''wasm''"
| "execution_runtime_value RtPython = JStr ''python''"
| "execution_runtime_value RtContainer = JStr ''container''"
| "execution_runtime_value RtBuiltin = JStr ''builtin''"
| "execution_runtime_value RtTeeService = JStr ''tee_service''"
| "execution_runtime_value RtTeeWasm = JStr ''tee_wasm''"
| "execution_runtime_value RtTeePython = JStr ''tee_python''"

definition offer_execution_profile_value :: "offer_execution_profile \<Rightarrow> json" where
  "offer_execution_profile_value x = mk_obj
     [(''runtime'', always (execution_runtime_value (prof_runtime x))),
      (''package_kind'', unless_empty JStr (prof_package_kind x)),
      (''contract_version'', unless_empty JStr (prof_contract_version x)),
      (''access_handles'', unless_empty j_strs (prof_access_handles x)),
      (''abi_version'', unless_empty JStr (prof_abi_version x)),
      (''capabilities'', unless_empty j_strs (prof_capabilities x)),
      (''max_input_bytes'', always (j_u64 (prof_max_input_bytes x))),
      (''max_runtime_ms'', always (j_u64 (prof_max_runtime_ms x))),
      (''max_memory_bytes'', always (j_u64 (prof_max_memory_bytes x))),
      (''max_output_bytes'', always (j_u64 (prof_max_output_bytes x))),
      (''fuel_limit'', always (j_u64 (prof_fuel_limit x)))]"

definition offer_price_schedule_value :: "offer_price_schedule \<Rightarrow> json" where
  "offer_price_schedule_value x = mk_obj
     [(''base_fee_msat'', always (j_u64 (price_base_fee_msat x))),
      (''success_fee_msat'', always (j_u64 (price_success_fee_msat x)))]"

definition offer_value :: "offer_payload \<Rightarrow> json" where
  "offer_value x = mk_obj
     [(''provider_id'', always (JStr (offer_provider_id x))),
      (''offer_id'', always (JStr (offer_id x))),
      (''descriptor_hash'', always (JStr (offer_descriptor_hash x))),
      (''expires_at'', unless_none j_i64 (offer_expires_at x)),
      (''offer_kind'', always (JStr (offer_kind x))),
      (''settlement_method'', always (JStr (offer_settlement_method x))),
      (''quote_ttl_secs'', always (j_u64 (offer_quote_ttl_secs x))),
      (''execution_profile'', always (offer_execution_profile_value (offer_execution_profile x))),
      (''price_schedule'', always (offer_price_schedule_value (offer_price_schedule x))),
      (''terms_hash'', unless_none JStr (offer_terms_hash x)),
      (''confidential_profile_hash'', unless_none JStr (offer_confidential_profile_hash x))]"

definition quote_settlement_terms_value :: "quote_settlement_terms \<Rightarrow> json" where
  "quote_settlement_terms_value x = mk_obj
     [(''method'', always (JStr (terms_method x))),
      (''destination_identity'', always (JStr (terms_destination_identity x))),
      (''base_fee_msat'', always (j_u64 (terms_base_fee_msat x))),
      (''success_fee_msat'', always (j_u64 (terms_success_fee_msat x))),
      (''max_base_invoice_expiry_secs'', always (j_u64 (terms_max_base_invoice_expiry_secs x))),
      (''max_success_hold_expiry_secs'', always (j_u64 (terms_max_success_hold_expiry_secs x))),
      (''min_final_cltv_expiry'', always (j_u32 (terms_min_final_cltv_expiry x)))]"

definition execution_limits_value :: "execution_limits \<Rightarrow> json" where
  "execution_limits_value x = mk_obj
     [(''max_input_bytes'', always (j_u64 (lim_max_input_bytes x))),
      (''max_runtime_ms'', always (j_u64 (lim_max_runtime_ms x))),
      (''max_memory_bytes'', always (j_u64 (lim_max_memory_bytes x))),
      (''max_output_bytes'', always (j_u64 (lim_max_output_bytes x))),
      (''fuel_limit'', always (j_u64 (lim_fuel_limit x)))]"

definition quote_value :: "quote_payload \<Rightarrow> json" where
  "quote_value x = mk_obj
     [(''provider_id'', always (JStr (quote_provider_id x))),
      (''requester_id'', always (JStr (quote_requester_id x))),
      (''descriptor_hash'', always (JStr (quote_descriptor_hash x))),
      (''offer_hash'', always (JStr (quote_offer_hash x))),
      (''expires_at'', always (j_i64 (quote_expires_at x))),
      (''workload_kind'', always (JStr (quote_workload_kind x))),
      (''workload_hash'', always (JStr (quote_workload_hash x))),
      (''confidential_session_hash'', unless_none JStr (quote_confidential_session_hash x)),
      (''capabilities_granted'', unless_empty j_strs (quote_capabilities_granted x)),
      (''extension_refs'', unless_empty j_strs (quote_extension_refs x)),
      (''quote_use'', unless_none JStr (quote_use x)),
      (''settlement_terms'', always (quote_settlement_terms_value (quote_settlement_terms x))),
      (''execution_limits'', always (execution_limits_value (quote_execution_limits x)))]"

fun invoice_bundle_leg_state_value :: "invoice_bundle_leg_state \<Rightarrow> json" where
  "invoice_bundle_leg_state_value IblOpen = JStr ''open''"
| "invoice_bundle_leg_state_value IblAccepted = JStr ''accepted''"
| "invoice_bundle_leg_state_value IblSettled = JStr ''settled''"
| "invoice_bundle_leg_state_value IblCanceled = JStr ''canceled''"
| "invoice_bundle_leg_state_value IblExpired = JStr ''expired''"

definition invoice_bundle_leg_value :: "invoice_bundle_leg \<Rightarrow> json" where
  "invoice_bundle_leg_value x = mk_obj
     [(''amount_msat'', always (j_u64 (ibl_amount_msat x))),
      (''invoice_bolt11'', always (JStr (ibl_invoice_bolt11 x))),
      (''invoice_hash'', always (JStr (ibl_invoice_hash x))),
      (''payment_hash'', always (JStr (ibl_payment_hash x))),
      (''state'', always (invoice_bundle_leg_state_value (ibl_state x)))]"

definition invoice_bundle_value :: "invoice_bundle_payload \<Rightarrow> json" where
  "invoice_bundle_value x = mk_obj
     [(''provider_id'', always (JStr (ib_provider_id x))),
      (''requester_id'', always (JStr (ib_requester_id x))),
      (''quote_hash'', always (JStr (ib_quote_hash x))),
      (''deal_hash'', always (JStr (ib_deal_hash x))),
      (''expires_at'', always (j_i64 (ib_expires_at x))),
      (''destination_identity'', always (JStr (ib_destination_identity x))),
      (''base_fee'', always (invoice_bundle_leg_value (ib_base_fee x))),
      (''success_fee'', always (invoice_bundle_leg_value (ib_success_fee x))),
      (''min_final_cltv_expiry'', always (j_u32 (ib_min_final_cltv_expiry x)))]"

definition deal_value :: "deal_payload \<Rightarrow> json" where
  "deal_value x = mk_obj
     [(''requester_id'', always (JStr (deal_requester_id x))),
      (''provider_id'', always (JStr (deal_provider_id x))),
      (''quote_hash'', always (JStr (deal_quote_hash x))),
      (''workload_hash'', always (JStr (deal_workload_hash x))),
      (''confidential_session_hash'', unless_none JStr (deal_confidential_session_hash x)),
      (''extension_refs'', unless_empty j_strs (deal_extension_refs x)),
      (''authority_ref'', unless_none JStr (deal_authority_ref x)),
      (''supersedes_deal_hash'', unless_none JStr (deal_supersedes_deal_hash x)),
      (''client_nonce'', unless_none JStr (deal_client_nonce x)),
      (''success_payment_hash'', always (JStr (deal_success_payment_hash x))),
      (''admission_deadline'', always (j_i64 (deal_admission_deadline x))),
      (''completion_deadline'', always (j_i64 (deal_completion_deadline x))),
      (''acceptance_deadline'', always (j_i64 (deal_acceptance_deadline x)))]"

fun receipt_leg_state_value :: "receipt_leg_state \<Rightarrow> json" where
  "receipt_leg_state_value RlOpen = JStr ''open''"
| "receipt_leg_state_value RlAccepted = JStr ''accepted''"
| "receipt_leg_state_value RlSettled = JStr ''settled''"
| "receipt_leg_state_value RlCanceled = JStr ''canceled''"
| "receipt_leg_state_value RlExpired = JStr ''expired''"

definition receipt_settlement_leg_value :: "receipt_settlement_leg \<Rightarrow> json" where
  "receipt_settlement_leg_value x = mk_obj
     [(''amount_msat'', always (j_u64 (rsl_amount_msat x))),
      (''invoice_hash'', always (JStr (rsl_invoice_hash x))),
      (''payment_hash'', always (JStr (rsl_payment_hash x))),
      (''state'', always (receipt_leg_state_value (rsl_state x)))]"

definition receipt_executor_value :: "receipt_executor \<Rightarrow> json" where
  "receipt_executor_value x = mk_obj
     [(''runtime'', always (JStr (exec_runtime x))),
      (''runtime_version'', always (JStr (exec_runtime_version x))),
      (''execution_mode'', unless_none JStr (exec_execution_mode x)),
      (''attestation_platform'', unless_none JStr (exec_attestation_platform x)),
      (''measurement'', unless_none JStr (exec_measurement x)),
      (''abi_version'', unless_none JStr (exec_abi_version x)),
      (''module_hash'', unless_none JStr (exec_module_hash x)),
      (''capabilities_granted'', unless_empty j_strs (exec_capabilities_granted x))]"

definition receipt_settlement_refs_value :: "receipt_settlement_refs \<Rightarrow> json" where
  "receipt_settlement_refs_value x = mk_obj
     [(''method'', always (JStr (refs_method x))),
      (''bundle_hash'', unless_none JStr (refs_bundle_hash x)),
      (''destination_identity'', always (JStr (refs_destination_identity x))),
      (''base_fee'', always (receipt_settlement_leg_value (refs_base_fee x))),
      (''success_fee'', always (receipt_settlement_leg_value (refs_success_fee x)))]"

definition receipt_value :: "receipt_payload \<Rightarrow> json" where
  "receipt_value x = mk_obj
     [(''provider_id'', always (JStr (rcpt_provider_id x))),
      (''requester_id'', always (JStr (rcpt_requester_id x))),
      (''deal_hash'', always (JStr (rcpt_deal_hash x))),
      (''quote_hash'', always (JStr (rcpt_quote_hash x))),
      (''extension_refs'', unless_empty j_strs (rcpt_extension_refs x)),
      (''acceptance_ref'', unless_none JStr (rcpt_acceptance_ref x)),
      (''started_at'', unless_none j_i64 (rcpt_started_at x)),
      (''finished_at'', always (j_i64 (rcpt_finished_at x))),
      (''deal_state'', always (JStr (rcpt_deal_state x))),
      (''execution_state'', always (JStr (rcpt_execution_state x))),
      (''settlement_state'', always (JStr (rcpt_settlement_state x))),
      (''result_hash'', unless_none JStr (rcpt_result_hash x)),
      (''confidential_session_hash'', unless_none JStr (rcpt_confidential_session_hash x)),
      (''result_envelope_hash'', unless_none JStr (rcpt_result_envelope_hash x)),
      (''result_format'', unless_none JStr (rcpt_result_format x)),
      (''executor'', always (receipt_executor_value (rcpt_executor x))),
      (''limits_applied'', always (execution_limits_value (rcpt_limits_applied x))),
      (''settlement_refs'', always (receipt_settlement_refs_value (rcpt_settlement_refs x))),
      (''failure_code'', unless_none JStr (rcpt_failure_code x)),
      (''failure_message'', unless_none JStr (rcpt_failure_message x)),
      (''result_ref'', unless_none JStr (rcpt_result_ref x))]"

section \<open>The wire form determines the payload\<close>

lemma linked_identity_value_inject [simp]:
  "linked_identity_value x = linked_identity_value y \<longleftrightarrow> x = y"
  by (cases x; cases y) (simp add: linked_identity_value_def mk_obj_inject)

lemma transport_endpoint_value_inject [simp]:
  "transport_endpoint_value x = transport_endpoint_value y \<longleftrightarrow> x = y"
  by (cases x; cases y) (simp add: transport_endpoint_value_def mk_obj_inject)

lemma descriptor_capabilities_value_inject [simp]:
  "descriptor_capabilities_value x = descriptor_capabilities_value y \<longleftrightarrow> x = y"
  by (cases x; cases y) (simp add: descriptor_capabilities_value_def mk_obj_inject)

lemma unless_empty_linked_identities [simp]:
  "unless_empty linked_identities_value a = unless_empty linked_identities_value b \<longleftrightarrow> a = b"
  by (intro unless_empty_inject) (simp add: linked_identities_value_def map_json_inject)

lemma unless_empty_transport_endpoints [simp]:
  "unless_empty transport_endpoints_value a = unless_empty transport_endpoints_value b \<longleftrightarrow> a = b"
  by (intro unless_empty_inject) (simp add: transport_endpoints_value_def map_json_inject)

lemma descriptor_value_inject [simp]: "descriptor_value x = descriptor_value y \<longleftrightarrow> x = y"
  by (cases x; cases y) (simp add: descriptor_value_def mk_obj_inject)

lemma execution_runtime_value_inject [simp]:
  "execution_runtime_value x = execution_runtime_value y \<longleftrightarrow> x = y"
  by (cases x; cases y) simp_all

lemma offer_execution_profile_value_inject [simp]:
  "offer_execution_profile_value x = offer_execution_profile_value y \<longleftrightarrow> x = y"
  by (cases x; cases y) (simp add: offer_execution_profile_value_def mk_obj_inject)

lemma offer_price_schedule_value_inject [simp]:
  "offer_price_schedule_value x = offer_price_schedule_value y \<longleftrightarrow> x = y"
  by (cases x; cases y) (simp add: offer_price_schedule_value_def mk_obj_inject)

lemma offer_value_inject [simp]: "offer_value x = offer_value y \<longleftrightarrow> x = y"
  by (cases x; cases y) (simp add: offer_value_def mk_obj_inject)

lemma quote_settlement_terms_value_inject [simp]:
  "quote_settlement_terms_value x = quote_settlement_terms_value y \<longleftrightarrow> x = y"
  by (cases x; cases y) (simp add: quote_settlement_terms_value_def mk_obj_inject)

lemma execution_limits_value_inject [simp]:
  "execution_limits_value x = execution_limits_value y \<longleftrightarrow> x = y"
  by (cases x; cases y) (simp add: execution_limits_value_def mk_obj_inject)

lemma quote_value_inject [simp]: "quote_value x = quote_value y \<longleftrightarrow> x = y"
  by (cases x; cases y) (simp add: quote_value_def mk_obj_inject)

lemma invoice_bundle_leg_state_value_inject [simp]:
  "invoice_bundle_leg_state_value x = invoice_bundle_leg_state_value y \<longleftrightarrow> x = y"
  by (cases x; cases y) simp_all

lemma invoice_bundle_leg_value_inject [simp]:
  "invoice_bundle_leg_value x = invoice_bundle_leg_value y \<longleftrightarrow> x = y"
  by (cases x; cases y) (simp add: invoice_bundle_leg_value_def mk_obj_inject)

lemma invoice_bundle_value_inject [simp]:
  "invoice_bundle_value x = invoice_bundle_value y \<longleftrightarrow> x = y"
  by (cases x; cases y) (simp add: invoice_bundle_value_def mk_obj_inject)

lemma deal_value_inject [simp]: "deal_value x = deal_value y \<longleftrightarrow> x = y"
  by (cases x; cases y) (simp add: deal_value_def mk_obj_inject)

lemma receipt_leg_state_value_inject [simp]:
  "receipt_leg_state_value x = receipt_leg_state_value y \<longleftrightarrow> x = y"
  by (cases x; cases y) simp_all

lemma receipt_settlement_leg_value_inject [simp]:
  "receipt_settlement_leg_value x = receipt_settlement_leg_value y \<longleftrightarrow> x = y"
  by (cases x; cases y) (simp add: receipt_settlement_leg_value_def mk_obj_inject)

lemma receipt_executor_value_inject [simp]:
  "receipt_executor_value x = receipt_executor_value y \<longleftrightarrow> x = y"
  by (cases x; cases y) (simp add: receipt_executor_value_def mk_obj_inject)

lemma receipt_settlement_refs_value_inject [simp]:
  "receipt_settlement_refs_value x = receipt_settlement_refs_value y \<longleftrightarrow> x = y"
  by (cases x; cases y) (simp add: receipt_settlement_refs_value_def mk_obj_inject)

lemma receipt_value_inject [simp]: "receipt_value x = receipt_value y \<longleftrightarrow> x = y"
  by (cases x; cases y) (simp add: receipt_value_def mk_obj_inject)

section \<open>The wire forms are well-formed values\<close>

lemma linked_identity_value_wf [simp]: "wf_json (linked_identity_value x)"
  by (simp add: linked_identity_value_def wf_mk_obj)

lemma transport_endpoint_value_wf [simp]: "wf_json (transport_endpoint_value x)"
  by (simp add: transport_endpoint_value_def wf_mk_obj)

lemma descriptor_capabilities_value_wf [simp]: "wf_json (descriptor_capabilities_value x)"
  by (simp add: descriptor_capabilities_value_def wf_mk_obj)

lemma linked_identities_value_wf [simp]: "wf_json (linked_identities_value xs)"
  by (simp add: linked_identities_value_def list_all_iff)

lemma transport_endpoints_value_wf [simp]: "wf_json (transport_endpoints_value xs)"
  by (simp add: transport_endpoints_value_def list_all_iff)

lemma descriptor_value_wf [simp]: "wf_json (descriptor_value x)"
  by (simp add: descriptor_value_def wf_mk_obj)

lemma execution_runtime_value_wf [simp]: "wf_json (execution_runtime_value x)"
  by (cases x) simp_all

lemma offer_execution_profile_value_wf [simp]: "wf_json (offer_execution_profile_value x)"
  by (simp add: offer_execution_profile_value_def wf_mk_obj)

lemma offer_price_schedule_value_wf [simp]: "wf_json (offer_price_schedule_value x)"
  by (simp add: offer_price_schedule_value_def wf_mk_obj)

lemma offer_value_wf [simp]: "wf_json (offer_value x)"
  by (simp add: offer_value_def wf_mk_obj)

lemma quote_settlement_terms_value_wf [simp]: "wf_json (quote_settlement_terms_value x)"
  by (simp add: quote_settlement_terms_value_def wf_mk_obj)

lemma execution_limits_value_wf [simp]: "wf_json (execution_limits_value x)"
  by (simp add: execution_limits_value_def wf_mk_obj)

lemma quote_value_wf [simp]: "wf_json (quote_value x)"
  by (simp add: quote_value_def wf_mk_obj)

lemma invoice_bundle_leg_state_value_wf [simp]: "wf_json (invoice_bundle_leg_state_value x)"
  by (cases x) simp_all

lemma invoice_bundle_leg_value_wf [simp]: "wf_json (invoice_bundle_leg_value x)"
  by (simp add: invoice_bundle_leg_value_def wf_mk_obj)

lemma invoice_bundle_value_wf [simp]: "wf_json (invoice_bundle_value x)"
  by (simp add: invoice_bundle_value_def wf_mk_obj)

lemma deal_value_wf [simp]: "wf_json (deal_value x)"
  by (simp add: deal_value_def wf_mk_obj)

lemma receipt_leg_state_value_wf [simp]: "wf_json (receipt_leg_state_value x)"
  by (cases x) simp_all

lemma receipt_settlement_leg_value_wf [simp]: "wf_json (receipt_settlement_leg_value x)"
  by (simp add: receipt_settlement_leg_value_def wf_mk_obj)

lemma receipt_executor_value_wf [simp]: "wf_json (receipt_executor_value x)"
  by (simp add: receipt_executor_value_def wf_mk_obj)

lemma receipt_settlement_refs_value_wf [simp]: "wf_json (receipt_settlement_refs_value x)"
  by (simp add: receipt_settlement_refs_value_def wf_mk_obj)

lemma receipt_value_wf [simp]: "wf_json (receipt_value x)"
  by (simp add: receipt_value_def wf_mk_obj)

end
