(* ===== verification/Envelope.thy ===== *)
theory Envelope
  imports Wire
begin

text \<open>
  The signed envelope of \<open>kernel.rs\<close>: \<open>payload_hash\<close>, \<open>canonical_signing_bytes\<close>,
  \<open>sign_artifact\<close>, \<open>verify_artifact\<close>, \<open>artifact_hash\<close> and \<open>artifact_value\<close>, generic in the
  payload type through its wire form. The locale \<open>payload_codec\<close> is the contract the envelope
  needs of a payload type (its wire form determines it); inside it, an artifact's hash pins
  everything the signature covers, up to a SHA-256 collision that the statement exhibits. Each
  payload of the kernel provides the contract.
\<close>

section \<open>Definitions\<close>

definition payload_hash :: "crypto_env \<Rightarrow> ('p \<Rightarrow> json) \<Rightarrow> 'p \<Rightarrow> string result" where
  "payload_hash cs to_value p = map_ok (sha256_hex cs) (canonical_json_to_vec cs (to_value p))"

definition signing_value :: "string \<Rightarrow> string \<Rightarrow> string \<Rightarrow> i64 \<Rightarrow> string \<Rightarrow> json \<Rightarrow> json" where
  "signing_value schema_version artifact_type signer created_at ph payload =
     JArr [JStr schema_version, JStr artifact_type, JStr signer, j_i64 created_at, JStr ph, payload]"

definition canonical_signing_bytes ::
  "crypto_env \<Rightarrow> ('p \<Rightarrow> json) \<Rightarrow> string \<Rightarrow> string \<Rightarrow> string \<Rightarrow> i64 \<Rightarrow> string \<Rightarrow> 'p \<Rightarrow> bytes result" where
  "canonical_signing_bytes cs to_value schema_version artifact_type signer created_at ph payload =
     canonical_json_to_vec cs
       (signing_value schema_version artifact_type signer created_at ph (to_value payload))"

definition sign_artifact ::
  "crypto_env \<Rightarrow> ('p \<Rightarrow> json) \<Rightarrow> string \<Rightarrow> (bytes \<Rightarrow> string) \<Rightarrow> string \<Rightarrow> i64 \<Rightarrow> 'p
    \<Rightarrow> 'p signed_artifact result" where
  "sign_artifact cs to_value signer sign_message artifact_type created_at payload =
     and_then (payload_hash cs to_value payload) (\<lambda>ph.
     and_then
       (canonical_signing_bytes cs to_value FROGLET_SCHEMA_V1 artifact_type signer created_at ph
          payload) (\<lambda>signing_bytes.
     Inr \<lparr>art_type = artifact_type,
          art_schema_version = FROGLET_SCHEMA_V1,
          art_signer = signer,
          art_created_at = created_at,
          art_payload_hash = ph,
          art_hash = sha256_hex cs signing_bytes,
          art_payload = payload,
          art_signature = sign_message signing_bytes\<rparr>))"

definition verify_artifact :: "crypto_env \<Rightarrow> ('p \<Rightarrow> json) \<Rightarrow> 'p signed_artifact \<Rightarrow> bool" where
  "verify_artifact cs to_value artifact =
     (if art_schema_version artifact \<noteq> FROGLET_SCHEMA_V1 then False
      else
        (case payload_hash cs to_value (art_payload artifact) of
           Inl e \<Rightarrow> False
         | Inr ph \<Rightarrow>
             if ph \<noteq> art_payload_hash artifact then False
             else
               (case canonical_signing_bytes cs to_value (art_schema_version artifact)
                       (art_type artifact) (art_signer artifact) (art_created_at artifact)
                       (art_payload_hash artifact) (art_payload artifact) of
                  Inl e \<Rightarrow> False
                | Inr signing_bytes \<Rightarrow>
                    if art_hash artifact \<noteq> sha256_hex cs signing_bytes then False
                    else verify_message cs (art_signer artifact) (art_signature artifact)
                           signing_bytes)))"

definition artifact_hash ::
  "crypto_env \<Rightarrow> ('p \<Rightarrow> json) \<Rightarrow> 'p signed_artifact \<Rightarrow> string result" where
  "artifact_hash cs to_value artifact =
     and_then (payload_hash cs to_value (art_payload artifact)) (\<lambda>ph.
     map_ok (sha256_hex cs)
       (canonical_signing_bytes cs to_value (art_schema_version artifact) (art_type artifact)
          (art_signer artifact) (art_created_at artifact) ph (art_payload artifact)))"

definition artifact_value :: "('p \<Rightarrow> json) \<Rightarrow> 'p signed_artifact \<Rightarrow> json" where
  "artifact_value to_value x = mk_obj
     [(''artifact_type'', always (JStr (art_type x))),
      (''schema_version'', always (JStr (art_schema_version x))),
      (''signer'', always (JStr (art_signer x))),
      (''created_at'', always (j_i64 (art_created_at x))),
      (''payload_hash'', always (JStr (art_payload_hash x))),
      (''hash'', unless_empty JStr (art_hash x)),
      (''payload'', always (to_value (art_payload x))),
      (''signature'', always (JStr (art_signature x)))]"

section \<open>Notions the statements use\<close>

text \<open>Everything the signature covers, that is, all of the envelope but \<open>hash\<close> and \<open>signature\<close>.\<close>

definition signed_content ::
  "'p signed_artifact \<Rightarrow> string \<times> string \<times> string \<times> i64 \<times> string \<times> 'p" where
  "signed_content a =
     (art_schema_version a, art_type a, art_signer a, art_created_at a, art_payload_hash a,
      art_payload a)"

definition signing_value_of :: "('p \<Rightarrow> json) \<Rightarrow> 'p signed_artifact \<Rightarrow> json" where
  "signing_value_of to_value a =
     signing_value (art_schema_version a) (art_type a) (art_signer a) (art_created_at a)
       (art_payload_hash a) (to_value (art_payload a))"

text \<open>The artifact's numbers are written exactly by the canonical form.\<close>

definition exact_artifact :: "('p \<Rightarrow> json) \<Rightarrow> 'p signed_artifact \<Rightarrow> bool" where
  "exact_artifact to_value a = exact_numbers (signing_value_of to_value a)"

definition ok_bytes :: "bytes result \<Rightarrow> bytes" where
  "ok_bytes r = (case r of Inl e \<Rightarrow> [] | Inr b \<Rightarrow> b)"

definition signing_bytes_of :: "crypto_env \<Rightarrow> ('p \<Rightarrow> json) \<Rightarrow> 'p signed_artifact \<Rightarrow> bytes" where
  "signing_bytes_of cs to_value a = ok_bytes (jcs_to_vec cs (signing_value_of to_value a))"

definition sha256_collision :: "crypto_env \<Rightarrow> bytes \<Rightarrow> bytes \<Rightarrow> bool" where
  "sha256_collision cs x y \<longleftrightarrow> x \<noteq> y \<and> sha256 cs x = sha256 cs y"

section \<open>Verification and signing, unfolded\<close>

lemma verify_artifact_iff:
  "verify_artifact cs to_value a \<longleftrightarrow>
     art_schema_version a = FROGLET_SCHEMA_V1 \<and>
     (\<exists>pb. jcs_to_vec cs (to_value (art_payload a)) = Inr pb \<and>
        art_payload_hash a = sha256_hex cs pb) \<and>
     (\<exists>sb. jcs_to_vec cs (signing_value_of to_value a) = Inr sb \<and>
        art_hash a = sha256_hex cs sb \<and>
        verify_message cs (art_signer a) (art_signature a) sb)"
  by (auto simp: verify_artifact_def payload_hash_def canonical_signing_bytes_def
      canonical_json_to_vec_def signing_value_of_def map_ok_def split: sum.splits if_splits)

lemma verify_artifactD:
  assumes "verify_artifact cs to_value a"
  shows "art_schema_version a = FROGLET_SCHEMA_V1"
    and "jcs_to_vec cs (signing_value_of to_value a) = Inr (signing_bytes_of cs to_value a)"
    and "art_hash a = sha256_hex cs (signing_bytes_of cs to_value a)"
    and "verify_message cs (art_signer a) (art_signature a) (signing_bytes_of cs to_value a)"
  using assms
  by (auto simp: verify_artifact_iff signing_bytes_of_def ok_bytes_def)

lemma sign_artifact_Inr:
  "sign_artifact cs to_value signer sg ty t p = Inr a \<longleftrightarrow>
     (\<exists>pb sb. jcs_to_vec cs (to_value p) = Inr pb \<and>
        jcs_to_vec cs (signing_value FROGLET_SCHEMA_V1 ty signer t (sha256_hex cs pb) (to_value p))
          = Inr sb \<and>
        a = \<lparr>art_type = ty, art_schema_version = FROGLET_SCHEMA_V1, art_signer = signer,
             art_created_at = t, art_payload_hash = sha256_hex cs pb, art_hash = sha256_hex cs sb,
             art_payload = p, art_signature = sg sb\<rparr>)"
  by (auto simp: sign_artifact_def payload_hash_def canonical_signing_bytes_def
      canonical_json_to_vec_def result_simps)

lemma sign_artifact_fields:
  assumes "sign_artifact cs to_value signer sg ty t p = Inr a"
  shows "art_type a = ty" "art_schema_version a = FROGLET_SCHEMA_V1" "art_signer a = signer"
    "art_created_at a = t" "art_payload a = p"
  using assms by (auto simp: sign_artifact_Inr)

lemma exact_signing_value:
  "exact_numbers (signing_value v ty s t ph p) \<longleftrightarrow> \<bar>t\<bar> \<le> 2 ^ 53 \<and> exact_numbers p"
  by (simp add: signing_value_def j_i64_def)

lemma wf_signing_value [simp]: "wf_json (signing_value v ty s t ph p) \<longleftrightarrow> wf_json p"
  by (simp add: signing_value_def)

text \<open>Signing never fails on a payload whose numbers are exact.\<close>

lemma sign_artifact_total:
  assumes "jcs_laws cs" and "wf_json (to_value p)" and "exact_numbers (to_value p)" and "\<bar>t\<bar> \<le> 2 ^ 53"
  shows "\<exists>a. sign_artifact cs to_value signer sg ty t p = Inr a"
proof -
  from assms obtain pb where pb: "jcs_to_vec cs (to_value p) = Inr pb"
    using jcs_total by blast
  from assms have "exact_numbers
    (signing_value FROGLET_SCHEMA_V1 ty signer t (sha256_hex cs pb) (to_value p))"
    by (simp add: exact_signing_value)
  with assms obtain sb where
    "jcs_to_vec cs (signing_value FROGLET_SCHEMA_V1 ty signer t (sha256_hex cs pb) (to_value p))
       = Inr sb"
    using jcs_total by (metis wf_signing_value)
  with pb show ?thesis by (simp add: sign_artifact_Inr)
qed

text \<open>An artifact signed with a key verifies under that key.\<close>

lemma verify_signed_artifact:
  assumes "hex_laws cs" and "schnorr_laws cs" and "secret_key_ok cs sk"
    and "sign_artifact cs to_value (public_key_hex cs sk) (sign_message_hex cs sk) ty t p = Inr a"
  shows "verify_artifact cs to_value a"
  using assms(4) verify_sign_message [OF assms(1-3)]
  by (auto simp: sign_artifact_Inr verify_artifact_iff signing_value_of_def)

text \<open>The in-band hash of a verified artifact is its recomputed content address.\<close>

lemma artifact_hash_of_verified:
  assumes "verify_artifact cs to_value a"
  shows "artifact_hash cs to_value a = Inr (art_hash a)"
  using assms
  by (auto simp: verify_artifact_iff artifact_hash_def payload_hash_def canonical_signing_bytes_def
      canonical_json_to_vec_def signing_value_of_def)

lemma verified_hash_shape:
  assumes "hex_laws cs" and "sha256_laws cs" and "verify_artifact cs to_value a"
  shows "length (art_hash a) = 64" and "list_all is_lower_hex_char (art_hash a)"
    and "trim (art_hash a) = art_hash a" and "art_hash a \<noteq> []"
  using assms by (simp_all add: verify_artifactD(3) sha256_hex_lower trim_sha256_hex sha256_hex_nonempty)

section \<open>The contract of a payload type\<close>

locale payload_codec =
  fixes to_value :: "'p \<Rightarrow> json"
  assumes to_value_inject: "to_value p = to_value q \<longleftrightarrow> p = q"
    and to_value_wf: "wf_json (to_value p)"
begin

lemma signing_value_inject:
  "signing_value_of to_value a = signing_value_of to_value b \<longleftrightarrow> signed_content a = signed_content b"
  by (simp add: signing_value_of_def signing_value_def signed_content_def to_value_inject)

lemma wf_signing_value_of: "wf_json (signing_value_of to_value a)"
  by (simp add: signing_value_of_def to_value_wf)

text \<open>The hash of a verified artifact pins everything that was signed.\<close>

lemma hash_binds_content:
  assumes "jcs_laws cs" and "hex_laws cs"
    and "verify_artifact cs to_value a" and "verify_artifact cs to_value b"
    and "exact_artifact to_value a" and "exact_artifact to_value b"
    and "art_hash a = art_hash b"
  shows "signed_content a = signed_content b \<or>
    sha256_collision cs (signing_bytes_of cs to_value a) (signing_bytes_of cs to_value b)"
proof (cases "signing_bytes_of cs to_value a = signing_bytes_of cs to_value b")
  case True
  with verify_artifactD(2) [OF assms(3)] verify_artifactD(2) [OF assms(4)] assms(1,5,6)
  have "signing_value_of to_value a = signing_value_of to_value b"
    using wf_signing_value_of unfolding jcs_laws_def exact_artifact_def by (metis (no_types))
  then show ?thesis by (simp add: signing_value_inject)
next
  case False
  moreover have "sha256 cs (signing_bytes_of cs to_value a) = sha256 cs (signing_bytes_of cs to_value b)"
    using verify_artifactD(3) [OF assms(3)] verify_artifactD(3) [OF assms(4)] assms(2,7)
    by (simp add: sha256_hex_collision)
  ultimately show ?thesis by (simp add: sha256_collision_def)
qed

text \<open>Replacing the payload of a verified artifact breaks it, again up to a collision.\<close>

lemma payload_swap_detected:
  assumes "jcs_laws cs" and "hex_laws cs"
    and "verify_artifact cs to_value a" and "verify_artifact cs to_value (a\<lparr>art_payload := q\<rparr>)"
    and "exact_numbers (to_value (art_payload a))" and "exact_numbers (to_value q)"
    and "q \<noteq> art_payload a"
  shows "sha256_collision cs (ok_bytes (jcs_to_vec cs (to_value (art_payload a))))
    (ok_bytes (jcs_to_vec cs (to_value q)))"
proof -
  from assms(3,4) obtain pb qb where
    b: "jcs_to_vec cs (to_value (art_payload a)) = Inr pb" "jcs_to_vec cs (to_value q) = Inr qb"
    and h: "sha256_hex cs pb = sha256_hex cs qb"
    by (auto simp: verify_artifact_iff)
  have "pb \<noteq> qb"
    using b assms(1,5-7) to_value_inject to_value_wf unfolding jcs_laws_def by (metis (no_types))
  with b h assms(2) show ?thesis
    by (simp add: sha256_collision_def sha256_hex_collision ok_bytes_def)
qed

lemma artifact_value_inject:
  "artifact_value to_value a = artifact_value to_value b \<longleftrightarrow> a = b"
  by (cases a; cases b) (simp add: artifact_value_def mk_obj_inject to_value_inject)

end

interpretation descriptor_codec: payload_codec descriptor_value
  by unfold_locales simp_all

interpretation offer_codec: payload_codec offer_value
  by unfold_locales simp_all

interpretation quote_codec: payload_codec quote_value
  by unfold_locales simp_all

interpretation deal_codec: payload_codec deal_value
  by unfold_locales simp_all

interpretation invoice_bundle_codec: payload_codec invoice_bundle_value
  by unfold_locales simp_all

interpretation receipt_codec: payload_codec receipt_value
  by unfold_locales simp_all

section \<open>Exactness of objects\<close>

definition exact_field :: "json option \<Rightarrow> bool" where
  "exact_field v = (case v of None \<Rightarrow> True | Some w \<Rightarrow> exact_numbers w)"

lemma exact_numbers_present:
  "list_all (\<lambda>f. exact_numbers (snd f)) (present fs) \<longleftrightarrow> list_all (\<lambda>f. exact_field (snd f)) fs"
  by (induction fs rule: present.induct) (auto simp: exact_field_def)

lemma exact_numbers_mk_obj:
  "exact_numbers (mk_obj fs) \<longleftrightarrow> list_all (\<lambda>f. exact_field (snd f)) fs"
  by (simp add: mk_obj_def exact_numbers_present [symmetric] list_all_iff)

lemma exact_encoders [simp]:
  "exact_numbers (j_u64 a) \<longleftrightarrow> uint a \<le> 2 ^ 53" "exact_numbers (j_u32 b)"
  "exact_numbers (j_i64 c) \<longleftrightarrow> \<bar>c\<bar> \<le> 2 ^ 53" "exact_numbers (j_strs d)"
proof -
  have "uint b < 2 ^ 32" using uint_lt2p [of b] by simp
  then show "exact_numbers (j_u32 b)" by (simp add: j_u32_def)
qed (simp_all add: j_u64_def j_i64_def j_strs_def list_all_iff)

lemma exact_field_simps [simp]:
  "exact_field (always v) \<longleftrightarrow> exact_numbers v"
  "exact_field (unless_none f None)" "exact_field (unless_none f (Some x)) \<longleftrightarrow> exact_numbers (f x)"
  "exact_field (unless_empty JStr s)" "exact_field (unless_empty j_strs ss)"
  "exact_field (unless_empty g [])"
  by (simp_all add: exact_field_def always_def unless_none_def unless_empty_def)

end
