(* ===== verification/Reference_Env.thy ===== *)
theory Reference_Env
  imports Crypto
begin

text \<open>
  A concrete environment that satisfies the documented behaviour of the cryptographic crates:
  a tagged, self-delimiting encoding of JSON values in place of RFC 8785, real hexadecimal
  encoding, a 32-byte truncation in place of SHA-256 and a signature that repeats the key and
  the digest. It shows that the hypotheses of the theorems on \<open>crypto_env\<close> can hold together
  and is what the concrete instances of those theorems run on.
\<close>

section \<open>Definitions\<close>

fun ref_string :: "string \<Rightarrow> bytes" where
  "ref_string [] = '';''"
| "ref_string (c # s) = CHR ''c'' # c # ref_string s"

fun ref_json :: "json \<Rightarrow> bytes" where
  "ref_json JNull = ''n''"
| "ref_json (JBool b) = (if b then ''t'' else ''f'')"
| "ref_json (JNum i) = CHR ''i'' # ref_string (int_to_string i)"
| "ref_json (JFloat w) = CHR ''d'' # ref_string (nat_digits (unat w))"
| "ref_json (JStr s) = CHR ''s'' # ref_string s"
| "ref_json (JArr vs) = CHR ''['' # concat (map ref_json vs) @ '']''"
| "ref_json (JObj fs) =
     CHR ''{'' # concat (map (\<lambda>f. CHR '':'' # ref_string (fst f) @ ref_json (snd f)) fs) @ ''}''"

definition hex_digit :: "nat \<Rightarrow> char" where
  "hex_digit n = (if n < 10 then char_of (48 + n) else char_of (87 + n))"

definition hex_digit_value :: "char \<Rightarrow> nat" where
  "hex_digit_value c =
     (let n = (of_char c :: nat)
      in if n \<le> 57 then n - 48 else if n \<le> 70 then n - 55 else n - 87)"

fun ref_hex_encode :: "bytes \<Rightarrow> string" where
  "ref_hex_encode [] = []"
| "ref_hex_encode (c # s) =
     (let n = (of_char c :: nat) in hex_digit (n div 16) # hex_digit (n mod 16) # ref_hex_encode s)"

fun ref_hex_decode :: "string \<Rightarrow> bytes option" where
  "ref_hex_decode [] = Some []"
| "ref_hex_decode [c] = None"
| "ref_hex_decode (c # d # s) =
     (if is_ascii_hexdigit c \<and> is_ascii_hexdigit d
      then map_option ((#) (char_of (hex_digit_value c * 16 + hex_digit_value d))) (ref_hex_decode s)
      else None)"

definition ref_digest :: "bytes \<Rightarrow> bytes" where
  "ref_digest m = take 32 (m @ replicate 32 (CHR 0x00))"

definition reference_env :: crypto_env where
  "reference_env =
     \<lparr>jcs_to_vec = (\<lambda>v. Inr (ref_json v)),
      sha256 = ref_digest,
      hex_encode = ref_hex_encode,
      hex_decode = ref_hex_decode,
      hmac_sha256 = (\<lambda>k m. ref_digest (k @ m)),
      secret_key_from_slice =
        (\<lambda>b. if length b = 32 then Inr b else Inl ''invalid secret key''),
      verifying_key = (\<lambda>sk. sk),
      to_sec1_bytes = (\<lambda>pk. CHR 0x02 # pk),
      schnorr_sign = (\<lambda>sk m. sk @ ref_digest m),
      verifying_key_ok = (\<lambda>pk. length pk = 32),
      schnorr_signature_ok = (\<lambda>sig. length sig = 64),
      schnorr_verify = (\<lambda>pk m sig. sig = pk @ ref_digest m)\<rparr>"

section \<open>The encoding of JSON values is self-delimiting\<close>

lemma ref_string_prefix: "ref_string s @ r = ref_string t @ q \<longleftrightarrow> s = t \<and> r = q"
proof (induction s arbitrary: t)
  case Nil
  then show ?case by (cases t) auto
next
  case (Cons c s)
  then show ?case by (cases t) auto
qed

definition tag_chars :: "string" where
  "tag_chars = ''ntfids[{''"

lemma ref_json_hd: "\<exists>c r. ref_json v = c # r \<and> c \<in> set tag_chars"
  by (cases v) (auto simp: tag_chars_def)

definition decodes_uniquely :: "json \<Rightarrow> bool" where
  "decodes_uniquely v = (\<forall>w r q. ref_json v @ r = ref_json w @ q \<longrightarrow> v = w \<and> r = q)"

lemma decodes_uniquelyD: "decodes_uniquely v \<Longrightarrow> ref_json v @ r = ref_json w @ q \<Longrightarrow> v = w \<and> r = q"
  by (simp add: decodes_uniquely_def)

lemma ref_array_prefix:
  "\<lbrakk>\<forall>v\<in>set vs. decodes_uniquely v;
    concat (map ref_json vs) @ CHR '']'' # r = concat (map ref_json us) @ CHR '']'' # q\<rbrakk>
   \<Longrightarrow> vs = us \<and> r = q"
proof (induction vs arbitrary: us)
  case Nil
  then show ?case
    using ref_json_hd [of "hd us"] by (cases us) (auto simp: tag_chars_def)
next
  case (Cons v vs)
  show ?case
  proof (cases us)
    case Nil
    with Cons.prems ref_json_hd [of v] show ?thesis by (auto simp: tag_chars_def)
  next
    case us: (Cons u us')
    with Cons.prems have "ref_json v @ (concat (map ref_json vs) @ CHR '']'' # r) =
        ref_json u @ (concat (map ref_json us') @ CHR '']'' # q)" by simp
    then have "v = u \<and>
      concat (map ref_json vs) @ CHR '']'' # r = concat (map ref_json us') @ CHR '']'' # q"
      using Cons.prems(1) by (intro decodes_uniquelyD) simp_all
    with Cons.IH [of us'] Cons.prems(1) us show ?thesis by simp
  qed
qed

abbreviation ref_member :: "string \<times> json \<Rightarrow> bytes" where
  "ref_member f \<equiv> CHR '':'' # ref_string (fst f) @ ref_json (snd f)"

lemma ref_object_prefix:
  "\<lbrakk>\<forall>f\<in>set fs. decodes_uniquely (snd f);
    concat (map ref_member fs) @ CHR ''}'' # r = concat (map ref_member hs) @ CHR ''}'' # q\<rbrakk>
   \<Longrightarrow> fs = hs \<and> r = q"
proof (induction fs arbitrary: hs)
  case Nil
  then show ?case by (cases hs) auto
next
  case (Cons f fs)
  show ?case
  proof (cases hs)
    case hs: (Cons h hs')
    with Cons.prems have key: "fst f = fst h" and
      tl: "ref_json (snd f) @ (concat (map ref_member fs) @ CHR ''}'' # r) =
        ref_json (snd h) @ (concat (map ref_member hs') @ CHR ''}'' # q)"
      by (auto simp: ref_string_prefix)
    from tl have "snd f = snd h \<and>
      concat (map ref_member fs) @ CHR ''}'' # r = concat (map ref_member hs') @ CHR ''}'' # q"
      using Cons.prems(1) by (intro decodes_uniquelyD) simp_all
    with Cons.IH [of hs'] Cons.prems(1) key hs show ?thesis by (simp add: prod_eq_iff)
  qed (use Cons.prems in simp)
qed

lemma ref_json_tag:
  "ref_json (JArr vs) @ r = ref_json w @ q \<Longrightarrow> \<exists>ws. w = JArr ws"
  "ref_json (JObj fs) @ r = ref_json w @ q \<Longrightarrow> \<exists>hs. w = JObj hs"
  by (cases w; simp split: if_splits)+

lemma ref_json_decodes_uniquely: "decodes_uniquely v"
proof (induction v)
  case (JArr vs)
  then have ih: "\<forall>v\<in>set vs. decodes_uniquely v" by blast
  show ?case
    unfolding decodes_uniquely_def
  proof (intro allI impI)
    fix w r q assume eq: "ref_json (JArr vs) @ r = ref_json w @ q"
    then obtain ws where w: "w = JArr ws" using ref_json_tag(1) by blast
    from eq ref_array_prefix [OF ih, of r ws q] show "JArr vs = w \<and> r = q" by (simp add: w)
  qed
next
  case (JObj fs)
  then have ih: "\<forall>f\<in>set fs. decodes_uniquely (snd f)" by (auto simp: snds.simps)
  show ?case
    unfolding decodes_uniquely_def
  proof (intro allI impI)
    fix w r q assume eq: "ref_json (JObj fs) @ r = ref_json w @ q"
    then obtain hs where w: "w = JObj hs" using ref_json_tag(2) by blast
    from eq ref_object_prefix [OF ih, of r hs q] show "JObj fs = w \<and> r = q" by (simp add: w)
  qed
next
  case (JNum i)
  show ?case unfolding decodes_uniquely_def
    by (intro allI impI, case_tac w) (simp_all add: ref_string_prefix split: if_splits)
next
  case (JFloat d)
  show ?case unfolding decodes_uniquely_def
    by (intro allI impI, case_tac w) (simp_all add: ref_string_prefix word_unat_eq_iff split: if_splits)
next
  case (JStr s)
  show ?case unfolding decodes_uniquely_def
    by (intro allI impI, case_tac w) (simp_all add: ref_string_prefix split: if_splits)
next
  case JNull
  show ?case unfolding decodes_uniquely_def
    by (intro allI impI, case_tac w) (simp_all split: if_splits)
next
  case (JBool b)
  show ?case unfolding decodes_uniquely_def
    by (intro allI impI, case_tac w) (simp_all split: if_splits)
qed

lemma ref_json_inject: "ref_json v = ref_json w \<longleftrightarrow> v = w"
  using decodes_uniquelyD [OF ref_json_decodes_uniquely, of v "[]" w "[]"] by auto

section \<open>The laws hold\<close>

lemma hex_digit_props:
  assumes "n < 16"
  shows "is_lower_hex_char (hex_digit n)" "is_ascii_hexdigit (hex_digit n)"
    "hex_digit_value (hex_digit n) = n"
  using assms
  by (auto simp: hex_digit_def hex_digit_value_def is_lower_hex_char_def is_ascii_hexdigit_def
      is_ascii_uppercase_def Let_def)

lemma of_char_less_256: "(of_char c :: nat) < 256"
  by (metis nat_of_char_less_256)

lemma ref_hex_round_trip: "ref_hex_decode (ref_hex_encode b) = Some b"
proof (induction b)
  case (Cons c b)
  have "(of_char c :: nat) div 16 < 16" using of_char_less_256 [of c] by linarith
  with Cons show ?case by (simp add: Let_def hex_digit_props)
qed simp

lemma ref_hex_encode_shape:
  "length (ref_hex_encode b) = 2 * length b" "list_all is_lower_hex_char (ref_hex_encode b)"
proof (induction b)
  case (Cons c b)
  have "(of_char c :: nat) div 16 < 16" using of_char_less_256 [of c] by linarith
  with Cons show "list_all is_lower_hex_char (ref_hex_encode (c # b))"
    by (simp add: Let_def hex_digit_props)
qed (simp_all add: Let_def)

lemma ref_hex_decode_shape:
  "ref_hex_decode s = Some b \<Longrightarrow> length s = 2 * length b \<and> list_all is_ascii_hexdigit s"
  by (induction s arbitrary: b rule: ref_hex_decode.induct) (auto split: if_splits)

lemma ref_digest_length [simp]: "length (ref_digest m) = 32"
  by (simp add: ref_digest_def)

lemma reference_crypto_laws: "crypto_laws reference_env"
  by (simp add: crypto_laws_def hex_laws_def sha256_laws_def schnorr_laws_def jcs_laws_def
      reference_env_def ref_hex_round_trip ref_hex_encode_shape ref_hex_decode_shape
      secret_key_ok_def ref_json_inject)

end
