(* ===== verification/Kernel.thy ===== *)
theory Kernel
  imports Envelope Reference_Env
begin

text \<open>
  The semantic validators of \<open>froglet-protocol/src/protocol/kernel.rs\<close>: one definition per
  validator, with the source's checks in the source's order and its error messages, the
  per-method blocks of \<open>validate_receipt_artifact\<close> as definitions of their own, and the typed
  entry point \<open>verify_typed_document\<close> (serde's decoding of a document is a parameter, a record
  of decoders). The lemmas give each validator's acceptance condition as a declarative predicate
  and derive what a verified, validated artifact guarantees.
\<close>

section \<open>Linked identities\<close>

definition linked_identity_scope_hash :: "crypto_env \<Rightarrow> string list \<Rightarrow> string result" where
  "linked_identity_scope_hash cs scope =
     map_ok (sha256_hex cs) (canonical_json_to_vec cs (j_strs scope))"

definition linked_identity_challenge_bytes ::
  "crypto_env \<Rightarrow> string \<Rightarrow> string \<Rightarrow> string \<Rightarrow> string list \<Rightarrow> i64 \<Rightarrow> i64 option \<Rightarrow> bytes result" where
  "linked_identity_challenge_bytes cs provider_id identity_kind identity scope created_at expires_at =
     and_then (linked_identity_scope_hash cs scope) (\<lambda>scope_hash.
     Inr (''froglet:identity_link:v1'' @ [CHR 0x0A] @ provider_id @ [CHR 0x0A] @ identity_kind
          @ [CHR 0x0A] @ identity @ [CHR 0x0A] @ scope_hash @ [CHR 0x0A] @ int_to_string created_at
          @ [CHR 0x0A] @ (case expires_at of None \<Rightarrow> ''-'' | Some v \<Rightarrow> int_to_string v)))"

definition linked_identity_has_scope :: "linked_identity \<Rightarrow> string \<Rightarrow> bool" where
  "linked_identity_has_scope identity required_scope =
     list_ex (\<lambda>scope. scope = required_scope) (li_scope identity)"

definition is_lower_hex_len :: "string \<Rightarrow> nat \<Rightarrow> bool" where
  "is_lower_hex_len value len = (length value = len \<and> list_all is_lower_hex_char value)"

definition validate_linked_nostr_identity ::
  "crypto_env \<Rightarrow> string \<Rightarrow> linked_identity \<Rightarrow> unit result" where
  "validate_linked_nostr_identity cs provider_id identity =
     (if \<not> is_lower_hex_len (li_identity identity) 64
      then Inl ''descriptor linked Nostr identity must be a 32-byte lowercase hex key''
      else if li_signature_algorithm identity \<noteq> LINKED_IDENTITY_SIGNATURE_ALGORITHM_BIP340
      then Inl ''descriptor linked Nostr identity signature_algorithm is invalid''
      else if li_scope identity = [] \<or>
        list_ex (\<lambda>scope. \<not> starts_with scope ''publication.'') (li_scope identity)
      then Inl ''descriptor linked Nostr identity scope must contain only publication scopes''
      else if (case li_expires_at identity of None \<Rightarrow> False
               | Some expires_at \<Rightarrow> expires_at \<le> li_created_at identity)
      then Inl ''descriptor linked Nostr identity expires_at must be later than created_at''
      else if \<not> is_lower_hex_len (li_linked_signature identity) 128
      then Inl ''descriptor linked Nostr identity signature must be 64-byte lowercase hex''
      else and_then
        (linked_identity_challenge_bytes cs provider_id (li_identity_kind identity)
          (li_identity identity) (li_scope identity) (li_created_at identity)
          (li_expires_at identity)) (\<lambda>challenge.
        if \<not> verify_message cs (li_identity identity) (li_linked_signature identity) challenge
        then Inl ''descriptor linked Nostr identity signature is invalid''
        else Inr ()))"

section \<open>Receipts\<close>

definition receipt_leg_is_empty_canceled :: "receipt_settlement_leg \<Rightarrow> bool" where
  "receipt_leg_is_empty_canceled leg =
     (rsl_amount_msat leg = 0 \<and> rsl_invoice_hash leg = [] \<and> rsl_payment_hash leg = [] \<and>
      rsl_state leg = RlCanceled)"

definition decode_hash32 :: "crypto_env \<Rightarrow> string \<Rightarrow> bytes option" where
  "decode_hash32 cs value =
     (case hex_decode cs value of
        None \<Rightarrow> None
      | Some b \<Rightarrow> if length b = 32 then Some b else None)"

definition leg_open_or_accepted :: "receipt_leg_state \<Rightarrow> bool" where
  "leg_open_or_accepted s = (s = RlOpen \<or> s = RlAccepted)"

text \<open>
  \<open>bundle_hash.as_deref().unwrap_or_default()\<close>.
\<close>

definition str_or_default :: "string option \<Rightarrow> string" where
  "str_or_default x = (case x of None \<Rightarrow> [] | Some s \<Rightarrow> s)"

definition receipt_signer_and_result_checks :: "receipt_artifact \<Rightarrow> unit result" where
  "receipt_signer_and_result_checks receipt =
     (let payload = art_payload receipt;
          has_result_hash = (rcpt_result_hash payload \<noteq> None);
          has_result_format = (rcpt_result_format payload \<noteq> None)
      in if art_signer receipt \<noteq> rcpt_provider_id payload
         then Inl ''receipt signer does not match provider_id''
         else if (case rcpt_started_at payload of None \<Rightarrow> False
                  | Some started_at \<Rightarrow> rcpt_finished_at payload < started_at)
         then Inl ''receipt finished_at is earlier than started_at''
         else if rcpt_execution_state payload = ''succeeded''
         then (if \<not> has_result_hash \<or> \<not> has_result_format
               then Inl ''receipt with execution_state succeeded must include result_hash and result_format''
               else Inr ())
         else if has_result_hash \<or> has_result_format
         then Inl ''receipt result_hash and result_format must be absent unless execution_state is succeeded''
         else Inr ())"

definition receipt_deal_state_checks :: "receipt_payload \<Rightarrow> unit result" where
  "receipt_deal_state_checks payload =
     (if rcpt_deal_state payload = ''rejected''
      then (if rcpt_execution_state payload \<noteq> ''not_started''
            then Inl ''rejected receipt must have execution_state not_started'' else Inr ())
      else if rcpt_deal_state payload = ''succeeded''
      then (if rcpt_execution_state payload \<noteq> ''succeeded''
            then Inl ''successful receipt must have execution_state succeeded'' else Inr ())
      else if rcpt_deal_state payload = ''failed''
      then (if rcpt_execution_state payload \<noteq> ''failed''
            then Inl ''failed receipt must have execution_state failed'' else Inr ())
      else if rcpt_deal_state payload = ''canceled''
      then (if rcpt_execution_state payload \<noteq> ''not_started'' \<and>
               rcpt_execution_state payload \<noteq> ''succeeded''
            then Inl ''canceled receipt must have execution_state not_started or succeeded''
            else Inr ())
      else Inl ''receipt deal_state is invalid'')"

definition receipt_lightning_checks :: "receipt_payload \<Rightarrow> unit result" where
  "receipt_lightning_checks payload =
     (let refs = rcpt_settlement_refs payload;
          base = rsl_state (refs_base_fee refs);
          success = rsl_state (refs_success_fee refs);
          st = rcpt_settlement_state payload
      in if str_or_default (refs_bundle_hash refs) = []
         then Inl ''lightning receipt must include bundle_hash''
         else if refs_destination_identity refs = []
         then Inl ''lightning receipt must include destination_identity''
         else if leg_open_or_accepted base \<or> leg_open_or_accepted success
         then Inl ''lightning receipt settlement legs must be terminal''
         else and_then
           (if st = ''settled''
            then (if base \<noteq> RlSettled
                  then Inl ''lightning receipt settlement_state settled requires base_fee.state settled''
                  else if success \<noteq> RlSettled
                  then Inl ''lightning receipt settlement_state settled requires success_fee.state settled''
                  else Inr ())
            else if st = ''canceled''
            then (if success \<noteq> RlCanceled
                  then Inl ''lightning receipt settlement_state canceled requires success_fee.state canceled''
                  else Inr ())
            else if st = ''expired''
            then (if success \<noteq> RlExpired
                  then Inl ''lightning receipt settlement_state expired requires success_fee.state expired''
                  else Inr ())
            else Inl ''lightning receipt settlement_state must be settled, canceled, or expired'')
           (\<lambda>_. if rcpt_deal_state payload = ''succeeded'' \<and> st \<noteq> ''settled''
                then Inl ''successful lightning receipt must have settlement_state settled''
                else Inr ()))"

definition receipt_none_checks :: "receipt_payload \<Rightarrow> unit result" where
  "receipt_none_checks payload =
     (let refs = rcpt_settlement_refs payload
      in if rcpt_settlement_state payload \<noteq> ''none''
         then Inl ''free receipt settlement_state must be none''
         else if refs_bundle_hash refs \<noteq> None
         then Inl ''free receipt must not include bundle_hash''
         else if refs_destination_identity refs \<noteq> []
         then Inl ''free receipt destination_identity must be empty''
         else if \<not> receipt_leg_is_empty_canceled (refs_base_fee refs) \<or>
                 \<not> receipt_leg_is_empty_canceled (refs_success_fee refs)
         then Inl ''free receipt settlement legs must be zero-valued canceled placeholders''
         else Inr ())"

definition receipt_stripe_checks :: "receipt_payload \<Rightarrow> unit result" where
  "receipt_stripe_checks payload =
     (let refs = rcpt_settlement_refs payload;
          base = rsl_state (refs_base_fee refs);
          st = rcpt_settlement_state payload
      in if refs_bundle_hash refs \<noteq> None
         then Inl ''stripe_mpp.v1 receipt must not include bundle_hash''
         else if refs_destination_identity refs \<noteq> []
         then Inl ''stripe_mpp.v1 receipt destination_identity must be empty''
         else if \<not> receipt_leg_is_empty_canceled (refs_success_fee refs)
         then Inl ''stripe_mpp.v1 receipt success_fee must be a zero-valued canceled placeholder''
         else if leg_open_or_accepted base
         then Inl ''stripe_mpp.v1 receipt base_fee.state must be terminal (settled or canceled)''
         else and_then
           (if st = ''settled''
            then (if base \<noteq> RlSettled
                  then Inl ''stripe_mpp.v1 receipt settlement_state settled requires base_fee.state settled''
                  else Inr ())
            else if st = ''canceled''
            then (if base \<noteq> RlCanceled
                  then Inl ''stripe_mpp.v1 receipt settlement_state canceled requires base_fee.state canceled''
                  else Inr ())
            else Inl ''stripe_mpp.v1 receipt settlement_state must be settled or canceled'')
           (\<lambda>_. if rcpt_deal_state payload = ''succeeded'' \<and> st \<noteq> ''settled''
                then Inl ''successful stripe_mpp.v1 receipt must have settlement_state settled''
                else Inr ()))"

text \<open>
  The source lowercases the payment hash with \<open>to_lowercase\<close>; at that point it has decoded as
  hex, so it is ASCII and the ASCII lowercasing is the same function.
\<close>

definition receipt_prepaid_settled_checks :: "crypto_env \<Rightarrow> receipt_settlement_leg \<Rightarrow> unit result" where
  "receipt_prepaid_settled_checks cs base_fee =
     (if rsl_state base_fee \<noteq> RlSettled
      then Inl ''lightning.prepaid.v1 receipt settlement_state settled requires base_fee.state settled''
      else and_then
        (ok_or ''lightning.prepaid.v1 settled receipt preimage must be 32-byte hex''
           (decode_hash32 cs (rsl_invoice_hash base_fee))) (\<lambda>preimage_bytes.
        if decode_hash32 cs (rsl_payment_hash base_fee) = None
        then Inl ''lightning.prepaid.v1 settled receipt payment_hash must be 32-byte hex''
        else if sha256_hex cs preimage_bytes \<noteq> to_ascii_lowercase (rsl_payment_hash base_fee)
        then Inl ''lightning.prepaid.v1 receipt preimage does not match payment_hash''
        else Inr ()))"

definition receipt_prepaid_checks :: "crypto_env \<Rightarrow> receipt_payload \<Rightarrow> unit result" where
  "receipt_prepaid_checks cs payload =
     (let refs = rcpt_settlement_refs payload;
          base = rsl_state (refs_base_fee refs);
          st = rcpt_settlement_state payload
      in if refs_bundle_hash refs \<noteq> None
         then Inl ''lightning.prepaid.v1 receipt must not include bundle_hash''
         else if \<not> is_lower_hex_len (refs_destination_identity refs) 66
         then Inl ''lightning.prepaid.v1 receipt destination_identity must be compressed secp256k1 lowercase hex''
         else if \<not> receipt_leg_is_empty_canceled (refs_success_fee refs)
         then Inl ''lightning.prepaid.v1 receipt success_fee must be a zero-valued canceled placeholder''
         else if leg_open_or_accepted base
         then Inl ''lightning.prepaid.v1 receipt base_fee.state must be terminal (settled or canceled)''
         else and_then
           (if st = ''settled'' then receipt_prepaid_settled_checks cs (refs_base_fee refs)
            else if st = ''canceled''
            then (if base \<noteq> RlCanceled
                  then Inl ''lightning.prepaid.v1 receipt settlement_state canceled requires base_fee.state canceled''
                  else if rsl_invoice_hash (refs_base_fee refs) \<noteq> []
                  then Inl ''lightning.prepaid.v1 canceled receipt must not carry a preimage''
                  else Inr ())
            else Inl ''lightning.prepaid.v1 receipt settlement_state must be settled or canceled'')
           (\<lambda>_. if rcpt_deal_state payload = ''succeeded'' \<and> st \<noteq> ''settled''
                then Inl ''successful lightning.prepaid.v1 receipt must have settlement_state settled''
                else Inr ()))"

definition receipt_x402_settled_checks :: "receipt_settlement_refs \<Rightarrow> unit result" where
  "receipt_x402_settled_checks refs =
     (if rsl_state (refs_base_fee refs) \<noteq> RlSettled
      then Inl ''x402.eip3009.v1 receipt settlement_state settled requires base_fee.state settled''
      else if \<not> is_lower_hex_len (str_or_default (refs_bundle_hash refs)) 64
      then Inl ''x402.eip3009.v1 settled receipt must include a 32-byte lowercase hex bundle_hash''
      else if \<not> is_lower_hex_len (rsl_payment_hash (refs_base_fee refs)) 64
      then Inl ''x402.eip3009.v1 settled receipt payment_hash must carry the 32-byte hex EIP-3009 authorization nonce''
      else if \<not> is_lower_hex_len (rsl_invoice_hash (refs_base_fee refs)) 64
      then Inl ''x402.eip3009.v1 settled receipt invoice_hash must carry the 32-byte hex settle transaction hash''
      else Inr ())"

definition receipt_x402_canceled_checks :: "receipt_settlement_refs \<Rightarrow> unit result" where
  "receipt_x402_canceled_checks refs =
     (if rsl_state (refs_base_fee refs) \<noteq> RlCanceled
      then Inl ''x402.eip3009.v1 receipt settlement_state canceled requires base_fee.state canceled''
      else if refs_bundle_hash refs \<noteq> None
      then Inl ''x402.eip3009.v1 canceled receipt must not include bundle_hash''
      else if rsl_invoice_hash (refs_base_fee refs) \<noteq> []
      then Inl ''x402.eip3009.v1 canceled receipt must not carry a settle transaction hash''
      else Inr ())"

definition receipt_x402_checks :: "receipt_payload \<Rightarrow> unit result" where
  "receipt_x402_checks payload =
     (let refs = rcpt_settlement_refs payload;
          st = rcpt_settlement_state payload
      in if \<not> is_lower_hex_len (refs_destination_identity refs) 40
         then Inl ''x402.eip3009.v1 receipt destination_identity must be a 20-byte lowercase hex EVM address''
         else if \<not> receipt_leg_is_empty_canceled (refs_success_fee refs)
         then Inl ''x402.eip3009.v1 receipt success_fee must be a zero-valued canceled placeholder''
         else if leg_open_or_accepted (rsl_state (refs_base_fee refs))
         then Inl ''x402.eip3009.v1 receipt base_fee.state must be terminal (settled or canceled)''
         else and_then
           (if st = ''settled'' then receipt_x402_settled_checks refs
            else if st = ''canceled'' then receipt_x402_canceled_checks refs
            else Inl ''x402.eip3009.v1 receipt settlement_state must be settled or canceled'')
           (\<lambda>_. if rcpt_deal_state payload = ''succeeded'' \<and> st \<noteq> ''settled''
                then Inl ''successful x402.eip3009.v1 receipt must have settlement_state settled''
                else Inr ()))"

definition validate_receipt_artifact :: "crypto_env \<Rightarrow> receipt_artifact \<Rightarrow> unit result" where
  "validate_receipt_artifact cs receipt =
     (let payload = art_payload receipt;
          settlement = refs_method (rcpt_settlement_refs payload)
      in and_then (receipt_signer_and_result_checks receipt) (\<lambda>_.
         and_then (receipt_deal_state_checks payload) (\<lambda>_.
         if settlement = SETTLEMENT_METHOD_LIGHTNING_ESCROW then receipt_lightning_checks payload
         else if settlement = SETTLEMENT_METHOD_NONE then receipt_none_checks payload
         else if settlement = SETTLEMENT_METHOD_STRIPE_MPP then receipt_stripe_checks payload
         else if settlement = SETTLEMENT_METHOD_LIGHTNING_PREPAID
         then receipt_prepaid_checks cs payload
         else if settlement = SETTLEMENT_METHOD_X402_EIP3009 then receipt_x402_checks payload
         else Inl ''receipt settlement_refs.method is invalid'')))"

section \<open>The other artifacts\<close>

definition validate_descriptor_artifact :: "crypto_env \<Rightarrow> descriptor_artifact \<Rightarrow> unit result" where
  "validate_descriptor_artifact cs descriptor =
     (if art_signer descriptor \<noteq> desc_provider_id (art_payload descriptor)
      then Inl ''descriptor signer does not match provider_id''
      else if desc_protocol_version (art_payload descriptor) \<noteq> FROGLET_SCHEMA_V1
      then Inl ''descriptor protocol_version must be froglet/v1''
      else for_each
        (\<lambda>identity.
           if li_identity_kind identity = LINKED_IDENTITY_KIND_NOSTR
           then validate_linked_nostr_identity cs (desc_provider_id (art_payload descriptor)) identity
           else Inr ())
        (desc_linked_identities (art_payload descriptor)))"

definition is_paid_settlement_method :: "string \<Rightarrow> bool" where
  "is_paid_settlement_method m =
     (m = SETTLEMENT_METHOD_LIGHTNING_ESCROW \<or> m = SETTLEMENT_METHOD_STRIPE_MPP \<or>
      m = SETTLEMENT_METHOD_LIGHTNING_PREPAID \<or> m = SETTLEMENT_METHOD_X402_EIP3009)"

definition validate_offer_artifact :: "offer_artifact \<Rightarrow> unit result" where
  "validate_offer_artifact offer =
     (let payload = art_payload offer;
          price = offer_price_schedule payload;
          is_free = (price_base_fee_msat price = 0 \<and> price_success_fee_msat price = 0)
      in if art_signer offer \<noteq> offer_provider_id payload
         then Inl ''offer signer does not match provider_id''
         else if trim (offer_id payload) = [] then Inl ''offer offer_id must be non-empty''
         else if trim (offer_descriptor_hash payload) = []
         then Inl ''offer descriptor_hash must be non-empty''
         else if is_free
         then (if offer_settlement_method payload \<noteq> SETTLEMENT_METHOD_NONE
               then Inl ''free offer settlement_method must be none'' else Inr ())
         else if \<not> is_paid_settlement_method (offer_settlement_method payload)
         then Inl ''paid offer settlement_method is unsupported''
         else if offer_settlement_method payload \<noteq> SETTLEMENT_METHOD_LIGHTNING_ESCROW \<and>
                 price_success_fee_msat price \<noteq> 0
         then Inl ''single-leg paid offer success_fee_msat must be zero''
         else Inr ())"

definition validate_quote_settlement_terms :: "quote_settlement_terms \<Rightarrow> unit result" where
  "validate_quote_settlement_terms terms =
     (if terms_method terms = SETTLEMENT_METHOD_NONE
      then (if terms_destination_identity terms \<noteq> []
            then Inl ''free quote destination_identity must be empty''
            else if terms_base_fee_msat terms \<noteq> 0 \<or> terms_success_fee_msat terms \<noteq> 0
            then Inl ''free quote fee amounts must be zero''
            else Inr ())
      else if terms_method terms = SETTLEMENT_METHOD_LIGHTNING_ESCROW
      then (if \<not> is_lower_hex_len (terms_destination_identity terms) 66
            then Inl ''lightning quote destination_identity must be compressed secp256k1 lowercase hex''
            else Inr ())
      else if terms_method terms = SETTLEMENT_METHOD_STRIPE_MPP
      then (if terms_destination_identity terms \<noteq> []
            then Inl ''non-escrow quote destination_identity must be empty''
            else if terms_success_fee_msat terms \<noteq> 0
            then Inl ''non-escrow quote success_fee_msat must be zero''
            else Inr ())
      else if terms_method terms = SETTLEMENT_METHOD_LIGHTNING_PREPAID
      then (if \<not> is_lower_hex_len (terms_destination_identity terms) 66
            then Inl ''lightning prepaid quote destination_identity must be compressed secp256k1 lowercase hex''
            else if terms_success_fee_msat terms \<noteq> 0
            then Inl ''non-escrow quote success_fee_msat must be zero''
            else Inr ())
      else if terms_method terms = SETTLEMENT_METHOD_X402_EIP3009
      then (if \<not> is_lower_hex_len (terms_destination_identity terms) 40
            then Inl ''x402 quote destination_identity must be a 20-byte lowercase hex EVM address''
            else if terms_success_fee_msat terms \<noteq> 0
            then Inl ''x402 quote success_fee_msat must be zero''
            else Inr ())
      else Inl ''quote settlement_terms.method is invalid'')"

definition validate_quote_artifact :: "quote_artifact \<Rightarrow> unit result" where
  "validate_quote_artifact quote =
     (let payload = art_payload quote
      in if art_signer quote \<noteq> quote_provider_id payload
         then Inl ''quote signer does not match provider_id''
         else if trim (quote_requester_id payload) = []
         then Inl ''quote requester_id must be non-empty''
         else if trim (quote_descriptor_hash payload) = []
         then Inl ''quote descriptor_hash must be non-empty''
         else if trim (quote_offer_hash payload) = []
         then Inl ''quote offer_hash must be non-empty''
         else if trim (quote_workload_kind payload) = []
         then Inl ''quote workload_kind must be non-empty''
         else if trim (quote_workload_hash payload) = []
         then Inl ''quote workload_hash must be non-empty''
         else validate_quote_settlement_terms (quote_settlement_terms payload))"

definition validate_deal_artifact :: "deal_artifact \<Rightarrow> unit result" where
  "validate_deal_artifact deal =
     (let payload = art_payload deal
      in if art_signer deal \<noteq> deal_requester_id payload
         then Inl ''deal signer does not match requester_id''
         else if trim (deal_provider_id payload) = []
         then Inl ''deal provider_id must be non-empty''
         else if trim (deal_quote_hash payload) = []
         then Inl ''deal quote_hash must be non-empty''
         else if trim (deal_workload_hash payload) = []
         then Inl ''deal workload_hash must be non-empty''
         else if \<not> is_lower_hex_len (deal_success_payment_hash payload) 64
         then Inl ''deal success_payment_hash must be lowercase 32-byte hex''
         else if deal_completion_deadline payload \<le> deal_admission_deadline payload
         then Inl ''deal completion_deadline must be greater than admission_deadline''
         else if deal_acceptance_deadline payload < deal_completion_deadline payload
         then Inl ''deal acceptance_deadline must be greater than or equal to completion_deadline''
         else Inr ())"

definition validate_invoice_leg ::
  "crypto_env \<Rightarrow> string \<Rightarrow> invoice_bundle_leg \<Rightarrow> unit result" where
  "validate_invoice_leg cs name leg =
     (if trim (ibl_invoice_bolt11 leg) = []
      then Inl (''invoice_bundle '' @ name @ ''.invoice_bolt11 must be non-empty'')
      else if \<not> is_lower_hex_len (ibl_invoice_hash leg) 64
      then Inl (''invoice_bundle '' @ name @ ''.invoice_hash must be lowercase 32-byte hex'')
      else if \<not> is_lower_hex_len (ibl_payment_hash leg) 64
      then Inl (''invoice_bundle '' @ name @ ''.payment_hash must be lowercase 32-byte hex'')
      else if ibl_invoice_hash leg \<noteq> sha256_hex cs (ibl_invoice_bolt11 leg)
      then Inl (''invoice_bundle '' @ name @ ''.invoice_hash must equal SHA256(invoice_bolt11)'')
      else Inr ())"

definition validate_invoice_bundle_artifact ::
  "crypto_env \<Rightarrow> invoice_bundle_artifact \<Rightarrow> unit result" where
  "validate_invoice_bundle_artifact cs invoice_bundle =
     (let payload = art_payload invoice_bundle
      in if art_signer invoice_bundle \<noteq> ib_provider_id payload
         then Inl ''invoice_bundle signer does not match provider_id''
         else if trim (ib_requester_id payload) = []
         then Inl ''invoice_bundle requester_id must be non-empty''
         else if trim (ib_quote_hash payload) = []
         then Inl ''invoice_bundle quote_hash must be non-empty''
         else if trim (ib_deal_hash payload) = []
         then Inl ''invoice_bundle deal_hash must be non-empty''
         else if \<not> is_lower_hex_len (ib_destination_identity payload) 66
         then Inl ''invoice_bundle destination_identity must be compressed secp256k1 lowercase hex''
         else and_then (validate_invoice_leg cs ''base_fee'' (ib_base_fee payload)) (\<lambda>_.
              and_then (validate_invoice_leg cs ''success_fee'' (ib_success_fee payload)) (\<lambda>_.
         if ibl_state (ib_success_fee payload) \<noteq> IblOpen
         then Inl ''invoice_bundle success_fee.state must be open at issuance''
         else if ibl_state (ib_base_fee payload) \<noteq> IblOpen \<and>
           \<not> (ibl_amount_msat (ib_base_fee payload) = 0 \<and> ibl_state (ib_base_fee payload) = IblSettled)
         then Inl ''invoice_bundle base_fee.state must be open unless zero-valued and settled''
         else Inr ())))"

section \<open>Typed verification of a document\<close>

datatype verified_artifact =
    VDescriptor descriptor_artifact
  | VOffer offer_artifact
  | VQuote quote_artifact
  | VDeal deal_artifact
  | VInvoiceBundle invoice_bundle_artifact
  | VReceipt receipt_artifact

datatype verify_error =
    UnknownKind string
  | SignatureFailed
  | Decode string
  | Semantic string

text \<open>\<open>serde_json::from_value\<close> at the six artifact types.\<close>

record decoders =
  decode_descriptor :: "json \<Rightarrow> descriptor_artifact result"
  decode_offer :: "json \<Rightarrow> offer_artifact result"
  decode_quote :: "json \<Rightarrow> quote_artifact result"
  decode_deal :: "json \<Rightarrow> deal_artifact result"
  decode_invoice_bundle :: "json \<Rightarrow> invoice_bundle_artifact result"
  decode_receipt :: "json \<Rightarrow> receipt_artifact result"

definition require_typed_artifact_kind ::
  "'p signed_artifact \<Rightarrow> string \<Rightarrow> verify_error + unit" where
  "require_typed_artifact_kind artifact expected =
     (if art_type artifact \<noteq> expected
      then Inl (Semantic (expected @ '' artifact_type must be '' @ expected))
      else Inr ())"

text \<open>The block each arm of \<open>verify_typed_document\<close> repeats for its payload type.\<close>

definition verify_typed_arm ::
  "crypto_env \<Rightarrow> ('p \<Rightarrow> json) \<Rightarrow> 'p signed_artifact result \<Rightarrow> string
    \<Rightarrow> ('p signed_artifact \<Rightarrow> unit result) \<Rightarrow> ('p signed_artifact \<Rightarrow> verified_artifact)
    \<Rightarrow> verify_error + verified_artifact" where
  "verify_typed_arm cs to_value decoded expected validate wrap =
     and_then (map_err Decode decoded) (\<lambda>artifact.
     if \<not> verify_artifact cs to_value artifact then Inl SignatureFailed
     else and_then (require_typed_artifact_kind artifact expected) (\<lambda>_.
          and_then (map_err Semantic (validate artifact)) (\<lambda>_. Inr (wrap artifact))))"

definition verify_typed_document ::
  "crypto_env \<Rightarrow> decoders \<Rightarrow> json \<Rightarrow> string \<Rightarrow> verify_error + verified_artifact" where
  "verify_typed_document cs ds document artifact_kind =
     (if artifact_kind = ARTIFACT_TYPE_DESCRIPTOR
      then verify_typed_arm cs descriptor_value (decode_descriptor ds document)
             ARTIFACT_TYPE_DESCRIPTOR (validate_descriptor_artifact cs) VDescriptor
      else if artifact_kind = ARTIFACT_TYPE_OFFER
      then verify_typed_arm cs offer_value (decode_offer ds document)
             ARTIFACT_TYPE_OFFER validate_offer_artifact VOffer
      else if artifact_kind = ARTIFACT_TYPE_QUOTE
      then verify_typed_arm cs quote_value (decode_quote ds document)
             ARTIFACT_TYPE_QUOTE validate_quote_artifact VQuote
      else if artifact_kind = ARTIFACT_TYPE_DEAL
      then verify_typed_arm cs deal_value (decode_deal ds document)
             ARTIFACT_TYPE_DEAL validate_deal_artifact VDeal
      else if artifact_kind = TRANSPORT_TYPE_INVOICE_BUNDLE
      then verify_typed_arm cs invoice_bundle_value (decode_invoice_bundle ds document)
             TRANSPORT_TYPE_INVOICE_BUNDLE (validate_invoice_bundle_artifact cs) VInvoiceBundle
      else if artifact_kind = ARTIFACT_TYPE_RECEIPT
      then verify_typed_arm cs receipt_value (decode_receipt ds document)
             ARTIFACT_TYPE_RECEIPT (validate_receipt_artifact cs) VReceipt
      else Inl (UnknownKind artifact_kind))"

section \<open>The receipt rules as tables\<close>

text \<open>
  What \<open>docs/KERNEL.md\<close> states as rules: which execution states go with a deal state, which leg
  states go with a settlement state of each method, and which evidence each method's receipt
  carries.
\<close>

definition outcome_table :: "(string \<times> string) list" where
  "outcome_table =
     [(''rejected'', ''not_started''), (''succeeded'', ''succeeded''), (''failed'', ''failed''),
      (''canceled'', ''not_started''), (''canceled'', ''succeeded'')]"

definition leg_terminal :: "receipt_leg_state \<Rightarrow> bool" where
  "leg_terminal s = (s = RlSettled \<or> s = RlCanceled \<or> s = RlExpired)"

definition settlement_table ::
  "string \<Rightarrow> string \<Rightarrow> receipt_leg_state \<Rightarrow> receipt_leg_state \<Rightarrow> bool" where
  "settlement_table m st base success =
     (if m = SETTLEMENT_METHOD_LIGHTNING_ESCROW
      then leg_terminal base \<and>
        (st, success) \<in> {(''settled'', RlSettled), (''canceled'', RlCanceled), (''expired'', RlExpired)} \<and>
        (st = ''settled'' \<longrightarrow> base = RlSettled)
      else if m = SETTLEMENT_METHOD_NONE
      then st = ''none'' \<and> base = RlCanceled \<and> success = RlCanceled
      else is_paid_settlement_method m \<and> success = RlCanceled \<and>
        (st, base) \<in> {(''settled'', RlSettled), (''canceled'', RlCanceled)})"

definition preimage_proof :: "crypto_env \<Rightarrow> receipt_settlement_leg \<Rightarrow> bool" where
  "preimage_proof cs leg =
     (case (decode_hash32 cs (rsl_invoice_hash leg), decode_hash32 cs (rsl_payment_hash leg)) of
        (Some preimage, Some _) \<Rightarrow> sha256_hex cs preimage = to_ascii_lowercase (rsl_payment_hash leg)
      | _ \<Rightarrow> False)"

definition evidence_table :: "crypto_env \<Rightarrow> string \<Rightarrow> receipt_settlement_refs \<Rightarrow> bool" where
  "evidence_table cs st refs =
     (let m = refs_method refs; dest = refs_destination_identity refs;
          base = refs_base_fee refs; single_leg = receipt_leg_is_empty_canceled (refs_success_fee refs)
      in if m = SETTLEMENT_METHOD_LIGHTNING_ESCROW
         then str_or_default (refs_bundle_hash refs) \<noteq> [] \<and> dest \<noteq> []
         else if m = SETTLEMENT_METHOD_NONE
         then refs_bundle_hash refs = None \<and> dest = [] \<and> receipt_leg_is_empty_canceled base \<and> single_leg
         else if m = SETTLEMENT_METHOD_STRIPE_MPP
         then refs_bundle_hash refs = None \<and> dest = [] \<and> single_leg
         else if m = SETTLEMENT_METHOD_LIGHTNING_PREPAID
         then refs_bundle_hash refs = None \<and> is_lower_hex_len dest 66 \<and> single_leg \<and>
           (if st = ''settled'' then preimage_proof cs base else rsl_invoice_hash base = [])
         else is_lower_hex_len dest 40 \<and> single_leg \<and>
           (if st = ''settled''
            then is_lower_hex_len (str_or_default (refs_bundle_hash refs)) 64 \<and>
              is_lower_hex_len (rsl_payment_hash base) 64 \<and> is_lower_hex_len (rsl_invoice_hash base) 64
            else refs_bundle_hash refs = None \<and> rsl_invoice_hash base = []))"

definition receipt_rules :: "crypto_env \<Rightarrow> receipt_artifact \<Rightarrow> bool" where
  "receipt_rules cs receipt =
     (let p = art_payload receipt; refs = rcpt_settlement_refs p;
          executed = (rcpt_execution_state p = ''succeeded'')
      in art_signer receipt = rcpt_provider_id p \<and>
         (case rcpt_started_at p of None \<Rightarrow> True | Some t \<Rightarrow> t \<le> rcpt_finished_at p) \<and>
         (rcpt_result_hash p \<noteq> None) = executed \<and> (rcpt_result_format p \<noteq> None) = executed \<and>
         (rcpt_deal_state p, rcpt_execution_state p) \<in> set outcome_table \<and>
         settlement_table (refs_method refs) (rcpt_settlement_state p)
           (rsl_state (refs_base_fee refs)) (rsl_state (refs_success_fee refs)) \<and>
         evidence_table cs (rcpt_settlement_state p) refs \<and>
         (rcpt_deal_state p = ''succeeded'' \<and> refs_method refs \<noteq> SETTLEMENT_METHOD_NONE \<longrightarrow>
            rcpt_settlement_state p = ''settled''))"

section \<open>Lemmas: the receipt validator\<close>

lemma leg_open_or_accepted_iff: "leg_open_or_accepted s \<longleftrightarrow> \<not> leg_terminal s"
  by (cases s) (simp_all add: leg_open_or_accepted_def leg_terminal_def)

lemma receipt_signer_and_result_checks_ok:
  "receipt_signer_and_result_checks r = Inr () \<longleftrightarrow>
     art_signer r = rcpt_provider_id (art_payload r) \<and>
     (case rcpt_started_at (art_payload r) of None \<Rightarrow> True
      | Some t \<Rightarrow> t \<le> rcpt_finished_at (art_payload r)) \<and>
     (rcpt_result_hash (art_payload r) \<noteq> None)
       = (rcpt_execution_state (art_payload r) = ''succeeded'') \<and>
     (rcpt_result_format (art_payload r) \<noteq> None)
       = (rcpt_execution_state (art_payload r) = ''succeeded'')"
  by (auto simp: receipt_signer_and_result_checks_def Let_def split: option.splits if_splits)

lemma receipt_deal_state_checks_ok:
  "receipt_deal_state_checks p = Inr () \<longleftrightarrow>
     (rcpt_deal_state p, rcpt_execution_state p) \<in> set outcome_table"
  by (auto simp: receipt_deal_state_checks_def outcome_table_def)

lemmas receipt_block_defs =
  settlement_table_def evidence_table_def is_paid_settlement_method_def
  receipt_leg_is_empty_canceled_def leg_open_or_accepted_iff leg_terminal_def Let_def

lemma receipt_lightning_checks_ok:
  assumes "refs_method (rcpt_settlement_refs p) = SETTLEMENT_METHOD_LIGHTNING_ESCROW"
  shows "receipt_lightning_checks p = Inr () \<longleftrightarrow>
     settlement_table (refs_method (rcpt_settlement_refs p)) (rcpt_settlement_state p)
       (rsl_state (refs_base_fee (rcpt_settlement_refs p)))
       (rsl_state (refs_success_fee (rcpt_settlement_refs p))) \<and>
     evidence_table cs (rcpt_settlement_state p) (rcpt_settlement_refs p) \<and>
     (rcpt_deal_state p = ''succeeded'' \<longrightarrow> rcpt_settlement_state p = ''settled'')"
  using assms
  by (auto simp: receipt_lightning_checks_def receipt_block_defs and_then_unit_Inr split: if_splits)

lemma receipt_none_checks_ok:
  assumes "refs_method (rcpt_settlement_refs p) = SETTLEMENT_METHOD_NONE"
  shows "receipt_none_checks p = Inr () \<longleftrightarrow>
     settlement_table (refs_method (rcpt_settlement_refs p)) (rcpt_settlement_state p)
       (rsl_state (refs_base_fee (rcpt_settlement_refs p)))
       (rsl_state (refs_success_fee (rcpt_settlement_refs p))) \<and>
     evidence_table cs (rcpt_settlement_state p) (rcpt_settlement_refs p)"
  using assms by (auto simp: receipt_none_checks_def receipt_block_defs split: if_splits)

lemma receipt_stripe_checks_ok:
  assumes "refs_method (rcpt_settlement_refs p) = SETTLEMENT_METHOD_STRIPE_MPP"
  shows "receipt_stripe_checks p = Inr () \<longleftrightarrow>
     settlement_table (refs_method (rcpt_settlement_refs p)) (rcpt_settlement_state p)
       (rsl_state (refs_base_fee (rcpt_settlement_refs p)))
       (rsl_state (refs_success_fee (rcpt_settlement_refs p))) \<and>
     evidence_table cs (rcpt_settlement_state p) (rcpt_settlement_refs p) \<and>
     (rcpt_deal_state p = ''succeeded'' \<longrightarrow> rcpt_settlement_state p = ''settled'')"
  using assms
  by (auto simp: receipt_stripe_checks_def receipt_block_defs and_then_unit_Inr split: if_splits)

lemma receipt_prepaid_settled_checks_ok:
  "receipt_prepaid_settled_checks cs leg = Inr () \<longleftrightarrow> rsl_state leg = RlSettled \<and> preimage_proof cs leg"
  by (auto simp: receipt_prepaid_settled_checks_def preimage_proof_def ok_or_def and_then_def
      split: option.splits if_splits)

lemma receipt_prepaid_checks_ok:
  assumes "refs_method (rcpt_settlement_refs p) = SETTLEMENT_METHOD_LIGHTNING_PREPAID"
  shows "receipt_prepaid_checks cs p = Inr () \<longleftrightarrow>
     settlement_table (refs_method (rcpt_settlement_refs p)) (rcpt_settlement_state p)
       (rsl_state (refs_base_fee (rcpt_settlement_refs p)))
       (rsl_state (refs_success_fee (rcpt_settlement_refs p))) \<and>
     evidence_table cs (rcpt_settlement_state p) (rcpt_settlement_refs p) \<and>
     (rcpt_deal_state p = ''succeeded'' \<longrightarrow> rcpt_settlement_state p = ''settled'')"
  using assms
  by (auto simp: receipt_prepaid_checks_def receipt_prepaid_settled_checks_ok receipt_block_defs
      and_then_unit_Inr split: if_splits)

lemma receipt_x402_checks_ok:
  assumes "refs_method (rcpt_settlement_refs p) = SETTLEMENT_METHOD_X402_EIP3009"
  shows "receipt_x402_checks p = Inr () \<longleftrightarrow>
     settlement_table (refs_method (rcpt_settlement_refs p)) (rcpt_settlement_state p)
       (rsl_state (refs_base_fee (rcpt_settlement_refs p)))
       (rsl_state (refs_success_fee (rcpt_settlement_refs p))) \<and>
     evidence_table cs (rcpt_settlement_state p) (rcpt_settlement_refs p) \<and>
     (rcpt_deal_state p = ''succeeded'' \<longrightarrow> rcpt_settlement_state p = ''settled'')"
  using assms
  by (auto simp: receipt_x402_checks_def receipt_x402_settled_checks_def
      receipt_x402_canceled_checks_def receipt_block_defs and_then_unit_Inr split: if_splits)

lemma settlement_table_known:
  "settlement_table m st b c \<Longrightarrow> m = SETTLEMENT_METHOD_NONE \<or> is_paid_settlement_method m"
  by (auto simp: settlement_table_def is_paid_settlement_method_def split: if_splits)

lemmas validate_receipt_unfold =
  validate_receipt_artifact_def receipt_rules_def Let_def and_then_unit_Inr
  receipt_signer_and_result_checks_ok receipt_deal_state_checks_ok

lemma validate_receipt_ok: "validate_receipt_artifact cs r = Inr () \<longleftrightarrow> receipt_rules cs r"
proof -
  let ?m = "refs_method (rcpt_settlement_refs (art_payload r))"
  consider (lightning) "?m = SETTLEMENT_METHOD_LIGHTNING_ESCROW"
    | (none) "?m = SETTLEMENT_METHOD_NONE" | (stripe) "?m = SETTLEMENT_METHOD_STRIPE_MPP"
    | (prepaid) "?m = SETTLEMENT_METHOD_LIGHTNING_PREPAID"
    | (x402) "?m = SETTLEMENT_METHOD_X402_EIP3009"
    | (unknown) "?m \<noteq> SETTLEMENT_METHOD_NONE \<and> \<not> is_paid_settlement_method ?m"
    by (auto simp: is_paid_settlement_method_def)
  then show ?thesis
  proof cases
    case lightning
    then show ?thesis
      by (simp add: validate_receipt_unfold receipt_lightning_checks_ok [where cs = cs] conj_ac)
  next
    case none
    then show ?thesis
      by (simp add: validate_receipt_unfold receipt_none_checks_ok [where cs = cs] conj_ac)
  next
    case stripe
    then show ?thesis
      by (simp add: validate_receipt_unfold receipt_stripe_checks_ok [where cs = cs] conj_ac)
  next
    case prepaid
    then show ?thesis
      by (simp add: validate_receipt_unfold receipt_prepaid_checks_ok [where cs = cs] conj_ac)
  next
    case x402
    then show ?thesis
      by (simp add: validate_receipt_unfold receipt_x402_checks_ok [where cs = cs] conj_ac)
  next
    case unknown
    then have "\<not> settlement_table ?m st b c" for st b c using settlement_table_known by blast
    with unknown show ?thesis
      by (simp add: validate_receipt_unfold is_paid_settlement_method_def)
  qed
qed

lemma receipt_rules_legs:
  assumes "receipt_rules cs r"
  shows "leg_terminal (rsl_state (refs_base_fee (rcpt_settlement_refs (art_payload r))))"
    and "leg_terminal (rsl_state (refs_success_fee (rcpt_settlement_refs (art_payload r))))"
  using assms
  by (auto simp: receipt_rules_def settlement_table_def leg_terminal_def Let_def split: if_splits)

section \<open>Lemmas: the other validators\<close>

lemma validate_offer_ok:
  "validate_offer_artifact a = Inr () \<longleftrightarrow>
     art_signer a = offer_provider_id (art_payload a) \<and>
     trim (offer_id (art_payload a)) \<noteq> [] \<and> trim (offer_descriptor_hash (art_payload a)) \<noteq> [] \<and>
     (if price_base_fee_msat (offer_price_schedule (art_payload a)) = 0 \<and>
         price_success_fee_msat (offer_price_schedule (art_payload a)) = 0
      then offer_settlement_method (art_payload a) = SETTLEMENT_METHOD_NONE
      else is_paid_settlement_method (offer_settlement_method (art_payload a)) \<and>
        (offer_settlement_method (art_payload a) = SETTLEMENT_METHOD_LIGHTNING_ESCROW \<or>
         price_success_fee_msat (offer_price_schedule (art_payload a)) = 0))"
  by (auto simp: validate_offer_artifact_def Let_def split: if_splits)

definition quote_terms_rules :: "quote_settlement_terms \<Rightarrow> bool" where
  "quote_terms_rules t =
     (let m = terms_method t; dest = terms_destination_identity t
      in (if m = SETTLEMENT_METHOD_NONE
          then dest = [] \<and> terms_base_fee_msat t = 0
          else if m = SETTLEMENT_METHOD_STRIPE_MPP then dest = []
          else if m = SETTLEMENT_METHOD_X402_EIP3009 then is_lower_hex_len dest 40
          else is_paid_settlement_method m \<and> is_lower_hex_len dest 66) \<and>
         (m \<noteq> SETTLEMENT_METHOD_LIGHTNING_ESCROW \<longrightarrow> terms_success_fee_msat t = 0))"

lemma validate_quote_terms_ok: "validate_quote_settlement_terms t = Inr () \<longleftrightarrow> quote_terms_rules t"
  by (auto simp: validate_quote_settlement_terms_def quote_terms_rules_def
      is_paid_settlement_method_def Let_def split: if_splits)

lemma validate_quote_ok:
  "validate_quote_artifact a = Inr () \<longleftrightarrow>
     art_signer a = quote_provider_id (art_payload a) \<and>
     (\<forall>f\<in>{quote_requester_id, quote_descriptor_hash, quote_offer_hash, quote_workload_kind,
           quote_workload_hash}. trim (f (art_payload a)) \<noteq> []) \<and>
     quote_terms_rules (quote_settlement_terms (art_payload a))"
  by (auto simp: validate_quote_artifact_def validate_quote_terms_ok Let_def split: if_splits)

lemma validate_deal_ok:
  "validate_deal_artifact a = Inr () \<longleftrightarrow>
     art_signer a = deal_requester_id (art_payload a) \<and>
     (\<forall>f\<in>{deal_provider_id, deal_quote_hash, deal_workload_hash}. trim (f (art_payload a)) \<noteq> []) \<and>
     is_lower_hex_len (deal_success_payment_hash (art_payload a)) 64 \<and>
     deal_admission_deadline (art_payload a) < deal_completion_deadline (art_payload a) \<and>
     deal_completion_deadline (art_payload a) \<le> deal_acceptance_deadline (art_payload a)"
  by (auto simp: validate_deal_artifact_def Let_def split: if_splits)

lemma validate_invoice_leg_ok:
  "validate_invoice_leg cs name leg = Inr () \<longleftrightarrow>
     trim (ibl_invoice_bolt11 leg) \<noteq> [] \<and> is_lower_hex_len (ibl_invoice_hash leg) 64 \<and>
     is_lower_hex_len (ibl_payment_hash leg) 64 \<and>
     ibl_invoice_hash leg = sha256_hex cs (ibl_invoice_bolt11 leg)"
  by (auto simp: validate_invoice_leg_def)

lemma validate_invoice_bundle_ok:
  "validate_invoice_bundle_artifact cs a = Inr () \<longleftrightarrow>
     art_signer a = ib_provider_id (art_payload a) \<and>
     (\<forall>f\<in>{ib_requester_id, ib_quote_hash, ib_deal_hash}. trim (f (art_payload a)) \<noteq> []) \<and>
     is_lower_hex_len (ib_destination_identity (art_payload a)) 66 \<and>
     validate_invoice_leg cs ''base_fee'' (ib_base_fee (art_payload a)) = Inr () \<and>
     validate_invoice_leg cs ''success_fee'' (ib_success_fee (art_payload a)) = Inr () \<and>
     ibl_state (ib_success_fee (art_payload a)) = IblOpen \<and>
     (ibl_state (ib_base_fee (art_payload a)) = IblOpen \<or>
      ibl_amount_msat (ib_base_fee (art_payload a)) = 0 \<and>
      ibl_state (ib_base_fee (art_payload a)) = IblSettled)"
  by (auto simp: validate_invoice_bundle_artifact_def Let_def and_then_unit_Inr split: if_splits)

lemma validate_descriptor_ok:
  "validate_descriptor_artifact cs a = Inr () \<longleftrightarrow>
     art_signer a = desc_provider_id (art_payload a) \<and>
     desc_protocol_version (art_payload a) = FROGLET_SCHEMA_V1 \<and>
     (\<forall>li\<in>set (desc_linked_identities (art_payload a)).
        li_identity_kind li = LINKED_IDENTITY_KIND_NOSTR \<longrightarrow>
        validate_linked_nostr_identity cs (desc_provider_id (art_payload a)) li = Inr ())"
  by (auto simp: validate_descriptor_artifact_def for_each_Inr)

section \<open>Lemmas: linked identities\<close>

lemma link_challenge_fields:
  assumes laws: "hex_laws cs" "sha256_laws cs" "jcs_laws cs"
    and free: "CHR 0x0A \<notin> set p \<union> set k \<union> set i" "CHR 0x0A \<notin> set p' \<union> set k' \<union> set i'"
    and b: "linked_identity_challenge_bytes cs p k i sc t e = Inr b"
      "linked_identity_challenge_bytes cs p' k' i' sc' t' e' = Inr b"
  shows "p = p' \<and> k = k' \<and> i = i' \<and> t = t' \<and> e = e' \<and>
    linked_identity_scope_hash cs sc = linked_identity_scope_hash cs sc'"
proof -
  let ?nl = "CHR 0x0A"
  let ?fin = "\<lambda>e. case e of None \<Rightarrow> ''-'' | Some v \<Rightarrow> int_to_string v"
  from b obtain h h' where h: "linked_identity_scope_hash cs sc = Inr h"
      "linked_identity_scope_hash cs sc' = Inr h'"
    and eq: "p @ ?nl # k @ ?nl # i @ ?nl # h @ ?nl # int_to_string t @ ?nl # ?fin e =
      p' @ ?nl # k' @ ?nl # i' @ ?nl # h' @ ?nl # int_to_string t' @ ?nl # ?fin e'"
    by (auto simp: linked_identity_challenge_bytes_def and_then_Inr)
  have nh: "?nl \<notin> set h" "?nl \<notin> set h'"
    using h sha256_hex_lower(2) [OF laws(1,2)]
    by (auto simp: linked_identity_scope_hash_def dest!: newline_not_lower_hex)
  note split = split_at_separator [where c = ?nl]
  from free have fr: "?nl \<notin> set p" "?nl \<notin> set k" "?nl \<notin> set i" "?nl \<notin> set p'" "?nl \<notin> set k'"
    "?nl \<notin> set i'" by auto
  from split [OF eq fr(1,4)] have 1: "p = p'" and
    "k @ ?nl # i @ ?nl # h @ ?nl # int_to_string t @ ?nl # ?fin e =
     k' @ ?nl # i' @ ?nl # h' @ ?nl # int_to_string t' @ ?nl # ?fin e'" by blast+
  from split [OF this(2) fr(2,5)] have 2: "k = k'" and
    "i @ ?nl # h @ ?nl # int_to_string t @ ?nl # ?fin e =
     i' @ ?nl # h' @ ?nl # int_to_string t' @ ?nl # ?fin e'" by blast+
  from split [OF this(2) fr(3,6)] have 3: "i = i'" and
    "h @ ?nl # int_to_string t @ ?nl # ?fin e = h' @ ?nl # int_to_string t' @ ?nl # ?fin e'"
    by blast+
  from split [OF this(2) nh] have 4: "h = h'" and
    "int_to_string t @ ?nl # ?fin e = int_to_string t' @ ?nl # ?fin e'" by blast+
  from split [OF this(2) newline_not_int newline_not_int]
  have "t = t'" "e = e'"
    using int_to_string_not_dash int_to_string_not_dash [symmetric] by (auto split: option.splits)
  with 1 2 3 4 h show ?thesis by simp
qed

lemma scope_hash_binds:
  assumes laws: "hex_laws cs" "jcs_laws cs"
    and "linked_identity_scope_hash cs sc = linked_identity_scope_hash cs sc'"
  shows "sc = sc' \<or> sha256_collision cs (ok_bytes (jcs_to_vec cs (j_strs sc)))
    (ok_bytes (jcs_to_vec cs (j_strs sc')))"
proof -
  have ex: "exact_numbers (j_strs x)" for x by (simp add: j_strs_def list_all_iff)
  obtain x y where xy: "jcs_to_vec cs (j_strs sc) = Inr x" "jcs_to_vec cs (j_strs sc') = Inr y"
    using jcs_total [OF laws(2) wf_encoders(4) ex] by blast
  with assms have h: "sha256 cs x = sha256 cs y"
    by (simp add: linked_identity_scope_hash_def canonical_json_to_vec_def sha256_hex_collision)
  show ?thesis
  proof (cases "x = y")
    case True
    with xy laws(2) ex have "j_strs sc = j_strs sc'"
      unfolding jcs_laws_def by (metis wf_encoders(4))
    then show ?thesis by simp
  qed (use h xy in \<open>simp add: sha256_collision_def ok_bytes_def\<close>)
qed

lemma verified_signer_hex:
  assumes "hex_laws cs" and "verify_artifact cs to_value a"
  shows "list_all is_ascii_hexdigit (art_signer a)"
  using verify_artifactD(4) [OF assms(2)] assms(1)
  by (auto simp: verify_message_def hex_laws_def split: option.splits)

lemma validate_linked_nostr_identityD:
  assumes "validate_linked_nostr_identity cs p li = Inr ()"
  shows "is_lower_hex_len (li_identity li) 64" "li_scope li \<noteq> []"
    "\<forall>s\<in>set (li_scope li). starts_with s ''publication.''"
    "\<exists>b. linked_identity_challenge_bytes cs p (li_identity_kind li) (li_identity li) (li_scope li)
       (li_created_at li) (li_expires_at li) = Inr b \<and>
       verify_message cs (li_identity li) (li_linked_signature li) b"
  using assms
  by (auto simp: validate_linked_nostr_identity_def and_then_Inr list_ex_iff split: if_splits)

end
