(* ===== verification/Chain.thy ===== *)
theory Chain
  imports Kernel
begin

text \<open>
  \<open>froglet-protocol/src/protocol/chain.rs\<close>: the pairwise validators of the artifact chain
  (descriptor, offer, quote, invoice bundle, deal, receipt) and \<open>validate_full_chain\<close>. A check
  takes the report and returns it, extended by the issues it finds, as the source threads its
  \<open>&mut ChainValidationReport\<close>. The locale \<open>report_check\<close> is the contract every check meets (it
  keeps \<open>valid\<close> in step with the issues, only appends, and accepts exactly under its stated
  condition); composing checks is proved there once.
\<close>

section \<open>Issues and reports\<close>

abbreviation ISSUE_ARTIFACT_TYPE_MISMATCH :: string where
  "ISSUE_ARTIFACT_TYPE_MISMATCH \<equiv> ''artifact_type_mismatch''"

abbreviation ISSUE_ARTIFACT_ENVELOPE_INVALID :: string where
  "ISSUE_ARTIFACT_ENVELOPE_INVALID \<equiv> ''artifact_envelope_invalid''"

abbreviation ISSUE_ARTIFACT_SEMANTIC_INVALID :: string where
  "ISSUE_ARTIFACT_SEMANTIC_INVALID \<equiv> ''artifact_semantic_invalid''"

abbreviation ISSUE_ARTIFACT_EXPIRED :: string where
  "ISSUE_ARTIFACT_EXPIRED \<equiv> ''artifact_expired''"

abbreviation ISSUE_PROVIDER_MISMATCH :: string where
  "ISSUE_PROVIDER_MISMATCH \<equiv> ''provider_mismatch''"

abbreviation ISSUE_REQUESTER_MISMATCH :: string where
  "ISSUE_REQUESTER_MISMATCH \<equiv> ''requester_mismatch''"

abbreviation ISSUE_DESCRIPTOR_HASH_MISMATCH :: string where
  "ISSUE_DESCRIPTOR_HASH_MISMATCH \<equiv> ''descriptor_hash_mismatch''"

abbreviation ISSUE_OFFER_HASH_MISMATCH :: string where
  "ISSUE_OFFER_HASH_MISMATCH \<equiv> ''offer_hash_mismatch''"

abbreviation ISSUE_QUOTE_HASH_MISMATCH :: string where
  "ISSUE_QUOTE_HASH_MISMATCH \<equiv> ''quote_hash_mismatch''"

abbreviation ISSUE_DEAL_HASH_MISMATCH :: string where
  "ISSUE_DEAL_HASH_MISMATCH \<equiv> ''deal_hash_mismatch''"

abbreviation ISSUE_WORKLOAD_KIND_MISMATCH :: string where
  "ISSUE_WORKLOAD_KIND_MISMATCH \<equiv> ''workload_kind_mismatch''"

abbreviation ISSUE_WORKLOAD_HASH_MISMATCH :: string where
  "ISSUE_WORKLOAD_HASH_MISMATCH \<equiv> ''workload_hash_mismatch''"

abbreviation ISSUE_CONFIDENTIAL_SESSION_HASH_MISMATCH :: string where
  "ISSUE_CONFIDENTIAL_SESSION_HASH_MISMATCH \<equiv> ''confidential_session_hash_mismatch''"

abbreviation ISSUE_QUOTE_EXPIRY_EXCEEDS_OFFER :: string where
  "ISSUE_QUOTE_EXPIRY_EXCEEDS_OFFER \<equiv> ''quote_expiry_exceeds_offer''"

abbreviation ISSUE_SETTLEMENT_METHOD_MISMATCH :: string where
  "ISSUE_SETTLEMENT_METHOD_MISMATCH \<equiv> ''settlement_method_mismatch''"

abbreviation ISSUE_SETTLEMENT_TERMS_MISMATCH :: string where
  "ISSUE_SETTLEMENT_TERMS_MISMATCH \<equiv> ''settlement_terms_mismatch''"

abbreviation ISSUE_EXECUTION_LIMITS_EXCEED_OFFER :: string where
  "ISSUE_EXECUTION_LIMITS_EXCEED_OFFER \<equiv> ''execution_limits_exceed_offer''"

abbreviation ISSUE_DEADLINE_ORDER_INVALID :: string where
  "ISSUE_DEADLINE_ORDER_INVALID \<equiv> ''deadline_order_invalid''"

abbreviation ISSUE_DEADLINE_EXCEEDS_QUOTE :: string where
  "ISSUE_DEADLINE_EXCEEDS_QUOTE \<equiv> ''deadline_exceeds_quote''"

abbreviation ISSUE_INVOICE_BUNDLE_FOR_NON_LIGHTNING :: string where
  "ISSUE_INVOICE_BUNDLE_FOR_NON_LIGHTNING \<equiv> ''invoice_bundle_for_non_lightning_method''"

abbreviation ISSUE_INVOICE_AMOUNT_MISMATCH :: string where
  "ISSUE_INVOICE_AMOUNT_MISMATCH \<equiv> ''invoice_amount_mismatch''"

abbreviation ISSUE_INVOICE_DESTINATION_MISMATCH :: string where
  "ISSUE_INVOICE_DESTINATION_MISMATCH \<equiv> ''invoice_destination_mismatch''"

abbreviation ISSUE_INVOICE_SUCCESS_PAYMENT_HASH_MISMATCH :: string where
  "ISSUE_INVOICE_SUCCESS_PAYMENT_HASH_MISMATCH \<equiv> ''invoice_success_payment_hash_mismatch''"

abbreviation ISSUE_INVOICE_MIN_CLTV_MISMATCH :: string where
  "ISSUE_INVOICE_MIN_CLTV_MISMATCH \<equiv> ''invoice_min_cltv_mismatch''"

abbreviation ISSUE_INVOICE_HASH_MISMATCH :: string where
  "ISSUE_INVOICE_HASH_MISMATCH \<equiv> ''invoice_hash_mismatch''"

abbreviation ISSUE_INVOICE_EXPIRY_EXCEEDS_DEAL :: string where
  "ISSUE_INVOICE_EXPIRY_EXCEEDS_DEAL \<equiv> ''invoice_expiry_exceeds_deal''"

abbreviation ISSUE_INVOICE_BUNDLE_REQUIRED_FOR_LIGHTNING :: string where
  "ISSUE_INVOICE_BUNDLE_REQUIRED_FOR_LIGHTNING \<equiv> ''invoice_bundle_required_for_lightning_method''"

abbreviation ISSUE_RECEIPT_BUNDLE_HASH_MISMATCH :: string where
  "ISSUE_RECEIPT_BUNDLE_HASH_MISMATCH \<equiv> ''receipt_bundle_hash_mismatch''"

abbreviation ISSUE_INVOICE_PAYMENT_HASH_MISMATCH :: string where
  "ISSUE_INVOICE_PAYMENT_HASH_MISMATCH \<equiv> ''invoice_payment_hash_mismatch''"

abbreviation ISSUE_INVOICE_STATE_MISMATCH :: string where
  "ISSUE_INVOICE_STATE_MISMATCH \<equiv> ''invoice_state_mismatch''"

datatype chain_path =
    DescriptorOffer
  | OfferQuote
  | QuoteDeal
  | QuoteInvoiceBundleDeal
  | QuoteDealReceipt

record chain_validation_issue =
  issue_code :: string
  issue_artifact_type :: string
  issue_message :: string

record chain_validation_report =
  rep_path :: chain_path
  rep_valid :: bool
  rep_issues :: "chain_validation_issue list"
  rep_warnings :: "chain_validation_issue list"

type_synonym report = chain_validation_report

definition new_report :: "chain_path \<Rightarrow> report" where
  "new_report path = \<lparr>rep_path = path, rep_valid = True, rep_issues = [], rep_warnings = []\<rparr>"

definition push_issue :: "string \<Rightarrow> string \<Rightarrow> string \<Rightarrow> report \<Rightarrow> report" where
  "push_issue code artifact_type message report =
     report\<lparr>rep_valid := False,
            rep_issues := rep_issues report @
              [\<lparr>issue_code = code, issue_artifact_type = artifact_type, issue_message = message\<rparr>]\<rparr>"

text \<open>\<open>if cond { report.push_issue(..) }\<close> and \<open>if let Err(message) = r { report.push_issue(.., message) }\<close>.\<close>

definition push_if :: "bool \<Rightarrow> string \<Rightarrow> string \<Rightarrow> string \<Rightarrow> report \<Rightarrow> report" where
  "push_if cond code artifact_type message report =
     (if cond then push_issue code artifact_type message report else report)"

definition push_err :: "unit result \<Rightarrow> string \<Rightarrow> string \<Rightarrow> report \<Rightarrow> report" where
  "push_err r code artifact_type report =
     (case r of Inl message \<Rightarrow> push_issue code artifact_type message report | Inr _ \<Rightarrow> report)"

section \<open>Checks of one artifact\<close>

definition verify_common_artifact ::
  "crypto_env \<Rightarrow> ('p \<Rightarrow> json) \<Rightarrow> 'p signed_artifact \<Rightarrow> string \<Rightarrow> report \<Rightarrow> report" where
  "verify_common_artifact cs to_value artifact expected_artifact_type report =
     (let report = push_if (art_type artifact \<noteq> expected_artifact_type)
            ISSUE_ARTIFACT_TYPE_MISMATCH expected_artifact_type
            (''expected artifact_type '' @ expected_artifact_type @ '', got '' @ art_type artifact)
            report
      in push_if (\<not> verify_artifact cs to_value artifact)
           ISSUE_ARTIFACT_ENVELOPE_INVALID expected_artifact_type
           ''artifact envelope hash, payload hash, schema version, or signature is invalid''
           report)"

definition verify_descriptor_envelope ::
  "crypto_env \<Rightarrow> descriptor_artifact \<Rightarrow> report \<Rightarrow> report" where
  "verify_descriptor_envelope cs descriptor =
     verify_common_artifact cs descriptor_value descriptor ARTIFACT_TYPE_DESCRIPTOR"

definition verify_offer_envelope :: "crypto_env \<Rightarrow> offer_artifact \<Rightarrow> report \<Rightarrow> report" where
  "verify_offer_envelope cs offer = verify_common_artifact cs offer_value offer ARTIFACT_TYPE_OFFER"

definition verify_quote_envelope :: "crypto_env \<Rightarrow> quote_artifact \<Rightarrow> report \<Rightarrow> report" where
  "verify_quote_envelope cs quote = verify_common_artifact cs quote_value quote ARTIFACT_TYPE_QUOTE"

definition verify_deal_envelope :: "crypto_env \<Rightarrow> deal_artifact \<Rightarrow> report \<Rightarrow> report" where
  "verify_deal_envelope cs deal = verify_common_artifact cs deal_value deal ARTIFACT_TYPE_DEAL"

definition verify_invoice_bundle_envelope ::
  "crypto_env \<Rightarrow> invoice_bundle_artifact \<Rightarrow> report \<Rightarrow> report" where
  "verify_invoice_bundle_envelope cs invoice_bundle =
     verify_common_artifact cs invoice_bundle_value invoice_bundle TRANSPORT_TYPE_INVOICE_BUNDLE"

definition verify_receipt_envelope :: "crypto_env \<Rightarrow> receipt_artifact \<Rightarrow> report \<Rightarrow> report" where
  "verify_receipt_envelope cs receipt =
     verify_common_artifact cs receipt_value receipt ARTIFACT_TYPE_RECEIPT"

text \<open>\<open>if let (Some(now), Some(expires_at)) = (now, e) && expires_at < now\<close>.\<close>

definition expired :: "i64 option \<Rightarrow> i64 option \<Rightarrow> bool" where
  "expired now e = (case (now, e) of (Some n, Some expires_at) \<Rightarrow> expires_at < n | _ \<Rightarrow> False)"

definition validate_descriptor_semantics ::
  "crypto_env \<Rightarrow> descriptor_artifact \<Rightarrow> i64 option \<Rightarrow> report \<Rightarrow> report" where
  "validate_descriptor_semantics cs descriptor now report =
     (let report = push_err (validate_descriptor_artifact cs descriptor)
            ISSUE_ARTIFACT_SEMANTIC_INVALID ARTIFACT_TYPE_DESCRIPTOR report
      in push_if (expired now (desc_expires_at (art_payload descriptor)))
           ISSUE_ARTIFACT_EXPIRED ARTIFACT_TYPE_DESCRIPTOR
           ''descriptor expires_at is earlier than now'' report)"

definition is_known_paid_settlement_method :: "string \<Rightarrow> bool" where
  "is_known_paid_settlement_method m =
     (m = SETTLEMENT_METHOD_LIGHTNING_ESCROW \<or> m = SETTLEMENT_METHOD_STRIPE_MPP \<or>
      m = SETTLEMENT_METHOD_LIGHTNING_PREPAID \<or> m = SETTLEMENT_METHOD_X402_EIP3009)"

definition validate_offer_settlement :: "offer_artifact \<Rightarrow> report \<Rightarrow> report" where
  "validate_offer_settlement offer report =
     (let price = offer_price_schedule (art_payload offer);
          fees_are_zero = (price_base_fee_msat price = 0 \<and> price_success_fee_msat price = 0)
      in if fees_are_zero \<and> offer_settlement_method (art_payload offer) \<noteq> SETTLEMENT_METHOD_NONE
         then push_issue ISSUE_ARTIFACT_SEMANTIC_INVALID ARTIFACT_TYPE_OFFER
           ''zero-fee offers must use settlement_method none'' report
         else if \<not> fees_are_zero \<and>
           \<not> is_known_paid_settlement_method (offer_settlement_method (art_payload offer))
         then push_issue ISSUE_ARTIFACT_SEMANTIC_INVALID ARTIFACT_TYPE_OFFER
           ''paid offers must use a known paid settlement method'' report
         else report)"

definition validate_offer_semantics ::
  "offer_artifact \<Rightarrow> i64 option \<Rightarrow> report \<Rightarrow> report" where
  "validate_offer_semantics offer now report =
     (let report = push_err (validate_offer_artifact offer)
            ISSUE_ARTIFACT_SEMANTIC_INVALID ARTIFACT_TYPE_OFFER report;
          report = validate_offer_settlement offer report
      in push_if (expired now (offer_expires_at (art_payload offer)))
           ISSUE_ARTIFACT_EXPIRED ARTIFACT_TYPE_OFFER
           ''offer expires_at is earlier than now'' report)"

definition validate_quote_semantics ::
  "quote_artifact \<Rightarrow> i64 option \<Rightarrow> report \<Rightarrow> report" where
  "validate_quote_semantics quote now report =
     (let report = push_err (validate_quote_artifact quote)
            ISSUE_ARTIFACT_SEMANTIC_INVALID ARTIFACT_TYPE_QUOTE report
      in push_if (expired now (Some (quote_expires_at (art_payload quote))))
           ISSUE_ARTIFACT_EXPIRED ARTIFACT_TYPE_QUOTE
           ''quote expires_at is earlier than now'' report)"

definition validate_deal_semantics :: "deal_artifact \<Rightarrow> report \<Rightarrow> report" where
  "validate_deal_semantics deal report =
     push_err (validate_deal_artifact deal) ISSUE_ARTIFACT_SEMANTIC_INVALID ARTIFACT_TYPE_DEAL report"

definition validate_invoice_bundle_semantics ::
  "crypto_env \<Rightarrow> invoice_bundle_artifact \<Rightarrow> i64 option \<Rightarrow> report \<Rightarrow> report" where
  "validate_invoice_bundle_semantics cs invoice_bundle now report =
     (let report = push_err (validate_invoice_bundle_artifact cs invoice_bundle)
            ISSUE_ARTIFACT_SEMANTIC_INVALID TRANSPORT_TYPE_INVOICE_BUNDLE report
      in push_if (expired now (Some (ib_expires_at (art_payload invoice_bundle))))
           ISSUE_ARTIFACT_EXPIRED TRANSPORT_TYPE_INVOICE_BUNDLE
           ''invoice_bundle expires_at is earlier than now'' report)"

definition validate_receipt_semantics ::
  "crypto_env \<Rightarrow> receipt_artifact \<Rightarrow> report \<Rightarrow> report" where
  "validate_receipt_semantics cs receipt report =
     push_err (validate_receipt_artifact cs receipt)
       ISSUE_ARTIFACT_SEMANTIC_INVALID ARTIFACT_TYPE_RECEIPT report"

section \<open>Links between artifacts\<close>

definition limits_within_offer :: "execution_limits \<Rightarrow> offer_artifact \<Rightarrow> bool" where
  "limits_within_offer limits offer =
     (let profile = offer_execution_profile (art_payload offer)
      in lim_max_input_bytes limits \<le> prof_max_input_bytes profile \<and>
         lim_max_runtime_ms limits \<le> prof_max_runtime_ms profile \<and>
         lim_max_memory_bytes limits \<le> prof_max_memory_bytes profile \<and>
         lim_max_output_bytes limits \<le> prof_max_output_bytes profile \<and>
         lim_fuel_limit limits \<le> prof_fuel_limit profile)"

definition limits_within_quote :: "execution_limits \<Rightarrow> quote_artifact \<Rightarrow> bool" where
  "limits_within_quote limits quote =
     (let bound = quote_execution_limits (art_payload quote)
      in lim_max_input_bytes limits \<le> lim_max_input_bytes bound \<and>
         lim_max_runtime_ms limits \<le> lim_max_runtime_ms bound \<and>
         lim_max_memory_bytes limits \<le> lim_max_memory_bytes bound \<and>
         lim_max_output_bytes limits \<le> lim_max_output_bytes bound \<and>
         lim_fuel_limit limits \<le> lim_fuel_limit bound)"

definition validate_invoice_leg_hash_link ::
  "crypto_env \<Rightarrow> invoice_bundle_leg \<Rightarrow> report \<Rightarrow> report" where
  "validate_invoice_leg_hash_link cs leg =
     push_if (ibl_invoice_hash leg \<noteq> sha256_hex cs (ibl_invoice_bolt11 leg))
       ISSUE_INVOICE_HASH_MISMATCH TRANSPORT_TYPE_INVOICE_BUNDLE
       ''invoice leg invoice_hash must equal SHA256(invoice_bolt11)''"

definition validate_offer_quote_links ::
  "offer_artifact \<Rightarrow> quote_artifact \<Rightarrow> report \<Rightarrow> report" where
  "validate_offer_quote_links offer quote report =
     (let op = art_payload offer; qp = art_payload quote; terms = quote_settlement_terms qp;
          report = push_if
            (quote_provider_id qp \<noteq> offer_provider_id op)
            ISSUE_PROVIDER_MISMATCH ARTIFACT_TYPE_QUOTE
            ''quote provider_id must match offer provider_id'' report;
          report = push_if
            (quote_descriptor_hash qp \<noteq> offer_descriptor_hash op)
            ISSUE_DESCRIPTOR_HASH_MISMATCH ARTIFACT_TYPE_QUOTE
            ''quote descriptor_hash must match offer descriptor_hash'' report;
          report = push_if
            (quote_offer_hash qp \<noteq> art_hash offer)
            ISSUE_OFFER_HASH_MISMATCH ARTIFACT_TYPE_QUOTE
            ''quote offer_hash must match offer hash'' report;
          report = push_if
            (case offer_expires_at op of None \<Rightarrow> False | Some e \<Rightarrow> e < quote_expires_at qp)
            ISSUE_QUOTE_EXPIRY_EXCEEDS_OFFER ARTIFACT_TYPE_QUOTE
            ''quote expires_at must not exceed offer expires_at'' report;
          report = push_if
            (quote_workload_kind qp \<noteq> offer_kind op)
            ISSUE_WORKLOAD_KIND_MISMATCH ARTIFACT_TYPE_QUOTE
            ''quote workload_kind must match offer offer_kind'' report;
          report = push_if
            (terms_method terms \<noteq> offer_settlement_method op)
            ISSUE_SETTLEMENT_METHOD_MISMATCH ARTIFACT_TYPE_QUOTE
            ''quote settlement_terms.method must match offer settlement_method'' report;
          report = push_if
            (terms_base_fee_msat terms \<noteq> price_base_fee_msat (offer_price_schedule op) \<or>
             terms_success_fee_msat terms \<noteq> price_success_fee_msat (offer_price_schedule op))
            ISSUE_SETTLEMENT_TERMS_MISMATCH ARTIFACT_TYPE_QUOTE
            ''quote settlement fee amounts must match offer price_schedule'' report
      in push_if
            (\<not> limits_within_offer (quote_execution_limits qp) offer)
            ISSUE_EXECUTION_LIMITS_EXCEED_OFFER ARTIFACT_TYPE_QUOTE
            ''quote execution_limits must not exceed offer execution_profile maxima'' report)"

definition validate_quote_deal_links ::
  "quote_artifact \<Rightarrow> deal_artifact \<Rightarrow> report \<Rightarrow> report" where
  "validate_quote_deal_links quote deal report =
     (let qp = art_payload quote; dp = art_payload deal;
          report = push_if
            (deal_provider_id dp \<noteq> quote_provider_id qp)
            ISSUE_PROVIDER_MISMATCH ARTIFACT_TYPE_DEAL
            ''deal provider_id must match quote provider_id'' report;
          report = push_if
            (deal_requester_id dp \<noteq> quote_requester_id qp)
            ISSUE_REQUESTER_MISMATCH ARTIFACT_TYPE_DEAL
            ''deal requester_id must match quote requester_id'' report;
          report = push_if
            (deal_quote_hash dp \<noteq> art_hash quote)
            ISSUE_QUOTE_HASH_MISMATCH ARTIFACT_TYPE_DEAL
            ''deal quote_hash must match quote hash'' report;
          report = push_if
            (deal_workload_hash dp \<noteq> quote_workload_hash qp)
            ISSUE_WORKLOAD_HASH_MISMATCH ARTIFACT_TYPE_DEAL
            ''deal workload_hash must match quote workload_hash'' report;
          report = push_if
            (deal_confidential_session_hash dp \<noteq> quote_confidential_session_hash qp)
            ISSUE_CONFIDENTIAL_SESSION_HASH_MISMATCH ARTIFACT_TYPE_DEAL
            ''deal confidential_session_hash must match quote confidential_session_hash'' report;
          report = push_if
            (quote_expires_at qp < deal_admission_deadline dp)
            ISSUE_DEADLINE_EXCEEDS_QUOTE ARTIFACT_TYPE_DEAL
            ''deal admission_deadline must not exceed quote expires_at'' report
      in push_if
            (deal_completion_deadline dp \<le> deal_admission_deadline dp \<or>
             deal_acceptance_deadline dp < deal_completion_deadline dp)
            ISSUE_DEADLINE_ORDER_INVALID ARTIFACT_TYPE_DEAL
            ''deal deadlines must satisfy admission < completion <= acceptance'' report)"

definition validate_invoice_bundle_links ::
  "crypto_env \<Rightarrow> quote_artifact \<Rightarrow> invoice_bundle_artifact \<Rightarrow> deal_artifact \<Rightarrow> report \<Rightarrow> report" where
  "validate_invoice_bundle_links cs quote invoice_bundle deal report =
     (let qp = art_payload quote; terms = quote_settlement_terms qp;
          ip = art_payload invoice_bundle; dp = art_payload deal;
          report = push_if
            (terms_method terms \<noteq> SETTLEMENT_METHOD_LIGHTNING_ESCROW)
            ISSUE_INVOICE_BUNDLE_FOR_NON_LIGHTNING TRANSPORT_TYPE_INVOICE_BUNDLE
            ''invoice_bundle is only valid for lightning.base_fee_plus_success_fee.v1 quotes'' report;
          report = push_if
            (ib_provider_id ip \<noteq> quote_provider_id qp \<or> ib_provider_id ip \<noteq> deal_provider_id dp)
            ISSUE_PROVIDER_MISMATCH TRANSPORT_TYPE_INVOICE_BUNDLE
            ''invoice_bundle provider_id must match quote and deal provider_id'' report;
          report = push_if
            (ib_requester_id ip \<noteq> quote_requester_id qp \<or> ib_requester_id ip \<noteq> deal_requester_id dp)
            ISSUE_REQUESTER_MISMATCH TRANSPORT_TYPE_INVOICE_BUNDLE
            ''invoice_bundle requester_id must match quote and deal requester_id'' report;
          report = push_if
            (ib_quote_hash ip \<noteq> art_hash quote)
            ISSUE_QUOTE_HASH_MISMATCH TRANSPORT_TYPE_INVOICE_BUNDLE
            ''invoice_bundle quote_hash must match quote hash'' report;
          report = push_if
            (ib_deal_hash ip \<noteq> art_hash deal)
            ISSUE_DEAL_HASH_MISMATCH TRANSPORT_TYPE_INVOICE_BUNDLE
            ''invoice_bundle deal_hash must match deal hash'' report;
          report = push_if
            (ib_destination_identity ip \<noteq> terms_destination_identity terms)
            ISSUE_INVOICE_DESTINATION_MISMATCH TRANSPORT_TYPE_INVOICE_BUNDLE
            ''invoice_bundle destination_identity must match quote settlement terms'' report;
          report = push_if
            (ibl_amount_msat (ib_base_fee ip) \<noteq> terms_base_fee_msat terms \<or>
             ibl_amount_msat (ib_success_fee ip) \<noteq> terms_success_fee_msat terms)
            ISSUE_INVOICE_AMOUNT_MISMATCH TRANSPORT_TYPE_INVOICE_BUNDLE
            ''invoice_bundle fee amounts must match quote settlement terms'' report;
          report = push_if
            (ibl_payment_hash (ib_success_fee ip) \<noteq> deal_success_payment_hash dp)
            ISSUE_INVOICE_SUCCESS_PAYMENT_HASH_MISMATCH TRANSPORT_TYPE_INVOICE_BUNDLE
            ''invoice_bundle success_fee.payment_hash must match deal success_payment_hash'' report;
          report = push_if
            (ib_min_final_cltv_expiry ip \<noteq> terms_min_final_cltv_expiry terms)
            ISSUE_INVOICE_MIN_CLTV_MISMATCH TRANSPORT_TYPE_INVOICE_BUNDLE
            ''invoice_bundle min_final_cltv_expiry must match quote settlement terms'' report;
          report = push_if
            (quote_expires_at qp < ib_expires_at ip)
            ISSUE_DEADLINE_EXCEEDS_QUOTE TRANSPORT_TYPE_INVOICE_BUNDLE
            ''invoice_bundle expires_at must not exceed quote expires_at'' report;
          report = push_if
            (deal_admission_deadline dp < ib_expires_at ip)
            ISSUE_INVOICE_EXPIRY_EXCEEDS_DEAL TRANSPORT_TYPE_INVOICE_BUNDLE
            ''invoice_bundle expires_at must not exceed deal admission_deadline'' report;
          report = validate_invoice_leg_hash_link cs (ib_base_fee ip) report
      in validate_invoice_leg_hash_link cs (ib_success_fee ip) report)"

definition validate_receipt_links ::
  "quote_artifact \<Rightarrow> deal_artifact \<Rightarrow> receipt_artifact \<Rightarrow> report \<Rightarrow> report" where
  "validate_receipt_links quote deal receipt report =
     (let qp = art_payload quote; terms = quote_settlement_terms qp; dp = art_payload deal;
          rp = art_payload receipt; refs = rcpt_settlement_refs rp;
          report = push_if
            (rcpt_provider_id rp \<noteq> quote_provider_id qp \<or> rcpt_provider_id rp \<noteq> deal_provider_id dp)
            ISSUE_PROVIDER_MISMATCH ARTIFACT_TYPE_RECEIPT
            ''receipt provider_id must match quote and deal provider_id'' report;
          report = push_if
            (rcpt_requester_id rp \<noteq> quote_requester_id qp \<or> rcpt_requester_id rp \<noteq> deal_requester_id dp)
            ISSUE_REQUESTER_MISMATCH ARTIFACT_TYPE_RECEIPT
            ''receipt requester_id must match quote and deal requester_id'' report;
          report = push_if
            (rcpt_quote_hash rp \<noteq> art_hash quote \<or> rcpt_quote_hash rp \<noteq> deal_quote_hash dp)
            ISSUE_QUOTE_HASH_MISMATCH ARTIFACT_TYPE_RECEIPT
            ''receipt quote_hash must match quote hash and deal quote_hash'' report;
          report = push_if
            (rcpt_deal_hash rp \<noteq> art_hash deal)
            ISSUE_DEAL_HASH_MISMATCH ARTIFACT_TYPE_RECEIPT
            ''receipt deal_hash must match deal hash'' report;
          report = push_if
            (rcpt_confidential_session_hash rp \<noteq> quote_confidential_session_hash qp \<or>
             rcpt_confidential_session_hash rp \<noteq> deal_confidential_session_hash dp)
            ISSUE_CONFIDENTIAL_SESSION_HASH_MISMATCH ARTIFACT_TYPE_RECEIPT
            ''receipt confidential_session_hash must match quote and deal confidential_session_hash'' report;
          report = push_if
            (refs_method refs \<noteq> terms_method terms)
            ISSUE_SETTLEMENT_METHOD_MISMATCH ARTIFACT_TYPE_RECEIPT
            ''receipt settlement_refs.method must match quote settlement terms'' report;
          report = push_if
            (rsl_amount_msat (refs_base_fee refs) \<noteq> terms_base_fee_msat terms \<or>
             rsl_amount_msat (refs_success_fee refs) \<noteq> terms_success_fee_msat terms)
            ISSUE_SETTLEMENT_TERMS_MISMATCH ARTIFACT_TYPE_RECEIPT
            ''receipt settlement fee amounts must match quote settlement terms'' report;
          report = push_if
            (refs_destination_identity refs \<noteq> terms_destination_identity terms)
            ISSUE_INVOICE_DESTINATION_MISMATCH ARTIFACT_TYPE_RECEIPT
            ''receipt destination_identity must match quote settlement terms'' report
      in push_if
            (\<not> limits_within_quote (rcpt_limits_applied rp) quote)
            ISSUE_EXECUTION_LIMITS_EXCEED_OFFER ARTIFACT_TYPE_RECEIPT
            ''receipt limits_applied must not exceed quote execution_limits'' report)"

definition validate_receipt_invoice_bundle_links ::
  "invoice_bundle_artifact \<Rightarrow> deal_artifact \<Rightarrow> receipt_artifact \<Rightarrow> report \<Rightarrow> report" where
  "validate_receipt_invoice_bundle_links invoice_bundle deal receipt report =
     (let ip = art_payload invoice_bundle; rp = art_payload receipt;
          settlement_refs = rcpt_settlement_refs rp;
          base = refs_base_fee settlement_refs; success = refs_success_fee settlement_refs;
          base_fee_must_be_settled =
            (rcpt_settlement_state rp = ''settled'' \<or> rcpt_execution_state rp \<noteq> ''not_started'');
          success_fee_must_be_settled = (rcpt_settlement_state rp = ''settled'');
          report = push_if
            (refs_bundle_hash settlement_refs \<noteq> Some (art_hash invoice_bundle))
            ISSUE_RECEIPT_BUNDLE_HASH_MISMATCH ARTIFACT_TYPE_RECEIPT
            ''receipt bundle_hash must match the invoice_bundle hash'' report;
          report = push_if
            (rsl_amount_msat base \<noteq> ibl_amount_msat (ib_base_fee ip) \<or>
             rsl_amount_msat success \<noteq> ibl_amount_msat (ib_success_fee ip))
            ISSUE_INVOICE_AMOUNT_MISMATCH ARTIFACT_TYPE_RECEIPT
            ''receipt settlement amounts must match the invoice_bundle legs'' report;
          report = push_if
            (rsl_invoice_hash base \<noteq> ibl_invoice_hash (ib_base_fee ip) \<or>
             rsl_invoice_hash success \<noteq> ibl_invoice_hash (ib_success_fee ip))
            ISSUE_INVOICE_HASH_MISMATCH ARTIFACT_TYPE_RECEIPT
            ''receipt invoice hashes must match the invoice_bundle legs'' report;
          report = push_if
            (rsl_payment_hash base \<noteq> ibl_payment_hash (ib_base_fee ip) \<or>
             rsl_payment_hash success \<noteq> ibl_payment_hash (ib_success_fee ip))
            ISSUE_INVOICE_PAYMENT_HASH_MISMATCH ARTIFACT_TYPE_RECEIPT
            ''receipt payment hashes must match the invoice_bundle legs'' report;
          report = push_if
            (rsl_payment_hash success \<noteq> deal_success_payment_hash (art_payload deal))
            ISSUE_INVOICE_SUCCESS_PAYMENT_HASH_MISMATCH ARTIFACT_TYPE_RECEIPT
            ''receipt success_fee.payment_hash must match deal success_payment_hash'' report
      in push_if
            (base_fee_must_be_settled \<and> rsl_state base \<noteq> RlSettled \<or>
             success_fee_must_be_settled \<and> rsl_state success \<noteq> RlSettled)
            ISSUE_INVOICE_STATE_MISMATCH ARTIFACT_TYPE_RECEIPT
            ''settled or executed lightning receipts require the corresponding invoice legs to be settled'' report)"

section \<open>The pairwise validators\<close>

definition validate_descriptor_offer ::
  "crypto_env \<Rightarrow> descriptor_artifact \<Rightarrow> offer_artifact \<Rightarrow> i64 option \<Rightarrow> report" where
  "validate_descriptor_offer cs descriptor offer now =
     (let report = new_report DescriptorOffer;
          report = verify_descriptor_envelope cs descriptor report;
          report = verify_offer_envelope cs offer report;
          report = validate_descriptor_semantics cs descriptor now report;
          report = validate_offer_semantics offer now report;
          report = push_if
            (offer_provider_id (art_payload offer) \<noteq> desc_provider_id (art_payload descriptor))
            ISSUE_PROVIDER_MISMATCH ARTIFACT_TYPE_OFFER
            ''offer provider_id must match descriptor provider_id'' report
      in push_if (offer_descriptor_hash (art_payload offer) \<noteq> art_hash descriptor)
           ISSUE_DESCRIPTOR_HASH_MISMATCH ARTIFACT_TYPE_OFFER
           ''offer descriptor_hash must match descriptor hash'' report)"

definition validate_offer_quote ::
  "crypto_env \<Rightarrow> offer_artifact \<Rightarrow> quote_artifact \<Rightarrow> i64 option \<Rightarrow> report" where
  "validate_offer_quote cs offer quote now =
     (let report = new_report OfferQuote;
          report = verify_offer_envelope cs offer report;
          report = verify_quote_envelope cs quote report;
          report = validate_offer_semantics offer now report;
          report = validate_quote_semantics quote now report
      in validate_offer_quote_links offer quote report)"

definition validate_quote_deal ::
  "crypto_env \<Rightarrow> quote_artifact \<Rightarrow> deal_artifact \<Rightarrow> i64 option \<Rightarrow> report" where
  "validate_quote_deal cs quote deal now =
     (let report = new_report QuoteDeal;
          report = verify_quote_envelope cs quote report;
          report = verify_deal_envelope cs deal report;
          report = validate_quote_semantics quote now report;
          report = validate_deal_semantics deal report
      in validate_quote_deal_links quote deal report)"

definition validate_quote_invoice_bundle_deal ::
  "crypto_env \<Rightarrow> quote_artifact \<Rightarrow> invoice_bundle_artifact \<Rightarrow> deal_artifact \<Rightarrow> i64 option \<Rightarrow> report" where
  "validate_quote_invoice_bundle_deal cs quote invoice_bundle deal now =
     (let report = new_report QuoteInvoiceBundleDeal;
          report = verify_quote_envelope cs quote report;
          report = verify_invoice_bundle_envelope cs invoice_bundle report;
          report = verify_deal_envelope cs deal report;
          report = validate_quote_semantics quote now report;
          report = validate_invoice_bundle_semantics cs invoice_bundle now report;
          report = validate_deal_semantics deal report;
          report = validate_quote_deal_links quote deal report
      in validate_invoice_bundle_links cs quote invoice_bundle deal report)"

definition validate_quote_deal_receipt ::
  "crypto_env \<Rightarrow> quote_artifact \<Rightarrow> deal_artifact \<Rightarrow> receipt_artifact \<Rightarrow> i64 option \<Rightarrow> report" where
  "validate_quote_deal_receipt cs quote deal receipt now =
     (let report = new_report QuoteDealReceipt;
          report = verify_quote_envelope cs quote report;
          report = verify_deal_envelope cs deal report;
          report = verify_receipt_envelope cs receipt report;
          report = validate_quote_semantics quote now report;
          report = validate_deal_semantics deal report;
          report = validate_receipt_semantics cs receipt report;
          report = validate_quote_deal_links quote deal report
      in validate_receipt_links quote deal receipt report)"

section \<open>The full chain\<close>

record full_chain =
  fc_descriptor :: descriptor_artifact
  fc_offer :: offer_artifact
  fc_quote :: quote_artifact
  fc_invoice_bundle :: "invoice_bundle_artifact option"
  fc_deal :: deal_artifact
  fc_receipt :: "receipt_artifact option"

record full_chain_report =
  fcr_valid :: bool
  fcr_reports :: "report list"

definition quote_deal_stage :: "crypto_env \<Rightarrow> full_chain \<Rightarrow> i64 option \<Rightarrow> report" where
  "quote_deal_stage cs chain now =
     (let uses_lightning_bundle = (terms_method (quote_settlement_terms (art_payload (fc_quote chain)))
            = SETTLEMENT_METHOD_LIGHTNING_ESCROW)
      in case (uses_lightning_bundle, fc_invoice_bundle chain) of
           (_, Some invoice_bundle) \<Rightarrow>
             validate_quote_invoice_bundle_deal cs (fc_quote chain) invoice_bundle (fc_deal chain) now
         | (True, None) \<Rightarrow>
             push_issue ISSUE_INVOICE_BUNDLE_REQUIRED_FOR_LIGHTNING TRANSPORT_TYPE_INVOICE_BUNDLE
               ''lightning.base_fee_plus_success_fee.v1 chains require an invoice_bundle''
               (validate_quote_deal cs (fc_quote chain) (fc_deal chain) now)
         | (False, None) \<Rightarrow> validate_quote_deal cs (fc_quote chain) (fc_deal chain) now)"

definition receipt_stage :: "crypto_env \<Rightarrow> full_chain \<Rightarrow> i64 option \<Rightarrow> report list" where
  "receipt_stage cs chain now =
     (case fc_receipt chain of
        None \<Rightarrow> []
      | Some receipt \<Rightarrow>
          let uses_lightning_bundle =
                (terms_method (quote_settlement_terms (art_payload (fc_quote chain)))
                 = SETTLEMENT_METHOD_LIGHTNING_ESCROW);
              report = validate_quote_deal_receipt cs (fc_quote chain) (fc_deal chain) receipt now
          in [case fc_invoice_bundle chain of
                Some invoice_bundle \<Rightarrow>
                  if uses_lightning_bundle
                  then validate_receipt_invoice_bundle_links invoice_bundle (fc_deal chain) receipt
                         report
                  else report
              | None \<Rightarrow> report])"

definition validate_full_chain :: "crypto_env \<Rightarrow> full_chain \<Rightarrow> i64 option \<Rightarrow> full_chain_report" where
  "validate_full_chain cs chain now =
     (let reports =
            [validate_descriptor_offer cs (fc_descriptor chain) (fc_offer chain) now,
             validate_offer_quote cs (fc_offer chain) (fc_quote chain) now,
             quote_deal_stage cs chain now] @ receipt_stage cs chain now
      in \<lparr>fcr_valid = list_all rep_valid reports, fcr_reports = reports\<rparr>)"

section \<open>What each check accepts\<close>

definition report_wf :: "report \<Rightarrow> bool" where
  "report_wf r = (rep_valid r = (rep_issues r = []))"

definition verified_as :: "crypto_env \<Rightarrow> ('p \<Rightarrow> json) \<Rightarrow> string \<Rightarrow> 'p signed_artifact \<Rightarrow> bool" where
  "verified_as cs to_value ty a = (art_type a = ty \<and> verify_artifact cs to_value a)"

definition offer_quote_linked :: "offer_artifact \<Rightarrow> quote_artifact \<Rightarrow> bool" where
  "offer_quote_linked offer quote =
     (let op = art_payload offer; qp = art_payload quote; terms = quote_settlement_terms qp
      in quote_provider_id qp = offer_provider_id op \<and>
         quote_descriptor_hash qp = offer_descriptor_hash op \<and>
         quote_offer_hash qp = art_hash offer \<and>
         (case offer_expires_at op of None \<Rightarrow> True | Some e \<Rightarrow> quote_expires_at qp \<le> e) \<and>
         quote_workload_kind qp = offer_kind op \<and>
         terms_method terms = offer_settlement_method op \<and>
         terms_base_fee_msat terms = price_base_fee_msat (offer_price_schedule op) \<and>
         terms_success_fee_msat terms = price_success_fee_msat (offer_price_schedule op) \<and>
         limits_within_offer (quote_execution_limits qp) offer)"

definition quote_deal_linked :: "quote_artifact \<Rightarrow> deal_artifact \<Rightarrow> bool" where
  "quote_deal_linked quote deal =
     (let qp = art_payload quote; dp = art_payload deal
      in deal_provider_id dp = quote_provider_id qp \<and>
         deal_requester_id dp = quote_requester_id qp \<and>
         deal_quote_hash dp = art_hash quote \<and>
         deal_workload_hash dp = quote_workload_hash qp \<and>
         deal_confidential_session_hash dp = quote_confidential_session_hash qp \<and>
         deal_admission_deadline dp \<le> quote_expires_at qp \<and>
         deal_admission_deadline dp < deal_completion_deadline dp \<and>
         deal_completion_deadline dp \<le> deal_acceptance_deadline dp)"

definition invoice_bundle_linked ::
  "crypto_env \<Rightarrow> quote_artifact \<Rightarrow> invoice_bundle_artifact \<Rightarrow> deal_artifact \<Rightarrow> bool" where
  "invoice_bundle_linked cs quote bundle deal =
     (let qp = art_payload quote; terms = quote_settlement_terms qp;
          ip = art_payload bundle; dp = art_payload deal
      in terms_method terms = SETTLEMENT_METHOD_LIGHTNING_ESCROW \<and>
         ib_provider_id ip = quote_provider_id qp \<and> ib_provider_id ip = deal_provider_id dp \<and>
         ib_requester_id ip = quote_requester_id qp \<and> ib_requester_id ip = deal_requester_id dp \<and>
         ib_quote_hash ip = art_hash quote \<and> ib_deal_hash ip = art_hash deal \<and>
         ib_destination_identity ip = terms_destination_identity terms \<and>
         ibl_amount_msat (ib_base_fee ip) = terms_base_fee_msat terms \<and>
         ibl_amount_msat (ib_success_fee ip) = terms_success_fee_msat terms \<and>
         ibl_payment_hash (ib_success_fee ip) = deal_success_payment_hash dp \<and>
         ib_min_final_cltv_expiry ip = terms_min_final_cltv_expiry terms \<and>
         ib_expires_at ip \<le> quote_expires_at qp \<and>
         ib_expires_at ip \<le> deal_admission_deadline dp \<and>
         ibl_invoice_hash (ib_base_fee ip) = sha256_hex cs (ibl_invoice_bolt11 (ib_base_fee ip)) \<and>
         ibl_invoice_hash (ib_success_fee ip) = sha256_hex cs (ibl_invoice_bolt11 (ib_success_fee ip)))"

definition receipt_linked :: "quote_artifact \<Rightarrow> deal_artifact \<Rightarrow> receipt_artifact \<Rightarrow> bool" where
  "receipt_linked quote deal receipt =
     (let qp = art_payload quote; terms = quote_settlement_terms qp; dp = art_payload deal;
          rp = art_payload receipt; refs = rcpt_settlement_refs rp
      in rcpt_provider_id rp = quote_provider_id qp \<and> rcpt_provider_id rp = deal_provider_id dp \<and>
         rcpt_requester_id rp = quote_requester_id qp \<and> rcpt_requester_id rp = deal_requester_id dp \<and>
         rcpt_quote_hash rp = art_hash quote \<and> rcpt_quote_hash rp = deal_quote_hash dp \<and>
         rcpt_deal_hash rp = art_hash deal \<and>
         rcpt_confidential_session_hash rp = quote_confidential_session_hash qp \<and>
         rcpt_confidential_session_hash rp = deal_confidential_session_hash dp \<and>
         refs_method refs = terms_method terms \<and>
         rsl_amount_msat (refs_base_fee refs) = terms_base_fee_msat terms \<and>
         rsl_amount_msat (refs_success_fee refs) = terms_success_fee_msat terms \<and>
         refs_destination_identity refs = terms_destination_identity terms \<and>
         limits_within_quote (rcpt_limits_applied rp) quote)"

definition receipt_bundle_linked ::
  "invoice_bundle_artifact \<Rightarrow> deal_artifact \<Rightarrow> receipt_artifact \<Rightarrow> bool" where
  "receipt_bundle_linked bundle deal receipt =
     (let ip = art_payload bundle; rp = art_payload receipt; refs = rcpt_settlement_refs rp;
          base = refs_base_fee refs; success = refs_success_fee refs
      in refs_bundle_hash refs = Some (art_hash bundle) \<and>
         rsl_amount_msat base = ibl_amount_msat (ib_base_fee ip) \<and>
         rsl_amount_msat success = ibl_amount_msat (ib_success_fee ip) \<and>
         rsl_invoice_hash base = ibl_invoice_hash (ib_base_fee ip) \<and>
         rsl_invoice_hash success = ibl_invoice_hash (ib_success_fee ip) \<and>
         rsl_payment_hash base = ibl_payment_hash (ib_base_fee ip) \<and>
         rsl_payment_hash success = ibl_payment_hash (ib_success_fee ip) \<and>
         rsl_payment_hash success = deal_success_payment_hash (art_payload deal) \<and>
         (rcpt_settlement_state rp = ''settled'' \<or> rcpt_execution_state rp \<noteq> ''not_started'' \<longrightarrow>
            rsl_state base = RlSettled) \<and>
         (rcpt_settlement_state rp = ''settled'' \<longrightarrow> rsl_state success = RlSettled))"

definition descriptor_accepted :: "crypto_env \<Rightarrow> i64 option \<Rightarrow> descriptor_artifact \<Rightarrow> bool" where
  "descriptor_accepted cs now a =
     (verified_as cs descriptor_value ARTIFACT_TYPE_DESCRIPTOR a \<and>
      validate_descriptor_artifact cs a = Inr () \<and> \<not> expired now (desc_expires_at (art_payload a)))"

definition offer_accepted :: "crypto_env \<Rightarrow> i64 option \<Rightarrow> offer_artifact \<Rightarrow> bool" where
  "offer_accepted cs now a =
     (verified_as cs offer_value ARTIFACT_TYPE_OFFER a \<and>
      validate_offer_artifact a = Inr () \<and> \<not> expired now (offer_expires_at (art_payload a)))"

definition quote_accepted :: "crypto_env \<Rightarrow> i64 option \<Rightarrow> quote_artifact \<Rightarrow> bool" where
  "quote_accepted cs now a =
     (verified_as cs quote_value ARTIFACT_TYPE_QUOTE a \<and>
      validate_quote_artifact a = Inr () \<and> \<not> expired now (Some (quote_expires_at (art_payload a))))"

definition deal_accepted :: "crypto_env \<Rightarrow> deal_artifact \<Rightarrow> bool" where
  "deal_accepted cs a =
     (verified_as cs deal_value ARTIFACT_TYPE_DEAL a \<and> validate_deal_artifact a = Inr ())"

definition invoice_bundle_accepted ::
  "crypto_env \<Rightarrow> i64 option \<Rightarrow> invoice_bundle_artifact \<Rightarrow> bool" where
  "invoice_bundle_accepted cs now a =
     (verified_as cs invoice_bundle_value TRANSPORT_TYPE_INVOICE_BUNDLE a \<and>
      validate_invoice_bundle_artifact cs a = Inr () \<and>
      \<not> expired now (Some (ib_expires_at (art_payload a))))"

definition receipt_accepted :: "crypto_env \<Rightarrow> receipt_artifact \<Rightarrow> bool" where
  "receipt_accepted cs a =
     (verified_as cs receipt_value ARTIFACT_TYPE_RECEIPT a \<and> validate_receipt_artifact cs a = Inr ())"

text \<open>
  The chain as one statement: every artifact is accepted by itself, neighbours are linked, the
  invoice bundle is present exactly on the escrow method, and the receipt settles against it.
\<close>

definition full_chain_ok :: "crypto_env \<Rightarrow> i64 option \<Rightarrow> full_chain \<Rightarrow> bool" where
  "full_chain_ok cs now c =
     (descriptor_accepted cs now (fc_descriptor c) \<and> offer_accepted cs now (fc_offer c) \<and>
      quote_accepted cs now (fc_quote c) \<and> deal_accepted cs (fc_deal c) \<and>
      offer_provider_id (art_payload (fc_offer c)) = desc_provider_id (art_payload (fc_descriptor c)) \<and>
      offer_descriptor_hash (art_payload (fc_offer c)) = art_hash (fc_descriptor c) \<and>
      offer_quote_linked (fc_offer c) (fc_quote c) \<and> quote_deal_linked (fc_quote c) (fc_deal c) \<and>
      (case fc_invoice_bundle c of
         None \<Rightarrow> terms_method (quote_settlement_terms (art_payload (fc_quote c)))
                   \<noteq> SETTLEMENT_METHOD_LIGHTNING_ESCROW
       | Some ib \<Rightarrow> invoice_bundle_accepted cs now ib \<and>
           invoice_bundle_linked cs (fc_quote c) ib (fc_deal c)) \<and>
      (case fc_receipt c of
         None \<Rightarrow> True
       | Some r \<Rightarrow> receipt_accepted cs r \<and> receipt_linked (fc_quote c) (fc_deal c) r \<and>
           (case fc_invoice_bundle c of
              None \<Rightarrow> True | Some ib \<Rightarrow> receipt_bundle_linked ib (fc_deal c) r)))"

section \<open>The contract of a check\<close>

locale report_check =
  fixes check :: "report \<Rightarrow> report" and accepts :: bool
  assumes check_valid: "rep_valid (check r) \<longleftrightarrow> rep_valid r \<and> accepts"
    and check_wf: "report_wf r \<Longrightarrow> report_wf (check r)"
    and check_path: "rep_path (check r) = rep_path r"
    and check_warnings: "rep_warnings (check r) = rep_warnings r"
    and check_extends: "\<exists>found. rep_issues (check r) = rep_issues r @ found"
begin

lemma after:
  assumes "report_check f b"
  shows "report_check (\<lambda>r. check (f r)) (b \<and> accepts)"
proof -
  from assms have f: "rep_valid (f r) \<longleftrightarrow> rep_valid r \<and> b" "report_wf r \<Longrightarrow> report_wf (f r)"
    "rep_path (f r) = rep_path r" "rep_warnings (f r) = rep_warnings r"
    "\<exists>found. rep_issues (f r) = rep_issues r @ found" for r
    by (simp_all add: report_check_def)
  show ?thesis
  proof
    fix r
    obtain x y where "rep_issues (f r) = rep_issues r @ x"
      "rep_issues (check (f r)) = rep_issues (f r) @ y"
      using check_extends f(5) by blast
    then show "\<exists>found. rep_issues (check (f r)) = rep_issues r @ found" by simp
  qed (simp_all add: f check_valid check_wf check_path check_warnings)
qed

text \<open>A report that starts empty ends valid exactly when it ends without issues.\<close>

lemma fresh:
  "rep_valid (check (new_report p)) \<longleftrightarrow> accepts"
  "rep_issues (check (new_report p)) = [] \<longleftrightarrow> accepts"
  "rep_path (check (new_report p)) = p"
  "rep_warnings (check (new_report p)) = []"
proof -
  have "report_wf (new_report p)" by (simp add: report_wf_def new_report_def)
  then have "report_wf (check (new_report p))" by (rule check_wf)
  then show "rep_issues (check (new_report p)) = [] \<longleftrightarrow> accepts"
    by (simp add: report_wf_def check_valid) (simp add: new_report_def)
qed (simp_all add: check_valid check_path check_warnings, simp_all add: new_report_def)

end

interpretation push_if: report_check "push_if c code ty msg" "\<not> c" for c code ty msg
  by unfold_locales (auto simp: push_if_def push_issue_def report_wf_def)

interpretation push_err: report_check "push_err r code ty" "r = Inr ()" for r code ty
  by unfold_locales (auto simp: push_err_def push_issue_def report_wf_def split: sum.splits)

lemma no_check: "report_check (\<lambda>r. r) True"
  by unfold_locales simp_all

lemma check_accepts: "report_check f a \<Longrightarrow> a = b \<Longrightarrow> report_check f b"
  by simp

section \<open>Every check meets the contract\<close>

interpretation common_artifact: report_check "verify_common_artifact cs to_value a ty"
  "verified_as cs to_value ty a" for cs to_value a ty
  unfolding verify_common_artifact_def [abs_def] Let_def
  by (rule check_accepts, (rule push_if.after no_check)+) (auto simp: verified_as_def)

interpretation descriptor_envelope: report_check "verify_descriptor_envelope cs a"
  "verified_as cs descriptor_value ARTIFACT_TYPE_DESCRIPTOR a" for cs a
  unfolding verify_descriptor_envelope_def by (rule common_artifact.report_check_axioms)

interpretation offer_envelope: report_check "verify_offer_envelope cs a"
  "verified_as cs offer_value ARTIFACT_TYPE_OFFER a" for cs a
  unfolding verify_offer_envelope_def by (rule common_artifact.report_check_axioms)

interpretation quote_envelope: report_check "verify_quote_envelope cs a"
  "verified_as cs quote_value ARTIFACT_TYPE_QUOTE a" for cs a
  unfolding verify_quote_envelope_def by (rule common_artifact.report_check_axioms)

interpretation deal_envelope: report_check "verify_deal_envelope cs a"
  "verified_as cs deal_value ARTIFACT_TYPE_DEAL a" for cs a
  unfolding verify_deal_envelope_def by (rule common_artifact.report_check_axioms)

interpretation invoice_bundle_envelope: report_check "verify_invoice_bundle_envelope cs a"
  "verified_as cs invoice_bundle_value TRANSPORT_TYPE_INVOICE_BUNDLE a" for cs a
  unfolding verify_invoice_bundle_envelope_def by (rule common_artifact.report_check_axioms)

interpretation receipt_envelope: report_check "verify_receipt_envelope cs a"
  "verified_as cs receipt_value ARTIFACT_TYPE_RECEIPT a" for cs a
  unfolding verify_receipt_envelope_def by (rule common_artifact.report_check_axioms)

interpretation descriptor_semantics: report_check "validate_descriptor_semantics cs a now"
  "validate_descriptor_artifact cs a = Inr () \<and> \<not> expired now (desc_expires_at (art_payload a))"
  for cs a now
  unfolding validate_descriptor_semantics_def [abs_def] Let_def
  by (rule check_accepts, (rule push_if.after push_err.after no_check)+) simp

interpretation offer_settlement: report_check "validate_offer_settlement a"
  "if price_base_fee_msat (offer_price_schedule (art_payload a)) = 0 \<and>
      price_success_fee_msat (offer_price_schedule (art_payload a)) = 0
   then offer_settlement_method (art_payload a) = SETTLEMENT_METHOD_NONE
   else is_paid_settlement_method (offer_settlement_method (art_payload a))" for a
  by unfold_locales
    (auto simp: validate_offer_settlement_def is_known_paid_settlement_method_def
      is_paid_settlement_method_def push_issue_def report_wf_def Let_def)

interpretation offer_semantics: report_check "validate_offer_semantics a now"
  "validate_offer_artifact a = Inr () \<and> \<not> expired now (offer_expires_at (art_payload a))" for a now
  unfolding validate_offer_semantics_def [abs_def] Let_def
  by (rule check_accepts, (rule push_if.after push_err.after offer_settlement.after no_check)+)
    (auto simp: validate_offer_ok)

interpretation quote_semantics: report_check "validate_quote_semantics a now"
  "validate_quote_artifact a = Inr () \<and> \<not> expired now (Some (quote_expires_at (art_payload a)))" for a now
  unfolding validate_quote_semantics_def [abs_def] Let_def
  by (rule check_accepts, (rule push_if.after push_err.after no_check)+) simp

interpretation deal_semantics: report_check "validate_deal_semantics a"
  "validate_deal_artifact a = Inr ()" for a
  unfolding validate_deal_semantics_def [abs_def] by (rule push_err.report_check_axioms)

interpretation invoice_bundle_semantics: report_check "validate_invoice_bundle_semantics cs a now"
  "validate_invoice_bundle_artifact cs a = Inr () \<and>
   \<not> expired now (Some (ib_expires_at (art_payload a)))" for cs a now
  unfolding validate_invoice_bundle_semantics_def [abs_def] Let_def
  by (rule check_accepts, (rule push_if.after push_err.after no_check)+) simp

interpretation receipt_semantics: report_check "validate_receipt_semantics cs a"
  "validate_receipt_artifact cs a = Inr ()" for cs a
  unfolding validate_receipt_semantics_def [abs_def] by (rule push_err.report_check_axioms)

interpretation offer_quote_links: report_check "validate_offer_quote_links offer quote"
  "offer_quote_linked offer quote" for offer quote
  unfolding validate_offer_quote_links_def [abs_def] Let_def
  by (rule check_accepts, (rule push_if.after no_check)+)
    (auto simp: offer_quote_linked_def Let_def split: option.splits)

interpretation quote_deal_links: report_check "validate_quote_deal_links quote deal"
  "quote_deal_linked quote deal" for quote deal
  unfolding validate_quote_deal_links_def [abs_def] Let_def
  by (rule check_accepts, (rule push_if.after no_check)+) (auto simp: quote_deal_linked_def Let_def)

interpretation invoice_leg_hash_link: report_check "validate_invoice_leg_hash_link cs leg"
  "ibl_invoice_hash leg = sha256_hex cs (ibl_invoice_bolt11 leg)" for cs leg
  unfolding validate_invoice_leg_hash_link_def
  by (rule check_accepts, rule push_if.report_check_axioms) simp

interpretation invoice_bundle_links: report_check "validate_invoice_bundle_links cs quote ib deal"
  "invoice_bundle_linked cs quote ib deal" for cs quote ib deal
  unfolding validate_invoice_bundle_links_def [abs_def] Let_def
  by (rule check_accepts, (rule push_if.after invoice_leg_hash_link.after no_check)+)
    (auto simp: invoice_bundle_linked_def Let_def)

interpretation receipt_links: report_check "validate_receipt_links quote deal receipt"
  "receipt_linked quote deal receipt" for quote deal receipt
  unfolding validate_receipt_links_def [abs_def] Let_def
  by (rule check_accepts, (rule push_if.after no_check)+) (auto simp: receipt_linked_def Let_def)

interpretation receipt_bundle_links: report_check
  "validate_receipt_invoice_bundle_links ib deal receipt"
  "receipt_bundle_linked ib deal receipt" for ib deal receipt
  unfolding validate_receipt_invoice_bundle_links_def [abs_def] Let_def
  by (rule check_accepts, (rule push_if.after no_check)+)
    (auto simp: receipt_bundle_linked_def Let_def)

section \<open>Acceptance of the pairwise validators\<close>

lemmas accepted_defs =
  descriptor_accepted_def offer_accepted_def quote_accepted_def deal_accepted_def
  invoice_bundle_accepted_def receipt_accepted_def

lemma descriptor_offer_valid:
  "rep_valid (validate_descriptor_offer cs d off now) \<longleftrightarrow>
     descriptor_accepted cs now d \<and> offer_accepted cs now off \<and>
     offer_provider_id (art_payload off) = desc_provider_id (art_payload d) \<and>
     offer_descriptor_hash (art_payload off) = art_hash d"
  by (auto simp: validate_descriptor_offer_def Let_def accepted_defs new_report_def
      push_if.check_valid offer_semantics.check_valid descriptor_semantics.check_valid
      offer_envelope.check_valid descriptor_envelope.check_valid)

lemma offer_quote_valid:
  "rep_valid (validate_offer_quote cs off q now) \<longleftrightarrow>
     offer_accepted cs now off \<and> quote_accepted cs now q \<and> offer_quote_linked off q"
  by (auto simp: validate_offer_quote_def Let_def accepted_defs new_report_def
      offer_quote_links.check_valid quote_semantics.check_valid offer_semantics.check_valid
      quote_envelope.check_valid offer_envelope.check_valid)

lemma quote_deal_valid:
  "rep_valid (validate_quote_deal cs q d now) \<longleftrightarrow>
     quote_accepted cs now q \<and> deal_accepted cs d \<and> quote_deal_linked q d"
  by (auto simp: validate_quote_deal_def Let_def accepted_defs new_report_def
      quote_deal_links.check_valid deal_semantics.check_valid quote_semantics.check_valid
      deal_envelope.check_valid quote_envelope.check_valid)

lemma quote_invoice_bundle_deal_valid:
  "rep_valid (validate_quote_invoice_bundle_deal cs q ib d now) \<longleftrightarrow>
     quote_accepted cs now q \<and> invoice_bundle_accepted cs now ib \<and> deal_accepted cs d \<and>
     quote_deal_linked q d \<and> invoice_bundle_linked cs q ib d"
  by (auto simp: validate_quote_invoice_bundle_deal_def Let_def accepted_defs new_report_def
      invoice_bundle_links.check_valid quote_deal_links.check_valid deal_semantics.check_valid
      invoice_bundle_semantics.check_valid quote_semantics.check_valid deal_envelope.check_valid
      invoice_bundle_envelope.check_valid quote_envelope.check_valid)

lemma quote_deal_receipt_valid:
  "rep_valid (validate_quote_deal_receipt cs q d r now) \<longleftrightarrow>
     quote_accepted cs now q \<and> deal_accepted cs d \<and> receipt_accepted cs r \<and>
     quote_deal_linked q d \<and> receipt_linked q d r"
  by (auto simp: validate_quote_deal_receipt_def Let_def accepted_defs new_report_def
      receipt_links.check_valid quote_deal_links.check_valid receipt_semantics.check_valid
      deal_semantics.check_valid quote_semantics.check_valid receipt_envelope.check_valid
      deal_envelope.check_valid quote_envelope.check_valid)

lemma push_issue_invalid [simp]: "\<not> rep_valid (push_issue code ty msg r)"
  by (simp add: push_issue_def)

lemma quote_deal_stage_valid:
  "rep_valid (quote_deal_stage cs c now) \<longleftrightarrow>
     quote_accepted cs now (fc_quote c) \<and> deal_accepted cs (fc_deal c) \<and>
     quote_deal_linked (fc_quote c) (fc_deal c) \<and>
     (case fc_invoice_bundle c of
        None \<Rightarrow> terms_method (quote_settlement_terms (art_payload (fc_quote c)))
                  \<noteq> SETTLEMENT_METHOD_LIGHTNING_ESCROW
      | Some ib \<Rightarrow> invoice_bundle_accepted cs now ib \<and>
          invoice_bundle_linked cs (fc_quote c) ib (fc_deal c))"
  by (auto simp: quote_deal_stage_def Let_def quote_deal_valid quote_invoice_bundle_deal_valid
      split: option.split bool.split)

lemma receipt_stage_valid:
  "list_all rep_valid (receipt_stage cs c now) \<longleftrightarrow>
     (case fc_receipt c of
        None \<Rightarrow> True
      | Some r \<Rightarrow> quote_accepted cs now (fc_quote c) \<and> deal_accepted cs (fc_deal c) \<and>
          receipt_accepted cs r \<and> quote_deal_linked (fc_quote c) (fc_deal c) \<and>
          receipt_linked (fc_quote c) (fc_deal c) r \<and>
          (case fc_invoice_bundle c of
             None \<Rightarrow> True
           | Some ib \<Rightarrow>
               terms_method (quote_settlement_terms (art_payload (fc_quote c)))
                 = SETTLEMENT_METHOD_LIGHTNING_ESCROW \<longrightarrow> receipt_bundle_linked ib (fc_deal c) r))"
  by (auto simp: receipt_stage_def Let_def quote_deal_receipt_valid receipt_bundle_links.check_valid
      split: option.splits)

lemma full_chain_valid_iff: "fcr_valid (validate_full_chain cs c now) \<longleftrightarrow> full_chain_ok cs now c"
proof -
  have "invoice_bundle_linked cs q ib d \<Longrightarrow>
      terms_method (quote_settlement_terms (art_payload q)) = SETTLEMENT_METHOD_LIGHTNING_ESCROW"
    for q ib d by (simp add: invoice_bundle_linked_def Let_def)
  then show ?thesis
    by (auto simp: validate_full_chain_def Let_def full_chain_ok_def descriptor_offer_valid
        offer_quote_valid quote_deal_stage_valid receipt_stage_valid split: option.splits)
qed

text \<open>A report's \<open>valid\<close> flag is never out of step with its issues.\<close>

lemma report_wf_new [simp]: "report_wf (new_report p)"
  by (simp add: report_wf_def new_report_def)

lemma report_wf_push_issue [simp]: "report_wf (push_issue code ty msg r)"
  by (simp add: report_wf_def push_issue_def)

lemmas pairwise_defs =
  validate_descriptor_offer_def validate_offer_quote_def validate_quote_deal_def
  validate_quote_invoice_bundle_deal_def validate_quote_deal_receipt_def Let_def

lemmas check_wf_rules =
  push_if.check_wf descriptor_envelope.check_wf offer_envelope.check_wf quote_envelope.check_wf
  deal_envelope.check_wf invoice_bundle_envelope.check_wf receipt_envelope.check_wf
  descriptor_semantics.check_wf offer_semantics.check_wf quote_semantics.check_wf
  deal_semantics.check_wf invoice_bundle_semantics.check_wf receipt_semantics.check_wf
  offer_quote_links.check_wf quote_deal_links.check_wf invoice_bundle_links.check_wf
  receipt_links.check_wf receipt_bundle_links.check_wf

lemma pairwise_reports_wf:
  "report_wf (validate_descriptor_offer cs d off now)"
  "report_wf (validate_offer_quote cs off q now)"
  "report_wf (validate_quote_deal cs q dl now)"
  "report_wf (validate_quote_invoice_bundle_deal cs q ib dl now)"
  "report_wf (validate_quote_deal_receipt cs q dl r now)"
  by (simp_all add: pairwise_defs check_wf_rules)

lemma full_chain_reports_wf: "list_all report_wf (fcr_reports (validate_full_chain cs c now))"
  by (auto simp: validate_full_chain_def Let_def quote_deal_stage_def receipt_stage_def
      pairwise_reports_wf check_wf_rules split: option.split bool.split)

end
