(* ===== verification/Samples.thy ===== *)
theory Samples
  imports Chain
begin

text \<open>
  A complete deal on the Lightning escrow method, signed in the reference environment: a
  descriptor, an offer, a quote, a deal, an invoice bundle and a settled receipt. It is the
  concrete input of the theorems on artifacts and chains.
\<close>

section \<open>Definitions\<close>

definition provider_sk :: bytes where
  "provider_sk = replicate 32 (CHR ''P'')"

definition requester_sk :: bytes where
  "requester_sk = replicate 32 (CHR ''R'')"

definition provider_pk :: string where
  "provider_pk = public_key_hex reference_env provider_sk"

definition requester_pk :: string where
  "requester_pk = public_key_hex reference_env requester_sk"

definition sample_sign :: "('p \<Rightarrow> json) \<Rightarrow> bytes \<Rightarrow> string \<Rightarrow> 'p \<Rightarrow> 'p signed_artifact" where
  "sample_sign to_value sk ty p =
     projr (sign_artifact reference_env to_value (public_key_hex reference_env sk)
       (sign_message_hex reference_env sk) ty 50 p)"

definition sample_limits :: execution_limits where
  "sample_limits = \<lparr>lim_max_input_bytes = 10, lim_max_runtime_ms = 20, lim_max_memory_bytes = 30,
     lim_max_output_bytes = 40, lim_fuel_limit = 50\<rparr>"

definition sample_destination :: string where
  "sample_destination = replicate 66 (CHR ''0'')"

definition sample_success_hash :: string where
  "sample_success_hash = replicate 64 (CHR ''b'')"

definition sample_descriptor :: descriptor_artifact where
  "sample_descriptor = sample_sign descriptor_value provider_sk ARTIFACT_TYPE_DESCRIPTOR
     \<lparr>desc_provider_id = provider_pk, desc_seq = 1, desc_protocol_version = FROGLET_SCHEMA_V1,
      desc_expires_at = None, desc_linked_identities = [], desc_transport_endpoints = [],
      desc_capabilities = \<lparr>dc_service_kinds = [''compute.wasm.v1''],
        dc_execution_runtimes = [''wasm''], dc_max_concurrent_deals = None\<rparr>,
      desc_accepted_payment_methods = [''lightning'']\<rparr>"

definition sample_offer :: offer_artifact where
  "sample_offer = sample_sign offer_value provider_sk ARTIFACT_TYPE_OFFER
     \<lparr>offer_provider_id = provider_pk, offer_id = ''offer-1'',
      offer_descriptor_hash = art_hash sample_descriptor, offer_expires_at = None,
      offer_kind = ''compute.wasm.v1'', offer_settlement_method = SETTLEMENT_METHOD_LIGHTNING_ESCROW,
      offer_quote_ttl_secs = 60,
      offer_execution_profile = \<lparr>prof_runtime = RtWasm, prof_package_kind = [],
        prof_contract_version = [], prof_access_handles = [], prof_abi_version = ''v1'',
        prof_capabilities = [], prof_max_input_bytes = 10, prof_max_runtime_ms = 20,
        prof_max_memory_bytes = 30, prof_max_output_bytes = 40, prof_fuel_limit = 50\<rparr>,
      offer_price_schedule = \<lparr>price_base_fee_msat = 1000, price_success_fee_msat = 2000\<rparr>,
      offer_terms_hash = None, offer_confidential_profile_hash = None\<rparr>"

definition sample_quote :: quote_artifact where
  "sample_quote = sample_sign quote_value provider_sk ARTIFACT_TYPE_QUOTE
     \<lparr>quote_provider_id = provider_pk, quote_requester_id = requester_pk,
      quote_descriptor_hash = art_hash sample_descriptor, quote_offer_hash = art_hash sample_offer,
      quote_expires_at = 100, quote_workload_kind = ''compute.wasm.v1'',
      quote_workload_hash = replicate 64 (CHR ''a''), quote_confidential_session_hash = None,
      quote_capabilities_granted = [], quote_extension_refs = [], quote_use = None,
      quote_settlement_terms = \<lparr>terms_method = SETTLEMENT_METHOD_LIGHTNING_ESCROW,
        terms_destination_identity = sample_destination, terms_base_fee_msat = 1000,
        terms_success_fee_msat = 2000, terms_max_base_invoice_expiry_secs = 60,
        terms_max_success_hold_expiry_secs = 60, terms_min_final_cltv_expiry = 18\<rparr>,
      quote_execution_limits = sample_limits\<rparr>"

definition sample_deal :: deal_artifact where
  "sample_deal = sample_sign deal_value requester_sk ARTIFACT_TYPE_DEAL
     \<lparr>deal_requester_id = requester_pk, deal_provider_id = provider_pk,
      deal_quote_hash = art_hash sample_quote, deal_workload_hash = replicate 64 (CHR ''a''),
      deal_confidential_session_hash = None, deal_extension_refs = [], deal_authority_ref = None,
      deal_supersedes_deal_hash = None, deal_client_nonce = None,
      deal_success_payment_hash = sample_success_hash, deal_admission_deadline = 100,
      deal_completion_deadline = 200, deal_acceptance_deadline = 300\<rparr>"

definition sample_leg :: "u64 \<Rightarrow> string \<Rightarrow> string \<Rightarrow> invoice_bundle_leg" where
  "sample_leg amount invoice payment_hash =
     \<lparr>ibl_amount_msat = amount, ibl_invoice_bolt11 = invoice,
      ibl_invoice_hash = sha256_hex reference_env invoice, ibl_payment_hash = payment_hash,
      ibl_state = IblOpen\<rparr>"

definition sample_invoice_bundle :: invoice_bundle_artifact where
  "sample_invoice_bundle = sample_sign invoice_bundle_value provider_sk TRANSPORT_TYPE_INVOICE_BUNDLE
     \<lparr>ib_provider_id = provider_pk, ib_requester_id = requester_pk,
      ib_quote_hash = art_hash sample_quote, ib_deal_hash = art_hash sample_deal,
      ib_expires_at = 90, ib_destination_identity = sample_destination,
      ib_base_fee = sample_leg 1000 ''lnbc10n1base'' (replicate 64 (CHR ''c'')),
      ib_success_fee = sample_leg 2000 ''lnbc20n1success'' sample_success_hash,
      ib_min_final_cltv_expiry = 18\<rparr>"

definition sample_executor :: receipt_executor where
  "sample_executor = \<lparr>exec_runtime = ''wasm'', exec_runtime_version = ''1'',
     exec_execution_mode = None, exec_attestation_platform = None, exec_measurement = None,
     exec_abi_version = None, exec_module_hash = None, exec_capabilities_granted = []\<rparr>"

definition sample_receipt_payload :: "receipt_settlement_refs \<Rightarrow> receipt_payload" where
  "sample_receipt_payload refs =
     \<lparr>rcpt_provider_id = provider_pk, rcpt_requester_id = requester_pk,
      rcpt_deal_hash = art_hash sample_deal, rcpt_quote_hash = art_hash sample_quote,
      rcpt_extension_refs = [], rcpt_acceptance_ref = None, rcpt_started_at = Some 110,
      rcpt_finished_at = 120, rcpt_deal_state = ''succeeded'',
      rcpt_execution_state = ''succeeded'', rcpt_settlement_state = ''settled'',
      rcpt_result_hash = Some (replicate 64 (CHR ''d'')), rcpt_confidential_session_hash = None,
      rcpt_result_envelope_hash = None, rcpt_result_format = Some ''application/json+jcs'',
      rcpt_executor = sample_executor, rcpt_limits_applied = sample_limits,
      rcpt_settlement_refs = refs, rcpt_failure_code = None, rcpt_failure_message = None,
      rcpt_result_ref = None\<rparr>"

definition settled_leg :: "invoice_bundle_leg \<Rightarrow> receipt_settlement_leg" where
  "settled_leg leg = \<lparr>rsl_amount_msat = ibl_amount_msat leg, rsl_invoice_hash = ibl_invoice_hash leg,
     rsl_payment_hash = ibl_payment_hash leg, rsl_state = RlSettled\<rparr>"

definition sample_receipt :: receipt_artifact where
  "sample_receipt = sample_sign receipt_value provider_sk ARTIFACT_TYPE_RECEIPT
     (sample_receipt_payload
        \<lparr>refs_method = SETTLEMENT_METHOD_LIGHTNING_ESCROW,
         refs_bundle_hash = Some (art_hash sample_invoice_bundle),
         refs_destination_identity = sample_destination,
         refs_base_fee = settled_leg (sample_leg 1000 ''lnbc10n1base'' (replicate 64 (CHR ''c''))),
         refs_success_fee = settled_leg (sample_leg 2000 ''lnbc20n1success'' sample_success_hash)\<rparr>)"

definition sample_chain :: full_chain where
  "sample_chain = \<lparr>fc_descriptor = sample_descriptor, fc_offer = sample_offer,
     fc_quote = sample_quote, fc_invoice_bundle = Some sample_invoice_bundle,
     fc_deal = sample_deal, fc_receipt = Some sample_receipt\<rparr>"

text \<open>A prepaid Lightning receipt: the preimage hashes to the payment hash.\<close>

definition sample_prepaid_receipt :: receipt_artifact where
  "sample_prepaid_receipt = sample_sign receipt_value provider_sk ARTIFACT_TYPE_RECEIPT
     (sample_receipt_payload
        \<lparr>refs_method = SETTLEMENT_METHOD_LIGHTNING_PREPAID, refs_bundle_hash = None,
         refs_destination_identity = sample_destination,
         refs_base_fee = \<lparr>rsl_amount_msat = 1000,
           rsl_invoice_hash = hex_encode reference_env (replicate 32 (CHR ''x'')),
           rsl_payment_hash = sha256_hex reference_env (replicate 32 (CHR ''x'')),
           rsl_state = RlSettled\<rparr>,
         refs_success_fee = \<lparr>rsl_amount_msat = 0, rsl_invoice_hash = [], rsl_payment_hash = [],
           rsl_state = RlCanceled\<rparr>\<rparr>)"

text \<open>The same deal for a free offer.\<close>

definition free_offer :: offer_artifact where
  "free_offer = sample_sign offer_value provider_sk ARTIFACT_TYPE_OFFER
     ((art_payload sample_offer)\<lparr>offer_settlement_method := SETTLEMENT_METHOD_NONE,
        offer_price_schedule := \<lparr>price_base_fee_msat = 0, price_success_fee_msat = 0\<rparr>\<rparr>)"

definition free_quote :: quote_artifact where
  "free_quote = sample_sign quote_value provider_sk ARTIFACT_TYPE_QUOTE
     ((art_payload sample_quote)\<lparr>quote_offer_hash := art_hash free_offer,
        quote_settlement_terms := \<lparr>terms_method = SETTLEMENT_METHOD_NONE,
          terms_destination_identity = [], terms_base_fee_msat = 0, terms_success_fee_msat = 0,
          terms_max_base_invoice_expiry_secs = 0, terms_max_success_hold_expiry_secs = 0,
          terms_min_final_cltv_expiry = 0\<rparr>\<rparr>)"

definition free_deal :: deal_artifact where
  "free_deal = sample_sign deal_value requester_sk ARTIFACT_TYPE_DEAL
     ((art_payload sample_deal)\<lparr>deal_quote_hash := art_hash free_quote\<rparr>)"

definition empty_leg :: receipt_settlement_leg where
  "empty_leg = \<lparr>rsl_amount_msat = 0, rsl_invoice_hash = [], rsl_payment_hash = [],
     rsl_state = RlCanceled\<rparr>"

definition free_receipt :: receipt_artifact where
  "free_receipt = sample_sign receipt_value provider_sk ARTIFACT_TYPE_RECEIPT
     ((sample_receipt_payload
        \<lparr>refs_method = SETTLEMENT_METHOD_NONE, refs_bundle_hash = None,
         refs_destination_identity = [], refs_base_fee = empty_leg, refs_success_fee = empty_leg\<rparr>)
      \<lparr>rcpt_deal_hash := art_hash free_deal, rcpt_quote_hash := art_hash free_quote,
       rcpt_settlement_state := ''none''\<rparr>)"

definition free_chain :: full_chain where
  "free_chain = \<lparr>fc_descriptor = sample_descriptor, fc_offer = free_offer, fc_quote = free_quote,
     fc_invoice_bundle = None, fc_deal = free_deal, fc_receipt = Some free_receipt\<rparr>"

section \<open>The samples verify\<close>

lemmas reference_laws [simp] = reference_crypto_laws crypto_lawsD [OF reference_crypto_laws]

lemma sample_keys_ok [simp]:
  "secret_key_ok reference_env provider_sk" "secret_key_ok reference_env requester_sk"
  by (simp_all add: secret_key_ok_def reference_env_def provider_sk_def requester_sk_def)

lemma sample_sign_eq:
  "sign_artifact reference_env to_value (public_key_hex reference_env sk)
     (sign_message_hex reference_env sk) ty 50 p = Inr (sample_sign to_value sk ty p)"
  by (simp add: sample_sign_def sign_artifact_def payload_hash_def canonical_signing_bytes_def
      canonical_json_to_vec_def reference_env_def)

lemma sample_sign_fields [simp]:
  "art_type (sample_sign to_value sk ty p) = ty"
  "art_signer (sample_sign to_value sk ty p) = public_key_hex reference_env sk"
  "art_created_at (sample_sign to_value sk ty p) = 50"
  "art_payload (sample_sign to_value sk ty p) = p"
  by (simp_all add: sign_artifact_fields [OF sample_sign_eq])

lemma sample_sign_verifies:
  "secret_key_ok reference_env sk \<Longrightarrow>
     verified_as reference_env to_value ty (sample_sign to_value sk ty p)"
  using verify_signed_artifact [OF _ _ _ sample_sign_eq] by (simp add: verified_as_def)

lemma sample_sign_hash:
  assumes "secret_key_ok reference_env sk"
  shows "is_lower_hex_len (art_hash (sample_sign to_value sk ty p)) 64"
    "trim (art_hash (sample_sign to_value sk ty p)) \<noteq> []"
    "art_hash (sample_sign to_value sk ty p) \<noteq> []"
  using assms sample_sign_verifies [OF assms, of to_value ty p]
    verified_hash_shape [of reference_env to_value "sample_sign to_value sk ty p"]
  by (simp_all add: verified_as_def is_lower_hex_len_def)

lemma replicate_lower_hex [simp]:
  "is_lower_hex_char c \<Longrightarrow> is_lower_hex_len (replicate n c) m \<longleftrightarrow> n = m"
  by (auto simp: is_lower_hex_len_def list_all_iff)

lemma trim_replicate_hex [simp]:
  "is_lower_hex_char c \<Longrightarrow> 0 < n \<Longrightarrow> trim (replicate n c) \<noteq> []"
  by (subst trim_lower_hex) (auto simp: list_all_iff)

lemma sample_chars [simp]:
  "is_lower_hex_char (CHR ''0'')" "is_lower_hex_char (CHR ''a'')" "is_lower_hex_char (CHR ''b'')"
  "is_lower_hex_char (CHR ''c'')" "is_lower_hex_char (CHR ''d'')"
  by (simp_all add: is_lower_hex_char_def is_ascii_hexdigit_def is_ascii_uppercase_def Let_def)

lemma sample_pk_nonempty [simp]: "trim provider_pk \<noteq> []" "trim requester_pk \<noteq> []"
proof -
  have "trim (hex_encode reference_env (replicate 32 c)) \<noteq> []" for c
    using crypto_lawsD(1) [OF reference_crypto_laws]
    by (subst trim_lower_hex) (auto simp: hex_laws_def dest: arg_cong [of _ _ length])
  then show "trim provider_pk \<noteq> []" "trim requester_pk \<noteq> []"
    by (simp_all add: provider_pk_def requester_pk_def public_key_hex_def provider_sk_def
        requester_sk_def reference_env_def)
qed

lemma sample_sha_lower [simp]: "is_lower_hex_len (sha256_hex reference_env m) 64"
  using sha256_hex_lower by (simp add: is_lower_hex_len_def)

lemmas sample_artifact_defs =
  sample_descriptor_def sample_offer_def sample_quote_def sample_deal_def sample_invoice_bundle_def
  sample_receipt_def

lemmas sample_data_defs =
  sample_limits_def sample_destination_def sample_success_hash_def sample_leg_def settled_leg_def
  sample_receipt_payload_def

lemma sample_signers [simp]:
  "public_key_hex reference_env provider_sk = provider_pk"
  "public_key_hex reference_env requester_sk = requester_pk"
  by (simp_all add: provider_pk_def requester_pk_def)

lemma sample_texts [simp]:
  "trim ''offer-1'' = ''offer-1''" "trim ''compute.wasm.v1'' = ''compute.wasm.v1''"
  "trim ''lnbc10n1base'' = ''lnbc10n1base''" "trim ''lnbc20n1success'' = ''lnbc20n1success''"
  by (simp_all add: trim_printable printable_ascii_def)

lemma sample_hashes [simp]:
  "trim (art_hash sample_descriptor) \<noteq> []" "trim (art_hash sample_offer) \<noteq> []"
  "trim (art_hash sample_quote) \<noteq> []" "trim (art_hash sample_deal) \<noteq> []"
  "art_hash sample_invoice_bundle \<noteq> []"
  by (simp_all add: sample_artifact_defs sample_sign_hash)

lemma sample_verified:
  "verified_as reference_env descriptor_value ARTIFACT_TYPE_DESCRIPTOR sample_descriptor"
  "verified_as reference_env offer_value ARTIFACT_TYPE_OFFER sample_offer"
  "verified_as reference_env quote_value ARTIFACT_TYPE_QUOTE sample_quote"
  "verified_as reference_env deal_value ARTIFACT_TYPE_DEAL sample_deal"
  "verified_as reference_env invoice_bundle_value TRANSPORT_TYPE_INVOICE_BUNDLE sample_invoice_bundle"
  "verified_as reference_env receipt_value ARTIFACT_TYPE_RECEIPT sample_receipt"
  "verified_as reference_env receipt_value ARTIFACT_TYPE_RECEIPT sample_prepaid_receipt"
  by (simp_all add: sample_artifact_defs sample_prepaid_receipt_def sample_sign_verifies)

lemma sample_descriptor_valid: "validate_descriptor_artifact reference_env sample_descriptor = Inr ()"
  unfolding sample_descriptor_def by (simp add: validate_descriptor_ok)

lemma sample_offer_valid: "validate_offer_artifact sample_offer = Inr ()"
  unfolding sample_offer_def by (simp add: validate_offer_ok is_paid_settlement_method_def)

lemma sample_quote_valid: "validate_quote_artifact sample_quote = Inr ()"
  unfolding sample_quote_def
  by (simp add: validate_quote_ok quote_terms_rules_def is_paid_settlement_method_def
      sample_destination_def)

lemma sample_deal_valid: "validate_deal_artifact sample_deal = Inr ()"
  unfolding sample_deal_def by (simp add: validate_deal_ok sample_success_hash_def)

lemma sample_invoice_bundle_valid:
  "validate_invoice_bundle_artifact reference_env sample_invoice_bundle = Inr ()"
  unfolding sample_invoice_bundle_def
  by (simp add: validate_invoice_bundle_ok validate_invoice_leg_ok sample_data_defs)

lemma sample_receipt_valid: "validate_receipt_artifact reference_env sample_receipt = Inr ()"
  unfolding sample_receipt_def
  by (simp add: validate_receipt_ok receipt_rules_def settlement_table_def evidence_table_def
      outcome_table_def leg_terminal_def str_or_default_def sample_data_defs Let_def)

lemma sample_chain_ok: "full_chain_ok reference_env (Some 60) sample_chain"
proof -
  have "offer_quote_linked sample_offer sample_quote"
    by (simp add: offer_quote_linked_def Let_def limits_within_offer_def sample_limits_def
        sample_offer_def sample_quote_def)
  moreover have "quote_deal_linked sample_quote sample_deal"
    by (simp add: quote_deal_linked_def sample_quote_def sample_deal_def)
  moreover have "invoice_bundle_linked reference_env sample_quote sample_invoice_bundle sample_deal"
    by (simp add: invoice_bundle_linked_def Let_def sample_leg_def
        sample_quote_def sample_deal_def sample_invoice_bundle_def)
  moreover have "receipt_linked sample_quote sample_deal sample_receipt"
    by (simp add: receipt_linked_def limits_within_quote_def Let_def sample_leg_def settled_leg_def
        sample_receipt_payload_def sample_quote_def sample_deal_def sample_receipt_def)
  moreover have "receipt_bundle_linked sample_invoice_bundle sample_deal sample_receipt"
    by (simp add: receipt_bundle_linked_def Let_def sample_leg_def settled_leg_def
        sample_receipt_payload_def sample_deal_def sample_receipt_def sample_invoice_bundle_def)
  moreover have "offer_provider_id (art_payload sample_offer) = provider_pk"
    "offer_descriptor_hash (art_payload sample_offer) = art_hash sample_descriptor"
    "desc_provider_id (art_payload sample_descriptor) = provider_pk"
    "desc_expires_at (art_payload sample_descriptor) = None"
    "offer_expires_at (art_payload sample_offer) = None"
    "quote_expires_at (art_payload sample_quote) = 100"
    "ib_expires_at (art_payload sample_invoice_bundle) = 90"
    by (simp_all add: sample_descriptor_def sample_offer_def sample_quote_def
        sample_invoice_bundle_def)
  ultimately show ?thesis
    by (simp add: full_chain_ok_def accepted_defs sample_chain_def sample_verified
        sample_descriptor_valid sample_offer_valid sample_quote_valid sample_deal_valid
        sample_invoice_bundle_valid sample_receipt_valid expired_def)
qed

lemma sample_prepaid_receipt_valid:
  "validate_receipt_artifact reference_env sample_prepaid_receipt = Inr ()"
proof -
  have x: "hex_decode reference_env (hex_encode reference_env b) = Some b" for b
    using crypto_lawsD(1) [OF reference_crypto_laws] by (simp add: hex_laws_def)
  have "length (sha256 reference_env m) = 32" for m
    using crypto_lawsD(2) [OF reference_crypto_laws] by (simp add: sha256_laws_def)
  then have "decode_hash32 reference_env (sha256_hex reference_env m) = Some (sha256 reference_env m)" for m
    by (simp add: decode_hash32_def sha256_hex_def x)
  then show ?thesis
    unfolding sample_prepaid_receipt_def
    by (simp add: validate_receipt_ok receipt_rules_def settlement_table_def evidence_table_def
        outcome_table_def is_paid_settlement_method_def preimage_proof_def decode_hash32_def x
        receipt_leg_is_empty_canceled_def sample_data_defs Let_def to_ascii_lowercase_hex
        sha256_hex_lower)
qed

text \<open>The numbers of the samples are in the range the canonical form writes exactly.\<close>

lemmas sample_exact_unfold =
  exact_artifact_def signing_value_of_def exact_signing_value exact_numbers_mk_obj

lemma sample_limits_exact [simp]: "exact_numbers (execution_limits_value sample_limits)"
  by (simp add: execution_limits_value_def sample_limits_def exact_numbers_mk_obj)

lemma sample_runtime_exact [simp]: "exact_numbers (execution_runtime_value x)"
  by (cases x) simp_all

lemma sample_leg_states_exact [simp]:
  "exact_numbers (invoice_bundle_leg_state_value x)" "exact_numbers (receipt_leg_state_value y)"
  by (cases x; simp) (cases y; simp)

lemma sample_exact:
  "exact_artifact descriptor_value sample_descriptor"
  "exact_artifact offer_value sample_offer"
  "exact_artifact quote_value sample_quote"
  "exact_artifact deal_value sample_deal"
  "exact_artifact invoice_bundle_value sample_invoice_bundle"
  "exact_artifact receipt_value sample_receipt"
  by (simp_all add: sample_exact_unfold descriptor_value_def descriptor_capabilities_value_def
      offer_value_def offer_execution_profile_value_def offer_price_schedule_value_def quote_value_def
      quote_settlement_terms_value_def deal_value_def invoice_bundle_value_def
      invoice_bundle_leg_value_def receipt_value_def receipt_executor_value_def
      receipt_settlement_refs_value_def receipt_settlement_leg_value_def sample_descriptor_def
      sample_offer_def sample_quote_def sample_deal_def sample_invoice_bundle_def sample_receipt_def
      sample_leg_def settled_leg_def sample_receipt_payload_def sample_executor_def)

lemma free_hashes [simp]:
  "trim (art_hash free_offer) \<noteq> []" "trim (art_hash free_quote) \<noteq> []"
  by (simp_all add: free_offer_def free_quote_def sample_sign_hash)

lemma free_verified:
  "verified_as reference_env offer_value ARTIFACT_TYPE_OFFER free_offer"
  "verified_as reference_env quote_value ARTIFACT_TYPE_QUOTE free_quote"
  "verified_as reference_env deal_value ARTIFACT_TYPE_DEAL free_deal"
  "verified_as reference_env receipt_value ARTIFACT_TYPE_RECEIPT free_receipt"
  by (simp_all add: free_offer_def free_quote_def free_deal_def free_receipt_def sample_sign_verifies)

lemma free_valid:
  "validate_offer_artifact free_offer = Inr ()" "validate_quote_artifact free_quote = Inr ()"
  "validate_deal_artifact free_deal = Inr ()"
  "validate_receipt_artifact reference_env free_receipt = Inr ()"
  subgoal unfolding free_offer_def sample_offer_def by (simp add: validate_offer_ok)
  subgoal unfolding free_quote_def sample_quote_def by (simp add: validate_quote_ok quote_terms_rules_def)
  subgoal unfolding free_deal_def sample_deal_def
    by (simp add: validate_deal_ok sample_success_hash_def)
  subgoal unfolding free_receipt_def
    by (simp add: validate_receipt_ok receipt_rules_def settlement_table_def evidence_table_def
        outcome_table_def receipt_leg_is_empty_canceled_def empty_leg_def
        sample_receipt_payload_def Let_def)
  done

lemma free_chain_ok: "full_chain_ok reference_env (Some 60) free_chain"
proof -
  have "offer_quote_linked free_offer free_quote"
    by (simp add: offer_quote_linked_def Let_def limits_within_offer_def sample_limits_def
        free_offer_def free_quote_def sample_offer_def sample_quote_def)
  moreover have "quote_deal_linked free_quote free_deal"
    by (simp add: quote_deal_linked_def free_quote_def free_deal_def sample_quote_def
        sample_deal_def)
  moreover have "receipt_linked free_quote free_deal free_receipt"
    by (simp add: receipt_linked_def limits_within_quote_def Let_def empty_leg_def
        sample_receipt_payload_def free_receipt_def free_quote_def free_deal_def sample_quote_def
        sample_deal_def)
  moreover have "offer_provider_id (art_payload free_offer) = provider_pk"
    "offer_descriptor_hash (art_payload free_offer) = art_hash sample_descriptor"
    "desc_provider_id (art_payload sample_descriptor) = provider_pk"
    "desc_expires_at (art_payload sample_descriptor) = None"
    "offer_expires_at (art_payload free_offer) = None"
    "quote_expires_at (art_payload free_quote) = 100"
    "terms_method (quote_settlement_terms (art_payload free_quote)) = SETTLEMENT_METHOD_NONE"
    by (simp_all add: sample_descriptor_def free_offer_def free_quote_def sample_offer_def
        sample_quote_def)
  ultimately show ?thesis
    by (simp add: full_chain_ok_def accepted_defs free_chain_def sample_verified free_verified
        sample_descriptor_valid free_valid expired_def)
qed

end
