(* ===== verification/Protocol_Properties.thy ===== *)
theory Protocol_Properties
  imports Samples
begin

text \<open>
  What the protocol layer as a whole guarantees: signing and verifying are inverse, a tampered
  payload is detected, a receipt pins the whole chain behind it, and a chain that validates
  agrees end to end on the parties, the money and the execution limits.
\<close>

section \<open>Notions the statements use\<close>

definition chain_contents where
  "chain_contents c =
     (signed_content (fc_descriptor c), signed_content (fc_offer c), signed_content (fc_quote c),
      map_option signed_content (fc_invoice_bundle c), signed_content (fc_deal c),
      map_option signed_content (fc_receipt c))"

definition chain_exact :: "full_chain \<Rightarrow> bool" where
  "chain_exact c =
     (exact_artifact descriptor_value (fc_descriptor c) \<and> exact_artifact offer_value (fc_offer c) \<and>
      exact_artifact quote_value (fc_quote c) \<and> exact_artifact deal_value (fc_deal c) \<and>
      (case fc_invoice_bundle c of None \<Rightarrow> True | Some a \<Rightarrow> exact_artifact invoice_bundle_value a) \<and>
      (case fc_receipt c of None \<Rightarrow> True | Some a \<Rightarrow> exact_artifact receipt_value a))"

definition artifact_collision ::
  "crypto_env \<Rightarrow> ('p \<Rightarrow> json) \<Rightarrow> 'p signed_artifact \<Rightarrow> 'p signed_artifact \<Rightarrow> bool" where
  "artifact_collision cs to_value a b =
     sha256_collision cs (signing_bytes_of cs to_value a) (signing_bytes_of cs to_value b)"

definition option_collision ::
  "crypto_env \<Rightarrow> ('p \<Rightarrow> json) \<Rightarrow> 'p signed_artifact option \<Rightarrow> 'p signed_artifact option \<Rightarrow> bool" where
  "option_collision cs to_value a b =
     (case (a, b) of (Some x, Some y) \<Rightarrow> artifact_collision cs to_value x y | _ \<Rightarrow> False)"

definition chain_collision :: "crypto_env \<Rightarrow> full_chain \<Rightarrow> full_chain \<Rightarrow> bool" where
  "chain_collision cs c d =
     (artifact_collision cs descriptor_value (fc_descriptor c) (fc_descriptor d) \<or>
      artifact_collision cs offer_value (fc_offer c) (fc_offer d) \<or>
      artifact_collision cs quote_value (fc_quote c) (fc_quote d) \<or>
      artifact_collision cs deal_value (fc_deal c) (fc_deal d) \<or>
      option_collision cs invoice_bundle_value (fc_invoice_bundle c) (fc_invoice_bundle d) \<or>
      option_collision cs receipt_value (fc_receipt c) (fc_receipt d))"

definition kind_of :: "verified_artifact \<Rightarrow> string" where
  "kind_of v = (case v of VDescriptor _ \<Rightarrow> ARTIFACT_TYPE_DESCRIPTOR | VOffer _ \<Rightarrow> ARTIFACT_TYPE_OFFER
     | VQuote _ \<Rightarrow> ARTIFACT_TYPE_QUOTE | VDeal _ \<Rightarrow> ARTIFACT_TYPE_DEAL
     | VInvoiceBundle _ \<Rightarrow> TRANSPORT_TYPE_INVOICE_BUNDLE | VReceipt _ \<Rightarrow> ARTIFACT_TYPE_RECEIPT)"

definition document_of :: "verified_artifact \<Rightarrow> json" where
  "document_of v = (case v of VDescriptor a \<Rightarrow> artifact_value descriptor_value a
     | VOffer a \<Rightarrow> artifact_value offer_value a | VQuote a \<Rightarrow> artifact_value quote_value a
     | VDeal a \<Rightarrow> artifact_value deal_value a
     | VInvoiceBundle a \<Rightarrow> artifact_value invoice_bundle_value a
     | VReceipt a \<Rightarrow> artifact_value receipt_value a)"

definition typed_accepted :: "crypto_env \<Rightarrow> verified_artifact \<Rightarrow> bool" where
  "typed_accepted cs v = (case v of
       VDescriptor a \<Rightarrow> verified_as cs descriptor_value ARTIFACT_TYPE_DESCRIPTOR a \<and>
         validate_descriptor_artifact cs a = Inr ()
     | VOffer a \<Rightarrow> verified_as cs offer_value ARTIFACT_TYPE_OFFER a \<and> validate_offer_artifact a = Inr ()
     | VQuote a \<Rightarrow> verified_as cs quote_value ARTIFACT_TYPE_QUOTE a \<and> validate_quote_artifact a = Inr ()
     | VDeal a \<Rightarrow> verified_as cs deal_value ARTIFACT_TYPE_DEAL a \<and> validate_deal_artifact a = Inr ()
     | VInvoiceBundle a \<Rightarrow> verified_as cs invoice_bundle_value TRANSPORT_TYPE_INVOICE_BUNDLE a \<and>
         validate_invoice_bundle_artifact cs a = Inr ()
     | VReceipt a \<Rightarrow> verified_as cs receipt_value ARTIFACT_TYPE_RECEIPT a \<and>
         validate_receipt_artifact cs a = Inr ())"

text \<open>serde's round trip: deserializing what \<open>artifact_value\<close> wrote gives the artifact back.\<close>

definition decoder_laws :: "decoders \<Rightarrow> bool" where
  "decoder_laws ds \<longleftrightarrow>
     (\<forall>a. decode_descriptor ds (artifact_value descriptor_value a) = Inr a) \<and>
     (\<forall>a. decode_offer ds (artifact_value offer_value a) = Inr a) \<and>
     (\<forall>a. decode_quote ds (artifact_value quote_value a) = Inr a) \<and>
     (\<forall>a. decode_deal ds (artifact_value deal_value a) = Inr a) \<and>
     (\<forall>a. decode_invoice_bundle ds (artifact_value invoice_bundle_value a) = Inr a) \<and>
     (\<forall>a. decode_receipt ds (artifact_value receipt_value a) = Inr a)"

text \<open>Decoders that invert the encoding, which exist because the encoding is injective.\<close>

definition reference_decoders :: decoders where
  "reference_decoders =
     \<lparr>decode_descriptor = (\<lambda>j. Inr (inv (artifact_value descriptor_value) j)),
      decode_offer = (\<lambda>j. Inr (inv (artifact_value offer_value) j)),
      decode_quote = (\<lambda>j. Inr (inv (artifact_value quote_value) j)),
      decode_deal = (\<lambda>j. Inr (inv (artifact_value deal_value) j)),
      decode_invoice_bundle = (\<lambda>j. Inr (inv (artifact_value invoice_bundle_value) j)),
      decode_receipt = (\<lambda>j. Inr (inv (artifact_value receipt_value) j))\<rparr>"

text \<open>A descriptor of the sample provider with a linked Nostr identity.\<close>

definition sample_link :: linked_identity where
  "sample_link =
     \<lparr>li_identity_kind = LINKED_IDENTITY_KIND_NOSTR, li_identity = requester_pk,
      li_scope = [''publication.nostr''], li_created_at = 40, li_expires_at = None,
      li_signature_algorithm = LINKED_IDENTITY_SIGNATURE_ALGORITHM_BIP340,
      li_linked_signature = sign_message_hex reference_env requester_sk
        (projr (linked_identity_challenge_bytes reference_env provider_pk LINKED_IDENTITY_KIND_NOSTR
           requester_pk [''publication.nostr''] 40 None))\<rparr>"

definition sample_linked_descriptor :: descriptor_artifact where
  "sample_linked_descriptor = sample_sign descriptor_value provider_sk ARTIFACT_TYPE_DESCRIPTOR
     ((art_payload sample_descriptor)\<lparr>desc_linked_identities := [sample_link]\<rparr>)"

section \<open>Lemmas\<close>

lemma full_chain_okD:
  assumes "full_chain_ok cs now c"
  shows "verify_artifact cs descriptor_value (fc_descriptor c)"
    "verify_artifact cs offer_value (fc_offer c)" "verify_artifact cs quote_value (fc_quote c)"
    "verify_artifact cs deal_value (fc_deal c)"
    "offer_descriptor_hash (art_payload (fc_offer c)) = art_hash (fc_descriptor c)"
    "quote_offer_hash (art_payload (fc_quote c)) = art_hash (fc_offer c)"
    "deal_quote_hash (art_payload (fc_deal c)) = art_hash (fc_quote c)"
    "fc_invoice_bundle c = None \<longleftrightarrow>
       terms_method (quote_settlement_terms (art_payload (fc_quote c))) \<noteq> SETTLEMENT_METHOD_LIGHTNING_ESCROW"
  using assms
  by (auto simp: full_chain_ok_def accepted_defs verified_as_def offer_quote_linked_def
      quote_deal_linked_def invoice_bundle_linked_def Let_def split: option.splits)

lemma full_chain_ok_receiptD:
  assumes "full_chain_ok cs now c" and "fc_receipt c = Some r"
  shows "verify_artifact cs receipt_value r" "receipt_rules cs r"
    "rcpt_deal_hash (art_payload r) = art_hash (fc_deal c)"
    "receipt_linked (fc_quote c) (fc_deal c) r"
    "fc_invoice_bundle c = Some ib \<Longrightarrow> receipt_bundle_linked ib (fc_deal c) r"
  using assms
  by (auto simp: full_chain_ok_def accepted_defs verified_as_def receipt_linked_def
      validate_receipt_ok Let_def split: option.splits)

lemma full_chain_ok_bundleD:
  assumes "full_chain_ok cs now c" and "fc_invoice_bundle c = Some ib"
  shows "verify_artifact cs invoice_bundle_value ib"
    "validate_invoice_bundle_artifact cs ib = Inr ()"
    "invoice_bundle_linked cs (fc_quote c) ib (fc_deal c)"
  using assms by (auto simp: full_chain_ok_def accepted_defs verified_as_def)

lemma signed_content_payload: "signed_content a = signed_content b \<Longrightarrow> art_payload a = art_payload b"
  by (simp add: signed_content_def)

lemma chain_bundle_from_receipt:
  assumes laws: "jcs_laws cs" "hex_laws cs"
    and ok: "full_chain_ok cs n c" "full_chain_ok cs m d"
    and ex: "chain_exact c" "chain_exact d"
    and r: "fc_receipt c = Some r" "fc_receipt d = Some s"
    and nc: "\<not> chain_collision cs c d"
    and rs: "signed_content r = signed_content s"
    and q: "signed_content (fc_quote c) = signed_content (fc_quote d)"
  shows "map_option signed_content (fc_invoice_bundle c) =
    map_option signed_content (fc_invoice_bundle d)"
proof (cases "fc_invoice_bundle c")
  case None
  then have "fc_invoice_bundle d = None"
    using full_chain_okD(8) [OF ok(1)] full_chain_okD(8) [OF ok(2)] signed_content_payload [OF q]
    by simp
  with None show ?thesis by simp
next
  case (Some ib)
  then obtain jb where jb: "fc_invoice_bundle d = Some jb"
    using full_chain_okD(8) [OF ok(1)] full_chain_okD(8) [OF ok(2)] signed_content_payload [OF q]
    by (cases "fc_invoice_bundle d") simp_all
  have "art_hash ib = art_hash jb"
    using full_chain_ok_receiptD(5) [OF ok(1) r(1) Some] full_chain_ok_receiptD(5) [OF ok(2) r(2) jb]
      signed_content_payload [OF rs] by (simp add: receipt_bundle_linked_def Let_def)
  then show ?thesis
    using invoice_bundle_codec.hash_binds_content [OF laws, of ib jb] Some jb ex nc
      full_chain_ok_bundleD(1) [OF ok(1) Some] full_chain_ok_bundleD(1) [OF ok(2) jb]
    by (simp add: chain_exact_def chain_collision_def option_collision_def artifact_collision_def)
qed

lemma chain_contents_from_receipt:
  assumes laws: "jcs_laws cs" "hex_laws cs"
    and ok: "full_chain_ok cs n c" "full_chain_ok cs m d"
    and ex: "chain_exact c" "chain_exact d"
    and r: "fc_receipt c = Some r" "fc_receipt d = Some s" "art_hash r = art_hash s"
    and nc: "\<not> chain_collision cs c d"
  shows "chain_contents c = chain_contents d"
proof -
  note no = nc [unfolded chain_collision_def artifact_collision_def option_collision_def]
  note exs = ex [unfolded chain_exact_def]
  have rs: "signed_content r = signed_content s"
    using receipt_codec.hash_binds_content [OF laws, of r s] full_chain_ok_receiptD(1) [OF ok(1) r(1)]
      full_chain_ok_receiptD(1) [OF ok(2) r(2)] exs no r by simp
  then have "art_hash (fc_deal c) = art_hash (fc_deal d)"
    using full_chain_ok_receiptD(3) [OF ok(1) r(1)] full_chain_ok_receiptD(3) [OF ok(2) r(2)]
    by (auto dest: signed_content_payload)
  then have dl: "signed_content (fc_deal c) = signed_content (fc_deal d)"
    using deal_codec.hash_binds_content [OF laws, of "fc_deal c" "fc_deal d"]
      full_chain_okD(4) [OF ok(1)] full_chain_okD(4) [OF ok(2)] exs no by simp
  then have "art_hash (fc_quote c) = art_hash (fc_quote d)"
    using full_chain_okD(7) [OF ok(1)] full_chain_okD(7) [OF ok(2)] by (auto dest: signed_content_payload)
  then have q: "signed_content (fc_quote c) = signed_content (fc_quote d)"
    using quote_codec.hash_binds_content [OF laws, of "fc_quote c" "fc_quote d"]
      full_chain_okD(3) [OF ok(1)] full_chain_okD(3) [OF ok(2)] exs no by simp
  then have "art_hash (fc_offer c) = art_hash (fc_offer d)"
    using full_chain_okD(6) [OF ok(1)] full_chain_okD(6) [OF ok(2)] by (auto dest: signed_content_payload)
  then have off: "signed_content (fc_offer c) = signed_content (fc_offer d)"
    using offer_codec.hash_binds_content [OF laws, of "fc_offer c" "fc_offer d"]
      full_chain_okD(2) [OF ok(1)] full_chain_okD(2) [OF ok(2)] exs no by simp
  then have "art_hash (fc_descriptor c) = art_hash (fc_descriptor d)"
    using full_chain_okD(5) [OF ok(1)] full_chain_okD(5) [OF ok(2)] by (auto dest: signed_content_payload)
  then have de: "signed_content (fc_descriptor c) = signed_content (fc_descriptor d)"
    using descriptor_codec.hash_binds_content [OF laws, of "fc_descriptor c" "fc_descriptor d"]
      full_chain_okD(1) [OF ok(1)] full_chain_okD(1) [OF ok(2)] exs no by simp
  have "map_option signed_content (fc_invoice_bundle c) = map_option signed_content (fc_invoice_bundle d)"
    using chain_bundle_from_receipt [OF laws ok ex r(1,2) nc rs q] .
  with rs dl q off de r show ?thesis by (simp add: chain_contents_def)
qed

lemma reference_decoder_laws: "decoder_laws reference_decoders"
  by (simp add: decoder_laws_def reference_decoders_def inv_f_f inj_def
      descriptor_codec.artifact_value_inject offer_codec.artifact_value_inject
      quote_codec.artifact_value_inject deal_codec.artifact_value_inject
      invoice_bundle_codec.artifact_value_inject receipt_codec.artifact_value_inject)

lemma verify_typed_arm_ok:
  "verify_typed_arm cs tv d ty va wrap = Inr v \<longleftrightarrow>
     (\<exists>a. d = Inr a \<and> verified_as cs tv ty a \<and> va a = Inr () \<and> v = wrap a)"
  by (cases d) (auto simp: verify_typed_arm_def require_typed_artifact_kind_def and_then_unit_Inr
      and_then_Inr verified_as_def split: if_splits)

lemma typed_document_ok:
  assumes "verify_typed_document cs ds doc kind = Inr v"
  shows "kind_of v = kind \<and> typed_accepted cs v"
  using assms
  by (auto simp: verify_typed_document_def verify_typed_arm_ok kind_of_def typed_accepted_def
      split: if_splits)

lemma typed_document_complete:
  assumes "decoder_laws ds" and "typed_accepted cs v"
  shows "verify_typed_document cs ds (document_of v) (kind_of v) = Inr v"
  using assms
  by (cases v) (simp_all add: verify_typed_document_def verify_typed_arm_ok kind_of_def
      document_of_def typed_accepted_def decoder_laws_def)

section \<open>Signing and verifying\<close>

text \<open>
  C5. Round trip of the signed envelope. With a usable secp256k1 key and a payload whose numbers
  are exact in the canonical form, signing succeeds, the result verifies, names the key's public
  key as signer, carries the payload unchanged, and its in-band hash is the recomputed content
  address.
\<close>

theorem sign_verify_round_trip:
  assumes "crypto_laws cs" and "secret_key_ok cs sk" and "wf_json (to_value p)"
    and "exact_numbers (to_value p)" and "\<bar>t\<bar> \<le> 2 ^ 53"
  shows "\<exists>a. sign_artifact cs to_value (public_key_hex cs sk) (sign_message_hex cs sk) ty t p = Inr a \<and>
    verify_artifact cs to_value a \<and> art_signer a = public_key_hex cs sk \<and> art_payload a = p \<and>
    artifact_hash cs to_value a = Inr (art_hash a)"
proof -
  note laws = crypto_lawsD [OF assms(1)]
  obtain a where a: "sign_artifact cs to_value (public_key_hex cs sk) (sign_message_hex cs sk) ty t p
      = Inr a"
    using sign_artifact_total [where to_value = to_value, OF laws(4) assms(3-5)] by blast
  with verify_signed_artifact [OF laws(1,3) assms(2) a] show ?thesis
    using sign_artifact_fields [OF a] artifact_hash_of_verified by blast
qed

theorem sign_verify_round_trip_witness:
  "\<exists>a. sign_artifact reference_env deal_value (public_key_hex reference_env requester_sk)
      (sign_message_hex reference_env requester_sk) ARTIFACT_TYPE_DEAL 50 (art_payload sample_deal)
      = Inr a \<and>
    verify_artifact reference_env deal_value a \<and>
    art_signer a = public_key_hex reference_env requester_sk \<and>
    art_payload a = art_payload sample_deal \<and>
    artifact_hash reference_env deal_value a = Inr (art_hash a)"
proof (rule sign_verify_round_trip)
  show "exact_numbers (deal_value (art_payload sample_deal))"
    using sample_exact(4) by (simp add: exact_artifact_def signing_value_of_def exact_signing_value)
qed simp_all

text \<open>
  Tamper evidence. If the payload of a verified receipt is replaced and the artifact still
  verifies, then the payload was not changed at all, or the canonical bytes of the two payloads
  are a SHA-256 collision.
\<close>

theorem tampered_receipt_is_a_collision:
  assumes "crypto_laws cs" and "verify_artifact cs receipt_value r"
    and "verify_artifact cs receipt_value (r\<lparr>art_payload := q\<rparr>)"
    and "exact_numbers (receipt_value (art_payload r))" and "exact_numbers (receipt_value q)"
  shows "q = art_payload r \<or>
    sha256_collision cs (ok_bytes (jcs_to_vec cs (receipt_value (art_payload r))))
      (ok_bytes (jcs_to_vec cs (receipt_value q)))"
  using receipt_codec.payload_swap_detected [OF crypto_lawsD(4,1) [OF assms(1)] assms(2-5)] by blast

theorem tampered_receipt_is_a_collision_witness:
  "verify_artifact reference_env receipt_value sample_receipt \<and>
   (art_payload sample_receipt = art_payload sample_receipt \<or>
    sha256_collision reference_env
      (ok_bytes (jcs_to_vec reference_env (receipt_value (art_payload sample_receipt))))
      (ok_bytes (jcs_to_vec reference_env (receipt_value (art_payload sample_receipt)))))"
proof
  show v: "verify_artifact reference_env receipt_value sample_receipt"
    using sample_verified(6) by (simp add: verified_as_def)
  have x: "exact_numbers (receipt_value (art_payload sample_receipt))"
    using sample_exact(6) by (simp add: exact_artifact_def signing_value_of_def exact_signing_value)
  show "art_payload sample_receipt = art_payload sample_receipt \<or>
    sha256_collision reference_env
      (ok_bytes (jcs_to_vec reference_env (receipt_value (art_payload sample_receipt))))
      (ok_bytes (jcs_to_vec reference_env (receipt_value (art_payload sample_receipt))))"
    by (rule tampered_receipt_is_a_collision [OF reference_crypto_laws v _ x x]) (simp add: v)
qed

section \<open>Receipts\<close>

text \<open>
  C4. The receipt validator accepts exactly the receipts that satisfy the protocol's tables: the
  signer is the provider, times are ordered, results are present exactly on successful
  execution, the deal and execution states are one of the five permitted pairs, the settlement
  state and the leg states fit the settlement method, the method's evidence is present, and a
  successful paid deal is settled.
\<close>

theorem receipt_validator_exact:
  "validate_receipt_artifact cs r = Inr () \<longleftrightarrow> receipt_rules cs r"
  by (rule validate_receipt_ok)

text \<open>
  C8. A settled prepaid Lightning receipt proves payment: its base leg carries the hex of a
  32-byte preimage whose SHA-256 is the leg's payment hash (compared in lower case).
\<close>

theorem prepaid_receipt_proves_payment:
  assumes "validate_receipt_artifact cs r = Inr ()"
    and "refs_method (rcpt_settlement_refs (art_payload r)) = SETTLEMENT_METHOD_LIGHTNING_PREPAID"
    and "rcpt_settlement_state (art_payload r) = ''settled''"
  shows "\<exists>preimage. length preimage = 32 \<and>
    hex_decode cs (rsl_invoice_hash (refs_base_fee (rcpt_settlement_refs (art_payload r))))
      = Some preimage \<and>
    sha256_hex cs preimage =
      to_ascii_lowercase (rsl_payment_hash (refs_base_fee (rcpt_settlement_refs (art_payload r))))"
  using assms
  by (auto simp: validate_receipt_ok receipt_rules_def evidence_table_def preimage_proof_def
      decode_hash32_def Let_def split: option.splits if_splits)

theorem prepaid_receipt_proves_payment_witness:
  "\<exists>preimage. length preimage = 32 \<and>
    hex_decode reference_env
      (rsl_invoice_hash (refs_base_fee (rcpt_settlement_refs (art_payload sample_prepaid_receipt))))
      = Some preimage \<and>
    sha256_hex reference_env preimage = to_ascii_lowercase
      (rsl_payment_hash (refs_base_fee (rcpt_settlement_refs (art_payload sample_prepaid_receipt))))"
  by (rule prepaid_receipt_proves_payment [OF sample_prepaid_receipt_valid])
    (simp_all add: sample_prepaid_receipt_def sample_receipt_payload_def)

section \<open>Chains\<close>

text \<open>
  C3. Full-chain validation reports a chain valid exactly when every artifact is accepted by
  itself (type, envelope, semantics, expiry), neighbouring artifacts are linked, an invoice bundle
  is present exactly on the Lightning escrow method and is linked to quote and deal, and the
  receipt, if there is one, is linked to quote, deal and bundle.
\<close>

theorem full_chain_exact: "fcr_valid (validate_full_chain cs c now) \<longleftrightarrow> full_chain_ok cs now c"
  by (rule full_chain_valid_iff)

text \<open>
  In every report of a full-chain validation the valid flag is set exactly when the list of
  issues is empty, and the verdict on the chain is that no report has an issue.
\<close>

theorem full_chain_verdict_is_no_issue:
  "list_all (\<lambda>r. rep_valid r = (rep_issues r = [])) (fcr_reports (validate_full_chain cs c now)) \<and>
   fcr_valid (validate_full_chain cs c now) =
     list_all (\<lambda>r. rep_issues r = []) (fcr_reports (validate_full_chain cs c now))"
proof -
  have w: "list_all (\<lambda>r. rep_valid r = (rep_issues r = []))
      (fcr_reports (validate_full_chain cs c now))"
    using full_chain_reports_wf [of cs c now] by (simp add: report_wf_def [abs_def])
  moreover have "fcr_valid (validate_full_chain cs c now) =
      list_all rep_valid (fcr_reports (validate_full_chain cs c now))"
    by (simp add: validate_full_chain_def Let_def)
  ultimately show ?thesis by (auto simp: list_all_iff)
qed



text \<open>
  C6. A valid chain agrees end to end: all artifacts but the deal are signed by one provider key
  and the deal by the requester that the quote and the receipt name; fees and method of the
  receipt are those of the offer; the limits the receipt reports are within the offer's; the
  deal's deadlines are ordered and its admission deadline is within the quote's life.
\<close>

theorem valid_chain_agrees_end_to_end:
  assumes "fcr_valid (validate_full_chain cs c now)" and "fc_receipt c = Some r"
  defines "off \<equiv> art_payload (fc_offer c)" and "rp \<equiv> art_payload r"
    and "dp \<equiv> art_payload (fc_deal c)" and "lims \<equiv> rcpt_limits_applied (art_payload r)"
    and "prof \<equiv> offer_execution_profile (art_payload (fc_offer c))"
  shows "art_signer (fc_descriptor c) = art_signer r \<and> art_signer (fc_offer c) = art_signer r \<and>
    art_signer (fc_quote c) = art_signer r \<and> art_signer (fc_deal c) = rcpt_requester_id rp \<and>
    refs_method (rcpt_settlement_refs rp) = offer_settlement_method off \<and>
    rsl_amount_msat (refs_base_fee (rcpt_settlement_refs rp))
      = price_base_fee_msat (offer_price_schedule off) \<and>
    rsl_amount_msat (refs_success_fee (rcpt_settlement_refs rp))
      = price_success_fee_msat (offer_price_schedule off) \<and>
    lim_max_input_bytes lims \<le> prof_max_input_bytes prof \<and>
    lim_max_runtime_ms lims \<le> prof_max_runtime_ms prof \<and>
    lim_max_memory_bytes lims \<le> prof_max_memory_bytes prof \<and>
    lim_max_output_bytes lims \<le> prof_max_output_bytes prof \<and>
    lim_fuel_limit lims \<le> prof_fuel_limit prof \<and>
    deal_admission_deadline dp \<le> quote_expires_at (art_payload (fc_quote c)) \<and>
    deal_admission_deadline dp < deal_completion_deadline dp \<and>
    deal_completion_deadline dp \<le> deal_acceptance_deadline dp"
proof -
  have ok: "full_chain_ok cs now c" using assms(1) by (simp add: full_chain_valid_iff)
  have "offer_quote_linked (fc_offer c) (fc_quote c)" "quote_deal_linked (fc_quote c) (fc_deal c)"
    using ok by (simp_all add: full_chain_ok_def)
  moreover note full_chain_ok_receiptD(4) [OF ok assms(2)]
  moreover have "art_signer (fc_descriptor c) = offer_provider_id off"
    "art_signer (fc_offer c) = offer_provider_id off"
    "art_signer (fc_quote c) = quote_provider_id (art_payload (fc_quote c))"
    "art_signer (fc_deal c) = deal_requester_id dp" "art_signer r = rcpt_provider_id rp"
    using ok assms(2) by (simp_all add: full_chain_ok_def accepted_defs validate_descriptor_ok
        validate_offer_ok validate_quote_ok validate_deal_ok validate_receipt_ok receipt_rules_def
        off_def rp_def dp_def Let_def)
  ultimately show ?thesis
    by (auto simp: offer_quote_linked_def quote_deal_linked_def receipt_linked_def
        limits_within_offer_def limits_within_quote_def off_def rp_def dp_def lims_def prof_def Let_def
        intro: order_trans)
qed

theorem valid_chain_agrees_end_to_end_witness:
  "refs_method (rcpt_settlement_refs (art_payload sample_receipt))
     = offer_settlement_method (art_payload sample_offer) \<and>
   art_signer sample_descriptor = art_signer sample_receipt"
  using valid_chain_agrees_end_to_end
    [of reference_env sample_chain "Some 60" sample_receipt] sample_chain_ok
  by (simp add: full_chain_valid_iff sample_chain_def)

text \<open>
  C2. Success is paid in full. If a valid chain's offer is not free and its receipt reports the
  deal succeeded, the receipt is settled, its base leg is settled for the offered base fee, and
  on the escrow method the success leg is settled for the offered success fee against the
  deal's own success payment hash; on every other method there is no success fee.
\<close>

theorem success_is_paid_in_full:
  assumes "fcr_valid (validate_full_chain cs c now)" and "fc_receipt c = Some r"
    and "rcpt_deal_state (art_payload r) = ''succeeded''"
    and "price_base_fee_msat (offer_price_schedule (art_payload (fc_offer c))) \<noteq> 0 \<or>
      price_success_fee_msat (offer_price_schedule (art_payload (fc_offer c))) \<noteq> 0"
  defines "price \<equiv> offer_price_schedule (art_payload (fc_offer c))"
    and "refs \<equiv> rcpt_settlement_refs (art_payload r)"
  shows "rcpt_settlement_state (art_payload r) = ''settled'' \<and>
    rsl_state (refs_base_fee refs) = RlSettled \<and>
    rsl_amount_msat (refs_base_fee refs) = price_base_fee_msat price \<and>
    (if refs_method refs = SETTLEMENT_METHOD_LIGHTNING_ESCROW
     then rsl_state (refs_success_fee refs) = RlSettled \<and>
       rsl_amount_msat (refs_success_fee refs) = price_success_fee_msat price \<and>
       rsl_payment_hash (refs_success_fee refs) = deal_success_payment_hash (art_payload (fc_deal c))
     else price_success_fee_msat price = 0)"
proof -
  have ok: "full_chain_ok cs now c" using assms(1) by (simp add: full_chain_valid_iff)
  have oq: "offer_quote_linked (fc_offer c) (fc_quote c)" using ok by (simp add: full_chain_ok_def)
  note rl = full_chain_ok_receiptD(2,4) [OF ok assms(2)]
  have off: "validate_offer_artifact (fc_offer c) = Inr ()"
    using ok by (simp add: full_chain_ok_def accepted_defs)
  then have paid: "is_paid_settlement_method (refs_method refs)"
    using oq rl(2) assms(4)
    by (auto simp: validate_offer_ok offer_quote_linked_def receipt_linked_def refs_def Let_def
        split: if_splits)
  have st: "rcpt_settlement_state (art_payload r) = ''settled''"
    using rl(1) paid assms(3)
    by (auto simp: receipt_rules_def refs_def is_paid_settlement_method_def Let_def)
  have "rsl_payment_hash (refs_success_fee refs) = deal_success_payment_hash (art_payload (fc_deal c))"
    if "refs_method refs = SETTLEMENT_METHOD_LIGHTNING_ESCROW"
  proof -
    from that obtain ib where "fc_invoice_bundle c = Some ib"
      using full_chain_okD(8) [OF ok] rl(2) by (cases "fc_invoice_bundle c")
        (auto simp: receipt_linked_def refs_def Let_def)
    from full_chain_ok_receiptD(5) [OF ok assms(2) this] show ?thesis
      by (auto simp: receipt_bundle_linked_def refs_def Let_def)
  qed
  with st paid rl oq off show ?thesis
    by (auto simp: receipt_rules_def settlement_table_def receipt_linked_def offer_quote_linked_def
        validate_offer_ok price_def refs_def is_paid_settlement_method_def Let_def split: if_splits)
qed

theorem success_is_paid_in_full_witness:
  "rcpt_settlement_state (art_payload sample_receipt) = ''settled'' \<and>
   rsl_state (refs_base_fee (rcpt_settlement_refs (art_payload sample_receipt))) = RlSettled"
  using success_is_paid_in_full [of reference_env sample_chain "Some 60" sample_receipt] sample_chain_ok
  by (simp add: full_chain_valid_iff sample_chain_def)
    (simp add: sample_receipt_def sample_receipt_payload_def sample_offer_def)

text \<open>
  A free offer moves no money. If a valid chain's offer charges nothing, the receipt uses the
  settlement method none, both its legs are zero-valued placeholders, and the chain has no
  invoice bundle.
\<close>

theorem free_chain_moves_no_money:
  assumes "fcr_valid (validate_full_chain cs c now)" and "fc_receipt c = Some r"
    and "offer_price_schedule (art_payload (fc_offer c))
      = \<lparr>price_base_fee_msat = 0, price_success_fee_msat = 0\<rparr>"
  shows "rcpt_settlement_state (art_payload r) = ''none'' \<and>
    receipt_leg_is_empty_canceled (refs_base_fee (rcpt_settlement_refs (art_payload r))) \<and>
    receipt_leg_is_empty_canceled (refs_success_fee (rcpt_settlement_refs (art_payload r))) \<and>
    fc_invoice_bundle c = None"
proof -
  have ok: "full_chain_ok cs now c" using assms(1) by (simp add: full_chain_valid_iff)
  then have "validate_offer_artifact (fc_offer c) = Inr ()"
    "offer_quote_linked (fc_offer c) (fc_quote c)"
    by (simp_all add: full_chain_ok_def accepted_defs)
  then have m: "terms_method (quote_settlement_terms (art_payload (fc_quote c))) = SETTLEMENT_METHOD_NONE"
    using assms(3) by (simp add: validate_offer_ok offer_quote_linked_def Let_def)
  moreover from this have "refs_method (rcpt_settlement_refs (art_payload r)) = SETTLEMENT_METHOD_NONE"
    using full_chain_ok_receiptD(4) [OF ok assms(2)] by (simp add: receipt_linked_def Let_def)
  ultimately show ?thesis
    using full_chain_ok_receiptD(2) [OF ok assms(2)] full_chain_okD(8) [OF ok]
    by (simp add: receipt_rules_def settlement_table_def evidence_table_def Let_def)
qed

theorem free_chain_moves_no_money_witness:
  "rcpt_settlement_state (art_payload free_receipt) = ''none'' \<and>
   receipt_leg_is_empty_canceled (refs_base_fee (rcpt_settlement_refs (art_payload free_receipt)))"
  using free_chain_moves_no_money [of reference_env free_chain "Some 60" free_receipt] free_chain_ok
  by (simp add: full_chain_valid_iff free_chain_def) (simp add: free_offer_def)

section \<open>Typed documents and linked identities\<close>

text \<open>
  C7. The typed entry point is exact. On the document of an artifact, under the kind of that
  artifact, verification returns the artifact exactly when its type, its envelope and its
  semantics are accepted, provided deserializing a serialized artifact gives it back; and
  whatever a document and a kind it accepts, the result is accepted and of the kind asked for.
\<close>

theorem typed_document_exact:
  assumes "decoder_laws ds"
  shows "(verify_typed_document cs ds (document_of v) (kind_of v) = Inr v \<longleftrightarrow> typed_accepted cs v) \<and>
    (\<forall>doc kind w. verify_typed_document cs ds doc kind = Inr w \<longrightarrow>
       kind_of w = kind \<and> typed_accepted cs w)"
  using typed_document_ok typed_document_complete [OF assms] by blast

theorem typed_document_exact_witness:
  "verify_typed_document reference_env reference_decoders
     (document_of (VReceipt sample_receipt)) (kind_of (VReceipt sample_receipt))
   = Inr (VReceipt sample_receipt)"
  using typed_document_exact [OF reference_decoder_laws, of reference_env "VReceipt sample_receipt"]
  by (simp add: typed_accepted_def sample_verified sample_receipt_valid)

text \<open>
  A Nostr link cannot be replayed. If two descriptors are accepted and a link of each has the
  same signed challenge bytes, the links belong to the same provider and agree in identity,
  creation and expiry time, and in their scope unless the two scopes are a SHA-256 collision.
\<close>

theorem nostr_link_not_replayable:
  assumes "crypto_laws cs"
    and "verify_artifact cs descriptor_value d" and "validate_descriptor_artifact cs d = Inr ()"
    and "verify_artifact cs descriptor_value d'" and "validate_descriptor_artifact cs d' = Inr ()"
    and "li \<in> set (desc_linked_identities (art_payload d))"
    and "li' \<in> set (desc_linked_identities (art_payload d'))"
    and "li_identity_kind li = LINKED_IDENTITY_KIND_NOSTR"
    and "li_identity_kind li' = LINKED_IDENTITY_KIND_NOSTR"
    and "linked_identity_challenge_bytes cs (desc_provider_id (art_payload d)) (li_identity_kind li)
        (li_identity li) (li_scope li) (li_created_at li) (li_expires_at li) = Inr b"
    and "linked_identity_challenge_bytes cs (desc_provider_id (art_payload d')) (li_identity_kind li')
        (li_identity li') (li_scope li') (li_created_at li') (li_expires_at li') = Inr b"
  shows "desc_provider_id (art_payload d) = desc_provider_id (art_payload d') \<and>
    li_identity li = li_identity li' \<and> li_created_at li = li_created_at li' \<and>
    li_expires_at li = li_expires_at li' \<and>
    (li_scope li = li_scope li' \<or>
     sha256_collision cs (ok_bytes (jcs_to_vec cs (j_strs (li_scope li))))
       (ok_bytes (jcs_to_vec cs (j_strs (li_scope li')))))"
proof -
  note laws = crypto_lawsD [OF assms(1)]
  have free: "CHR 0x0A \<notin> set (desc_provider_id (art_payload x)) \<union> set (li_identity_kind l) \<union>
      set (li_identity l)"
    if "verify_artifact cs descriptor_value x" "validate_descriptor_artifact cs x = Inr ()"
      "l \<in> set (desc_linked_identities (art_payload x))"
      "li_identity_kind l = LINKED_IDENTITY_KIND_NOSTR" for x l
  proof -
    have "validate_linked_nostr_identity cs (desc_provider_id (art_payload x)) l = Inr ()"
      and "art_signer x = desc_provider_id (art_payload x)"
      using that by (auto simp: validate_descriptor_ok)
    with verified_signer_hex [OF laws(1) that(1)] that(4) show ?thesis
      by (auto simp: is_lower_hex_len_def
          dest!: newline_not_hex newline_not_lower_hex validate_linked_nostr_identityD(1))
  qed
  from link_challenge_fields [OF laws(1,2,4) free [OF assms(2,3,6,8)] free [OF assms(4,5,7,9)]
      assms(10,11)] scope_hash_binds [OF laws(1,4)]
  show ?thesis by blast
qed

lemma sample_link_valid: "validate_linked_nostr_identity reference_env provider_pk sample_link = Inr ()"
proof -
  obtain b where b: "linked_identity_challenge_bytes reference_env provider_pk
      LINKED_IDENTITY_KIND_NOSTR requester_pk [''publication.nostr''] 40 None = Inr b"
    by (simp add: linked_identity_challenge_bytes_def linked_identity_scope_hash_def
        canonical_json_to_vec_def reference_env_def)
  have "is_lower_hex_len (hex_encode reference_env x) (2 * length x)" for x
    using crypto_lawsD(1) [OF reference_crypto_laws] by (simp add: hex_laws_def is_lower_hex_len_def)
  from this [of requester_sk] this [of "requester_sk @ ref_digest b"]
  have "is_lower_hex_len requester_pk 64"
    "is_lower_hex_len (sign_message_hex reference_env requester_sk b) 128"
    by (simp_all add: requester_pk_def public_key_hex_def sign_message_hex_def reference_env_def
        requester_sk_def)
  moreover have "verify_message reference_env requester_pk
      (sign_message_hex reference_env requester_sk b) b"
    using verify_sign_message [of reference_env requester_sk b] by simp
  ultimately show ?thesis
    by (simp add: validate_linked_nostr_identity_def sample_link_def b starts_with_def)
qed

theorem nostr_link_not_replayable_witness:
  "sample_link \<in> set (desc_linked_identities (art_payload sample_linked_descriptor)) \<and>
   validate_descriptor_artifact reference_env sample_linked_descriptor = Inr () \<and>
   (li_scope sample_link = li_scope sample_link \<or>
     sha256_collision reference_env
       (ok_bytes (jcs_to_vec reference_env (j_strs (li_scope sample_link))))
       (ok_bytes (jcs_to_vec reference_env (j_strs (li_scope sample_link)))))"
proof -
  let ?d = sample_linked_descriptor
  have m: "sample_link \<in> set (desc_linked_identities (art_payload ?d))"
    and p: "desc_provider_id (art_payload ?d) = provider_pk"
    by (simp_all add: sample_linked_descriptor_def sample_descriptor_def)
  have v: "verify_artifact reference_env descriptor_value ?d"
    using sample_sign_verifies [of provider_sk descriptor_value ARTIFACT_TYPE_DESCRIPTOR]
    by (simp add: sample_linked_descriptor_def verified_as_def)
  have s: "validate_descriptor_artifact reference_env ?d = Inr ()"
    using sample_link_valid
    by (simp add: validate_descriptor_ok sample_linked_descriptor_def sample_descriptor_def)
  have k: "li_identity_kind sample_link = LINKED_IDENTITY_KIND_NOSTR" by (simp add: sample_link_def)
  from validate_linked_nostr_identityD(4) [OF sample_link_valid] obtain b where b:
    "linked_identity_challenge_bytes reference_env (desc_provider_id (art_payload ?d))
       (li_identity_kind sample_link) (li_identity sample_link) (li_scope sample_link)
       (li_created_at sample_link) (li_expires_at sample_link) = Inr b"
    unfolding p by blast
  from nostr_link_not_replayable [OF reference_crypto_laws v s v s m m k k b b] m s
  show ?thesis by simp
qed

end
