(* ===== verification/Database.thy ===== *)
theory Database
  imports Prelude
begin

text \<open>
  What the stores share of \<open>src/src/db.rs\<close> and of SQLite: the conversion of unsigned integers to
  its 64-bit integers, the immediate transaction, and the aggregate \<open>SUM\<close>.
\<close>

section \<open>Definitions\<close>

definition u64_to_sqlite_integer :: "u64 \<Rightarrow> string \<Rightarrow> i64 result" where
  "u64_to_sqlite_integer value field =
     ok_or (field @ '' exceeds SQLite INTEGER maximum ('' @ int_to_string (2 ^ 63 - 1) @ '')'')
       (i64_of_u64 value)"

text \<open>The transaction is rolled back when the operation returns an error.\<close>

definition with_immediate_transaction :: "('d \<Rightarrow> 'a result \<times> 'd) \<Rightarrow> 'd \<Rightarrow> 'a result \<times> 'd" where
  "with_immediate_transaction operation db =
     (case operation db of
        (Inl e, _) \<Rightarrow> (Inl e, db)
      | (Inr x, db') \<Rightarrow> (Inr x, db'))"

text \<open>
  An operation on a connection, the \<open>?\<close> operator between operations, and a computation that leaves
  the connection alone.
\<close>

type_synonym ('d, 'a) db_op = "'d \<Rightarrow> 'a result \<times> 'd"

definition db_then :: "('d, 'a) db_op \<Rightarrow> ('a \<Rightarrow> ('d, 'b) db_op) \<Rightarrow> ('d, 'b) db_op" where
  "db_then f g db = (case f db of (Inl e, db') \<Rightarrow> (Inl e, db') | (Inr x, db') \<Rightarrow> g x db')"

definition db_lift :: "'a result \<Rightarrow> ('d, 'a) db_op" where
  "db_lift r db = (r, db)"

text \<open>
  SQLite's \<open>SUM\<close> over integers, \<open>COALESCE\<close>d to 0 on no rows: a running total that leaves the
  range of a 64-bit integer is the error "integer overflow".
\<close>

fun sql_sum :: "i64 \<Rightarrow> i64 list \<Rightarrow> i64 result" where
  "sql_sum acc [] = Inr acc"
| "sql_sum acc (x # xs) =
     (if - (2 ^ 63) \<le> acc + x \<and> acc + x < 2 ^ 63 then sql_sum (acc + x) xs
      else Inl ''integer overflow'')"

section \<open>Lemmas\<close>

lemma sql_sum_Inr: "sql_sum acc xs = Inr s \<Longrightarrow> s = acc + sum_list xs"
  by (induction xs arbitrary: acc) (auto split: if_splits simp: add.assoc [symmetric])

lemma sql_sum_range: "sql_sum acc xs = Inr s \<Longrightarrow> acc < 2 ^ 63 \<Longrightarrow> s < 2 ^ 63"
  by (induction xs arbitrary: acc) (auto split: if_splits)

lemma sql_sum_total:
  "\<forall>x\<in>set xs. 0 \<le> x \<Longrightarrow> 0 \<le> acc \<Longrightarrow> acc + sum_list xs < 2 ^ 63 \<Longrightarrow>
     sql_sum acc xs = Inr (acc + sum_list xs)"
proof (induction xs arbitrary: acc)
  case (Cons x xs)
  have "0 \<le> sum_list xs" using Cons.prems(1) by (intro sum_list_nonneg) auto
  with Cons show ?case by (simp add: add.assoc)
qed simp

lemma u64_of_i64_uint: "u64_of_i64 i = Some w \<Longrightarrow> i < 2 ^ 63 \<Longrightarrow> uint w = i"
  by (auto simp: u64_of_i64_def uint_word_of_int split: if_splits)

lemma uint_u64: "0 \<le> i \<Longrightarrow> i < 2 ^ 63 \<Longrightarrow> uint (word_of_int i :: u64) = i"
  by (simp add: uint_word_of_int)

lemma uint_saturating_add_u64:
  fixes a b :: u64
  assumes "uint a < 2 ^ 63" and "uint b < 2 ^ 63"
  shows "uint (saturating_add a b) = uint a + uint b"
proof -
  have u: "uint a + uint b < 2 ^ 64" using assms by simp
  then have "unat a + unat b < 2 ^ 64"
    using of_nat_less_iff [where 'a = int, of "unat a + unat b" "2 ^ 64"] by simp
  then show ?thesis
    using u uint_add_lem [of a b] by (simp add: saturating_add_def uint_nat [symmetric])
qed

lemma db_then_Inr:
  "db_then f g db = (Inr y, db') \<longleftrightarrow> (\<exists>x db1. f db = (Inr x, db1) \<and> g x db1 = (Inr y, db'))"
  by (auto simp: db_then_def split: prod.split sum.split)

lemma db_lift_Inr [simp]: "db_lift r db = (Inr x, db') \<longleftrightarrow> r = Inr x \<and> db' = db"
  by (auto simp: db_lift_def)

lemma db_then_lift [simp]:
  "db_then (db_lift (Inl e)) g db = (Inl e, db)" "db_then (db_lift (Inr x)) g db = g x db"
  by (simp_all add: db_then_def db_lift_def)

lemma with_immediate_transaction_Inr:
  "with_immediate_transaction op db = (Inr x, db') \<longleftrightarrow> op db = (Inr x, db')"
  by (auto simp: with_immediate_transaction_def split: prod.split sum.split)

lemma with_immediate_transaction_cases:
  assumes "P db" and "\<And>x. fst (op db) = Inr x \<Longrightarrow> P (snd (op db))"
  shows "P (snd (with_immediate_transaction op db))"
  using assms by (cases "op db") (auto simp: with_immediate_transaction_def split: sum.split)

end
