(* ===== verification/Deals.thy ===== *)
theory Deals
  imports Envelope Database
begin

text \<open>
  The provider's deal store, \<open>src/src/deals.rs\<close>, over the tables of \<open>src/src/db.rs\<close> it touches:
  quotes, quote usages, deals, the quarantine, and the two document tables its queries look
  into. A table is the list of its rows; an operation takes the database and returns the result
  and the database after it, and \<open>with_immediate_transaction\<close> undoes the writes of an operation
  that fails. serde\_json's text forms are a parameter (\<open>deal_text\<close>); the workload
  specification is opaque to the store and a type variable. SQLite failing for reasons outside
  the schema's constraints (I/O, busy) is not modelled.
\<close>

section \<open>Status values\<close>

abbreviation DEAL_STATUS_ACCEPTED :: string where
  "DEAL_STATUS_ACCEPTED \<equiv> ''accepted''"

abbreviation DEAL_STATUS_PAYMENT_PENDING :: string where
  "DEAL_STATUS_PAYMENT_PENDING \<equiv> ''payment_pending''"

abbreviation DEAL_STATUS_RUNNING :: string where
  "DEAL_STATUS_RUNNING \<equiv> ''running''"

abbreviation DEAL_STATUS_RESULT_READY :: string where
  "DEAL_STATUS_RESULT_READY \<equiv> ''result_ready''"

abbreviation DEAL_STATUS_SETTLEMENT_PENDING :: string where
  "DEAL_STATUS_SETTLEMENT_PENDING \<equiv> ''settlement_pending''"

abbreviation DEAL_STATUS_SUCCEEDED :: string where
  "DEAL_STATUS_SUCCEEDED \<equiv> ''succeeded''"

abbreviation DEAL_STATUS_FAILED :: string where
  "DEAL_STATUS_FAILED \<equiv> ''failed''"

abbreviation DEAL_STATUS_REJECTED :: string where
  "DEAL_STATUS_REJECTED \<equiv> ''rejected''"

abbreviation QUOTE_ALREADY_USED_ERROR :: string where
  "QUOTE_ALREADY_USED_ERROR \<equiv> ''quote already used by a different deal''"

abbreviation QUOTE_ADMISSION_IN_PROGRESS_ERROR :: string where
  "QUOTE_ADMISSION_IN_PROGRESS_ERROR \<equiv> ''quote admission is already in progress for this deal''"

section \<open>Tables\<close>

record quote_row =
  qr_quote_id :: string
  qr_artifact_hash :: string
  qr_offer_id :: string
  qr_service_id :: string
  qr_workload_hash :: string
  qr_expires_at :: i64
  qr_price_sats :: i64
  qr_quote_json :: string
  qr_created_at :: i64

record quote_usage =
  qu_quote_hash :: string
  qu_deal_id :: string
  qu_deal_artifact_hash :: string
  qu_created_at :: i64

record deal_row =
  dr_rowid :: i64
  dr_deal_id :: string
  dr_idempotency_key :: "string option"
  dr_quote_id :: string
  dr_quote_hash :: string
  dr_offer_id :: string
  dr_service_id :: string
  dr_workload_hash :: string
  dr_spec_json :: string
  dr_quote_json :: string
  dr_deal_artifact_json :: string
  dr_status :: string
  dr_result_json :: "string option"
  dr_result_hash :: "string option"
  dr_error :: "string option"
  dr_payment_method :: "string option"
  dr_payment_token_hash :: "string option"
  dr_payment_amount_sats :: "i64 option"
  dr_receipt_artifact_json :: "string option"
  dr_workload_evidence_hash :: "string option"
  dr_deal_artifact_hash :: "string option"
  dr_result_evidence_hash :: "string option"
  dr_failure_evidence_hash :: "string option"
  dr_receipt_artifact_hash :: "string option"
  dr_created_at :: i64
  dr_updated_at :: i64

record quarantine_row =
  qn_source_rowid :: i64
  qn_deal_id :: "string option"
  qn_status :: "string option"
  qn_reason :: string
  qn_snapshot_json :: string
  qn_quarantined_at :: i64

text \<open>The three tables whose rows refer to a deal by a foreign key.\<close>

record materialization_row =
  mr_deal_id :: string
  mr_materialization_kind :: string
  mr_request_json :: string
  mr_phase :: string
  mr_resource_json :: "string option"
  mr_attempt_count :: i64
  mr_next_attempt_at :: i64
  mr_last_error_code :: "string option"
  mr_claim_token :: "string option"
  mr_claim_expires_at :: "i64 option"
  mr_created_at :: i64
  mr_updated_at :: i64

record stripe_outbox_row =
  ob_deal_id :: string
  ob_action :: string
  ob_details_json :: string
  ob_created_at :: i64
  ob_updated_at :: i64

record prepaid_invoice_row =
  pr_deal_id :: string
  pr_bolt11 :: string
  pr_payment_hash :: string
  pr_amount_sat :: i64
  pr_created_at :: i64
  pr_updated_at :: i64

record deal_db =
  db_quotes :: "quote_row list"
  db_quote_usages :: "quote_usage list"
  db_deals :: "deal_row list"
  db_deal_quarantine :: "quarantine_row list"
  db_artifact_documents :: "(string \<times> string) list"
  db_execution_evidence :: "(string \<times> string) list"
  db_materializations :: "materialization_row list"
  db_stripe_outbox :: "stripe_outbox_row list"
  db_prepaid_invoices :: "prepaid_invoice_row list"

text \<open>\<open>serde_json::to_string\<close> and \<open>from_str\<close> at the types the store keeps as text.\<close>

record 'w deal_text =
  quote_to_string :: "quote_artifact \<Rightarrow> string result"
  quote_from_str :: "string \<Rightarrow> quote_artifact result"
  spec_to_string :: "'w \<Rightarrow> string result"
  spec_from_str :: "string \<Rightarrow> 'w result"
  deal_to_string :: "deal_artifact \<Rightarrow> string result"
  deal_from_str :: "string \<Rightarrow> deal_artifact result"
  value_to_string :: "json \<Rightarrow> string result"
  value_from_str :: "string \<Rightarrow> json result"
  receipt_to_string :: "receipt_artifact \<Rightarrow> string result"
  receipt_from_str :: "string \<Rightarrow> receipt_artifact result"

section \<open>Values the store takes and returns\<close>

record stored_quote =
  sq_artifact :: quote_artifact
  sq_created_at :: i64

record 'w new_deal =
  nd_deal_id :: string
  nd_idempotency_key :: "string option"
  nd_quote :: quote_artifact
  nd_spec :: 'w
  nd_artifact :: deal_artifact
  nd_workload_evidence_hash :: "string option"
  nd_deal_artifact_hash :: string
  nd_payment_method :: "string option"
  nd_payment_token_hash :: "string option"
  nd_payment_amount_sats :: "u64 option"
  nd_initial_status :: string
  nd_created_at :: i64

record 'w stored_deal =
  sd_deal_id :: string
  sd_idempotency_key :: "string option"
  sd_quote :: quote_artifact
  sd_spec :: 'w
  sd_artifact :: deal_artifact
  sd_status :: string
  sd_result :: "json option"
  sd_result_hash :: "string option"
  sd_error :: "string option"
  sd_payment_method :: "string option"
  sd_payment_token_hash :: "string option"
  sd_payment_amount_sats :: "u64 option"
  sd_receipt :: "receipt_artifact option"
  sd_created_at :: i64
  sd_updated_at :: i64

record 'w insert_deal_outcome =
  out_deal :: "'w stored_deal"
  out_created :: bool

record payment_lock_info =
  pl_kind :: string
  pl_token_hash :: string
  pl_amount_sats :: u64

record quarantined_deal =
  qd_source_rowid :: i64
  qd_deal_id :: "string option"
  qd_status :: "string option"
  qd_reason :: string

definition payment_lock :: "'w stored_deal \<Rightarrow> payment_lock_info option" where
  "payment_lock deal =
     (case (sd_payment_token_hash deal, sd_payment_amount_sats deal) of
        (Some token_hash, Some amount_sats) \<Rightarrow>
          Some \<lparr>pl_kind = (case sd_payment_method deal of None \<Rightarrow> ''lightning'' | Some k \<Rightarrow> k),
                pl_token_hash = token_hash, pl_amount_sats = amount_sats\<rparr>
      | _ \<Rightarrow> None)"

section \<open>Database helpers\<close>

text \<open>\<open>(SELECT document_json FROM .. WHERE .. = hash LIMIT 1)\<close>: no row matches a null key.\<close>

definition lookup_document :: "(string \<times> string) list \<Rightarrow> string option \<Rightarrow> string option" where
  "lookup_document docs key = (case key of None \<Rightarrow> None | Some h \<Rightarrow> map_of docs h)"

definition next_rowid :: "deal_row list \<Rightarrow> i64" where
  "next_rowid t = 1 + fold max (map dr_rowid t) 0"

section \<open>Decoding a row\<close>

definition conversion_error :: "nat \<Rightarrow> string \<Rightarrow> string" where
  "conversion_error index e =
     ''Conversion error from type Text at index: '' @ nat_digits index @ '', '' @ e"

definition parse_column :: "(string \<Rightarrow> 'a result) \<Rightarrow> nat \<Rightarrow> string \<Rightarrow> 'a result" where
  "parse_column parse index source = map_err (conversion_error index) (parse source)"

definition parse_optional_column ::
  "(string \<Rightarrow> 'a result) \<Rightarrow> nat \<Rightarrow> string option \<Rightarrow> 'a option result" where
  "parse_optional_column parse index source =
     (case source of
        None \<Rightarrow> Inr None
      | Some json \<Rightarrow> map_ok Some (parse_column parse index json))"

definition or_else :: "'a option \<Rightarrow> 'a option \<Rightarrow> 'a option" where
  "or_else a b = (case a of None \<Rightarrow> b | Some x \<Rightarrow> Some x)"

definition unwrap_or :: "'a \<Rightarrow> 'a option \<Rightarrow> 'a" where
  "unwrap_or d a = (case a of None \<Rightarrow> d | Some x \<Rightarrow> x)"

definition decode_payment_amount :: "nat \<Rightarrow> i64 option \<Rightarrow> u64 option result" where
  "decode_payment_amount index amount =
     (case amount of
        None \<Rightarrow> Inr None
      | Some value \<Rightarrow>
          map_ok Some (ok_or
            (''Integer '' @ int_to_string value @ '' out of range at index '' @ nat_digits index)
            (u64_of_i64 value)))"

definition decode_deal_row_with_offset ::
  "'w deal_text \<Rightarrow> deal_db \<Rightarrow> nat \<Rightarrow> deal_row \<Rightarrow> 'w stored_deal result" where
  "decode_deal_row_with_offset tx db offset row =
     and_then (parse_column (quote_from_str tx) (offset + 2) (unwrap_or (dr_quote_json row)
       (lookup_document (db_artifact_documents db) (Some (dr_quote_hash row))))) (\<lambda>quote.
     and_then (parse_column (spec_from_str tx) (offset + 4) (unwrap_or (dr_spec_json row)
       (lookup_document (db_execution_evidence db) (dr_workload_evidence_hash row)))) (\<lambda>spec.
     and_then (parse_column (deal_from_str tx) (offset + 6) (unwrap_or (dr_deal_artifact_json row)
       (lookup_document (db_artifact_documents db) (dr_deal_artifact_hash row)))) (\<lambda>artifact.
     and_then (parse_optional_column (value_from_str tx) (offset + 9) (or_else
       (lookup_document (db_execution_evidence db) (dr_result_evidence_hash row))
       (dr_result_json row))) (\<lambda>result.
     and_then (parse_optional_column (receipt_from_str tx) (offset + 16) (or_else
       (lookup_document (db_artifact_documents db) (dr_receipt_artifact_hash row))
       (dr_receipt_artifact_json row))) (\<lambda>receipt.
     and_then (decode_payment_amount (offset + 15) (dr_payment_amount_sats row)) (\<lambda>amount.
     Inr \<lparr>sd_deal_id = dr_deal_id row, sd_idempotency_key = dr_idempotency_key row,
          sd_quote = quote, sd_spec = spec, sd_artifact = artifact, sd_status = dr_status row,
          sd_result = result, sd_result_hash = dr_result_hash row, sd_error = dr_error row,
          sd_payment_method = dr_payment_method row,
          sd_payment_token_hash = dr_payment_token_hash row, sd_payment_amount_sats = amount,
          sd_receipt = receipt, sd_created_at = dr_created_at row,
          sd_updated_at = dr_updated_at row\<rparr>))))))"

definition decode_deal_row :: "'w deal_text \<Rightarrow> deal_db \<Rightarrow> deal_row \<Rightarrow> 'w stored_deal result" where
  "decode_deal_row tx db row = decode_deal_row_with_offset tx db 0 row"

text \<open>\<open>query_row(..).optional()\<close> and the collecting loops of the list queries.\<close>

definition query_deal ::
  "'w deal_text \<Rightarrow> deal_db \<Rightarrow> (deal_row \<Rightarrow> bool) \<Rightarrow> 'w stored_deal option result" where
  "query_deal tx db P =
     (case query_row P (db_deals db) of
        None \<Rightarrow> Inr None
      | Some row \<Rightarrow> map_ok Some (decode_deal_row tx db row))"

fun decode_rows ::
  "'w deal_text \<Rightarrow> deal_db \<Rightarrow> deal_row list \<Rightarrow> 'w stored_deal list result" where
  "decode_rows tx db [] = Inr []"
| "decode_rows tx db (row # rows) =
     and_then (decode_deal_row tx db row) (\<lambda>deal. map_ok ((#) deal) (decode_rows tx db rows))"

section \<open>Quotes\<close>

definition insert_quote :: "'w deal_text \<Rightarrow> quote_artifact \<Rightarrow> deal_db \<Rightarrow> unit result \<times> deal_db" where
  "insert_quote tx quote db =
     (let terms = quote_settlement_terms (art_payload quote);
          prepared =
            and_then (quote_to_string tx quote) (\<lambda>quote_json.
            and_then (ok_or ''quote total exceeds the unsigned 64-bit range''
              (checked_add (terms_base_fee_msat terms) (terms_success_fee_msat terms))) (\<lambda>total_msat.
            and_then (u64_to_sqlite_integer (total_msat div 1000) ''quote price_sats'') (\<lambda>total_sats.
            Inr (quote_json, total_sats))))
      in case prepared of
           Inl e \<Rightarrow> (Inl e, db)
         | Inr (quote_json, total_sats) \<Rightarrow>
             if list_ex (\<lambda>r. qr_quote_id r = art_hash quote) (db_quotes db)
             then (Inl ''UNIQUE constraint failed: quotes.quote_id'', db)
             else if list_ex (\<lambda>r. qr_artifact_hash r = art_hash quote) (db_quotes db)
             then (Inl ''UNIQUE constraint failed: quotes.artifact_hash'', db)
             else (Inr (), db\<lparr>db_quotes := db_quotes db @
               [\<lparr>qr_quote_id = art_hash quote, qr_artifact_hash = art_hash quote,
                 qr_offer_id = quote_offer_hash (art_payload quote),
                 qr_service_id = quote_workload_kind (art_payload quote),
                 qr_workload_hash = quote_workload_hash (art_payload quote),
                 qr_expires_at = quote_expires_at (art_payload quote),
                 qr_price_sats = total_sats, qr_quote_json = quote_json,
                 qr_created_at = art_created_at quote\<rparr>]\<rparr>))"

definition get_quote :: "'w deal_text \<Rightarrow> deal_db \<Rightarrow> string \<Rightarrow> stored_quote option result" where
  "get_quote tx db quote_id =
     (case query_row (\<lambda>r. qr_quote_id r = quote_id) (db_quotes db) of
        None \<Rightarrow> Inr None
      | Some row \<Rightarrow>
          map_ok (\<lambda>artifact. Some \<lparr>sq_artifact = artifact, sq_created_at = qr_created_at row\<rparr>)
            (parse_column (quote_from_str tx) 0 (unwrap_or (qr_quote_json row)
              (lookup_document (db_artifact_documents db) (Some (qr_artifact_hash row))))))"

section \<open>Finding deals\<close>

definition get_deal :: "'w deal_text \<Rightarrow> deal_db \<Rightarrow> string \<Rightarrow> 'w stored_deal option result" where
  "get_deal tx db deal_id = query_deal tx db (\<lambda>r. dr_deal_id r = deal_id)"

definition find_deal_by_idempotency_key ::
  "'w deal_text \<Rightarrow> deal_db \<Rightarrow> string \<Rightarrow> 'w stored_deal option result" where
  "find_deal_by_idempotency_key tx db key =
     query_deal tx db (\<lambda>r. dr_idempotency_key r = Some key)"

definition get_deal_by_artifact_hash ::
  "'w deal_text \<Rightarrow> deal_db \<Rightarrow> string \<Rightarrow> 'w stored_deal option result" where
  "get_deal_by_artifact_hash tx db hash =
     query_deal tx db (\<lambda>r. dr_deal_artifact_hash r = Some hash)"

section \<open>Quote usage\<close>

text \<open>\<open>INSERT OR IGNORE\<close>: skipped when the quote or the deal artifact is already in the table.\<close>

definition insert_or_ignore_usage :: "quote_usage \<Rightarrow> deal_db \<Rightarrow> nat \<times> deal_db" where
  "insert_or_ignore_usage u db =
     (if list_ex (\<lambda>v. qu_quote_hash v = qu_quote_hash u \<or>
                      qu_deal_artifact_hash v = qu_deal_artifact_hash u) (db_quote_usages db)
      then (0, db)
      else (1, db\<lparr>db_quote_usages := db_quote_usages db @ [u]\<rparr>))"

definition reserve_quote_usage ::
  "string \<Rightarrow> string \<Rightarrow> string \<Rightarrow> i64 \<Rightarrow> deal_db \<Rightarrow> unit result \<times> deal_db" where
  "reserve_quote_usage quote_hash deal_id deal_artifact_hash created_at db =
     (case insert_or_ignore_usage
             \<lparr>qu_quote_hash = quote_hash, qu_deal_id = deal_id,
              qu_deal_artifact_hash = deal_artifact_hash, qu_created_at = created_at\<rparr> db of
        (inserted, db) \<Rightarrow>
          if inserted > 0 then (Inr (), db)
          else
            let existing = map_option qu_deal_artifact_hash
                  (query_row (\<lambda>u. qu_quote_hash u = quote_hash) (db_quote_usages db))
            in if existing = Some deal_artifact_hash then (Inr (), db)
               else (Inl QUOTE_ALREADY_USED_ERROR, db))"

definition reserve_quote_usage_before_side_effects ::
  "'w deal_text \<Rightarrow> string \<Rightarrow> string \<Rightarrow> string \<Rightarrow> i64 \<Rightarrow> deal_db \<Rightarrow> bool result \<times> deal_db" where
  "reserve_quote_usage_before_side_effects tx quote_hash deal_id deal_artifact_hash created_at db =
     (case insert_or_ignore_usage
             \<lparr>qu_quote_hash = quote_hash, qu_deal_id = deal_id,
              qu_deal_artifact_hash = deal_artifact_hash, qu_created_at = created_at\<rparr> db of
        (inserted, db) \<Rightarrow>
          if inserted > 0 then (Inr True, db)
          else
            let existing = map_option qu_deal_artifact_hash
                  (query_row (\<lambda>u. qu_quote_hash u = quote_hash) (db_quote_usages db))
            in if existing \<noteq> Some deal_artifact_hash then (Inl QUOTE_ALREADY_USED_ERROR, db)
               else
                 (case get_deal_by_artifact_hash tx db deal_artifact_hash of
                    Inl e \<Rightarrow> (Inl e, db)
                  | Inr (Some _) \<Rightarrow> (Inr False, db)
                  | Inr None \<Rightarrow> (Inl QUOTE_ADMISSION_IN_PROGRESS_ERROR, db)))"

definition release_quote_usage_for_unpersisted_deal ::
  "'w deal_text \<Rightarrow> string \<Rightarrow> string \<Rightarrow> deal_db \<Rightarrow> bool result \<times> deal_db" where
  "release_quote_usage_for_unpersisted_deal tx quote_hash deal_artifact_hash db =
     (case get_deal_by_artifact_hash tx db deal_artifact_hash of
        Inl e \<Rightarrow> (Inl e, db)
      | Inr (Some _) \<Rightarrow> (Inr False, db)
      | Inr None \<Rightarrow>
          case delete_where (\<lambda>u. qu_quote_hash u = quote_hash \<and>
                 qu_deal_artifact_hash u = deal_artifact_hash) (db_quote_usages db) of
            (usages, deleted) \<Rightarrow> (Inr (deleted > 0), db\<lparr>db_quote_usages := usages\<rparr>))"

section \<open>Inserting a deal\<close>

definition new_deal_row ::
  "'w new_deal \<Rightarrow> string \<Rightarrow> string \<Rightarrow> string \<Rightarrow> i64 option \<Rightarrow> i64 \<Rightarrow> deal_row" where
  "new_deal_row nd quote_json spec_json artifact_json amount rowid =
     \<lparr>dr_rowid = rowid, dr_deal_id = nd_deal_id nd, dr_idempotency_key = nd_idempotency_key nd,
      dr_quote_id = art_hash (nd_quote nd), dr_quote_hash = art_hash (nd_quote nd),
      dr_offer_id = quote_offer_hash (art_payload (nd_quote nd)),
      dr_service_id = quote_workload_kind (art_payload (nd_quote nd)),
      dr_workload_hash = deal_workload_hash (art_payload (nd_artifact nd)),
      dr_spec_json = spec_json, dr_quote_json = quote_json, dr_deal_artifact_json = artifact_json,
      dr_status = nd_initial_status nd, dr_result_json = None, dr_result_hash = None,
      dr_error = None, dr_payment_method = nd_payment_method nd,
      dr_payment_token_hash = nd_payment_token_hash nd, dr_payment_amount_sats = amount,
      dr_receipt_artifact_json = None, dr_workload_evidence_hash = nd_workload_evidence_hash nd,
      dr_deal_artifact_hash = Some (nd_deal_artifact_hash nd), dr_result_evidence_hash = None,
      dr_failure_evidence_hash = None, dr_receipt_artifact_hash = None,
      dr_created_at = nd_created_at nd, dr_updated_at = nd_created_at nd\<rparr>"

text \<open>The \<open>INSERT\<close> with the table's primary key and its two partial unique indexes.\<close>

definition insert_deal_row :: "deal_row \<Rightarrow> deal_db \<Rightarrow> unit result \<times> deal_db" where
  "insert_deal_row row db =
     (if list_ex (\<lambda>r. dr_deal_id r = dr_deal_id row) (db_deals db)
      then (Inl ''UNIQUE constraint failed: deals.deal_id'', db)
      else if dr_idempotency_key row \<noteq> None \<and>
        list_ex (\<lambda>r. dr_idempotency_key r = dr_idempotency_key row) (db_deals db)
      then (Inl ''UNIQUE constraint failed: deals.idempotency_key'', db)
      else if dr_deal_artifact_hash row \<noteq> None \<and>
        list_ex (\<lambda>r. dr_deal_artifact_hash r = dr_deal_artifact_hash row) (db_deals db)
      then (Inl ''UNIQUE constraint failed: deals.deal_artifact_hash'', db)
      else (Inr (), db\<lparr>db_deals := db_deals db @ [row]\<rparr>))"

text \<open>
  The lookup by artifact hash and by idempotency key that precedes the insert and follows a
  failed one; \<open>Inr None\<close> is "no such deal".
\<close>

definition existing_deal ::
  "'w deal_text \<Rightarrow> 'w new_deal \<Rightarrow> deal_db \<Rightarrow> 'w insert_deal_outcome option result" where
  "existing_deal tx nd db =
     and_then (get_deal_by_artifact_hash tx db (nd_deal_artifact_hash nd)) (\<lambda>by_hash.
     case by_hash of
       Some existing \<Rightarrow> Inr (Some \<lparr>out_deal = existing, out_created = False\<rparr>)
     | None \<Rightarrow>
         (case nd_idempotency_key nd of
            None \<Rightarrow> Inr None
          | Some key \<Rightarrow>
              and_then (find_deal_by_idempotency_key tx db key) (\<lambda>by_key.
              case by_key of
                None \<Rightarrow> Inr None
              | Some existing \<Rightarrow>
                  if art_hash (sd_artifact existing) \<noteq> art_hash (nd_artifact nd)
                  then Inl ''idempotency key reused with different deal payload''
                  else Inr (Some \<lparr>out_deal = existing, out_created = False\<rparr>))))"

definition insert_fresh_deal ::
  "'w deal_text \<Rightarrow> 'w new_deal \<Rightarrow> string \<Rightarrow> string \<Rightarrow> string \<Rightarrow> i64 option \<Rightarrow> deal_db
    \<Rightarrow> 'w insert_deal_outcome result \<times> deal_db" where
  "insert_fresh_deal tx nd quote_json spec_json artifact_json amount db =
     (case insert_deal_row
             (new_deal_row nd quote_json spec_json artifact_json amount (next_rowid (db_deals db))) db of
        (Inr _, db) \<Rightarrow>
          (and_then (get_deal tx db (nd_deal_id nd)) (\<lambda>found.
             map_ok (\<lambda>deal. \<lparr>out_deal = deal, out_created = True\<rparr>)
               (ok_or ''deal inserted but not readable'' found)), db)
      | (Inl e, db) \<Rightarrow>
          (and_then (existing_deal tx nd db) (\<lambda>existing. ok_or e existing), db))"

definition insert_or_get_deal ::
  "'w deal_text \<Rightarrow> 'w new_deal \<Rightarrow> deal_db \<Rightarrow> 'w insert_deal_outcome result \<times> deal_db" where
  "insert_or_get_deal tx nd db =
     (let prepared =
            and_then (quote_to_string tx (nd_quote nd)) (\<lambda>quote_json.
            and_then (spec_to_string tx (nd_spec nd)) (\<lambda>spec_json.
            and_then (deal_to_string tx (nd_artifact nd)) (\<lambda>artifact_json.
            Inr (quote_json, spec_json, artifact_json))))
      in case prepared of
           Inl e \<Rightarrow> (Inl e, db)
         | Inr (quote_json, spec_json, artifact_json) \<Rightarrow>
             (case existing_deal tx nd db of
                Inl e \<Rightarrow> (Inl e, db)
              | Inr (Some outcome) \<Rightarrow> (Inr outcome, db)
              | Inr None \<Rightarrow>
                  (case (case nd_payment_amount_sats nd of
                           None \<Rightarrow> Inr None
                         | Some v \<Rightarrow> map_ok Some (u64_to_sqlite_integer v ''deal payment_amount_sats'')) of
                     Inl e \<Rightarrow> (Inl e, db)
                   | Inr amount \<Rightarrow>
                       (case reserve_quote_usage (art_hash (nd_quote nd)) (nd_deal_id nd)
                               (nd_deal_artifact_hash nd) (nd_created_at nd) db of
                          (Inl e, db) \<Rightarrow> (Inl e, db)
                        | (Inr _, db) \<Rightarrow>
                            insert_fresh_deal tx nd quote_json spec_json artifact_json amount db))))"

definition set_deal_storage_refs ::
  "string \<Rightarrow> string \<Rightarrow> string \<Rightarrow> deal_db \<Rightarrow> unit result \<times> deal_db" where
  "set_deal_storage_refs deal_id workload_evidence_hash deal_artifact_hash db =
     (if list_ex (\<lambda>r. dr_deal_id r = deal_id) (db_deals db) \<and>
         list_ex (\<lambda>r. dr_deal_id r \<noteq> deal_id \<and> dr_deal_artifact_hash r = Some deal_artifact_hash)
           (db_deals db)
      then (Inl ''UNIQUE constraint failed: deals.deal_artifact_hash'', db)
      else (Inr (), db\<lparr>db_deals := fst (update_where (\<lambda>r. dr_deal_id r = deal_id)
        (\<lambda>r. r\<lparr>dr_workload_evidence_hash := Some workload_evidence_hash,
               dr_deal_artifact_hash := Some deal_artifact_hash\<rparr>) (db_deals db))\<rparr>))"

section \<open>Status transitions\<close>

text \<open>\<open>UPDATE deals SET .. WHERE ..\<close>, returning whether a row was changed.\<close>

definition update_deals ::
  "(deal_row \<Rightarrow> bool) \<Rightarrow> (deal_row \<Rightarrow> deal_row) \<Rightarrow> deal_db \<Rightarrow> bool \<times> deal_db" where
  "update_deals P f db =
     (case update_where P f (db_deals db) of
        (rows, updated) \<Rightarrow> (updated > 0, db\<lparr>db_deals := rows\<rparr>))"

definition coalesce :: "'a option \<Rightarrow> 'a option \<Rightarrow> 'a option" where
  "coalesce a b = (case a of None \<Rightarrow> b | Some x \<Rightarrow> Some x)"

definition try_mark_deal_running :: "string \<Rightarrow> i64 \<Rightarrow> deal_db \<Rightarrow> bool \<times> deal_db" where
  "try_mark_deal_running deal_id now =
     update_deals (\<lambda>r. dr_deal_id r = deal_id \<and> dr_status r = DEAL_STATUS_ACCEPTED)
       (\<lambda>r. r\<lparr>dr_status := DEAL_STATUS_RUNNING, dr_updated_at := now\<rparr>)"

definition reset_running_deal_to_accepted :: "string \<Rightarrow> i64 \<Rightarrow> deal_db \<Rightarrow> bool \<times> deal_db" where
  "reset_running_deal_to_accepted deal_id now =
     update_deals (\<lambda>r. dr_deal_id r = deal_id \<and> dr_status r = DEAL_STATUS_RUNNING)
       (\<lambda>r. r\<lparr>dr_status := DEAL_STATUS_ACCEPTED, dr_updated_at := now\<rparr>)"

definition try_mark_deal_accepted_from_payment_pending ::
  "string \<Rightarrow> i64 \<Rightarrow> deal_db \<Rightarrow> bool \<times> deal_db" where
  "try_mark_deal_accepted_from_payment_pending deal_id now =
     update_deals (\<lambda>r. dr_deal_id r = deal_id \<and> dr_status r = DEAL_STATUS_PAYMENT_PENDING)
       (\<lambda>r. r\<lparr>dr_status := DEAL_STATUS_ACCEPTED, dr_updated_at := now\<rparr>)"

definition materialize_payment_for_pending_deal ::
  "string \<Rightarrow> string \<Rightarrow> u64 \<Rightarrow> string \<Rightarrow> i64 \<Rightarrow> deal_db \<Rightarrow> bool result \<times> deal_db" where
  "materialize_payment_for_pending_deal deal_id payment_token_hash payment_amount_sats next_status
     now db =
     (if next_status \<noteq> DEAL_STATUS_ACCEPTED \<and> next_status \<noteq> DEAL_STATUS_PAYMENT_PENDING
      then (Inl (''unsupported materialized deal status: '' @ next_status), db)
      else
        (case u64_to_sqlite_integer payment_amount_sats ''deal payment_amount_sats'' of
           Inl e \<Rightarrow> (Inl e, db)
         | Inr amount \<Rightarrow>
             (case update_deals
                     (\<lambda>r. dr_deal_id r = deal_id \<and> dr_status r = DEAL_STATUS_PAYMENT_PENDING)
                     (\<lambda>r. r\<lparr>dr_payment_token_hash := Some payment_token_hash,
                            dr_payment_amount_sats := Some amount, dr_status := next_status,
                            dr_updated_at := now\<rparr>) db of
                (updated, db) \<Rightarrow> (Inr updated, db))))"

definition deal_result_hash :: "crypto_env \<Rightarrow> string option \<Rightarrow> json \<Rightarrow> string" where
  "deal_result_hash cs explicit_result_hash result =
     (case explicit_result_hash of
        Some h \<Rightarrow> h
      | None \<Rightarrow> sha256_hex cs (case canonical_json_to_vec cs result of Inl e \<Rightarrow> [] | Inr b \<Rightarrow> b))"

record deal_success_persistence =
  dsp_deal_id :: string
  dsp_result :: json
  dsp_explicit_result_hash :: "string option"
  dsp_receipt :: receipt_artifact
  dsp_result_evidence_hash :: "string option"
  dsp_receipt_artifact_hash :: "string option"
  dsp_now :: i64

record deal_success_completion = deal_success_persistence +
  dsc_expected_status :: string

definition success_update ::
  "string \<Rightarrow> string \<Rightarrow> string \<Rightarrow> string option \<Rightarrow> string option \<Rightarrow> i64 \<Rightarrow> deal_row \<Rightarrow> deal_row" where
  "success_update result_json result_hash receipt_json result_evidence_hash receipt_hash now r =
     r\<lparr>dr_status := DEAL_STATUS_SUCCEEDED, dr_result_json := Some result_json,
       dr_result_hash := Some result_hash, dr_error := None,
       dr_receipt_artifact_json := Some receipt_json,
       dr_result_evidence_hash := coalesce result_evidence_hash (dr_result_evidence_hash r),
       dr_failure_evidence_hash := None,
       dr_receipt_artifact_hash := coalesce receipt_hash (dr_receipt_artifact_hash r),
       dr_updated_at := now\<rparr>"

definition complete_deal_success ::
  "crypto_env \<Rightarrow> 'w deal_text \<Rightarrow> deal_success_persistence \<Rightarrow> deal_db \<Rightarrow> unit result \<times> deal_db" where
  "complete_deal_success cs tx update db =
     (case (value_to_string tx (dsp_result update), receipt_to_string tx (dsp_receipt update)) of
        (Inl e, _) \<Rightarrow> (Inl e, db)
      | (_, Inl e) \<Rightarrow> (Inl e, db)
      | (Inr result_json, Inr receipt_json) \<Rightarrow>
          (Inr (), snd (update_deals (\<lambda>r. dr_deal_id r = dsp_deal_id update)
             (success_update result_json
               (deal_result_hash cs (dsp_explicit_result_hash update) (dsp_result update))
               receipt_json (dsp_result_evidence_hash update) (dsp_receipt_artifact_hash update)
               (dsp_now update)) db)))"

definition complete_deal_success_if_status ::
  "crypto_env \<Rightarrow> 'w deal_text \<Rightarrow> deal_success_completion \<Rightarrow> deal_db \<Rightarrow> bool result \<times> deal_db" where
  "complete_deal_success_if_status cs tx update db =
     (case (value_to_string tx (dsp_result update), receipt_to_string tx (dsp_receipt update)) of
        (Inl e, _) \<Rightarrow> (Inl e, db)
      | (_, Inl e) \<Rightarrow> (Inl e, db)
      | (Inr result_json, Inr receipt_json) \<Rightarrow>
          (case update_deals
                  (\<lambda>r. dr_deal_id r = dsp_deal_id update \<and> dr_status r = dsc_expected_status update)
                  (success_update result_json
                    (deal_result_hash cs (dsp_explicit_result_hash update) (dsp_result update))
                    receipt_json (dsp_result_evidence_hash update)
                    (dsp_receipt_artifact_hash update) (dsp_now update)) db of
             (updated, db) \<Rightarrow> (Inr updated, db)))"

definition stage_deal_result_ready ::
  "crypto_env \<Rightarrow> 'w deal_text \<Rightarrow> string \<Rightarrow> json \<Rightarrow> string option \<Rightarrow> string option \<Rightarrow> i64 \<Rightarrow> deal_db
    \<Rightarrow> bool result \<times> deal_db" where
  "stage_deal_result_ready cs tx deal_id result explicit_result_hash result_evidence_hash now db =
     (case value_to_string tx result of
        Inl e \<Rightarrow> (Inl e, db)
      | Inr result_json \<Rightarrow>
          (case update_deals (\<lambda>r. dr_deal_id r = deal_id \<and> dr_status r = DEAL_STATUS_RUNNING)
                  (\<lambda>r. r\<lparr>dr_status := DEAL_STATUS_RESULT_READY, dr_result_json := Some result_json,
                         dr_result_hash := Some (deal_result_hash cs explicit_result_hash result),
                         dr_error := None, dr_receipt_artifact_json := None,
                         dr_result_evidence_hash :=
                           coalesce result_evidence_hash (dr_result_evidence_hash r),
                         dr_failure_evidence_hash := None, dr_receipt_artifact_hash := None,
                         dr_updated_at := now\<rparr>) db of
             (updated, db) \<Rightarrow> (Inr updated, db)))"

definition stage_deal_settlement_pending_failure ::
  "string \<Rightarrow> string \<Rightarrow> string \<Rightarrow> i64 \<Rightarrow> deal_db \<Rightarrow> bool \<times> deal_db" where
  "stage_deal_settlement_pending_failure deal_id error failure_evidence_hash now =
     update_deals (\<lambda>r. dr_deal_id r = deal_id \<and> dr_status r = DEAL_STATUS_RUNNING)
       (\<lambda>r. r\<lparr>dr_status := DEAL_STATUS_SETTLEMENT_PENDING, dr_result_json := None,
              dr_result_hash := None, dr_error := Some error, dr_receipt_artifact_json := None,
              dr_result_evidence_hash := None,
              dr_failure_evidence_hash := Some failure_evidence_hash,
              dr_receipt_artifact_hash := None, dr_updated_at := now\<rparr>)"

record deal_terminal_transition =
  dtt_deal_id :: string
  dtt_expected_status :: string
  dtt_error :: string
  dtt_receipt :: receipt_artifact
  dtt_failure_evidence_hash :: "string option"
  dtt_receipt_artifact_hash :: "string option"
  dtt_now :: i64

record deal_recovery_failure_transition = deal_terminal_transition +
  drf_preserve_result :: bool

definition complete_recovery_failure_if_status ::
  "'w deal_text \<Rightarrow> deal_recovery_failure_transition \<Rightarrow> deal_db \<Rightarrow> bool result \<times> deal_db" where
  "complete_recovery_failure_if_status tx update db =
     (case receipt_to_string tx (dtt_receipt update) of
        Inl e \<Rightarrow> (Inl e, db)
      | Inr receipt_json \<Rightarrow>
          (case update_deals
                  (\<lambda>r. dr_deal_id r = dtt_deal_id update \<and> dr_status r = dtt_expected_status update)
                  (\<lambda>r. let keep = drf_preserve_result update
                       in r\<lparr>dr_status := DEAL_STATUS_FAILED,
                            dr_result_json := (if keep then dr_result_json r else None),
                            dr_result_hash := (if keep then dr_result_hash r else None),
                            dr_error := Some (dtt_error update),
                            dr_receipt_artifact_json := Some receipt_json,
                            dr_result_evidence_hash := (if keep then dr_result_evidence_hash r else None),
                            dr_failure_evidence_hash := dtt_failure_evidence_hash update,
                            dr_receipt_artifact_hash := dtt_receipt_artifact_hash update,
                            dr_updated_at := dtt_now update\<rparr>) db of
             (updated, db) \<Rightarrow> (Inr updated, db)))"

definition reject_deal_if_status ::
  "'w deal_text \<Rightarrow> deal_terminal_transition \<Rightarrow> deal_db \<Rightarrow> bool result \<times> deal_db" where
  "reject_deal_if_status tx update db =
     (case receipt_to_string tx (dtt_receipt update) of
        Inl e \<Rightarrow> (Inl e, db)
      | Inr receipt_json \<Rightarrow>
          (case update_deals
                  (\<lambda>r. dr_deal_id r = dtt_deal_id update \<and> dr_status r = dtt_expected_status update)
                  (\<lambda>r. r\<lparr>dr_status := DEAL_STATUS_REJECTED, dr_error := Some (dtt_error update),
                         dr_receipt_artifact_json := Some receipt_json,
                         dr_result_evidence_hash := None,
                         dr_failure_evidence_hash :=
                           coalesce (dtt_failure_evidence_hash update) (dr_failure_evidence_hash r),
                         dr_receipt_artifact_hash :=
                           coalesce (dtt_receipt_artifact_hash update) (dr_receipt_artifact_hash r),
                         dr_updated_at := dtt_now update\<rparr>) db of
             (updated, db) \<Rightarrow> (Inr updated, db)))"

definition reject_deal_admission ::
  "'w deal_text \<Rightarrow> string \<Rightarrow> string \<Rightarrow> receipt_artifact \<Rightarrow> string option \<Rightarrow> string option \<Rightarrow> i64
    \<Rightarrow> deal_db \<Rightarrow> bool result \<times> deal_db" where
  "reject_deal_admission tx deal_id error receipt failure_evidence_hash receipt_artifact_hash now =
     reject_deal_if_status tx
       \<lparr>dtt_deal_id = deal_id, dtt_expected_status = DEAL_STATUS_ACCEPTED, dtt_error = error,
        dtt_receipt = receipt, dtt_failure_evidence_hash = failure_evidence_hash,
        dtt_receipt_artifact_hash = receipt_artifact_hash, dtt_now = now\<rparr>"

definition complete_deal_failure ::
  "'w deal_text \<Rightarrow> string \<Rightarrow> string \<Rightarrow> receipt_artifact \<Rightarrow> string option \<Rightarrow> string option \<Rightarrow> i64
    \<Rightarrow> deal_db \<Rightarrow> unit result \<times> deal_db" where
  "complete_deal_failure tx deal_id error receipt failure_evidence_hash receipt_artifact_hash now db =
     (case receipt_to_string tx receipt of
        Inl e \<Rightarrow> (Inl e, db)
      | Inr receipt_json \<Rightarrow>
          (Inr (), snd (update_deals (\<lambda>r. dr_deal_id r = deal_id)
             (\<lambda>r. r\<lparr>dr_status := DEAL_STATUS_FAILED, dr_error := Some error,
                    dr_receipt_artifact_json := Some receipt_json, dr_result_evidence_hash := None,
                    dr_failure_evidence_hash :=
                      coalesce failure_evidence_hash (dr_failure_evidence_hash r),
                    dr_receipt_artifact_hash :=
                      coalesce receipt_artifact_hash (dr_receipt_artifact_hash r),
                    dr_updated_at := now\<rparr>) db)))"

definition cancel_unadmitted_deal ::
  "string \<Rightarrow> string \<Rightarrow> string \<Rightarrow> i64 \<Rightarrow> deal_db \<Rightarrow> bool \<times> deal_db" where
  "cancel_unadmitted_deal deal_id message failure_evidence_hash now =
     update_deals (\<lambda>r. dr_deal_id r = deal_id \<and> dr_status r = DEAL_STATUS_PAYMENT_PENDING \<and>
         dr_receipt_artifact_json r = None \<and> dr_receipt_artifact_hash r = None)
       (\<lambda>r. r\<lparr>dr_status := DEAL_STATUS_FAILED, dr_error := Some message,
              dr_failure_evidence_hash := Some failure_evidence_hash, dr_updated_at := now\<rparr>)"

definition complete_deal_failure_if_status ::
  "'w deal_text \<Rightarrow> deal_terminal_transition \<Rightarrow> deal_db \<Rightarrow> bool result \<times> deal_db" where
  "complete_deal_failure_if_status tx update db =
     (case receipt_to_string tx (dtt_receipt update) of
        Inl e \<Rightarrow> (Inl e, db)
      | Inr receipt_json \<Rightarrow>
          (case update_deals
                  (\<lambda>r. dr_deal_id r = dtt_deal_id update \<and> dr_status r = dtt_expected_status update)
                  (\<lambda>r. r\<lparr>dr_status := DEAL_STATUS_FAILED, dr_error := Some (dtt_error update),
                         dr_receipt_artifact_json := Some receipt_json,
                         dr_failure_evidence_hash :=
                           coalesce (dtt_failure_evidence_hash update) (dr_failure_evidence_hash r),
                         dr_receipt_artifact_hash :=
                           coalesce (dtt_receipt_artifact_hash update) (dr_receipt_artifact_hash r),
                         dr_updated_at := dtt_now update\<rparr>) db of
             (updated, db) \<Rightarrow> (Inr updated, db)))"

definition fail_incomplete_deals :: "string \<Rightarrow> i64 \<Rightarrow> deal_db \<Rightarrow> deal_db" where
  "fail_incomplete_deals message now db =
     snd (update_deals (\<lambda>r. dr_status r \<in> {DEAL_STATUS_ACCEPTED, DEAL_STATUS_RUNNING})
       (\<lambda>r. r\<lparr>dr_status := DEAL_STATUS_FAILED, dr_error := Some message, dr_updated_at := now\<rparr>) db)"

section \<open>Lists\<close>

text \<open>\<open>ORDER BY created_at ASC\<close>; rows with the same time keep their table order.\<close>

definition list_incomplete_deals :: "'w deal_text \<Rightarrow> deal_db \<Rightarrow> 'w stored_deal list result" where
  "list_incomplete_deals tx db =
     decode_rows tx db (sort_key dr_created_at
       (filter (\<lambda>r. dr_status r \<in> {DEAL_STATUS_ACCEPTED, DEAL_STATUS_RUNNING,
          DEAL_STATUS_PAYMENT_PENDING, DEAL_STATUS_RESULT_READY, DEAL_STATUS_SETTLEMENT_PENDING})
         (db_deals db)))"

definition list_lightning_watch_deals :: "'w deal_text \<Rightarrow> deal_db \<Rightarrow> 'w stored_deal list result" where
  "list_lightning_watch_deals tx db =
     decode_rows tx db (sort_key dr_created_at
       (filter (\<lambda>r. dr_payment_method r = Some ''lightning'' \<and>
          dr_status r \<in> {DEAL_STATUS_PAYMENT_PENDING, DEAL_STATUS_RESULT_READY}) (db_deals db)))"

definition list_prepaid_watch_deals :: "'w deal_text \<Rightarrow> deal_db \<Rightarrow> 'w stored_deal list result" where
  "list_prepaid_watch_deals tx db =
     decode_rows tx db (sort_key dr_created_at
       (filter (\<lambda>r. dr_payment_method r = Some ''lightning_prepaid'' \<and>
          dr_status r = DEAL_STATUS_PAYMENT_PENDING) (db_deals db)))"

definition clamp :: "nat \<Rightarrow> nat \<Rightarrow> nat \<Rightarrow> nat" where
  "clamp lo hi n = (if n < lo then lo else if hi < n then hi else n)"

definition list_recent_deals :: "'w deal_text \<Rightarrow> deal_db \<Rightarrow> nat \<Rightarrow> 'w stored_deal list result" where
  "list_recent_deals tx db limit =
     decode_rows tx db (take (clamp 1 100 limit)
       (sort_key (\<lambda>r. - dr_updated_at r) (sort_key (\<lambda>r. - dr_created_at r) (db_deals db))))"

section \<open>Quarantine\<close>

text \<open>\<open>rusqlite::types::ValueRef\<close>; floating-point values do not occur in the deals table.\<close>

datatype sql_value = SqlNull | SqlInteger i64 | SqlText string | SqlBlob bytes

definition optional_string_from_value_ref :: "sql_value \<Rightarrow> string option" where
  "optional_string_from_value_ref v =
     (case v of
        SqlNull \<Rightarrow> None
      | SqlInteger value \<Rightarrow> Some (int_to_string value)
      | SqlText value \<Rightarrow> Some value
      | SqlBlob _ \<Rightarrow> None)"

definition value_ref_to_json :: "sql_value \<Rightarrow> json" where
  "value_ref_to_json v =
     (case v of
        SqlNull \<Rightarrow> JNull
      | SqlInteger value \<Rightarrow> JNum value
      | SqlText value \<Rightarrow> JStr value
      | SqlBlob value \<Rightarrow> JArr (map (\<lambda>byte. JNum (of_char byte)) value))"

definition sql_text :: "string option \<Rightarrow> sql_value" where
  "sql_text v = (case v of None \<Rightarrow> SqlNull | Some s \<Rightarrow> SqlText s)"

definition sql_integer :: "i64 option \<Rightarrow> sql_value" where
  "sql_integer v = (case v of None \<Rightarrow> SqlNull | Some i \<Rightarrow> SqlInteger i)"

text \<open>The columns of the quarantine query with the names the snapshot gives them.\<close>

definition deal_columns :: "deal_db \<Rightarrow> deal_row \<Rightarrow> (string \<times> sql_value) list" where
  "deal_columns db r =
     [(''rowid'', SqlInteger (dr_rowid r)),
      (''deal_id'', SqlText (dr_deal_id r)),
      (''idempotency_key'', sql_text (dr_idempotency_key r)),
      (''quote_json'', SqlText (dr_quote_json r)),
      (''quote_document_json'',
         sql_text (lookup_document (db_artifact_documents db) (Some (dr_quote_hash r)))),
      (''spec_json'', SqlText (dr_spec_json r)),
      (''workload_evidence_json'',
         sql_text (lookup_document (db_execution_evidence db) (dr_workload_evidence_hash r))),
      (''deal_artifact_json'', SqlText (dr_deal_artifact_json r)),
      (''deal_document_json'',
         sql_text (lookup_document (db_artifact_documents db) (dr_deal_artifact_hash r))),
      (''status'', SqlText (dr_status r)),
      (''result_json'', sql_text (dr_result_json r)),
      (''result_evidence_json'',
         sql_text (lookup_document (db_execution_evidence db) (dr_result_evidence_hash r))),
      (''result_hash'', sql_text (dr_result_hash r)),
      (''error'', sql_text (dr_error r)),
      (''payment_method'', sql_text (dr_payment_method r)),
      (''payment_token_hash'', sql_text (dr_payment_token_hash r)),
      (''payment_amount_sats'', sql_integer (dr_payment_amount_sats r)),
      (''receipt_artifact_json'', sql_text (dr_receipt_artifact_json r)),
      (''receipt_document_json'',
         sql_text (lookup_document (db_artifact_documents db) (dr_receipt_artifact_hash r))),
      (''created_at'', SqlInteger (dr_created_at r)),
      (''updated_at'', SqlInteger (dr_updated_at r))]"

definition deal_row_snapshot :: "deal_db \<Rightarrow> deal_row \<Rightarrow> json" where
  "deal_row_snapshot db r =
     mk_obj (map (\<lambda>c. (fst c, Some (value_ref_to_json (snd c)))) (deal_columns db r))"

fun quarantine_candidates ::
  "'w deal_text \<Rightarrow> deal_db \<Rightarrow> deal_row list \<Rightarrow> (quarantined_deal \<times> string) list result" where
  "quarantine_candidates tx db [] = Inr []"
| "quarantine_candidates tx db (r # rows) =
     (case decode_deal_row_with_offset tx db 1 r of
        Inr _ \<Rightarrow> quarantine_candidates tx db rows
      | Inl reason \<Rightarrow>
          and_then (value_to_string tx (deal_row_snapshot db r)) (\<lambda>snapshot_json.
          map_ok ((#) (\<lparr>qd_source_rowid = dr_rowid r,
              qd_deal_id = optional_string_from_value_ref (SqlText (dr_deal_id r)),
              qd_status = optional_string_from_value_ref (SqlText (dr_status r)),
              qd_reason = reason\<rparr>, snapshot_json))
            (quarantine_candidates tx db rows)))"

text \<open>Whether a row of another table refers to the deal.\<close>

definition referenced_deal :: "deal_db \<Rightarrow> string \<Rightarrow> bool" where
  "referenced_deal db deal_id \<longleftrightarrow>
     list_ex (\<lambda>m. mr_deal_id m = deal_id) (db_materializations db) \<or>
     list_ex (\<lambda>ob. ob_deal_id ob = deal_id) (db_stripe_outbox db) \<or>
     list_ex (\<lambda>p. pr_deal_id p = deal_id) (db_prepaid_invoices db)"

definition quarantine_move :: "i64 \<Rightarrow> quarantined_deal \<times> string \<Rightarrow> deal_db \<Rightarrow> deal_db" where
  "quarantine_move quarantined_at c db =
     db\<lparr>db_deal_quarantine := db_deal_quarantine db @
          [\<lparr>qn_source_rowid = qd_source_rowid (fst c), qn_deal_id = qd_deal_id (fst c),
            qn_status = qd_status (fst c), qn_reason = qd_reason (fst c),
            qn_snapshot_json = snd c, qn_quarantined_at = quarantined_at\<rparr>],
        db_deals := fst (delete_where (\<lambda>r. dr_rowid r = qd_source_rowid (fst c)) (db_deals db))\<rparr>"

text \<open>
  The insert into the quarantine and the \<open>DELETE FROM deals\<close>, which the foreign keys of the three
  referring tables refuse while a row of theirs names the deal (\<open>PRAGMA foreign_keys = ON\<close>).
\<close>

fun quarantine_all ::
  "i64 \<Rightarrow> (quarantined_deal \<times> string) list \<Rightarrow> deal_db \<Rightarrow> unit result \<times> deal_db" where
  "quarantine_all quarantined_at [] db = (Inr (), db)"
| "quarantine_all quarantined_at (c # cs) db =
     (if list_ex (\<lambda>r. dr_rowid r = qd_source_rowid (fst c) \<and> referenced_deal db (dr_deal_id r))
           (db_deals db)
      then (Inl ''FOREIGN KEY constraint failed'', db)
      else quarantine_all quarantined_at cs (quarantine_move quarantined_at c db))"

definition quarantine_invalid_deals ::
  "'w deal_text \<Rightarrow> i64 \<Rightarrow> deal_db \<Rightarrow> quarantined_deal list result \<times> deal_db" where
  "quarantine_invalid_deals tx quarantined_at =
     with_immediate_transaction (\<lambda>db.
       case quarantine_candidates tx db (sort_key dr_rowid (db_deals db)) of
         Inl e \<Rightarrow> (Inl e, db)
       | Inr candidates \<Rightarrow>
           (case quarantine_all quarantined_at candidates db of
              (Inl e, db) \<Rightarrow> (Inl e, db)
            | (Inr _, db) \<Rightarrow> (Inr (map fst candidates), db)))"

end
