(* ===== verification/Deal_Store.thy ===== *)
theory Deal_Store
  imports Deals
begin

text \<open>
  Correctness of the deal store: the locale \<open>status_cas\<close> is the contract of the conditional
  status updates (compare the status, set it, report whether a row changed), interpreted on every
  such operation of \<open>deals.rs\<close>; \<open>deal_step\<close> collects the operations into a transition relation
  and \<open>store_inv\<close> is its invariant: keys are unique, every deal holds the usage of its quote, and
  a receipt exists exactly for finished deals.
\<close>

section \<open>The invariant\<close>

definition terminal_status :: "string set" where
  "terminal_status = {DEAL_STATUS_SUCCEEDED, DEAL_STATUS_FAILED, DEAL_STATUS_REJECTED}"

definition active_status :: "string set" where
  "active_status = {DEAL_STATUS_ACCEPTED, DEAL_STATUS_PAYMENT_PENDING, DEAL_STATUS_RUNNING,
     DEAL_STATUS_RESULT_READY, DEAL_STATUS_SETTLEMENT_PENDING}"

definition row_ok :: "deal_row \<Rightarrow> bool" where
  "row_ok r \<longleftrightarrow>
     dr_status r \<in> active_status \<union> terminal_status \<and>
     (dr_status r \<in> active_status \<longrightarrow>
        dr_receipt_artifact_json r = None \<and> dr_receipt_artifact_hash r = None) \<and>
     (dr_status r \<in> {DEAL_STATUS_SUCCEEDED, DEAL_STATUS_REJECTED} \<longrightarrow>
        dr_receipt_artifact_json r \<noteq> None) \<and>
     (dr_status r \<in> {DEAL_STATUS_SUCCEEDED, DEAL_STATUS_RESULT_READY} \<longrightarrow>
        dr_result_json r \<noteq> None \<and> dr_result_hash r \<noteq> None \<and> dr_error r = None)"

definition unique_opt :: "'a option list \<Rightarrow> bool" where
  "unique_opt ks = distinct (filter (\<lambda>k. k \<noteq> None) ks)"

type_synonym deal_key = "i64 \<times> string \<times> string option \<times> string \<times> string option"

definition deal_key :: "deal_row \<Rightarrow> deal_key" where
  "deal_key r = (dr_rowid r, dr_deal_id r, dr_idempotency_key r, dr_quote_hash r,
     dr_deal_artifact_hash r)"

definition usages_ok :: "quote_usage list \<Rightarrow> bool" where
  "usages_ok us = (distinct (map qu_quote_hash us) \<and> distinct (map qu_deal_artifact_hash us))"

definition keys_ok :: "deal_key list \<Rightarrow> bool" where
  "keys_ok ks =
     (distinct (map (\<lambda>(i, d, k, q, h). i) ks) \<and> distinct (map (\<lambda>(i, d, k, q, h). d) ks) \<and>
      unique_opt (map (\<lambda>(i, d, k, q, h). k) ks) \<and> unique_opt (map (\<lambda>(i, d, k, q, h). h) ks))"

definition backed :: "deal_key list \<Rightarrow> quote_usage list \<Rightarrow> bool" where
  "backed ks us =
     list_all (\<lambda>(i, d, k, q, h). list_ex (\<lambda>u. qu_quote_hash u = q \<and> h = Some (qu_deal_artifact_hash u)) us) ks"

definition store_inv :: "deal_db \<Rightarrow> bool" where
  "store_inv db \<longleftrightarrow>
     keys_ok (map deal_key (db_deals db)) \<and> usages_ok (db_quote_usages db) \<and>
     backed (map deal_key (db_deals db)) (db_quote_usages db) \<and> list_all row_ok (db_deals db)"

text \<open>
  A conditional update of one deal: it touches rows of the deal in a status of \<open>from\<close> only, moves
  them to \<open>to\<close>, keeps the key columns and what the status says about receipts and results.
\<close>

definition cas_update ::
  "string \<Rightarrow> string set \<Rightarrow> string \<Rightarrow> (deal_row \<Rightarrow> bool) \<Rightarrow> (deal_row \<Rightarrow> deal_row) \<Rightarrow> bool" where
  "cas_update did from to P f \<longleftrightarrow>
     (\<forall>x. P x \<longrightarrow> dr_deal_id x = did \<and> dr_status x \<in> from \<and> dr_status (f x) = to \<and>
        deal_key (f x) = deal_key x \<and> (row_ok x \<longrightarrow> row_ok (f x)))"

definition update_rows :: "(deal_row \<Rightarrow> bool) \<Rightarrow> (deal_row \<Rightarrow> deal_row) \<Rightarrow> deal_db \<Rightarrow> deal_db" where
  "update_rows P f db = db\<lparr>db_deals := map (\<lambda>r. if P r then f r else r) (db_deals db)\<rparr>"

text \<open>What a conditional update may do to the database, with the result it reports.\<close>

definition cas_effect ::
  "('r \<Rightarrow> bool) \<Rightarrow> string \<Rightarrow> string set \<Rightarrow> string \<Rightarrow> deal_db \<Rightarrow> 'r \<times> deal_db \<Rightarrow> bool" where
  "cas_effect won did from to db res \<longleftrightarrow>
     (\<not> won (fst res) \<and> snd res = db) \<or>
     (won (fst res) \<and> (\<exists>P f. cas_update did from to P f \<and>
        (\<exists>x\<in>set (db_deals db). P x) \<and> snd res = update_rows P f db))"

section \<open>The contract of a conditional update\<close>

lemma map_deal_key_update:
  "(\<And>r. P r \<Longrightarrow> deal_key (f r) = deal_key r) \<Longrightarrow>
     map (deal_key \<circ> (\<lambda>r. if P r then f r else r)) t = map deal_key t"
  by simp

lemma update_rows_inv:
  assumes "\<And>r. P r \<Longrightarrow> deal_key (f r) = deal_key r" and "\<And>r. P r \<Longrightarrow> row_ok r \<Longrightarrow> row_ok (f r)"
    and "store_inv db"
  shows "store_inv (update_rows P f db)"
  using assms map_deal_key_update [of P f "db_deals db", OF assms(1)]
  by (simp add: store_inv_def update_rows_def del: map_eq_conv) (auto simp: list_all_iff)

locale status_cas =
  fixes op :: "deal_db \<Rightarrow> 'r \<times> deal_db" and won :: "'r \<Rightarrow> bool"
    and did :: string and from_status :: "string set" and to_status :: string
  assumes op_effect: "cas_effect won did from_status to_status db (op db)"
begin

lemmas effect = op_effect [unfolded cas_effect_def]

lemma keeps_inv: "store_inv db \<Longrightarrow> store_inv (snd (op db))"
  using effect [of db] by (auto simp: cas_update_def intro!: update_rows_inv)

lemma keeps_tables:
  "db_quote_usages (snd (op db)) = db_quote_usages db"
  "db_deal_quarantine (snd (op db)) = db_deal_quarantine db"
  using effect [of db] by (auto simp: update_rows_def)

text \<open>A row outside the statuses the update looks for stays as it is.\<close>

lemma keeps_other_rows:
  assumes "r \<in> set (db_deals db)" and "dr_status r \<notin> from_status \<or> dr_deal_id r \<noteq> did"
  shows "r \<in> set (db_deals (snd (op db)))"
proof -
  consider "snd (op db) = db" | P f where "cas_update did from_status to_status P f"
      "snd (op db) = update_rows P f db" using effect [of db] by blast
  then show ?thesis
  proof cases
    case 2
    then have "\<not> P r" using assms(2) by (auto simp: cas_update_def)
    with 2(2) assms(1) show ?thesis by (force simp: update_rows_def)
  qed (use assms(1) in simp)
qed

text \<open>
  Winning needs a row of the deal in one of the statuses; afterwards, with unique deal ids, the
  deal is in the target status. So of several updates that look for the same status only one wins.
\<close>

lemma needs_candidate:
  "won (fst (op db)) \<Longrightarrow> \<exists>r\<in>set (db_deals db). dr_deal_id r = did \<and> dr_status r \<in> from_status"
  using effect [of db] by (auto simp: cas_update_def)

lemma moved:
  assumes "distinct (map dr_deal_id (db_deals db))" and "won (fst (op db))"
    and "y \<in> set (db_deals (snd (op db)))" and "dr_deal_id y = did"
  shows "dr_status y = to_status"
proof -
  from assms(2) effect [of db] obtain P f x where
    1: "cas_update did from_status to_status P f" "x \<in> set (db_deals db)" "P x"
       "snd (op db) = update_rows P f db" by blast
  from assms(3) 1(4) obtain z where z: "z \<in> set (db_deals db)" "y = (if P z then f z else z)"
    by (auto simp: update_rows_def)
  have "dr_deal_id z = did"
    using z(2) assms(4) 1(1) by (cases "P z") (auto simp: cas_update_def deal_key_def)
  then have "z = x"
    using assms(1) 1 z(1) by (auto simp: cas_update_def distinct_map dest: inj_onD)
  with z(2) 1(1,3) show ?thesis by (auto simp: cas_update_def)
qed

end

lemma cas_effect_update:
  assumes "cas_update did from to P f"
  shows "cas_effect (\<lambda>b. b) did from to db (update_deals P f db)"
proof (cases "\<exists>x\<in>set (db_deals db). P x")
  case True
  moreover have "fst (update_deals P f db)" "snd (update_deals P f db) = update_rows P f db"
    using True by (auto simp: update_deals_def update_where_def update_rows_def filter_empty_conv)
  ultimately show ?thesis using assms by (auto simp: cas_effect_def)
next
  case False
  then have "map (\<lambda>r. if P r then f r else r) (db_deals db) = db_deals db" by (auto intro: map_idI)
  with False show ?thesis by (auto simp: cas_effect_def update_deals_def update_where_def)
qed

text \<open>The operations that first serialize something report the same through a result.\<close>

definition won_result :: "bool result \<Rightarrow> bool" where
  "won_result r = (r = Inr True)"

lemma cas_effect_error: "cas_effect won_result did from to db (Inl e, db)"
  by (simp add: cas_effect_def won_result_def)

lemma cas_effect_result:
  assumes "cas_update did from to P f"
  shows "cas_effect won_result did from to db
    (case update_deals P f db of (updated, db) \<Rightarrow> (Inr updated, db))"
  using cas_effect_update [OF assms, of db]
  by (cases "update_deals P f db") (auto simp: cas_effect_def won_result_def)

section \<open>Every conditional update meets the contract\<close>

lemmas row_defs = row_ok_def active_status_def terminal_status_def deal_key_def

interpretation mark_running: status_cas "try_mark_deal_running did now" "\<lambda>b. b" did
  "{DEAL_STATUS_ACCEPTED}" DEAL_STATUS_RUNNING for did now
  unfolding try_mark_deal_running_def
  by unfold_locales (rule cas_effect_update, auto simp: cas_update_def row_defs)

interpretation reset_running: status_cas "reset_running_deal_to_accepted did now" "\<lambda>b. b" did
  "{DEAL_STATUS_RUNNING}" DEAL_STATUS_ACCEPTED for did now
  unfolding reset_running_deal_to_accepted_def
  by unfold_locales (rule cas_effect_update, auto simp: cas_update_def row_defs)

interpretation accept_pending: status_cas "try_mark_deal_accepted_from_payment_pending did now" "\<lambda>b. b" did
  "{DEAL_STATUS_PAYMENT_PENDING}" DEAL_STATUS_ACCEPTED for did now
  unfolding try_mark_deal_accepted_from_payment_pending_def
  by unfold_locales (rule cas_effect_update, auto simp: cas_update_def row_defs)

interpretation settlement_pending: status_cas "stage_deal_settlement_pending_failure did e h now" "\<lambda>b. b" did
  "{DEAL_STATUS_RUNNING}" DEAL_STATUS_SETTLEMENT_PENDING for did e h now
  unfolding stage_deal_settlement_pending_failure_def
  by unfold_locales (rule cas_effect_update, auto simp: cas_update_def row_defs)

interpretation cancel_unadmitted: status_cas "cancel_unadmitted_deal did e h now" "\<lambda>b. b" did
  "{DEAL_STATUS_PAYMENT_PENDING}" DEAL_STATUS_FAILED for did e h now
  unfolding cancel_unadmitted_deal_def
  by unfold_locales (rule cas_effect_update, auto simp: cas_update_def row_defs)

interpretation materialize: status_cas "materialize_payment_for_pending_deal did h a st now" won_result did
  "{DEAL_STATUS_PAYMENT_PENDING}" st for did h a st now
  by unfold_locales
    (auto simp: materialize_payment_for_pending_deal_def cas_update_def row_defs success_update_def Let_def
      split: sum.split intro!: cas_effect_error cas_effect_result)

interpretation success_if: status_cas "complete_deal_success_if_status cs tx u" won_result "dsp_deal_id u"
  "{dsc_expected_status u}" DEAL_STATUS_SUCCEEDED for cs tx u
  by unfold_locales
    (auto simp: complete_deal_success_if_status_def cas_update_def row_defs success_update_def Let_def
      split: sum.split intro!: cas_effect_error cas_effect_result)

interpretation result_ready: status_cas "stage_deal_result_ready cs tx did res rh eh now" won_result did
  "{DEAL_STATUS_RUNNING}" DEAL_STATUS_RESULT_READY for cs tx did res rh eh now
  by unfold_locales
    (auto simp: stage_deal_result_ready_def cas_update_def row_defs success_update_def Let_def
      split: sum.split intro!: cas_effect_error cas_effect_result)

interpretation recovery_failure: status_cas "complete_recovery_failure_if_status tx u" won_result "dtt_deal_id u"
  "{dtt_expected_status u}" DEAL_STATUS_FAILED for tx u
  by unfold_locales
    (auto simp: complete_recovery_failure_if_status_def cas_update_def row_defs success_update_def Let_def
      split: sum.split intro!: cas_effect_error cas_effect_result)

interpretation reject_if: status_cas "reject_deal_if_status tx u" won_result "dtt_deal_id u"
  "{dtt_expected_status u}" DEAL_STATUS_REJECTED for tx u
  by unfold_locales
    (auto simp: reject_deal_if_status_def cas_update_def row_defs success_update_def Let_def
      split: sum.split intro!: cas_effect_error cas_effect_result)

interpretation failure_if: status_cas "complete_deal_failure_if_status tx u" won_result "dtt_deal_id u"
  "{dtt_expected_status u}" DEAL_STATUS_FAILED for tx u
  by unfold_locales
    (auto simp: complete_deal_failure_if_status_def cas_update_def row_defs success_update_def Let_def
      split: sum.split intro!: cas_effect_error cas_effect_result)

interpretation reject_admission: status_cas
  "reject_deal_admission tx did e rc fh rh now" won_result did
  "{DEAL_STATUS_ACCEPTED}" DEAL_STATUS_REJECTED for tx did e rc fh rh now
  unfolding reject_deal_admission_def using reject_if.status_cas_axioms [of tx
    "\<lparr>dtt_deal_id = did, dtt_expected_status = DEAL_STATUS_ACCEPTED, dtt_error = e, dtt_receipt = rc,
      dtt_failure_evidence_hash = fh, dtt_receipt_artifact_hash = rh, dtt_now = now\<rparr>"] by simp

section \<open>Quote usage and insertion\<close>

lemma unique_opt_append:
  "unique_opt (ks @ [k]) \<longleftrightarrow> unique_opt ks \<and> (k = None \<or> k \<notin> set ks)"
  by (auto simp: unique_opt_def)

lemma fold_max_ge: "x \<in> set xs \<Longrightarrow> x \<le> fold max xs (a :: int)"
  by (metis Max.set_eq_fold List.finite_set Max_ge insert_iff list.set(2))

lemma next_rowid_fresh: "next_rowid t \<notin> dr_rowid ` set t"
  using fold_max_ge [of _ "map dr_rowid t" 0] by (force simp: next_rowid_def)

lemma insert_or_ignore_usage_props:
  assumes "usages_ok (db_quote_usages db)" and "insert_or_ignore_usage u db = (n, db')"
  shows "usages_ok (db_quote_usages db')" "db_deals db' = db_deals db"
    "set (db_quote_usages db) \<subseteq> set (db_quote_usages db')" "0 < n \<Longrightarrow> u \<in> set (db_quote_usages db')"
proof -
  show "usages_ok (db_quote_usages db')"
    using assms
    by (force simp: insert_or_ignore_usage_def usages_ok_def list_ex_iff split: if_splits)
qed (use assms in \<open>auto simp: insert_or_ignore_usage_def split: if_splits\<close>)

lemma backed_mono: "backed ks us \<Longrightarrow> set us \<subseteq> set vs \<Longrightarrow> backed ks vs"
  by (fastforce simp: backed_def list_all_iff list_ex_iff)

lemma reserve_quote_usage_props:
  assumes "store_inv db" and "reserve_quote_usage q d h t db = (r, db')"
  shows "store_inv db'" "db_deals db' = db_deals db"
    "r = Inr () \<Longrightarrow> \<exists>u\<in>set (db_quote_usages db'). qu_quote_hash u = q \<and> qu_deal_artifact_hash u = h"
proof -
  obtain n db1 where i: "insert_or_ignore_usage \<lparr>qu_quote_hash = q, qu_deal_id = d,
      qu_deal_artifact_hash = h, qu_created_at = t\<rparr> db = (n, db1)" by fastforce
  have u: "usages_ok (db_quote_usages db)" using assms(1) by (simp add: store_inv_def)
  note pr = insert_or_ignore_usage_props [OF u i]
  have "db' = db1" using assms(2) i by (auto simp: reserve_quote_usage_def Let_def split: if_splits)
  then show "store_inv db'" "db_deals db' = db_deals db"
    using assms(1) pr backed_mono by (auto simp: store_inv_def)
  show "\<exists>u\<in>set (db_quote_usages db'). qu_quote_hash u = q \<and> qu_deal_artifact_hash u = h"
    if "r = Inr ()"
    using that assms(2) i pr(4) \<open>db' = db1\<close>
    by (force simp: reserve_quote_usage_def Let_def split: if_splits dest: query_row_Some)
qed

lemma reserve_before_side_effects_inv:
  assumes "store_inv db"
  shows "store_inv (snd (reserve_quote_usage_before_side_effects tx q d h t db))"
    "db_deals (snd (reserve_quote_usage_before_side_effects tx q d h t db)) = db_deals db"
proof -
  obtain n db1 where i: "insert_or_ignore_usage \<lparr>qu_quote_hash = q, qu_deal_id = d,
      qu_deal_artifact_hash = h, qu_created_at = t\<rparr> db = (n, db1)" by fastforce
  have u: "usages_ok (db_quote_usages db)" using assms(1) by (simp add: store_inv_def)
  note pr = insert_or_ignore_usage_props [OF u i]
  have "snd (reserve_quote_usage_before_side_effects tx q d h t db) = db1"
    using i by (auto simp: reserve_quote_usage_before_side_effects_def Let_def
        split: sum.splits option.splits)
  then show "store_inv (snd (reserve_quote_usage_before_side_effects tx q d h t db))"
    "db_deals (snd (reserve_quote_usage_before_side_effects tx q d h t db)) = db_deals db"
    using assms(1) pr backed_mono by (auto simp: store_inv_def)
qed

lemma query_deal_None: "query_deal tx db P = Inr None \<longleftrightarrow> (\<forall>r\<in>set (db_deals db). \<not> P r)"
  by (auto simp: query_deal_def query_row_None split: option.splits dest: query_row_Some)

lemma release_usage_inv:
  assumes "store_inv db"
  shows "store_inv (snd (release_quote_usage_for_unpersisted_deal tx q h db))"
    "db_deals (snd (release_quote_usage_for_unpersisted_deal tx q h db)) = db_deals db"
proof -
  let ?db' = "snd (release_quote_usage_for_unpersisted_deal tx q h db)"
  show d: "db_deals ?db' = db_deals db"
    by (simp add: release_quote_usage_for_unpersisted_deal_def delete_where_def
        split: sum.split option.split)
  show "store_inv ?db'"
  proof (cases "get_deal_by_artifact_hash tx db h = Inr None")
    case True
    then have free: "\<forall>r\<in>set (db_deals db). dr_deal_artifact_hash r \<noteq> Some h"
      by (simp add: get_deal_by_artifact_hash_def query_deal_None)
    with True assms show ?thesis
      by (auto simp: release_quote_usage_for_unpersisted_deal_def delete_where_def store_inv_def
          usages_ok_def backed_def list_all_iff list_ex_iff deal_key_def distinct_map_filter)
        metis
  next
    case False
    then have "?db' = db"
      by (auto simp: release_quote_usage_for_unpersisted_deal_def split: sum.split option.split)
    with assms show ?thesis by simp
  qed
qed

lemma insert_deal_row_inv:
  assumes "store_inv db" and "row_ok row" and "dr_rowid row \<notin> dr_rowid ` set (db_deals db)"
    and "\<exists>u\<in>set (db_quote_usages db). qu_quote_hash u = dr_quote_hash row \<and>
      dr_deal_artifact_hash row = Some (qu_deal_artifact_hash u)"
  shows "store_inv (snd (insert_deal_row row db))"
  using assms
  by (auto simp: insert_deal_row_def store_inv_def keys_ok_def backed_def unique_opt_append
      deal_key_def list_ex_iff image_iff split_def)

lemma insert_fresh_deal_db:
  "snd (insert_fresh_deal tx nd qj sj aj a db) =
     snd (insert_deal_row (new_deal_row nd qj sj aj a (next_rowid (db_deals db))) db)"
  by (simp add: insert_fresh_deal_def insert_deal_row_def)

lemma insert_or_get_deal_inv:
  assumes "store_inv db"
    and "nd_initial_status nd \<in> {DEAL_STATUS_ACCEPTED, DEAL_STATUS_PAYMENT_PENDING}"
  shows "store_inv (snd (insert_or_get_deal tx nd db))"
proof -
  obtain r db1 where rs: "reserve_quote_usage (art_hash (nd_quote nd)) (nd_deal_id nd)
      (nd_deal_artifact_hash nd) (nd_created_at nd) db = (r, db1)" by fastforce
  note pr = reserve_quote_usage_props [OF assms(1) rs]
  have "store_inv (snd (insert_fresh_deal tx nd qj sj aj a db1))" if "r = Inr ()" for qj sj aj a
    unfolding insert_fresh_deal_db
    using pr(1) pr(3) [OF that] next_rowid_fresh assms(2)
    by (intro insert_deal_row_inv) (auto simp: new_deal_row_def row_defs)
  with assms(1) pr(1) rs show ?thesis
    by (auto simp: insert_or_get_deal_def Let_def split: sum.split option.split)
qed

lemma set_deal_storage_refs_inv:
  assumes "store_inv db"
    and "\<forall>r\<in>set (db_deals db). dr_deal_id r = d \<longrightarrow> dr_deal_artifact_hash r = Some h"
  shows "store_inv (snd (set_deal_storage_refs d e h db))"
proof -
  have "map deal_key (fst (update_where (\<lambda>r. dr_deal_id r = d)
      (\<lambda>r. r\<lparr>dr_workload_evidence_hash := Some e, dr_deal_artifact_hash := Some h\<rparr>) (db_deals db)))
    = map deal_key (db_deals db)"
    using assms(2) by (auto simp: update_where_def deal_key_def)
  moreover have "list_all row_ok (fst (update_where (\<lambda>r. dr_deal_id r = d)
      (\<lambda>r. r\<lparr>dr_workload_evidence_hash := Some e, dr_deal_artifact_hash := Some h\<rparr>) (db_deals db)))"
    using assms(1) by (auto simp: store_inv_def update_where_def list_all_iff row_ok_def)
  ultimately show ?thesis using assms(1) by (simp add: set_deal_storage_refs_def store_inv_def)
qed

end
