(* ===== verification/Deal_Lifecycle.thy ===== *)
theory Deal_Lifecycle
  imports Deal_Store Samples
begin

text \<open>
  The deal store as a transition system. A step is one operation of \<open>deals.rs\<close> the node performs,
  with the arguments its callers pass (a new deal starts accepted or payment\_pending, a
  completion names an unfinished status, storage references repeat the deal's own hash), or a
  change of the document tables by another component. The two completions without a status
  check and \<open>fail_incomplete_deals\<close> have no caller outside tests and are not steps.
\<close>

section \<open>Steps\<close>

inductive deal_step :: "crypto_env \<Rightarrow> 'w deal_text \<Rightarrow> deal_db \<Rightarrow> deal_db \<Rightarrow> bool"
  for cs :: crypto_env and tx :: "'w deal_text" where
  step_insert_quote:
    "deal_step cs tx db (snd (with_immediate_transaction (insert_quote tx q) db))"
| step_insert:
    "nd_initial_status nd \<in> {DEAL_STATUS_ACCEPTED, DEAL_STATUS_PAYMENT_PENDING} \<Longrightarrow>
     deal_step cs tx db (snd (with_immediate_transaction (insert_or_get_deal tx nd) db))"
| step_reserve:
    "deal_step cs tx db (snd (with_immediate_transaction
       (reserve_quote_usage_before_side_effects tx q d h t) db))"
| step_release:
    "deal_step cs tx db (snd (with_immediate_transaction
       (release_quote_usage_for_unpersisted_deal tx q h) db))"
| step_refs:
    "\<forall>r\<in>set (db_deals db). dr_deal_id r = d \<longrightarrow> dr_deal_artifact_hash r = Some h \<Longrightarrow>
     deal_step cs tx db (snd (set_deal_storage_refs d e h db))"
| step_running: "deal_step cs tx db (snd (try_mark_deal_running d now db))"
| step_reset: "deal_step cs tx db (snd (reset_running_deal_to_accepted d now db))"
| step_accept: "deal_step cs tx db (snd (try_mark_deal_accepted_from_payment_pending d now db))"
| step_materialize:
    "deal_step cs tx db (snd (materialize_payment_for_pending_deal d h a st now db))"
| step_result_ready: "deal_step cs tx db (snd (stage_deal_result_ready cs tx d v rh eh now db))"
| step_settlement_pending:
    "deal_step cs tx db (snd (stage_deal_settlement_pending_failure d er h now db))"
| step_success:
    "dsc_expected_status u \<in> active_status \<Longrightarrow>
     deal_step cs tx db (snd (complete_deal_success_if_status cs tx u db))"
| step_failure:
    "dtt_expected_status f \<in> active_status \<Longrightarrow>
     deal_step cs tx db (snd (complete_deal_failure_if_status tx f db))"
| step_recovery_failure:
    "dtt_expected_status g \<in> active_status \<Longrightarrow>
     deal_step cs tx db (snd (complete_recovery_failure_if_status tx g db))"
| step_reject:
    "dtt_expected_status f \<in> active_status \<Longrightarrow>
     deal_step cs tx db (snd (reject_deal_if_status tx f db))"
| step_reject_admission:
    "deal_step cs tx db (snd (reject_deal_admission tx d er rc fh rh now db))"
| step_cancel: "deal_step cs tx db (snd (cancel_unadmitted_deal d er h now db))"
| step_quarantine: "deal_step cs tx db (snd (quarantine_invalid_deals tx now db))"
| step_documents:
    "deal_step cs tx db (db\<lparr>db_artifact_documents := docs, db_execution_evidence := evid\<rparr>)"
| step_settlement:
    "deal_step cs tx db (db\<lparr>db_materializations := ms, db_stripe_outbox := obs, db_prepaid_invoices := ps\<rparr>)"

definition empty_db :: deal_db where
  "empty_db = \<lparr>db_quotes = [], db_quote_usages = [], db_deals = [], db_deal_quarantine = [],
     db_artifact_documents = [], db_execution_evidence = [],
     db_materializations = [], db_stripe_outbox = [], db_prepaid_invoices = []\<rparr>"

definition reachable_db :: "crypto_env \<Rightarrow> 'w deal_text \<Rightarrow> deal_db \<Rightarrow> bool" where
  "reachable_db cs tx db = (deal_step cs tx)\<^sup>*\<^sup>* empty_db db"

text \<open>serde\_json's text forms parse back to what they were written from.\<close>

definition text_laws :: "'w deal_text \<Rightarrow> bool" where
  "text_laws tx \<longleftrightarrow>
     (\<forall>q s. quote_to_string tx q = Inr s \<longrightarrow> quote_from_str tx s = Inr q) \<and>
     (\<forall>w s. spec_to_string tx w = Inr s \<longrightarrow> spec_from_str tx s = Inr w) \<and>
     (\<forall>d s. deal_to_string tx d = Inr s \<longrightarrow> deal_from_str tx s = Inr d) \<and>
     (\<forall>v s. value_to_string tx v = Inr s \<longrightarrow> value_from_str tx s = Inr v) \<and>
     (\<forall>r s. receipt_to_string tx r = Inr s \<longrightarrow> receipt_from_str tx s = Inr r)"

definition reference_text :: "unit deal_text" where
  "reference_text =
     \<lparr>quote_to_string = (\<lambda>q. Inr (ref_json (artifact_value quote_value q))),
      quote_from_str = (\<lambda>s. Inr (inv (\<lambda>q. ref_json (artifact_value quote_value q)) s)),
      spec_to_string = (\<lambda>_. Inr ''{}''),
      spec_from_str = (\<lambda>s. if s = ''{}'' then Inr () else Inl ''expected value''),
      deal_to_string = (\<lambda>d. Inr (ref_json (artifact_value deal_value d))),
      deal_from_str = (\<lambda>s. Inr (inv (\<lambda>d. ref_json (artifact_value deal_value d)) s)),
      value_to_string = (\<lambda>v. Inr (ref_json v)), value_from_str = (\<lambda>s. Inr (inv ref_json s)),
      receipt_to_string = (\<lambda>r. Inr (ref_json (artifact_value receipt_value r))),
      receipt_from_str = (\<lambda>s. Inr (inv (\<lambda>r. ref_json (artifact_value receipt_value r)) s))\<rparr>"

definition sample_new_deal :: "unit new_deal" where
  "sample_new_deal =
     \<lparr>nd_deal_id = ''deal-1'', nd_idempotency_key = Some ''key-1'', nd_quote = sample_quote,
      nd_spec = (), nd_artifact = sample_deal, nd_workload_evidence_hash = None,
      nd_deal_artifact_hash = art_hash sample_deal, nd_payment_method = Some ''lightning'',
      nd_payment_token_hash = Some sample_success_hash, nd_payment_amount_sats = Some 3,
      nd_initial_status = DEAL_STATUS_PAYMENT_PENDING, nd_created_at = 60\<rparr>"

definition sample_deal_row :: deal_row where
  "sample_deal_row = new_deal_row sample_new_deal
     (ref_json (artifact_value quote_value sample_quote)) ''{}''
     (ref_json (artifact_value deal_value sample_deal)) (Some 3) 1"

definition sample_db :: deal_db where
  "sample_db = empty_db\<lparr>db_quote_usages :=
       [\<lparr>qu_quote_hash = art_hash sample_quote, qu_deal_id = ''deal-1'',
         qu_deal_artifact_hash = art_hash sample_deal, qu_created_at = 60\<rparr>],
     db_deals := [sample_deal_row]\<rparr>"

text \<open>The deal record a finished deal keeps: everything but the reference to its workload evidence.\<close>

definition frozen_as :: "deal_row \<Rightarrow> deal_row \<Rightarrow> bool" where
  "frozen_as r r' = (\<exists>e. r' = r\<lparr>dr_workload_evidence_hash := e\<rparr>)"

section \<open>Lemmas\<close>

lemma unique_opt_inj:
  "unique_opt (map k t) \<Longrightarrow> r \<in> set t \<Longrightarrow> s \<in> set t \<Longrightarrow> k r = k s \<Longrightarrow> k r \<noteq> None \<Longrightarrow> r = s"
proof (induction t)
  case (Cons a t)
  have u: "unique_opt (map k t)" "k a \<noteq> None \<Longrightarrow> k a \<notin> k ` set t"
    using Cons.prems(1) by (auto simp: unique_opt_def split: if_splits)
  consider "r = a" "s = a" | "r = a" "s \<in> set t" | "s = a" "r \<in> set t" | "r \<in> set t" "s \<in> set t"
    using Cons.prems by auto
  then show ?case
  proof cases
    case 4
    with Cons u(1) show ?thesis by simp
  qed (use Cons.prems u(2) in \<open>auto simp: image_iff\<close>)
qed simp

section \<open>Quarantine\<close>

lemma decode_offset_ok:
  "is_ok (decode_deal_row_with_offset tx db m r) \<longleftrightarrow> is_ok (decode_deal_row_with_offset tx db n r)"
proof -
  have p: "is_ok (and_then (parse_column f i s) g) \<longleftrightarrow> (\<exists>x. f s = Inr x \<and> is_ok (g x))"
    for f i s and g :: "_ \<Rightarrow> string + 'w stored_deal"
    by (cases "f s") (auto simp: parse_column_def)
  have o: "is_ok (and_then (parse_optional_column f i s) g) \<longleftrightarrow>
      (case s of None \<Rightarrow> is_ok (g None) | Some j \<Rightarrow> (\<exists>x. f j = Inr x \<and> is_ok (g (Some x))))"
    for f i s and g :: "_ \<Rightarrow> string + 'w stored_deal"
    by (cases s; cases "f (the s)") (auto simp: parse_optional_column_def parse_column_def)
  have a: "is_ok (and_then (decode_payment_amount i s) g) \<longleftrightarrow>
      (case s of None \<Rightarrow> is_ok (g None) | Some v \<Rightarrow> (\<exists>w. u64_of_i64 v = Some w \<and> is_ok (g (Some w))))"
    for i s and g :: "_ \<Rightarrow> string + 'w stored_deal"
    by (cases s; cases "u64_of_i64 (the s)") (auto simp: decode_payment_amount_def)
  show ?thesis by (simp only: decode_deal_row_with_offset_def p o a is_ok_simps)
qed

lemma quarantine_candidates_rowids:
  "quarantine_candidates tx db rows = Inr cs \<Longrightarrow>
     map (qd_source_rowid \<circ> fst) cs =
       map dr_rowid (filter (\<lambda>r. \<not> is_ok (decode_deal_row tx db r)) rows)"
proof (induction rows arbitrary: cs)
  case (Cons r rows)
  have e: "is_ok (decode_deal_row_with_offset tx db 1 r) = is_ok (decode_deal_row tx db r)"
    unfolding decode_deal_row_def by (rule decode_offset_ok)
  show ?case
    using Cons e by (cases "decode_deal_row_with_offset tx db 1 r") (auto simp: and_then_Inr)
qed simp

lemma candidate_unreadable:
  assumes "quarantine_candidates tx db (sort_key dr_rowid (db_deals db)) = Inr cs"
    and "distinct (map dr_rowid (db_deals db))"
    and "c \<in> set cs" and "r \<in> set (db_deals db)" and "dr_rowid r = qd_source_rowid (fst c)"
  shows "\<not> is_ok (decode_deal_row tx db r)"
proof -
  have "dr_rowid r \<in> set (map (qd_source_rowid \<circ> fst) cs)" using assms(3,5) by force
  then obtain x where "x \<in> set (db_deals db)" "\<not> is_ok (decode_deal_row tx db x)" "dr_rowid x = dr_rowid r"
    unfolding quarantine_candidates_rowids [OF assms(1)] by auto
  with assms(2,4) show ?thesis by (auto simp: distinct_map dest: inj_onD)
qed

lemma fold_quarantine:
  "db_deals (fold (quarantine_move t) cs db) =
     filter (\<lambda>r. dr_rowid r \<notin> set (map (qd_source_rowid \<circ> fst) cs)) (db_deals db)"
  "db_quote_usages (fold (quarantine_move t) cs db) = db_quote_usages db"
  "db_artifact_documents (fold (quarantine_move t) cs db) = db_artifact_documents db"
  "db_execution_evidence (fold (quarantine_move t) cs db) = db_execution_evidence db"
  "map qn_source_rowid (db_deal_quarantine (fold (quarantine_move t) cs db)) =
     map qn_source_rowid (db_deal_quarantine db) @ map (qd_source_rowid \<circ> fst) cs"
  by (induction cs arbitrary: db) (auto simp: quarantine_move_def delete_where_def
      intro!: filter_cong)

lemma quarantine_all_fold:
  "quarantine_all t cs db = (Inr (), db') \<Longrightarrow> db' = fold (quarantine_move t) cs db"
  by (induction cs arbitrary: db) (auto split: if_splits)

lemma quarantine_cases:
  "(\<exists>e. quarantine_invalid_deals tx t db = (Inl e, db)) \<or>
   (\<exists>cs. quarantine_candidates tx db (sort_key dr_rowid (db_deals db)) = Inr cs \<and>
      quarantine_invalid_deals tx t db = (Inr (map fst cs), fold (quarantine_move t) cs db))"
proof (cases "quarantine_candidates tx db (sort_key dr_rowid (db_deals db))")
  case (Inr cs)
  then show ?thesis
    by (cases "quarantine_all t cs db"; cases "fst (quarantine_all t cs db)")
      (auto simp: quarantine_invalid_deals_def with_immediate_transaction_def dest: quarantine_all_fold)
qed (simp add: quarantine_invalid_deals_def with_immediate_transaction_def)

lemma decode_depends_on_documents:
  assumes "db_artifact_documents db' = db_artifact_documents db"
    and "db_execution_evidence db' = db_execution_evidence db"
  shows "decode_deal_row tx db' r = decode_deal_row tx db r"
  using assms by (simp add: decode_deal_row_def decode_deal_row_with_offset_def)

lemma quarantine_invalid_deals_effect:
  assumes "distinct (map dr_rowid (db_deals db))"
    and "quarantine_invalid_deals tx t db = (Inr qs, db')"
  shows "db_deals db' = filter (\<lambda>r. is_ok (decode_deal_row tx db r)) (db_deals db)"
    "set (map qd_source_rowid qs) =
       dr_rowid ` {r \<in> set (db_deals db). \<not> is_ok (decode_deal_row tx db r)}"
    "db_quote_usages db' = db_quote_usages db"
    "db_artifact_documents db' = db_artifact_documents db"
    "db_execution_evidence db' = db_execution_evidence db"
proof -
  from assms(2) obtain cs where c: "quarantine_candidates tx db (sort_key dr_rowid (db_deals db)) = Inr cs"
    and d: "db' = fold (quarantine_move t) cs db" and q: "qs = map fst cs"
    using quarantine_cases [of tx t db] by auto
  have ids: "set (map (qd_source_rowid \<circ> fst) cs) =
      dr_rowid ` {r \<in> set (db_deals db). \<not> is_ok (decode_deal_row tx db r)}"
    using quarantine_candidates_rowids [OF c] by auto
  with q show "set (map qd_source_rowid qs) =
      dr_rowid ` {r \<in> set (db_deals db). \<not> is_ok (decode_deal_row tx db r)}" by simp
  have inj: "inj_on dr_rowid (set (db_deals db))" using assms(1) by (simp add: distinct_map)
  show "db_deals db' = filter (\<lambda>r. is_ok (decode_deal_row tx db r)) (db_deals db)"
    unfolding d fold_quarantine(1) ids
    by (rule filter_cong [OF refl]) (use inj in \<open>auto dest: inj_onD\<close>)
  show "db_quote_usages db' = db_quote_usages db" "db_artifact_documents db' = db_artifact_documents db"
    "db_execution_evidence db' = db_execution_evidence db"
    by (simp_all add: d fold_quarantine)
qed

lemma store_inv_filter:
  assumes "store_inv db" and "db_deals db' = filter P (db_deals db)"
    and "db_quote_usages db' = db_quote_usages db"
  shows "store_inv db'"
proof -
  have u: "unique_opt (map f xs) \<Longrightarrow> unique_opt (map f (filter P xs))" for f and xs :: "deal_row list"
    by (induction xs) (force simp: unique_opt_def)+
  show ?thesis
    using assms u
    by (auto simp: store_inv_def keys_ok_def backed_def list_all_iff deal_key_def comp_def
        distinct_map_filter)
qed

lemma quarantine_inv:
  assumes "store_inv db"
  shows "store_inv (snd (quarantine_invalid_deals tx t db))"
proof (cases "quarantine_invalid_deals tx t db")
  case (Pair r db')
  show ?thesis
  proof (cases r)
    case (Inl e)
    with Pair have "db' = db"
      using quarantine_cases [of tx t db] by auto
    with Pair assms show ?thesis by simp
  next
    case (Inr qs)
    have "distinct (map dr_rowid (db_deals db))"
      using assms by (simp add: store_inv_def keys_ok_def deal_key_def comp_def)
    note q = quarantine_invalid_deals_effect [OF this Pair [unfolded Inr]]
    from store_inv_filter [OF assms q(1,3)] Pair show ?thesis by simp
  qed
qed

section \<open>The invariant holds in every reachable database\<close>

lemma transaction_inv:
  assumes "store_inv db" and "store_inv (snd (op db))"
  shows "store_inv (snd (with_immediate_transaction op db))"
  using assms by (auto simp: with_immediate_transaction_def split: prod.split sum.split)

lemma insert_quote_frame:
  "db_deals (snd (insert_quote tx q db)) = db_deals db"
  "db_quote_usages (snd (insert_quote tx q db)) = db_quote_usages db"
  by (auto simp: insert_quote_def Let_def split: sum.split)

lemma insert_quote_inv: "store_inv db \<Longrightarrow> store_inv (snd (insert_quote tx q db))"
  by (simp add: store_inv_def insert_quote_frame)

lemma deal_step_inv: "deal_step cs tx db db' \<Longrightarrow> store_inv db \<Longrightarrow> store_inv db'"
proof (induction rule: deal_step.induct)
  case (step_documents db docs evid)
  then show ?case by (simp add: store_inv_def)
next
  case (step_settlement db ms obs ps)
  then show ?case by (simp add: store_inv_def)
qed (auto intro!: transaction_inv intro: insert_quote_inv insert_or_get_deal_inv
    reserve_before_side_effects_inv(1) release_usage_inv(1) set_deal_storage_refs_inv
    mark_running.keeps_inv reset_running.keeps_inv accept_pending.keeps_inv materialize.keeps_inv
    result_ready.keeps_inv settlement_pending.keeps_inv success_if.keeps_inv failure_if.keeps_inv
    recovery_failure.keeps_inv reject_if.keeps_inv reject_admission.keeps_inv
    cancel_unadmitted.keeps_inv quarantine_inv)

lemma reachable_inv: "reachable_db cs tx db \<Longrightarrow> store_inv db"
  unfolding reachable_db_def
proof (induction rule: rtranclp_induct)
  case base
  show ?case
    by (simp add: store_inv_def empty_db_def keys_ok_def usages_ok_def backed_def unique_opt_def)
qed (rule deal_step_inv)

lemma store_inv_backed:
  assumes "store_inv db" and "r \<in> set (db_deals db)"
  shows "\<exists>u\<in>set (db_quote_usages db). qu_quote_hash u = dr_quote_hash r \<and>
    dr_deal_artifact_hash r = Some (qu_deal_artifact_hash u)"
  using assms by (auto simp: store_inv_def backed_def list_all_iff list_ex_iff deal_key_def)

lemma store_inv_quote_unique:
  assumes "store_inv db" and "r \<in> set (db_deals db)" and "s \<in> set (db_deals db)"
    and "dr_quote_hash r = dr_quote_hash s"
  shows "r = s"
proof -
  from assms(1-3) obtain u v where u: "u \<in> set (db_quote_usages db)" "qu_quote_hash u = dr_quote_hash r"
      "dr_deal_artifact_hash r = Some (qu_deal_artifact_hash u)"
    and v: "v \<in> set (db_quote_usages db)" "qu_quote_hash v = dr_quote_hash s"
      "dr_deal_artifact_hash s = Some (qu_deal_artifact_hash v)"
    using store_inv_backed by metis
  have "inj_on qu_quote_hash (set (db_quote_usages db))"
    using assms(1) by (simp add: store_inv_def usages_ok_def distinct_map)
  then have "u = v" by (rule inj_onD) (use assms(4) u v in simp_all)
  then have "dr_deal_artifact_hash r = dr_deal_artifact_hash s" "dr_deal_artifact_hash r \<noteq> None"
    using u v by auto
  moreover have "unique_opt (map dr_deal_artifact_hash (db_deals db))"
    using assms(1) by (simp add: store_inv_def keys_ok_def deal_key_def comp_def)
  ultimately show ?thesis using unique_opt_inj assms(2,3) by metis
qed

section \<open>A concrete deal\<close>

lemma inv_ref_json:
  assumes "\<And>x y. e x = e y \<longleftrightarrow> x = y"
  shows "inv (\<lambda>x. ref_json (e x)) (ref_json (e a)) = a"
  using inv_f_f [of "\<lambda>x. ref_json (e x)" a] assms by (simp add: inj_def ref_json_inject)

lemma reference_text_laws: "text_laws reference_text"
  by (auto simp: text_laws_def reference_text_def inv_ref_json [where e = "\<lambda>x. x"]
      inv_ref_json [OF quote_codec.artifact_value_inject]
      inv_ref_json [OF deal_codec.artifact_value_inject]
      inv_ref_json [OF receipt_codec.artifact_value_inject])

lemma reference_text_parses:
  "quote_from_str reference_text (ref_json (artifact_value quote_value q)) = Inr q"
  "deal_from_str reference_text (ref_json (artifact_value deal_value d)) = Inr d"
  "spec_from_str reference_text s = (if s = ''{}'' then Inr () else Inl ''expected value'')"
  using reference_text_laws by (auto simp: text_laws_def reference_text_def)

lemma sample_decodes:
  "is_ok (decode_deal_row reference_text sample_db sample_deal_row)"
  by (simp add: decode_deal_row_def decode_deal_row_with_offset_def parse_column_def
      parse_optional_column_def decode_payment_amount_def unwrap_or_def or_else_def
      lookup_document_def sample_db_def empty_db_def sample_deal_row_def new_deal_row_def
      sample_new_deal_def reference_text_parses u64_of_i64_def)

lemma sample_insert:
  "insert_or_get_deal reference_text sample_new_deal empty_db =
     (and_then (decode_deal_row reference_text sample_db sample_deal_row)
        (\<lambda>d. Inr \<lparr>out_deal = d, out_created = True\<rparr>), sample_db)"
proof -
  have "insert_or_get_deal reference_text sample_new_deal empty_db =
      insert_fresh_deal reference_text sample_new_deal
        (ref_json (artifact_value quote_value sample_quote)) ''{}''
        (ref_json (artifact_value deal_value sample_deal)) (Some 3)
        (sample_db\<lparr>db_deals := []\<rparr>)"
    by (simp add: insert_or_get_deal_def existing_deal_def get_deal_by_artifact_hash_def
        find_deal_by_idempotency_key_def query_deal_def query_row_def empty_db_def
        reserve_quote_usage_def insert_or_ignore_usage_def sample_new_deal_def reference_text_def
        u64_to_sqlite_integer_def i64_of_u64_def sample_db_def)
  also have "\<dots> = (and_then (decode_deal_row reference_text sample_db sample_deal_row)
        (\<lambda>d. Inr \<lparr>out_deal = d, out_created = True\<rparr>), sample_db)"
    by (cases "decode_deal_row reference_text sample_db sample_deal_row")
      (simp_all add: insert_fresh_deal_def insert_deal_row_def next_rowid_def get_deal_def
        query_deal_def query_row_def sample_db_def empty_db_def sample_deal_row_def
        new_deal_row_def sample_new_deal_def)
  finally show ?thesis .
qed

lemma sample_reachable: "reachable_db reference_env reference_text sample_db"
proof -
  have "deal_step reference_env reference_text empty_db
      (snd (with_immediate_transaction (insert_or_get_deal reference_text sample_new_deal) empty_db))"
    by (rule step_insert) (simp add: sample_new_deal_def)
  moreover have "snd (with_immediate_transaction
      (insert_or_get_deal reference_text sample_new_deal) empty_db) = sample_db"
    using sample_decodes
    by (cases "decode_deal_row reference_text sample_db sample_deal_row")
      (auto simp: with_immediate_transaction_def sample_insert)
  ultimately show ?thesis unfolding reachable_db_def by auto
qed

section \<open>Properties\<close>

text \<open>
  C9. A quote funds at most one deal. In every database the store's operations can reach, two deal
  rows that use the same quote are the same row.
\<close>

theorem quote_funds_one_deal:
  assumes "reachable_db cs tx db" and "r \<in> set (db_deals db)" and "s \<in> set (db_deals db)"
    and "dr_quote_hash r = dr_quote_hash s"
  shows "r = s"
  using store_inv_quote_unique [OF reachable_inv [OF assms(1)] assms(2-4)] .

theorem quote_funds_one_deal_witness:
  "{r \<in> set (db_deals sample_db). dr_quote_hash r = dr_quote_hash sample_deal_row} = {sample_deal_row}"
proof -
  have "sample_deal_row \<in> set (db_deals sample_db)" by (simp add: sample_db_def)
  with quote_funds_one_deal [OF sample_reachable, of _ sample_deal_row] show ?thesis by blast
qed

text \<open>
  C11. Receipts only for finished deals. In every reachable database a deal that is accepted,
  waiting for payment, running, result\_ready or settlement\_pending has no receipt; a succeeded or
  rejected deal has one; a succeeded deal has its result and no error; and no other status occurs.
\<close>

theorem receipts_only_for_finished_deals:
  assumes "reachable_db cs tx db" and "r \<in> set (db_deals db)"
  shows "(dr_status r \<in> active_status \<and> dr_receipt_artifact_json r = None \<and>
      dr_receipt_artifact_hash r = None) \<or>
    (dr_status r = DEAL_STATUS_SUCCEEDED \<and> dr_receipt_artifact_json r \<noteq> None \<and>
      dr_result_json r \<noteq> None \<and> dr_result_hash r \<noteq> None \<and> dr_error r = None) \<or>
    (dr_status r = DEAL_STATUS_REJECTED \<and> dr_receipt_artifact_json r \<noteq> None) \<or>
    dr_status r = DEAL_STATUS_FAILED"
proof -
  have "row_ok r" using reachable_inv [OF assms(1)] assms(2) by (auto simp: store_inv_def list_all_iff)
  then show ?thesis by (auto simp: row_ok_def terminal_status_def)
qed

theorem receipts_only_for_finished_deals_witness:
  "dr_status sample_deal_row = DEAL_STATUS_PAYMENT_PENDING \<and>
   dr_receipt_artifact_json sample_deal_row = None"
  using receipts_only_for_finished_deals [OF sample_reachable, of sample_deal_row]
  by (simp add: sample_db_def) (simp add: sample_deal_row_def new_deal_row_def sample_new_deal_def)

lemma store_inv_ids: "store_inv db \<Longrightarrow> distinct (map dr_deal_id (db_deals db))"
  by (simp add: store_inv_def keys_ok_def deal_key_def comp_def)

text \<open>
  C12. Of several workers only one wins. In a reachable database, once a deal was claimed for
  running, claiming it again fails; and of a success and a failure completion of one deal that
  expect the same unfinished status, the second to run changes nothing.
\<close>

theorem one_completion_wins:
  assumes "reachable_db cs tx db" and "dsc_expected_status u \<in> active_status"
    and "dtt_deal_id f = dsp_deal_id u" and "dtt_expected_status f = dsc_expected_status u"
  shows "(fst (try_mark_deal_running d t db) \<longrightarrow>
       try_mark_deal_running d t' (snd (try_mark_deal_running d t db))
         = (False, snd (try_mark_deal_running d t db))) \<and>
    (fst (complete_deal_success_if_status cs tx u db) = Inr True \<longrightarrow>
       snd (complete_deal_failure_if_status tx f (snd (complete_deal_success_if_status cs tx u db)))
         = snd (complete_deal_success_if_status cs tx u db)) \<and>
    (fst (complete_deal_failure_if_status tx f db) = Inr True \<longrightarrow>
       snd (complete_deal_success_if_status cs tx u (snd (complete_deal_failure_if_status tx f db)))
         = snd (complete_deal_failure_if_status tx f db))"
proof -
  have ids: "distinct (map dr_deal_id (db_deals db))"
    using store_inv_ids [OF reachable_inv [OF assms(1)]] .
  have st: "DEAL_STATUS_SUCCEEDED \<noteq> dsc_expected_status u" "DEAL_STATUS_FAILED \<noteq> dsc_expected_status u"
    using assms(2) by (auto simp: active_status_def)
  have 1: "\<not> fst (try_mark_deal_running d t' (snd (try_mark_deal_running d t db)))"
    if "fst (try_mark_deal_running d t db)"
    using mark_running.moved [OF ids that] mark_running.needs_candidate by fastforce
  have 2: "\<not> won_result (fst (complete_deal_failure_if_status tx f
      (snd (complete_deal_success_if_status cs tx u db))))"
    if "won_result (fst (complete_deal_success_if_status cs tx u db))"
    using success_if.moved [OF ids that] failure_if.needs_candidate [of tx f] st assms(3,4) by fastforce
  have 3: "\<not> won_result (fst (complete_deal_success_if_status cs tx u
      (snd (complete_deal_failure_if_status tx f db))))"
    if "won_result (fst (complete_deal_failure_if_status tx f db))"
    using failure_if.moved [OF ids that] success_if.needs_candidate [of cs tx u] st assms(3,4) by fastforce
  show ?thesis
    using 1 2 3 mark_running.effect [of d t' "snd (try_mark_deal_running d t db)"]
      failure_if.effect [of tx f] success_if.effect [of cs tx u]
    by (auto simp: won_result_def prod_eq_iff)
qed

lemma frozen_refl [simp]: "frozen_as r r"
  unfolding frozen_as_def by (rule exI [of _ "dr_workload_evidence_hash r"]) simp

lemma frozen_trans: "frozen_as a b \<Longrightarrow> frozen_as b c \<Longrightarrow> frozen_as a c"
  by (auto simp: frozen_as_def)

lemma transaction_rows:
  assumes "r \<in> set (db_deals db)" and "r \<in> set (db_deals (snd (op db)))"
  shows "r \<in> set (db_deals (snd (with_immediate_transaction op db)))"
  using assms by (auto simp: with_immediate_transaction_def split: prod.split sum.split)

lemma insert_or_get_deal_rows:
  "r \<in> set (db_deals db) \<Longrightarrow> r \<in> set (db_deals (snd (insert_or_get_deal tx nd db)))"
  by (auto simp: insert_or_get_deal_def Let_def insert_fresh_deal_db insert_deal_row_def
      reserve_quote_usage_def insert_or_ignore_usage_def split: sum.split option.split prod.split)

lemma reserve_release_rows:
  "db_deals (snd (reserve_quote_usage_before_side_effects tx q d h t db)) = db_deals db"
  "db_deals (snd (release_quote_usage_for_unpersisted_deal tx q h db)) = db_deals db"
  by (auto simp: reserve_quote_usage_before_side_effects_def insert_or_ignore_usage_def Let_def
      release_quote_usage_for_unpersisted_deal_def delete_where_def
      split: sum.split option.split)

lemma quarantine_rows:
  assumes "distinct (map dr_rowid (db_deals db))" and "r \<in> set (db_deals db)"
  shows "r \<in> set (db_deals (snd (quarantine_invalid_deals tx t db))) \<or>
    dr_rowid r \<in> qn_source_rowid ` set (db_deal_quarantine (snd (quarantine_invalid_deals tx t db)))"
  using quarantine_cases [of tx t db]
proof
  assume "\<exists>cs. quarantine_candidates tx db (sort_key dr_rowid (db_deals db)) = Inr cs \<and>
      quarantine_invalid_deals tx t db = (Inr (map fst cs), fold (quarantine_move t) cs db)"
  then obtain cs where db': "snd (quarantine_invalid_deals tx t db) = fold (quarantine_move t) cs db"
    by auto
  have "set (map qn_source_rowid (db_deal_quarantine (fold (quarantine_move t) cs db))) =
      qn_source_rowid ` set (db_deal_quarantine db) \<union> set (map (qd_source_rowid \<circ> fst) cs)"
    unfolding fold_quarantine(5) by simp
  then show ?thesis
    unfolding db' fold_quarantine(1) using assms(2) by auto
qed (use assms(2) in auto)

lemma kept_row:
  "r \<in> set rows \<Longrightarrow> (\<exists>r'\<in>set rows. frozen_as r r') \<or> Q"
  using frozen_refl by blast

lemma refs_row:
  assumes "r \<in> set (db_deals db)"
    and "\<forall>r\<in>set (db_deals db). dr_deal_id r = d \<longrightarrow> dr_deal_artifact_hash r = Some h"
  shows "\<exists>r'\<in>set (db_deals (snd (set_deal_storage_refs d e h db))). frozen_as r r'"
proof -
  let ?f = "\<lambda>r. if dr_deal_id r = d
    then r\<lparr>dr_workload_evidence_hash := Some e, dr_deal_artifact_hash := Some h\<rparr> else r"
  have fr: "frozen_as r (?f r)"
  proof (cases "dr_deal_id r = d")
    case True
    then have "dr_deal_artifact_hash r = Some h" using assms by blast
    with True show ?thesis unfolding frozen_as_def by (intro exI [of _ "Some e"]) simp
  qed simp
  show ?thesis
  proof (cases "fst (set_deal_storage_refs d e h db) = Inr ()")
    case True
    then have "db_deals (snd (set_deal_storage_refs d e h db)) = map ?f (db_deals db)"
      by (auto simp: set_deal_storage_refs_def update_where_def split: if_splits)
    moreover have "?f r \<in> ?f ` set (db_deals db)" using assms(1) by (rule imageI)
    ultimately have "?f r \<in> set (db_deals (snd (set_deal_storage_refs d e h db)))"
      by (simp only: set_map)
    with fr show ?thesis by (rule bexI)
  next
    case False
    then have "snd (set_deal_storage_refs d e h db) = db"
      by (auto simp: set_deal_storage_refs_def split: if_splits)
    with assms(1) show ?thesis by (intro bexI [of _ r]) simp_all
  qed
qed

lemma deal_step_finished:
  assumes "deal_step cs tx db db'" and "store_inv db" and "r \<in> set (db_deals db)"
    and "dr_status r \<in> terminal_status"
  shows "(\<exists>r'\<in>set (db_deals db'). frozen_as r r') \<or>
    dr_rowid r \<in> qn_source_rowid ` set (db_deal_quarantine db')"
  using assms
proof (induction rule: deal_step.induct)
  case (step_refs db d h e)
  then show ?case using refs_row by blast
next
  case (step_quarantine db now)
  then have "distinct (map dr_rowid (db_deals db))"
    by (simp add: store_inv_def keys_ok_def deal_key_def comp_def)
  from quarantine_rows [OF this step_quarantine.prems(2)] show ?case by (meson frozen_refl)
qed (auto simp: terminal_status_def active_status_def insert_quote_frame reserve_release_rows
    intro!: kept_row transaction_rows insert_or_get_deal_rows
    mark_running.keeps_other_rows reset_running.keeps_other_rows accept_pending.keeps_other_rows
    materialize.keeps_other_rows result_ready.keeps_other_rows settlement_pending.keeps_other_rows
    success_if.keeps_other_rows failure_if.keeps_other_rows recovery_failure.keeps_other_rows
    reject_if.keeps_other_rows reject_admission.keeps_other_rows
    cancel_unadmitted.keeps_other_rows)

lemma fold_quarantine_grows:
  "set (db_deal_quarantine db) \<subseteq> set (db_deal_quarantine (fold (quarantine_move t) cs db))"
  by (induction cs arbitrary: db) (auto simp: quarantine_move_def, fastforce)

lemma transaction_quarantine:
  assumes "db_deal_quarantine (snd (op db)) = db_deal_quarantine db"
  shows "db_deal_quarantine (snd (with_immediate_transaction op db)) = db_deal_quarantine db"
  using assms by (auto simp: with_immediate_transaction_def split: prod.split sum.split)

lemma store_ops_quarantine:
  "db_deal_quarantine (snd (insert_quote tx q db)) = db_deal_quarantine db"
  "db_deal_quarantine (snd (insert_or_get_deal tx nd db)) = db_deal_quarantine db"
  "db_deal_quarantine (snd (reserve_quote_usage_before_side_effects tx qh d h t db)) = db_deal_quarantine db"
  "db_deal_quarantine (snd (release_quote_usage_for_unpersisted_deal tx qh h db)) = db_deal_quarantine db"
  "db_deal_quarantine (snd (set_deal_storage_refs d e h db)) = db_deal_quarantine db"
  subgoal by (simp add: insert_quote_def Let_def split: sum.split)
  subgoal by (auto simp: insert_or_get_deal_def Let_def insert_fresh_deal_db insert_deal_row_def
      reserve_quote_usage_def insert_or_ignore_usage_def split: sum.split option.split prod.split)
  subgoal by (auto simp: reserve_quote_usage_before_side_effects_def insert_or_ignore_usage_def
      Let_def split: sum.split option.split)
  subgoal by (simp add: release_quote_usage_for_unpersisted_deal_def delete_where_def
      split: sum.split option.split)
  subgoal by (simp add: set_deal_storage_refs_def)
  done

lemma deal_step_quarantine_grows:
  "deal_step cs tx db db' \<Longrightarrow> set (db_deal_quarantine db) \<subseteq> set (db_deal_quarantine db')"
proof (induction rule: deal_step.induct)
  case (step_quarantine db now)
  show ?case
    using quarantine_cases [of tx now db] fold_quarantine_grows [of db now] by fastforce
qed (auto simp: transaction_quarantine store_ops_quarantine mark_running.keeps_tables
    reset_running.keeps_tables accept_pending.keeps_tables materialize.keeps_tables
    result_ready.keeps_tables settlement_pending.keeps_tables success_if.keeps_tables
    failure_if.keeps_tables recovery_failure.keeps_tables reject_if.keeps_tables
    reject_admission.keeps_tables cancel_unadmitted.keeps_tables)


lemma canceled_reachable:
  "reachable_db reference_env reference_text
     (snd (cancel_unadmitted_deal ''deal-1'' ''payment canceled'' ''00'' 70 sample_db))"
  using sample_reachable step_cancel unfolding reachable_db_def by (rule rtranclp.rtrancl_into_rtrancl)


theorem one_completion_wins_witness:
  "fst (try_mark_deal_running ''deal-1'' 80
       (snd (try_mark_deal_accepted_from_payment_pending ''deal-1'' 75 sample_db))) \<and>
   try_mark_deal_running ''deal-1'' 81 (snd (try_mark_deal_running ''deal-1'' 80
       (snd (try_mark_deal_accepted_from_payment_pending ''deal-1'' 75 sample_db))))
   = (False, snd (try_mark_deal_running ''deal-1'' 80
       (snd (try_mark_deal_accepted_from_payment_pending ''deal-1'' 75 sample_db))))"
proof -
  let ?db = "snd (try_mark_deal_accepted_from_payment_pending ''deal-1'' 75 sample_db)"
  have r: "reachable_db reference_env reference_text ?db"
    using sample_reachable step_accept unfolding reachable_db_def by (rule rtranclp.rtrancl_into_rtrancl)
  have w: "fst (try_mark_deal_running ''deal-1'' 80 ?db)"
    by (simp add: try_mark_deal_running_def try_mark_deal_accepted_from_payment_pending_def
        update_deals_def update_where_def sample_db_def sample_deal_row_def new_deal_row_def
        sample_new_deal_def)
  let ?u = "\<lparr>dsp_deal_id = ''deal-1'', dsp_result = JNull, dsp_explicit_result_hash = None,
    dsp_receipt = sample_receipt, dsp_result_evidence_hash = None, dsp_receipt_artifact_hash = None,
    dsp_now = 90, dsc_expected_status = DEAL_STATUS_RUNNING\<rparr>"
  let ?f = "\<lparr>dtt_deal_id = ''deal-1'', dtt_expected_status = DEAL_STATUS_RUNNING, dtt_error = ''e'',
    dtt_receipt = sample_receipt, dtt_failure_evidence_hash = None,
    dtt_receipt_artifact_hash = None, dtt_now = 90\<rparr>"
  from one_completion_wins [OF r, of ?u ?f "''deal-1''" 80 81] w show ?thesis
    by (simp add: active_status_def)
qed

section \<open>Insertion\<close>

lemma existing_deal_None:
  "existing_deal tx nd db = Inr None \<Longrightarrow>
     \<forall>r\<in>set (db_deals db). dr_deal_artifact_hash r \<noteq> Some (nd_deal_artifact_hash nd)"
  by (auto simp: existing_deal_def and_then_Inr get_deal_by_artifact_hash_def query_deal_None
      split: option.splits)

lemma query_row_last:
  "\<forall>r\<in>set t. \<not> P r \<Longrightarrow> P r \<Longrightarrow> query_row P (t @ [r]) = Some r"
  by (simp add: query_row_append query_row_None [THEN iffD2])

lemma insert_or_get_created:
  assumes "insert_or_get_deal tx nd db = (Inr out, db')" and "out_created out"
  obtains row db1 qj sj aj where "db' = db1\<lparr>db_deals := db_deals db @ [row]\<rparr>"
    and "dr_deal_artifact_hash row = Some (nd_deal_artifact_hash nd)"
    and "decode_deal_row tx db' row = Inr (out_deal out)"
    and "\<forall>r\<in>set (db_deals db). dr_deal_artifact_hash r \<noteq> Some (nd_deal_artifact_hash nd)"
    and "reserve_quote_usage (art_hash (nd_quote nd)) (nd_deal_id nd) (nd_deal_artifact_hash nd)
       (nd_created_at nd) db = (Inr (), db1)"
    and "quote_to_string tx (nd_quote nd) = Inr qj" "spec_to_string tx (nd_spec nd) = Inr sj"
      "deal_to_string tx (nd_artifact nd) = Inr aj"
proof -
  from assms obtain qj sj aj am db1 where
    t: "quote_to_string tx (nd_quote nd) = Inr qj" "spec_to_string tx (nd_spec nd) = Inr sj"
      "deal_to_string tx (nd_artifact nd) = Inr aj"
    and ex: "existing_deal tx nd db = Inr None"
    and rs: "reserve_quote_usage (art_hash (nd_quote nd)) (nd_deal_id nd) (nd_deal_artifact_hash nd)
       (nd_created_at nd) db = (Inr (), db1)"
    and ins: "insert_fresh_deal tx nd qj sj aj am db1 = (Inr out, db')"
    by (auto simp: insert_or_get_deal_def Let_def existing_deal_def and_then_Inr
        split: sum.splits option.splits prod.splits if_splits)
  have d1: "db_deals db1 = db_deals db"
    using rs by (auto simp: reserve_quote_usage_def insert_or_ignore_usage_def Let_def split: if_splits)
  define row where "row = new_deal_row nd qj sj aj am (next_rowid (db_deals db1))"
  have ok: "fst (insert_deal_row row db1) = Inr ()"
  proof (rule ccontr)
    assume "fst (insert_deal_row row db1) \<noteq> Inr ()"
    then obtain e where "insert_deal_row row db1 = (Inl e, db1)"
      by (auto simp: insert_deal_row_def split: if_splits)
    with ins assms(2) show False
      by (auto simp: insert_fresh_deal_def row_def [symmetric] existing_deal_def and_then_Inr
          split: option.splits if_splits)
  qed
  then have db': "db' = db1\<lparr>db_deals := db_deals db1 @ [row]\<rparr>"
    and fresh: "\<forall>r\<in>set (db_deals db1). dr_deal_id r \<noteq> dr_deal_id row"
    using ins by (auto simp: insert_fresh_deal_def insert_deal_row_def row_def [symmetric]
        list_ex_iff split: if_splits)
  have "query_row (\<lambda>r. dr_deal_id r = nd_deal_id nd) (db_deals db') = Some row"
    unfolding db' using fresh by (auto intro!: query_row_last simp: row_def new_deal_row_def)
  then have "decode_deal_row tx db' row = Inr (out_deal out)"
    using ins ok db'
    by (auto simp: insert_fresh_deal_def row_def [symmetric] get_deal_def query_deal_def
        insert_deal_row_def and_then_Inr split: if_splits)
  from that [OF db' [unfolded d1] _ this existing_deal_None [OF ex] rs t] show thesis
    by (simp add: row_def new_deal_row_def)
qed

lemma reserve_quote_usage_taken:
  assumes "reserve_quote_usage q d h t db = (Inr (), db1)"
    and "db_quote_usages db' = db_quote_usages db1" and "h' \<noteq> h"
  shows "reserve_quote_usage q d' h' t' db' = (Inl QUOTE_ALREADY_USED_ERROR, db')"
proof -
  have u: "map_option qu_deal_artifact_hash (query_row (\<lambda>u. qu_quote_hash u = q) (db_quote_usages db1))
      = Some h"
    using assms(1)
    by (auto simp: reserve_quote_usage_def insert_or_ignore_usage_def Let_def list_ex_iff
        query_row_append query_row_None [THEN iffD2] split: if_splits)
  then obtain v where "v \<in> set (db_quote_usages db')" "qu_quote_hash v = q"
    using assms(2) query_row_Some by fastforce
  with u assms(2,3) show ?thesis
    by (auto simp: reserve_quote_usage_def insert_or_ignore_usage_def Let_def list_ex_iff)
qed

lemma existing_not_created: "existing_deal tx nd db = Inr (Some out) \<Longrightarrow> \<not> out_created out"
  by (auto simp: existing_deal_def and_then_Inr split: option.splits if_splits)

text \<open>
  Inserting a deal is idempotent. After \<open>insert_or_get_deal\<close> created a deal, the same call
  returns the same deal, marked as not created, and leaves the database as it is; and a deal with
  another artifact hash that names the same quote creates no row.
\<close>

theorem insert_is_idempotent:
  assumes "insert_or_get_deal tx nd db = (Inr out, db')" and "out_created out"
  shows "insert_or_get_deal tx nd db' = (Inr (out\<lparr>out_created := False\<rparr>), db') \<and>
    (art_hash (nd_quote nd') = art_hash (nd_quote nd) \<and>
       nd_deal_artifact_hash nd' \<noteq> nd_deal_artifact_hash nd \<longrightarrow>
     (\<forall>out'. fst (insert_or_get_deal tx nd' db') = Inr out' \<longrightarrow> \<not> out_created out') \<and>
     snd (insert_or_get_deal tx nd' db') = db')"
proof -
  obtain row db1 qj sj aj where db': "db' = db1\<lparr>db_deals := db_deals db @ [row]\<rparr>"
    and h: "dr_deal_artifact_hash row = Some (nd_deal_artifact_hash nd)"
    and dec: "decode_deal_row tx db' row = Inr (out_deal out)"
    and new: "\<forall>r\<in>set (db_deals db). dr_deal_artifact_hash r \<noteq> Some (nd_deal_artifact_hash nd)"
    and rs: "reserve_quote_usage (art_hash (nd_quote nd)) (nd_deal_id nd) (nd_deal_artifact_hash nd)
       (nd_created_at nd) db = (Inr (), db1)"
    and t: "quote_to_string tx (nd_quote nd) = Inr qj" "spec_to_string tx (nd_spec nd) = Inr sj"
      "deal_to_string tx (nd_artifact nd) = Inr aj"
    using insert_or_get_created [OF assms] by blast
  have "query_row (\<lambda>r. dr_deal_artifact_hash r = Some (nd_deal_artifact_hash nd)) (db_deals db') = Some row"
    unfolding db' using new h by (auto intro!: query_row_last)
  with dec t have 1: "insert_or_get_deal tx nd db' = (Inr (out\<lparr>out_created := False\<rparr>), db')"
    by (simp add: insert_or_get_deal_def existing_deal_def get_deal_by_artifact_hash_def query_deal_def)
  have u: "db_quote_usages db' = db_quote_usages db1" by (simp add: db')
  from reserve_quote_usage_taken [OF rs u] 1 show ?thesis
    by (auto simp: insert_or_get_deal_def Let_def dest: existing_not_created
        split: sum.split option.split)
qed

theorem insert_is_idempotent_witness:
  "insert_or_get_deal reference_text sample_new_deal sample_db =
     (map_ok (\<lambda>d. \<lparr>out_deal = d, out_created = False\<rparr>)
       (decode_deal_row reference_text sample_db sample_deal_row), sample_db) \<and>
   snd (insert_or_get_deal reference_text
     (sample_new_deal\<lparr>nd_deal_artifact_hash := art_hash sample_deal @ ''0''\<rparr>) sample_db) = sample_db"
proof -
  obtain d where d: "decode_deal_row reference_text sample_db sample_deal_row = Inr d"
    using sample_decodes by (cases "decode_deal_row reference_text sample_db sample_deal_row") auto
  have "insert_or_get_deal reference_text sample_new_deal empty_db =
      (Inr \<lparr>out_deal = d, out_created = True\<rparr>, sample_db)"
    by (simp add: sample_insert d)
  from insert_is_idempotent [OF this, of "sample_new_deal\<lparr>nd_deal_artifact_hash := art_hash sample_deal @ ''0''\<rparr>"]
  show ?thesis by (simp add: d) (simp add: sample_new_deal_def)
qed

section \<open>Reservations and quarantine\<close>

text \<open>
  A reservation can be taken back. In a reachable database, after a successful
  \<open>reserve_quote_usage_before_side_effects\<close>, releasing it restores the database; reserving again
  for the same deal reports an admission in progress and reserving for another deal reports a used
  quote, both without a change.
\<close>

theorem reservation_round_trip:
  assumes "reachable_db cs tx db"
    and "reserve_quote_usage_before_side_effects tx q d h t db = (Inr True, db1)"
  shows "release_quote_usage_for_unpersisted_deal tx q h db1 = (Inr True, db) \<and>
    reserve_quote_usage_before_side_effects tx q d' h t' db1 =
      (Inl QUOTE_ADMISSION_IN_PROGRESS_ERROR, db1) \<and>
    (h' \<noteq> h \<longrightarrow> reserve_quote_usage_before_side_effects tx q d' h' t' db1 =
      (Inl QUOTE_ALREADY_USED_ERROR, db1))"
proof -
  let ?u = "\<lparr>qu_quote_hash = q, qu_deal_id = d, qu_deal_artifact_hash = h, qu_created_at = t\<rparr>"
  have new: "\<forall>v\<in>set (db_quote_usages db). qu_quote_hash v \<noteq> q \<and> qu_deal_artifact_hash v \<noteq> h"
    and db1: "db1 = db\<lparr>db_quote_usages := db_quote_usages db @ [?u]\<rparr>"
    using assms(2)
    by (auto simp: reserve_quote_usage_before_side_effects_def insert_or_ignore_usage_def Let_def
        list_ex_iff split: if_splits sum.splits option.splits)
  have "\<forall>r\<in>set (db_deals db1). dr_deal_artifact_hash r \<noteq> Some h"
    using store_inv_backed [OF reachable_inv [OF assms(1)]] new db1 by fastforce
  then have none: "get_deal_by_artifact_hash tx db1 h = Inr None"
    by (simp add: get_deal_by_artifact_hash_def query_deal_None)
  have keep: "filter (\<lambda>u. qu_quote_hash u = q \<longrightarrow> qu_deal_artifact_hash u \<noteq> h) (db_quote_usages db) =
      db_quote_usages db"
    using new by (auto intro: filter_True)
  have used: "map_option qu_deal_artifact_hash
      (query_row (\<lambda>u. qu_quote_hash u = q) (db_quote_usages db1)) = Some h"
    using new by (simp add: db1 query_row_append query_row_None [THEN iffD2])
  have gone: "release_quote_usage_for_unpersisted_deal tx q h db1 = (Inr True, db)"
    unfolding release_quote_usage_for_unpersisted_deal_def
    using keep by (simp add: none) (simp add: db1 delete_where_def)
  from used none gone show ?thesis
    by (auto simp: reserve_quote_usage_before_side_effects_def insert_or_ignore_usage_def Let_def)
      (auto simp: db1)
qed

lemma empty_reachable: "reachable_db cs tx empty_db"
  by (simp add: reachable_db_def)

theorem reservation_round_trip_witness:
  "release_quote_usage_for_unpersisted_deal reference_text ''q'' ''h''
     (snd (reserve_quote_usage_before_side_effects reference_text ''q'' ''d'' ''h'' 5 empty_db))
   = (Inr True, empty_db)"
proof -
  have "reserve_quote_usage_before_side_effects reference_text ''q'' ''d'' ''h'' 5 empty_db =
    (Inr True, empty_db\<lparr>db_quote_usages := [\<lparr>qu_quote_hash = ''q'', qu_deal_id = ''d'',
       qu_deal_artifact_hash = ''h'', qu_created_at = 5\<rparr>]\<rparr>)"
    by (simp add: reserve_quote_usage_before_side_effects_def insert_or_ignore_usage_def empty_db_def)
  with reservation_round_trip [OF empty_reachable this] show ?thesis by simp
qed

lemma decode_rows_ok:
  "is_ok (decode_rows tx db rows) \<longleftrightarrow> (\<forall>r\<in>set rows. is_ok (decode_deal_row tx db r))"
proof (induction rows)
  case (Cons r rows)
  then show ?case
    by (cases "decode_deal_row tx db r"; cases "decode_rows tx db rows") auto
qed simp

lemma quarantine_candidates_total:
  assumes "\<forall>v. is_ok (value_to_string tx v)"
  shows "is_ok (quarantine_candidates tx db rows)"
proof (induction rows)
  case (Cons r rows)
  have "is_ok (value_to_string tx (deal_row_snapshot db r))" using assms by blast
  with Cons show ?case
    by (cases "value_to_string tx (deal_row_snapshot db r)"; cases "quarantine_candidates tx db rows")
      (auto split: sum.split)
qed simp

lemma referenced_move [simp]: "referenced_deal (quarantine_move t c db) = referenced_deal db"
  by (simp add: quarantine_move_def referenced_deal_def fun_eq_iff)

lemma quarantine_all_ok:
  "\<forall>c\<in>set cs. \<forall>r\<in>set (db_deals db). dr_rowid r = qd_source_rowid (fst c) \<longrightarrow>
     \<not> referenced_deal db (dr_deal_id r) \<Longrightarrow>
   quarantine_all t cs db = (Inr (), fold (quarantine_move t) cs db)"
proof (induction cs arbitrary: db)
  case (Cons c cs)
  have "\<not> list_ex (\<lambda>r. dr_rowid r = qd_source_rowid (fst c) \<and> referenced_deal db (dr_deal_id r)) (db_deals db)"
    using Cons.prems by (auto simp: list_ex_iff)
  moreover have "quarantine_all t cs (quarantine_move t c db) =
      (Inr (), fold (quarantine_move t) cs (quarantine_move t c db))"
    using Cons.prems by (intro Cons.IH) (auto simp: quarantine_move_def delete_where_def referenced_deal_def)
  ultimately show ?case by simp
qed simp

lemma quarantine_all_refused:
  "c \<in> set cs \<Longrightarrow> r \<in> set (db_deals db) \<Longrightarrow> dr_rowid r = qd_source_rowid (fst c) \<Longrightarrow>
   referenced_deal db (dr_deal_id r) \<Longrightarrow> fst (quarantine_all t cs db) = Inl ''FOREIGN KEY constraint failed''"
proof (induction cs arbitrary: db)
  case (Cons c0 cs)
  show ?case
  proof (cases "list_ex (\<lambda>r. dr_rowid r = qd_source_rowid (fst c0) \<and> referenced_deal db (dr_deal_id r))
      (db_deals db)")
    case False
    then have "dr_rowid r \<noteq> qd_source_rowid (fst c0)" using Cons.prems by (auto simp: list_ex_iff)
    then have "r \<in> set (db_deals (quarantine_move t c0 db))" "c \<in> set cs"
      using Cons.prems by (auto simp: quarantine_move_def delete_where_def)
    with Cons.IH Cons.prems False show ?thesis by simp
  qed simp
qed simp



text \<open>
  C22. One unreadable deal with a settlement record blocks the quarantine of all. In a reachable
  database, when JSON values can be written and some unreadable deal is named by a settlement
  materialization, a Stripe outbox entry or a prepaid invoice, \<open>quarantine_invalid_deals\<close> fails
  with a foreign-key error, moves nothing, and \<open>list_recent_deals\<close> without a cut-off fails.
\<close>

theorem referenced_deal_blocks_quarantine:
  assumes "reachable_db cs tx db" and "\<forall>v. is_ok (value_to_string tx v)"
    and "r \<in> set (db_deals db)" and "\<not> is_ok (decode_deal_row tx db r)"
    and "referenced_deal db (dr_deal_id r)"
  shows "quarantine_invalid_deals tx t db = (Inl ''FOREIGN KEY constraint failed'', db) \<and>
    (length (db_deals db) \<le> 100 \<longrightarrow> \<not> is_ok (list_recent_deals tx db 100))"
proof -
  obtain cs where c: "quarantine_candidates tx db (sort_key dr_rowid (db_deals db)) = Inr cs"
    using quarantine_candidates_total [OF assms(2), of db "sort_key dr_rowid (db_deals db)"]
    by (cases "quarantine_candidates tx db (sort_key dr_rowid (db_deals db))") auto
  have "dr_rowid r \<in> set (map (qd_source_rowid \<circ> fst) cs)"
    using assms(3,4) quarantine_candidates_rowids [OF c] by auto
  then obtain x where "x \<in> set cs" "dr_rowid r = qd_source_rowid (fst x)" by auto
  from quarantine_all_refused [OF this(1) assms(3) this(2) assms(5), of t]
  have "quarantine_invalid_deals tx t db = (Inl ''FOREIGN KEY constraint failed'', db)"
    by (cases "quarantine_all t cs db") (simp add: quarantine_invalid_deals_def with_immediate_transaction_def c)
  moreover have "\<not> is_ok (list_recent_deals tx db 100)" if "length (db_deals db) \<le> 100"
    using that assms(3,4) by (auto simp: list_recent_deals_def decode_rows_ok clamp_def)
  ultimately show ?thesis by blast
qed

definition corrupt_db :: deal_db where
  "corrupt_db = (snd (set_deal_storage_refs ''deal-1'' ''ev'' (art_hash sample_deal) sample_db))
     \<lparr>db_artifact_documents := [], db_execution_evidence := [(''ev'', ''garbage'')],
      db_materializations := [], db_stripe_outbox := [],
      db_prepaid_invoices := [\<lparr>pr_deal_id = ''deal-1'', pr_bolt11 = ''lnbc1'', pr_payment_hash = ''00'',
        pr_amount_sat = 3, pr_created_at = 61, pr_updated_at = 61\<rparr>]\<rparr>"

lemma corrupt_row:
  "db_deals corrupt_db = [sample_deal_row\<lparr>dr_workload_evidence_hash := Some ''ev''\<rparr>]"
  by (simp add: corrupt_db_def set_deal_storage_refs_def update_where_def sample_db_def empty_db_def
      sample_deal_row_def new_deal_row_def sample_new_deal_def)

lemma corrupt_reachable: "reachable_db reference_env reference_text corrupt_db"
proof -
  have "\<forall>r\<in>set (db_deals sample_db). dr_deal_id r = ''deal-1'' \<longrightarrow>
      dr_deal_artifact_hash r = Some (art_hash sample_deal)"
    by (simp add: sample_db_def empty_db_def sample_deal_row_def new_deal_row_def sample_new_deal_def)
  note refs = step_refs [OF this, of reference_env reference_text "''ev''"]
  have "(deal_step reference_env reference_text)\<^sup>*\<^sup>* empty_db
      (snd (set_deal_storage_refs ''deal-1'' ''ev'' (art_hash sample_deal) sample_db))"
    using sample_reachable refs unfolding reachable_db_def by (rule rtranclp.rtrancl_into_rtrancl)
  from rtranclp.rtrancl_into_rtrancl [OF rtranclp.rtrancl_into_rtrancl [OF this step_documents] step_settlement]
  show ?thesis unfolding reachable_db_def corrupt_db_def .
qed

theorem referenced_deal_blocks_quarantine_witness:
  "quarantine_invalid_deals reference_text 99 corrupt_db =
     (Inl ''FOREIGN KEY constraint failed'', corrupt_db)"
proof -
  have v: "\<forall>v. is_ok (value_to_string reference_text v)" by (simp add: reference_text_def)
  have "\<not> is_ok (decode_deal_row reference_text corrupt_db (sample_deal_row\<lparr>dr_workload_evidence_hash := Some ''ev''\<rparr>))"
    by (simp add: decode_deal_row_def decode_deal_row_with_offset_def parse_column_def
        parse_optional_column_def decode_payment_amount_def unwrap_or_def or_else_def
        lookup_document_def corrupt_db_def sample_deal_row_def new_deal_row_def
        sample_new_deal_def reference_text_parses u64_of_i64_def)
  moreover have "referenced_deal corrupt_db (dr_deal_id (sample_deal_row\<lparr>dr_workload_evidence_hash := Some ''ev''\<rparr>))"
    by (simp add: referenced_deal_def corrupt_db_def sample_deal_row_def new_deal_row_def sample_new_deal_def)
  ultimately show ?thesis
    using referenced_deal_blocks_quarantine [OF corrupt_reachable v] corrupt_row by simp
qed

end
