(* ===== verification/Settlement_Store.thy ===== *)
theory Settlement_Store
  imports Deals
begin

text \<open>
  The settlement tables of \<open>src/src/db.rs\<close>: materializations of a deal's payment with their claims
  (leases), the Stripe outbox, prepaid invoices, and Lightning invoice bundles with the states of
  their legs. The first three refer to the deals table and live in \<open>deal_db\<close>; the bundles are a
  table of their own.
\<close>

section \<open>Materializations\<close>

text \<open>\<open>INSERT .. ON CONFLICT(deal_id) DO NOTHING\<close> under the foreign key to the deals table.\<close>

definition insert_deal_settlement_materialization ::
  "string \<Rightarrow> string \<Rightarrow> string \<Rightarrow> i64 \<Rightarrow> deal_db \<Rightarrow> unit result \<times> deal_db" where
  "insert_deal_settlement_materialization deal_id kind request_json created_at db =
     (if list_ex (\<lambda>m. mr_deal_id m = deal_id) (db_materializations db) then (Inr (), db)
      else if \<not> list_ex (\<lambda>r. dr_deal_id r = deal_id) (db_deals db)
      then (Inl ''FOREIGN KEY constraint failed'', db)
      else (Inr (), db\<lparr>db_materializations := db_materializations db @
        [\<lparr>mr_deal_id = deal_id, mr_materialization_kind = kind, mr_request_json = request_json,
          mr_phase = ''pending'', mr_resource_json = None, mr_attempt_count = 0,
          mr_next_attempt_at = created_at, mr_last_error_code = None, mr_claim_token = None,
          mr_claim_expires_at = None, mr_created_at = created_at, mr_updated_at = created_at\<rparr>]\<rparr>))"

definition get_deal_settlement_materialization :: "deal_db \<Rightarrow> string \<Rightarrow> materialization_row option" where
  "get_deal_settlement_materialization db deal_id =
     query_row (\<lambda>m. mr_deal_id m = deal_id) (db_materializations db)"

definition claimable :: "i64 \<Rightarrow> materialization_row \<Rightarrow> bool" where
  "claimable now m \<longleftrightarrow> mr_next_attempt_at m \<le> now \<and>
     (mr_claim_token m = None \<or>
      (case mr_claim_expires_at m of None \<Rightarrow> True | Some e \<Rightarrow> e \<le> now))"

text \<open>\<open>UPDATE .. RETURNING\<close>: the row as updated, when one matched.\<close>

definition claim_deal_settlement_materialization_in_transaction ::
  "string \<Rightarrow> string \<Rightarrow> i64 \<Rightarrow> i64 \<Rightarrow> deal_db \<Rightarrow> materialization_row option result \<times> deal_db" where
  "claim_deal_settlement_materialization_in_transaction deal_id claim_token claim_expires_at now db =
     (let claim = (\<lambda>m. m\<lparr>mr_claim_token := Some claim_token,
            mr_claim_expires_at := Some claim_expires_at,
            mr_attempt_count := mr_attempt_count m + 1, mr_updated_at := now\<rparr>);
          P = (\<lambda>m. mr_deal_id m = deal_id \<and> claimable now m)
      in (Inr (map_option claim (query_row P (db_materializations db))),
          db\<lparr>db_materializations := fst (update_where P claim (db_materializations db))\<rparr>))"

text \<open>\<open>autocommit\<close>: whether the connection is outside a transaction.\<close>

definition claim_deal_settlement_materialization ::
  "bool \<Rightarrow> string \<Rightarrow> string \<Rightarrow> i64 \<Rightarrow> i64 \<Rightarrow> deal_db \<Rightarrow> materialization_row option result \<times> deal_db" where
  "claim_deal_settlement_materialization autocommit deal_id claim_token claim_expires_at now =
     (if autocommit
      then with_immediate_transaction
        (claim_deal_settlement_materialization_in_transaction deal_id claim_token claim_expires_at now)
      else claim_deal_settlement_materialization_in_transaction deal_id claim_token claim_expires_at now)"

definition list_deal_settlement_materializations :: "deal_db \<Rightarrow> materialization_row list" where
  "list_deal_settlement_materializations db =
     sort_key mr_updated_at (sort_key mr_deal_id (db_materializations db))"

definition list_due_deal_settlement_materializations ::
  "i64 \<Rightarrow> nat \<Rightarrow> deal_db \<Rightarrow> materialization_row list" where
  "list_due_deal_settlement_materializations now limit db =
     take (clamp 1 128 limit)
       (sort_key mr_next_attempt_at (sort_key mr_updated_at (sort_key mr_deal_id
         (filter (claimable now) (db_materializations db)))))"

definition reset_deal_settlement_materialization_claims :: "i64 \<Rightarrow> deal_db \<Rightarrow> nat \<times> deal_db" where
  "reset_deal_settlement_materialization_claims now db =
     (case update_where (\<lambda>m. mr_claim_token m \<noteq> None \<or> mr_claim_expires_at m \<noteq> None)
             (\<lambda>m. m\<lparr>mr_claim_token := None, mr_claim_expires_at := None, mr_updated_at := now\<rparr>)
             (db_materializations db) of
        (ms, n) \<Rightarrow> (n, db\<lparr>db_materializations := ms\<rparr>))"

text \<open>The \<open>UPDATE\<close>s that only the holder of a claim can do.\<close>

definition update_claimed ::
  "string \<Rightarrow> string \<Rightarrow> (materialization_row \<Rightarrow> materialization_row) \<Rightarrow> deal_db \<Rightarrow> bool result \<times> deal_db" where
  "update_claimed deal_id claim_token f db =
     (case update_where (\<lambda>m. mr_deal_id m = deal_id \<and> mr_claim_token m = Some claim_token) f
             (db_materializations db) of
        (ms, updated) \<Rightarrow> (Inr (updated > 0), db\<lparr>db_materializations := ms\<rparr>))"

definition renew_deal_settlement_materialization_claim ::
  "string \<Rightarrow> string \<Rightarrow> i64 \<Rightarrow> i64 \<Rightarrow> deal_db \<Rightarrow> bool result \<times> deal_db" where
  "renew_deal_settlement_materialization_claim deal_id claim_token claim_expires_at now db =
     (if trim claim_token = []
      then (Inl ''settlement materialization claim token must not be empty'', db)
      else update_claimed deal_id claim_token
        (\<lambda>m. m\<lparr>mr_claim_expires_at := Some claim_expires_at, mr_updated_at := now\<rparr>) db)"

definition reschedule_deal_settlement_materialization_if_claim_token ::
  "string \<Rightarrow> string \<Rightarrow> i64 \<Rightarrow> string \<Rightarrow> i64 \<Rightarrow> deal_db \<Rightarrow> bool result \<times> deal_db" where
  "reschedule_deal_settlement_materialization_if_claim_token deal_id claim_token next_attempt_at
     last_error_code now db =
     (if trim claim_token = [] \<or> trim last_error_code = []
      then (Inl ''settlement materialization claim token and error code must not be empty'', db)
      else update_claimed deal_id claim_token
        (\<lambda>m. m\<lparr>mr_claim_token := None, mr_claim_expires_at := None,
               mr_next_attempt_at := next_attempt_at, mr_last_error_code := Some last_error_code,
               mr_updated_at := now\<rparr>) db)"

definition set_deal_settlement_materialization_resource_if_claim_token ::
  "string \<Rightarrow> string \<Rightarrow> string \<Rightarrow> string \<Rightarrow> i64 \<Rightarrow> deal_db \<Rightarrow> bool result \<times> deal_db" where
  "set_deal_settlement_materialization_resource_if_claim_token deal_id claim_token phase
     resource_json now db =
     (if trim claim_token = []
      then (Inl ''settlement materialization claim token must not be empty'', db)
      else if phase \<noteq> ''resource_ready'' \<and> phase \<noteq> ''cleanup_pending''
      then (Inl (''unsupported settlement materialization phase: '' @ phase), db)
      else if trim resource_json = []
      then (Inl ''settlement materialization resource JSON must not be empty'', db)
      else update_claimed deal_id claim_token
        (\<lambda>m. m\<lparr>mr_phase := phase, mr_resource_json := Some resource_json,
               mr_last_error_code := None, mr_updated_at := now\<rparr>) db)"

definition delete_deal_settlement_materialization :: "string \<Rightarrow> deal_db \<Rightarrow> bool \<times> deal_db" where
  "delete_deal_settlement_materialization deal_id db =
     (case delete_where (\<lambda>m. mr_deal_id m = deal_id) (db_materializations db) of
        (ms, deleted) \<Rightarrow> (deleted > 0, db\<lparr>db_materializations := ms\<rparr>))"

definition delete_deal_settlement_materialization_if_claim_token ::
  "string \<Rightarrow> string \<Rightarrow> deal_db \<Rightarrow> bool result \<times> deal_db" where
  "delete_deal_settlement_materialization_if_claim_token deal_id claim_token db =
     (if trim claim_token = []
      then (Inl ''settlement materialization claim token must not be empty'', db)
      else
        (case delete_where (\<lambda>m. mr_deal_id m = deal_id \<and> mr_claim_token m = Some claim_token)
                (db_materializations db) of
           (ms, deleted) \<Rightarrow> (Inr (deleted > 0), db\<lparr>db_materializations := ms\<rparr>)))"

section \<open>Stripe outbox\<close>

definition insert_stripe_settlement_outbox ::
  "string \<Rightarrow> string \<Rightarrow> string \<Rightarrow> i64 \<Rightarrow> deal_db \<Rightarrow> unit result \<times> deal_db" where
  "insert_stripe_settlement_outbox deal_id action details_json created_at db =
     (if action \<noteq> ''capture'' \<and> action \<noteq> ''cancel''
      then (Inl (''CHECK constraint failed: action IN ('' @ [CHR 0x27] @ ''capture'' @ [CHR 0x27] @ '', '' @
             [CHR 0x27] @ ''cancel'' @ [CHR 0x27] @ '')''), db)
      else if list_ex (\<lambda>ob. ob_deal_id ob = deal_id) (db_stripe_outbox db)
      then (Inl ''UNIQUE constraint failed: stripe_settlement_outbox.deal_id'', db)
      else if \<not> list_ex (\<lambda>r. dr_deal_id r = deal_id) (db_deals db)
      then (Inl ''FOREIGN KEY constraint failed'', db)
      else (Inr (), db\<lparr>db_stripe_outbox := db_stripe_outbox db @
        [\<lparr>ob_deal_id = deal_id, ob_action = action, ob_details_json = details_json,
          ob_created_at = created_at, ob_updated_at = created_at\<rparr>]\<rparr>))"

definition get_stripe_settlement_outbox :: "deal_db \<Rightarrow> string \<Rightarrow> stripe_outbox_row option" where
  "get_stripe_settlement_outbox db deal_id = query_row (\<lambda>ob. ob_deal_id ob = deal_id) (db_stripe_outbox db)"

definition list_stripe_settlement_outbox :: "deal_db \<Rightarrow> stripe_outbox_row list" where
  "list_stripe_settlement_outbox db = sort_key ob_updated_at (sort_key ob_deal_id (db_stripe_outbox db))"

definition list_stripe_settlement_outbox_batch :: "nat \<Rightarrow> deal_db \<Rightarrow> stripe_outbox_row list" where
  "list_stripe_settlement_outbox_batch limit db =
     take (clamp 1 1000 limit) (list_stripe_settlement_outbox db)"

definition delete_stripe_settlement_outbox :: "string \<Rightarrow> deal_db \<Rightarrow> bool \<times> deal_db" where
  "delete_stripe_settlement_outbox deal_id db =
     (case delete_where (\<lambda>ob. ob_deal_id ob = deal_id) (db_stripe_outbox db) of
        (obs, deleted) \<Rightarrow> (deleted > 0, db\<lparr>db_stripe_outbox := obs\<rparr>))"

section \<open>Prepaid invoices\<close>

definition insert_deal_prepaid_invoice ::
  "string \<Rightarrow> string \<Rightarrow> string \<Rightarrow> u64 \<Rightarrow> i64 \<Rightarrow> deal_db \<Rightarrow> unit result \<times> deal_db" where
  "insert_deal_prepaid_invoice deal_id bolt11 payment_hash amount_sat created_at db =
     (case u64_to_sqlite_integer amount_sat ''prepaid invoice amount_sat'' of
        Inl e \<Rightarrow> (Inl e, db)
      | Inr amount \<Rightarrow>
          if list_ex (\<lambda>p. pr_deal_id p = deal_id) (db_prepaid_invoices db)
          then (Inl ''UNIQUE constraint failed: deal_prepaid_invoices.deal_id'', db)
          else if list_ex (\<lambda>p. pr_payment_hash p = payment_hash) (db_prepaid_invoices db)
          then (Inl ''UNIQUE constraint failed: deal_prepaid_invoices.payment_hash'', db)
          else if \<not> list_ex (\<lambda>r. dr_deal_id r = deal_id) (db_deals db)
          then (Inl ''FOREIGN KEY constraint failed'', db)
          else (Inr (), db\<lparr>db_prepaid_invoices := db_prepaid_invoices db @
            [\<lparr>pr_deal_id = deal_id, pr_bolt11 = bolt11, pr_payment_hash = payment_hash,
              pr_amount_sat = amount, pr_created_at = created_at, pr_updated_at = created_at\<rparr>]\<rparr>))"

record deal_prepaid_invoice =
  dpi_deal_id :: string
  dpi_bolt11 :: string
  dpi_payment_hash :: string
  dpi_amount_sat :: u64
  dpi_created_at :: i64
  dpi_updated_at :: i64

definition get_deal_prepaid_invoice :: "deal_db \<Rightarrow> string \<Rightarrow> deal_prepaid_invoice option result" where
  "get_deal_prepaid_invoice db deal_id =
     (case query_row (\<lambda>p. pr_deal_id p = deal_id) (db_prepaid_invoices db) of
        None \<Rightarrow> Inr None
      | Some p \<Rightarrow>
          and_then (ok_or (''Integer '' @ int_to_string (pr_amount_sat p) @ '' out of range at index 3'')
            (u64_of_i64 (pr_amount_sat p))) (\<lambda>amount.
          Inr (Some \<lparr>dpi_deal_id = pr_deal_id p, dpi_bolt11 = pr_bolt11 p,
                dpi_payment_hash = pr_payment_hash p, dpi_amount_sat = amount,
                dpi_created_at = pr_created_at p, dpi_updated_at = pr_updated_at p\<rparr>)))"

section \<open>Workers and claims\<close>

text \<open>
  The calls of a settlement worker, each with the deal, the worker's claim token and the clock it
  reads; \<open>WClaim\<close> also says whether the call opens its own transaction.
\<close>

datatype worker_call =
    WClaim bool string string i64 i64
  | WRenew string string i64 i64
  | WReschedule string string i64 string i64
  | WSetResource string string string string i64
  | WDelete string string i64

fun worker_token :: "worker_call \<Rightarrow> string" where
  "worker_token (WClaim autocommit deal_id t e now) = t"
| "worker_token (WRenew deal_id t e now) = t"
| "worker_token (WReschedule deal_id t next_attempt_at err now) = t"
| "worker_token (WSetResource deal_id t phase resource now) = t"
| "worker_token (WDelete deal_id t now) = t"

fun worker_now :: "worker_call \<Rightarrow> i64" where
  "worker_now (WClaim autocommit deal_id t e now) = now"
| "worker_now (WRenew deal_id t e now) = now"
| "worker_now (WReschedule deal_id t next_attempt_at err now) = now"
| "worker_now (WSetResource deal_id t phase resource now) = now"
| "worker_now (WDelete deal_id t now) = now"

fun worker_run :: "worker_call \<Rightarrow> deal_db \<Rightarrow> deal_db" where
  "worker_run (WClaim autocommit deal_id t e now) db =
     snd (claim_deal_settlement_materialization autocommit deal_id t e now db)"
| "worker_run (WRenew deal_id t e now) db =
     snd (renew_deal_settlement_materialization_claim deal_id t e now db)"
| "worker_run (WReschedule deal_id t next_attempt_at err now) db =
     snd (reschedule_deal_settlement_materialization_if_claim_token deal_id t next_attempt_at err now db)"
| "worker_run (WSetResource deal_id t phase resource now) db =
     snd (set_deal_settlement_materialization_resource_if_claim_token deal_id t phase resource now db)"
| "worker_run (WDelete deal_id t now) db =
     snd (delete_deal_settlement_materialization_if_claim_token deal_id t db)"

definition held_at :: "string \<Rightarrow> i64 \<Rightarrow> materialization_row \<Rightarrow> bool" where
  "held_at token now m \<longleftrightarrow>
     (\<exists>t e. mr_claim_token m = Some t \<and> mr_claim_expires_at m = Some e \<and> t \<noteq> token \<and> now < e)"

definition one_per_deal :: "deal_db \<Rightarrow> bool" where
  "one_per_deal db \<longleftrightarrow> distinct (map mr_deal_id (db_materializations db))"

text \<open>
  What a worker's operation promises: \<open>deal_id\<close> stays a key, and a row whose claim another token
  holds and which has not expired is not touched.
\<close>

locale lease_bound =
  fixes op :: "deal_db \<Rightarrow> 'r \<times> deal_db" and token :: string and now :: i64
  assumes keeps_key: "one_per_deal db \<Longrightarrow> one_per_deal (snd (op db))"
    and respects: "m \<in> set (db_materializations db) \<Longrightarrow> held_at token now m
      \<Longrightarrow> m \<in> set (db_materializations (snd (op db)))"
begin

lemma keeps_held_row:
  assumes "one_per_deal db" and "get_deal_settlement_materialization db did = Some m"
    and "held_at token now m"
  shows "one_per_deal (snd (op db))"
    and "get_deal_settlement_materialization (snd (op db)) did = Some m"
proof -
  show inv: "one_per_deal (snd (op db))"
    using keeps_key [OF assms(1)] .
  have "m \<in> set (db_materializations db)" and did: "mr_deal_id m = did"
    using query_row_Some assms(2) unfolding get_deal_settlement_materialization_def by fast+
  then have "m \<in> set (db_materializations (snd (op db)))"
    using respects [OF _ assms(3)] by simp
  then show "get_deal_settlement_materialization (snd (op db)) did = Some m"
    using inv query_row_key [of mr_deal_id _ m] did
    by (simp add: get_deal_settlement_materialization_def one_per_deal_def)
qed

end

lemma update_rows_lease:
  assumes "\<And>m. mr_deal_id (f m) = mr_deal_id m" and "\<And>m. P m \<Longrightarrow> \<not> held_at token now m"
    and "db_materializations db' = fst (update_where P f (db_materializations db))"
  shows "one_per_deal db \<Longrightarrow> one_per_deal db'"
    and "m \<in> set (db_materializations db) \<Longrightarrow> held_at token now m \<Longrightarrow> m \<in> set (db_materializations db')"
proof -
  show "one_per_deal db \<Longrightarrow> one_per_deal db'"
    by (simp add: one_per_deal_def assms(3) distinct_map_update [of mr_deal_id f, OF assms(1)])
  assume "m \<in> set (db_materializations db)" "held_at token now m"
  then show "m \<in> set (db_materializations db')"
    using assms(2) [of m] by (auto simp: assms(3) update_where_def image_iff intro!: bexI [of _ m])
qed

lemma update_claimed_lease:
  assumes "\<And>m. mr_deal_id (f m) = mr_deal_id m"
  shows "one_per_deal db \<Longrightarrow> one_per_deal (snd (update_claimed did t f db))"
    and "m \<in> set (db_materializations db) \<Longrightarrow> held_at t now m
      \<Longrightarrow> m \<in> set (db_materializations (snd (update_claimed did t f db)))"
  using update_rows_lease [of f "\<lambda>m. mr_deal_id m = did \<and> mr_claim_token m = Some t" t now
      "snd (update_claimed did t f db)" db] assms
  by (auto simp: update_claimed_def held_at_def split: prod.split)

lemma claimable_not_held: "claimable now m \<Longrightarrow> \<not> held_at t now m"
  by (auto simp: claimable_def held_at_def)

lemma claim_in_transaction:
  "claim_deal_settlement_materialization autocommit =
     claim_deal_settlement_materialization_in_transaction"
  by (rule ext)+ (simp add: claim_deal_settlement_materialization_def with_immediate_transaction_def
      claim_deal_settlement_materialization_in_transaction_def Let_def)

lemma claim_rows_lease:
  fixes db did t e now autocommit
  defines "db' \<equiv> snd (claim_deal_settlement_materialization autocommit did t e now db)"
  shows "one_per_deal db \<Longrightarrow> one_per_deal db'"
    and "m \<in> set (db_materializations db) \<Longrightarrow> held_at t now m \<Longrightarrow> m \<in> set (db_materializations db')"
  using update_rows_lease [of "\<lambda>m. m\<lparr>mr_claim_token := Some t, mr_claim_expires_at := Some e,
        mr_attempt_count := mr_attempt_count m + 1, mr_updated_at := now\<rparr>"
      "\<lambda>m. mr_deal_id m = did \<and> claimable now m" t now db' db] claimable_not_held [of now _ t]
  by (simp_all add: db'_def claim_in_transaction Let_def
      claim_deal_settlement_materialization_in_transaction_def)

interpretation claim_lease: lease_bound
  "claim_deal_settlement_materialization autocommit did t e now" t now for autocommit did t e now
  by unfold_locales (auto intro: claim_rows_lease)

interpretation renew_lease: lease_bound
  "renew_deal_settlement_materialization_claim did t e time" t now for did t e time now
  by unfold_locales
    (auto simp: renew_deal_settlement_materialization_claim_def intro: update_claimed_lease)

interpretation reschedule_lease: lease_bound
  "reschedule_deal_settlement_materialization_if_claim_token did t next_attempt_at err time" t now
  for did t next_attempt_at err time now
  by unfold_locales
    (auto simp: reschedule_deal_settlement_materialization_if_claim_token_def
      intro: update_claimed_lease)

interpretation resource_lease: lease_bound
  "set_deal_settlement_materialization_resource_if_claim_token did t phase resource time" t now
  for did t phase resource time now
  by unfold_locales
    (auto simp: set_deal_settlement_materialization_resource_if_claim_token_def
      intro: update_claimed_lease)

interpretation delete_lease: lease_bound
  "delete_deal_settlement_materialization_if_claim_token did t" t now for did t now
  by unfold_locales
    (auto simp: delete_deal_settlement_materialization_if_claim_token_def delete_where_def
      one_per_deal_def held_at_def distinct_map_filter)

lemma worker_run_keeps_held:
  assumes "one_per_deal db" and "get_deal_settlement_materialization db did = Some m"
    and "held_at (worker_token c) (worker_now c) m"
  shows "one_per_deal (worker_run c db)"
    and "get_deal_settlement_materialization (worker_run c db) did = Some m"
  using assms claim_lease.keeps_held_row [OF assms(1,2)] renew_lease.keeps_held_row [OF assms(1,2)]
    reschedule_lease.keeps_held_row [OF assms(1,2)] resource_lease.keeps_held_row [OF assms(1,2)]
    delete_lease.keeps_held_row [OF assms(1,2)]
  by (cases c; simp)+

lemma workers_keep_held:
  assumes "one_per_deal db" and "get_deal_settlement_materialization db did = Some m"
    and "\<forall>c\<in>set cs. held_at (worker_token c) (worker_now c) m"
  shows "one_per_deal (fold worker_run cs db) \<and>
    get_deal_settlement_materialization (fold worker_run cs db) did = Some m"
  using assms
proof (induction cs arbitrary: db)
  case (Cons c cs)
  then show ?case
    using worker_run_keeps_held [OF Cons.prems(1,2), of c] by simp
qed simp

lemma claim_result:
  assumes "one_per_deal db" and "get_deal_settlement_materialization db did = Some m"
  shows "claim_deal_settlement_materialization autocommit did t e now db =
    (if claimable now m
     then let m' = m\<lparr>mr_claim_token := Some t, mr_claim_expires_at := Some e,
            mr_attempt_count := mr_attempt_count m + 1, mr_updated_at := now\<rparr>
          in (Inr (Some m'), db\<lparr>db_materializations :=
                map (\<lambda>x. if mr_deal_id x = did then m' else x) (db_materializations db)\<rparr>)
     else (Inr None, db))"
proof -
  let ?P = "\<lambda>x. mr_deal_id x = did \<and> claimable now x"
  have m: "m \<in> set (db_materializations db)" "mr_deal_id m = did"
    using query_row_Some assms(2) unfolding get_deal_settlement_materialization_def by fast+
  have only: "x = m" if "x \<in> set (db_materializations db)" "mr_deal_id x = did" for x
    using that m assms(1) by (auto simp: one_per_deal_def distinct_map dest: inj_onD)
  have "query_row ?P (db_materializations db) = (if claimable now m then Some m else None)"
  proof (cases "query_row ?P (db_materializations db)")
    case None
    then show ?thesis using m by (auto simp: query_row_None)
  next
    case (Some x)
    then show ?thesis using query_row_Some [OF Some] only by auto
  qed
  moreover have "fst (update_where ?P f (db_materializations db)) =
      (if claimable now m then map (\<lambda>x. if mr_deal_id x = did then f m else x) (db_materializations db)
       else db_materializations db)" for f
    using only by (auto simp: update_where_def intro!: map_cong map_idI)
  ultimately show ?thesis
    by (simp add: claim_in_transaction Let_def
        claim_deal_settlement_materialization_in_transaction_def)
qed

lemma get_after_claim:
  assumes "one_per_deal db"
    and "claim_deal_settlement_materialization autocommit did t e now db = (Inr (Some m), db')"
  shows "one_per_deal db'" and "get_deal_settlement_materialization db' did = Some m"
    and "mr_claim_token m = Some t" and "mr_claim_expires_at m = Some e"
proof -
  have step: "one_per_deal (snd (claim_deal_settlement_materialization autocommit did t e now db))"
    using claim_lease.keeps_key [OF assms(1)] .
  then show inv: "one_per_deal db'"
    using assms(2) by simp
  obtain m0 where m0: "get_deal_settlement_materialization db did = Some m0"
  proof (cases "get_deal_settlement_materialization db did")
    case None
    then have "query_row (\<lambda>x. mr_deal_id x = did \<and> claimable now x) (db_materializations db) = None"
      by (simp add: get_deal_settlement_materialization_def query_row_None)
    then show ?thesis
      using assms(2) by (simp add: claim_in_transaction Let_def
          claim_deal_settlement_materialization_in_transaction_def)
  qed
  then have mem: "m0 \<in> set (db_materializations db)" "mr_deal_id m0 = did"
    using query_row_Some unfolding get_deal_settlement_materialization_def by fast+
  note res = assms(2) [unfolded claim_result [OF assms(1) m0] Let_def]
  show "mr_claim_token m = Some t" "mr_claim_expires_at m = Some e"
    using res by (auto split: if_splits)
  have "m \<in> set (db_materializations db')" "mr_deal_id m = did"
    using res mem by (auto split: if_splits)
  then show "get_deal_settlement_materialization db' did = Some m"
    using inv query_row_key [of mr_deal_id _ m]
    by (simp add: get_deal_settlement_materialization_def one_per_deal_def)
qed

lemma update_claimed_result:
  assumes "get_deal_settlement_materialization db did = Some m"
  shows "mr_claim_token m = Some t \<Longrightarrow> fst (update_claimed did t f db) = Inr True"
    and "one_per_deal db \<Longrightarrow> mr_claim_token m \<noteq> Some t \<Longrightarrow> update_claimed did t f db = (Inr False, db)"
proof -
  have m: "m \<in> set (db_materializations db)" "mr_deal_id m = did"
    using query_row_Some assms unfolding get_deal_settlement_materialization_def by fast+
  then show "mr_claim_token m = Some t \<Longrightarrow> fst (update_claimed did t f db) = Inr True"
    by (auto simp: update_claimed_def update_where_def length_greater_0_conv filter_empty_conv)
  assume "one_per_deal db" and no: "mr_claim_token m \<noteq> Some t"
  then have "x = m" if "x \<in> set (db_materializations db)" "mr_deal_id x = did" for x
    using that m by (auto simp: one_per_deal_def distinct_map dest: inj_onD)
  then have none: "\<forall>x\<in>set (db_materializations db). \<not> (mr_deal_id x = did \<and> mr_claim_token x = Some t)"
    using no by auto
  then have "update_where (\<lambda>x. mr_deal_id x = did \<and> mr_claim_token x = Some t) f (db_materializations db) =
      (db_materializations db, 0)"
    by (auto simp: update_where_def filter_empty_conv intro!: map_idI)
  then show "update_claimed did t f db = (Inr False, db)"
    by (simp add: update_claimed_def)
qed

section \<open>A sample store\<close>

definition sample_materialization :: materialization_row where
  "sample_materialization =
     \<lparr>mr_deal_id = ''deal-1'', mr_materialization_kind = ''lightning'', mr_request_json = ''{}'',
       mr_phase = ''pending'', mr_resource_json = None, mr_attempt_count = 0, mr_next_attempt_at = 1,
       mr_last_error_code = None, mr_claim_token = None, mr_claim_expires_at = None,
       mr_created_at = 1, mr_updated_at = 1\<rparr>"

definition sample_claimed :: materialization_row where
  "sample_claimed = sample_materialization\<lparr>mr_claim_token := Some ''claim-a'',
     mr_claim_expires_at := Some 10, mr_attempt_count := 1, mr_updated_at := 2\<rparr>"

definition sample_store :: "materialization_row list \<Rightarrow> deal_db" where
  "sample_store ms =
     \<lparr>db_quotes = [], db_quote_usages = [], db_deals = [], db_deal_quarantine = [],
      db_artifact_documents = [], db_execution_evidence = [], db_materializations = ms,
      db_stripe_outbox = [], db_prepaid_invoices = []\<rparr>"

lemma sample_store_claim:
  "one_per_deal (sample_store [m])"
  "claim_deal_settlement_materialization autocommit ''deal-1'' ''claim-a'' 10 2
     (sample_store [sample_materialization]) = (Inr (Some sample_claimed), sample_store [sample_claimed])"
  "get_deal_settlement_materialization (sample_store [sample_claimed]) ''deal-1'' = Some sample_claimed"
  "trim ''claim-a'' = ''claim-a''"
proof -
  show "one_per_deal (sample_store [m])"
    by (simp add: one_per_deal_def sample_store_def)
  show "claim_deal_settlement_materialization autocommit ''deal-1'' ''claim-a'' 10 2
     (sample_store [sample_materialization]) = (Inr (Some sample_claimed), sample_store [sample_claimed])"
    by (simp add: claim_in_transaction claim_deal_settlement_materialization_in_transaction_def Let_def
        sample_store_def sample_materialization_def sample_claimed_def query_row_def update_where_def
        claimable_def)
  show "get_deal_settlement_materialization (sample_store [sample_claimed]) ''deal-1'' = Some sample_claimed"
    by (simp add: get_deal_settlement_materialization_def query_row_def sample_store_def
        sample_claimed_def sample_materialization_def)
  show "trim ''claim-a'' = ''claim-a''"
    by code_simp
qed

section \<open>Properties\<close>

text \<open>
  C21. A claim on a deal's settlement materialization is exclusive while it lasts. Once a worker's
  claim with token \<open>t\<close> and expiry \<open>e\<close> has succeeded, whatever calls other workers make with other
  tokens before \<open>e\<close>, in any order and on any deals, the claimed row is the one the claim returned;
  every further claim on the deal before \<open>e\<close> gets nothing; and the holder can renew.
\<close>

theorem materialization_claim_is_exclusive:
  assumes "one_per_deal db" and "trim t \<noteq> []"
    and "claim_deal_settlement_materialization autocommit did t e now db = (Inr (Some m), db')"
    and "\<forall>c\<in>set calls. worker_token c \<noteq> t \<and> worker_now c < e"
  shows "get_deal_settlement_materialization (fold worker_run calls db') did = Some m \<and>
    (\<forall>ac t' e' now'. now' < e \<longrightarrow>
       claim_deal_settlement_materialization ac did t' e' now' (fold worker_run calls db') =
         (Inr None, fold worker_run calls db')) \<and>
    (\<forall>e' now'. fst (renew_deal_settlement_materialization_claim did t e' now'
       (fold worker_run calls db')) = Inr True)"
proof -
  note m = get_after_claim [OF assms(1,3)]
  have "\<forall>c\<in>set calls. held_at (worker_token c) (worker_now c) m"
    using assms(4) m(3,4) by (auto simp: held_at_def)
  then have kept: "one_per_deal (fold worker_run calls db')"
      "get_deal_settlement_materialization (fold worker_run calls db') did = Some m"
    using workers_keep_held [OF m(1,2)] by auto
  moreover have "\<not> claimable now' m" if "now' < e" for now'
    using that m(3,4) by (simp add: claimable_def)
  ultimately show ?thesis
    using claim_result [OF kept] update_claimed_result(1) [OF kept(2) m(3)] assms(2)
    by (simp add: renew_deal_settlement_materialization_claim_def)
qed

theorem materialization_claim_is_exclusive_witness:
  "get_deal_settlement_materialization
     (fold worker_run [WClaim True ''deal-1'' ''claim-b'' 20 3, WRenew ''deal-1'' ''claim-b'' 50 4,
        WDelete ''deal-1'' ''claim-c'' 9] (sample_store [sample_claimed])) ''deal-1'' = Some sample_claimed"
  using materialization_claim_is_exclusive [OF sample_store_claim(1) _ sample_store_claim(2) [of True],
      of "[WClaim True ''deal-1'' ''claim-b'' 20 3, WRenew ''deal-1'' ''claim-b'' 50 4,
        WDelete ''deal-1'' ''claim-c'' 9]"] sample_store_claim(4)
  by simp

text \<open>
  A claim does not outlive its expiry: a due materialization whose claim has expired can be
  claimed by another worker, and from then on the renewal, rescheduling, resource update and
  deletion of the former holder all report false and change nothing.
\<close>

theorem expired_claim_is_taken_over:
  assumes "one_per_deal db" and "get_deal_settlement_materialization db did = Some m"
    and "mr_next_attempt_at m \<le> now" and "mr_claim_expires_at m = Some e" and "e \<le> now"
    and "old \<noteq> t" and "trim old \<noteq> []"
  shows "\<exists>m' db'. claim_deal_settlement_materialization autocommit did t e' now db = (Inr (Some m'), db') \<and>
    mr_claim_token m' = Some t \<and> mr_request_json m' = mr_request_json m \<and>
    (\<forall>e2 now2. renew_deal_settlement_materialization_claim did old e2 now2 db' = (Inr False, db')) \<and>
    (\<forall>n err now2. trim err \<noteq> [] \<longrightarrow>
       reschedule_deal_settlement_materialization_if_claim_token did old n err now2 db' = (Inr False, db')) \<and>
    (\<forall>res now2. trim res \<noteq> [] \<longrightarrow>
       set_deal_settlement_materialization_resource_if_claim_token did old ''resource_ready'' res now2 db'
         = (Inr False, db')) \<and>
    delete_deal_settlement_materialization_if_claim_token did old db' = (Inr False, db')"
proof -
  obtain m' db' where claim: "claim_deal_settlement_materialization autocommit did t e' now db = (Inr (Some m'), db')"
    and same: "mr_request_json m' = mr_request_json m"
    using claim_result [OF assms(1,2), of autocommit t e' now] assms(3-5)
    by (auto simp: claimable_def Let_def)
  note m' = get_after_claim [OF assms(1) claim]
  have no: "update_claimed did old f db' = (Inr False, db')" for f
    using update_claimed_result(2) [OF m'(2,1)] m'(3) assms(6) by simp
  have "filter (\<lambda>x. mr_deal_id x = did \<and> mr_claim_token x = Some old) (db_materializations db') = []"
    using no [of id] by (simp add: update_claimed_def update_where_def)
  then have "delete_deal_settlement_materialization_if_claim_token did old db' = (Inr False, db')"
    using assms(7) filter_True [of "db_materializations db'"]
    by (simp add: delete_deal_settlement_materialization_if_claim_token_def delete_where_def
        filter_empty_conv)
  then show ?thesis
    using claim same m'(3) no assms(7)
    by (auto simp: renew_deal_settlement_materialization_claim_def
        reschedule_deal_settlement_materialization_if_claim_token_def
        set_deal_settlement_materialization_resource_if_claim_token_def)
qed

theorem expired_claim_is_taken_over_witness:
  "\<exists>m' db'. claim_deal_settlement_materialization True ''deal-1'' ''claim-b'' 30 10
     (sample_store [sample_claimed]) = (Inr (Some m'), db') \<and> mr_claim_token m' = Some ''claim-b'' \<and>
     delete_deal_settlement_materialization_if_claim_token ''deal-1'' ''claim-a'' db' = (Inr False, db')"
  using expired_claim_is_taken_over [OF sample_store_claim(1,3), of 10 10 "''claim-a''" "''claim-b''" True 30]
    sample_store_claim(4)
  by (auto simp: sample_claimed_def sample_materialization_def)

end
