(* ===== verification/Lightning_Invoices.thy ===== *)
theory Lightning_Invoices
  imports Samples
begin

text \<open>
  The pure part of \<open>src/src/settlement/lightning.rs\<close>: the mock invoice format, invoice decoding,
  the requester's check of a prepaid invoice, and the check of an invoice bundle against its
  quote and deal. The BOLT11 parser (crate \<open>lightning_invoice\<close>) and the SEC1 point decoder (crate
  \<open>k256\<close>) are the fields of a record that the definitions take as an argument.
\<close>

section \<open>Data\<close>

text \<open>What the source reads of a parsed \<open>Bolt11Invoice\<close>; durations in whole seconds.\<close>

record bolt11_invoice =
  b11_amount_milli_satoshis :: "u64 option"
  b11_expires_at :: "u64 option"
  b11_expiry_time :: u64
  b11_payee_pub_key :: bytes
  b11_payment_hash :: string
  b11_currency :: string
  b11_min_final_cltv_expiry_delta :: u64

record lightning_env =
  parse_bolt11 :: "string \<Rightarrow> bolt11_invoice result"
  normalize_sec1 :: "bytes \<Rightarrow> bytes option"

record mock_bolt11_fields =
  mb_prefix :: string
  mb_amount_msat :: u64
  mb_payment_hash :: string
  mb_expires_at :: i64

record decoded_lightning_invoice =
  di_amount_msat :: u64
  di_payment_hash :: string
  di_expires_at :: i64
  di_expiry_secs :: "u64 option"
  di_destination_identity :: string
  di_network :: "string option"
  di_min_final_cltv_expiry :: u32

record prepaid_lightning_invoice_validation =
  pv_invoice_bolt11 :: string
  pv_expected_payment_hash :: string
  pv_expected_amount_sat :: u64
  pv_expected_destination_identity :: "string option"
  pv_expected_network :: "string option"
  pv_now :: i64
  pv_deal_admission_deadline :: i64
  pv_quote :: quote_artifact

record bundle_validation_issue =
  bi_code :: string
  bi_message :: string

record bundle_validation_report =
  bv_valid :: bool
  bv_bundle_hash :: string
  bv_quote_hash :: string
  bv_deal_hash :: string
  bv_expected_requester_id :: "string option"
  bv_issues :: "bundle_validation_issue list"

section \<open>Invoices\<close>

definition mock_bolt11 :: "string \<Rightarrow> u64 \<Rightarrow> string \<Rightarrow> i64 \<Rightarrow> string" where
  "mock_bolt11 prefix amount_msat payment_hash expires_at =
     ''lnmock-'' @ prefix @ ''-'' @ nat_digits (unat amount_msat) @ ''-'' @ payment_hash @ ''-'' @
     int_to_string expires_at"

definition parse_mock_bolt11 :: "string \<Rightarrow> mock_bolt11_fields result" where
  "parse_mock_bolt11 invoice =
     (case strip_prefix invoice ''lnmock-'' of
        None \<Rightarrow> Inl ''invoice is not in Froglet mock Lightning format''
      | Some rest \<Rightarrow>
     (case splitn 4 (CHR ''-'') rest of
        [] \<Rightarrow> Inl ''missing invoice prefix''
      | prefix # parts1 \<Rightarrow>
     (case parts1 of
        [] \<Rightarrow> Inl ''missing invoice amount''
      | amount # parts2 \<Rightarrow>
     and_then (ok_or ''invalid invoice amount'' (parse_u64 amount)) (\<lambda>amount_msat.
     (case parts2 of
        [] \<Rightarrow> Inl ''missing invoice payment hash''
      | payment_hash # parts3 \<Rightarrow>
     (case parts3 of
        [] \<Rightarrow> Inl ''missing invoice expiry''
      | expiry # _ \<Rightarrow>
     and_then (ok_or ''invalid invoice expiry'' (parse_i64 expiry)) (\<lambda>expires_at.
     Inr \<lparr>mb_prefix = prefix, mb_amount_msat = amount_msat, mb_payment_hash = payment_hash,
          mb_expires_at = expires_at\<rparr>)))))))"

definition decode_lightning_invoice ::
  "crypto_env \<Rightarrow> lightning_env \<Rightarrow> string \<Rightarrow> decoded_lightning_invoice result" where
  "decode_lightning_invoice cs le invoice =
     (case parse_mock_bolt11 invoice of
        Inr mock \<Rightarrow>
          Inr \<lparr>di_amount_msat = mb_amount_msat mock, di_payment_hash = mb_payment_hash mock,
               di_expires_at = mb_expires_at mock, di_expiry_secs = None,
               di_destination_identity = [], di_network = None, di_min_final_cltv_expiry = 0\<rparr>
      | Inl _ \<Rightarrow>
     and_then (parse_bolt11 le invoice) (\<lambda>b.
     and_then (ok_or ''invoice is missing an amount'' (b11_amount_milli_satoshis b)) (\<lambda>amount_msat.
     and_then (ok_or ''invoice expiry overflowed'' (b11_expires_at b)) (\<lambda>secs.
     and_then (ok_or ''invoice expiry exceeds the supported timestamp range'' (i64_of_u64 secs))
       (\<lambda>expires_at.
     Inr \<lparr>di_amount_msat = amount_msat, di_payment_hash = b11_payment_hash b,
          di_expires_at = expires_at, di_expiry_secs = Some (b11_expiry_time b),
          di_destination_identity = hex_encode cs (b11_payee_pub_key b),
          di_network = Some (b11_currency b),
          di_min_final_cltv_expiry = ucast (b11_min_final_cltv_expiry_delta b)\<rparr>)))))"

definition request_time_has_reached_invoice_expiry :: "i64 \<Rightarrow> i64 \<Rightarrow> bool" where
  "request_time_has_reached_invoice_expiry now expires_at \<longleftrightarrow> expires_at \<le> now"

definition normalize_lightning_destination_identity ::
  "crypto_env \<Rightarrow> lightning_env \<Rightarrow> string \<Rightarrow> string result" where
  "normalize_lightning_destination_identity cs le v =
     and_then (ok_or ''expected prepaid destination is not valid hex'' (hex_decode cs v)) (\<lambda>bytes.
     and_then (ok_or ''expected prepaid destination is not a secp256k1 public key''
       (normalize_sec1 le bytes)) (\<lambda>point.
     Inr (hex_encode cs point)))"

section \<open>Prepaid invoices\<close>

definition prepaid_destination_checks ::
  "crypto_env \<Rightarrow> lightning_env \<Rightarrow> quote_artifact \<Rightarrow> string option \<Rightarrow> decoded_lightning_invoice \<Rightarrow> unit result" where
  "prepaid_destination_checks cs le quote expected decoded =
     (case expected of
        None \<Rightarrow> Inr ()
      | Some e \<Rightarrow>
          and_then (normalize_lightning_destination_identity cs le
            (terms_destination_identity (quote_settlement_terms (art_payload quote))))
            (\<lambda>quoted_destination.
          and_then (normalize_lightning_destination_identity cs le e) (\<lambda>expected_destination.
          if expected_destination \<noteq> quoted_destination
          then Inl ''expected prepaid destination does not match the signed quote destination''
          else if di_destination_identity decoded \<noteq> expected_destination
          then Inl ''prepaid invoice destination does not match the expected destination''
          else Inr ())))"

definition prepaid_expiry_checks ::
  "quote_artifact \<Rightarrow> i64 \<Rightarrow> i64 \<Rightarrow> decoded_lightning_invoice \<Rightarrow> unit result" where
  "prepaid_expiry_checks quote now admission_deadline decoded =
     (let max_secs = terms_max_base_invoice_expiry_secs (quote_settlement_terms (art_payload quote)) in
      if request_time_has_reached_invoice_expiry now (di_expires_at decoded)
      then Inl ''prepaid invoice is expired''
      else
      and_then (ok_or ''quoted prepaid invoice expiry is out of range'' (i64_of_u64 max_secs))
        (\<lambda>quoted_expiry_secs.
      if (case di_expiry_secs decoded of None \<Rightarrow> False | Some s \<Rightarrow> max_secs < s)
      then Inl ''prepaid invoice exceeds the quoted expiry window''
      else
      and_then (ok_or ''quoted prepaid invoice expiry overflowed''
        (i64_checked_add now quoted_expiry_secs)) (\<lambda>latest_expiry_from_now.
      if latest_expiry_from_now < di_expires_at decoded
      then Inl ''prepaid invoice exceeds the quoted expiry window''
      else if quote_expires_at (art_payload quote) \<le> now
      then Inl ''signed prepaid quote is expired''
      else if quote_expires_at (art_payload quote) < di_expires_at decoded
      then Inl ''prepaid invoice expires after the signed quote deadline''
      else if admission_deadline \<le> now
      then Inl ''prepaid deal admission deadline has elapsed''
      else if admission_deadline < di_expires_at decoded
      then Inl ''prepaid invoice expires after the deal admission deadline''
      else Inr ())))"

definition validate_prepaid_lightning_invoice ::
  "crypto_env \<Rightarrow> lightning_env \<Rightarrow> prepaid_lightning_invoice_validation \<Rightarrow> unit result" where
  "validate_prepaid_lightning_invoice cs le r =
     (let quote = pv_quote r; terms = quote_settlement_terms (art_payload quote) in
      if art_type quote \<noteq> ARTIFACT_TYPE_QUOTE
      then Inl ''prepaid settlement terms must come from a quote artifact''
      else if \<not> verify_artifact cs quote_value quote
      then Inl ''prepaid quote signature is invalid''
      else
      and_then (map_err (\<lambda>e. ''prepaid quote is invalid: '' @ e) (validate_quote_artifact quote)) (\<lambda>_.
      if terms_method terms \<noteq> ''lightning.prepaid.v1''
      then Inl ''signed quote does not use lightning.prepaid.v1''
      else
      and_then (decode_lightning_invoice cs le (pv_invoice_bolt11 r)) (\<lambda>decoded.
      and_then (ok_or ''prepaid invoice amount overflowed millisatoshis''
        (checked_mul (pv_expected_amount_sat r) 1000)) (\<lambda>expected_amount_msat.
      if terms_base_fee_msat terms \<noteq> expected_amount_msat
      then Inl ''provider prepaid amount does not match the signed quote amount''
      else if di_amount_msat decoded \<noteq> expected_amount_msat
      then Inl ''prepaid invoice amount does not match the expected amount''
      else
      and_then (ok_or ''expected prepaid payment hash is not valid hex''
        (hex_decode cs (pv_expected_payment_hash r))) (\<lambda>hash_bytes.
      if length hash_bytes \<noteq> 32
      then Inl ''expected prepaid payment hash must be 32 bytes''
      else if di_payment_hash decoded \<noteq> hex_encode cs hash_bytes
      then Inl ''prepaid invoice payment hash does not match the expected payment hash''
      else if pv_expected_network r \<noteq> None \<and> di_network decoded \<noteq> pv_expected_network r
      then Inl ''prepaid invoice network does not match the paying wallet network''
      else
      and_then (prepaid_destination_checks cs le quote (pv_expected_destination_identity r) decoded) (\<lambda>_.
      prepaid_expiry_checks quote (pv_now r) (pv_deal_admission_deadline r) decoded))))))"

section \<open>Invoice bundles\<close>

definition issue_if :: "bool \<Rightarrow> string \<Rightarrow> string \<Rightarrow> bundle_validation_issue list" where
  "issue_if c code message = (if c then [\<lparr>bi_code = code, bi_message = message\<rparr>] else [])"

definition bundle_link_issues ::
  "crypto_env \<Rightarrow> invoice_bundle_artifact \<Rightarrow> quote_artifact \<Rightarrow> deal_artifact \<Rightarrow> string option
    \<Rightarrow> bundle_validation_issue list" where
  "bundle_link_issues cs bundle quote deal expected_requester_id =
     (let b = art_payload bundle; q = art_payload quote; d = art_payload deal in
      issue_if (\<not> verify_artifact cs invoice_bundle_value bundle)
        ''invalid_bundle_signature'' ''invoice bundle signature is invalid'' @
      issue_if (\<not> verify_artifact cs quote_value quote)
        ''invalid_quote_signature'' ''quote signature is invalid'' @
      issue_if (\<not> verify_artifact cs deal_value deal)
        ''invalid_deal_signature'' ''deal signature is invalid'' @
      issue_if (art_type bundle \<noteq> TRANSPORT_TYPE_INVOICE_BUNDLE)
        ''bundle_kind_mismatch''
        (''expected bundle kind '' @ [CHR 0x27] @ TRANSPORT_TYPE_INVOICE_BUNDLE @ [CHR 0x27]) @
      issue_if (quote_provider_id q \<noteq> art_signer quote \<or> ib_provider_id b \<noteq> quote_provider_id q \<or>
          art_signer bundle \<noteq> art_signer quote)
        ''provider_identity_mismatch''
        ''invoice bundle provider identity does not match the quoted provider'' @
      issue_if (deal_provider_id d \<noteq> quote_provider_id q)
        ''deal_provider_mismatch'' ''deal provider does not match the quoted provider'' @
      issue_if (ib_quote_hash b \<noteq> art_hash quote)
        ''quote_hash_mismatch'' ''invoice bundle quote_hash does not match the quote artifact hash'' @
      issue_if (ib_deal_hash b \<noteq> art_hash deal)
        ''deal_hash_mismatch'' ''invoice bundle deal_hash does not match the deal artifact hash'' @
      issue_if (expected_requester_id \<noteq> None \<and> Some (ib_requester_id b) \<noteq> expected_requester_id)
        ''requester_id_mismatch''
        ''invoice bundle requester_id does not match the expected requester'' @
      issue_if (terms_method (quote_settlement_terms q) \<noteq> ''lightning.base_fee_plus_success_fee.v1'')
        ''quote_payment_method_mismatch'' ''quote does not advertise lightning settlement'')"

definition bundle_terms_issues ::
  "invoice_bundle_artifact \<Rightarrow> quote_artifact \<Rightarrow> deal_artifact \<Rightarrow> bundle_validation_issue list" where
  "bundle_terms_issues bundle quote deal =
     (let b = art_payload bundle; q = art_payload quote; d = art_payload deal;
          terms = quote_settlement_terms q in
      issue_if (art_signer deal \<noteq> deal_requester_id d \<or> deal_requester_id d \<noteq> quote_requester_id q \<or>
          ib_requester_id b \<noteq> quote_requester_id q)
        ''requester_identity_mismatch''
        ''deal or bundle requester does not match the quoted requester'' @
      issue_if (deal_quote_hash d \<noteq> art_hash quote \<or> deal_workload_hash d \<noteq> quote_workload_hash q)
        ''deal_quote_binding_mismatch''
        ''deal artifact does not match the quoted workload commitment'' @
      issue_if (ib_destination_identity b \<noteq> terms_destination_identity terms)
        ''destination_identity_mismatch''
        ''invoice bundle destination identity does not match the quoted settlement destination'' @
      issue_if (ibl_amount_msat (ib_base_fee b) \<noteq> terms_base_fee_msat terms)
        ''base_fee_mismatch'' ''invoice bundle base fee does not match the quote settlement terms'' @
      issue_if (ibl_amount_msat (ib_success_fee b) \<noteq> terms_success_fee_msat terms)
        ''success_fee_mismatch''
        ''invoice bundle success fee does not match the quote settlement terms'' @
      issue_if (ib_min_final_cltv_expiry b \<noteq> terms_min_final_cltv_expiry terms)
        ''min_final_cltv_mismatch''
        ''invoice bundle CLTV requirement does not match the quote settlement terms'' @
      issue_if (quote_expires_at q < ib_expires_at b)
        ''bundle_expiry_exceeds_quote'' ''invoice bundle expires after the quote deadline'' @
      issue_if (deal_admission_deadline d < ib_expires_at b)
        ''bundle_expiry_exceeds_admission_deadline''
        ''invoice bundle expires after the deal admission_deadline'' @
      issue_if (deal_success_payment_hash d \<noteq> ibl_payment_hash (ib_success_fee b))
        ''success_payment_hash_mismatch''
        ''invoice bundle success payment hash does not match the deal commitment'')"

definition bundle_leg_issues ::
  "crypto_env \<Rightarrow> lightning_env \<Rightarrow> invoice_bundle_artifact \<Rightarrow> quote_artifact \<Rightarrow> deal_artifact \<Rightarrow>
    string \<Rightarrow> invoice_bundle_leg \<Rightarrow> u64 \<Rightarrow> string \<Rightarrow> bundle_validation_issue list" where
  "bundle_leg_issues cs le bundle quote deal expected_prefix leg max_expiry_secs leg_name =
     (let invoice = ibl_invoice_bolt11 leg; mock_format = starts_with invoice ''lnmock-'' in
      issue_if (ibl_invoice_hash leg \<noteq> sha256_hex cs invoice)
        ''invoice_hash_mismatch'' (leg_name @ '' invoice_hash does not match the encoded invoice'') @
      (case decode_lightning_invoice cs le invoice of
         Inl e \<Rightarrow> issue_if True ''invalid_invoice_encoding'' (leg_name @ '': '' @ e)
       | Inr decoded \<Rightarrow>
           (if mock_format
            then (case parse_mock_bolt11 invoice of
                    Inr mock \<Rightarrow> issue_if (mb_prefix mock \<noteq> expected_prefix) ''invoice_prefix_mismatch''
                      (leg_name @ '' invoice prefix does not match the expected leg type'')
                  | Inl e \<Rightarrow> issue_if True ''invalid_invoice_encoding'' (leg_name @ '': '' @ e))
            else []) @
           issue_if (di_amount_msat decoded \<noteq> ibl_amount_msat leg) ''invoice_amount_mismatch''
             (leg_name @ '' invoice amount does not match the signed bundle'') @
           issue_if (di_payment_hash decoded \<noteq> ibl_payment_hash leg) ''invoice_payment_hash_mismatch''
             (leg_name @ '' invoice payment hash does not match the signed bundle'') @
           issue_if (di_destination_identity decoded \<noteq> [] \<and>
               di_destination_identity decoded \<noteq> ib_destination_identity (art_payload bundle))
             ''invoice_destination_mismatch''
             (leg_name @ '' invoice payee identity does not match the signed bundle'') @
           issue_if (\<not> mock_format \<and> expected_prefix = ''hold'' \<and>
               di_min_final_cltv_expiry decoded <
                 terms_min_final_cltv_expiry (quote_settlement_terms (art_payload quote)))
             ''invoice_min_final_cltv_too_small''
             (leg_name @ '' invoice min_final_cltv_expiry is below the quoted settlement constraint'') @
           issue_if (i64_add (art_created_at bundle) (as_i64 max_expiry_secs) < di_expires_at decoded)
             ''invoice_expiry_exceeds_terms''
             (leg_name @ '' invoice expiry exceeds the quoted settlement constraints'') @
           issue_if (quote_expires_at (art_payload quote) < di_expires_at decoded)
             ''invoice_expiry_exceeds_quote''
             (leg_name @ '' invoice expiry exceeds the quote deadline'') @
           issue_if (deal_admission_deadline (art_payload deal) < di_expires_at decoded)
             ''invoice_expiry_exceeds_admission_deadline''
             (leg_name @ '' invoice expiry exceeds the deal admission_deadline'')))"

definition validate_lightning_invoice_bundle ::
  "crypto_env \<Rightarrow> lightning_env \<Rightarrow> invoice_bundle_artifact \<Rightarrow> quote_artifact \<Rightarrow> deal_artifact \<Rightarrow>
    string option \<Rightarrow> bundle_validation_report" where
  "validate_lightning_invoice_bundle cs le bundle quote deal expected_requester_id =
     (let terms = quote_settlement_terms (art_payload quote); b = art_payload bundle;
          issues = bundle_link_issues cs bundle quote deal expected_requester_id @
            bundle_terms_issues bundle quote deal @
            bundle_leg_issues cs le bundle quote deal ''base'' (ib_base_fee b)
              (terms_max_base_invoice_expiry_secs terms) ''base_fee'' @
            bundle_leg_issues cs le bundle quote deal ''hold'' (ib_success_fee b)
              (terms_max_success_hold_expiry_secs terms) ''success_fee''
      in \<lparr>bv_valid = (issues = []), bv_bundle_hash = art_hash bundle, bv_quote_hash = art_hash quote,
          bv_deal_hash = art_hash deal, bv_expected_requester_id = expected_requester_id,
          bv_issues = issues\<rparr>)"

section \<open>Lemmas\<close>

lemma parse_mock_bolt11_print:
  assumes "CHR ''-'' \<notin> set prefix" and "CHR ''-'' \<notin> set payment_hash" and "in_i64 expires_at"
  shows "parse_mock_bolt11 (mock_bolt11 prefix amount payment_hash expires_at) =
    Inr \<lparr>mb_prefix = prefix, mb_amount_msat = amount, mb_payment_hash = payment_hash,
         mb_expires_at = expires_at\<rparr>"
proof -
  let ?rest = "prefix @ CHR ''-'' # nat_digits (unat amount) @ CHR ''-'' # payment_hash @ CHR ''-'' #
    int_to_string expires_at"
  have "CHR ''-'' \<notin> set (nat_digits (unat amount))"
    using nat_digits_ascii [of "unat amount"] by (auto simp: list_all_iff is_ascii_digit_def)
  then have "splitn 4 (CHR ''-'') ?rest =
      [prefix, nat_digits (unat amount), payment_hash, int_to_string expires_at]"
    using assms(1,2) splitn_field [of "CHR ''-''" _ 2] splitn_field [of "CHR ''-''" _ 1]
      splitn_field [of "CHR ''-''" _ 0]
    by (simp add: eval_nat_numeral)
  moreover have "strip_prefix (mock_bolt11 prefix amount payment_hash expires_at) ''lnmock-'' = Some ?rest"
    using strip_prefix_append [of "''lnmock-''" ?rest] by (simp add: mock_bolt11_def)
  ultimately show ?thesis
    using assms(3) by (simp add: parse_mock_bolt11_def parse_u64_print parse_i64_print)
qed

lemma issue_if_Nil [simp]: "issue_if c code message = [] \<longleftrightarrow> \<not> c"
  by (simp add: issue_if_def)

lemma checked_mul_thousand:
  "checked_mul (a :: u64) 1000 = Some c \<Longrightarrow> unat c = 1000 * unat a"
  using checked_mul_Some [of a 1000 c] by simp

lemma prepaid_expiry_checks_Inr:
  assumes "prepaid_expiry_checks quote now deadline decoded = Inr ()"
  shows "now < di_expires_at decoded" and "di_expires_at decoded \<le> quote_expires_at (art_payload quote)"
    and "di_expires_at decoded \<le> deadline"
    and "di_expires_at decoded \<le> now +
      uint (terms_max_base_invoice_expiry_secs (quote_settlement_terms (art_payload quote)))"
  using assms
  by (auto simp: prepaid_expiry_checks_def Let_def result_simps i64_of_u64_Some i64_checked_add_def
      request_time_has_reached_invoice_expiry_def split: if_splits)

lemma prepaid_destination_checks_Inr:
  assumes "prepaid_destination_checks cs le quote (Some e) decoded = Inr ()"
  shows "normalize_lightning_destination_identity cs le e = Inr (di_destination_identity decoded)"
    and "normalize_lightning_destination_identity cs le
      (terms_destination_identity (quote_settlement_terms (art_payload quote))) =
        Inr (di_destination_identity decoded)"
  using assms by (auto simp: prepaid_destination_checks_def result_simps split: if_splits)

end
