(* ===== verification/Lightning_Bundles.thy ===== *)
theory Lightning_Bundles
  imports Lightning_Invoices Database Deals
begin

text \<open>
  The stateful part of \<open>src/src/settlement/lightning.rs\<close>: Lightning invoice bundles, from their
  issue (mock or against an LND wallet) over the synchronisation of the leg states with the
  wallet to settlement and cancellation, together with the table \<open>lightning_invoice_bundles\<close> of
  \<open>src/src/db.rs\<close> that keeps them. The wallet (trait \<open>LightningWallet\<close>) is a record of
  functions on a state of its own.
\<close>

section \<open>Data\<close>

record bundle_row =
  lb_session_id :: string
  lb_provider_id :: string
  lb_requester_id :: string
  lb_quote_hash :: string
  lb_deal_hash :: string
  lb_destination_identity :: string
  lb_base_invoice_hash :: string
  lb_base_payment_hash :: string
  lb_base_fee_msat :: i64
  lb_base_state :: string
  lb_success_invoice_hash :: string
  lb_success_payment_hash :: string
  lb_success_fee_msat :: i64
  lb_success_state :: string
  lb_bundle_json :: string
  lb_created_at :: i64
  lb_updated_at :: i64

text \<open>\<open>serde_json\<close> at the signed bundle.\<close>

record bundle_text =
  bundle_to_string :: "invoice_bundle_artifact \<Rightarrow> string result"
  bundle_from_str :: "string \<Rightarrow> invoice_bundle_artifact result"

record lightning_invoice_bundle_session =
  ls_session_id :: string
  ls_bundle :: invoice_bundle_artifact
  ls_base_state :: invoice_bundle_leg_state
  ls_success_state :: invoice_bundle_leg_state
  ls_created_at :: i64
  ls_updated_at :: i64

record build_lightning_invoice_bundle_request =
  br_session_id :: "string option"
  br_requester_id :: string
  br_quote_hash :: string
  br_deal_hash :: string
  br_admission_deadline :: "i64 option"
  br_success_payment_hash :: string
  br_base_fee_msat :: u64
  br_success_fee_msat :: u64
  br_created_at :: i64

datatype lightning_mode = LmMock | LmLndRest | LmPhoenixd

text \<open>The fields of \<open>LightningConfig\<close> that the settlement code reads.\<close>

record lightning_config =
  lc_mode :: lightning_mode
  lc_destination_identity :: "string option"
  lc_base_invoice_expiry_secs :: u64
  lc_success_hold_expiry_secs :: u64
  lc_min_final_cltv_expiry :: u32

datatype wallet_error = NotFound | AlreadySettled | Backend string

fun wallet_error_string :: "wallet_error \<Rightarrow> string" where
  "wallet_error_string NotFound = ''invoice not found''"
| "wallet_error_string AlreadySettled = ''invoice already settled''"
| "wallet_error_string (Backend e) = ''wallet backend error: '' @ e"

datatype invoice_state = InvOpen | InvAccepted | InvSettled | InvCanceled

text \<open>
  The trait's methods that the settlement code calls: \<open>get_info\<close> gives the node's public key,
  \<open>add_hold_invoice\<close> (payment hash, amount, expiry, CLTV delta, memo, private) the payment request,
  \<open>lookup_invoice\<close> the state.
\<close>

record 'w lightning_wallet =
  w_get_info :: "'w \<Rightarrow> (wallet_error + string) \<times> 'w"
  w_add_hold_invoice :: "string \<Rightarrow> u64 \<Rightarrow> u64 \<Rightarrow> u32 \<Rightarrow> string \<Rightarrow> bool \<Rightarrow> 'w
    \<Rightarrow> (wallet_error + string) \<times> 'w"
  w_settle_invoice :: "string \<Rightarrow> 'w \<Rightarrow> (wallet_error + unit) \<times> 'w"
  w_cancel_invoice :: "string \<Rightarrow> 'w \<Rightarrow> (wallet_error + unit) \<times> 'w"
  w_lookup_invoice :: "string \<Rightarrow> 'w \<Rightarrow> (wallet_error + invoice_state) \<times> 'w"

text \<open>The parts of \<open>AppState\<close> that do not change, and those that do.\<close>

record 'w lightning_node =
  nd_config :: lightning_config
  nd_accepts_lightning :: bool
  nd_signing_key :: bytes
  nd_wallet :: "'w lightning_wallet option"

text \<open>
  \<open>ln_issued\<close> and \<open>ln_canceled\<close> record the payment hashes the wallet accepted a hold invoice for
  and those it was asked to cancel; no operation reads them.
\<close>

record 'w lightning_state =
  ln_bundles :: "bundle_row list"
  ln_destination_cell :: "string option"
  ln_wallet :: 'w
  ln_issued :: "string list"
  ln_canceled :: "string list"

text \<open>Fallible steps in sequence: the first error ends the sequence and keeps the state it left.\<close>

type_synonym ('w, 'a) ln_op = "'w lightning_state \<Rightarrow> 'a result \<times> 'w lightning_state"

definition ln_then :: "('w, 'a) ln_op \<Rightarrow> ('a \<Rightarrow> ('w, 'b) ln_op) \<Rightarrow> ('w, 'b) ln_op" where
  "ln_then f g s = (case f s of (Inl e, s') \<Rightarrow> (Inl e, s') | (Inr x, s') \<Rightarrow> g x s')"

definition ln_lift :: "'a result \<Rightarrow> ('w, 'a) ln_op" where
  "ln_lift r s = (r, s)"

section \<open>The table\<close>

fun invoice_leg_state_str :: "invoice_bundle_leg_state \<Rightarrow> string" where
  "invoice_leg_state_str IblOpen = ''open''"
| "invoice_leg_state_str IblAccepted = ''accepted''"
| "invoice_leg_state_str IblSettled = ''settled''"
| "invoice_leg_state_str IblCanceled = ''canceled''"
| "invoice_leg_state_str IblExpired = ''expired''"

definition parse_invoice_leg_state :: "string \<Rightarrow> invoice_bundle_leg_state result" where
  "parse_invoice_leg_state v =
     (if v = ''open'' then Inr IblOpen
      else if v = ''accepted'' then Inr IblAccepted
      else if v = ''settled'' then Inr IblSettled
      else if v = ''canceled'' then Inr IblCanceled
      else if v = ''expired'' then Inr IblExpired
      else Inl (''invalid invoice leg state: '' @ v))"

text \<open>\<open>INSERT OR REPLACE\<close>: a row with the same key makes way for the new one.\<close>

definition insert_lightning_invoice_bundle ::
  "bundle_text \<Rightarrow> string \<Rightarrow> invoice_bundle_artifact \<Rightarrow> invoice_bundle_leg_state \<Rightarrow>
    invoice_bundle_leg_state \<Rightarrow> i64 \<Rightarrow> bundle_row list \<Rightarrow> unit result \<times> bundle_row list" where
  "insert_lightning_invoice_bundle bt session_id bundle base_state success_state created_at t =
     (let p = art_payload bundle;
          row = and_then (bundle_to_string bt bundle) (\<lambda>bundle_json.
            and_then (u64_to_sqlite_integer (ibl_amount_msat (ib_base_fee p))
              ''lightning base_fee.amount_msat'') (\<lambda>base_fee_msat.
            and_then (u64_to_sqlite_integer (ibl_amount_msat (ib_success_fee p))
              ''lightning success_fee.amount_msat'') (\<lambda>success_fee_msat.
            Inr \<lparr>lb_session_id = session_id, lb_provider_id = ib_provider_id p,
              lb_requester_id = ib_requester_id p, lb_quote_hash = ib_quote_hash p,
              lb_deal_hash = ib_deal_hash p, lb_destination_identity = ib_destination_identity p,
              lb_base_invoice_hash = ibl_invoice_hash (ib_base_fee p),
              lb_base_payment_hash = ibl_payment_hash (ib_base_fee p),
              lb_base_fee_msat = base_fee_msat, lb_base_state = invoice_leg_state_str base_state,
              lb_success_invoice_hash = ibl_invoice_hash (ib_success_fee p),
              lb_success_payment_hash = ibl_payment_hash (ib_success_fee p),
              lb_success_fee_msat = success_fee_msat,
              lb_success_state = invoice_leg_state_str success_state, lb_bundle_json = bundle_json,
              lb_created_at = created_at, lb_updated_at = created_at\<rparr>)))
      in case row of
           Inl e \<Rightarrow> (Inl e, t)
         | Inr r \<Rightarrow> (Inr (), filter (\<lambda>x. lb_session_id x \<noteq> session_id) t @ [r]))"

definition decode_lightning_invoice_bundle_row ::
  "bundle_text \<Rightarrow> bundle_row \<Rightarrow> lightning_invoice_bundle_session result" where
  "decode_lightning_invoice_bundle_row bt r =
     and_then (bundle_from_str bt (lb_bundle_json r)) (\<lambda>bundle.
     and_then (parse_invoice_leg_state (lb_base_state r)) (\<lambda>base_state.
     and_then (parse_invoice_leg_state (lb_success_state r)) (\<lambda>success_state.
     Inr \<lparr>ls_session_id = lb_session_id r, ls_bundle = bundle, ls_base_state = base_state,
          ls_success_state = success_state, ls_created_at = lb_created_at r,
          ls_updated_at = lb_updated_at r\<rparr>)))"

definition query_bundle ::
  "bundle_text \<Rightarrow> (bundle_row \<Rightarrow> bool) \<Rightarrow> bundle_row list \<Rightarrow> lightning_invoice_bundle_session option result" where
  "query_bundle bt P t =
     (case query_row P t of
        None \<Rightarrow> Inr None
      | Some r \<Rightarrow> map_ok Some (decode_lightning_invoice_bundle_row bt r))"

definition get_lightning_invoice_bundle_row ::
  "bundle_text \<Rightarrow> string \<Rightarrow> bundle_row list \<Rightarrow> lightning_invoice_bundle_session option result" where
  "get_lightning_invoice_bundle_row bt session_id = query_bundle bt (\<lambda>r. lb_session_id r = session_id)"

definition get_lightning_invoice_bundle_row_by_deal_hash ::
  "bundle_text \<Rightarrow> string \<Rightarrow> bundle_row list \<Rightarrow> lightning_invoice_bundle_session option result" where
  "get_lightning_invoice_bundle_row_by_deal_hash bt deal_hash =
     query_bundle bt (\<lambda>r. lb_deal_hash r = deal_hash)"

text \<open>The \<open>CASE\<close> of the \<open>UPDATE\<close>: the state a leg keeps or moves to.\<close>

definition next_leg_state :: "string \<Rightarrow> string \<Rightarrow> string" where
  "next_leg_state old new =
     (if old \<in> {''settled'', ''canceled'', ''expired''} then old
      else if old = ''accepted'' \<and> new = ''open'' then old
      else new)"

definition update_bundle_states ::
  "string \<Rightarrow> invoice_bundle_leg_state \<Rightarrow> invoice_bundle_leg_state \<Rightarrow> i64 \<Rightarrow> bundle_row list
    \<Rightarrow> bool \<times> bundle_row list" where
  "update_bundle_states session_id base_state success_state updated_at t =
     (case update_where (\<lambda>r. lb_session_id r = session_id)
             (\<lambda>r. r\<lparr>lb_base_state := next_leg_state (lb_base_state r) (invoice_leg_state_str base_state),
                    lb_success_state :=
                      next_leg_state (lb_success_state r) (invoice_leg_state_str success_state),
                    lb_updated_at := updated_at\<rparr>) t of
        (t', updated) \<Rightarrow> (updated > 0, t'))"

definition update_lightning_invoice_bundle_states ::
  "bundle_text \<Rightarrow> string \<Rightarrow> invoice_bundle_leg_state \<Rightarrow> invoice_bundle_leg_state \<Rightarrow> i64
    \<Rightarrow> ('w, lightning_invoice_bundle_session option) ln_op" where
  "update_lightning_invoice_bundle_states bt session_id base_state success_state now s =
     (case update_bundle_states session_id base_state success_state now (ln_bundles s) of
        (False, t) \<Rightarrow> (Inr None, s\<lparr>ln_bundles := t\<rparr>)
      | (True, t) \<Rightarrow> (get_lightning_invoice_bundle_row bt session_id t, s\<lparr>ln_bundles := t\<rparr>))"

section \<open>The wallet\<close>

definition lightning_wallet_of :: "'w lightning_node \<Rightarrow> 'w lightning_wallet result" where
  "lightning_wallet_of nd = ok_or ''missing lnd_rest configuration'' (nd_wallet nd)"

definition call_wallet ::
  "('w \<Rightarrow> (wallet_error + 'a) \<times> 'w) \<Rightarrow> 'w lightning_state \<Rightarrow> (wallet_error + 'a) \<times> 'w lightning_state" where
  "call_wallet f s = (case f (ln_wallet s) of (r, w) \<Rightarrow> (r, s\<lparr>ln_wallet := w\<rparr>))"

definition add_hold_invoice ::
  "'w lightning_wallet \<Rightarrow> string \<Rightarrow> u64 \<Rightarrow> u64 \<Rightarrow> u32 \<Rightarrow> string \<Rightarrow> ('w, string) ln_op" where
  "add_hold_invoice client payment_hash amount_msat expiry_secs cltv memo s =
     (case call_wallet (w_add_hold_invoice client payment_hash amount_msat expiry_secs cltv memo True) s of
        (Inl e, s') \<Rightarrow> (Inl (wallet_error_string e), s')
      | (Inr invoice, s') \<Rightarrow> (Inr invoice, s'\<lparr>ln_issued := ln_issued s' @ [payment_hash]\<rparr>))"

definition lookup_state ::
  "'w lightning_wallet \<Rightarrow> string \<Rightarrow> ('w, invoice_bundle_leg_state) ln_op" where
  "lookup_state client payment_hash s =
     (case call_wallet (w_lookup_invoice client payment_hash) s of
        (Inl e, s') \<Rightarrow> (Inl (wallet_error_string e), s')
      | (Inr st, s') \<Rightarrow>
          (Inr (case st of InvOpen \<Rightarrow> IblOpen | InvAccepted \<Rightarrow> IblAccepted | InvSettled \<Rightarrow> IblSettled
             | InvCanceled \<Rightarrow> IblCanceled), s'))"

text \<open>The cancellation loops, which collect failures and go on; \<open>ok_missing\<close> forgives \<open>NotFound\<close>.\<close>

fun cancel_each :: "bool \<Rightarrow> 'w lightning_wallet \<Rightarrow> string list \<Rightarrow> 'w lightning_state
    \<Rightarrow> string list \<times> 'w lightning_state" where
  "cancel_each ok_missing client [] s = ([], s)"
| "cancel_each ok_missing client (h # hs) s =
     (case call_wallet (w_cancel_invoice client h) (s\<lparr>ln_canceled := ln_canceled s @ [h]\<rparr>) of
        (r, s') \<Rightarrow>
          (case cancel_each ok_missing client hs s' of
             (failures, s'') \<Rightarrow>
               ((case r of
                   Inr _ \<Rightarrow> failures
                 | Inl e \<Rightarrow> if ok_missing \<and> e = NotFound then failures
                     else (h @ '': '' @ wallet_error_string e) # failures), s'')))"

fun join :: "string \<Rightarrow> string list \<Rightarrow> string" where
  "join sep [] = []"
| "join sep [x] = x"
| "join sep (x # xs) = x @ sep @ join sep xs"

definition cancel_result :: "string list \<times> 'w lightning_state \<Rightarrow> unit result \<times> 'w lightning_state" where
  "cancel_result r =
     (case r of (failures, s) \<Rightarrow> (if failures = [] then Inr () else Inl (join ''; '' failures), s))"

definition cancel_lnd_invoices :: "'w lightning_wallet \<Rightarrow> string list \<Rightarrow> ('w, unit) ln_op" where
  "cancel_lnd_invoices client payment_hashes s = cancel_result (cancel_each False client payment_hashes s)"

definition cancel_lnd_invoices_allowing_missing ::
  "'w lightning_wallet \<Rightarrow> string list \<Rightarrow> ('w, unit) ln_op" where
  "cancel_lnd_invoices_allowing_missing client payment_hashes s =
     cancel_result (cancel_each True client payment_hashes s)"

definition cleanup_failed_lnd_bundle_issue ::
  "'w lightning_wallet \<Rightarrow> string list \<Rightarrow> string \<Rightarrow> 'w lightning_state \<Rightarrow> string \<times> 'w lightning_state" where
  "cleanup_failed_lnd_bundle_issue client payment_hashes issue_error s =
     (case cancel_lnd_invoices client payment_hashes s of
        (Inr _, s') \<Rightarrow> (issue_error, s')
      | (Inl cancel_error, s') \<Rightarrow>
          (issue_error @ ''; additionally failed to cancel issued invoices: '' @ cancel_error, s'))"

definition resolve_lightning_destination_identity ::
  "crypto_env \<Rightarrow> 'w lightning_node \<Rightarrow> ('w, string) ln_op" where
  "resolve_lightning_destination_identity cs nd s =
     (case lc_destination_identity (nd_config nd) of
        Some d \<Rightarrow> (Inr d, s)
      | None \<Rightarrow>
          if lc_mode (nd_config nd) = LmMock
          then (Inr (compressed_public_key_hex cs (nd_signing_key nd)), s)
          else
            (case ln_destination_cell s of
               Some d \<Rightarrow> (Inr d, s)
             | None \<Rightarrow>
                 (case lightning_wallet_of nd of
                    Inl e \<Rightarrow> (Inl e, s)
                  | Inr client \<Rightarrow>
                      (case call_wallet (w_get_info client) s of
                         (Inl e, s') \<Rightarrow> (Inl (wallet_error_string e), s')
                       | (Inr pubkey, s') \<Rightarrow> (Inr pubkey, s'\<lparr>ln_destination_cell := Some pubkey\<rparr>)))))"

section \<open>Issue\<close>

definition deterministic_base_fee_preimage_hex :: "crypto_env \<Rightarrow> 'w lightning_node \<Rightarrow> string \<Rightarrow> string" where
  "deterministic_base_fee_preimage_hex cs nd session_id =
     hmac_sha256_hex cs (signing_key_seed_bytes (nd_signing_key nd))
       (''lightning-base-preimage:'' @ session_id)"

text \<open>The text the \<open>hex\<close> crate adds to the error is left out.\<close>

definition deterministic_base_fee_payment_hash ::
  "crypto_env \<Rightarrow> 'w lightning_node \<Rightarrow> string \<Rightarrow> string result" where
  "deterministic_base_fee_payment_hash cs nd session_id =
     map_ok (sha256_hex cs) (ok_or ''invalid hex preimage: ''
       (hex_decode cs (deterministic_base_fee_preimage_hex cs nd session_id)))"

definition configured_lightning_destination_identity :: "crypto_env \<Rightarrow> 'w lightning_node \<Rightarrow> string" where
  "configured_lightning_destination_identity cs nd =
     (case lc_destination_identity (nd_config nd) of
        Some d \<Rightarrow> d
      | None \<Rightarrow> compressed_public_key_hex cs (nd_signing_key nd))"

record lightning_invoice_bundle_signature =
  sg_session_id :: string
  sg_provider_id :: string
  sg_request :: build_lightning_invoice_bundle_request
  sg_base_invoice_expiry_secs :: u64
  sg_success_hold_expiry_secs :: u64
  sg_destination_identity :: string
  sg_base_invoice_bolt11 :: string
  sg_base_payment_hash :: string
  sg_base_state :: invoice_bundle_leg_state
  sg_success_hold_invoice_bolt11 :: string
  sg_success_state :: invoice_bundle_leg_state

definition sign_lightning_invoice_bundle ::
  "crypto_env \<Rightarrow> 'w lightning_node \<Rightarrow> lightning_invoice_bundle_signature
    \<Rightarrow> lightning_invoice_bundle_session result" where
  "sign_lightning_invoice_bundle cs nd sg =
     (let r = sg_request sg;
          base_expires_at = i64_add (br_created_at r) (as_i64 (sg_base_invoice_expiry_secs sg));
          success_expires_at = i64_add (br_created_at r) (as_i64 (sg_success_hold_expiry_secs sg))
      in and_then (sign_artifact cs invoice_bundle_value (sg_provider_id sg)
           (sign_message_hex cs (nd_signing_key nd)) TRANSPORT_TYPE_INVOICE_BUNDLE (br_created_at r)
           \<lparr>ib_provider_id = sg_provider_id sg, ib_requester_id = br_requester_id r,
            ib_quote_hash = br_quote_hash r, ib_deal_hash = br_deal_hash r,
            ib_expires_at = max base_expires_at success_expires_at,
            ib_destination_identity = sg_destination_identity sg,
            ib_base_fee = \<lparr>ibl_amount_msat = br_base_fee_msat r,
              ibl_invoice_bolt11 = sg_base_invoice_bolt11 sg,
              ibl_invoice_hash = sha256_hex cs (sg_base_invoice_bolt11 sg),
              ibl_payment_hash = sg_base_payment_hash sg, ibl_state = sg_base_state sg\<rparr>,
            ib_success_fee = \<lparr>ibl_amount_msat = br_success_fee_msat r,
              ibl_invoice_bolt11 = sg_success_hold_invoice_bolt11 sg,
              ibl_invoice_hash = sha256_hex cs (sg_success_hold_invoice_bolt11 sg),
              ibl_payment_hash = br_success_payment_hash r, ibl_state = sg_success_state sg\<rparr>,
            ib_min_final_cltv_expiry = lc_min_final_cltv_expiry (nd_config nd)\<rparr>) (\<lambda>bundle.
         Inr \<lparr>ls_session_id = sg_session_id sg, ls_bundle = bundle, ls_base_state = sg_base_state sg,
              ls_success_state = sg_success_state sg, ls_created_at = br_created_at r,
              ls_updated_at = br_created_at r\<rparr>))"

definition effective_bundle_expiry_secs ::
  "lightning_config \<Rightarrow> build_lightning_invoice_bundle_request \<Rightarrow> (u64 \<times> u64) result" where
  "effective_bundle_expiry_secs cfg request =
     (case br_admission_deadline request of
        None \<Rightarrow> Inr (lc_base_invoice_expiry_secs cfg, lc_success_hold_expiry_secs cfg)
      | Some admission_deadline \<Rightarrow>
          let remaining_secs = i64_saturating_sub admission_deadline (br_created_at request) in
          if remaining_secs \<le> 0
          then Inl ''deal admission_deadline passed before lightning invoice bundle issuance''
          else Inr (min (lc_base_invoice_expiry_secs cfg) (word_of_int remaining_secs),
                    min (lc_success_hold_expiry_secs cfg) (word_of_int remaining_secs)))"

definition build_lightning_invoice_bundle ::
  "crypto_env \<Rightarrow> 'w lightning_node \<Rightarrow> string \<Rightarrow> build_lightning_invoice_bundle_request
    \<Rightarrow> lightning_invoice_bundle_session result" where
  "build_lightning_invoice_bundle cs nd fresh request =
     and_then (effective_bundle_expiry_secs (nd_config nd) request) (\<lambda>(base_secs, success_secs).
     let session_id = (case br_session_id request of Some i \<Rightarrow> i | None \<Rightarrow> fresh);
         base_payment_hash = sha256_hex cs (''lightning-base:'' @ session_id)
     in sign_lightning_invoice_bundle cs nd
          \<lparr>sg_session_id = session_id, sg_provider_id = public_key_hex cs (nd_signing_key nd),
           sg_request = request, sg_base_invoice_expiry_secs = base_secs,
           sg_success_hold_expiry_secs = success_secs,
           sg_destination_identity = configured_lightning_destination_identity cs nd,
           sg_base_invoice_bolt11 = mock_bolt11 ''base'' (br_base_fee_msat request) base_payment_hash
             (i64_add (br_created_at request) (as_i64 base_secs)),
           sg_base_payment_hash = base_payment_hash, sg_base_state = IblOpen,
           sg_success_hold_invoice_bolt11 = mock_bolt11 ''hold'' (br_success_fee_msat request)
             (br_success_payment_hash request) (i64_add (br_created_at request) (as_i64 success_secs)),
           sg_success_state = IblOpen\<rparr>)"

definition guarded_lnd_invoice_expiry_secs :: "u64 \<Rightarrow> u64" where
  "guarded_lnd_invoice_expiry_secs expiry_secs = max (saturating_sub expiry_secs 5) 1"

text \<open>The checks of the wallet's base invoice; the result is the raised creation time.\<close>

definition check_base_invoice ::
  "crypto_env \<Rightarrow> lightning_env \<Rightarrow> build_lightning_invoice_bundle_request \<Rightarrow> string \<Rightarrow> string \<Rightarrow> u64
    \<Rightarrow> string \<Rightarrow> i64 result" where
  "check_base_invoice cs le request destination payment_hash expiry_secs invoice =
     (if br_base_fee_msat request = 0 then Inr (br_created_at request)
      else
      and_then (decode_lightning_invoice cs le invoice) (\<lambda>d.
      if di_amount_msat d \<noteq> br_base_fee_msat request
      then Inl ''LND base invoice amount did not match the requested amount''
      else if di_payment_hash d \<noteq> payment_hash
      then Inl ''LND base invoice payment hash did not match the deterministic session payment hash''
      else if (case br_admission_deadline request of None \<Rightarrow> False | Some a \<Rightarrow> a < di_expires_at d)
      then Inl ''LND base invoice expiry exceeded the deal admission_deadline''
      else if di_destination_identity d \<noteq> destination
      then Inl ''LND base invoice destination did not match the provider identity''
      else Inr (max (br_created_at request)
             (i64_saturating_sub (di_expires_at d) (as_i64 expiry_secs)))))"

definition check_success_invoice ::
  "crypto_env \<Rightarrow> lightning_env \<Rightarrow> lightning_config \<Rightarrow> build_lightning_invoice_bundle_request \<Rightarrow> string \<Rightarrow> u64
    \<Rightarrow> i64 \<Rightarrow> string \<Rightarrow> i64 result" where
  "check_success_invoice cs le cfg request destination expiry_secs bundle_created_at invoice =
     and_then (decode_lightning_invoice cs le invoice) (\<lambda>d.
     if di_amount_msat d \<noteq> br_success_fee_msat request
     then Inl ''LND success hold invoice amount did not match the requested amount''
     else if (case br_admission_deadline request of None \<Rightarrow> False | Some a \<Rightarrow> a < di_expires_at d)
     then Inl ''LND success hold invoice expiry exceeded the deal admission_deadline''
     else if di_payment_hash d \<noteq> br_success_payment_hash request
     then Inl ''LND success hold invoice payment hash did not match the deal payment lock''
     else if di_destination_identity d \<noteq> destination
     then Inl ''LND success hold invoice destination did not match the provider identity''
     else if di_min_final_cltv_expiry d < lc_min_final_cltv_expiry cfg
     then Inl ''LND success hold invoice min_final_cltv_expiry was below the configured floor''
     else Inr (max bundle_created_at (i64_saturating_sub (di_expires_at d) (as_i64 expiry_secs))))"

text \<open>\<open>return Err(cleanup_failed_lnd_bundle_issue(..))\<close> on an error, with the hashes issued so far.\<close>

definition or_cleanup ::
  "'w lightning_wallet \<Rightarrow> string list \<Rightarrow> ('w, 'a) ln_op \<Rightarrow> ('w, 'a) ln_op" where
  "or_cleanup client issued f s =
     (case f s of
        (Inr x, s') \<Rightarrow> (Inr x, s')
      | (Inl e, s') \<Rightarrow>
          (case cleanup_failed_lnd_bundle_issue client issued e s' of (e', s'') \<Rightarrow> (Inl e', s'')))"

definition issue_lnd_rest_invoice_bundle ::
  "crypto_env \<Rightarrow> lightning_env \<Rightarrow> 'w lightning_node \<Rightarrow> string \<Rightarrow> build_lightning_invoice_bundle_request
    \<Rightarrow> ('w, lightning_invoice_bundle_session) ln_op" where
  "issue_lnd_rest_invoice_bundle cs le nd fresh request =
     ln_then (ln_lift (lightning_wallet_of nd)) (\<lambda>client.
     ln_then (ln_lift (effective_bundle_expiry_secs (nd_config nd) request)) (\<lambda>(max_base_secs, max_success_secs).
     let base_secs = guarded_lnd_invoice_expiry_secs max_base_secs;
         success_secs = guarded_lnd_invoice_expiry_secs max_success_secs;
         cltv = lc_min_final_cltv_expiry (nd_config nd);
         session_id = (case br_session_id request of Some i \<Rightarrow> i | None \<Rightarrow> fresh);
         free = (br_base_fee_msat request = 0)
     in
     ln_then (resolve_lightning_destination_identity cs nd) (\<lambda>destination.
     ln_then (ln_lift (deterministic_base_fee_payment_hash cs nd session_id)) (\<lambda>base_hash.
     ln_then
       (if free
        then ln_lift (Inr (mock_bolt11 ''base'' 0 base_hash
               (i64_add (br_created_at request) (as_i64 base_secs))))
        else or_cleanup client []
               (add_hold_invoice client base_hash (br_base_fee_msat request) base_secs cltv
                  (''froglet base fee '' @ session_id))) (\<lambda>base_invoice.
     let issued_base = (if free then [] else [base_hash]) in
     ln_then (or_cleanup client issued_base
       (add_hold_invoice client (br_success_payment_hash request) (br_success_fee_msat request)
          success_secs cltv (''froglet success fee '' @ session_id))) (\<lambda>success_invoice.
     ln_then (or_cleanup client (issued_base @ [br_success_payment_hash request])
       (ln_lift
         (and_then (check_base_invoice cs le request destination base_hash base_secs base_invoice) (\<lambda>t.
          check_success_invoice cs le (nd_config nd) request destination success_secs t success_invoice))))
       (\<lambda>bundle_created_at.
     ln_lift (sign_lightning_invoice_bundle cs nd
       \<lparr>sg_session_id = session_id, sg_provider_id = public_key_hex cs (nd_signing_key nd),
        sg_request = request\<lparr>br_created_at := bundle_created_at\<rparr>,
        sg_base_invoice_expiry_secs = base_secs, sg_success_hold_expiry_secs = success_secs,
        sg_destination_identity = destination, sg_base_invoice_bolt11 = base_invoice,
        sg_base_payment_hash = base_hash, sg_base_state = (if free then IblSettled else IblOpen),
        sg_success_hold_invoice_bolt11 = success_invoice, sg_success_state = IblOpen\<rparr>))))))))"

abbreviation PHOENIXD_NO_ESCROW :: string where
  "PHOENIXD_NO_ESCROW \<equiv>
     ''phoenixd backend does not support hold-invoice escrow; it uses lightning.prepaid.v1''"

definition issue_lightning_invoice_bundle ::
  "crypto_env \<Rightarrow> lightning_env \<Rightarrow> 'w lightning_node \<Rightarrow> string \<Rightarrow> build_lightning_invoice_bundle_request
    \<Rightarrow> ('w, lightning_invoice_bundle_session) ln_op" where
  "issue_lightning_invoice_bundle cs le nd fresh request =
     (case lc_mode (nd_config nd) of
        LmMock \<Rightarrow> ln_lift (build_lightning_invoice_bundle cs nd fresh request)
      | LmLndRest \<Rightarrow> issue_lnd_rest_invoice_bundle cs le nd fresh request
      | LmPhoenixd \<Rightarrow> ln_lift (Inl PHOENIXD_NO_ESCROW))"

definition leg_is_live :: "invoice_bundle_leg_state \<Rightarrow> bool" where
  "leg_is_live st \<longleftrightarrow> st \<in> {IblOpen, IblAccepted}"

definition cancel_lightning_invoice_bundle ::
  "'w lightning_node \<Rightarrow> lightning_invoice_bundle_session \<Rightarrow> ('w, unit) ln_op" where
  "cancel_lightning_invoice_bundle nd session =
     (case lc_mode (nd_config nd) of
        LmMock \<Rightarrow> ln_lift (Inr ())
      | LmPhoenixd \<Rightarrow> ln_lift (Inl PHOENIXD_NO_ESCROW)
      | LmLndRest \<Rightarrow>
          ln_then (ln_lift (lightning_wallet_of nd)) (\<lambda>client.
          let p = art_payload (ls_bundle session) in
          cancel_lnd_invoices client
            ((if 0 < ibl_amount_msat (ib_base_fee p) \<and> leg_is_live (ls_base_state session)
              then [ibl_payment_hash (ib_base_fee p)] else []) @
             (if leg_is_live (ls_success_state session) then [ibl_payment_hash (ib_success_fee p)] else []))))"

definition create_lightning_invoice_bundle ::
  "crypto_env \<Rightarrow> lightning_env \<Rightarrow> bundle_text \<Rightarrow> 'w lightning_node \<Rightarrow> string \<Rightarrow>
    build_lightning_invoice_bundle_request \<Rightarrow> ('w, lightning_invoice_bundle_session) ln_op" where
  "create_lightning_invoice_bundle cs le bt nd fresh request =
     ln_then (issue_lightning_invoice_bundle cs le nd fresh request) (\<lambda>session s.
     case insert_lightning_invoice_bundle bt (ls_session_id session) (ls_bundle session)
            (ls_base_state session) (ls_success_state session) (ls_created_at session) (ln_bundles s) of
       (Inr _, t) \<Rightarrow> (Inr session, s\<lparr>ln_bundles := t\<rparr>)
     | (Inl e, t) \<Rightarrow>
         (case cancel_lightning_invoice_bundle nd session (s\<lparr>ln_bundles := t\<rparr>) of
            (Inl cancel_error, s') \<Rightarrow>
              (Inl (e @ ''; additionally failed to cancel issued lightning invoices: '' @ cancel_error), s')
          | (Inr _, s') \<Rightarrow> (Inl e, s')))"

definition cancel_pending_lightning_materialization_request ::
  "crypto_env \<Rightarrow> 'w lightning_node \<Rightarrow> build_lightning_invoice_bundle_request \<Rightarrow> ('w, unit) ln_op" where
  "cancel_pending_lightning_materialization_request cs nd request =
     (case lc_mode (nd_config nd) of
        LmMock \<Rightarrow> ln_lift (Inr ())
      | LmPhoenixd \<Rightarrow> ln_lift (Inl PHOENIXD_NO_ESCROW)
      | LmLndRest \<Rightarrow>
          ln_then (ln_lift (lightning_wallet_of nd)) (\<lambda>client.
          ln_then (ln_lift
            (case br_session_id request of
               Some session_id \<Rightarrow>
                 if 0 < br_base_fee_msat request
                 then map_ok (\<lambda>h. [h]) (deterministic_base_fee_payment_hash cs nd session_id)
                 else Inr []
             | None \<Rightarrow> Inr [])) (\<lambda>base.
          cancel_lnd_invoices_allowing_missing client
            ((if 0 < br_success_fee_msat request then [br_success_payment_hash request] else []) @ base))))"

section \<open>Synchronisation, settlement and cancellation\<close>

definition expire_leg ::
  "crypto_env \<Rightarrow> lightning_env \<Rightarrow> i64 \<Rightarrow> invoice_bundle_leg \<Rightarrow> invoice_bundle_leg_state
    \<Rightarrow> invoice_bundle_leg_state result" where
  "expire_leg cs le now leg st =
     (if st = IblOpen
      then map_ok (\<lambda>d. if di_expires_at d \<le> now then IblExpired else st)
             (decode_lightning_invoice cs le (ibl_invoice_bolt11 leg))
      else Inr st)"

definition expire_open_invoice_legs_if_due ::
  "crypto_env \<Rightarrow> lightning_env \<Rightarrow> lightning_invoice_bundle_session \<Rightarrow> i64
    \<Rightarrow> (invoice_bundle_leg_state \<times> invoice_bundle_leg_state) option result" where
  "expire_open_invoice_legs_if_due cs le session now =
     (let p = art_payload (ls_bundle session) in
      and_then (expire_leg cs le now (ib_base_fee p) (ls_base_state session)) (\<lambda>base_state.
      and_then (expire_leg cs le now (ib_success_fee p) (ls_success_state session)) (\<lambda>success_state.
      Inr (if base_state = ls_base_state session \<and> success_state = ls_success_state session then None
           else Some (base_state, success_state)))))"

definition update_or_fail ::
  "bundle_text \<Rightarrow> string \<Rightarrow> string \<Rightarrow> invoice_bundle_leg_state \<Rightarrow> invoice_bundle_leg_state \<Rightarrow> i64
    \<Rightarrow> ('w, lightning_invoice_bundle_session) ln_op" where
  "update_or_fail bt missing session_id base_state success_state now =
     ln_then (update_lightning_invoice_bundle_states bt session_id base_state success_state now)
       (\<lambda>updated. ln_lift (ok_or missing updated))"

text \<open>Settling the base fee with the session's own preimage; an invoice settled before is fine.\<close>

definition settle_base_fee ::
  "crypto_env \<Rightarrow> 'w lightning_node \<Rightarrow> 'w lightning_wallet \<Rightarrow> string \<Rightarrow> ('w, unit) ln_op" where
  "settle_base_fee cs nd client session_id s =
     (case call_wallet (w_settle_invoice client (deterministic_base_fee_preimage_hex cs nd session_id)) s of
        (Inr _, s') \<Rightarrow> (Inr (), s')
      | (Inl AlreadySettled, s') \<Rightarrow> (Inr (), s')
      | (Inl e, s') \<Rightarrow> (Inl (wallet_error_string e), s'))"

definition sync_with_wallet ::
  "crypto_env \<Rightarrow> bundle_text \<Rightarrow> 'w lightning_node \<Rightarrow> i64 \<Rightarrow> lightning_invoice_bundle_session
    \<Rightarrow> ('w, lightning_invoice_bundle_session) ln_op" where
  "sync_with_wallet cs bt nd now session =
     (let p = art_payload (ls_bundle session) in
      ln_then (ln_lift (lightning_wallet_of nd)) (\<lambda>client.
      ln_then (if ibl_amount_msat (ib_base_fee p) = 0 then ln_lift (Inr IblSettled)
               else lookup_state client (ibl_payment_hash (ib_base_fee p))) (\<lambda>base_seen.
      ln_then (if base_seen = IblAccepted
               then ln_then (settle_base_fee cs nd client (ls_session_id session)) (\<lambda>_.
                      lookup_state client (ibl_payment_hash (ib_base_fee p)))
               else ln_lift (Inr base_seen)) (\<lambda>base_state.
      ln_then (lookup_state client (ibl_payment_hash (ib_success_fee p))) (\<lambda>success_state.
      if base_state = ls_base_state session \<and> success_state = ls_success_state session
      then ln_lift (Inr session)
      else update_or_fail bt ''lightning invoice bundle disappeared during sync''
             (ls_session_id session) base_state success_state now)))))"

text \<open>The clock is read up to three times: at each update and at the expiry check.\<close>

definition sync_lightning_invoice_bundle_session ::
  "crypto_env \<Rightarrow> lightning_env \<Rightarrow> bundle_text \<Rightarrow> 'w lightning_node \<Rightarrow> i64 \<times> i64 \<times> i64 \<Rightarrow>
    lightning_invoice_bundle_session \<Rightarrow> ('w, lightning_invoice_bundle_session) ln_op" where
  "sync_lightning_invoice_bundle_session cs le bt nd clock session =
     (case clock of (now1, now2, now3) \<Rightarrow>
      ln_then
        (case lc_mode (nd_config nd) of
           LmMock \<Rightarrow> ln_lift (Inr session)
         | LmPhoenixd \<Rightarrow> ln_lift (Inl PHOENIXD_NO_ESCROW)
         | LmLndRest \<Rightarrow> sync_with_wallet cs bt nd now1 session) (\<lambda>synced.
      ln_then (ln_lift (expire_open_invoice_legs_if_due cs le synced now2)) (\<lambda>expired.
      case expired of
        None \<Rightarrow> ln_lift (Inr synced)
      | Some (base_state, success_state) \<Rightarrow>
          update_or_fail bt ''lightning invoice bundle disappeared during expiry normalization''
            (ls_session_id synced) base_state success_state now3)))"

definition sync_found ::
  "crypto_env \<Rightarrow> lightning_env \<Rightarrow> bundle_text \<Rightarrow> 'w lightning_node \<Rightarrow> i64 \<times> i64 \<times> i64 \<Rightarrow>
    lightning_invoice_bundle_session option \<Rightarrow> ('w, lightning_invoice_bundle_session option) ln_op" where
  "sync_found cs le bt nd clock found =
     (case found of
        None \<Rightarrow> ln_lift (Inr None)
      | Some session \<Rightarrow> ln_then (sync_lightning_invoice_bundle_session cs le bt nd clock session)
          (\<lambda>synced. ln_lift (Inr (Some synced))))"

definition get_lightning_invoice_bundle ::
  "crypto_env \<Rightarrow> lightning_env \<Rightarrow> bundle_text \<Rightarrow> 'w lightning_node \<Rightarrow> i64 \<times> i64 \<times> i64 \<Rightarrow> string
    \<Rightarrow> ('w, lightning_invoice_bundle_session option) ln_op" where
  "get_lightning_invoice_bundle cs le bt nd clock session_id =
     ln_then (\<lambda>s. (get_lightning_invoice_bundle_row bt session_id (ln_bundles s), s))
       (sync_found cs le bt nd clock)"

definition get_lightning_invoice_bundle_by_deal_hash ::
  "crypto_env \<Rightarrow> lightning_env \<Rightarrow> bundle_text \<Rightarrow> 'w lightning_node \<Rightarrow> i64 \<times> i64 \<times> i64 \<Rightarrow> string
    \<Rightarrow> ('w, lightning_invoice_bundle_session option) ln_op" where
  "get_lightning_invoice_bundle_by_deal_hash cs le bt nd clock deal_hash =
     ln_then (\<lambda>s. (get_lightning_invoice_bundle_row_by_deal_hash bt deal_hash (ln_bundles s), s))
       (sync_found cs le bt nd clock)"

text \<open>\<open>now\<close> is read in mock mode, \<open>clock\<close> by the synchronisation.\<close>

definition settle_lightning_success_hold_invoice ::
  "crypto_env \<Rightarrow> lightning_env \<Rightarrow> bundle_text \<Rightarrow> 'w lightning_node \<Rightarrow> i64 \<Rightarrow> i64 \<times> i64 \<times> i64 \<Rightarrow>
    lightning_invoice_bundle_session \<Rightarrow> string \<Rightarrow> ('w, lightning_invoice_bundle_session) ln_op" where
  "settle_lightning_success_hold_invoice cs le bt nd now clock session success_preimage_hex =
     (case lc_mode (nd_config nd) of
        LmPhoenixd \<Rightarrow> ln_lift (Inl PHOENIXD_NO_ESCROW)
      | LmMock \<Rightarrow> update_or_fail bt ''lightning invoice bundle not found'' (ls_session_id session)
          (ls_base_state session) IblSettled now
      | LmLndRest \<Rightarrow>
          ln_then (ln_lift (lightning_wallet_of nd)) (\<lambda>client.
          ln_then (\<lambda>s. case call_wallet (w_settle_invoice client success_preimage_hex) s of
                         (r, s') \<Rightarrow> (map_err wallet_error_string r, s')) (\<lambda>_.
          ln_then (sync_lightning_invoice_bundle_session cs le bt nd clock session) (\<lambda>refreshed.
          ln_lift (if ls_success_state refreshed \<noteq> IblSettled
                   then Inl ''success hold invoice did not reach settled state''
                   else Inr refreshed)))))"

definition cancel_and_sync_lightning_invoice_bundle ::
  "crypto_env \<Rightarrow> lightning_env \<Rightarrow> bundle_text \<Rightarrow> 'w lightning_node \<Rightarrow> i64 \<Rightarrow> i64 \<times> i64 \<times> i64 \<Rightarrow>
    lightning_invoice_bundle_session \<Rightarrow> ('w, lightning_invoice_bundle_session) ln_op" where
  "cancel_and_sync_lightning_invoice_bundle cs le bt nd now clock session =
     (case lc_mode (nd_config nd) of
        LmPhoenixd \<Rightarrow> ln_lift (Inl PHOENIXD_NO_ESCROW)
      | LmMock \<Rightarrow>
          let base_state =
                (if 0 < ibl_amount_msat (ib_base_fee (art_payload (ls_bundle session))) \<and>
                    leg_is_live (ls_base_state session)
                 then IblCanceled else ls_base_state session);
              success_state =
                (if leg_is_live (ls_success_state session) then IblCanceled else ls_success_state session)
          in if base_state = ls_base_state session \<and> success_state = ls_success_state session
             then ln_lift (Inr session)
             else update_or_fail bt ''lightning invoice bundle not found'' (ls_session_id session)
                    base_state success_state now
      | LmLndRest \<Rightarrow>
          ln_then (cancel_lightning_invoice_bundle nd session) (\<lambda>_.
          sync_lightning_invoice_bundle_session cs le bt nd clock session))"

section \<open>Terms and the wallet intent\<close>

definition quoted_lightning_settlement_terms ::
  "crypto_env \<Rightarrow> 'w lightning_node \<Rightarrow> u64 \<Rightarrow> ('w, quote_settlement_terms option) ln_op" where
  "quoted_lightning_settlement_terms cs nd price_sats =
     (let cfg = nd_config nd in
      if \<not> nd_accepts_lightning nd \<or> price_sats = 0 then ln_lift (Inr None)
      else if lc_mode cfg = LmPhoenixd
      then ln_then (resolve_lightning_destination_identity cs nd) (\<lambda>destination.
        ln_lift (Inr (Some \<lparr>terms_method = ''lightning.prepaid.v1'',
          terms_destination_identity = destination,
          terms_base_fee_msat = saturating_mul price_sats 1000, terms_success_fee_msat = 0,
          terms_max_base_invoice_expiry_secs = lc_base_invoice_expiry_secs cfg,
          terms_max_success_hold_expiry_secs = 0, terms_min_final_cltv_expiry = 0\<rparr>)))
      else ln_then (resolve_lightning_destination_identity cs nd) (\<lambda>destination.
        ln_lift (Inr (Some \<lparr>terms_method = ''lightning.base_fee_plus_success_fee.v1'',
          terms_destination_identity = destination, terms_base_fee_msat = 0,
          terms_success_fee_msat = saturating_mul price_sats 1000,
          terms_max_base_invoice_expiry_secs = lc_base_invoice_expiry_secs cfg,
          terms_max_success_hold_expiry_secs = lc_success_hold_expiry_secs cfg,
          terms_min_final_cltv_expiry = lc_min_final_cltv_expiry cfg\<rparr>))))"

definition lightning_quote_expires_at :: "'w lightning_node \<Rightarrow> i64 \<Rightarrow> u64 \<Rightarrow> u64 \<Rightarrow> i64" where
  "lightning_quote_expires_at nd created_at price_sats execution_window_secs =
     (let cfg = nd_config nd in
      if nd_accepts_lightning nd \<and> 0 < price_sats
      then i64_add (i64_add (i64_add created_at
             (as_i64 (max (lc_base_invoice_expiry_secs cfg) (lc_success_hold_expiry_secs cfg))))
             (as_i64 execution_window_secs)) (as_i64 (lc_success_hold_expiry_secs cfg))
      else i64_add created_at 60)"

definition lightning_bundle_is_funded :: "lightning_invoice_bundle_session \<Rightarrow> bool" where
  "lightning_bundle_is_funded session \<longleftrightarrow>
     ls_base_state session = IblSettled \<and> ls_success_state session \<in> {IblAccepted, IblSettled}"

definition lightning_bundle_can_settle_success :: "lightning_invoice_bundle_session \<Rightarrow> bool" where
  "lightning_bundle_can_settle_success session \<longleftrightarrow>
     ls_base_state session = IblSettled \<and> ls_success_state session \<in> {IblAccepted, IblSettled}"

record lightning_wallet_payment_request =
  wp_role :: string
  wp_invoice :: string
  wp_amount_msat :: u64
  wp_payment_hash :: string
  wp_state :: invoice_bundle_leg_state

record lightning_wallet_release_action =
  wr_endpoint_path :: string
  wr_payment_hash :: string
  wr_expected_result_hash :: "string option"

record lightning_wallet_intent =
  wi_backend :: string
  wi_mode :: string
  wi_session_id :: string
  wi_bundle_hash :: string
  wi_deal_id :: string
  wi_deal_status :: string
  wi_quote_hash :: string
  wi_deal_hash :: string
  wi_destination_identity :: string
  wi_admission_ready :: bool
  wi_result_ready :: bool
  wi_can_release_preimage :: bool
  wi_payment_requests :: "lightning_wallet_payment_request list"
  wi_mock_action :: "string option"
  wi_release_action :: "lightning_wallet_release_action option"

fun lightning_mode_name :: "lightning_mode \<Rightarrow> string" where
  "lightning_mode_name LmMock = ''mock_hold_invoice''"
| "lightning_mode_name LmLndRest = ''lnd_rest''"
| "lightning_mode_name LmPhoenixd = ''phoenixd_prepaid''"

text \<open>\<open>LightningWalletMockAction\<close> has the one field \<open>endpoint_path\<close> and is that string.\<close>

definition build_lightning_wallet_intent ::
  "'w lightning_node \<Rightarrow> string \<Rightarrow> string \<Rightarrow> string option \<Rightarrow> lightning_invoice_bundle_session
    \<Rightarrow> lightning_wallet_intent" where
  "build_lightning_wallet_intent nd deal_id deal_status result_hash session =
     (let p = art_payload (ls_bundle session);
          result_ready = (deal_status = DEAL_STATUS_RESULT_READY);
          can_release_preimage = (result_ready \<and> lightning_bundle_can_settle_success session);
          request = (\<lambda>role leg st. \<lparr>wp_role = role, wp_invoice = ibl_invoice_bolt11 leg,
            wp_amount_msat = ibl_amount_msat leg, wp_payment_hash = ibl_payment_hash leg, wp_state = st\<rparr>)
      in \<lparr>wi_backend = ''lightning'', wi_mode = lightning_mode_name (lc_mode (nd_config nd)),
          wi_session_id = ls_session_id session, wi_bundle_hash = art_hash (ls_bundle session),
          wi_deal_id = deal_id, wi_deal_status = deal_status, wi_quote_hash = ib_quote_hash p,
          wi_deal_hash = ib_deal_hash p, wi_destination_identity = ib_destination_identity p,
          wi_admission_ready = lightning_bundle_is_funded session, wi_result_ready = result_ready,
          wi_can_release_preimage = can_release_preimage,
          wi_payment_requests =
            (if 0 < ibl_amount_msat (ib_base_fee p)
             then [request ''base_fee'' (ib_base_fee p) (ls_base_state session)] else []) @
            [request ''success_fee_hold'' (ib_success_fee p) (ls_success_state session)],
          wi_mock_action =
            (if lc_mode (nd_config nd) = LmMock \<and> deal_status = DEAL_STATUS_PAYMENT_PENDING
             then Some (''/v1/provider/deals/'' @ deal_id @ ''/mock-pay'') else None),
          wi_release_action =
            (if can_release_preimage
             then Some \<lparr>wr_endpoint_path = ''/v1/provider/deals/'' @ deal_id @ ''/accept'',
               wr_payment_hash = ibl_payment_hash (ib_success_fee p),
               wr_expected_result_hash = result_hash\<rparr>
             else None)\<rparr>)"

end
