(* ===== verification/Lightning_Issue.thy ===== *)
theory Lightning_Issue
  imports Lightning_Bundles
begin

text \<open>
  Lemmas on the issue of Lightning invoice bundles: the expiry arithmetic, what the validation of a
  bundle asks, why the bundles the provider issues pass it, and what a failed issue leaves in the
  wallet.
\<close>

section \<open>Requests and configuration\<close>

text \<open>The request the deal handler of \<open>src/src/api/mod.rs\<close> makes of a quote and its deal.\<close>

definition bundle_request_for ::
  "quote_artifact \<Rightarrow> deal_artifact \<Rightarrow> string \<Rightarrow> i64 \<Rightarrow> build_lightning_invoice_bundle_request" where
  "bundle_request_for quote deal deal_id now =
     (let d = art_payload deal; terms = quote_settlement_terms (art_payload quote) in
      \<lparr>br_session_id = Some deal_id, br_requester_id = deal_requester_id d,
       br_quote_hash = art_hash quote, br_deal_hash = art_hash deal,
       br_admission_deadline = Some (deal_admission_deadline d),
       br_success_payment_hash = deal_success_payment_hash d,
       br_base_fee_msat = terms_base_fee_msat terms, br_success_fee_msat = terms_success_fee_msat terms,
       br_created_at = now\<rparr>)"

text \<open>The ranges to which \<open>config.rs\<close> clamps the Lightning settings.\<close>

definition lightning_config_ok :: "lightning_config \<Rightarrow> bool" where
  "lightning_config_ok cfg \<longleftrightarrow>
     60 \<le> lc_base_invoice_expiry_secs cfg \<and> lc_base_invoice_expiry_secs cfg \<le> 3600 \<and>
     60 \<le> lc_success_hold_expiry_secs cfg \<and> lc_success_hold_expiry_secs cfg \<le> 3600 \<and>
     1 \<le> lc_min_final_cltv_expiry cfg \<and> lc_min_final_cltv_expiry cfg \<le> 144"

text \<open>A verified quote of the node for Lightning escrow, and a verified deal made on it.\<close>

definition escrow_deal :: "crypto_env \<Rightarrow> string \<Rightarrow> quote_artifact \<Rightarrow> deal_artifact \<Rightarrow> bool" where
  "escrow_deal cs provider quote deal \<longleftrightarrow>
     verify_artifact cs quote_value quote \<and> verify_artifact cs deal_value deal \<and>
     art_signer quote = provider \<and> quote_provider_id (art_payload quote) = provider \<and>
     deal_provider_id (art_payload deal) = provider \<and>
     art_signer deal = deal_requester_id (art_payload deal) \<and>
     deal_requester_id (art_payload deal) = quote_requester_id (art_payload quote) \<and>
     deal_quote_hash (art_payload deal) = art_hash quote \<and>
     deal_workload_hash (art_payload deal) = quote_workload_hash (art_payload quote) \<and>
     deal_admission_deadline (art_payload deal) \<le> quote_expires_at (art_payload quote) \<and>
     terms_method (quote_settlement_terms (art_payload quote)) = SETTLEMENT_METHOD_LIGHTNING_ESCROW"

text \<open>The quote's terms are those the node's configuration gives.\<close>

definition terms_of_config :: "lightning_config \<Rightarrow> string \<Rightarrow> quote_settlement_terms \<Rightarrow> bool" where
  "terms_of_config cfg destination terms \<longleftrightarrow>
     terms_destination_identity terms = destination \<and>
     terms_max_base_invoice_expiry_secs terms = lc_base_invoice_expiry_secs cfg \<and>
     terms_max_success_hold_expiry_secs terms = lc_success_hold_expiry_secs cfg \<and>
     terms_min_final_cltv_expiry terms = lc_min_final_cltv_expiry cfg"

section \<open>Expiry arithmetic\<close>

lemma config_secs:
  assumes "lightning_config_ok cfg"
  shows "60 \<le> uint (lc_base_invoice_expiry_secs cfg)" "uint (lc_base_invoice_expiry_secs cfg) \<le> 3600"
    "60 \<le> uint (lc_success_hold_expiry_secs cfg)" "uint (lc_success_hold_expiry_secs cfg) \<le> 3600"
  using assms by (simp_all add: lightning_config_ok_def word_le_def)

lemma uint_min: "uint (min a b) = min (uint a) (uint (b :: 'a::len word))"
  by (simp add: min_def word_le_def)

lemma uint_max: "uint (max a b) = max (uint a) (uint (b :: 'a::len word))"
  by (simp add: max_def word_le_def)

lemma uint_of_i64: "\<lbrakk>0 \<le> i; i < 2 ^ 63\<rbrakk> \<Longrightarrow> uint (word_of_int i :: u64) = i"
  by (simp add: uint_word_of_int_eq take_bit_int_eq_self)

lemma effective_expiry:
  assumes "effective_bundle_expiry_secs cfg (bundle_request_for quote deal sid now) = Inr (b, h)"
    and "lightning_config_ok cfg" and "0 \<le> now"
    and "deal_admission_deadline (art_payload deal) < 2 ^ 62"
  shows "uint b = min (uint (lc_base_invoice_expiry_secs cfg)) (deal_admission_deadline (art_payload deal) - now)"
    and "uint h = min (uint (lc_success_hold_expiry_secs cfg)) (deal_admission_deadline (art_payload deal) - now)"
    and "now < deal_admission_deadline (art_payload deal)"
proof -
  let ?left = "deal_admission_deadline (art_payload deal) - now"
  have "i64_saturating_sub (deal_admission_deadline (art_payload deal)) now \<le> 0 \<or>
      i64_saturating_sub (deal_admission_deadline (art_payload deal)) now = ?left"
    using assms(3,4) by (auto simp: i64_saturating_sub_def)
  with assms(1) have "i64_saturating_sub (deal_admission_deadline (art_payload deal)) now = ?left"
    and left: "0 < ?left"
    by (auto simp: effective_bundle_expiry_secs_def bundle_request_for_def Let_def split: if_splits)
  with assms(1) have "b = min (lc_base_invoice_expiry_secs cfg) (word_of_int ?left)"
      "h = min (lc_success_hold_expiry_secs cfg) (word_of_int ?left)"
    by (auto simp: effective_bundle_expiry_secs_def bundle_request_for_def Let_def)
  moreover have "uint (word_of_int ?left :: u64) = ?left"
    using left assms(3,4) by (intro uint_of_i64) simp_all
  ultimately show "uint b = min (uint (lc_base_invoice_expiry_secs cfg)) ?left"
    "uint h = min (uint (lc_success_hold_expiry_secs cfg)) ?left"
    by (simp_all add: uint_min)
  show "now < deal_admission_deadline (art_payload deal)" using left by simp
qed

lemma unat_guarded: "unat (guarded_lnd_invoice_expiry_secs x) = max (unat x - 5) 1"
proof -
  have "unat (max (y :: u64) 1) = max (unat y) 1" for y
    by (simp add: max_def word_le_nat_alt)
  then show ?thesis
    using unat_saturating_sub [of x 5] by (simp add: guarded_lnd_invoice_expiry_secs_def)
qed

lemma guarded_bounds:
  assumes "1 \<le> uint x"
  shows "1 \<le> uint (guarded_lnd_invoice_expiry_secs x)" "uint (guarded_lnd_invoice_expiry_secs x) \<le> uint x"
  using assms unat_guarded [of x] unfolding uint_nat by linarith+

lemma guarded_mono:
  assumes "uint x \<le> uint y"
  shows "uint (guarded_lnd_invoice_expiry_secs x) \<le> uint (guarded_lnd_invoice_expiry_secs y)"
  using assms unat_guarded [of x] unat_guarded [of y] unfolding uint_nat by linarith

lemma in_i64_secs:
  assumes "0 \<le> t" and "t < 2 ^ 62" and "uint (x :: u64) \<le> 3600"
  shows "in_i64 (t + uint x)"
proof -
  have "0 \<le> t + uint x" "t + uint x < 2 ^ 63"
    using assms by simp_all
  then show ?thesis by (auto simp: in_i64_def)
qed

lemma add_secs:
  assumes "0 \<le> t" and "t < 2 ^ 62" and "uint (x :: u64) \<le> 3600"
  shows "i64_add t (as_i64 x) = t + uint x"
  using assms(3) in_i64_secs [OF assms] by (simp add: as_i64_id i64_add_id)

section \<open>A signed bundle that validates\<close>

text \<open>What the validation asks of one leg, once its invoice is decoded.\<close>

definition leg_ok ::
  "crypto_env \<Rightarrow> lightning_env \<Rightarrow> invoice_bundle_artifact \<Rightarrow> quote_artifact \<Rightarrow> deal_artifact \<Rightarrow>
    string \<Rightarrow> invoice_bundle_leg \<Rightarrow> u64 \<Rightarrow> decoded_lightning_invoice \<Rightarrow> bool" where
  "leg_ok cs le bundle quote deal prefix leg max_secs d \<longleftrightarrow>
     decode_lightning_invoice cs le (ibl_invoice_bolt11 leg) = Inr d \<and>
     ibl_invoice_hash leg = sha256_hex cs (ibl_invoice_bolt11 leg) \<and>
     (starts_with (ibl_invoice_bolt11 leg) ''lnmock-'' \<longrightarrow>
        (\<exists>mock. parse_mock_bolt11 (ibl_invoice_bolt11 leg) = Inr mock \<and> mb_prefix mock = prefix)) \<and>
     di_amount_msat d = ibl_amount_msat leg \<and> di_payment_hash d = ibl_payment_hash leg \<and>
     di_destination_identity d \<in> {[], ib_destination_identity (art_payload bundle)} \<and>
     (starts_with (ibl_invoice_bolt11 leg) ''lnmock-'' \<or> prefix \<noteq> ''hold'' \<or>
        terms_min_final_cltv_expiry (quote_settlement_terms (art_payload quote)) \<le> di_min_final_cltv_expiry d) \<and>
     di_expires_at d \<le> i64_add (art_created_at bundle) (as_i64 max_secs) \<and>
     di_expires_at d \<le> quote_expires_at (art_payload quote) \<and>
     di_expires_at d \<le> deal_admission_deadline (art_payload deal)"

lemma bundle_leg_issues_Nil:
  "bundle_leg_issues cs le bundle quote deal prefix leg max_secs name = [] \<longleftrightarrow>
     (\<exists>d. leg_ok cs le bundle quote deal prefix leg max_secs d)"
  by (cases "decode_lightning_invoice cs le (ibl_invoice_bolt11 leg)";
      cases "parse_mock_bolt11 (ibl_invoice_bolt11 leg)")
    (auto simp: bundle_leg_issues_def leg_ok_def Let_def not_less)

lemma validate_bundle_valid:
  "bv_valid (validate_lightning_invoice_bundle cs le bundle quote deal req) \<longleftrightarrow>
     bundle_link_issues cs bundle quote deal req = [] \<and> bundle_terms_issues bundle quote deal = [] \<and>
     (\<exists>d. leg_ok cs le bundle quote deal ''base'' (ib_base_fee (art_payload bundle))
        (terms_max_base_invoice_expiry_secs (quote_settlement_terms (art_payload quote))) d) \<and>
     (\<exists>d. leg_ok cs le bundle quote deal ''hold'' (ib_success_fee (art_payload bundle))
        (terms_max_success_hold_expiry_secs (quote_settlement_terms (art_payload quote))) d)"
  by (simp add: validate_lightning_invoice_bundle_def Let_def bundle_leg_issues_Nil)

lemma sign_bundle_Inr:
  assumes "sign_lightning_invoice_bundle cs nd sg = Inr session"
  shows "ls_session_id session = sg_session_id sg" "ls_base_state session = sg_base_state sg"
    "ls_success_state session = sg_success_state sg"
    "art_type (ls_bundle session) = TRANSPORT_TYPE_INVOICE_BUNDLE"
    "art_signer (ls_bundle session) = sg_provider_id sg"
    "art_created_at (ls_bundle session) = br_created_at (sg_request sg)"
    "art_payload (ls_bundle session) =
       \<lparr>ib_provider_id = sg_provider_id sg, ib_requester_id = br_requester_id (sg_request sg),
        ib_quote_hash = br_quote_hash (sg_request sg), ib_deal_hash = br_deal_hash (sg_request sg),
        ib_expires_at =
          max (i64_add (br_created_at (sg_request sg)) (as_i64 (sg_base_invoice_expiry_secs sg)))
              (i64_add (br_created_at (sg_request sg)) (as_i64 (sg_success_hold_expiry_secs sg))),
        ib_destination_identity = sg_destination_identity sg,
        ib_base_fee = \<lparr>ibl_amount_msat = br_base_fee_msat (sg_request sg),
          ibl_invoice_bolt11 = sg_base_invoice_bolt11 sg,
          ibl_invoice_hash = sha256_hex cs (sg_base_invoice_bolt11 sg),
          ibl_payment_hash = sg_base_payment_hash sg, ibl_state = sg_base_state sg\<rparr>,
        ib_success_fee = \<lparr>ibl_amount_msat = br_success_fee_msat (sg_request sg),
          ibl_invoice_bolt11 = sg_success_hold_invoice_bolt11 sg,
          ibl_invoice_hash = sha256_hex cs (sg_success_hold_invoice_bolt11 sg),
          ibl_payment_hash = br_success_payment_hash (sg_request sg), ibl_state = sg_success_state sg\<rparr>,
        ib_min_final_cltv_expiry = lc_min_final_cltv_expiry (nd_config nd)\<rparr>"
  using assms
  by (auto simp: sign_lightning_invoice_bundle_def Let_def result_simps dest: sign_artifact_fields)

lemma signed_bundle_verifies:
  assumes "hex_laws cs" and "schnorr_laws cs" and "secret_key_ok cs (nd_signing_key nd)"
    and "sign_lightning_invoice_bundle cs nd sg = Inr session"
    and "sg_provider_id sg = public_key_hex cs (nd_signing_key nd)"
  shows "verify_artifact cs invoice_bundle_value (ls_bundle session)"
  using assms(4,5) verify_signed_artifact [OF assms(1-3)]
  by (auto simp: sign_lightning_invoice_bundle_def Let_def result_simps)

lemma signed_bundle_valid:
  assumes "hex_laws cs" and "schnorr_laws cs" and "secret_key_ok cs (nd_signing_key nd)"
    and "escrow_deal cs (public_key_hex cs (nd_signing_key nd)) quote deal"
    and "terms_of_config (nd_config nd) (sg_destination_identity sg) (quote_settlement_terms (art_payload quote))"
    and "sign_lightning_invoice_bundle cs nd sg = Inr session"
    and "sg_provider_id sg = public_key_hex cs (nd_signing_key nd)"
    and "sg_request sg = (bundle_request_for quote deal sid now)\<lparr>br_created_at := t\<rparr>"
    and "ib_expires_at (art_payload (ls_bundle session)) \<le> deal_admission_deadline (art_payload deal)"
    and "leg_ok cs le (ls_bundle session) quote deal ''base''
      (ib_base_fee (art_payload (ls_bundle session))) (lc_base_invoice_expiry_secs (nd_config nd)) b"
    and "leg_ok cs le (ls_bundle session) quote deal ''hold''
      (ib_success_fee (art_payload (ls_bundle session))) (lc_success_hold_expiry_secs (nd_config nd)) h"
  shows "bv_valid (validate_lightning_invoice_bundle cs le (ls_bundle session) quote deal
    (Some (deal_requester_id (art_payload deal))))"
proof -
  note fields = sign_bundle_Inr [OF assms(6)]
  have "bundle_link_issues cs (ls_bundle session) quote deal (Some (deal_requester_id (art_payload deal))) = []"
    using assms(4) signed_bundle_verifies [OF assms(1-3,6,7)]
    by (simp add: bundle_link_issues_def fields assms(7,8) escrow_deal_def bundle_request_for_def Let_def)
  moreover have "bundle_terms_issues (ls_bundle session) quote deal = []"
    using assms(4,5,9)
    by (simp add: bundle_terms_issues_def fields(7) assms(8) escrow_deal_def terms_of_config_def
        bundle_request_for_def Let_def not_less)
  ultimately show ?thesis
    using assms(5,10,11) by (auto simp: validate_bundle_valid terms_of_config_def)
qed

section \<open>The legs of an issued bundle\<close>

text \<open>
  \<open>lightning_invoice\<close>: a BOLT11 string begins with the network's human-readable part, so the
  parser rejects the mock format.
\<close>

definition bolt11_laws :: "lightning_env \<Rightarrow> bool" where
  "bolt11_laws le \<longleftrightarrow> (\<forall>s. starts_with s ''lnmock-'' \<longrightarrow> \<not> is_ok (parse_bolt11 le s))"

lemma sha256_hex_no_dash: "hex_laws cs \<Longrightarrow> CHR ''-'' \<notin> set (sha256_hex cs m)"
  by (auto simp: hex_laws_def sha256_hex_def list_all_iff is_lower_hex_char_def is_ascii_hexdigit_def
      dest!: spec [of _ "sha256 cs m"])

lemma mock_leg_ok:
  assumes "CHR ''-'' \<notin> set prefix" and "CHR ''-'' \<notin> set (ibl_payment_hash leg)" and "in_i64 e"
    and "ibl_invoice_bolt11 leg = mock_bolt11 prefix (ibl_amount_msat leg) (ibl_payment_hash leg) e"
    and "ibl_invoice_hash leg = sha256_hex cs (ibl_invoice_bolt11 leg)"
    and "e \<le> i64_add (art_created_at bundle) (as_i64 max_secs)"
    and "e \<le> quote_expires_at (art_payload quote)" and "e \<le> deal_admission_deadline (art_payload deal)"
  shows "\<exists>d. leg_ok cs le bundle quote deal prefix leg max_secs d"
proof -
  note parse = parse_mock_bolt11_print [OF assms(1-3), of "ibl_amount_msat leg"]
  have "starts_with (ibl_invoice_bolt11 leg) ''lnmock-''"
    using starts_with_append [of "''lnmock-''"] by (simp add: assms(4) mock_bolt11_def)
  then show ?thesis
    using parse assms(5-8) by (auto simp: leg_ok_def decode_lightning_invoice_def assms(4))
qed

lemma wallet_invoice_not_mock:
  assumes "bolt11_laws le" and "decode_lightning_invoice cs le invoice = Inr d"
    and "di_destination_identity d \<noteq> []"
  shows "\<not> starts_with invoice ''lnmock-''"
  using assms by (auto simp: decode_lightning_invoice_def bolt11_laws_def is_ok_def result_simps split: sum.splits)

lemma saturating_sub_lower:
  "\<lbrakk>e < 2 ^ 62; 0 \<le> x\<rbrakk> \<Longrightarrow> e - x \<le> i64_saturating_sub e x"
  by (auto simp: i64_saturating_sub_def)

lemma saturating_sub_upper:
  "\<lbrakk>e < 2 ^ 62; 0 \<le> x; - (2 ^ 63) \<le> u; e - x \<le> u\<rbrakk> \<Longrightarrow> i64_saturating_sub e x \<le> u"
  by (auto simp: i64_saturating_sub_def)

lemma wallet_leg_ok:
  assumes "bolt11_laws le" and "decode_lightning_invoice cs le (ibl_invoice_bolt11 leg) = Inr d"
    and "di_amount_msat d = ibl_amount_msat leg" and "di_payment_hash d = ibl_payment_hash leg"
    and "ibl_invoice_hash leg = sha256_hex cs (ibl_invoice_bolt11 leg)"
    and "di_destination_identity d = ib_destination_identity (art_payload bundle)"
    and "ib_destination_identity (art_payload bundle) \<noteq> []"
    and "prefix \<noteq> ''hold'' \<or>
      terms_min_final_cltv_expiry (quote_settlement_terms (art_payload quote)) \<le> di_min_final_cltv_expiry d"
    and "di_expires_at d \<le> i64_add (art_created_at bundle) (as_i64 max_secs)"
    and "di_expires_at d \<le> deal_admission_deadline (art_payload deal)"
    and "deal_admission_deadline (art_payload deal) \<le> quote_expires_at (art_payload quote)"
  shows "leg_ok cs le bundle quote deal prefix leg max_secs d"
  using assms wallet_invoice_not_mock [OF assms(1,2)] by (auto simp: leg_ok_def)

section \<open>Sequences of fallible steps\<close>

lemma ln_then_Inr:
  "ln_then f g s = (Inr y, s') \<longleftrightarrow> (\<exists>x s1. f s = (Inr x, s1) \<and> g x s1 = (Inr y, s'))"
  by (auto simp: ln_then_def split: prod.split sum.split)

lemma ln_lift_Inr: "ln_lift r s = (Inr y, s') \<longleftrightarrow> r = Inr y \<and> s' = s"
  by (auto simp: ln_lift_def)

lemma or_cleanup_Inr: "or_cleanup client issued f s = (Inr y, s') \<longleftrightarrow> f s = (Inr y, s')"
  by (auto simp: or_cleanup_def split: prod.split sum.split)

lemmas ln_simps = ln_then_Inr ln_lift_Inr or_cleanup_Inr

lemma check_base_Inr:
  assumes "check_base_invoice cs le request destination hash secs invoice = Inr t"
    and "br_base_fee_msat request \<noteq> 0" and "br_admission_deadline request = Some a"
  shows "\<exists>d. decode_lightning_invoice cs le invoice = Inr d \<and> di_amount_msat d = br_base_fee_msat request \<and>
    di_payment_hash d = hash \<and> di_expires_at d \<le> a \<and> di_destination_identity d = destination \<and>
    t = max (br_created_at request) (i64_saturating_sub (di_expires_at d) (as_i64 secs))"
  using assms by (auto simp: check_base_invoice_def result_simps split: if_splits)

lemma check_success_Inr:
  assumes "check_success_invoice cs le cfg request destination secs t0 invoice = Inr t"
    and "br_admission_deadline request = Some a"
  shows "\<exists>d. decode_lightning_invoice cs le invoice = Inr d \<and> di_amount_msat d = br_success_fee_msat request \<and>
    di_payment_hash d = br_success_payment_hash request \<and> di_expires_at d \<le> a \<and>
    di_destination_identity d = destination \<and> lc_min_final_cltv_expiry cfg \<le> di_min_final_cltv_expiry d \<and>
    t = max t0 (i64_saturating_sub (di_expires_at d) (as_i64 secs))"
  using assms by (auto simp: check_success_invoice_def result_simps split: if_splits)

text \<open>What a successful issue against the wallet signs.\<close>

lemma issue_lnd_Inr:
  assumes "issue_lnd_rest_invoice_bundle cs le nd fresh request s = (Inr session, s')"
  obtains destination base_secs success_secs base_hash base_invoice success_invoice t0 t session_id
    max_base max_success s1
  where "effective_bundle_expiry_secs (nd_config nd) request = Inr (max_base, max_success)"
    and "base_secs = guarded_lnd_invoice_expiry_secs max_base"
    and "success_secs = guarded_lnd_invoice_expiry_secs max_success"
    and "resolve_lightning_destination_identity cs nd s = (Inr destination, s1)"
    and "deterministic_base_fee_payment_hash cs nd session_id = Inr base_hash"
    and "br_base_fee_msat request = 0 \<Longrightarrow> base_invoice = mock_bolt11 ''base'' 0 base_hash
      (i64_add (br_created_at request) (as_i64 base_secs))"
    and "check_base_invoice cs le request destination base_hash base_secs base_invoice = Inr t0"
    and "check_success_invoice cs le (nd_config nd) request destination success_secs t0 success_invoice = Inr t"
    and "sign_lightning_invoice_bundle cs nd
       \<lparr>sg_session_id = session_id, sg_provider_id = public_key_hex cs (nd_signing_key nd),
        sg_request = request\<lparr>br_created_at := t\<rparr>,
        sg_base_invoice_expiry_secs = base_secs, sg_success_hold_expiry_secs = success_secs,
        sg_destination_identity = destination, sg_base_invoice_bolt11 = base_invoice,
        sg_base_payment_hash = base_hash,
        sg_base_state = (if br_base_fee_msat request = 0 then IblSettled else IblOpen),
        sg_success_hold_invoice_bolt11 = success_invoice, sg_success_state = IblOpen\<rparr> = Inr session"
  using assms
  by (auto simp: issue_lnd_rest_invoice_bundle_def Let_def ln_simps result_simps split: prod.splits if_splits)

section \<open>Issued bundles validate\<close>

text \<open>What an escrow deal of the node looks like when the bundle is issued at \<open>now\<close>.\<close>

definition issue_context ::
  "crypto_env \<Rightarrow> 'w lightning_node \<Rightarrow> string \<Rightarrow> quote_artifact \<Rightarrow> deal_artifact \<Rightarrow> i64 \<Rightarrow> bool" where
  "issue_context cs nd destination quote deal now \<longleftrightarrow>
     hex_laws cs \<and> schnorr_laws cs \<and> secret_key_ok cs (nd_signing_key nd) \<and>
     lightning_config_ok (nd_config nd) \<and>
     escrow_deal cs (public_key_hex cs (nd_signing_key nd)) quote deal \<and>
     terms_of_config (nd_config nd) destination (quote_settlement_terms (art_payload quote)) \<and>
     CHR ''-'' \<notin> set (deal_success_payment_hash (art_payload deal)) \<and>
     0 \<le> now \<and> deal_admission_deadline (art_payload deal) < 2 ^ 62"

lemma issue_contextD:
  assumes "issue_context cs nd destination quote deal now"
  shows "hex_laws cs" "schnorr_laws cs" "secret_key_ok cs (nd_signing_key nd)"
    "lightning_config_ok (nd_config nd)"
    "escrow_deal cs (public_key_hex cs (nd_signing_key nd)) quote deal"
    "terms_of_config (nd_config nd) destination (quote_settlement_terms (art_payload quote))"
    "CHR ''-'' \<notin> set (deal_success_payment_hash (art_payload deal))" "0 \<le> now"
    "deal_admission_deadline (art_payload deal) < 2 ^ 62"
    "deal_admission_deadline (art_payload deal) \<le> quote_expires_at (art_payload quote)"
  using assms by (auto simp: issue_context_def escrow_deal_def)

lemma request_for_fields [simp]:
  "br_admission_deadline (bundle_request_for quote deal sid now) = Some (deal_admission_deadline (art_payload deal))"
  "br_created_at (bundle_request_for quote deal sid now) = now"
  "br_base_fee_msat (bundle_request_for quote deal sid now) =
     terms_base_fee_msat (quote_settlement_terms (art_payload quote))"
  "br_success_fee_msat (bundle_request_for quote deal sid now) =
     terms_success_fee_msat (quote_settlement_terms (art_payload quote))"
  "br_success_payment_hash (bundle_request_for quote deal sid now) = deal_success_payment_hash (art_payload deal)"
  "br_session_id (bundle_request_for quote deal sid now) = Some sid"
  by (simp_all add: bundle_request_for_def Let_def)

lemma mock_bundle_valid:
  assumes ctx: "issue_context cs nd (configured_lightning_destination_identity cs nd) quote deal now"
    and build: "build_lightning_invoice_bundle cs nd fresh (bundle_request_for quote deal sid now) = Inr session"
  shows "bv_valid (validate_lightning_invoice_bundle cs le (ls_bundle session) quote deal
    (Some (deal_requester_id (art_payload deal))))"
proof -
  note c = issue_contextD [OF ctx]
  let ?deadline = "deal_admission_deadline (art_payload deal)"
  obtain b h where eff: "effective_bundle_expiry_secs (nd_config nd) (bundle_request_for quote deal sid now) = Inr (b, h)"
    using build by (auto simp: build_lightning_invoice_bundle_def result_simps)
  note secs = effective_expiry [OF eff c(4,8,9)]
  note cfg = config_secs [OF c(4)]
  note add = add_secs [of now, OF c(8)]
  have le: "uint b \<le> 3600" "uint h \<le> 3600"
    using secs cfg by simp_all
  have times: "i64_add now (as_i64 b) = now + uint b" "i64_add now (as_i64 h) = now + uint h"
    "i64_add now (as_i64 (lc_base_invoice_expiry_secs (nd_config nd))) = now + uint (lc_base_invoice_expiry_secs (nd_config nd))"
    "i64_add now (as_i64 (lc_success_hold_expiry_secs (nd_config nd))) = now + uint (lc_success_hold_expiry_secs (nd_config nd))"
    using add [of b] add [of h] add [of "lc_base_invoice_expiry_secs (nd_config nd)"]
      add [of "lc_success_hold_expiry_secs (nd_config nd)"] secs(3) cfg c(9) le by simp_all
  have range: "in_i64 (now + uint b)" "in_i64 (now + uint h)"
    using secs c(8,9) uint_ge_0 [of b] uint_ge_0 [of h] by (auto simp: in_i64_def min_def)
  let ?sg = "\<lparr>sg_session_id = sid, sg_provider_id = public_key_hex cs (nd_signing_key nd),
    sg_request = bundle_request_for quote deal sid now, sg_base_invoice_expiry_secs = b,
    sg_success_hold_expiry_secs = h,
    sg_destination_identity = configured_lightning_destination_identity cs nd,
    sg_base_invoice_bolt11 = mock_bolt11 ''base'' (terms_base_fee_msat (quote_settlement_terms (art_payload quote)))
      (sha256_hex cs (''lightning-base:'' @ sid)) (now + uint b),
    sg_base_payment_hash = sha256_hex cs (''lightning-base:'' @ sid), sg_base_state = IblOpen,
    sg_success_hold_invoice_bolt11 = mock_bolt11 ''hold'' (terms_success_fee_msat (quote_settlement_terms (art_payload quote)))
      (deal_success_payment_hash (art_payload deal)) (now + uint h), sg_success_state = IblOpen\<rparr>"
  have sign: "sign_lightning_invoice_bundle cs nd ?sg = Inr session"
    using build eff by (simp add: build_lightning_invoice_bundle_def times Let_def)
  note fields = sign_bundle_Inr [OF sign, simplified times]
  have "\<exists>d. leg_ok cs le (ls_bundle session) quote deal ''base'' (ib_base_fee (art_payload (ls_bundle session)))
      (lc_base_invoice_expiry_secs (nd_config nd)) d"
    by (rule mock_leg_ok [where e = "now + uint b"])
      (use secs c(10) sha256_hex_no_dash [OF c(1)] range in \<open>auto simp: fields times\<close>)
  moreover have "\<exists>d. leg_ok cs le (ls_bundle session) quote deal ''hold'' (ib_success_fee (art_payload (ls_bundle session)))
      (lc_success_hold_expiry_secs (nd_config nd)) d"
    by (rule mock_leg_ok [where e = "now + uint h"])
      (use secs c(7,10) range in \<open>auto simp: fields times\<close>)
  moreover have "ib_expires_at (art_payload (ls_bundle session)) \<le> deal_admission_deadline (art_payload deal)"
    using secs by (simp add: fields times min_def)
  ultimately show ?thesis
    using signed_bundle_valid [where sid = sid and now = now and t = now, OF c(1-3,5) _ sign] c(6)
    by (auto simp: bundle_request_for_def Let_def simp del: fields)
qed

lemma lnd_times:
  assumes "0 \<le> now" and "now < deadline" and "deadline < 2 ^ 62" and "uint (x :: u64) \<le> 3600"
    and "e \<le> deadline" and "t = max t0 (i64_saturating_sub e (as_i64 x))" and "now \<le> t0"
    and "t0 \<le> deadline"
  shows "e \<le> t + uint x" and "t \<le> max t0 (e - uint x)" and "0 \<le> t" and "t < 2 ^ 62"
proof -
  have x: "as_i64 x = uint x" using assms(4) by (intro as_i64_id) simp
  have e: "e < 2 ^ 62" using assms(3,5) by simp
  show "e \<le> t + uint x"
    using saturating_sub_lower [OF e, of "uint x"] by (simp add: assms(6) x)
  have "i64_saturating_sub e (uint x) \<le> max t0 (e - uint x)"
    using assms(1,7) by (intro saturating_sub_upper [OF e]) auto
  then show "t \<le> max t0 (e - uint x)" by (simp add: assms(6) x)
  moreover have "e - uint x \<le> e" by simp
  ultimately show "t < 2 ^ 62"
    using assms(3,5,8) e by linarith
  show "0 \<le> t" using assms(1,6,7) by simp
qed

lemma check_base_time:
  assumes "check_base_invoice cs le (bundle_request_for quote deal sid now) destination hash secs invoice = Inr t0"
    and "0 \<le> now" and "now < deal_admission_deadline (art_payload deal)"
    and "deal_admission_deadline (art_payload deal) < 2 ^ 62" and "uint secs \<le> 3600"
  shows "now \<le> t0" and "t0 \<le> deal_admission_deadline (art_payload deal)"
    and "terms_base_fee_msat (quote_settlement_terms (art_payload quote)) = 0 \<Longrightarrow> t0 = now"
    and "t0 + uint secs \<le> max (now + uint secs) (deal_admission_deadline (art_payload deal))"
proof -
  let ?free = "terms_base_fee_msat (quote_settlement_terms (art_payload quote)) = 0"
  have "now \<le> t0 \<and> t0 \<le> deal_admission_deadline (art_payload deal) \<and> (?free \<longrightarrow> t0 = now) \<and>
      t0 + uint secs \<le> max (now + uint secs) (deal_admission_deadline (art_payload deal))"
  proof (cases ?free)
    case True
    then show ?thesis using assms(1,3) by (simp add: check_base_invoice_def)
  next
    case False
    then obtain d :: decoded_lightning_invoice where d: "di_expires_at d \<le> deal_admission_deadline (art_payload deal)"
        "t0 = max now (i64_saturating_sub (di_expires_at d) (as_i64 secs))"
      using check_base_Inr [OF assms(1) _ request_for_fields(1), simplified] by metis
    have "t0 \<le> max now (di_expires_at d - uint secs)"
      using lnd_times(2) [OF assms(2-5) d, of] assms(3) by simp
    moreover have "di_expires_at d - uint secs \<le> di_expires_at d" by simp
    then have "max now (di_expires_at d - uint secs) \<le> deal_admission_deadline (art_payload deal)"
      using d(1) assms(3) by (intro max.boundedI) linarith+
    ultimately have "t0 \<le> deal_admission_deadline (art_payload deal)"
      and "t0 + uint secs \<le> max (now + uint secs) (deal_admission_deadline (art_payload deal))"
      using d(1) by (linarith, auto simp: max_def split: if_splits)
    then show ?thesis
      using False d(2) by simp
  qed
  then show "now \<le> t0" and "t0 \<le> deal_admission_deadline (art_payload deal)"
    and "?free \<Longrightarrow> t0 = now"
    and "t0 + uint secs \<le> max (now + uint secs) (deal_admission_deadline (art_payload deal))"
    by blast+
qed

text \<open>
  The bundle as a whole expires at its creation time plus the longer of the two windows, which the
  issue does not compare with the deadline; with equal windows, or a free base fee and the longer
  window on the success leg, it stays within it.
\<close>

definition windows_ok :: "lightning_config \<Rightarrow> quote_settlement_terms \<Rightarrow> bool" where
  "windows_ok cfg terms \<longleftrightarrow> lc_base_invoice_expiry_secs cfg = lc_success_hold_expiry_secs cfg \<or>
     terms_base_fee_msat terms = 0 \<and> lc_base_invoice_expiry_secs cfg \<le> lc_success_hold_expiry_secs cfg"

lemma lnd_windows:
  assumes "effective_bundle_expiry_secs cfg (bundle_request_for quote deal sid now) = Inr (mb, mh)"
    and "lightning_config_ok cfg" and "0 \<le> now" and "deal_admission_deadline (art_payload deal) < 2 ^ 62"
    and "windows_ok cfg (quote_settlement_terms (art_payload quote))"
    and "b = guarded_lnd_invoice_expiry_secs mb" and "h = guarded_lnd_invoice_expiry_secs mh"
  shows "uint b \<le> uint (lc_base_invoice_expiry_secs cfg)"
    "uint b \<le> deal_admission_deadline (art_payload deal) - now" "uint b \<le> 3600"
    "uint h \<le> uint (lc_success_hold_expiry_secs cfg)"
    "uint h \<le> deal_admission_deadline (art_payload deal) - now" "uint h \<le> 3600" "uint b \<le> uint h"
    "terms_base_fee_msat (quote_settlement_terms (art_payload quote)) \<noteq> 0 \<Longrightarrow> uint b = uint h"
proof -
  note eff = effective_expiry [OF assms(1-4)] and secs = config_secs [OF assms(2)]
  have "1 \<le> uint mb" "1 \<le> uint mh" using eff secs by simp_all
  note g = this [THEN guarded_bounds(2)]
  show "uint b \<le> uint (lc_base_invoice_expiry_secs cfg)"
    "uint b \<le> deal_admission_deadline (art_payload deal) - now" "uint b \<le> 3600"
    "uint h \<le> uint (lc_success_hold_expiry_secs cfg)"
    "uint h \<le> deal_admission_deadline (art_payload deal) - now" "uint h \<le> 3600"
    using g eff secs by (auto simp: assms(6,7))
  show "uint b \<le> uint h"
    "terms_base_fee_msat (quote_settlement_terms (art_payload quote)) \<noteq> 0 \<Longrightarrow> uint b = uint h"
    using assms(5) eff guarded_mono [of mb mh] guarded_mono [of mh mb]
    by (auto simp: assms(6,7) windows_ok_def word_le_def min_def split: if_splits)
qed

lemma lnd_base_leg:
  assumes ctx: "issue_context cs nd destination quote deal now" "destination \<noteq> []" "bolt11_laws le"
    and check: "check_base_invoice cs le (bundle_request_for quote deal sid now) destination base_hash b base_invoice = Inr t0"
    and free: "terms_base_fee_msat (quote_settlement_terms (art_payload quote)) = 0 \<Longrightarrow>
      base_invoice = mock_bolt11 ''base'' 0 base_hash (now + uint b)" "CHR ''-'' \<notin> set base_hash"
    and times: "now < deal_admission_deadline (art_payload deal)"
      "uint b \<le> uint (lc_base_invoice_expiry_secs (nd_config nd))"
      "uint b \<le> deal_admission_deadline (art_payload deal) - now" "t0 \<le> t" "now \<le> t" "t < 2 ^ 62"
    and fields: "art_created_at bundle = t" "ib_destination_identity (art_payload bundle) = destination"
      "ib_base_fee (art_payload bundle) =
         \<lparr>ibl_amount_msat = terms_base_fee_msat (quote_settlement_terms (art_payload quote)),
          ibl_invoice_bolt11 = base_invoice, ibl_invoice_hash = sha256_hex cs base_invoice,
          ibl_payment_hash = base_hash, ibl_state = st\<rparr>"
  shows "\<exists>d. leg_ok cs le bundle quote deal ''base'' (ib_base_fee (art_payload bundle))
    (lc_base_invoice_expiry_secs (nd_config nd)) d"
proof -
  note c = issue_contextD [OF ctx(1)]
  let ?max = "lc_base_invoice_expiry_secs (nd_config nd)"
  have max: "uint ?max \<le> 3600" using config_secs(2) [OF c(4)] .
  have add: "i64_add t (as_i64 ?max) = t + uint ?max"
    using add_secs [of t ?max] times(5,6) c(8) max by simp
  show ?thesis
  proof (cases "terms_base_fee_msat (quote_settlement_terms (art_payload quote)) = 0")
    case True
    then show ?thesis
      using free times c(8-10) max
      by (intro mock_leg_ok [where e = "now + uint b"]) (auto simp: fields add in_i64_secs)
  next
    case False
    then obtain d where d: "decode_lightning_invoice cs le base_invoice = Inr d"
        "di_amount_msat d = terms_base_fee_msat (quote_settlement_terms (art_payload quote))"
        "di_payment_hash d = base_hash" "di_expires_at d \<le> deal_admission_deadline (art_payload deal)"
        "di_destination_identity d = destination"
        "t0 = max now (i64_saturating_sub (di_expires_at d) (as_i64 b))"
      using check_base_Inr [OF check _ request_for_fields(1)] by auto
    have "di_expires_at d \<le> t0 + uint b"
      using lnd_times(1) [OF c(8) times(1) c(9) _ d(4,6)] times(1,2) max by simp
    then have "di_expires_at d \<le> t + uint ?max"
      using times(2,4) by linarith
    then show ?thesis
      using d(1-5) c(10) ctx(2) by (intro exI [of _ d] wallet_leg_ok [OF ctx(3)]) (auto simp: fields add)
  qed
qed

lemma lnd_bundle_valid:
  assumes ctx: "issue_context cs nd destination quote deal now"
    and issue: "issue_lnd_rest_invoice_bundle cs le nd fresh (bundle_request_for quote deal sid now) s = (Inr session, s')"
    and dest: "fst (resolve_lightning_destination_identity cs nd s) = Inr destination" "destination \<noteq> []"
    and le: "bolt11_laws le"
    and windows: "windows_ok (nd_config nd) (quote_settlement_terms (art_payload quote))"
  shows "bv_valid (validate_lightning_invoice_bundle cs le (ls_bundle session) quote deal
    (Some (deal_requester_id (art_payload deal))))"
proof (rule issue_lnd_Inr [OF issue], goal_cases)
  case (1 dst b h base_hash base_invoice success_invoice t0 t session_id mb mh s1)
  note c = issue_contextD [OF ctx]
  let ?deadline = "deal_admission_deadline (art_payload deal)" and ?cfg = "nd_config nd"
  note eff = effective_expiry [OF 1(1) c(4,8,9)] and cfg = config_secs [OF c(4)]
  note w = lnd_windows [OF 1(1) c(4,8,9) windows 1(2,3)]
  have dst: "dst = destination" using 1(4) dest(1) by simp
  note t0 = check_base_time [OF 1(7) c(8) eff(3) c(9) w(3)]
  obtain d where d: "decode_lightning_invoice cs le success_invoice = Inr d"
      "di_amount_msat d = terms_success_fee_msat (quote_settlement_terms (art_payload quote))"
      "di_payment_hash d = deal_success_payment_hash (art_payload deal)" "di_expires_at d \<le> ?deadline"
      "di_destination_identity d = destination" "lc_min_final_cltv_expiry ?cfg \<le> di_min_final_cltv_expiry d"
      "t = max t0 (i64_saturating_sub (di_expires_at d) (as_i64 h))"
    using check_success_Inr [OF 1(8) request_for_fields(1)] dst by auto
  note t = lnd_times [OF c(8) eff(3) c(9) w(6) d(4,7) t0(1,2)]
  have end_h: "t + uint h \<le> ?deadline"
    using t(2) t0(3,4) w(5,8) d(4)
    by (cases "terms_base_fee_msat (quote_settlement_terms (art_payload quote)) = 0") auto
  note times = add_secs [OF t(3,4)] and fields = sign_bundle_Inr [OF 1(9), simplified]
  have base: "\<exists>d. leg_ok cs le (ls_bundle session) quote deal ''base''
      (ib_base_fee (art_payload (ls_bundle session))) (lc_base_invoice_expiry_secs ?cfg) d"
    using 1(5-7) w(1-3) eff(3) t0(1) t(4) d(7) sha256_hex_no_dash [OF c(1)] c(8,9)
    by (intro lnd_base_leg [OF ctx dest(2) le, where t = t])
      (auto simp: fields dst deterministic_base_fee_payment_hash_def add_secs)
  have success: "leg_ok cs le (ls_bundle session) quote deal ''hold''
      (ib_success_fee (art_payload (ls_bundle session))) (lc_success_hold_expiry_secs ?cfg) d"
    using d(1-6) t(1) w(4) c(6,10) cfg(4) dest(2)
    by (intro wallet_leg_ok [OF le]) (auto simp: fields times dst terms_of_config_def)
  have "ib_expires_at (art_payload (ls_bundle session)) \<le> ?deadline"
    using end_h w(7) by (simp add: fields times w(3,6))
  then show ?case
    using signed_bundle_valid [OF c(1-3,5) _ 1(9) _ _ _ _ success] base c(6)
    by (auto simp: dst)
qed

section \<open>No invoice is left behind\<close>

lemma ln_then_Inl:
  "ln_then f g s = (Inl e, s') \<longleftrightarrow>
     f s = (Inl e, s') \<or> (\<exists>x s1. f s = (Inr x, s1) \<and> g x s1 = (Inl e, s'))"
  by (auto simp: ln_then_def split: prod.split sum.split)

lemma ln_lift_Inl: "ln_lift r s = (Inl e, s') \<longleftrightarrow> r = Inl e \<and> s' = s"
  by (auto simp: ln_lift_def)

lemma call_wallet_logs:
  "call_wallet f s = (r, s') \<Longrightarrow> ln_issued s' = ln_issued s \<and> ln_canceled s' = ln_canceled s \<and>
     ln_bundles s' = ln_bundles s"
  by (auto simp: call_wallet_def split: prod.splits)

lemma add_hold_logs:
  "add_hold_invoice client h a secs cltv memo s = (Inr i, s') \<Longrightarrow>
     ln_issued s' = ln_issued s @ [h] \<and> ln_canceled s' = ln_canceled s"
  "add_hold_invoice client h a secs cltv memo s = (Inl e, s') \<Longrightarrow>
     ln_issued s' = ln_issued s \<and> ln_canceled s' = ln_canceled s"
  by (auto simp: add_hold_invoice_def split: prod.splits sum.splits dest!: call_wallet_logs)

lemma resolve_logs:
  "resolve_lightning_destination_identity cs nd s = (r, s') \<Longrightarrow>
     ln_issued s' = ln_issued s \<and> ln_canceled s' = ln_canceled s"
  by (auto simp: resolve_lightning_destination_identity_def split: option.splits if_splits sum.splits prod.splits
      dest!: call_wallet_logs)

lemma cancel_each_logs:
  "cancel_each m client hs s = (fs, s') \<Longrightarrow>
     ln_issued s' = ln_issued s \<and> ln_canceled s' = ln_canceled s @ hs \<and> ln_bundles s' = ln_bundles s"
proof (induction hs arbitrary: s fs s')
  case (Cons h hs)
  then show ?case
    by (auto split: prod.splits dest!: call_wallet_logs Cons.IH)
qed simp

lemma cancel_logs:
  "cancel_lnd_invoices client hs s = (r, s') \<Longrightarrow>
     ln_issued s' = ln_issued s \<and> ln_canceled s' = ln_canceled s @ hs"
  by (auto simp: cancel_lnd_invoices_def cancel_result_def split: prod.splits dest!: cancel_each_logs)

lemma or_cleanup_Inl:
  assumes "or_cleanup client hs f s = (Inl e, s')"
  obtains e1 s1 where "f s = (Inl e1, s1)" and "ln_issued s' = ln_issued s1"
    and "ln_canceled s' = ln_canceled s1 @ hs"
  using assms
  by (auto simp: or_cleanup_def cleanup_failed_lnd_bundle_issue_def split: prod.splits sum.splits
      dest!: cancel_logs)

lemma exact_invoice_bundle:
  "exact_numbers (invoice_bundle_value p) \<longleftrightarrow> \<bar>ib_expires_at p\<bar> \<le> 2 ^ 53 \<and>
     uint (ibl_amount_msat (ib_base_fee p)) \<le> 2 ^ 53 \<and> uint (ibl_amount_msat (ib_success_fee p)) \<le> 2 ^ 53"
proof -
  have "exact_numbers (invoice_bundle_leg_state_value x)" for x
    by (cases x) simp_all
  then show ?thesis
    by (auto simp: invoice_bundle_value_def invoice_bundle_leg_value_def exact_numbers_mk_obj)
qed

text \<open>Signing a bundle cannot fail while its numbers are exact.\<close>

lemma sign_bundle_total:
  assumes "jcs_laws cs" and "uint (br_base_fee_msat (sg_request sg)) \<le> 2 ^ 53"
    and "uint (br_success_fee_msat (sg_request sg)) \<le> 2 ^ 53"
    and "0 \<le> br_created_at (sg_request sg)" and "br_created_at (sg_request sg) + 3600 \<le> 2 ^ 53"
    and "uint (sg_base_invoice_expiry_secs sg) \<le> 3600" and "uint (sg_success_hold_expiry_secs sg) \<le> 3600"
  shows "\<exists>session. sign_lightning_invoice_bundle cs nd sg = Inr session"
proof -
  let ?t = "br_created_at (sg_request sg)"
  have add: "i64_add ?t (as_i64 x) = ?t + uint x" if "uint x \<le> 3600" for x :: u64
    using that assms(4,5) by (intro add_secs) simp_all
  have nonneg: "0 \<le> ?t + uint x" for x :: u64 using assms(4) by simp
  have "\<bar>max (?t + uint (sg_base_invoice_expiry_secs sg)) (?t + uint (sg_success_hold_expiry_secs sg))\<bar> \<le> 2 ^ 53"
    using assms(5-7) nonneg [of "sg_base_invoice_expiry_secs sg"] nonneg [of "sg_success_hold_expiry_secs sg"]
    by (simp only: abs_of_nonneg max_def split: if_split) linarith
  then have "\<exists>a. sign_artifact cs invoice_bundle_value (sg_provider_id sg)
      (sign_message_hex cs (nd_signing_key nd)) TRANSPORT_TYPE_INVOICE_BUNDLE ?t p = Inr a"
    if "p = \<lparr>ib_provider_id = sg_provider_id sg, ib_requester_id = br_requester_id (sg_request sg),
        ib_quote_hash = br_quote_hash (sg_request sg), ib_deal_hash = br_deal_hash (sg_request sg),
        ib_expires_at = max (i64_add ?t (as_i64 (sg_base_invoice_expiry_secs sg)))
          (i64_add ?t (as_i64 (sg_success_hold_expiry_secs sg))),
        ib_destination_identity = sg_destination_identity sg,
        ib_base_fee = \<lparr>ibl_amount_msat = br_base_fee_msat (sg_request sg),
          ibl_invoice_bolt11 = sg_base_invoice_bolt11 sg,
          ibl_invoice_hash = sha256_hex cs (sg_base_invoice_bolt11 sg),
          ibl_payment_hash = sg_base_payment_hash sg, ibl_state = sg_base_state sg\<rparr>,
        ib_success_fee = \<lparr>ibl_amount_msat = br_success_fee_msat (sg_request sg),
          ibl_invoice_bolt11 = sg_success_hold_invoice_bolt11 sg,
          ibl_invoice_hash = sha256_hex cs (sg_success_hold_invoice_bolt11 sg),
          ibl_payment_hash = br_success_payment_hash (sg_request sg), ibl_state = sg_success_state sg\<rparr>,
        ib_min_final_cltv_expiry = lc_min_final_cltv_expiry (nd_config nd)\<rparr>" for p
    using assms(2-5) that
    by (intro sign_artifact_total [OF assms(1)])
      (simp_all add: exact_invoice_bundle add assms(6,7))
  then show ?thesis
    by (fastforce simp: sign_lightning_invoice_bundle_def Let_def)
qed

lemma sign_bundle_legs:
  assumes "sign_lightning_invoice_bundle cs nd sg = Inr session"
  shows "ls_base_state session = sg_base_state sg \<and> ls_success_state session = sg_success_state sg \<and>
    ibl_payment_hash (ib_base_fee (art_payload (ls_bundle session))) = sg_base_payment_hash sg \<and>
    ibl_amount_msat (ib_base_fee (art_payload (ls_bundle session))) = br_base_fee_msat (sg_request sg) \<and>
    ibl_payment_hash (ib_success_fee (art_payload (ls_bundle session))) = br_success_payment_hash (sg_request sg)"
  using sign_bundle_Inr [OF assms] by simp

text \<open>What the issue against the wallet leaves in the logs, on success and on failure.\<close>

lemma issue_lnd_issued:
  assumes "issue_lnd_rest_invoice_bundle cs le nd fresh request s = (Inr session, s')"
  shows "ln_canceled s' = ln_canceled s"
    and "ln_issued s' = ln_issued s @
      (if ls_base_state session = IblOpen then [ibl_payment_hash (ib_base_fee (art_payload (ls_bundle session)))]
       else []) @ [ibl_payment_hash (ib_success_fee (art_payload (ls_bundle session)))]"
    and "ls_base_state session = IblOpen \<longleftrightarrow> 0 < ibl_amount_msat (ib_base_fee (art_payload (ls_bundle session)))"
    and "ls_success_state session = IblOpen"
  using assms
  by (auto simp: issue_lnd_rest_invoice_bundle_def Let_def ln_simps word_gt_0 split: prod.splits if_splits
      dest!: resolve_logs add_hold_logs(1) sign_bundle_legs)

lemma issued_bundle_signs:
  assumes "effective_bundle_expiry_secs (nd_config nd) (bundle_request_for quote deal sid now) = Inr (mb, mh)"
    and "and_then (check_base_invoice cs le (bundle_request_for quote deal sid now) destination hash
        (guarded_lnd_invoice_expiry_secs mb) base_invoice)
      (\<lambda>t. check_success_invoice cs le (nd_config nd) (bundle_request_for quote deal sid now) destination
        (guarded_lnd_invoice_expiry_secs mh) t success_invoice) = Inr t"
    and "jcs_laws cs" and "lightning_config_ok (nd_config nd)" and "0 \<le> now"
    and "deal_admission_deadline (art_payload deal) + 3600 \<le> 2 ^ 53"
    and "uint (terms_base_fee_msat (quote_settlement_terms (art_payload quote))) \<le> 2 ^ 53"
    and "uint (terms_success_fee_msat (quote_settlement_terms (art_payload quote))) \<le> 2 ^ 53"
    and "sg_request sg = (bundle_request_for quote deal sid now)\<lparr>br_created_at := t\<rparr>"
    and "sg_base_invoice_expiry_secs sg = guarded_lnd_invoice_expiry_secs mb"
    and "sg_success_hold_expiry_secs sg = guarded_lnd_invoice_expiry_secs mh"
  shows "sign_lightning_invoice_bundle cs nd sg \<noteq> Inl e"
proof -
  let ?deadline = "deal_admission_deadline (art_payload deal)"
  have deadline: "?deadline < 2 ^ 62" using assms(6) by simp
  note eff = effective_expiry [OF assms(1,4,5) deadline] and cfg = config_secs [OF assms(4)]
  have "1 \<le> uint mb" "1 \<le> uint mh" using eff cfg by simp_all
  then have secs: "uint (guarded_lnd_invoice_expiry_secs mb) \<le> 3600" "uint (guarded_lnd_invoice_expiry_secs mh) \<le> 3600"
    using guarded_bounds(2) [of mb] guarded_bounds(2) [of mh] eff cfg by simp_all
  obtain t0 where base: "check_base_invoice cs le (bundle_request_for quote deal sid now) destination hash
        (guarded_lnd_invoice_expiry_secs mb) base_invoice = Inr t0"
    and success: "check_success_invoice cs le (nd_config nd) (bundle_request_for quote deal sid now) destination
        (guarded_lnd_invoice_expiry_secs mh) t0 success_invoice = Inr t"
    using assms(2) by (auto simp: result_simps)
  note t0 = check_base_time [OF base assms(5) eff(3) deadline secs(1)]
  obtain d :: decoded_lightning_invoice where d: "di_expires_at d \<le> ?deadline"
      "t = max t0 (i64_saturating_sub (di_expires_at d) (as_i64 (guarded_lnd_invoice_expiry_secs mh)))"
    using check_success_Inr [OF success request_for_fields(1)] by blast
  note t = lnd_times [OF assms(5) eff(3) deadline secs(2) d t0(1,2)]
  have "di_expires_at d - uint (guarded_lnd_invoice_expiry_secs mh) \<le> di_expires_at d" by simp
  then have "t \<le> ?deadline" using t(2) t0(2) d(1) by linarith
  then show ?thesis
    using sign_bundle_total [OF assms(3), of sg nd] t(3) secs assms(6-8) by (auto simp: assms(9-11))
qed

lemma issue_lnd_failed:
  assumes "issue_lnd_rest_invoice_bundle cs le nd fresh (bundle_request_for quote deal sid now) s = (Inl e, s')"
    and "jcs_laws cs" and "lightning_config_ok (nd_config nd)" and "0 \<le> now"
    and "deal_admission_deadline (art_payload deal) + 3600 \<le> 2 ^ 53"
    and "uint (terms_base_fee_msat (quote_settlement_terms (art_payload quote))) \<le> 2 ^ 53"
    and "uint (terms_success_fee_msat (quote_settlement_terms (art_payload quote))) \<le> 2 ^ 53"
    and "ln_issued s = []" and "ln_canceled s = []"
  shows "set (ln_issued s') \<subseteq> set (ln_canceled s')"
  using assms(1,8,9) issued_bundle_signs [OF _ _ assms(2-7)]
  by (auto simp: issue_lnd_rest_invoice_bundle_def Let_def ln_simps ln_then_Inl ln_lift_Inl
      split: prod.splits if_splits dest!: resolve_logs add_hold_logs elim!: or_cleanup_Inl)

end
