(* ===== verification/Lightning_Properties.thy ===== *)
theory Lightning_Properties
  imports Lightning_Issue
begin

text \<open>
  Properties of the Lightning settlement code: what an accepted invoice or bundle guarantees the
  payer, that bundles issued by the provider are the ones the requester accepts, that a failed
  issue leaves no invoice behind, and that the states of a bundle's legs only move forward.
\<close>

section \<open>Leg states move forward\<close>

definition final_leg_states :: "string set" where
  "final_leg_states = {''settled'', ''canceled'', ''expired''}"

text \<open>A final state stays, and an accepted leg can only become final.\<close>

definition leg_forward :: "string \<Rightarrow> string \<Rightarrow> bool" where
  "leg_forward old new \<longleftrightarrow>
     old = new \<or> old \<notin> final_leg_states \<and> (old = ''accepted'' \<longrightarrow> new \<in> final_leg_states)"

definition row_forward :: "bundle_row \<Rightarrow> bundle_row \<Rightarrow> bool" where
  "row_forward r r' \<longleftrightarrow> lb_session_id r' = lb_session_id r \<and> lb_bundle_json r' = lb_bundle_json r \<and>
     leg_forward (lb_base_state r) (lb_base_state r') \<and> leg_forward (lb_success_state r) (lb_success_state r')"

definition bundles_forward :: "bundle_row list \<Rightarrow> bundle_row list \<Rightarrow> bool" where
  "bundles_forward t t' \<longleftrightarrow> (\<forall>r\<in>set t. \<exists>r'\<in>set t'. row_forward r r')"

lemma leg_forward_next: "leg_forward old (next_leg_state old (invoice_leg_state_str x))"
  by (cases x) (simp_all add: leg_forward_def next_leg_state_def final_leg_states_def)

lemma leg_forward_refl [simp]: "leg_forward a a"
  by (simp add: leg_forward_def)

lemma leg_forward_trans: "leg_forward a b \<Longrightarrow> leg_forward b c \<Longrightarrow> leg_forward a c"
  unfolding leg_forward_def by metis

lemma row_forward_trans: "row_forward a b \<Longrightarrow> row_forward b c \<Longrightarrow> row_forward a c"
  by (auto simp: row_forward_def intro: leg_forward_trans)

lemma bundles_forward_refl [simp]: "bundles_forward t t"
  by (auto simp: bundles_forward_def row_forward_def)

lemma bundles_forward_trans: "bundles_forward a b \<Longrightarrow> bundles_forward b c \<Longrightarrow> bundles_forward a c"
  unfolding bundles_forward_def by (meson row_forward_trans)

lemma bundles_forward_map: "(\<And>r. row_forward r (f r)) \<Longrightarrow> bundles_forward t (map f t)"
  unfolding bundles_forward_def by auto

lemma update_bundle_states_forward:
  "bundles_forward t (snd (update_bundle_states sid b h now t))"
  unfolding update_bundle_states_def update_where_def
  by (simp, rule bundles_forward_map) (simp add: row_forward_def leg_forward_next)

text \<open>What every operation on a bundle promises of the table, and what follows for a leg.\<close>

locale forward_op =
  fixes op :: "'w lightning_state \<Rightarrow> 'r \<times> 'w lightning_state"
  assumes forward: "bundles_forward (ln_bundles s) (ln_bundles (snd (op s)))"
begin

lemma keeps_final_leg:
  assumes "r \<in> set (ln_bundles s)" and "lb_success_state r \<in> final_leg_states"
  shows "\<exists>r'\<in>set (ln_bundles (snd (op s))). lb_session_id r' = lb_session_id r \<and>
    lb_success_state r' = lb_success_state r"
proof -
  obtain r' where "r' \<in> set (ln_bundles (snd (op s)))" "row_forward r r'"
    using forward [of s] assms(1) unfolding bundles_forward_def by blast
  then show ?thesis
    using assms(2) by (intro bexI [of _ r']) (auto simp: row_forward_def leg_forward_def)
qed

lemma forward_from:
  "bundles_forward t (ln_bundles s) \<Longrightarrow> bundles_forward t (ln_bundles (snd (op s)))"
  using forward [of s] bundles_forward_trans by blast

end

lemma forward_opI: "(\<And>s. bundles_forward (ln_bundles s) (ln_bundles (snd (op s)))) \<Longrightarrow> forward_op op"
  by unfold_locales

lemma forward_then:
  assumes "forward_op f" and "\<And>x. forward_op (g x)"
  shows "forward_op (ln_then f g)"
proof (rule forward_opI)
  fix s
  show "bundles_forward (ln_bundles s) (ln_bundles (snd (ln_then f g s)))"
    using forward_op.forward [OF assms(1), of s] forward_op.forward_from [OF assms(2)]
    by (cases "f s") (auto simp: ln_then_def split: sum.split)
qed

lemma forward_lift: "forward_op (ln_lift r)"
  by (rule forward_opI) (simp add: ln_lift_def)

lemma forward_same_table: "(\<And>s r s'. op s = (r, s') \<Longrightarrow> ln_bundles s' = ln_bundles s) \<Longrightarrow> forward_op op"
  by (rule forward_opI) (metis bundles_forward_refl surjective_pairing)

lemma forward_wallet_calls:
  "forward_op (lookup_state client h)" "forward_op (settle_base_fee cs nd client sid)"
  "forward_op (cancel_lnd_invoices client hs)" "forward_op (cancel_lnd_invoices_allowing_missing client hs)"
  "forward_op (\<lambda>s. case call_wallet f s of (r, s') \<Rightarrow> (map_err wallet_error_string r, s'))"
  by (rule forward_same_table;
      auto simp: lookup_state_def settle_base_fee_def cancel_lnd_invoices_def
        cancel_lnd_invoices_allowing_missing_def cancel_result_def
        split: prod.splits sum.splits wallet_error.splits dest!: call_wallet_logs cancel_each_logs)+

lemma forward_update: "forward_op (update_lightning_invoice_bundle_states bt sid b h now)"
proof (rule forward_opI)
  fix s
  show "bundles_forward (ln_bundles s) (ln_bundles (snd (update_lightning_invoice_bundle_states bt sid b h now s)))"
    using update_bundle_states_forward [of "ln_bundles s" sid b h now]
    by (auto simp: update_lightning_invoice_bundle_states_def split: prod.split bool.split)
qed

lemma forward_update_or_fail: "forward_op (update_or_fail bt missing sid b h now)"
  unfolding update_or_fail_def by (intro forward_then forward_update forward_lift)

lemma forward_if: "(c \<Longrightarrow> forward_op f) \<Longrightarrow> (\<not> c \<Longrightarrow> forward_op g) \<Longrightarrow> forward_op (if c then f else g)"
  by simp

lemmas forward_intros =
  forward_then forward_if forward_lift forward_update forward_update_or_fail forward_wallet_calls

interpretation cancel_forward: forward_op "cancel_lightning_invoice_bundle nd session" for nd session
  unfolding cancel_lightning_invoice_bundle_def Let_def
  by (cases "lc_mode (nd_config nd)") (simp_all add: forward_intros)

interpretation sync_forward: forward_op
  "sync_lightning_invoice_bundle_session cs le bt nd clock session" for cs le bt nd clock session
proof -
  have "forward_op (sync_with_wallet cs bt nd now session)" for now
    unfolding sync_with_wallet_def Let_def by (intro forward_intros)
  then show "forward_op (sync_lightning_invoice_bundle_session cs le bt nd clock session)"
    unfolding sync_lightning_invoice_bundle_session_def
    by (cases clock; cases "lc_mode (nd_config nd)")
      (auto intro!: forward_intros split: option.split prod.split)
qed

lemma forward_found: "forward_op (sync_found cs le bt nd clock found)"
  unfolding sync_found_def
  by (auto intro!: forward_intros sync_forward.forward_op_axioms split: option.split)

interpretation get_forward: forward_op "get_lightning_invoice_bundle cs le bt nd clock sid"
  for cs le bt nd clock sid
  unfolding get_lightning_invoice_bundle_def
  by (intro forward_then forward_found) (rule forward_same_table, simp)

interpretation get_by_deal_forward: forward_op
  "get_lightning_invoice_bundle_by_deal_hash cs le bt nd clock deal_hash" for cs le bt nd clock deal_hash
  unfolding get_lightning_invoice_bundle_by_deal_hash_def
  by (intro forward_then forward_found) (rule forward_same_table, simp)

interpretation settle_forward: forward_op
  "settle_lightning_success_hold_invoice cs le bt nd now clock session preimage"
  for cs le bt nd now clock session preimage
  unfolding settle_lightning_success_hold_invoice_def
  by (cases "lc_mode (nd_config nd)") (auto intro!: forward_intros sync_forward.forward_op_axioms)

interpretation cancel_sync_forward: forward_op
  "cancel_and_sync_lightning_invoice_bundle cs le bt nd now clock session"
  for cs le bt nd now clock session
  unfolding cancel_and_sync_lightning_invoice_bundle_def Let_def
  by (cases "lc_mode (nd_config nd)")
    (auto intro!: forward_intros sync_forward.forward_op_axioms cancel_forward.forward_op_axioms)

interpretation cancel_pending_forward: forward_op
  "cancel_pending_lightning_materialization_request cs nd request" for cs nd request
  unfolding cancel_pending_lightning_materialization_request_def
  by (cases "lc_mode (nd_config nd)") (auto intro!: forward_intros)

text \<open>Operations that leave the table alone.\<close>

definition keeps_table :: "('w lightning_state \<Rightarrow> 'r \<times> 'w lightning_state) \<Rightarrow> bool" where
  "keeps_table op \<longleftrightarrow> (\<forall>s. ln_bundles (snd (op s)) = ln_bundles s)"

lemma keeps_tableI: "(\<And>s r s'. op s = (r, s') \<Longrightarrow> ln_bundles s' = ln_bundles s) \<Longrightarrow> keeps_table op"
  unfolding keeps_table_def by (metis surjective_pairing)

lemma keeps_table_then:
  "keeps_table f \<Longrightarrow> (\<And>x. keeps_table (g x)) \<Longrightarrow> keeps_table (ln_then f g)"
  by (auto simp: keeps_table_def ln_then_def split: prod.split sum.split) (metis snd_conv)+

lemma keeps_table_basic:
  "keeps_table (ln_lift r)" "keeps_table (add_hold_invoice client h a secs cltv memo)"
  "keeps_table (resolve_lightning_destination_identity cs nd)"
  "keeps_table (cancel_lnd_invoices client hs)"
  by (rule keeps_tableI;
      auto simp: ln_lift_def add_hold_invoice_def resolve_lightning_destination_identity_def
        cancel_lnd_invoices_def cancel_result_def
        split: prod.splits sum.splits option.splits if_splits dest!: call_wallet_logs cancel_each_logs)+

lemma keeps_table_cleanup: "keeps_table f \<Longrightarrow> keeps_table (or_cleanup client hs f)"
  using keeps_table_basic(4) [of client hs]
  by (auto simp: keeps_table_def or_cleanup_def cleanup_failed_lnd_bundle_issue_def
      split: prod.split sum.split) (metis snd_conv)+

lemma keeps_table_if: "keeps_table f \<Longrightarrow> keeps_table g \<Longrightarrow> keeps_table (if c then f else g)"
  by simp

lemma issue_keeps_table: "keeps_table (issue_lightning_invoice_bundle cs le nd fresh request)"
proof -
  have "keeps_table (issue_lnd_rest_invoice_bundle cs le nd fresh request)"
    unfolding issue_lnd_rest_invoice_bundle_def Let_def case_prod_beta
    by (intro keeps_table_then keeps_table_cleanup keeps_table_basic keeps_table_if)
  then show ?thesis
    unfolding issue_lightning_invoice_bundle_def
    by (cases "lc_mode (nd_config nd)") (simp_all add: keeps_table_basic)
qed

lemma create_forward:
  assumes "\<And>session s1. issue_lightning_invoice_bundle cs le nd fresh request s = (Inr session, s1)
    \<Longrightarrow> ls_session_id session \<notin> lb_session_id ` set (ln_bundles s)"
  shows "bundles_forward (ln_bundles s)
    (ln_bundles (snd (create_lightning_invoice_bundle cs le bt nd fresh request s)))"
proof (cases "issue_lightning_invoice_bundle cs le nd fresh request s")
  case (Pair r s1)
  have table: "ln_bundles s1 = ln_bundles s"
    using issue_keeps_table [of cs le nd fresh request] Pair unfolding keeps_table_def by (metis snd_conv)
  show ?thesis
  proof (cases r)
    case (Inl e)
    then show ?thesis using Pair table by (simp add: create_lightning_invoice_bundle_def ln_then_def)
  next
    case (Inr session)
    then have fresh: "filter (\<lambda>x. lb_session_id x \<noteq> ls_session_id session) (ln_bundles s) = ln_bundles s"
      using assms [of session s1] Pair by (intro filter_True ballI notI) (metis imageI)
    have grow: "bundles_forward t (t @ [x])" for t x
      by (auto simp: bundles_forward_def row_forward_def)
    obtain res t where ins: "insert_lightning_invoice_bundle bt (ls_session_id session) (ls_bundle session)
        (ls_base_state session) (ls_success_state session) (ls_created_at session) (ln_bundles s) = (res, t)"
      by fastforce
    then have t: "bundles_forward (ln_bundles s) t"
      using grow by (auto simp: insert_lightning_invoice_bundle_def Let_def fresh split: sum.splits)
    then have "bundles_forward (ln_bundles s)
        (ln_bundles (snd (cancel_lightning_invoice_bundle nd session (s1\<lparr>ln_bundles := t\<rparr>))))"
      by (intro cancel_forward.forward_from) simp
    with t show ?thesis
      using Pair Inr table ins
      by (cases "cancel_lightning_invoice_bundle nd session (s1\<lparr>ln_bundles := t\<rparr>)")
        (simp add: create_lightning_invoice_bundle_def ln_then_def split: sum.split)
  qed
qed

lemma create_Inl:
  assumes "create_lightning_invoice_bundle cs le bt nd fresh request s = (Inl e, s')"
  shows "issue_lightning_invoice_bundle cs le nd fresh request s = (Inl e, s') \<or>
    (\<exists>session s1 t r. issue_lightning_invoice_bundle cs le nd fresh request s = (Inr session, s1) \<and>
       cancel_lightning_invoice_bundle nd session (s1\<lparr>ln_bundles := t\<rparr>) = (r, s'))"
proof (cases "issue_lightning_invoice_bundle cs le nd fresh request s")
  case (Pair x s1)
  show ?thesis
  proof (cases x)
    case (Inl e1)
    then show ?thesis
      using assms Pair by (simp add: create_lightning_invoice_bundle_def ln_then_def)
  next
    case (Inr session)
    obtain res t where ins: "insert_lightning_invoice_bundle bt (ls_session_id session) (ls_bundle session)
        (ls_base_state session) (ls_success_state session) (ls_created_at session) (ln_bundles s1) = (res, t)"
      by fastforce
    obtain r s2 where cancel: "cancel_lightning_invoice_bundle nd session (s1\<lparr>ln_bundles := t\<rparr>) = (r, s2)"
      by fastforce
    have "s' = s2"
      using assms Pair Inr ins cancel
      by (simp add: create_lightning_invoice_bundle_def ln_then_def split: sum.splits)
    with Pair Inr cancel show ?thesis by blast
  qed
qed

lemma cancel_bundle_logs:
  assumes "lc_mode (nd_config nd) = LmLndRest" and "lightning_wallet_of nd = Inr client"
    and "cancel_lightning_invoice_bundle nd session s = (r, s')"
  shows "ln_issued s' = ln_issued s"
    and "set (ln_canceled s') = set (ln_canceled s) \<union>
      (if 0 < ibl_amount_msat (ib_base_fee (art_payload (ls_bundle session))) \<and> leg_is_live (ls_base_state session)
       then {ibl_payment_hash (ib_base_fee (art_payload (ls_bundle session)))} else {}) \<union>
      (if leg_is_live (ls_success_state session)
       then {ibl_payment_hash (ib_success_fee (art_payload (ls_bundle session)))} else {})"
  using assms
  by (auto simp: cancel_lightning_invoice_bundle_def ln_then_def ln_lift_def Let_def split: if_splits
      dest!: cancel_logs)

text \<open>The node's calls, in any order; a created bundle has a session id the table does not have.\<close>

inductive lightning_step ::
  "crypto_env \<Rightarrow> lightning_env \<Rightarrow> bundle_text \<Rightarrow> 'w lightning_node \<Rightarrow> 'w lightning_state \<Rightarrow> 'w lightning_state \<Rightarrow> bool"
  for cs le bt nd where
  step_create:
    "(\<And>session s1. issue_lightning_invoice_bundle cs le nd fresh request s = (Inr session, s1)
        \<Longrightarrow> ls_session_id session \<notin> lb_session_id ` set (ln_bundles s)) \<Longrightarrow>
     lightning_step cs le bt nd s (snd (create_lightning_invoice_bundle cs le bt nd fresh request s))"
| step_get: "lightning_step cs le bt nd s (snd (get_lightning_invoice_bundle cs le bt nd clock sid s))"
| step_get_by_deal:
    "lightning_step cs le bt nd s (snd (get_lightning_invoice_bundle_by_deal_hash cs le bt nd clock h s))"
| step_update:
    "lightning_step cs le bt nd s (snd (update_lightning_invoice_bundle_states bt sid b st now s))"
| step_settle:
    "lightning_step cs le bt nd s
       (snd (settle_lightning_success_hold_invoice cs le bt nd now clock session preimage s))"
| step_cancel: "lightning_step cs le bt nd s (snd (cancel_lightning_invoice_bundle nd session s))"
| step_cancel_and_sync:
    "lightning_step cs le bt nd s
       (snd (cancel_and_sync_lightning_invoice_bundle cs le bt nd now clock session s))"
| step_cancel_pending:
    "lightning_step cs le bt nd s (snd (cancel_pending_lightning_materialization_request cs nd request s))"

lemma lightning_step_forward:
  "lightning_step cs le bt nd s s' \<Longrightarrow> bundles_forward (ln_bundles s) (ln_bundles s')"
  by (induction rule: lightning_step.induct)
    (simp_all add: create_forward get_forward.forward get_by_deal_forward.forward settle_forward.forward
      cancel_forward.forward cancel_sync_forward.forward cancel_pending_forward.forward
      forward_op.forward [OF forward_update])

section \<open>A sample node\<close>

text \<open>Its wallet accepts one hold invoice and then refuses.\<close>

definition sample_wallet :: "nat lightning_wallet" where
  "sample_wallet = \<lparr>w_get_info = (\<lambda>n. (Inr sample_destination, n)),
     w_add_hold_invoice = (\<lambda>h a e c m p n. if n = 0 then (Inr ''lnbc1'', 1) else (Inl (Backend ''busy''), n)),
     w_settle_invoice = (\<lambda>p n. (Inr (), n)), w_cancel_invoice = (\<lambda>h n. (Inr (), n)),
     w_lookup_invoice = (\<lambda>h n. (Inr InvOpen, n))\<rparr>"

definition sample_node :: "lightning_mode \<Rightarrow> nat lightning_node" where
  "sample_node mode = \<lparr>nd_config = \<lparr>lc_mode = mode, lc_destination_identity = Some sample_destination,
       lc_base_invoice_expiry_secs = 60, lc_success_hold_expiry_secs = 60, lc_min_final_cltv_expiry = 18\<rparr>,
     nd_accepts_lightning = True, nd_signing_key = provider_sk, nd_wallet = Some sample_wallet\<rparr>"

definition sample_lightning :: "bundle_row list \<Rightarrow> nat lightning_state" where
  "sample_lightning t = \<lparr>ln_bundles = t, ln_destination_cell = None, ln_wallet = 0, ln_issued = [], ln_canceled = []\<rparr>"

definition sample_le :: lightning_env where
  "sample_le = \<lparr>parse_bolt11 = (\<lambda>s. Inl ''not a BOLT11 invoice''), normalize_sec1 = Some\<rparr>"

definition sample_bundle_text :: bundle_text where
  "sample_bundle_text = \<lparr>bundle_to_string = (\<lambda>b. Inr (art_hash b)), bundle_from_str = (\<lambda>s. Inl ''unknown'')\<rparr>"

definition sample_bundle_row :: bundle_row where
  "sample_bundle_row = \<lparr>lb_session_id = ''deal-1'', lb_provider_id = [], lb_requester_id = [], lb_quote_hash = [],
     lb_deal_hash = [], lb_destination_identity = [], lb_base_invoice_hash = [], lb_base_payment_hash = [],
     lb_base_fee_msat = 0, lb_base_state = ''settled'', lb_success_invoice_hash = [],
     lb_success_payment_hash = [], lb_success_fee_msat = 5, lb_success_state = ''accepted'',
     lb_bundle_json = ''{}'', lb_created_at = 1, lb_updated_at = 1\<rparr>"

definition sample_prepaid_quote :: quote_artifact where
  "sample_prepaid_quote = sample_sign quote_value provider_sk ARTIFACT_TYPE_QUOTE
     ((art_payload sample_quote)\<lparr>quote_settlement_terms :=
       \<lparr>terms_method = ''lightning.prepaid.v1'', terms_destination_identity = sample_destination,
        terms_base_fee_msat = 3000, terms_success_fee_msat = 0, terms_max_base_invoice_expiry_secs = 60,
        terms_max_success_hold_expiry_secs = 0, terms_min_final_cltv_expiry = 0\<rparr>\<rparr>)"

definition sample_prepaid :: prepaid_lightning_invoice_validation where
  "sample_prepaid = \<lparr>pv_invoice_bolt11 = mock_bolt11 ''prepaid'' 3000 (sha256_hex reference_env []) 80,
     pv_expected_payment_hash = sha256_hex reference_env [], pv_expected_amount_sat = 3,
     pv_expected_destination_identity = None, pv_expected_network = None, pv_now = 60,
     pv_deal_admission_deadline = 90, pv_quote = sample_prepaid_quote\<rparr>"

lemma sample_issue_context: "issue_context reference_env (sample_node mode) sample_destination sample_quote sample_deal 20"
proof -
  have "escrow_deal reference_env provider_pk sample_quote sample_deal"
    using sample_verified(3,4)
    by (auto simp: escrow_deal_def verified_as_def sample_quote_def sample_deal_def)
  then show ?thesis
    using crypto_lawsD [OF reference_crypto_laws]
    by (simp add: issue_context_def sample_node_def lightning_config_ok_def terms_of_config_def
        sample_quote_def sample_deal_def sample_success_hash_def word_le_nat_alt)
qed

lemma sample_resolve:
  "resolve_lightning_destination_identity reference_env (sample_node mode) s = (Inr sample_destination, s)"
  "configured_lightning_destination_identity reference_env (sample_node mode) = sample_destination"
  by (simp_all add: resolve_lightning_destination_identity_def configured_lightning_destination_identity_def
      sample_node_def)

lemma reference_signs: "\<exists>session. sign_lightning_invoice_bundle reference_env nd sg = Inr session"
  by (simp add: sign_lightning_invoice_bundle_def sign_artifact_def payload_hash_def
      canonical_signing_bytes_def canonical_json_to_vec_def reference_env_def Let_def)

lemma sample_build:
  "\<exists>session. build_lightning_invoice_bundle reference_env (sample_node LmMock) []
     (bundle_request_for sample_quote sample_deal ''deal-1'' 20) = Inr session"
proof -
  have "effective_bundle_expiry_secs (nd_config (sample_node LmMock))
      (bundle_request_for sample_quote sample_deal ''deal-1'' 20) = Inr (60, 60)"
    by (simp add: effective_bundle_expiry_secs_def sample_node_def sample_deal_def i64_saturating_sub_def
        min_def word_le_nat_alt)
  then show ?thesis
    using reference_signs by (simp add: build_lightning_invoice_bundle_def Let_def)
qed

lemma sample_bolt11_laws: "bolt11_laws sample_le"
  by (simp add: bolt11_laws_def sample_le_def)

section \<open>Properties\<close>







text \<open>
  C18. A bundle that passes the requester's validation binds what its invoices ask for. The bundle is
  signed by the quote's signer and names this quote and deal; both invoices decode, and ask for
  exactly the quoted base and success fees; the success invoice pays to the hash the deal committed
  to; an invoice that names its payee names the quoted destination; and no invoice outlives the quote
  or the deal's admission deadline.
\<close>

theorem valid_bundle_binds_invoices:
  assumes "bv_valid (validate_lightning_invoice_bundle cs le bundle quote deal requester)"
  shows "verify_artifact cs invoice_bundle_value bundle \<and> art_signer bundle = art_signer quote \<and>
    ib_quote_hash (art_payload bundle) = art_hash quote \<and> ib_deal_hash (art_payload bundle) = art_hash deal \<and>
    (\<exists>b h. decode_lightning_invoice cs le (ibl_invoice_bolt11 (ib_base_fee (art_payload bundle))) = Inr b \<and>
       decode_lightning_invoice cs le (ibl_invoice_bolt11 (ib_success_fee (art_payload bundle))) = Inr h \<and>
       di_amount_msat b = terms_base_fee_msat (quote_settlement_terms (art_payload quote)) \<and>
       di_amount_msat h = terms_success_fee_msat (quote_settlement_terms (art_payload quote)) \<and>
       di_payment_hash h = deal_success_payment_hash (art_payload deal) \<and>
       (\<forall>d\<in>{b, h}.
          di_destination_identity d \<in>
            {[], terms_destination_identity (quote_settlement_terms (art_payload quote))} \<and>
          di_expires_at d \<le> quote_expires_at (art_payload quote) \<and>
          di_expires_at d \<le> deal_admission_deadline (art_payload deal)))"
proof -
  obtain b h where legs: "leg_ok cs le bundle quote deal ''base'' (ib_base_fee (art_payload bundle))
        (terms_max_base_invoice_expiry_secs (quote_settlement_terms (art_payload quote))) b"
      "leg_ok cs le bundle quote deal ''hold'' (ib_success_fee (art_payload bundle))
        (terms_max_success_hold_expiry_secs (quote_settlement_terms (art_payload quote))) h"
    and links: "bundle_link_issues cs bundle quote deal requester = []"
      "bundle_terms_issues bundle quote deal = []"
    using assms by (auto simp: validate_bundle_valid)
  from links have "verify_artifact cs invoice_bundle_value bundle \<and> art_signer bundle = art_signer quote \<and>
      ib_quote_hash (art_payload bundle) = art_hash quote \<and> ib_deal_hash (art_payload bundle) = art_hash deal"
    by (simp add: bundle_link_issues_def Let_def)
  moreover from links have
      "ib_destination_identity (art_payload bundle) = terms_destination_identity (quote_settlement_terms (art_payload quote))"
      "ibl_amount_msat (ib_base_fee (art_payload bundle)) = terms_base_fee_msat (quote_settlement_terms (art_payload quote))"
      "ibl_amount_msat (ib_success_fee (art_payload bundle)) = terms_success_fee_msat (quote_settlement_terms (art_payload quote))"
      "ibl_payment_hash (ib_success_fee (art_payload bundle)) = deal_success_payment_hash (art_payload deal)"
    by (simp_all add: bundle_terms_issues_def Let_def)
  ultimately show ?thesis
    using legs by (intro conjI exI [of _ b] exI [of _ h]) (simp_all add: leg_ok_def)
qed

theorem valid_bundle_binds_invoices_witness:
  "\<exists>(bundle :: invoice_bundle_artifact) h. art_signer bundle = art_signer sample_quote \<and>
     decode_lightning_invoice reference_env sample_le (ibl_invoice_bolt11 (ib_success_fee (art_payload bundle))) = Inr h \<and>
     di_amount_msat h = 2000"
proof -
  obtain session where build: "build_lightning_invoice_bundle reference_env (sample_node LmMock) []
     (bundle_request_for sample_quote sample_deal ''deal-1'' 20) = Inr session"
    using sample_build by blast
  have "issue_context reference_env (sample_node LmMock)
      (configured_lightning_destination_identity reference_env (sample_node LmMock)) sample_quote sample_deal 20"
    using sample_issue_context by (simp add: sample_resolve)
  from valid_bundle_binds_invoices [OF mock_bundle_valid [OF this build, of sample_le]]
  have "\<exists>h. art_signer (ls_bundle session) = art_signer sample_quote \<and>
      decode_lightning_invoice reference_env sample_le
        (ibl_invoice_bolt11 (ib_success_fee (art_payload (ls_bundle session)))) = Inr h \<and>
      di_amount_msat h = terms_success_fee_msat (quote_settlement_terms (art_payload sample_quote))"
    by blast
  then show ?thesis by (auto simp: sample_quote_def)
qed

text \<open>
  A prepaid invoice that the requester's check accepts is the one the signed quote allows: the
  quote verifies and uses prepaid settlement, the invoice asks for exactly the expected amount in
  millisatoshis (computed without wrapping) and that is the quoted fee, it pays to the expected hash
  and, when a destination is given, to the quoted destination, and it expires in the future, no later
  than the quoted window, the quote and the admission deadline.
\<close>

theorem accepted_prepaid_invoice_is_quoted:
  assumes "validate_prepaid_lightning_invoice cs le r = Inr ()"
  shows "verify_artifact cs quote_value (pv_quote r) \<and> validate_quote_artifact (pv_quote r) = Inr () \<and>
    terms_method (quote_settlement_terms (art_payload (pv_quote r))) = ''lightning.prepaid.v1'' \<and>
    (\<exists>d hash. decode_lightning_invoice cs le (pv_invoice_bolt11 r) = Inr d \<and>
       unat (di_amount_msat d) = 1000 * unat (pv_expected_amount_sat r) \<and>
       di_amount_msat d = terms_base_fee_msat (quote_settlement_terms (art_payload (pv_quote r))) \<and>
       hex_decode cs (pv_expected_payment_hash r) = Some hash \<and> length hash = 32 \<and>
       di_payment_hash d = hex_encode cs hash \<and>
       (pv_expected_destination_identity r \<noteq> None \<longrightarrow>
          normalize_lightning_destination_identity cs le
            (terms_destination_identity (quote_settlement_terms (art_payload (pv_quote r)))) =
              Inr (di_destination_identity d)) \<and>
       pv_now r < di_expires_at d \<and>
       di_expires_at d \<le> pv_now r +
         uint (terms_max_base_invoice_expiry_secs (quote_settlement_terms (art_payload (pv_quote r)))) \<and>
       di_expires_at d \<le> quote_expires_at (art_payload (pv_quote r)) \<and>
       di_expires_at d \<le> pv_deal_admission_deadline r)"
proof -
  from assms obtain d c hash where d: "decode_lightning_invoice cs le (pv_invoice_bolt11 r) = Inr d"
      "checked_mul (pv_expected_amount_sat r) 1000 = Some c"
      "terms_base_fee_msat (quote_settlement_terms (art_payload (pv_quote r))) = c" "di_amount_msat d = c"
      "hex_decode cs (pv_expected_payment_hash r) = Some hash" "length hash = 32"
      "di_payment_hash d = hex_encode cs hash"
      "prepaid_destination_checks cs le (pv_quote r) (pv_expected_destination_identity r) d = Inr ()"
      "prepaid_expiry_checks (pv_quote r) (pv_now r) (pv_deal_admission_deadline r) d = Inr ()"
    and quote: "verify_artifact cs quote_value (pv_quote r)" "validate_quote_artifact (pv_quote r) = Inr ()"
      "terms_method (quote_settlement_terms (art_payload (pv_quote r))) = ''lightning.prepaid.v1''"
    by (auto simp: validate_prepaid_lightning_invoice_def Let_def result_simps split: if_splits)
  show ?thesis
    using quote d checked_mul_thousand [OF d(2)] prepaid_expiry_checks_Inr [OF d(9)]
      prepaid_destination_checks_Inr [of cs le "pv_quote r" _ d]
    by (intro conjI exI [of _ d] exI [of _ hash]) auto
qed

theorem accepted_prepaid_invoice_is_quoted_witness:
  "\<exists>d. decode_lightning_invoice reference_env sample_le (pv_invoice_bolt11 sample_prepaid) = Inr d \<and>
     unat (di_amount_msat d) = 3000 \<and> di_expires_at d \<le> 90"
proof -
  have hex: "hex_decode reference_env (sha256_hex reference_env []) = Some (sha256 reference_env [])"
      "length (sha256 reference_env []) = 32"
    using crypto_lawsD(1,2) [OF reference_crypto_laws] by (simp_all add: hex_laws_def sha256_laws_def sha256_hex_def)
  have dash: "CHR ''-'' \<notin> set (sha256_hex reference_env [])"
    using sha256_hex_no_dash crypto_lawsD(1) [OF reference_crypto_laws] by blast
  have decode: "decode_lightning_invoice reference_env sample_le (pv_invoice_bolt11 sample_prepaid) =
      Inr \<lparr>di_amount_msat = 3000, di_payment_hash = sha256_hex reference_env [], di_expires_at = 80,
        di_expiry_secs = None, di_destination_identity = [], di_network = None, di_min_final_cltv_expiry = 0\<rparr>"
    using parse_mock_bolt11_print [OF _ dash, of "''prepaid''" 80 3000]
    by (simp add: decode_lightning_invoice_def sample_prepaid_def in_i64_def)
  have quote: "art_type sample_prepaid_quote = ARTIFACT_TYPE_QUOTE"
      "verify_artifact reference_env quote_value sample_prepaid_quote"
    using sample_sign_verifies [of provider_sk quote_value ARTIFACT_TYPE_QUOTE]
    by (simp_all add: sample_prepaid_quote_def verified_as_def)
  have valid: "validate_quote_artifact sample_prepaid_quote = Inr ()"
    unfolding sample_prepaid_quote_def
    by (simp add: validate_quote_ok quote_terms_rules_def is_paid_settlement_method_def sample_quote_def
        sample_destination_def)
  have "validate_prepaid_lightning_invoice reference_env sample_le sample_prepaid = Inr ()"
    using quote valid decode hex
    by (simp add: validate_prepaid_lightning_invoice_def Let_def sample_prepaid_def checked_mul_def
        prepaid_destination_checks_def prepaid_expiry_checks_def request_time_has_reached_invoice_expiry_def
        i64_of_u64_def i64_checked_add_def in_i64_def sha256_hex_def)
      (simp add: sample_prepaid_quote_def sample_quote_def)
  from accepted_prepaid_invoice_is_quoted [OF this] decode show ?thesis
    by auto
qed

section \<open>The bundle's own expiry\<close>

text \<open>
  Without the condition on the windows the issue can produce a bundle that the validation rejects:
  with a base window of 120 seconds, a success window of 60 and an LND node that creates the success
  invoice six seconds after the request, the bundle expires one second after the deal's admission
  deadline, although each invoice expires before it.
\<close>

definition late_destination :: string where
  "late_destination = hex_encode reference_env (replicate 33 (CHR ''k''))"

definition late_quote :: quote_artifact where
  "late_quote = sample_sign quote_value provider_sk ARTIFACT_TYPE_QUOTE
     ((art_payload sample_quote)\<lparr>quote_expires_at := 200, quote_settlement_terms :=
       \<lparr>terms_method = SETTLEMENT_METHOD_LIGHTNING_ESCROW, terms_destination_identity = late_destination,
        terms_base_fee_msat = 0, terms_success_fee_msat = 2000, terms_max_base_invoice_expiry_secs = 120,
        terms_max_success_hold_expiry_secs = 60, terms_min_final_cltv_expiry = 18\<rparr>\<rparr>)"

definition late_deal :: deal_artifact where
  "late_deal = sample_sign deal_value requester_sk ARTIFACT_TYPE_DEAL
     ((art_payload sample_deal)\<lparr>deal_quote_hash := art_hash late_quote, deal_admission_deadline := 140\<rparr>)"

definition late_le :: lightning_env where
  "late_le = \<lparr>parse_bolt11 = (\<lambda>s. if s = ''lnbc1'' then
       Inr \<lparr>b11_amount_milli_satoshis = Some 2000, b11_expires_at = Some 81, b11_expiry_time = 55,
         b11_payee_pub_key = replicate 33 (CHR ''k''), b11_payment_hash = sample_success_hash,
         b11_currency = ''bitcoin'', b11_min_final_cltv_expiry_delta = 18\<rparr>
       else Inl ''not a BOLT11 invoice''), normalize_sec1 = Some\<rparr>"

definition late_node :: "nat lightning_node" where
  "late_node = \<lparr>nd_config = \<lparr>lc_mode = LmLndRest, lc_destination_identity = Some late_destination,
       lc_base_invoice_expiry_secs = 120, lc_success_hold_expiry_secs = 60, lc_min_final_cltv_expiry = 18\<rparr>,
     nd_accepts_lightning = True, nd_signing_key = provider_sk, nd_wallet = Some sample_wallet\<rparr>"

lemma late_issue:
  "\<exists>session s'. issue_lightning_invoice_bundle reference_env late_le late_node []
     (bundle_request_for late_quote late_deal ''deal-1'' 20) (sample_lightning []) = (Inr session, s') \<and>
     ib_expires_at (art_payload (ls_bundle session)) = 141"
proof -
  have hash: "\<exists>h. deterministic_base_fee_payment_hash reference_env late_node sid = Inr h" for sid
    using crypto_lawsD(1) [OF reference_crypto_laws]
    by (simp add: deterministic_base_fee_payment_hash_def deterministic_base_fee_preimage_hex_def
        hmac_sha256_hex_def hex_laws_def)
  have eff: "effective_bundle_expiry_secs (nd_config late_node)
      (bundle_request_for late_quote late_deal ''deal-1'' 20) = Inr (120, 60)"
    by (simp add: effective_bundle_expiry_secs_def late_node_def late_deal_def i64_saturating_sub_def
        min_def word_le_nat_alt)
  have secs: "guarded_lnd_invoice_expiry_secs 120 = 115" "guarded_lnd_invoice_expiry_secs 60 = 55"
    by (simp_all add: guarded_lnd_invoice_expiry_secs_def saturating_sub_def max_def word_le_nat_alt)
  have mode: "lc_mode (nd_config late_node) = LmLndRest" "lc_min_final_cltv_expiry (nd_config late_node) = 18"
      "lightning_wallet_of late_node = Inr sample_wallet"
      "resolve_lightning_destination_identity reference_env late_node s = (Inr late_destination, s)" for s
    by (simp_all add: late_node_def lightning_wallet_of_def resolve_lightning_destination_identity_def)
  have request: "terms_base_fee_msat (quote_settlement_terms (art_payload late_quote)) = 0"
      "terms_success_fee_msat (quote_settlement_terms (art_payload late_quote)) = 2000"
      "deal_admission_deadline (art_payload late_deal) = 140"
      "deal_success_payment_hash (art_payload late_deal) = sample_success_hash"
    by (simp_all add: late_quote_def late_deal_def sample_deal_def)
  have time: "as_i64 115 = 115" "as_i64 55 = 55"
    by (simp_all add: as_i64_id)
  have decode: "decode_lightning_invoice reference_env late_le ''lnbc1'' =
      Inr \<lparr>di_amount_msat = 2000, di_payment_hash = sample_success_hash, di_expires_at = 81,
        di_expiry_secs = Some 55, di_destination_identity = late_destination, di_network = Some ''bitcoin'',
        di_min_final_cltv_expiry = 18\<rparr>"
    by (simp add: decode_lightning_invoice_def parse_mock_bolt11_def strip_prefix_def starts_with_def
        late_le_def late_destination_def i64_of_u64_def)
  have check: "check_success_invoice reference_env late_le (nd_config late_node)
      (bundle_request_for late_quote late_deal ''deal-1'' 20) late_destination 55 20 ''lnbc1'' = Inr 26"
    using decode by (simp add: check_success_invoice_def request mode time i64_saturating_sub_def)
  obtain h where h: "deterministic_base_fee_payment_hash reference_env late_node ''deal-1'' = Inr h"
    using hash by blast
  let ?sg = "\<lparr>sg_session_id = ''deal-1'', sg_provider_id = public_key_hex reference_env (nd_signing_key late_node),
    sg_request = (bundle_request_for late_quote late_deal ''deal-1'' 20)\<lparr>br_created_at := 26\<rparr>,
    sg_base_invoice_expiry_secs = 115, sg_success_hold_expiry_secs = 55, sg_destination_identity = late_destination,
    sg_base_invoice_bolt11 = mock_bolt11 ''base'' 0 h (i64_add 20 115), sg_base_payment_hash = h,
    sg_base_state = IblSettled, sg_success_hold_invoice_bolt11 = ''lnbc1'', sg_success_state = IblOpen\<rparr>"
  obtain session where sign: "sign_lightning_invoice_bundle reference_env late_node ?sg = Inr session"
    using reference_signs by blast
  have "ib_expires_at (art_payload (ls_bundle session)) = 141"
    using sign_bundle_Inr(7) [OF sign] by (simp add: time i64_add_id in_i64_def)
  then show ?thesis
    using sign check h
    by (simp add: issue_lightning_invoice_bundle_def issue_lnd_rest_invoice_bundle_def ln_then_def ln_lift_def
        mode eff secs request time or_cleanup_def add_hold_invoice_def call_wallet_def sample_wallet_def
        sample_lightning_def check_base_invoice_def Let_def)
qed

theorem issued_bundle_can_outlive_deadline:
  "\<exists>session s'. issue_lightning_invoice_bundle reference_env late_le late_node []
     (bundle_request_for late_quote late_deal ''deal-1'' 20) (sample_lightning []) = (Inr session, s') \<and>
     lightning_config_ok (nd_config late_node) \<and>
     \<not> bv_valid (validate_lightning_invoice_bundle reference_env late_le (ls_bundle session) late_quote late_deal req)"
proof -
  obtain session s' where "issue_lightning_invoice_bundle reference_env late_le late_node []
     (bundle_request_for late_quote late_deal ''deal-1'' 20) (sample_lightning []) = (Inr session, s')"
    "ib_expires_at (art_payload (ls_bundle session)) = 141"
    using late_issue by blast
  moreover from this(2) have "bundle_terms_issues (ls_bundle session) late_quote late_deal \<noteq> []"
    by (simp add: bundle_terms_issues_def Let_def late_deal_def)
  moreover have "lightning_config_ok (nd_config late_node)"
    by (simp add: lightning_config_ok_def late_node_def word_le_nat_alt)
  ultimately show ?thesis
    by (auto simp: validate_bundle_valid)
qed

end
