(* ===== verification/Spend_Ledger.thy ===== *)
theory Spend_Ledger
  imports Database
begin

text \<open>
  The requester's spend ledger (\<open>src/src/requester_budget.rs\<close>): the table
  requester\_spend\_ledger, the reservation against the spend policy, the transitions reserved,
  external\_pending, committed, archived, and the totals. The ledger is then a transition system
  whose steps are these operations under one policy, as the single write connection serialises
  them.
\<close>

section \<open>Definitions\<close>

record requester_spend_config =
  max_deal_msat :: "u64 option"
  spend_budget_msat :: "u64 option"

datatype spend_decision =
    Reserved
  | Unconfigured
  | CapExceeded (cap_max_deal_msat: u64)
  | BudgetExceeded (exceeded_budget_msat: u64) (spent_msat: u64) (remaining_msat: u64)

record spend_totals_info =
  reserved_msat :: u64
  committed_msat :: u64

text \<open>
  A row of the table. Its primary key is the deal hash; its checks (a non-negative amount and one
  of the four states) hold for every row the operations below write.
\<close>

record spend_row =
  sl_deal_hash :: string
  sl_deal_id :: "string option"
  sl_provider_id :: string
  sl_amount_msat :: i64
  sl_settlement_method :: string
  sl_state :: string
  sl_created_at :: i64
  sl_updated_at :: i64

type_synonym ledger = "spend_row list"

definition counted_state :: "string \<Rightarrow> bool" where
  "counted_state s = (s = ''reserved'' \<or> s = ''external_pending'' \<or> s = ''committed'')"

definition outstanding_msat :: "ledger \<Rightarrow> u64 result" where
  "outstanding_msat t =
     and_then (map_err (\<lambda>e. ''spend ledger sum failed: '' @ e)
       (sql_sum 0 (map sl_amount_msat (filter (\<lambda>r. counted_state (sl_state r)) t)))) (\<lambda>total.
     ok_or ''spend ledger contains a negative outstanding total'' (u64_of_i64 total))"

definition try_reserve_spend ::
  "requester_spend_config \<Rightarrow> string \<Rightarrow> string \<Rightarrow> u64 \<Rightarrow> string \<Rightarrow> i64 \<Rightarrow> ledger
    \<Rightarrow> spend_decision result \<times> ledger" where
  "try_reserve_spend policy deal_hash provider_id amount_msat settlement_method now t =
     (case i64_of_u64 amount_msat of
        None \<Rightarrow> (Inl ''spend amount exceeds the signed SQLite range'', t)
      | Some amount_msat_i64 \<Rightarrow>
          (case spend_budget_msat policy of
             None \<Rightarrow> (Inr Unconfigured, t)
           | Some budget \<Rightarrow>
               if (case max_deal_msat policy of None \<Rightarrow> False | Some cap \<Rightarrow> amount_msat > cap)
               then (Inr (CapExceeded (the (max_deal_msat policy))), t)
               else
                 let existing = map_option sl_state (query_row (\<lambda>r. sl_deal_hash r = deal_hash) t)
                 in if existing \<noteq> None \<and> existing \<noteq> Some ''archived'' then (Inr Reserved, t)
                    else
                      (case outstanding_msat t of
                         Inl e \<Rightarrow> (Inl e, t)
                       | Inr spent \<Rightarrow>
                           let remaining = saturating_sub budget spent
                           in if amount_msat > remaining
                              then (Inr (BudgetExceeded budget spent remaining), t)
                              else if existing = Some ''archived''
                              then (Inr Reserved,
                                fst (update_where
                                  (\<lambda>r. sl_deal_hash r = deal_hash \<and> sl_state r = ''archived'')
                                  (\<lambda>r. r\<lparr>sl_deal_id := None, sl_provider_id := provider_id,
                                         sl_amount_msat := amount_msat_i64,
                                         sl_settlement_method := settlement_method,
                                         sl_state := ''reserved'', sl_updated_at := now\<rparr>) t))
                              else (Inr Reserved,
                                t @ [\<lparr>sl_deal_hash = deal_hash, sl_deal_id = None,
                                      sl_provider_id = provider_id,
                                      sl_amount_msat = amount_msat_i64,
                                      sl_settlement_method = settlement_method,
                                      sl_state = ''reserved'', sl_created_at = now,
                                      sl_updated_at = now\<rparr>]))))"

definition commit_spend :: "string \<Rightarrow> string \<Rightarrow> i64 \<Rightarrow> ledger \<Rightarrow> ledger" where
  "commit_spend deal_hash deal_id now t =
     fst (update_where
       (\<lambda>r. sl_deal_hash r = deal_hash \<and> sl_state r \<in> {''reserved'', ''external_pending''})
       (\<lambda>r. r\<lparr>sl_state := ''committed'', sl_deal_id := Some deal_id, sl_updated_at := now\<rparr>) t)"

definition mark_spend_external_pending :: "string \<Rightarrow> i64 \<Rightarrow> ledger \<Rightarrow> unit result \<times> ledger" where
  "mark_spend_external_pending deal_hash now t =
     (case update_where (\<lambda>r. sl_deal_hash r = deal_hash \<and> sl_state r = ''reserved'')
             (\<lambda>r. r\<lparr>sl_state := ''external_pending'', sl_updated_at := now\<rparr>) t of
        (t, changed) \<Rightarrow>
          if changed = 1 then (Inr (), t)
          else
            (case map_option sl_state (query_row (\<lambda>r. sl_deal_hash r = deal_hash) t) of
               None \<Rightarrow> (Inl ''spend ledger reservation disappeared before external effect'', t)
             | Some state \<Rightarrow>
                 if state = ''external_pending'' \<or> state = ''committed'' then (Inr (), t)
                 else (Inl (''spend ledger cannot cross external boundary from state '' @ state), t)))"

definition release_spend :: "string \<Rightarrow> ledger \<Rightarrow> ledger" where
  "release_spend deal_hash t =
     fst (delete_where (\<lambda>r. sl_deal_hash r = deal_hash \<and> sl_state r = ''reserved'') t)"

definition reset_spend :: "i64 \<Rightarrow> ledger \<Rightarrow> nat \<times> ledger" where
  "reset_spend now t =
     (case update_where (\<lambda>r. sl_state r = ''committed'')
             (\<lambda>r. r\<lparr>sl_state := ''archived'', sl_updated_at := now\<rparr>) t of
        (t, n) \<Rightarrow> (n, t))"

text \<open>
  The \<open>GROUP BY state\<close> query returns one row per state that occurs, in the order of the state
  index.
\<close>

definition state_sums :: "ledger \<Rightarrow> (string \<times> i64 result) list" where
  "state_sums t =
     map (\<lambda>s. (s, sql_sum 0 (map sl_amount_msat (filter (\<lambda>r. sl_state r = s) t))))
       (filter (\<lambda>s. list_ex (\<lambda>r. sl_state r = s) t) [''committed'', ''external_pending'', ''reserved''])"

fun add_state_sums :: "spend_totals_info \<Rightarrow> (string \<times> i64 result) list \<Rightarrow> spend_totals_info result" where
  "add_state_sums totals [] = Inr totals"
| "add_state_sums totals ((state, row) # rows) =
     and_then (map_err (\<lambda>e. ''spend ledger totals failed: '' @ e) row) (\<lambda>total.
     and_then (ok_or (''spend ledger contains a negative '' @ state @ '' total'') (u64_of_i64 total)) (\<lambda>s.
     add_state_sums
       (if state = ''reserved'' \<or> state = ''external_pending''
        then totals\<lparr>reserved_msat := saturating_add (reserved_msat totals) s\<rparr>
        else if state = ''committed'' then totals\<lparr>committed_msat := s\<rparr>
        else totals) rows))"

definition spend_totals :: "ledger \<Rightarrow> spend_totals_info result" where
  "spend_totals t = add_state_sums \<lparr>reserved_msat = 0, committed_msat = 0\<rparr> (state_sums t)"

definition sweep_stale_reservations :: "i64 \<Rightarrow> i64 \<Rightarrow> ledger \<Rightarrow> nat \<times> ledger" where
  "sweep_stale_reservations max_age_secs now t =
     (case delete_where (\<lambda>r. sl_state r = ''reserved'' \<and> sl_updated_at r < now - max_age_secs) t of
        (t, n) \<Rightarrow> (n, t))"

section \<open>The ledger as a transition system\<close>

inductive spend_step :: "requester_spend_config \<Rightarrow> ledger \<Rightarrow> ledger \<Rightarrow> bool"
  for policy :: requester_spend_config where
  spend_reserve: "spend_step policy t (snd (try_reserve_spend policy h p a m now t))"
| spend_commit: "spend_step policy t (commit_spend h d now t)"
| spend_external: "spend_step policy t (snd (mark_spend_external_pending h now t))"
| spend_release: "spend_step policy t (release_spend h t)"
| spend_reset: "spend_step policy t (snd (reset_spend now t))"
| spend_sweep: "spend_step policy t (snd (sweep_stale_reservations age now t))"

text \<open>What a ledger row counts against the budget, and the sum over the ledger.\<close>

definition held :: "spend_row \<Rightarrow> int" where
  "held r = (if counted_state (sl_state r) then sl_amount_msat r else 0)"

definition total_held :: "ledger \<Rightarrow> int" where
  "total_held t = sum_list (map held t)"

text \<open>The table's constraints: its primary key and the range of the amounts.\<close>

definition ledger_wf :: "ledger \<Rightarrow> bool" where
  "ledger_wf t \<longleftrightarrow>
     distinct (map sl_deal_hash t) \<and> (\<forall>r\<in>set t. 0 \<le> sl_amount_msat r \<and> sl_amount_msat r < 2 ^ 63)"

definition sample_policy :: requester_spend_config where
  "sample_policy = \<lparr>max_deal_msat = Some 500, spend_budget_msat = Some 1000\<rparr>"

definition sample_ledger :: ledger where
  "sample_ledger = [\<lparr>sl_deal_hash = ''d1'', sl_deal_id = None, sl_provider_id = ''p'',
     sl_amount_msat = 400, sl_settlement_method = ''none'', sl_state = ''external_pending'',
     sl_created_at = 5, sl_updated_at = 6\<rparr>]"

section \<open>Sums\<close>

lemma total_held_filter:
  "total_held t = sum_list (map sl_amount_msat (filter (\<lambda>r. counted_state (sl_state r)) t))"
  by (induction t) (auto simp: total_held_def held_def)

lemma total_held_simps [simp]:
  "total_held [] = 0" "total_held (r # t) = held r + total_held t"
  "total_held (t @ u) = total_held t + total_held u"
  by (simp_all add: total_held_def)

lemma outstanding_msat_held: "outstanding_msat t = Inr w \<Longrightarrow> uint w = total_held t"
  by (auto simp: outstanding_msat_def result_simps total_held_filter
      dest!: u64_of_i64_uint dest: sql_sum_Inr intro: sql_sum_range)

section \<open>Operations on existing rows\<close>

text \<open>
  The contract of every operation but the reservation: it rewrites or deletes rows one by one,
  keeps their keys and amounts, never counts more than before, and never drops a row whose
  external effect may have happened.
\<close>

locale ledger_update =
  fixes op :: "ledger \<Rightarrow> ledger" and g :: "spend_row \<Rightarrow> spend_row option"
  assumes op_rows: "op t = List.map_filter g t"
    and row_key: "g r = Some r' \<Longrightarrow> sl_deal_hash r' = sl_deal_hash r \<and> sl_amount_msat r' = sl_amount_msat r"
    and row_held: "g r = Some r' \<Longrightarrow> 0 \<le> sl_amount_msat r \<Longrightarrow> held r' \<le> held r"
    and pending: "sl_state r = ''external_pending'' \<Longrightarrow>
      \<exists>r'. g r = Some r' \<and> (sl_state r' = ''external_pending'' \<or> sl_state r' = ''committed'')"
begin

lemma rows_from: "r' \<in> set (op t) \<longleftrightarrow> (\<exists>r\<in>set t. g r = Some r')"
  unfolding op_rows by (induction t) (auto simp: List.map_filter_simps split: option.split)

lemma keeps_wf: "ledger_wf t \<Longrightarrow> ledger_wf (op t)"
proof (induction t)
  case Nil
  then show ?case by (simp add: op_rows ledger_wf_def List.map_filter_simps)
next
  case (Cons r t)
  have "ledger_wf t" using Cons.prems by (simp add: ledger_wf_def)
  then have wf: "ledger_wf (op t)" by (rule Cons.IH)
  show ?case
  proof (cases "g r")
    case None
    with wf show ?thesis by (simp add: op_rows List.map_filter_simps)
  next
    case (Some r')
    then have "op (r # t) = r' # op t" by (simp add: op_rows List.map_filter_simps)
    moreover have "sl_deal_hash r' \<notin> sl_deal_hash ` set (op t)"
    proof
      assume "sl_deal_hash r' \<in> sl_deal_hash ` set (op t)"
      then obtain y where "y \<in> set (op t)" and y: "sl_deal_hash y = sl_deal_hash r'" by auto
      then obtain x where x: "x \<in> set t" "g x = Some y" unfolding rows_from by blast
      with row_key [OF x(2)] row_key [OF Some] y have "sl_deal_hash r = sl_deal_hash x" by simp
      with Cons.prems x(1) show False by (simp add: ledger_wf_def)
    qed
    ultimately show ?thesis using wf Cons.prems row_key [OF Some] by (simp add: ledger_wf_def)
  qed
qed

lemma holds_no_more: "ledger_wf t \<Longrightarrow> total_held (op t) \<le> total_held t"
proof (induction t)
  case (Cons r t)
  have "ledger_wf t" using Cons.prems by (simp add: ledger_wf_def)
  then have *: "total_held (op t) \<le> total_held t" "0 \<le> sl_amount_msat r"
    using Cons.IH Cons.prems by (simp_all add: ledger_wf_def)
  have "0 \<le> held r" using *(2) by (simp add: held_def)
  with * row_held [of r] show ?case
    by (cases "g r") (auto simp: op_rows List.map_filter_simps)
qed (simp add: op_rows List.map_filter_simps)

lemma keeps_pending:
  assumes "r \<in> set t" and "sl_state r = ''external_pending''"
  shows "\<exists>r'\<in>set (op t). sl_deal_hash r' = sl_deal_hash r \<and> sl_amount_msat r' = sl_amount_msat r \<and>
    (sl_state r' = ''external_pending'' \<or> sl_state r' = ''committed'')"
  using pending [OF assms(2)] row_key assms(1) rows_from by blast

end

lemma map_filter_total: "List.map_filter (\<lambda>r. Some (h r)) t = map h t"
  by (induction t) (simp_all add: List.map_filter_simps)

lemma map_filter_delete: "List.map_filter (\<lambda>r. if P r then None else Some r) t = filter (\<lambda>r. \<not> P r) t"
  by (induction t) (simp_all add: List.map_filter_simps)

lemmas ledger_rows = update_where_def delete_where_def map_filter_total map_filter_delete
lemmas ledger_held = held_def counted_state_def

interpretation commit: ledger_update "commit_spend h d now"
  "\<lambda>r. Some (if sl_deal_hash r = h \<and> sl_state r \<in> {''reserved'', ''external_pending''}
     then r\<lparr>sl_state := ''committed'', sl_deal_id := Some d, sl_updated_at := now\<rparr> else r)" for h d now
  apply unfold_locales
  subgoal by (simp add: commit_spend_def ledger_rows)
  subgoal by (auto split: if_splits)
  subgoal by (auto simp: ledger_held split: if_splits)
  subgoal by auto
  done

interpretation external: ledger_update "\<lambda>t. snd (mark_spend_external_pending h now t)"
  "\<lambda>r. Some (if sl_deal_hash r = h \<and> sl_state r = ''reserved''
     then r\<lparr>sl_state := ''external_pending'', sl_updated_at := now\<rparr> else r)" for h now
  apply unfold_locales
  subgoal by (simp add: mark_spend_external_pending_def ledger_rows split: option.split)
  subgoal by (auto split: if_splits)
  subgoal by (auto simp: ledger_held split: if_splits)
  subgoal by auto
  done

interpretation release: ledger_update "release_spend h"
  "\<lambda>r. if sl_deal_hash r = h \<and> sl_state r = ''reserved'' then None else Some r" for h
  apply unfold_locales
  subgoal by (simp add: release_spend_def ledger_rows)
  subgoal by (auto split: if_splits)
  subgoal by (auto simp: ledger_held split: if_splits)
  subgoal by auto
  done

interpretation reset: ledger_update "\<lambda>t. snd (reset_spend now t)"
  "\<lambda>r. Some (if sl_state r = ''committed'' then r\<lparr>sl_state := ''archived'', sl_updated_at := now\<rparr> else r)"
  for now
  apply unfold_locales
  subgoal by (simp add: reset_spend_def ledger_rows)
  subgoal by (auto split: if_splits)
  subgoal by (auto simp: ledger_held split: if_splits)
  subgoal by auto
  done

interpretation sweep: ledger_update "\<lambda>t. snd (sweep_stale_reservations age now t)"
  "\<lambda>r. if sl_state r = ''reserved'' \<and> sl_updated_at r < now - age then None else Some r" for age now
  apply unfold_locales
  subgoal by (simp add: sweep_stale_reservations_def ledger_rows)
  subgoal by (auto split: if_splits)
  subgoal by (auto simp: ledger_held split: if_splits)
  subgoal by auto
  done

section \<open>The reservation\<close>

lemma query_hash:
  "ledger_wf t \<Longrightarrow> query_row (\<lambda>r. sl_deal_hash r = h) t = Some r \<longleftrightarrow> r \<in> set t \<and> sl_deal_hash r = h"
  using query_row_key [of sl_deal_hash t r] query_row_Some by (fastforce simp: ledger_wf_def)

lemma rewrite_archived:
  fixes a :: i64
  assumes "distinct (map sl_deal_hash t)" and "0 \<le> a" and "\<And>r. held (f r) = a"
  shows "total_held (map (\<lambda>r. if sl_deal_hash r = h \<and> sl_state r = ''archived'' then f r else r) t)
    \<le> total_held t + a"
  using assms(1)
proof (induction t)
  case (Cons r t)
  show ?case
  proof (cases "sl_deal_hash r = h \<and> sl_state r = ''archived''")
    case True
    have "sl_deal_hash x \<noteq> h" if "x \<in> set t" for x
      using True Cons.prems imageI [OF that, of sl_deal_hash] by auto
    then have "map (\<lambda>r. if sl_deal_hash r = h \<and> sl_state r = ''archived'' then f r else r) t = t"
      by (intro map_idI) simp
    with True show ?thesis by (simp add: assms(3)) (simp add: ledger_held)
  next
    case False
    with Cons show ?thesis by auto
  qed
qed (use assms(2) in simp)

lemma reserve_cases:
  assumes "ledger_wf t"
  obtains (same) "snd (try_reserve_spend policy h p a m now t) = t"
  | (new) b spent r where "snd (try_reserve_spend policy h p a m now t) = t @ [r]"
      and "\<forall>x\<in>set t. sl_deal_hash x \<noteq> h" and "sl_deal_hash r = h" "held r = uint a"
      and "sl_amount_msat r = uint a" "uint a < 2 ^ 63"
      and "spend_budget_msat policy = Some b" "outstanding_msat t = Inr spent"
      and "a \<le> saturating_sub b spent"
  | (again) b spent f where "snd (try_reserve_spend policy h p a m now t) =
        map (\<lambda>r. if sl_deal_hash r = h \<and> sl_state r = ''archived'' then f r else r) t"
      and "\<And>r. held (f r) = uint a" "\<And>r. sl_deal_hash (f r) = sl_deal_hash r"
      and "\<And>r. sl_amount_msat (f r) = uint a" "uint a < 2 ^ 63"
      and "spend_budget_msat policy = Some b" "outstanding_msat t = Inr spent"
      and "a \<le> saturating_sub b spent"
proof -
  let ?q = "query_row (\<lambda>r. sl_deal_hash r = h) t"
  let ?f = "\<lambda>r. r\<lparr>sl_deal_id := None, sl_provider_id := p, sl_amount_msat := uint a,
      sl_settlement_method := m, sl_state := ''reserved'', sl_updated_at := now\<rparr>"
  let ?r = "\<lparr>sl_deal_hash = h, sl_deal_id = None, sl_provider_id = p, sl_amount_msat = uint a,
      sl_settlement_method = m, sl_state = ''reserved'', sl_created_at = now, sl_updated_at = now\<rparr>"
  let ?go = "\<lambda>b spent. uint a < 2 ^ 63 \<and> spend_budget_msat policy = Some b \<and>
    outstanding_msat t = Inr spent \<and> a \<le> saturating_sub b spent"
  have "snd (try_reserve_spend policy h p a m now t) = t \<or>
    (\<exists>b spent. ?go b spent \<and> ?q = None \<and> snd (try_reserve_spend policy h p a m now t) = t @ [?r]) \<or>
    (\<exists>b spent. ?go b spent \<and> snd (try_reserve_spend policy h p a m now t) =
       map (\<lambda>r. if sl_deal_hash r = h \<and> sl_state r = ''archived'' then ?f r else r) t)"
    by (cases "spend_budget_msat policy"; cases "outstanding_msat t"; cases ?q)
      (auto simp: try_reserve_spend_def i64_of_u64_def Let_def update_where_def not_less)
  then consider "snd (try_reserve_spend policy h p a m now t) = t"
    | b spent where "?go b spent" "?q = None" "snd (try_reserve_spend policy h p a m now t) = t @ [?r]"
    | b spent where "?go b spent" "snd (try_reserve_spend policy h p a m now t) =
        map (\<lambda>r. if sl_deal_hash r = h \<and> sl_state r = ''archived'' then ?f r else r) t"
    by blast
  then show thesis
  proof cases
    case 1
    then show ?thesis by (rule same)
  next
    case 2
    then show ?thesis by (intro new [of ?r b spent]) (simp_all add: query_row_None ledger_held)
  next
    case 3
    then show ?thesis by (intro again [of ?f b spent]) (simp_all add: ledger_held)
  qed
qed

lemma reserve_room:
  fixes a b spent :: u64
  assumes "a \<le> saturating_sub b spent"
  shows "uint spent + uint a \<le> max (uint spent) (uint b)"
proof (cases "spent \<le> b")
  case True
  then have "uint (b - spent) = uint b - uint spent" by (simp add: uint_sub_lem [THEN iffD1] word_le_def)
  with True assms show ?thesis by (simp add: saturating_sub_def word_le_def)
next
  case False
  with assms show ?thesis by (simp add: saturating_sub_def)
qed

lemma reserve_wf:
  assumes "ledger_wf t"
  shows "ledger_wf (snd (try_reserve_spend policy h p a m now t))"
  using assms
proof (cases rule: reserve_cases [where policy = policy and h = h and p = p and a = a and m = m and now = now])
  case same
  with assms show ?thesis by simp
next
  case new
  with assms show ?thesis by (auto simp: ledger_wf_def)
next
  case (again b spent f)
  have keys: "map sl_deal_hash (snd (try_reserve_spend policy h p a m now t)) = map sl_deal_hash t"
    by (simp add: again)
  have "\<forall>r\<in>set (snd (try_reserve_spend policy h p a m now t)). 0 \<le> sl_amount_msat r \<and> sl_amount_msat r < 2 ^ 63"
    using assms again by (auto simp: ledger_wf_def)
  with assms show ?thesis unfolding ledger_wf_def keys by blast
qed

lemma reserve_held:
  assumes "ledger_wf t"
  shows "total_held (snd (try_reserve_spend policy h p a m now t)) \<le>
    max (total_held t) (case spend_budget_msat policy of None \<Rightarrow> 0 | Some b \<Rightarrow> uint b)"
  using assms
proof (cases rule: reserve_cases [where policy = policy and h = h and p = p and a = a and m = m and now = now])
  case same
  then show ?thesis by simp
next
  case new
  with reserve_room outstanding_msat_held show ?thesis by fastforce
next
  case (again b spent f)
  have "total_held (snd (try_reserve_spend policy h p a m now t)) \<le> total_held t + uint a"
    unfolding again(1) using assms again(2) by (intro rewrite_archived) (simp_all add: ledger_wf_def)
  with reserve_room [OF again(8)] outstanding_msat_held [OF again(7)] again(6) show ?thesis by simp
qed

section \<open>Steps\<close>

lemma spend_step_wf: "spend_step policy t t' \<Longrightarrow> ledger_wf t \<Longrightarrow> ledger_wf t'"
  by (induction rule: spend_step.induct)
    (simp_all add: reserve_wf commit.keeps_wf external.keeps_wf release.keeps_wf reset.keeps_wf
      sweep.keeps_wf)

lemma spend_steps_wf: "(spend_step policy)\<^sup>*\<^sup>* t t' \<Longrightarrow> ledger_wf t \<Longrightarrow> ledger_wf t'"
  by (induction rule: rtranclp_induct) (auto intro: spend_step_wf)

lemma spend_step_held:
  "spend_step policy t t' \<Longrightarrow> ledger_wf t \<Longrightarrow>
     total_held t' \<le> max (total_held t) (case spend_budget_msat policy of None \<Rightarrow> 0 | Some b \<Rightarrow> uint b)"
proof (induction rule: spend_step.induct)
  case (spend_reserve t h p a m now)
  then show ?case by (rule reserve_held)
qed (simp_all add: commit.holds_no_more external.holds_no_more release.holds_no_more
    reset.holds_no_more sweep.holds_no_more le_max_iff_disj)

lemma reserve_keeps_pending:
  assumes "ledger_wf t" and "r \<in> set t" and "sl_state r = ''external_pending''"
  shows "r \<in> set (snd (try_reserve_spend policy h p a m now t))"
  using assms(1)
proof (cases rule: reserve_cases [where policy = policy and h = h and p = p and a = a and m = m and now = now])
  case (again b spent f)
  let ?g = "\<lambda>r. if sl_deal_hash r = h \<and> sl_state r = ''archived'' then f r else r"
  have "?g r \<in> ?g ` set t" using assms(2) by (rule imageI)
  with again(1) assms(3) show ?thesis by simp
qed (use assms(2) in simp_all)

section \<open>Properties\<close>

text \<open>
  C13. The requester never holds more than its budget. Whatever sequence of reservations, commits,
  external-pending marks, releases, resets and sweeps runs under a policy with budget b, the sum
  of the counted amounts is at most the larger of b and what was counted at the start, so on a
  ledger that started empty it is at most b; and what \<open>outstanding_msat\<close> reports is that sum.
\<close>

theorem spend_stays_within_budget:
  assumes "(spend_step policy)\<^sup>*\<^sup>* t t'" and "ledger_wf t" and "spend_budget_msat policy = Some b"
  shows "total_held t' \<le> max (total_held t) (uint b) \<and>
    (\<forall>w. outstanding_msat t' = Inr w \<longrightarrow> uint w = total_held t')"
  using assms(1)
proof (induction rule: rtranclp_induct)
  case base
  show ?case by (auto dest: outstanding_msat_held)
next
  case (step y z)
  from spend_step_held [OF step.hyps(2) spend_steps_wf [OF step.hyps(1) assms(2)]] step.IH
  show ?case by (auto simp: assms(3) dest: outstanding_msat_held)
qed

theorem spend_stays_within_budget_witness:
  "total_held (snd (try_reserve_spend sample_policy ''d2'' ''p'' 500 ''none'' 9 sample_ledger)) \<le> 1000"
proof -
  have "(spend_step sample_policy)\<^sup>*\<^sup>* sample_ledger
      (snd (try_reserve_spend sample_policy ''d2'' ''p'' 500 ''none'' 9 sample_ledger))"
    by (rule r_into_rtranclp, rule spend_reserve)
  moreover have "ledger_wf sample_ledger" by (simp add: ledger_wf_def sample_ledger_def)
  moreover have "spend_budget_msat sample_policy = Some 1000" by (simp add: sample_policy_def)
  ultimately have "total_held (snd (try_reserve_spend sample_policy ''d2'' ''p'' 500 ''none'' 9
      sample_ledger)) \<le> max (total_held sample_ledger) (uint (1000 :: u64))"
    using spend_stays_within_budget by blast
  also have "\<dots> = 1000" by (simp add: sample_ledger_def ledger_held)
  finally show ?thesis .
qed

text \<open>
  Money that may have moved stays counted. A row in state external\_pending survives every
  operation (a release, a sweep of stale reservations and a budget reset included) with its
  amount, as external\_pending or committed.
\<close>

theorem external_spend_is_kept:
  assumes "spend_step policy t t'" and "ledger_wf t" and "r \<in> set t"
    and "sl_state r = ''external_pending''"
  shows "\<exists>r'\<in>set t'. sl_deal_hash r' = sl_deal_hash r \<and> sl_amount_msat r' = sl_amount_msat r \<and>
    (sl_state r' = ''external_pending'' \<or> sl_state r' = ''committed'')"
  using assms
proof (induction rule: spend_step.induct)
  case (spend_reserve t h p a m now)
  from reserve_keeps_pending [OF spend_reserve] spend_reserve(3) show ?case by blast
qed (simp_all only: commit.keeps_pending external.keeps_pending release.keeps_pending
    reset.keeps_pending sweep.keeps_pending)

theorem external_spend_is_kept_witness:
  "\<exists>r'\<in>set (release_spend ''d1'' sample_ledger). sl_deal_hash r' = ''d1'' \<and> sl_amount_msat r' = 400"
proof -
  have "ledger_wf sample_ledger" by (simp add: ledger_wf_def sample_ledger_def)
  from external_spend_is_kept [OF spend_release [of sample_policy sample_ledger "''d1''"] this,
      of "hd sample_ledger"]
  show ?thesis by (auto simp: sample_ledger_def)
qed

text \<open>
  A reservation is idempotent and can be undone. When a reservation of an unknown deal is
  granted, releasing it restores the ledger; repeating it, even with another amount within the
  cap, is granted without a change.
\<close>

theorem spend_reservation_round_trip:
  assumes "fst (try_reserve_spend policy h p a m now t) = Inr Reserved"
    and "\<forall>r\<in>set t. sl_deal_hash r \<noteq> h"
  shows "release_spend h (snd (try_reserve_spend policy h p a m now t)) = t \<and>
    (i64_of_u64 a' \<noteq> None \<and> (\<forall>c. max_deal_msat policy = Some c \<longrightarrow> a' \<le> c) \<longrightarrow>
      try_reserve_spend policy h p' a' m' now' (snd (try_reserve_spend policy h p a m now t)) =
        (Inr Reserved, snd (try_reserve_spend policy h p a m now t)))"
proof -
  have q: "query_row (\<lambda>r. sl_deal_hash r = h) t = None" using assms(2) by (simp add: query_row_None)
  obtain r where r: "snd (try_reserve_spend policy h p a m now t) = t @ [r]" "sl_deal_hash r = h"
      "sl_state r = ''reserved''" and b: "spend_budget_msat policy \<noteq> None"
    using assms(1) q
    by (auto simp: try_reserve_spend_def Let_def split: option.splits sum.splits if_splits)
  have "release_spend h (t @ [r]) = t"
    using assms(2) r(2,3) by (auto simp: release_spend_def delete_where_def intro: filter_True)
  moreover have "query_row (\<lambda>r. sl_deal_hash r = h) (t @ [r]) = Some r"
    using q r(2) by (simp add: query_row_append)
  ultimately show ?thesis
    using b r(3) unfolding r(1)
    by (auto simp: try_reserve_spend_def not_less split: option.splits)
qed

theorem spend_reservation_round_trip_witness:
  "release_spend ''d2'' (snd (try_reserve_spend sample_policy ''d2'' ''p'' 500 ''none'' 9 sample_ledger))
     = sample_ledger"
proof -
  have "fst (try_reserve_spend sample_policy ''d2'' ''p'' 500 ''none'' 9 sample_ledger) = Inr Reserved"
    by (simp add: try_reserve_spend_def sample_policy_def i64_of_u64_def sample_ledger_def query_row_def
        outstanding_msat_def counted_state_def u64_of_i64_def saturating_sub_def)
  from spend_reservation_round_trip [OF this, of 1] show ?thesis by (simp add: sample_ledger_def)
qed

section \<open>Totals\<close>

lemma total_held_split:
  "total_held t =
     sum_list (map sl_amount_msat (filter (\<lambda>r. sl_state r = ''committed'') t)) +
     sum_list (map sl_amount_msat (filter (\<lambda>r. sl_state r = ''external_pending'') t)) +
     sum_list (map sl_amount_msat (filter (\<lambda>r. sl_state r = ''reserved'') t))"
  by (induction t) (auto simp: ledger_held)

lemma state_sum_nonneg:
  "ledger_wf t \<Longrightarrow> 0 \<le> sum_list (map sl_amount_msat (filter P t))"
  by (intro sum_list_nonneg) (auto simp: ledger_wf_def)

lemma absent_state_sum:
  "\<not> list_ex (\<lambda>r. sl_state r = s) t \<Longrightarrow> filter (\<lambda>r. sl_state r = s) t = []"
  by (auto simp: list_ex_iff filter_empty_conv)

text \<open>
  The totals shown to the operator agree with the budget check. On a ledger whose counted sum
  fits a signed 64-bit integer, \<open>spend_totals\<close> and \<open>outstanding_msat\<close> both succeed, and the
  reserved and the committed total add up to what the budget check counts.
\<close>

theorem spend_totals_agree:
  assumes "ledger_wf t" and "total_held t < 2 ^ 63"
  shows "\<exists>tt w. spend_totals t = Inr tt \<and> outstanding_msat t = Inr w \<and>
    uint (reserved_msat tt) + uint (committed_msat tt) = uint w"
proof -
  define S where "S s = sum_list (map sl_amount_msat (filter (\<lambda>r. sl_state r = s) t))" for s
  have nn: "0 \<le> S s" for s unfolding S_def using assms(1) by (rule state_sum_nonneg)
  have tot: "total_held t = S ''committed'' + S ''external_pending'' + S ''reserved''"
    unfolding S_def by (rule total_held_split)
  have lt: "S ''committed'' < 2 ^ 63" "S ''external_pending'' < 2 ^ 63" "S ''reserved'' < 2 ^ 63"
    using assms(2) tot nn [of "''committed''"] nn [of "''external_pending''"] nn [of "''reserved''"]
    by linarith+
  have sums: "sql_sum 0 (map sl_amount_msat (filter (\<lambda>r. sl_state r = s) t)) = Inr (S s)"
    if "S s < 2 ^ 63" for s
    using that assms(1) sql_sum_total [of "map sl_amount_msat (filter (\<lambda>r. sl_state r = s) t)" 0]
    by (simp add: S_def ledger_wf_def)
  have absent: "S s = 0" if "\<not> list_ex (\<lambda>r. sl_state r = s) t" for s
    using absent_state_sum [OF that] by (simp add: S_def)
  have "sql_sum 0 (map sl_amount_msat (filter (\<lambda>r. counted_state (sl_state r)) t)) = Inr (total_held t)"
    using sql_sum_total [of "map sl_amount_msat (filter (\<lambda>r. counted_state (sl_state r)) t)" 0] assms
    by (simp add: total_held_filter ledger_wf_def)
  moreover have "0 \<le> total_held t" unfolding tot by (simp add: nn)
  ultimately have out: "outstanding_msat t = Inr (word_of_int (total_held t))"
    by (simp add: outstanding_msat_def u64_of_i64_def)
  have "\<exists>tt. spend_totals t = Inr tt \<and> uint (committed_msat tt) = S ''committed'' \<and>
      uint (reserved_msat tt) = S ''external_pending'' + S ''reserved''"
    using lt nn absent
    by (auto simp: spend_totals_def state_sums_def sums u64_of_i64_def uint_u64
        uint_saturating_add_u64)
  then obtain tt where "spend_totals t = Inr tt" "uint (reserved_msat tt) + uint (committed_msat tt) =
      total_held t"
    unfolding tot by force
  with out uint_u64 [OF \<open>0 \<le> total_held t\<close> assms(2)] show ?thesis by auto
qed

theorem spend_totals_agree_witness:
  "\<exists>tt w. spend_totals sample_ledger = Inr tt \<and> outstanding_msat sample_ledger = Inr w \<and>
     uint (reserved_msat tt) + uint (committed_msat tt) = uint w"
proof -
  have "ledger_wf sample_ledger" "total_held sample_ledger < 2 ^ 63"
    by (simp_all add: ledger_wf_def sample_ledger_def ledger_held)
  then show ?thesis by (rule spend_totals_agree)
qed

end
