(* ===== verification/Provider_Policy.thy ===== *)
theory Provider_Policy
  imports Database Reference_Env
begin

text \<open>
  The operator's policy on new work (\<open>src/src/provider_policy.rs\<close>): the checks on the policy, the
  cumulative allowance of deals, runtime and quotes, the pause switch, invitations, storage
  limits and the pruning of derived indexes; and the admission of new provider work
  (\<open>is_new_provider_work\<close>, \<open>provider_access_allowed\<close> and \<open>admit_new_provider_work\<close> of
  \<open>src/src/api/mod.rs\<close>). The tables are one record. The operating system's answers (file sizes,
  free bytes, directory entries), the random invitation token, the clock and the check of the
  operator's credential are arguments.
\<close>

section \<open>Policy\<close>

abbreviation EXHAUSTED :: string where
  "EXHAUSTED \<equiv> ''provider execution allowance exhausted''"

datatype access_mode = Open | Private | Invite | Trial | Paid

definition parse_access_mode :: "string \<Rightarrow> access_mode result" where
  "parse_access_mode value =
     (if value = ''open'' then Inr Open
      else if value = ''private'' then Inr Private
      else if value = ''invite'' then Inr Invite
      else if value = ''trial'' then Inr Trial
      else if value = ''paid'' then Inr Paid
      else Inl ''provider access mode must be open, private, invite, trial or paid'')"

text \<open>The policy without its file download limits, which only the file routes read.\<close>

record provider_policy =
  require_payment :: bool
  max_total_deals :: "u64 option"
  max_total_runtime_ms :: "u64 option"
  max_total_quotes :: "u64 option"
  access_mode :: access_mode
  invite_token_hashes :: "string list"
  min_free_bytes :: u64
  max_database_bytes :: "u64 option"

definition I64_MAX :: u64 where
  "I64_MAX = 2 ^ 63 - 1"

definition check_limit :: "u64 option \<Rightarrow> unit result" where
  "check_limit limit =
     (case limit of
        None \<Rightarrow> Inr ()
      | Some l \<Rightarrow>
          if l > I64_MAX then Inl ''provider allowance exceeds SQLite integer range'' else Inr ())"

definition validate_policy :: "provider_policy \<Rightarrow> unit result" where
  "validate_policy p =
     (if (require_payment p \<or> access_mode p \<noteq> Open) \<and>
         (max_total_deals p = None \<or> max_total_runtime_ms p = None \<or> max_total_quotes p = None)
      then Inl ''protected providers require FROGLET_PROVIDER_MAX_TOTAL_DEALS, FROGLET_PROVIDER_MAX_TOTAL_RUNTIME_MS and FROGLET_PROVIDER_MAX_TOTAL_QUOTES''
      else if access_mode p = Paid \<and> \<not> require_payment p
      then Inl ''paid access mode requires FROGLET_PROVIDER_REQUIRE_PAYMENT=true''
      else if access_mode p = Trial \<and> require_payment p
      then Inl ''trial access mode cannot require payment''
      else for_each check_limit [max_total_deals p, max_total_runtime_ms p, max_total_quotes p])"

section \<open>State\<close>

record admission_row =
  adm_key :: string
  adm_max_runtime_ms :: i64

record invite_row =
  inv_token_hash :: string
  inv_name :: string
  inv_expires_at :: i64
  inv_max_requests :: i64
  inv_used_requests :: i64
  inv_revoked :: bool

text \<open>The tables; provider\_allowance and provider\_control have the one row with id 1.\<close>

record provider_db =
  pd_admissions :: "admission_row list"
  pd_issued_quotes :: i64
  pd_pause_reason :: "string option"
  pd_invites :: "invite_row list"

section \<open>Allowance\<close>

record provider_usage =
  reserved_deals :: u64
  reserved_runtime_ms :: u64
  issued_quotes :: u64

definition read_nonnegative :: "nat \<Rightarrow> i64 \<Rightarrow> u64 result" where
  "read_nonnegative index value =
     ok_or (''Integer '' @ int_to_string value @ '' out of range at index '' @ nat_digits index)
       (u64_of_i64 value)"

definition usage :: "provider_db \<Rightarrow> provider_usage result" where
  "usage db =
     and_then (sql_sum 0 (map adm_max_runtime_ms (pd_admissions db))) (\<lambda>runtime.
     and_then (read_nonnegative 0 (int (length (pd_admissions db)))) (\<lambda>d.
     and_then (read_nonnegative 1 runtime) (\<lambda>r.
     and_then (read_nonnegative 2 (pd_issued_quotes db)) (\<lambda>q.
     Inr \<lparr>reserved_deals = d, reserved_runtime_ms = r, issued_quotes = q\<rparr>))))"

definition require_not_paused :: "provider_db \<Rightarrow> unit result" where
  "require_not_paused db =
     (if pd_pause_reason db \<noteq> None then Inl ''provider is paused by its operator'' else Inr ())"

definition set_pause :: "string option \<Rightarrow> provider_db \<Rightarrow> unit result \<times> provider_db" where
  "set_pause reason db =
     (if (case reason of None \<Rightarrow> False | Some r \<Rightarrow> trim r = [] \<or> length r > 256)
      then (Inl ''pause reason must contain 1-256 bytes'', db)
      else (Inr (), db\<lparr>pd_pause_reason := reason\<rparr>))"

definition at_least :: "u64 option \<Rightarrow> u64 \<Rightarrow> bool" where
  "at_least limit value = (case limit of None \<Rightarrow> False | Some l \<Rightarrow> value \<ge> l)"

definition above :: "u64 option \<Rightarrow> u64 \<Rightarrow> bool" where
  "above limit value = (case limit of None \<Rightarrow> False | Some l \<Rightarrow> value > l)"

definition reserve_deal ::
  "provider_policy \<Rightarrow> string \<Rightarrow> u64 \<Rightarrow> provider_db \<Rightarrow> unit result \<times> provider_db" where
  "reserve_deal policy key max_runtime_ms db =
     (case query_row (\<lambda>r. adm_key r = key) (pd_admissions db) of
        Some row \<Rightarrow>
          (and_then (read_nonnegative 0 (adm_max_runtime_ms row)) (\<lambda>existing.
             if existing = max_runtime_ms then Inr ()
             else Inl ''provider admission replay changed its resource reservation''), db)
      | None \<Rightarrow>
          (case and_then (require_not_paused db) (\<lambda>_.
                and_then (usage db) (\<lambda>totals.
                and_then (ok_or EXHAUSTED
                  (case checked_add (reserved_runtime_ms totals) max_runtime_ms of
                     None \<Rightarrow> None
                   | Some v \<Rightarrow> if v \<le> I64_MAX then Some v else None)) (\<lambda>runtime.
                and_then (if at_least (max_total_deals policy) (reserved_deals totals) \<or>
                             above (max_total_runtime_ms policy) runtime
                          then Inl EXHAUSTED else Inr ()) (\<lambda>_.
                ok_or EXHAUSTED (i64_of_u64 max_runtime_ms))))) of
             Inl e \<Rightarrow> (Inl e, db)
           | Inr runtime_ms \<Rightarrow>
               (Inr (), db\<lparr>pd_admissions := pd_admissions db @
                  [\<lparr>adm_key = key, adm_max_runtime_ms = runtime_ms\<rparr>]\<rparr>)))"

definition reserve_quote :: "provider_policy \<Rightarrow> provider_db \<Rightarrow> unit result \<times> provider_db" where
  "reserve_quote policy db =
     (case and_then (require_not_paused db) (\<lambda>_.
           and_then (usage db) (\<lambda>totals.
           if issued_quotes totals \<ge>
                (case max_total_quotes policy of None \<Rightarrow> I64_MAX | Some l \<Rightarrow> l) \<or>
              at_least (max_total_deals policy) (reserved_deals totals) \<or>
              at_least (max_total_runtime_ms policy) (reserved_runtime_ms totals)
           then Inl EXHAUSTED else Inr ())) of
        Inl e \<Rightarrow> (Inl e, db)
      | Inr _ \<Rightarrow> (Inr (), db\<lparr>pd_issued_quotes := pd_issued_quotes db + 1\<rparr>))"

section \<open>Storage\<close>

record storage_status_info =
  ss_database_bytes :: u64
  ss_free_bytes :: "u64 option"
  ss_blocked_reason :: "string option"

text \<open>
  \<open>std::fs::metadata\<close> of the database file, its -wal and its -shm file: a size, \<open>Inr None\<close> for
  "not found", or an error.
\<close>

fun sum_sizes :: "u64 \<Rightarrow> u64 option result list \<Rightarrow> u64 result" where
  "sum_sizes acc [] = Inr acc"
| "sum_sizes acc (m # ms) =
     and_then m (\<lambda>size. sum_sizes (case size of None \<Rightarrow> acc | Some l \<Rightarrow> saturating_add acc l) ms)"

definition storage_status ::
  "provider_policy \<Rightarrow> u64 option result list \<Rightarrow> u64 result \<Rightarrow> storage_status_info result" where
  "storage_status policy metadata free_disk_bytes =
     and_then (sum_sizes 0 metadata) (\<lambda>database_bytes.
     and_then (if min_free_bytes policy > 0 then map_ok Some free_disk_bytes else Inr None) (\<lambda>free.
     Inr \<lparr>ss_database_bytes = database_bytes, ss_free_bytes = free,
          ss_blocked_reason =
            (if at_least (max_database_bytes policy) database_bytes
             then Some ''database high-water limit reached''
             else if (case free of None \<Rightarrow> False | Some b \<Rightarrow> b < min_free_bytes policy)
             then Some ''disk free-space reserve reached''
             else None)\<rparr>))"

text \<open>
  An entry of the directory publication-data: its name when that is valid UTF-8, what
  \<open>symlink_metadata\<close> says (whether it is a regular file, and its age in nanoseconds) and what
  removing it returns. At most 10,000 entries are read.
\<close>

record cache_entry =
  ce_name :: "string option"
  ce_metadata :: "(bool \<times> nat result) result"
  ce_remove :: "unit result"

definition strip_suffix :: "string \<Rightarrow> string \<Rightarrow> string option" where
  "strip_suffix s suffix =
     (if length suffix \<le> length s \<and> drop (length s - length suffix) s = suffix
      then Some (take (length s - length suffix) s) else None)"

definition disposable_name :: "string \<Rightarrow> bool" where
  "disposable_name name =
     (case strip_suffix name ''.csv.sqlite'' of
        None \<Rightarrow> False
      | Some digest \<Rightarrow> length digest = 64 \<and> list_all is_lower_hex_char digest)"

fun prune_entries ::
  "nat \<Rightarrow> cache_entry result list \<Rightarrow> nat \<Rightarrow> cache_entry list \<Rightarrow> nat result \<times> cache_entry list" where
  "prune_entries older_than [] removed gone = (Inr removed, gone)"
| "prune_entries older_than (Inl e # es) removed gone = (Inl e, gone)"
| "prune_entries older_than (Inr c # es) removed gone =
     (if \<not> (case ce_name c of None \<Rightarrow> False | Some name \<Rightarrow> disposable_name name)
      then prune_entries older_than es removed gone
      else
        (case ce_metadata c of
           Inl e \<Rightarrow> (Inl e, gone)
         | Inr (is_file, age) \<Rightarrow>
             if \<not> is_file then prune_entries older_than es removed gone
             else
               (case age of
                  Inl e \<Rightarrow> (Inl e, gone)
                | Inr a \<Rightarrow>
                    if a < older_than then prune_entries older_than es removed gone
                    else
                      (case ce_remove c of
                         Inl e \<Rightarrow> (Inl e, gone)
                       | Inr _ \<Rightarrow> prune_entries older_than es (removed + 1) (gone @ [c])))))"

text \<open>\<open>Inr None\<close> stands for a missing directory; the second component is what was removed.\<close>

definition prune_cache ::
  "cache_entry result list option result \<Rightarrow> nat \<Rightarrow> nat result \<times> cache_entry list" where
  "prune_cache dir older_than =
     (case dir of
        Inl e \<Rightarrow> (Inl e, [])
      | Inr None \<Rightarrow> (Inr 0, [])
      | Inr (Some entries) \<Rightarrow> prune_entries older_than (take 10000 entries) 0 [])"

section \<open>Invitations\<close>

text \<open>
  \<open>char::is_control\<close>: U+0000 to U+001F, U+007F, and U+0080 to U+009F, which UTF-8 writes as the
  byte C2 followed by 80 to 9F.
\<close>

fun any_control :: "string \<Rightarrow> bool" where
  "any_control [] = False"
| "any_control [c] = (let n = (of_char c :: nat) in n < 32 \<or> n = 127)"
| "any_control (c # d # cs) =
     ((let n = (of_char c :: nat); m = (of_char d :: nat)
       in n < 32 \<or> n = 127 \<or> (n = 194 \<and> 128 \<le> m \<and> m \<le> 159)) \<or> any_control (d # cs))"

text \<open>The dash in the error text is U+2013.\<close>

definition INVITE_ERROR :: string where
  "INVITE_ERROR =
     ''invite requires a name (1'' @ [CHR 0xE2, CHR 0x80, CHR 0x93] @
     ''80 characters), expiry within 30 days and 2'' @ [CHR 0xE2, CHR 0x80, CHR 0x93] @
     ''10000 new-work requests''"

definition i64_saturating_add :: "i64 \<Rightarrow> i64 \<Rightarrow> i64" where
  "i64_saturating_add a b = max (- (2 ^ 63)) (min (2 ^ 63 - 1) (a + b))"

text \<open>\<open>random\<close> is the 32 random bytes of the token.\<close>

definition create_invite ::
  "crypto_env \<Rightarrow> bytes \<Rightarrow> string \<Rightarrow> i64 \<Rightarrow> u64 \<Rightarrow> i64 \<Rightarrow> provider_db
    \<Rightarrow> (string \<times> string) result \<times> provider_db" where
  "create_invite cs random name expires_at max_requests now db =
     (if trim name = [] \<or> length name > 80 \<or> any_control name \<or> expires_at \<le> now \<or>
         expires_at > i64_saturating_add now (30 * 86400) \<or>
         \<not> (2 \<le> max_requests \<and> max_requests \<le> 10000)
      then (Inl INVITE_ERROR, db)
      else with_immediate_transaction (\<lambda>db.
        if length (pd_invites db) \<ge> 1000
        then (Inl ''provider invitation capacity reached (1000 retained records)'', db)
        else
          let token = hex_encode cs random; hash = sha256_hex cs token
          in if list_ex (\<lambda>r. inv_token_hash r = hash) (pd_invites db)
             then (Inl ''UNIQUE constraint failed: provider_invites.token_hash'', db)
             else (Inr (hash, token), db\<lparr>pd_invites := pd_invites db @
                    [\<lparr>inv_token_hash = hash, inv_name = name, inv_expires_at = expires_at,
                      inv_max_requests = uint max_requests, inv_used_requests = 0,
                      inv_revoked = False\<rparr>]\<rparr>)) db)"

record provider_invite =
  pi_id :: string
  pi_name :: string
  pi_expires_at :: i64
  pi_max_requests :: u64
  pi_used_requests :: u64
  pi_revoked :: bool

fun decode_invites :: "invite_row list \<Rightarrow> provider_invite list result" where
  "decode_invites [] = Inr []"
| "decode_invites (r # rs) =
     and_then (read_nonnegative 3 (inv_max_requests r)) (\<lambda>m.
     and_then (read_nonnegative 4 (inv_used_requests r)) (\<lambda>u.
     map_ok ((#) \<lparr>pi_id = inv_token_hash r, pi_name = inv_name r, pi_expires_at = inv_expires_at r,
         pi_max_requests = m, pi_used_requests = u, pi_revoked = inv_revoked r\<rparr>) (decode_invites rs)))"

definition list_invites :: "provider_db \<Rightarrow> provider_invite list result" where
  "list_invites db = decode_invites (take 1000 (sort_key inv_token_hash (pd_invites db)))"

definition revoke_invite :: "string \<Rightarrow> provider_db \<Rightarrow> unit result \<times> provider_db" where
  "revoke_invite invite_id db =
     (if length invite_id \<noteq> 64 \<or> \<not> list_all is_lower_hex_char invite_id
      then (Inl ''invite id must be a lowercase SHA-256 hash'', db)
      else (Inr (), db\<lparr>pd_invites :=
        (if list_ex (\<lambda>r. inv_token_hash r = invite_id) (pd_invites db)
         then fst (update_where (\<lambda>r. inv_token_hash r = invite_id) (\<lambda>r. r\<lparr>inv_revoked := True\<rparr>)
                (pd_invites db))
         else pd_invites db @
           [\<lparr>inv_token_hash = invite_id, inv_name = ''revoked legacy invite'', inv_expires_at = 0,
             inv_max_requests = 1, inv_used_requests = 0, inv_revoked = True\<rparr>])\<rparr>))"

definition authorize_invite_in_transaction ::
  "provider_policy \<Rightarrow> string \<Rightarrow> i64 \<Rightarrow> provider_db \<Rightarrow> bool result \<times> provider_db" where
  "authorize_invite_in_transaction policy hash now db =
     (case update_where (\<lambda>r. inv_token_hash r = hash \<and> \<not> inv_revoked r \<and> inv_expires_at r > now \<and>
             inv_used_requests r < inv_max_requests r)
             (\<lambda>r. r\<lparr>inv_used_requests := inv_used_requests r + 1\<rparr>) (pd_invites db) of
        (invites, updated) \<Rightarrow>
          let db = db\<lparr>pd_invites := invites\<rparr>
          in if updated = 1 then (Inr True, db)
             else if list_ex (\<lambda>r. inv_token_hash r = hash) (pd_invites db) then (Inr False, db)
             else (Inr (list_ex (\<lambda>expected. hash = expected) (invite_token_hashes policy)), db))"

definition authorize_invite ::
  "provider_policy \<Rightarrow> string \<Rightarrow> i64 \<Rightarrow> provider_db \<Rightarrow> bool result \<times> provider_db" where
  "authorize_invite policy hash now =
     with_immediate_transaction (authorize_invite_in_transaction policy hash now)"

section \<open>Admission of new work\<close>

text \<open>An \<open>ApiFailure\<close> is a status code and a JSON body; here its status and its error text.\<close>

type_synonym api_failure = "nat \<times> string"

definition ends_with :: "string \<Rightarrow> string \<Rightarrow> bool" where
  "ends_with s suffix = (strip_suffix s suffix \<noteq> None)"

definition is_new_provider_work :: "string \<Rightarrow> string \<Rightarrow> bool" where
  "is_new_provider_work meth path =
     (meth = ''POST'' \<and>
      (path \<in> {''/v1/provider/quotes'', ''/v1/provider/deals'', ''/v1/provider/confidential/sessions'',
         ''/v1/node/execute/wasm'', ''/v1/node/jobs'', ''/v1/node/events/query'',
         ''/v1/node/events/publish'', ''/v1/provider/artifacts/publish'',
         ''/v1/provider/artifacts/preflight''} \<or>
       path = ''/v1/runtime/deals'' \<or> path = ''/api/sessions'' \<or>
       (starts_with path ''/v1/provider/managed-publications/'' \<and>
        \<not> starts_with path ''/v1/provider/managed-publications/operations/'') \<or>
       (starts_with path ''/v1/publications/'' \<and> ends_with path ''/canary'')))"

text \<open>\<open>token\<close> is the header x-froglet-access-token when present and readable as text.\<close>

definition provider_access_allowed ::
  "crypto_env \<Rightarrow> provider_policy \<Rightarrow> string option \<Rightarrow> string \<Rightarrow> i64 \<Rightarrow> provider_db
    \<Rightarrow> bool \<times> provider_db" where
  "provider_access_allowed cs policy token path now db =
     (case access_mode policy of
        Private \<Rightarrow> (False, db)
      | Invite \<Rightarrow>
          if path \<noteq> ''/v1/provider/quotes'' \<and> path \<noteq> ''/v1/provider/deals'' then (False, db)
          else
            (case token of
               None \<Rightarrow> (False, db)
             | Some t \<Rightarrow>
                 if \<not> (32 \<le> length t \<and> length t \<le> 256) then (False, db)
                 else
                   (case authorize_invite policy (sha256_hex cs t) now db of
                      (Inl e, db) \<Rightarrow> (False, db)
                    | (Inr allowed, db) \<Rightarrow> (allowed, db)))
      | _ \<Rightarrow> (True, db))"

definition provider_storage_admission :: "storage_status_info result \<Rightarrow> api_failure + unit" where
  "provider_storage_admission status =
     and_then (map_err (\<lambda>_. (503, ''storage safety check unavailable'')) status) (\<lambda>s.
     case ss_blocked_reason s of None \<Rightarrow> Inr () | Some reason \<Rightarrow> Inl (503, reason))"

text \<open>\<open>operator\<close> is whether the request carries the operator's control credential.\<close>

definition admit_new_provider_work ::
  "crypto_env \<Rightarrow> provider_policy \<Rightarrow> bool \<Rightarrow> storage_status_info result \<Rightarrow> string option \<Rightarrow> string \<Rightarrow> i64
    \<Rightarrow> provider_db \<Rightarrow> (api_failure + unit) \<times> provider_db" where
  "admit_new_provider_work cs policy operator status token path now db =
     (case (if operator then (True, db) else provider_access_allowed cs policy token path now db) of
        (False, db) \<Rightarrow> (Inl (403, ''provider execution requires an access credential''), db)
      | (True, db) \<Rightarrow>
          (and_then (provider_storage_admission status) (\<lambda>_.
             map_err (\<lambda>e. (503, e)) (require_not_paused db)), db))"

section \<open>The provider's tables as a transition system\<close>

inductive provider_step :: "crypto_env \<Rightarrow> provider_policy \<Rightarrow> provider_db \<Rightarrow> provider_db \<Rightarrow> bool"
  for cs :: crypto_env and policy :: provider_policy where
  provider_deal:
    "provider_step cs policy db (snd (with_immediate_transaction (reserve_deal policy k r) db))"
| provider_quote: "provider_step cs policy db (snd (with_immediate_transaction (reserve_quote policy) db))"
| provider_pause: "provider_step cs policy db (snd (set_pause reason db))"
| provider_invite: "provider_step cs policy db (snd (create_invite cs rnd name ex n now db))"
| provider_revoke: "provider_step cs policy db (snd (revoke_invite i db))"
| provider_admit:
    "provider_step cs policy db (snd (admit_new_provider_work cs policy operator st token path now db))"

definition reserved_runtime :: "provider_db \<Rightarrow> int" where
  "reserved_runtime db = sum_list (map adm_max_runtime_ms (pd_admissions db))"

definition invite_ok :: "invite_row \<Rightarrow> bool" where
  "invite_ok r \<longleftrightarrow> 0 \<le> inv_used_requests r \<and> inv_used_requests r \<le> inv_max_requests r"

definition provider_ok :: "provider_db \<Rightarrow> bool" where
  "provider_ok db \<longleftrightarrow>
     distinct (map adm_key (pd_admissions db)) \<and>
     (\<forall>r\<in>set (pd_admissions db). 0 \<le> adm_max_runtime_ms r \<and> adm_max_runtime_ms r < 2 ^ 63) \<and>
     0 \<le> pd_issued_quotes db \<and> pd_issued_quotes db < 2 ^ 63 \<and>
     distinct (map inv_token_hash (pd_invites db)) \<and> (\<forall>r\<in>set (pd_invites db). invite_ok r)"

definition empty_provider_db :: provider_db where
  "empty_provider_db = \<lparr>pd_admissions = [], pd_issued_quotes = 0, pd_pause_reason = None, pd_invites = []\<rparr>"

text \<open>A sequence of requests with a token hash at given times, and the answers they get.\<close>

fun authorize_all ::
  "provider_policy \<Rightarrow> (string \<times> i64) list \<Rightarrow> provider_db \<Rightarrow> bool list \<times> provider_db" where
  "authorize_all policy [] db = ([], db)"
| "authorize_all policy ((hash, now) # reqs) db =
     (case authorize_invite policy hash now db of
        (res, db1) \<Rightarrow>
          (case authorize_all policy reqs db1 of
             (answers, db2) \<Rightarrow> ((res = Inr True) # answers, db2)))"

definition protected_policy :: provider_policy where
  "protected_policy = \<lparr>require_payment = False, max_total_deals = Some 2,
     max_total_runtime_ms = Some 5000, max_total_quotes = Some 10, access_mode = Invite,
     invite_token_hashes = [], min_free_bytes = 0, max_database_bytes = None\<rparr>"

definition sample_invite :: invite_row where
  "sample_invite = \<lparr>inv_token_hash = ''h'', inv_name = ''guest'', inv_expires_at = 100,
     inv_max_requests = 2, inv_used_requests = 0, inv_revoked = False\<rparr>"

section \<open>Lemmas on usage and invitations\<close>

lemma read_nonnegative_Inr: "read_nonnegative i v = Inr w \<longleftrightarrow> 0 \<le> v \<and> w = word_of_int v"
  by (auto simp: read_nonnegative_def u64_of_i64_def)

lemma uint_word_u64: "0 \<le> i \<Longrightarrow> i < 2 ^ 64 \<Longrightarrow> uint (word_of_int i :: u64) = i"
  by (simp add: uint_word_of_int)

lemma usage_Inr:
  assumes "usage db = Inr t"
  shows "uint (reserved_runtime_ms t) = reserved_runtime db" "reserved_runtime db < 2 ^ 63"
    "length (pd_admissions db) < 2 ^ 64 \<Longrightarrow> uint (reserved_deals t) = int (length (pd_admissions db))"
    "pd_issued_quotes db < 2 ^ 63 \<Longrightarrow> uint (issued_quotes t) = pd_issued_quotes db"
proof -
  have s: "sql_sum 0 (map adm_max_runtime_ms (pd_admissions db)) = Inr (reserved_runtime db)"
    and n: "0 \<le> reserved_runtime db" "0 \<le> pd_issued_quotes db"
    and t: "t = \<lparr>reserved_deals = word_of_int (int (length (pd_admissions db))),
      reserved_runtime_ms = word_of_int (reserved_runtime db),
      issued_quotes = word_of_int (pd_issued_quotes db)\<rparr>"
    using assms sql_sum_Inr [of 0 "map adm_max_runtime_ms (pd_admissions db)"]
    by (auto simp: usage_def result_simps read_nonnegative_Inr reserved_runtime_def)
  show lt: "reserved_runtime db < 2 ^ 63" by (rule sql_sum_range [OF s]) simp
  show "uint (reserved_runtime_ms t) = reserved_runtime db" using n lt by (simp add: t uint_word_u64)
  show "uint (issued_quotes t) = pd_issued_quotes db" if "pd_issued_quotes db < 2 ^ 63"
    using n that by (simp add: t uint_word_u64)
  show "uint (reserved_deals t) = int (length (pd_admissions db))"
    if "length (pd_admissions db) < 2 ^ 64"
  proof -
    have "int (length (pd_admissions db)) < int (2 ^ 64)" using that by (simp only: of_nat_less_iff)
    then have "uint (word_of_int (int (length (pd_admissions db))) :: u64) = int (length (pd_admissions db))"
      by (intro uint_word_u64) simp_all
    then show ?thesis by (simp only: t provider_usage.simps)
  qed
qed

lemma validate_policy_limits:
  assumes "validate_policy policy = Inr ()" and "max_total_quotes policy = Some l"
  shows "uint l < 2 ^ 63"
proof -
  have "check_limit (max_total_quotes policy) = Inr ()"
    using assms(1) by (auto simp: validate_policy_def result_simps split: if_splits)
  then show ?thesis
    using assms(2) by (auto simp: check_limit_def I64_MAX_def word_less_alt split: if_splits)
qed

text \<open>The rows of one invitation before and after an operation.\<close>

definition invite_kept :: "invite_row \<Rightarrow> invite_row \<Rightarrow> bool" where
  "invite_kept r r' \<longleftrightarrow> inv_token_hash r' = inv_token_hash r \<and> (inv_revoked r \<longrightarrow> inv_revoked r') \<and>
     inv_used_requests r \<le> inv_used_requests r' \<and> inv_max_requests r' = inv_max_requests r"

definition invites_grow :: "provider_db \<Rightarrow> provider_db \<Rightarrow> bool" where
  "invites_grow db db' \<longleftrightarrow>
     (distinct (map inv_token_hash (pd_invites db)) \<and> (\<forall>r\<in>set (pd_invites db). invite_ok r) \<longrightarrow>
      distinct (map inv_token_hash (pd_invites db')) \<and> (\<forall>r\<in>set (pd_invites db'). invite_ok r)) \<and>
     (\<forall>r\<in>set (pd_invites db). \<exists>r'\<in>set (pd_invites db'). invite_kept r r')"

lemma invite_kept_refl [simp]: "invite_kept r r"
  by (simp add: invite_kept_def)

lemma invites_grow_same: "pd_invites db' = pd_invites db \<Longrightarrow> invites_grow db db'"
  using invite_kept_refl by (force simp: invites_grow_def)

lemma invites_grow_append:
  "pd_invites db' = pd_invites db @ [r] \<Longrightarrow> inv_token_hash r \<notin> inv_token_hash ` set (pd_invites db) \<Longrightarrow>
     invite_ok r \<Longrightarrow> invites_grow db db'"
  using invite_kept_refl by (force simp: invites_grow_def)

lemma invites_grow_map:
  assumes "pd_invites db' = map f (pd_invites db)"
    and "\<And>r. invite_kept r (f r)" and "\<And>r. invite_ok r \<Longrightarrow> invite_ok (f r)"
  shows "invites_grow db db'"
proof -
  have keys: "map inv_token_hash (pd_invites db') = map inv_token_hash (pd_invites db)"
    using assms(1,2) by (simp add: invite_kept_def)
  have kept: "\<exists>r'\<in>set (pd_invites db'). invite_kept r r'" if "r \<in> set (pd_invites db)" for r
    using that assms(1,2) by auto
  have "\<forall>r\<in>set (pd_invites db'). invite_ok r" if "\<forall>r\<in>set (pd_invites db). invite_ok r"
    using that assms(1,3) by auto
  with kept show ?thesis unfolding invites_grow_def keys by blast
qed

lemma create_invite_grows: "invites_grow db (snd (create_invite cs rnd name ex n now db))"
proof -
  let ?db = "snd (create_invite cs rnd name ex n now db)"
  have "pd_invites ?db = pd_invites db \<or>
    (\<exists>r. pd_invites ?db = pd_invites db @ [r] \<and>
       inv_token_hash r \<notin> inv_token_hash ` set (pd_invites db) \<and> invite_ok r)"
    by (auto simp: create_invite_def with_immediate_transaction_def Let_def list_ex_iff invite_ok_def
        image_iff)
  then show ?thesis by (auto intro: invites_grow_same invites_grow_append)
qed

lemma revoke_invite_grows: "invites_grow db (snd (revoke_invite i db))"
proof (cases "list_ex (\<lambda>r. inv_token_hash r = i) (pd_invites db)")
  case True
  then have "pd_invites (snd (revoke_invite i db)) = pd_invites db \<or>
    pd_invites (snd (revoke_invite i db)) =
      map (\<lambda>r. if inv_token_hash r = i then r\<lparr>inv_revoked := True\<rparr> else r) (pd_invites db)"
    by (simp add: revoke_invite_def update_where_def)
  then show ?thesis
  proof
    assume "pd_invites (snd (revoke_invite i db)) =
      map (\<lambda>r. if inv_token_hash r = i then r\<lparr>inv_revoked := True\<rparr> else r) (pd_invites db)"
    then show ?thesis by (rule invites_grow_map) (auto simp: invite_kept_def invite_ok_def)
  qed (rule invites_grow_same)
next
  case False
  then have "pd_invites (snd (revoke_invite i db)) = pd_invites db \<or>
    (\<exists>r. pd_invites (snd (revoke_invite i db)) = pd_invites db @ [r] \<and>
       inv_token_hash r \<notin> inv_token_hash ` set (pd_invites db) \<and> invite_ok r)"
    by (auto simp: revoke_invite_def list_ex_iff invite_ok_def image_iff)
  then show ?thesis by (auto intro: invites_grow_same invites_grow_append)
qed

definition live_invite :: "string \<Rightarrow> i64 \<Rightarrow> invite_row \<Rightarrow> bool" where
  "live_invite hash now r \<longleftrightarrow> inv_token_hash r = hash \<and> \<not> inv_revoked r \<and> inv_expires_at r > now \<and>
     inv_used_requests r < inv_max_requests r"

lemma live_invite_abs: "(\<lambda>r. inv_token_hash r = hash \<and> \<not> inv_revoked r \<and> inv_expires_at r > now \<and>
     inv_used_requests r < inv_max_requests r) = live_invite hash now"
  by (simp add: live_invite_def fun_eq_iff)

lemma authorize_invite_eq:
  "authorize_invite policy hash now db =
     (Inr (if length (filter (live_invite hash now) (pd_invites db)) = 1 then True
           else if list_ex (\<lambda>r. inv_token_hash r = hash) (pd_invites db) then False
           else hash \<in> set (invite_token_hashes policy)),
      db\<lparr>pd_invites := map (\<lambda>r. if live_invite hash now r
          then r\<lparr>inv_used_requests := inv_used_requests r + 1\<rparr> else r) (pd_invites db)\<rparr>)"
proof -
  have "list_ex (\<lambda>r. inv_token_hash r = hash) (map (\<lambda>r. if live_invite hash now r
          then r\<lparr>inv_used_requests := inv_used_requests r + 1\<rparr> else r) t) =
    list_ex (\<lambda>r. inv_token_hash r = hash) t" for t
    by (induction t) auto
  moreover have "list_ex (\<lambda>expected. hash = expected) hs = (hash \<in> set hs)" for hs
    by (induction hs) auto
  ultimately show ?thesis
    unfolding authorize_invite_def authorize_invite_in_transaction_def live_invite_abs
      with_immediate_transaction_def update_where_def
    by (simp add: Let_def)
qed

lemma authorize_invite_grows: "invites_grow db (snd (authorize_invite policy hash now db))"
  unfolding authorize_invite_eq snd_conv
  by (rule invites_grow_map [where f = "\<lambda>r. if live_invite hash now r
        then r\<lparr>inv_used_requests := inv_used_requests r + 1\<rparr> else r"])
    (auto simp: invite_kept_def invite_ok_def live_invite_def)

section \<open>The contract of the operations\<close>

text \<open>
  What every operation on the provider's tables promises under a policy: an admission is only ever
  added, and only within the allowance; a quote is only counted up, and only below its limit; and
  invitations are kept, with their use growing and a revocation staying.
\<close>

locale provider_op =
  fixes policy :: provider_policy and op :: "provider_db \<Rightarrow> provider_db"
  assumes admits: "pd_admissions (op db) = pd_admissions db \<or>
      (\<exists>r t. pd_admissions (op db) = pd_admissions db @ [r] \<and>
         adm_key r \<notin> adm_key ` set (pd_admissions db) \<and>
         0 \<le> adm_max_runtime_ms r \<and> adm_max_runtime_ms r < 2 ^ 63 \<and> usage db = Inr t \<and>
         \<not> at_least (max_total_deals policy) (reserved_deals t) \<and>
         (\<forall>l. max_total_runtime_ms policy = Some l \<longrightarrow>
            uint (reserved_runtime_ms t) + adm_max_runtime_ms r \<le> uint l))"
    and quotes: "pd_issued_quotes (op db) = pd_issued_quotes db \<or>
      (pd_issued_quotes (op db) = pd_issued_quotes db + 1 \<and>
       (\<exists>t. usage db = Inr t \<and>
          issued_quotes t < (case max_total_quotes policy of None \<Rightarrow> I64_MAX | Some l \<Rightarrow> l)))"
    and invites: "invites_grow db (op db)"
begin

lemma quotes_bound:
  assumes "pd_issued_quotes db < 2 ^ 63"
  shows "pd_issued_quotes (op db) \<le> max (pd_issued_quotes db)
    (uint (case max_total_quotes policy of None \<Rightarrow> I64_MAX | Some l \<Rightarrow> l))"
  using quotes [of db] usage_Inr(4) [OF _ assms] by (auto simp: word_less_alt)

lemma keeps_ok:
  assumes "provider_ok db" and "validate_policy policy = Inr ()"
  shows "provider_ok (op db)"
proof -
  have "uint (case max_total_quotes policy of None \<Rightarrow> I64_MAX | Some l \<Rightarrow> l) < 2 ^ 63"
    using validate_policy_limits [OF assms(2)] by (simp add: I64_MAX_def split: option.split)
  with quotes_bound [of db] assms(1) have "pd_issued_quotes (op db) < 2 ^ 63"
    unfolding provider_ok_def by linarith
  moreover have "0 \<le> pd_issued_quotes (op db)"
    using quotes [of db] assms(1) by (auto simp: provider_ok_def)
  moreover have "distinct (map adm_key (pd_admissions (op db))) \<and>
      (\<forall>r\<in>set (pd_admissions (op db)). 0 \<le> adm_max_runtime_ms r \<and> adm_max_runtime_ms r < 2 ^ 63)"
    using admits [of db] assms(1) by (auto simp: provider_ok_def)
  ultimately show ?thesis
    using invites [of db] assms(1) by (simp add: provider_ok_def invites_grow_def)
qed

lemma deals_bound:
  assumes "max_total_deals policy = Some l" and "length (pd_admissions db) < 2 ^ 64"
  shows "length (pd_admissions (op db)) \<le> max (length (pd_admissions db)) (unat l)"
  using admits [of db]
proof
  assume "\<exists>r t. pd_admissions (op db) = pd_admissions db @ [r] \<and>
         adm_key r \<notin> adm_key ` set (pd_admissions db) \<and>
         0 \<le> adm_max_runtime_ms r \<and> adm_max_runtime_ms r < 2 ^ 63 \<and> usage db = Inr t \<and>
         \<not> at_least (max_total_deals policy) (reserved_deals t) \<and>
         (\<forall>l. max_total_runtime_ms policy = Some l \<longrightarrow>
            uint (reserved_runtime_ms t) + adm_max_runtime_ms r \<le> uint l)"
  then obtain r t where r: "pd_admissions (op db) = pd_admissions db @ [r]" "usage db = Inr t"
      "reserved_deals t < l"
    using assms(1) by (auto simp: at_least_def not_le)
  from usage_Inr(3) [OF r(2) assms(2)] r(3) have "int (length (pd_admissions db)) < uint l"
    by (simp add: word_less_alt)
  then have "length (pd_admissions db) < unat l"
    by (simp only: unat_eq_nat_uint zless_nat_eq_int_zless)
  with r(1) show ?thesis by simp
qed simp

lemma runtime_bound:
  assumes "max_total_runtime_ms policy = Some l"
  shows "reserved_runtime (op db) \<le> max (reserved_runtime db) (uint l)"
  using admits [of db] assms usage_Inr(1) by (fastforce simp: reserved_runtime_def)

lemma keeps_admission: "r \<in> set (pd_admissions db) \<Longrightarrow> r \<in> set (pd_admissions (op db))"
  using admits [of db] by auto

lemma keeps_revoked:
  "r \<in> set (pd_invites db) \<Longrightarrow> inv_revoked r \<Longrightarrow>
     \<exists>r'\<in>set (pd_invites (op db)). inv_token_hash r' = inv_token_hash r \<and> inv_revoked r'"
  using invites [of db] by (fastforce simp: invites_grow_def invite_kept_def)

end

lemma reserve_deal_admits:
  "pd_admissions (snd (reserve_deal policy k m db)) = pd_admissions db \<or>
   (\<exists>r t. pd_admissions (snd (reserve_deal policy k m db)) = pd_admissions db @ [r] \<and>
      adm_key r \<notin> adm_key ` set (pd_admissions db) \<and>
      0 \<le> adm_max_runtime_ms r \<and> adm_max_runtime_ms r < 2 ^ 63 \<and> usage db = Inr t \<and>
      \<not> at_least (max_total_deals policy) (reserved_deals t) \<and>
      (\<forall>l. max_total_runtime_ms policy = Some l \<longrightarrow>
         uint (reserved_runtime_ms t) + adm_max_runtime_ms r \<le> uint l))"
proof (cases "query_row (\<lambda>r. adm_key r = k) (pd_admissions db)")
  case (Some row)
  then show ?thesis by (simp add: reserve_deal_def)
next
  case None
  show ?thesis
  proof (cases "fst (reserve_deal policy k m db)")
    case (Inl e)
    with None show ?thesis by (auto simp: reserve_deal_def split: sum.splits)
  next
    case (Inr u)
    then obtain t v where t: "usage db = Inr t" and v: "checked_add (reserved_runtime_ms t) m = Some v"
      and l: "\<not> at_least (max_total_deals policy) (reserved_deals t)"
        "\<not> above (max_total_runtime_ms policy) v" and m: "i64_of_u64 m = Some (uint m)" "uint m < 2 ^ 63"
      and db: "pd_admissions (snd (reserve_deal policy k m db)) =
        pd_admissions db @ [\<lparr>adm_key = k, adm_max_runtime_ms = uint m\<rparr>]"
      using None
      by (auto simp: reserve_deal_def result_simps i64_of_u64_def
          split: sum.splits option.splits if_splits)
    have "uint v = uint (reserved_runtime_ms t) + uint m"
      using arg_cong [OF checked_add_Some [OF v], of int] by simp
    moreover have "k \<notin> adm_key ` set (pd_admissions db)" using None by (auto simp: query_row_None)
    ultimately show ?thesis
      using t l m db by (auto simp: above_def not_less word_le_def)
  qed
qed

lemma reserve_deal_frame:
  "pd_issued_quotes (snd (reserve_deal policy k m db)) = pd_issued_quotes db"
  "pd_invites (snd (reserve_deal policy k m db)) = pd_invites db"
  by (auto simp: reserve_deal_def split: sum.split option.split)

lemma reserve_quote_frame:
  "pd_admissions (snd (reserve_quote policy db)) = pd_admissions db"
  "pd_invites (snd (reserve_quote policy db)) = pd_invites db"
  by (auto simp: reserve_quote_def split: sum.split)

lemma reserve_quote_counts:
  "pd_issued_quotes (snd (reserve_quote policy db)) = pd_issued_quotes db \<or>
     (pd_issued_quotes (snd (reserve_quote policy db)) = pd_issued_quotes db + 1 \<and>
      (\<exists>t. usage db = Inr t \<and>
         issued_quotes t < (case max_total_quotes policy of None \<Rightarrow> I64_MAX | Some l \<Rightarrow> l)))"
proof (cases "fst (reserve_quote policy db)")
  case (Inl e)
  then show ?thesis by (auto simp: reserve_quote_def split: sum.splits)
next
  case (Inr u)
  then show ?thesis by (auto simp: reserve_quote_def result_simps not_le split: sum.splits if_splits)
qed

lemma transaction_choice:
  "snd (with_immediate_transaction op db) = db \<or> snd (with_immediate_transaction op db) = snd (op db)"
  by (auto simp: with_immediate_transaction_def split: prod.split sum.split)

interpretation deal_op: provider_op policy "\<lambda>db. snd (with_immediate_transaction (reserve_deal policy k m) db)"
  for policy k m
proof unfold_locales
  fix db
  note choice = transaction_choice [of "reserve_deal policy k m" db]
  show "pd_admissions (snd (with_immediate_transaction (reserve_deal policy k m) db)) = pd_admissions db \<or>
      (\<exists>r t. pd_admissions (snd (with_immediate_transaction (reserve_deal policy k m) db)) =
           pd_admissions db @ [r] \<and> adm_key r \<notin> adm_key ` set (pd_admissions db) \<and>
         0 \<le> adm_max_runtime_ms r \<and> adm_max_runtime_ms r < 2 ^ 63 \<and> usage db = Inr t \<and>
         \<not> at_least (max_total_deals policy) (reserved_deals t) \<and>
         (\<forall>l. max_total_runtime_ms policy = Some l \<longrightarrow>
            uint (reserved_runtime_ms t) + adm_max_runtime_ms r \<le> uint l))"
    using choice reserve_deal_admits [of policy k m db] by auto
  show "invites_grow db (snd (with_immediate_transaction (reserve_deal policy k m) db))"
    by (rule invites_grow_same) (use choice reserve_deal_frame in auto)
  show "pd_issued_quotes (snd (with_immediate_transaction (reserve_deal policy k m) db)) =
      pd_issued_quotes db \<or>
    (pd_issued_quotes (snd (with_immediate_transaction (reserve_deal policy k m) db)) =
       pd_issued_quotes db + 1 \<and>
     (\<exists>t. usage db = Inr t \<and>
        issued_quotes t < (case max_total_quotes policy of None \<Rightarrow> I64_MAX | Some l \<Rightarrow> l)))"
    using choice reserve_deal_frame(1) [of policy k m db] by auto
qed

lemma provider_op_frame:
  assumes "\<And>db. pd_admissions (op db) = pd_admissions db"
    and "\<And>db. pd_issued_quotes (op db) = pd_issued_quotes db" and "\<And>db. invites_grow db (op db)"
  shows "provider_op policy op"
  using assms by unfold_locales auto

interpretation quote_op: provider_op policy "\<lambda>db. snd (with_immediate_transaction (reserve_quote policy) db)"
  for policy
proof unfold_locales
  fix db
  note choice = transaction_choice [of "reserve_quote policy" db]
  have "pd_admissions (snd (with_immediate_transaction (reserve_quote policy) db)) = pd_admissions db"
    using choice reserve_quote_frame(1) [of policy db] by auto
  then show "pd_admissions (snd (with_immediate_transaction (reserve_quote policy) db)) = pd_admissions db \<or>
      (\<exists>r t. pd_admissions (snd (with_immediate_transaction (reserve_quote policy) db)) =
           pd_admissions db @ [r] \<and> adm_key r \<notin> adm_key ` set (pd_admissions db) \<and>
         0 \<le> adm_max_runtime_ms r \<and> adm_max_runtime_ms r < 2 ^ 63 \<and> usage db = Inr t \<and>
         \<not> at_least (max_total_deals policy) (reserved_deals t) \<and>
         (\<forall>l. max_total_runtime_ms policy = Some l \<longrightarrow>
            uint (reserved_runtime_ms t) + adm_max_runtime_ms r \<le> uint l))" ..
  show "invites_grow db (snd (with_immediate_transaction (reserve_quote policy) db))"
    by (rule invites_grow_same) (use choice reserve_quote_frame in auto)
  show "pd_issued_quotes (snd (with_immediate_transaction (reserve_quote policy) db)) =
      pd_issued_quotes db \<or>
    (pd_issued_quotes (snd (with_immediate_transaction (reserve_quote policy) db)) =
       pd_issued_quotes db + 1 \<and>
     (\<exists>t. usage db = Inr t \<and>
        issued_quotes t < (case max_total_quotes policy of None \<Rightarrow> I64_MAX | Some l \<Rightarrow> l)))"
    using choice reserve_quote_counts [of policy db] by auto
qed

interpretation pause_op: provider_op policy "\<lambda>db. snd (set_pause reason db)" for policy reason
  by (rule provider_op_frame) (auto simp: set_pause_def intro!: invites_grow_same)

interpretation create_op: provider_op policy "\<lambda>db. snd (create_invite cs rnd name ex n now db)"
  for policy cs rnd name ex n now
  by (rule provider_op_frame)
    (rule create_invite_grows | simp add: create_invite_def with_immediate_transaction_def Let_def)+

interpretation revoke_op: provider_op policy "\<lambda>db. snd (revoke_invite i db)" for policy i
  by (rule provider_op_frame) (rule revoke_invite_grows | simp add: revoke_invite_def)+

lemma provider_access_allowed_effect:
  "snd (provider_access_allowed cs policy token path now db) = db \<or>
   (\<exists>hash. snd (provider_access_allowed cs policy token path now db) =
      snd (authorize_invite policy hash now db))"
  by (cases "access_mode policy"; cases token)
    (auto simp: provider_access_allowed_def authorize_invite_eq)

lemma admit_effect:
  "snd (admit_new_provider_work cs policy operator st token path now db) = db \<or>
   (\<exists>hash. snd (admit_new_provider_work cs policy operator st token path now db) =
      snd (authorize_invite policy hash now db))"
proof -
  have "snd (admit_new_provider_work cs policy operator st token path now db) =
      (if operator then db else snd (provider_access_allowed cs policy token path now db))"
    by (auto simp: admit_new_provider_work_def split: prod.splits bool.splits)
  then show ?thesis
    using provider_access_allowed_effect [of cs policy token path now db] by auto
qed

interpretation admit_op: provider_op policy
  "\<lambda>db. snd (admit_new_provider_work cs policy operator st token path now db)"
  for cs policy operator st token path now
proof (rule provider_op_frame)
  fix db
  note e = admit_effect [of cs policy operator st token path now db]
  show "pd_admissions (snd (admit_new_provider_work cs policy operator st token path now db)) =
      pd_admissions db"
    using e by (auto simp: authorize_invite_eq)
  show "pd_issued_quotes (snd (admit_new_provider_work cs policy operator st token path now db)) =
      pd_issued_quotes db"
    using e by (auto simp: authorize_invite_eq)
  show "invites_grow db (snd (admit_new_provider_work cs policy operator st token path now db))"
    using e authorize_invite_grows [of db policy _ now] invites_grow_same [of db db] by auto
qed

section \<open>Runs\<close>

lemma provider_step_cases:
  assumes "provider_step cs policy db db'"
  obtains op where "provider_op policy op" "db' = op db"
  using assms
  by cases (blast intro: deal_op.provider_op_axioms quote_op.provider_op_axioms
      pause_op.provider_op_axioms create_op.provider_op_axioms revoke_op.provider_op_axioms
      admit_op.provider_op_axioms)+

lemma provider_run_ok:
  assumes "(provider_step cs policy)\<^sup>*\<^sup>* db db'" and "provider_ok db"
    and "validate_policy policy = Inr ()"
  shows "provider_ok db'"
  using assms(1)
proof (induction rule: rtranclp_induct)
  case (step y z)
  then show ?case using provider_step_cases provider_op.keeps_ok assms(3) by metis
qed (rule assms(2))

lemma provider_run_admission:
  "(provider_step cs policy)\<^sup>*\<^sup>* db db' \<Longrightarrow> r \<in> set (pd_admissions db) \<Longrightarrow> r \<in> set (pd_admissions db')"
  by (induction rule: rtranclp_induct) (metis provider_step_cases provider_op.keeps_admission)+

lemma provider_run_revoked:
  assumes "(provider_step cs policy)\<^sup>*\<^sup>* db db'" and "r \<in> set (pd_invites db)" and "inv_revoked r"
  shows "\<exists>r'\<in>set (pd_invites db'). inv_token_hash r' = inv_token_hash r \<and> inv_revoked r'"
  using assms(1)
proof (induction rule: rtranclp_induct)
  case base
  show ?case using assms(2,3) by blast
next
  case (step y z)
  then obtain r' op where "r' \<in> set (pd_invites y)" "inv_token_hash r' = inv_token_hash r"
      "inv_revoked r'" "provider_op policy op" "z = op y"
    using provider_step_cases by metis
  then show ?case using provider_op.keeps_revoked by metis
qed

lemma revoke_invite_row:
  assumes "fst (revoke_invite i db) = Inr ()"
  shows "\<exists>r\<in>set (pd_invites (snd (revoke_invite i db))). inv_token_hash r = i \<and> inv_revoked r"
proof (cases "list_ex (\<lambda>r. inv_token_hash r = i) (pd_invites db)")
  case True
  then obtain r where "r \<in> set (pd_invites db)" "inv_token_hash r = i" by (auto simp: list_ex_iff)
  with True assms show ?thesis
    by (intro bexI [of _ "r\<lparr>inv_revoked := True\<rparr>"])
      (auto simp: revoke_invite_def update_where_def split: if_splits)
next
  case False
  with assms show ?thesis by (simp add: revoke_invite_def split: if_splits)
qed

lemma authorize_all_bound:
  assumes "r \<in> set (pd_invites db)" and "inv_token_hash r = hash" and "provider_ok db"
  shows "int (length (filter (\<lambda>(req, ok). fst req = hash \<and> ok)
      (zip reqs (fst (authorize_all policy reqs db))))) \<le> inv_max_requests r - inv_used_requests r"
  using assms
proof (induction reqs arbitrary: db r)
  case Nil
  then show ?case by (auto simp: provider_ok_def invite_ok_def)
next
  case (Cons req reqs)
  obtain h now where req: "req = (h, now)" by (cases req)
  let ?bump = "\<lambda>r. if live_invite h now r then r\<lparr>inv_used_requests := inv_used_requests r + 1\<rparr> else r"
  define db1 where "db1 = snd (authorize_invite policy h now db)"
  have db1: "pd_invites db1 = map ?bump (pd_invites db)" "pd_admissions db1 = pd_admissions db"
      "pd_issued_quotes db1 = pd_issued_quotes db"
    by (simp_all add: db1_def authorize_invite_eq)
  have in1: "?bump r \<in> set (pd_invites db1)" using Cons.prems(1) by (simp add: db1)
  have ok1: "provider_ok db1"
    using authorize_invite_grows [of db policy h now] Cons.prems(3)
    by (simp add: provider_ok_def invites_grow_def db1 db1_def [symmetric])
  have key1: "inv_token_hash (?bump r) = hash" using Cons.prems(2) by simp
  note IH = Cons.IH [OF in1 key1 ok1]
  let ?res = "fst (authorize_invite policy h now db)"
  have eq: "fst (authorize_all policy (req # reqs) db) =
      (?res = Inr True) # fst (authorize_all policy reqs db1)"
    by (simp add: req db1_def split: prod.split)
  have ans: "live_invite hash now r" if "h = hash" "?res = Inr True"
  proof -
    have "list_ex (\<lambda>r. inv_token_hash r = hash) (pd_invites db)"
      using Cons.prems by (auto simp: list_ex_iff)
    with that have "length (filter (live_invite hash now) (pd_invites db)) = 1"
      by (simp add: authorize_invite_eq split: if_splits)
    then obtain x where "filter (live_invite hash now) (pd_invites db) = [x]"
      by (auto simp: length_Suc_conv)
    then have "x \<in> set (filter (live_invite hash now) (pd_invites db))" by simp
    then have "x \<in> set (pd_invites db) \<and> live_invite hash now x" by simp
    moreover have "inj_on inv_token_hash (set (pd_invites db))"
      using Cons.prems(3) by (simp add: provider_ok_def distinct_map)
    ultimately show ?thesis
      using Cons.prems(1,2) by (auto simp: live_invite_def dest: inj_onD)
  qed
  show ?case
    using IH ans unfolding eq by (auto simp: req split: if_splits)
qed

section \<open>Properties\<close>

text \<open>
  C14. The allowance of a provider is never exceeded. Under a policy that passes its validation,
  whatever sequence of reservations, pauses, invitations, revocations and admissions runs, the
  number of admitted deals, their total reserved runtime and the number of issued quotes stay at or
  below the larger of the configured limit and their value at the start; without a configured
  quote limit the counter stays within SQLite's integers.
\<close>

theorem provider_allowance_never_exceeded:
  assumes "(provider_step cs policy)\<^sup>*\<^sup>* db db'" and "validate_policy policy = Inr ()"
    and "provider_ok db" and "length (pd_admissions db) < 2 ^ 63"
  shows "(\<forall>l. max_total_deals policy = Some l \<longrightarrow>
       length (pd_admissions db') \<le> max (length (pd_admissions db)) (unat l)) \<and>
    (\<forall>l. max_total_runtime_ms policy = Some l \<longrightarrow>
       reserved_runtime db' \<le> max (reserved_runtime db) (uint l)) \<and>
    pd_issued_quotes db' \<le> max (pd_issued_quotes db)
      (uint (case max_total_quotes policy of None \<Rightarrow> I64_MAX | Some l \<Rightarrow> l))"
  using assms(1)
proof (induction rule: rtranclp_induct)
  case (step y z)
  obtain op where op: "provider_op policy op" "z = op y" using provider_step_cases step.hyps(2) by blast
  have y: "provider_ok y" using provider_run_ok [OF step.hyps(1) assms(3,2)] .
  have "length (pd_admissions z) \<le> max (length (pd_admissions db)) (unat l)"
    if "max_total_deals policy = Some l" for l
  proof -
    have "unat l < 2 ^ 64" using unsigned_less [of l, where 'a = nat] by simp
    with step.IH that assms(4) have "length (pd_admissions y) < 2 ^ 64" by fastforce
    from provider_op.deals_bound [OF op(1) that this] step.IH that op(2) show ?thesis by fastforce
  qed
  moreover have "reserved_runtime z \<le> max (reserved_runtime db) (uint l)"
    if "max_total_runtime_ms policy = Some l" for l
    using provider_op.runtime_bound [OF op(1) that, of y] step.IH that op(2) by fastforce
  moreover have "pd_issued_quotes z \<le> max (pd_issued_quotes db)
      (uint (case max_total_quotes policy of None \<Rightarrow> I64_MAX | Some l \<Rightarrow> l))"
    using provider_op.quotes_bound [OF op(1), of y] y step.IH unfolding op(2) provider_ok_def by linarith
  ultimately show ?case by blast
qed simp

lemma protected_policy_valid: "validate_policy protected_policy = Inr ()"
  by (simp add: validate_policy_def protected_policy_def check_limit_def I64_MAX_def)

lemma empty_provider_ok: "provider_ok empty_provider_db"
  by (simp add: provider_ok_def empty_provider_db_def)

theorem provider_allowance_never_exceeded_witness:
  "length (pd_admissions (snd (with_immediate_transaction (reserve_deal protected_policy ''d'' 3000)
     empty_provider_db))) \<le> 2 \<and>
   reserved_runtime (snd (with_immediate_transaction (reserve_deal protected_policy ''d'' 3000)
     empty_provider_db)) \<le> 5000"
proof -
  have "length (pd_admissions empty_provider_db) < 2 ^ 63" by (simp add: empty_provider_db_def)
  moreover have "(provider_step undefined protected_policy)\<^sup>*\<^sup>* empty_provider_db
      (snd (with_immediate_transaction (reserve_deal protected_policy ''d'' 3000) empty_provider_db))"
    by (rule r_into_rtranclp, rule provider_deal)
  ultimately show ?thesis
    using provider_allowance_never_exceeded [OF _ protected_policy_valid empty_provider_ok]
    by (fastforce simp: protected_policy_def empty_provider_db_def reserved_runtime_def)
qed

text \<open>
  An invitation is good for at most its number of requests. Of any sequence of requests with
  any token hashes at any times, at most as many requests with the hash of a stored invitation are
  granted as it has left.
\<close>

theorem invite_use_is_bounded:
  assumes "r \<in> set (pd_invites db)" and "inv_token_hash r = hash" and "provider_ok db"
  shows "int (length (filter (\<lambda>(req, ok). fst req = hash \<and> ok)
      (zip reqs (fst (authorize_all policy reqs db))))) \<le> inv_max_requests r - inv_used_requests r"
  using assms by (rule authorize_all_bound)

lemma sample_invite_ok: "provider_ok (empty_provider_db\<lparr>pd_invites := [sample_invite]\<rparr>)"
  by (simp add: provider_ok_def empty_provider_db_def sample_invite_def invite_ok_def)

theorem invite_use_is_bounded_witness:
  "fst (authorize_all protected_policy [(''h'', 1), (''h'', 2), (''h'', 3)]
     (empty_provider_db\<lparr>pd_invites := [sample_invite]\<rparr>)) = [True, True, False] \<and>
   int (length (filter (\<lambda>(req, ok). fst req = ''h'' \<and> ok)
      (zip [(''h'', 1), (''h'', 2), (''h'', 3)]
        (fst (authorize_all protected_policy [(''h'', 1), (''h'', 2), (''h'', 3)]
           (empty_provider_db\<lparr>pd_invites := [sample_invite]\<rparr>)))))) \<le> 2"
  using invite_use_is_bounded [OF _ _ sample_invite_ok, of sample_invite "''h''"
      "[(''h'', 1), (''h'', 2), (''h'', 3)]" protected_policy]
  by (simp add: authorize_invite_eq live_invite_def sample_invite_def empty_provider_db_def)

text \<open>
  A revoked invitation is never accepted again. After a successful revocation, of a stored
  invitation or of a hash that only the configuration lists, and whatever happens to the
  provider's tables afterwards, a request with that hash is refused.
\<close>

theorem revoked_invite_is_refused:
  assumes "fst (revoke_invite i db) = Inr ()" and "provider_ok db"
    and "validate_policy policy = Inr ()"
    and "(provider_step cs policy)\<^sup>*\<^sup>* (snd (revoke_invite i db)) db'"
  shows "fst (authorize_invite policy i now db') = Inr False"
proof -
  obtain r where "r \<in> set (pd_invites db')" "inv_token_hash r = i" "inv_revoked r"
    using provider_run_revoked [OF assms(4)] revoke_invite_row [OF assms(1)] by blast
  moreover have "inj_on inv_token_hash (set (pd_invites db'))"
    using provider_run_ok [OF assms(4) revoke_op.keeps_ok [OF assms(2,3)] assms(3)]
    by (simp add: provider_ok_def distinct_map)
  ultimately have none: "\<not> live_invite i now x" if "x \<in> set (pd_invites db')" for x
    using that by (auto simp: live_invite_def dest: inj_onD)
  have "list_ex (\<lambda>r. inv_token_hash r = i) (pd_invites db')"
    using \<open>r \<in> set (pd_invites db')\<close> \<open>inv_token_hash r = i\<close> by (auto simp: list_ex_iff)
  moreover have "filter (live_invite i now) (pd_invites db') = []"
    using none by (simp add: filter_empty_conv)
  ultimately show ?thesis by (simp add: authorize_invite_eq)
qed

theorem revoked_invite_is_refused_witness:
  "fst (authorize_invite (protected_policy\<lparr>invite_token_hashes := [replicate 64 CHR ''a'']\<rparr>)
     (replicate 64 CHR ''a'') 5
     (snd (revoke_invite (replicate 64 CHR ''a'') empty_provider_db))) = Inr False"
proof -
  have "list_all is_lower_hex_char (replicate 64 CHR ''a'')"
    by (simp add: list_all_iff is_lower_hex_char_def is_ascii_hexdigit_def is_ascii_uppercase_def)
  then have "fst (revoke_invite (replicate 64 CHR ''a'') empty_provider_db) = Inr ()"
    by (simp add: revoke_invite_def)
  moreover have "validate_policy (protected_policy\<lparr>invite_token_hashes := [replicate 64 CHR ''a'']\<rparr>) = Inr ()"
    by (simp add: validate_policy_def protected_policy_def check_limit_def I64_MAX_def)
  ultimately show ?thesis
    using revoked_invite_is_refused [OF _ empty_provider_ok _ rtranclp.rtrancl_refl] by blast
qed

text \<open>
  A paused provider takes on nothing new and forgets nothing. While a pause reason is set,
  quotes are refused, deals with an unknown admission key are refused, and no request, not even the
  operator's, is admitted as new work; a deal that was admitted before is still recognised.
\<close>

theorem paused_provider_admits_nothing:
  assumes "pd_pause_reason db = Some reason"
  shows "reserve_quote policy db = (Inl ''provider is paused by its operator'', db) \<and>
    (k \<notin> adm_key ` set (pd_admissions db) \<longrightarrow>
       reserve_deal policy k m db = (Inl ''provider is paused by its operator'', db)) \<and>
    \<not> is_ok (fst (admit_new_provider_work cs policy operator st token path now db))"
proof -
  have p: "require_not_paused db = Inl ''provider is paused by its operator''"
    using assms by (simp add: require_not_paused_def)
  have "query_row (\<lambda>r. adm_key r = k) (pd_admissions db) = None"
    if "k \<notin> adm_key ` set (pd_admissions db)"
    using that by (auto simp: query_row_None)
  moreover have "\<not> is_ok (fst (admit_new_provider_work cs policy operator st token path now db))"
  proof -
    let ?db = "snd (if operator then (True, db) else provider_access_allowed cs policy token path now db)"
    have "pd_pause_reason ?db = Some reason"
      using assms provider_access_allowed_effect [of cs policy token path now db]
      by (auto simp: authorize_invite_eq)
    then have "require_not_paused ?db = Inl ''provider is paused by its operator''"
      by (simp add: require_not_paused_def)
    then show ?thesis
      by (cases "provider_storage_admission st")
        (auto simp: admit_new_provider_work_def split: prod.splits bool.splits if_splits)
  qed
  ultimately show ?thesis using p by (simp add: reserve_quote_def reserve_deal_def)
qed

theorem paused_provider_admits_nothing_witness:
  "reserve_quote protected_policy (snd (set_pause (Some ''stop'') empty_provider_db)) =
     (Inl ''provider is paused by its operator'', snd (set_pause (Some ''stop'') empty_provider_db))"
proof -
  have "trim ''stop'' = ''stop''" by (intro trim_printable) (simp_all add: printable_ascii_def)
  then have "pd_pause_reason (snd (set_pause (Some ''stop'') empty_provider_db)) = Some ''stop''"
    by (simp add: set_pause_def)
  then show ?thesis using paused_provider_admits_nothing by blast
qed

text \<open>
  An admitted deal stays admitted with the runtime it reserved. After \<open>reserve_deal\<close> succeeds,
  and whatever happens to the provider's tables afterwards, repeating it succeeds without a
  change, and repeating it with another runtime is refused.
\<close>

theorem admission_is_replayed:
  assumes "fst (reserve_deal policy k m db) = Inr ()" and "provider_ok db"
    and "validate_policy policy = Inr ()"
    and "(provider_step cs policy)\<^sup>*\<^sup>* (snd (reserve_deal policy k m db)) db'"
  shows "reserve_deal policy k m db' = (Inr (), db') \<and>
    (m' \<noteq> m \<longrightarrow> reserve_deal policy k m' db' =
       (Inl ''provider admission replay changed its resource reservation'', db'))"
proof -
  have t: "snd (with_immediate_transaction (reserve_deal policy k m) db) = snd (reserve_deal policy k m db)"
    using assms(1) by (cases "reserve_deal policy k m db") (simp add: with_immediate_transaction_def)
  have "\<exists>r\<in>set (pd_admissions (snd (reserve_deal policy k m db))).
      adm_key r = k \<and> adm_max_runtime_ms r = uint m"
  proof (cases "query_row (\<lambda>r. adm_key r = k) (pd_admissions db)")
    case (Some r)
    then have r: "r \<in> set (pd_admissions db)" "adm_key r = k" using query_row_Some by fastforce+
    moreover have "u64_of_i64 (adm_max_runtime_ms r) = Some m"
      using assms(1) Some
      by (auto simp: reserve_deal_def result_simps read_nonnegative_def split: if_splits)
    then have "adm_max_runtime_ms r = uint m"
      using u64_of_i64_uint assms(2) r(1) by (fastforce simp: provider_ok_def)
    ultimately show ?thesis using Some by (auto simp: reserve_deal_def)
  next
    case None
    with assms(1) show ?thesis
      by (auto simp: reserve_deal_def result_simps i64_of_u64_def split: sum.splits if_splits)
  qed
  then obtain r where r: "r \<in> set (pd_admissions db')" "adm_key r = k" "adm_max_runtime_ms r = uint m"
    using provider_run_admission [OF assms(4)] by blast
  have "distinct (map adm_key (pd_admissions db'))"
    using provider_run_ok [OF assms(4) deal_op.keeps_ok [of db policy k m, unfolded t, OF assms(2,3)]
        assms(3)]
    by (simp add: provider_ok_def)
  then have "query_row (\<lambda>x. adm_key x = k) (pd_admissions db') = Some r"
    using query_row_key [of adm_key "pd_admissions db'" r] r by simp
  with r(3) show ?thesis
    by (auto simp: reserve_deal_def read_nonnegative_def u64_of_i64_def)
qed

theorem admission_is_replayed_witness:
  "reserve_deal protected_policy ''d'' 3000 (snd (reserve_deal protected_policy ''d'' 3000 empty_provider_db))
     = (Inr (), snd (reserve_deal protected_policy ''d'' 3000 empty_provider_db))"
proof -
  have "fst (reserve_deal protected_policy ''d'' 3000 empty_provider_db) = Inr ()"
    by (simp add: reserve_deal_def empty_provider_db_def query_row_def require_not_paused_def usage_def
        read_nonnegative_def u64_of_i64_def checked_add_def I64_MAX_def at_least_def above_def
        protected_policy_def i64_of_u64_def)
  from admission_is_replayed [OF this empty_provider_ok protected_policy_valid rtranclp.rtrancl_refl]
  show ?thesis by blast
qed

text \<open>
  C15. A guest of an invite-only provider gets in only with an invitation, and only for quotes and
  deals. When a request without the operator's credential is admitted in invite mode, its path is
  one of the two, it carries a token of 32 to 256 bytes, and the hash of that token is either that
  of a stored, unrevoked, unexpired invitation, whose use the request counted, or one the
  configuration lists and no stored invitation has.
\<close>

theorem guest_needs_invitation:
  assumes "access_mode policy = Invite"
    and "fst (admit_new_provider_work cs policy False st token path now db) = Inr ()"
  shows "path \<in> {''/v1/provider/quotes'', ''/v1/provider/deals''} \<and>
    (\<exists>t. token = Some t \<and> 32 \<le> length t \<and> length t \<le> 256 \<and>
      ((\<exists>r\<in>set (pd_invites db). live_invite (sha256_hex cs t) now r \<and>
          r\<lparr>inv_used_requests := inv_used_requests r + 1\<rparr>
            \<in> set (pd_invites (snd (admit_new_provider_work cs policy False st token path now db)))) \<or>
       (sha256_hex cs t \<in> set (invite_token_hashes policy) \<and>
        sha256_hex cs t \<notin> inv_token_hash ` set (pd_invites db))))"
proof -
  have ok: "fst (provider_access_allowed cs policy token path now db)"
    and after: "snd (admit_new_provider_work cs policy False st token path now db) =
      snd (provider_access_allowed cs policy token path now db)"
    using assms(2) by (auto simp: admit_new_provider_work_def split: prod.splits bool.splits)
  from ok assms(1) obtain t where t: "token = Some t" "32 \<le> length t" "length t \<le> 256"
    and p: "path \<in> {''/v1/provider/quotes'', ''/v1/provider/deals''}"
    and a: "fst (authorize_invite policy (sha256_hex cs t) now db) = Inr True"
    and d: "snd (provider_access_allowed cs policy token path now db) =
      snd (authorize_invite policy (sha256_hex cs t) now db)"
    by (auto simp: provider_access_allowed_def authorize_invite_eq split: option.splits if_splits)
  let ?h = "sha256_hex cs t"
  show ?thesis
  proof (cases "length (filter (live_invite ?h now) (pd_invites db)) = 1")
    case True
    then obtain r where "filter (live_invite ?h now) (pd_invites db) = [r]"
      by (auto simp: length_Suc_conv)
    then have "r \<in> set (filter (live_invite ?h now) (pd_invites db))" by simp
    then have r: "r \<in> set (pd_invites db)" "live_invite ?h now r" by simp_all
    then have "r\<lparr>inv_used_requests := inv_used_requests r + 1\<rparr>
        \<in> set (pd_invites (snd (authorize_invite policy ?h now db)))"
      by (auto simp: authorize_invite_eq)
    with t p r after d show ?thesis by auto
  next
    case False
    with a have "?h \<in> set (invite_token_hashes policy)" "?h \<notin> inv_token_hash ` set (pd_invites db)"
      by (auto simp: authorize_invite_eq list_ex_iff split: if_splits)
    with t p show ?thesis by blast
  qed
qed

theorem guest_needs_invitation_witness:
  defines "t \<equiv> replicate 32 CHR ''a''"
  defines "db \<equiv> empty_provider_db\<lparr>pd_invites := [sample_invite\<lparr>inv_token_hash := sha256_hex reference_env t\<rparr>]\<rparr>"
  defines "st \<equiv> Inr \<lparr>ss_database_bytes = 0, ss_free_bytes = None, ss_blocked_reason = None\<rparr>"
  shows "fst (admit_new_provider_work reference_env protected_policy False st (Some t)
      ''/v1/provider/quotes'' 5 db) = Inr () \<and>
    (\<exists>r\<in>set (pd_invites db). live_invite (sha256_hex reference_env t) 5 r)"
proof -
  have a: "fst (admit_new_provider_work reference_env protected_policy False st (Some t)
      ''/v1/provider/quotes'' 5 db) = Inr ()"
    by (simp add: admit_new_provider_work_def provider_access_allowed_def protected_policy_def
        authorize_invite_eq live_invite_def db_def empty_provider_db_def sample_invite_def t_def st_def
        provider_storage_admission_def require_not_paused_def)
  have "access_mode protected_policy = Invite" "invite_token_hashes protected_policy = []"
    by (simp_all add: protected_policy_def)
  with guest_needs_invitation [OF this(1) a] a show ?thesis by auto
qed

end
