(* ===== verification/Session_Pool.thy ===== *)
theory Session_Pool
  imports Crypto
begin

text \<open>
  The pool of short-lived session tokens (\<open>src/src/session_pool.rs\<close>): a fixed number of slots,
  each free or holding a token and its expiry. \<open>Instant\<close> and \<open>Duration\<close> are numbers of
  nanoseconds; the clock and the random bytes of a token are arguments of the operations, and the
  mutex makes each operation one step.
\<close>

section \<open>Definitions\<close>

record session_info =
  si_token :: string
  si_slot_id :: nat
  si_expires_at :: nat
  si_ttl :: nat

record session_slot =
  slot_token :: string
  slot_expires_at :: nat

record session_pool =
  sp_slots :: "session_slot option list"
  sp_ttl :: nat

definition new_pool :: "nat \<Rightarrow> nat \<Rightarrow> session_pool" where
  "new_pool n ttl = \<lparr>sp_slots = replicate n None, sp_ttl = ttl\<rparr>"

definition pool_size :: "session_pool \<Rightarrow> nat" where
  "pool_size p = length (sp_slots p)"

definition new_random_token :: "crypto_env \<Rightarrow> bytes \<Rightarrow> string" where
  "new_random_token cs random = hex_encode cs random"

definition expired :: "nat \<Rightarrow> session_slot option \<Rightarrow> bool" where
  "expired now slot = (case slot of None \<Rightarrow> False | Some entry \<Rightarrow> slot_expires_at entry < now)"

definition reap_expired_locked ::
  "nat \<Rightarrow> session_slot option list \<Rightarrow> nat \<times> session_slot option list" where
  "reap_expired_locked now slots =
     (length (filter (expired now) slots), map (\<lambda>s. if expired now s then None else s) slots)"

text \<open>\<open>Iterator::position\<close>.\<close>

fun position :: "('a \<Rightarrow> bool) \<Rightarrow> 'a list \<Rightarrow> nat option" where
  "position P [] = None"
| "position P (x # xs) = (if P x then Some 0 else map_option Suc (position P xs))"

definition assign :: "nat \<Rightarrow> string \<Rightarrow> session_pool \<Rightarrow> session_info option \<times> session_pool" where
  "assign now token p =
     (let slots = snd (reap_expired_locked now (sp_slots p))
      in case position (\<lambda>s. s = None) slots of
           None \<Rightarrow> (None, p\<lparr>sp_slots := slots\<rparr>)
         | Some slot_id \<Rightarrow>
             (Some \<lparr>si_token = token, si_slot_id = slot_id, si_expires_at = now + sp_ttl p,
                    si_ttl = sp_ttl p\<rparr>,
              p\<lparr>sp_slots := slots[slot_id :=
                  Some \<lparr>slot_token = token, slot_expires_at = now + sp_ttl p\<rparr>]\<rparr>))"

fun validate_from :: "nat \<Rightarrow> nat \<Rightarrow> string \<Rightarrow> session_slot option list \<Rightarrow> nat option" where
  "validate_from slot_id now token [] = None"
| "validate_from slot_id now token (None # slots) = validate_from (Suc slot_id) now token slots"
| "validate_from slot_id now token (Some entry # slots) =
     (if slot_expires_at entry < now then validate_from (Suc slot_id) now token slots
      else if token = slot_token entry then Some slot_id
      else validate_from (Suc slot_id) now token slots)"

definition validate :: "nat \<Rightarrow> string \<Rightarrow> session_pool \<Rightarrow> nat option" where
  "validate now token p = validate_from 0 now token (sp_slots p)"

definition reap_expired :: "nat \<Rightarrow> session_pool \<Rightarrow> nat \<times> session_pool" where
  "reap_expired now p =
     (case reap_expired_locked now (sp_slots p) of (n, slots) \<Rightarrow> (n, p\<lparr>sp_slots := slots\<rparr>))"

text \<open>A sequence of operations with the time of each and the token an assignment draws.\<close>

datatype pool_event = Assign (event_time: nat) (event_token: string) | Reap (event_time: nat)

fun run_pool :: "pool_event list \<Rightarrow> session_pool \<Rightarrow> session_pool" where
  "run_pool [] p = p"
| "run_pool (Assign now token # es) p = run_pool es (snd (assign now token p))"
| "run_pool (Reap now # es) p = run_pool es (snd (reap_expired now p))"

definition holds_token :: "string \<Rightarrow> session_slot option \<Rightarrow> bool" where
  "holds_token token slot = (case slot of None \<Rightarrow> False | Some entry \<Rightarrow> slot_token entry = token)"

text \<open>Slot \<open>i\<close> holds the token with the expiry, and no other slot holds it.\<close>

definition only_in :: "nat \<Rightarrow> string \<Rightarrow> nat \<Rightarrow> session_slot option list \<Rightarrow> bool" where
  "only_in i token e slots \<longleftrightarrow> i < length slots \<and>
     slots ! i = Some \<lparr>slot_token = token, slot_expires_at = e\<rparr> \<and>
     (\<forall>j<length slots. j \<noteq> i \<longrightarrow> \<not> holds_token token (slots ! j))"

section \<open>Lemmas\<close>

lemma position_Some: "position P xs = Some i \<Longrightarrow> i < length xs \<and> P (xs ! i)"
  by (induction xs arbitrary: i) (auto split: if_splits)

lemma position_None: "position P xs = None \<longleftrightarrow> (\<forall>x\<in>set xs. \<not> P x)"
  by (induction xs) auto

lemma validate_none:
  "\<forall>s\<in>set slots. holds_token token s \<longrightarrow> expired now s \<Longrightarrow> validate_from k now token slots = None"
proof (induction slots arbitrary: k)
  case (Cons s slots)
  then show ?case by (cases s) (auto simp: holds_token_def expired_def)
qed simp

lemma validate_only:
  "only_in i token e slots \<Longrightarrow> now \<le> e \<Longrightarrow> validate_from k now token slots = Some (k + i)"
proof (induction slots arbitrary: k i)
  case (Cons s slots)
  show ?case
  proof (cases i)
    case 0
    with Cons.prems show ?thesis by (auto simp: only_in_def)
  next
    case (Suc j)
    have "only_in j token e slots" using Cons.prems(1) unfolding only_in_def Suc by fastforce
    moreover have "\<not> holds_token token s" using Cons.prems(1) Suc by (auto simp: only_in_def)
    ultimately show ?thesis
      using Cons.IH [of j "Suc k"] Cons.prems(2) Suc by (cases s) (auto simp: holds_token_def)
  qed
qed (simp add: only_in_def)

lemma only_in_reap:
  assumes "only_in i token e slots" and "now \<le> e"
  shows "only_in i token e (snd (reap_expired_locked now slots))"
  using assms by (auto simp: only_in_def reap_expired_locked_def expired_def holds_token_def)

lemma only_in_assign:
  assumes "only_in i token e (sp_slots p)" and "now \<le> e" and "other \<noteq> token"
  shows "only_in i token e (sp_slots (snd (assign now other p)))"
proof -
  let ?s = "snd (reap_expired_locked now (sp_slots p))"
  have r: "only_in i token e ?s" using assms(1,2) by (rule only_in_reap)
  show ?thesis
  proof (cases "position (\<lambda>s. s = None) ?s")
    case None
    with r show ?thesis by (simp add: assign_def)
  next
    case (Some j)
    with position_Some have j: "j < length ?s" "?s ! j = None" by force+
    with r have "j \<noteq> i" by (auto simp: only_in_def)
    with r Some assms(3) j(1) show ?thesis
      by (auto simp: assign_def only_in_def holds_token_def nth_list_update)
  qed
qed

lemma run_pool_only_in:
  "only_in i token e (sp_slots p) \<Longrightarrow> \<forall>ev\<in>set evs. event_time ev \<le> e \<Longrightarrow>
     \<forall>t other. Assign t other \<in> set evs \<longrightarrow> other \<noteq> token \<Longrightarrow>
     only_in i token e (sp_slots (run_pool evs p))"
proof (induction evs p rule: run_pool.induct)
  case (2 now other es p)
  then show ?case using only_in_assign by auto
next
  case (3 now es p)
  then show ?case
    using only_in_reap [of i token e "sp_slots p" now] by (auto simp: reap_expired_def split: prod.split)
qed simp

section \<open>Properties\<close>

text \<open>
  A session lives exactly until it expires. When \<open>assign\<close> hands out a token no slot holds yet,
  then, whatever other sessions are assigned and reaped up to its expiry, the token validates to
  its own slot at every time up to the expiry and never after it.
\<close>

theorem session_valid_until_expiry:
  assumes "assign now token p = (Some info, p1)"
    and "\<forall>s\<in>set (sp_slots p). \<not> holds_token token s"
    and "\<forall>ev\<in>set evs. event_time ev \<le> si_expires_at info"
    and "\<forall>t other. Assign t other \<in> set evs \<longrightarrow> other \<noteq> token"
  shows "si_token info = token \<and> si_expires_at info = now + sp_ttl p \<and>
    validate t token (run_pool evs p1) =
      (if t \<le> si_expires_at info then Some (si_slot_id info) else None)"
proof -
  let ?s = "snd (reap_expired_locked now (sp_slots p))" and ?e = "now + sp_ttl p"
  from assms(1) obtain i where i: "position (\<lambda>s. s = None) ?s = Some i"
    and info: "info = \<lparr>si_token = token, si_slot_id = i, si_expires_at = ?e, si_ttl = sp_ttl p\<rparr>"
    and p1: "sp_slots p1 = ?s[i := Some \<lparr>slot_token = token, slot_expires_at = ?e\<rparr>]"
    by (auto simp: assign_def Let_def split: option.splits)
  have "\<forall>s\<in>set ?s. \<not> holds_token token s"
    using assms(2) by (auto simp: reap_expired_locked_def holds_token_def)
  then have "only_in i token ?e (sp_slots p1)"
    using position_Some [OF i] by (auto simp: p1 only_in_def nth_list_update all_set_conv_all_nth)
  then have o: "only_in i token ?e (sp_slots (run_pool evs p1))"
    using assms(3,4) by (intro run_pool_only_in) (auto simp: info)
  have "validate t token (run_pool evs p1) = None" if "\<not> t \<le> ?e"
    unfolding validate_def
  proof (rule validate_none, intro ballI impI)
    fix s assume "s \<in> set (sp_slots (run_pool evs p1))" "holds_token token s"
    with o have "s = Some \<lparr>slot_token = token, slot_expires_at = ?e\<rparr>"
      by (auto simp: only_in_def in_set_conv_nth)
    with that show "expired t s" by (simp add: expired_def)
  qed
  with validate_only [OF o, of t 0] show ?thesis by (simp add: validate_def info)
qed

theorem session_valid_until_expiry_witness:
  "validate 15 ''a'' (run_pool [Assign 3 ''b'', Reap 9] (snd (assign 5 ''a'' (new_pool 2 10)))) = Some 0 \<and>
   validate 16 ''a'' (run_pool [Assign 3 ''b'', Reap 9] (snd (assign 5 ''a'' (new_pool 2 10)))) = None"
proof -
  have a: "assign 5 ''a'' (new_pool 2 10) =
      (Some \<lparr>si_token = ''a'', si_slot_id = 0, si_expires_at = 15, si_ttl = 10\<rparr>,
       snd (assign 5 ''a'' (new_pool 2 10)))"
    by (simp add: assign_def new_pool_def reap_expired_locked_def expired_def numeral_2_eq_2)
  have "\<forall>s\<in>set (sp_slots (new_pool 2 10)). \<not> holds_token ''a'' s"
    by (simp add: new_pool_def holds_token_def)
  from session_valid_until_expiry [OF a this, of "[Assign 3 ''b'', Reap 9]" 15]
    session_valid_until_expiry [OF a this, of "[Assign 3 ''b'', Reap 9]" 16]
  show ?thesis by simp
qed

text \<open>
  A session is refused only when the pool is full of live sessions. \<open>assign\<close> returns no session
  exactly when every slot holds a token that has not expired, and then no slot changes; and the
  number of slots never changes.
\<close>

theorem assign_refuses_only_when_full:
  "(fst (assign now token p) = None \<longleftrightarrow>
      (\<forall>s\<in>set (sp_slots p). \<exists>entry. s = Some entry \<and> now \<le> slot_expires_at entry)) \<and>
   (fst (assign now token p) = None \<longrightarrow> snd (assign now token p) = p) \<and>
   pool_size (run_pool evs p) = pool_size p"
proof -
  let ?g = "\<lambda>s. if expired now s then None else s"
  have "fst (assign now token p) = None \<longleftrightarrow> position (\<lambda>s. s = None) (map ?g (sp_slots p)) = None"
    by (simp add: assign_def reap_expired_locked_def Let_def split: option.split)
  also have "\<dots> \<longleftrightarrow> (\<forall>s\<in>set (sp_slots p). ?g s \<noteq> None)"
    unfolding position_None set_map ball_simps ..
  also have "\<dots> \<longleftrightarrow> (\<forall>s\<in>set (sp_slots p). \<exists>entry. s = Some entry \<and> now \<le> slot_expires_at entry)"
    by (rule ball_cong [OF refl]) (auto simp: expired_def not_less split: option.splits)
  finally have none: "fst (assign now token p) = None \<longleftrightarrow>
      (\<forall>s\<in>set (sp_slots p). \<exists>entry. s = Some entry \<and> now \<le> slot_expires_at entry)" .
  have "map (\<lambda>s. if expired now s then None else s) (sp_slots p) = sp_slots p"
    if "fst (assign now token p) = None"
    using that unfolding none by (intro map_idI) (auto simp: expired_def)
  then have "snd (assign now token p) = p" if "fst (assign now token p) = None"
    using that by (auto simp: assign_def Let_def reap_expired_locked_def split: option.splits)
  moreover have "pool_size (run_pool evs p) = pool_size p"
    by (induction evs p rule: run_pool.induct)
      (auto simp: pool_size_def assign_def reap_expired_def reap_expired_locked_def Let_def
        split: option.split)
  ultimately show ?thesis using none by blast
qed

theorem assign_refuses_only_when_full_witness:
  "fst (assign 6 ''b'' (snd (assign 5 ''a'' (new_pool 1 10)))) = None"
  using assign_refuses_only_when_full [of 6 "''b''" "snd (assign 5 ''a'' (new_pool 1 10))" "[]"]
  by (simp add: assign_def new_pool_def reap_expired_locked_def expired_def)

end
