(* ===== verification/Public_Quota.thy ===== *)
theory Public_Quota
  imports Prelude
begin

text \<open>
  The per-identity request quota of the public endpoints (\<open>src/src/public_quota.rs\<close>): a counter per
  identity and fixed window, with a bound on the number of identities remembered. \<open>Instant\<close> and
  \<open>Duration\<close> are numbers of nanoseconds, and \<open>duration_since\<close> saturates at zero as subtraction of
  naturals does. The hash map is an association list; its order is never observed. The default
  configuration and the JSON of the counters are not modelled.
\<close>

section \<open>Definitions\<close>

datatype quota_decision = Allowed (remaining: u32) | Rejected (retry_after_secs: nat)

record quota_bucket =
  window_started :: nat
  qb_count :: u32

record identity_quota =
  max_per_window :: u32
  window :: nat
  buckets :: "(string \<times> quota_bucket) list"
  quota_blocked :: u64
  quota_allowed :: u64

definition MAX_IDENTITY_BUCKETS :: nat where
  "MAX_IDENTITY_BUCKETS = 10000"

definition nanos_per_sec :: nat where
  "nanos_per_sec = 1000000000"

definition new_quota :: "u32 \<Rightarrow> nat \<Rightarrow> identity_quota" where
  "new_quota limit duration =
     \<lparr>max_per_window = max limit 1, window = max duration nanos_per_sec, buckets = [],
      quota_blocked = 0, quota_allowed = 0\<rparr>"

definition normalize_identity_key :: "string \<Rightarrow> string" where
  "normalize_identity_key identity =
     (let normalized = to_ascii_lowercase (trim identity)
      in if normalized = [] then ''anonymous'' else normalized)"

text \<open>\<open>entry(key).or_insert(..)\<close> followed by the write of the bucket.\<close>

definition put_bucket :: "string \<Rightarrow> quota_bucket \<Rightarrow> (string \<times> quota_bucket) list
    \<Rightarrow> (string \<times> quota_bucket) list" where
  "put_bucket key b bs =
     (if map_of bs key = None then bs @ [(key, b)]
      else map (\<lambda>(k, c). if k = key then (k, b) else (k, c)) bs)"

definition retain_live :: "nat \<Rightarrow> nat \<Rightarrow> (string \<times> quota_bucket) list \<Rightarrow> (string \<times> quota_bucket) list" where
  "retain_live w now bs = filter (\<lambda>(_, b). now - window_started b < w) bs"

text \<open>The second half of \<open>check_and_increment_at\<close>: the request is counted in the bucket of its key.\<close>

definition count_request ::
  "string \<Rightarrow> nat \<Rightarrow> identity_quota \<Rightarrow> (string \<times> quota_bucket) list \<Rightarrow> quota_decision \<times> identity_quota" where
  "count_request key now q bs =
     (let b = (case map_of bs key of None \<Rightarrow> \<lparr>window_started = now, qb_count = 0\<rparr> | Some b \<Rightarrow> b);
          b = (if now - window_started b \<ge> window q
               then \<lparr>window_started = now, qb_count = 0\<rparr> else b)
      in if qb_count b \<ge> max_per_window q
         then (Rejected (max ((window q - (now - window_started b)) div nanos_per_sec) 1),
               q\<lparr>buckets := put_bucket key b bs\<rparr>)
         else
           let b = b\<lparr>qb_count := saturating_add (qb_count b) 1\<rparr>
           in (Allowed (saturating_sub (max_per_window q) (qb_count b)),
               q\<lparr>buckets := put_bucket key b bs\<rparr>))"

definition check_and_increment_at ::
  "string \<Rightarrow> nat \<Rightarrow> identity_quota \<Rightarrow> quota_decision \<times> identity_quota" where
  "check_and_increment_at identity now q =
     (let key = normalize_identity_key identity
      in if map_of (buckets q) key = None \<and> length (buckets q) \<ge> MAX_IDENTITY_BUCKETS
         then
           let bs = retain_live (window q) now (buckets q)
           in if length bs \<ge> MAX_IDENTITY_BUCKETS
              then (Rejected (max (window q div nanos_per_sec) 1), q\<lparr>buckets := bs\<rparr>)
              else count_request key now q bs
         else count_request key now q (buckets q))"

text \<open>The counters are wrapping atomics.\<close>

definition check_and_increment ::
  "string \<Rightarrow> nat \<Rightarrow> identity_quota \<Rightarrow> quota_decision \<times> identity_quota" where
  "check_and_increment identity now q =
     (case check_and_increment_at identity now q of
        (Allowed r, q') \<Rightarrow> (Allowed r, q'\<lparr>quota_allowed := quota_allowed q' + 1\<rparr>)
      | (Rejected r, q') \<Rightarrow> (Rejected r, q'\<lparr>quota_blocked := quota_blocked q' + 1\<rparr>))"

text \<open>A sequence of requests, each with an identity and a time, and how many of an identity pass.\<close>

fun granted :: "string \<Rightarrow> (string \<times> nat) list \<Rightarrow> identity_quota \<Rightarrow> nat" where
  "granted key [] q = 0"
| "granted key ((identity, now) # reqs) q =
     (case check_and_increment identity now q of
        (d, q') \<Rightarrow>
          (if normalize_identity_key identity = key \<and> (\<exists>r. d = Allowed r) then 1 else 0) +
          granted key reqs q')"

fun run_quota :: "(string \<times> nat) list \<Rightarrow> identity_quota \<Rightarrow> identity_quota" where
  "run_quota [] q = q"
| "run_quota ((identity, now) # reqs) q = run_quota reqs (snd (check_and_increment identity now q))"

definition quota_ok :: "identity_quota \<Rightarrow> bool" where
  "quota_ok q \<longleftrightarrow> 1 \<le> max_per_window q \<and> nanos_per_sec \<le> window q \<and>
     distinct (map fst (buckets q)) \<and> length (buckets q) \<le> MAX_IDENTITY_BUCKETS \<and>
     (\<forall>(k, b)\<in>set (buckets q). qb_count b \<le> max_per_window q)"

section \<open>The buckets\<close>

lemma map_of_put_bucket [simp]:
  "map_of (put_bucket key b bs) k = (if k = key then Some b else map_of bs k)"
proof -
  have "map_of (map (\<lambda>(k, c). if k = key then (k, b) else (k, c)) bs) k =
      (if k = key then map_option (\<lambda>_. b) (map_of bs k) else map_of bs k)"
    by (induction bs) auto
  then show ?thesis by (auto simp: put_bucket_def map_add_Some_iff map_add_def split: option.split)
qed

lemma put_bucket_keys:
  "map fst (put_bucket key b bs) = (if map_of bs key = None then map fst bs @ [key] else map fst bs)"
  by (auto simp: put_bucket_def)

lemma put_bucket_set: "set (put_bucket key b bs) \<subseteq> insert (key, b) (set bs)"
  by (auto simp: put_bucket_def split: if_splits)

lemma map_of_retain_live:
  assumes "distinct (map fst bs)"
  shows "map_of (retain_live w now bs) k =
    (case map_of bs k of None \<Rightarrow> None | Some b \<Rightarrow> if now - window_started b < w then Some b else None)"
proof -
  have "map_of (filter (\<lambda>(_, b). P b) bs) k =
      (case map_of bs k of None \<Rightarrow> None | Some b \<Rightarrow> if P b then Some b else None)" for P
    using assms
  proof (induction bs)
    case (Cons x bs)
    then have "fst x \<notin> fst ` set bs" by simp
    then have "map_of bs (fst x) = None" by (simp add: map_of_eq_None_iff)
    with Cons show ?case by (cases x) (auto split: option.splits)
  qed simp
  then show ?thesis by (simp add: retain_live_def)
qed

lemma retain_live_keys: "distinct (map fst bs) \<Longrightarrow> distinct (map fst (retain_live w now bs))"
  unfolding retain_live_def by (rule distinct_map_filter)

lemma retain_live_set: "set (retain_live w now bs) \<subseteq> set bs"
  by (auto simp: retain_live_def)

section \<open>One request\<close>

lemma check_snd [simp]:
  "buckets (snd (check_and_increment identity now q)) = buckets (snd (check_and_increment_at identity now q))"
  "max_per_window (snd (check_and_increment identity now q)) = max_per_window q"
  "window (snd (check_and_increment identity now q)) = window q"
  by (auto simp: check_and_increment_def check_and_increment_at_def count_request_def Let_def
      split: prod.split quota_decision.split)

lemma check_same:
  "max_per_window (snd (check_and_increment_at identity now q)) = max_per_window q"
  "window (snd (check_and_increment_at identity now q)) = window q"
  by (auto simp: check_and_increment_at_def count_request_def Let_def)

lemma check_fst [simp]:
  "fst (check_and_increment identity now q) = fst (check_and_increment_at identity now q)"
  by (auto simp: check_and_increment_def split: prod.split quota_decision.split)

lemma saturating_add_one_u32:
  "c < m \<Longrightarrow> unat (saturating_add c (1 :: u32)) = Suc (unat c)"
  using unat_saturating_add [of c 1] unsigned_less [of m, where 'a = nat]
  by (auto simp: word_less_nat_alt)

text \<open>A request of another identity leaves a bucket alone or drops it after its window.\<close>

lemma count_request_other:
  "key \<noteq> k \<Longrightarrow> map_of (buckets (snd (count_request k now q bs))) key = map_of bs key"
  by (simp add: count_request_def Let_def)

lemma check_other:
  assumes "quota_ok q" and "normalize_identity_key identity \<noteq> key"
  shows "map_of (buckets (snd (check_and_increment identity now q))) key = map_of (buckets q) key \<or>
    (map_of (buckets (snd (check_and_increment identity now q))) key = None \<and>
     (\<exists>b. map_of (buckets q) key = Some b \<and> window q \<le> now - window_started b))"
proof -
  have "distinct (map fst (buckets q))" using assms(1) by (simp add: quota_ok_def)
  note r = map_of_retain_live [OF this, of "window q" now key]
  have "map_of (buckets (snd (check_and_increment identity now q))) key \<in>
      {map_of (buckets q) key, map_of (retain_live (window q) now (buckets q)) key}"
    using assms(2) by (simp add: check_and_increment_at_def Let_def count_request_other)
  then show ?thesis unfolding r by (cases "map_of (buckets q) key") (auto split: if_splits)
qed

lemma check_live:
  assumes "map_of (buckets q) (normalize_identity_key identity) = Some b"
    and "now - window_started b < window q"
  shows "check_and_increment_at identity now q =
    (if qb_count b \<ge> max_per_window q
     then (Rejected (max ((window q - (now - window_started b)) div nanos_per_sec) 1),
           q\<lparr>buckets := put_bucket (normalize_identity_key identity) b (buckets q)\<rparr>)
     else (Allowed (saturating_sub (max_per_window q) (saturating_add (qb_count b) 1)),
           q\<lparr>buckets := put_bucket (normalize_identity_key identity)
             (b\<lparr>qb_count := saturating_add (qb_count b) 1\<rparr>) (buckets q)\<rparr>))"
  using assms by (simp add: check_and_increment_at_def count_request_def Let_def)

lemma check_elapsed:
  assumes "quota_ok q" and "map_of (buckets q) (normalize_identity_key identity) = Some b"
    and "window q \<le> now - window_started b"
  shows "fst (check_and_increment identity now q) = Allowed (saturating_sub (max_per_window q) 1)"
    "map_of (buckets (snd (check_and_increment identity now q))) (normalize_identity_key identity) =
       Some \<lparr>window_started = now, qb_count = 1\<rparr>"
proof -
  have z: "\<not> max_per_window q \<le> 0" using assms(1) by (auto simp: quota_ok_def)
  have "saturating_add 0 (1 :: u32) = 1" by (simp add: saturating_add_def)
  with assms(2,3) z show
    "fst (check_and_increment identity now q) = Allowed (saturating_sub (max_per_window q) 1)"
    "map_of (buckets (snd (check_and_increment identity now q))) (normalize_identity_key identity) =
       Some \<lparr>window_started = now, qb_count = 1\<rparr>"
    by (simp_all add: check_and_increment_at_def count_request_def Let_def)
qed

lemma check_unknown:
  assumes "quota_ok q" and "map_of (buckets q) (normalize_identity_key identity) = None"
  shows "((\<exists>r. fst (check_and_increment identity now q) = Rejected r) \<and>
      map_of (buckets (snd (check_and_increment identity now q))) (normalize_identity_key identity) = None) \<or>
    ((\<exists>r. fst (check_and_increment identity now q) = Allowed r) \<and>
      map_of (buckets (snd (check_and_increment identity now q))) (normalize_identity_key identity) =
        Some \<lparr>window_started = now, qb_count = 1\<rparr>)"
proof -
  have d: "distinct (map fst (buckets q))" using assms(1) by (simp add: quota_ok_def)
  have z: "\<not> max_per_window q \<le> 0" "\<not> window q \<le> 0"
    using assms(1) by (auto simp: quota_ok_def nanos_per_sec_def)
  have "saturating_add 0 (1 :: u32) = 1" by (simp add: saturating_add_def)
  with assms(2) z show ?thesis
    by (auto simp: check_and_increment_at_def count_request_def Let_def map_of_retain_live [OF d])
qed

lemma count_request_ok:
  assumes "quota_ok q" and "distinct (map fst bs)" and "set bs \<subseteq> set (buckets q)"
    and "length bs \<le> MAX_IDENTITY_BUCKETS"
    and "map_of bs key = None \<longrightarrow> length bs < MAX_IDENTITY_BUCKETS"
  shows "quota_ok (snd (count_request key now q bs))"
proof -
  have put: "quota_ok (q\<lparr>buckets := put_bucket key b bs\<rparr>)" if "qb_count b \<le> max_per_window q" for b
  proof -
    have "length (put_bucket key b bs) \<le> MAX_IDENTITY_BUCKETS"
      using assms(4,5) by (auto simp: put_bucket_def)
    moreover have "distinct (map fst (put_bucket key b bs))"
      using assms(2) by (auto simp: put_bucket_keys map_of_eq_None_iff)
    moreover have "\<forall>(k, c)\<in>set (put_bucket key b bs). qb_count c \<le> max_per_window q"
      using assms(1,3) that put_bucket_set [of key b bs] by (fastforce simp: quota_ok_def)
    ultimately show ?thesis using assms(1) by (simp add: quota_ok_def)
  qed
  have got: "qb_count b \<le> max_per_window q" if "map_of bs key = Some b" for b
    using assms(1,3) map_of_SomeD [OF that] by (auto simp: quota_ok_def)
  have cnt: "saturating_add c (1 :: u32) \<le> m" if "\<not> m \<le> c" for c m
    using saturating_add_one_u32 [of c m] that by (simp add: word_le_nat_alt word_less_nat_alt)
  define b0 where "b0 = (case map_of bs key of None \<Rightarrow> \<lparr>window_started = now, qb_count = 0\<rparr> | Some b \<Rightarrow> b)"
  define b1 where "b1 = (if now - window_started b0 \<ge> window q
    then \<lparr>window_started = now, qb_count = 0\<rparr> else b0)"
  have b1: "qb_count b1 \<le> max_per_window q"
    using got by (auto simp: b1_def b0_def split: option.split)
  have "quota_ok (q\<lparr>buckets := put_bucket key b1 bs\<rparr>)" using b1 by (rule put)
  moreover have "quota_ok (q\<lparr>buckets := put_bucket key (b1\<lparr>qb_count := saturating_add (qb_count b1) 1\<rparr>) bs\<rparr>)"
    if "\<not> max_per_window q \<le> qb_count b1"
    using cnt [OF that] by (intro put) simp
  ultimately show ?thesis
    unfolding count_request_def Let_def b0_def [symmetric] b1_def [symmetric] by simp
qed

lemma check_ok:
  assumes "quota_ok q"
  shows "quota_ok (snd (check_and_increment identity now q))"
proof -
  let ?r = "retain_live (window q) now (buckets q)" and ?k = "normalize_identity_key identity"
  have q: "distinct (map fst (buckets q))" "length (buckets q) \<le> MAX_IDENTITY_BUCKETS"
    using assms by (auto simp: quota_ok_def)
  have r: "distinct (map fst ?r)" "set ?r \<subseteq> set (buckets q)" "length ?r \<le> MAX_IDENTITY_BUCKETS"
    using retain_live_keys [OF q(1), of "window q" now] retain_live_set q(2)
    by (auto simp: retain_live_def intro: order_trans [OF length_filter_le])
  have "quota_ok (snd (count_request ?k now q ?r))" if "length ?r < MAX_IDENTITY_BUCKETS"
    using assms r that by (intro count_request_ok) auto
  moreover have "quota_ok (snd (count_request ?k now q (buckets q)))"
    if "map_of (buckets q) ?k = None \<longrightarrow> length (buckets q) < MAX_IDENTITY_BUCKETS"
    using assms q that by (intro count_request_ok) auto
  moreover have "quota_ok (q\<lparr>buckets := ?r\<rparr>)" using assms r by (auto simp: quota_ok_def)
  ultimately have "quota_ok (snd (check_and_increment_at identity now q))"
    by (auto simp: check_and_increment_at_def Let_def not_le)
  then show ?thesis by (simp add: quota_ok_def check_same)
qed

section \<open>Sequences of requests\<close>

lemma granted_step:
  "granted key ((identity, now) # reqs) q =
     (if normalize_identity_key identity = key \<and> (\<exists>r. fst (check_and_increment identity now q) = Allowed r)
      then 1 else 0) + granted key reqs (snd (check_and_increment identity now q))"
  by (cases "check_and_increment identity now q") simp

lemma granted_step_le:
  "granted key ((identity, now) # reqs) q \<le> Suc (granted key reqs (snd (check_and_increment identity now q)))"
  by (cases "check_and_increment identity now q") simp

declare granted.simps(2) [simp del]

text \<open>While a bucket's window runs, its identity gets what the bucket has left.\<close>

lemma granted_live:
  "quota_ok q \<Longrightarrow> map_of (buckets q) key = Some b \<Longrightarrow>
   \<forall>(_, t)\<in>set reqs. t - window_started b < window q \<Longrightarrow>
   granted key reqs q \<le> unat (max_per_window q) - unat (qb_count b)"
proof (induction reqs arbitrary: q b)
  case (Cons r reqs)
  obtain identity now where r: "r = (identity, now)" by (cases r)
  let ?q = "snd (check_and_increment identity now q)"
  have ok: "quota_ok ?q" using Cons.prems(1) by (rule check_ok)
  have now: "now - window_started b < window q" using Cons.prems(3) by (simp add: r)
  show ?case
  proof (cases "normalize_identity_key identity = key")
    case False
    then have "map_of (buckets ?q) key = Some b"
      using check_other [OF Cons.prems(1) False, of now] Cons.prems(2) now by auto
    with Cons.IH [OF ok this] Cons.prems(3) False show ?thesis by (simp add: r granted_step)
  next
    case True
    note live = check_live [of q identity b now, unfolded True, OF Cons.prems(2) now]
    show ?thesis
    proof (cases "max_per_window q \<le> qb_count b")
      case full: True
      then have "map_of (buckets ?q) key = Some b" using live by simp
      with Cons.IH [OF ok this] Cons.prems(3) full live show ?thesis by (simp add: r granted_step)
    next
      case False
      let ?b = "b\<lparr>qb_count := saturating_add (qb_count b) 1\<rparr>"
      have c: "unat (saturating_add (qb_count b) 1) = Suc (unat (qb_count b))"
        and lt: "unat (qb_count b) < unat (max_per_window q)"
        using saturating_add_one_u32 [of "qb_count b" "max_per_window q"] False
        by (simp_all add: word_le_nat_alt word_less_nat_alt)
      have "map_of (buckets ?q) key = Some ?b" using live False by simp
      from Cons.IH [OF ok this] Cons.prems(3) c
      have "granted key reqs ?q \<le> unat (max_per_window q) - Suc (unat (qb_count b))" by (simp add: r)
      with lt granted_step_le [of key identity now reqs q] show ?thesis by (simp add: r)
    qed
  qed
qed simp

text \<open>An identity without a bucket gets at most the maximum in a window.\<close>

lemma granted_new:
  "quota_ok q \<Longrightarrow> map_of (buckets q) key = None \<Longrightarrow> sorted (map snd reqs) \<Longrightarrow>
   \<forall>(_, t)\<in>set reqs. start \<le> t \<and> t < start + window q \<Longrightarrow>
   granted key reqs q \<le> unat (max_per_window q)"
proof (induction reqs arbitrary: q)
  case (Cons r reqs)
  obtain identity now where r: "r = (identity, now)" by (cases r)
  let ?q = "snd (check_and_increment identity now q)"
  have ok: "quota_ok ?q" using Cons.prems(1) by (rule check_ok)
  have one: "1 \<le> unat (max_per_window q)"
    using Cons.prems(1) by (auto simp: quota_ok_def word_le_nat_alt)
  have IH: "granted key reqs ?q \<le> unat (max_per_window q)" if "map_of (buckets ?q) key = None"
    using Cons.IH [OF ok that] Cons.prems(3,4) by (auto simp: r)
  have fresh: "granted key reqs ?q \<le> unat (max_per_window q) - 1"
    if "map_of (buckets ?q) key = Some \<lparr>window_started = now, qb_count = 1\<rparr>"
    using granted_live [OF ok that, of reqs] Cons.prems(3,4) by (fastforce simp: r)
  show ?case
  proof (cases "normalize_identity_key identity = key")
    case False
    with check_other [OF Cons.prems(1) False, of now] Cons.prems(2) IH show ?thesis
      by (auto simp: r granted_step)
  next
    case True
    with check_unknown [OF Cons.prems(1), of identity now] Cons.prems(2) IH fresh one show ?thesis
      by (auto simp: r granted_step)
  qed
qed simp

lemma granted_any:
  "quota_ok q \<Longrightarrow> map_of (buckets q) key = Some b \<Longrightarrow> sorted (map snd reqs) \<Longrightarrow>
   \<forall>(_, t)\<in>set reqs. start \<le> t \<and> t < start + window q \<Longrightarrow>
   granted key reqs q \<le> (unat (max_per_window q) - unat (qb_count b)) + unat (max_per_window q)"
proof (induction reqs arbitrary: q b)
  case (Cons r reqs)
  obtain identity now where r: "r = (identity, now)" by (cases r)
  let ?q = "snd (check_and_increment identity now q)"
  have ok: "quota_ok ?q" using Cons.prems(1) by (rule check_ok)
  have one: "1 \<le> unat (max_per_window q)"
    using Cons.prems(1) by (auto simp: quota_ok_def word_le_nat_alt)
  have IH: "granted key reqs ?q \<le> (unat (max_per_window q) - unat (qb_count b')) + unat (max_per_window q)"
    if "map_of (buckets ?q) key = Some b'" for b'
    using Cons.IH [OF ok that] Cons.prems(3,4) by (auto simp: r)
  have new: "granted key reqs ?q \<le> unat (max_per_window q)" if "map_of (buckets ?q) key = None"
    using granted_new [OF ok that, of reqs start] Cons.prems(3,4) by (auto simp: r)
  have fresh: "granted key reqs ?q \<le> unat (max_per_window q) - 1"
    if "map_of (buckets ?q) key = Some \<lparr>window_started = now, qb_count = 1\<rparr>"
    using granted_live [OF ok that, of reqs] Cons.prems(3,4) by (fastforce simp: r)
  show ?case
  proof (cases "normalize_identity_key identity = key")
    case False
    with check_other [OF Cons.prems(1) False, of now] Cons.prems(2) IH new show ?thesis
      by (auto simp: r granted_step intro: trans_le_add2)
  next
    case True
    show ?thesis
    proof (cases "now - window_started b < window q")
      case live: True
      note l = check_live [of q identity b now, unfolded True, OF Cons.prems(2) live]
      show ?thesis
      proof (cases "max_per_window q \<le> qb_count b")
        case full: True
        then have "map_of (buckets ?q) key = Some b" using l by simp
        from IH [OF this] full l show ?thesis by (simp add: r granted_step)
      next
        case False
        have c: "unat (saturating_add (qb_count b) 1) = Suc (unat (qb_count b))"
          and lt: "unat (qb_count b) < unat (max_per_window q)"
          using saturating_add_one_u32 [of "qb_count b" "max_per_window q"] False
          by (simp_all add: word_le_nat_alt word_less_nat_alt)
        have "map_of (buckets ?q) key = Some (b\<lparr>qb_count := saturating_add (qb_count b) 1\<rparr>)"
          using l False by simp
        from IH [OF this] c lt granted_step_le [of key identity now reqs q] show ?thesis by (simp add: r)
      qed
    next
      case elapsed: False
      with check_elapsed [OF Cons.prems(1), of identity b now] Cons.prems(2) True fresh one show ?thesis
        by (auto simp: r granted_step not_less)
    qed
  qed
qed simp

section \<open>Properties\<close>

text \<open>
  C16. No identity gets more than twice its quota within one window's length. From any state of the
  quota, of a sequence of requests of any identities at non-decreasing times that all lie in an
  interval of the window's length, at most twice the configured maximum of one identity's requests
  (after trimming and lower-casing) are allowed.
\<close>

theorem quota_bounds_bursts:
  assumes "quota_ok q" and "sorted (map snd reqs)"
    and "\<forall>(_, t)\<in>set reqs. start \<le> t \<and> t < start + window q"
  shows "granted key reqs q \<le> 2 * unat (max_per_window q)"
proof (cases "map_of (buckets q) key")
  case None
  from granted_new [OF assms(1) None assms(2,3)] show ?thesis by simp
next
  case (Some b)
  from granted_any [OF assms(1) Some assms(2,3)] show ?thesis by simp
qed

lemma new_quota_ok: "quota_ok (new_quota limit duration)"
  by (simp add: quota_ok_def new_quota_def MAX_IDENTITY_BUCKETS_def)

theorem quota_bounds_bursts_witness:
  "granted ''alice'' [('' Alice'', 5), (''ALICE'', 6), (''alice'', 7)] (new_quota 1 0) \<le> 2"
  using quota_bounds_bursts [OF new_quota_ok [of 1 0], of "[('' Alice'', 5), (''ALICE'', 6), (''alice'', 7)]" 5]
  by (simp add: new_quota_def nanos_per_sec_def)

text \<open>
  The memory of the quota is bounded. Whatever requests arrive, at most 10,000 identities are
  remembered, each once, and no counter passes the configured maximum.
\<close>

theorem quota_memory_bounded:
  "length (buckets (run_quota reqs (new_quota limit duration))) \<le> 10000 \<and>
   distinct (map fst (buckets (run_quota reqs (new_quota limit duration)))) \<and>
   list_all (\<lambda>(_, b). qb_count b \<le> max limit 1) (buckets (run_quota reqs (new_quota limit duration)))"
proof -
  have "quota_ok (run_quota reqs q) \<and> max_per_window (run_quota reqs q) = max_per_window q"
    if "quota_ok q" for q
    using that by (induction reqs q rule: run_quota.induct) (auto intro: check_ok)
  from this [OF new_quota_ok, of limit duration] show ?thesis
    by (auto simp: quota_ok_def MAX_IDENTITY_BUCKETS_def new_quota_def list_all_iff)
qed

end
