(* ===== verification/Publication_Types.thy ===== *)
theory Publication_Types
  imports Envelope
begin

text \<open>
  The authoring types of \<open>froglet-protocol/src/publication.rs\<close> and their validators: mounts and
  capabilities with the historical \<open>s3\<close> alias, CSV schemas and data sources, Python locks and
  bundles, build evidence, resource limits, and the publication precondition whose token binds
  what the author approved. Messages are \<open>message\<close> values; \<open>serde\<close> renders a struct as in
  \<open>Wire\<close>. \<open>char::to_lowercase\<close> is its ASCII part, which is all that a validated distribution
  name contains.
\<close>

section \<open>Mounts and capabilities\<close>

definition OBJECT_STORE_MOUNT_KIND :: string where
  "OBJECT_STORE_MOUNT_KIND = ''object_store''"

definition LEGACY_S3_MOUNT_KIND :: string where
  "LEGACY_S3_MOUNT_KIND = ''s3''"

definition canonical_mount_kind :: "string \<Rightarrow> string option" where
  "canonical_mount_kind kind =
     (if kind = ''postgres'' then Some ''postgres''
      else if kind = ''sqlite'' then Some ''sqlite''
      else if kind = OBJECT_STORE_MOUNT_KIND \<or> kind = LEGACY_S3_MOUNT_KIND
      then Some OBJECT_STORE_MOUNT_KIND
      else if kind = ''redis'' then Some ''redis''
      else None)"

definition canonical_mount_capability :: "string \<Rightarrow> string" where
  "canonical_mount_capability capability =
     (case strip_prefix capability ''mount.s3.'' of
        None \<Rightarrow> capability
      | Some suffix \<Rightarrow> ''mount.'' @ OBJECT_STORE_MOUNT_KIND @ ''.'' @ suffix)"

datatype publication_settlement = PsNone | PsLightning | PsStripe

datatype publication_currency = CurSat | CurUsd

datatype publication_intent_error =
    InvalidSchemaVersion string
  | InvalidSettlement string
  | InvalidCurrency string
  | InvalidMount message
  | InvalidCapability string
  | InvalidDataSource message
  | InvalidBuildEvidence message
  | IncompatiblePayment string
  | AmbiguousPricing u64 u64
  | PriceScheduleOverflow
  | FractionalPriceLeg u64 u64
  | InvalidLimit string int int

definition publication_settlement_from_str ::
  "string \<Rightarrow> publication_intent_error + publication_settlement" where
  "publication_settlement_from_str value =
     (if value = ''none'' then Inr PsNone
      else if value = ''lightning'' then Inr PsLightning
      else if value = ''stripe'' then Inr PsStripe
      else Inl (InvalidSettlement value))"

fun publication_settlement_display :: "publication_settlement \<Rightarrow> string" where
  "publication_settlement_display PsNone = ''none''"
| "publication_settlement_display PsLightning = ''lightning''"
| "publication_settlement_display PsStripe = ''stripe''"

definition publication_currency_from_str ::
  "string \<Rightarrow> publication_intent_error + publication_currency" where
  "publication_currency_from_str value =
     (if value = ''sat'' then Inr CurSat
      else if value = ''usd'' then Inr CurUsd
      else Inl (InvalidCurrency value))"

fun publication_currency_display :: "publication_currency \<Rightarrow> string" where
  "publication_currency_display CurSat = ''sat''"
| "publication_currency_display CurUsd = ''usd''"

record publication_mount =
  mnt_handle :: string
  mnt_kind :: string
  mnt_read_only :: bool
  mnt_binding :: "string option"

definition mount_handle_char :: "char \<Rightarrow> bool" where
  "mount_handle_char c \<longleftrightarrow> is_ascii_lowercase c \<or> is_ascii_digit c \<or> c = CHR ''_''"

definition mount_validate_authoring :: "publication_mount \<Rightarrow> publication_intent_error + unit" where
  "mount_validate_authoring m =
     (if mnt_binding m \<noteq> None
      then Inl (InvalidMount
        (Msg ''publication mounts must not include provider-owned binding material''))
      else if canonical_mount_kind (mnt_kind m) = None
      then Inl (InvalidMount (MsgDebug ''unsupported mount kind '' (mnt_kind m)
        ''; allowed: postgres, sqlite, object_store, redis (legacy alias: s3)''))
      else if mnt_handle m = [] \<or> 64 < length (mnt_handle m) \<or>
        \<not> list_all mount_handle_char (mnt_handle m)
      then Inl (InvalidMount (Msg
        ''mount handle must contain 1-64 lowercase ASCII letters, digits, or underscores''))
      else Inr ())"

definition access_capability :: "publication_mount \<Rightarrow> string" where
  "access_capability m =
     ''mount.'' @ mnt_kind m @ ''.'' @ (if mnt_read_only m then ''read'' else ''write'') @ ''.'' @
       mnt_handle m"

definition capability_char :: "char \<Rightarrow> bool" where
  "capability_char c \<longleftrightarrow> is_ascii_alphanumeric c \<or> c = CHR ''-'' \<or> c = CHR ''_''"

definition valid_capability :: "string \<Rightarrow> bool" where
  "valid_capability capability \<longleftrightarrow> capability \<noteq> [] \<and> length capability \<le> 128 \<and>
     list_all (\<lambda>segment. segment \<noteq> [] \<and> list_all capability_char segment)
       (split_char (CHR ''.'') capability)"

definition valid_hash :: "string \<Rightarrow> bool" where
  "valid_hash value \<longleftrightarrow> length value = 64 \<and> list_all is_lower_hex_char value"

section \<open>Data sources\<close>

datatype publication_data_format = DfJson | DfCsv | DfSqlite | DfFile

fun publication_data_format_display :: "publication_data_format \<Rightarrow> string" where
  "publication_data_format_display DfJson = ''json''"
| "publication_data_format_display DfCsv = ''csv''"
| "publication_data_format_display DfSqlite = ''sqlite''"
| "publication_data_format_display DfFile = ''file''"

datatype publication_csv_column_type = CtString | CtInteger | CtNumber | CtBoolean

fun publication_csv_column_type_display :: "publication_csv_column_type \<Rightarrow> string" where
  "publication_csv_column_type_display CtString = ''string''"
| "publication_csv_column_type_display CtInteger = ''integer''"
| "publication_csv_column_type_display CtNumber = ''number''"
| "publication_csv_column_type_display CtBoolean = ''boolean''"

record publication_csv_column =
  col_name :: string
  col_type :: publication_csv_column_type
  col_nullable :: bool
  col_indexed :: bool

record publication_csv_schema =
  csv_collection :: string
  csv_columns :: "publication_csv_column list"

definition validate_data_name :: "string \<Rightarrow> string \<Rightarrow> message + unit" where
  "validate_data_name label value =
     (if value = [] \<or> 128 < length value then Inl (Msg (label @ '' name must be 1-128 bytes''))
      else if any_control value
      then Inl (Msg (label @ '' name must not contain control characters''))
      else Inr ())"

text \<open>The loop over the columns: the names seen so far and the number of indexed columns.\<close>

fun check_csv_columns ::
  "string list \<Rightarrow> nat \<Rightarrow> publication_csv_column list \<Rightarrow> message + nat" where
  "check_csv_columns names indexed [] = Inr indexed"
| "check_csv_columns names indexed (column # columns) =
     and_then (validate_data_name ''CSV column'' (col_name column)) (\<lambda>_.
     if col_name column \<in> set names
     then Inl (MsgDebug ''duplicate CSV column '' (col_name column) '''')
     else check_csv_columns (col_name column # names)
       (indexed + (if col_indexed column then 1 else 0)) columns)"

definition csv_schema_validate :: "publication_csv_schema \<Rightarrow> message + unit" where
  "csv_schema_validate s =
     and_then (validate_data_name ''CSV collection'' (csv_collection s)) (\<lambda>_.
     if csv_columns s = [] \<or> 256 < length (csv_columns s)
     then Inl (Msg ''CSV schema must declare between 1 and 256 columns'')
     else and_then (check_csv_columns [] 0 (csv_columns s)) (\<lambda>indexed.
       if indexed = 0 then Inl (Msg ''CSV schema must declare at least one indexed column'')
       else if 16 < indexed
       then Inl (Msg ''CSV schema cannot declare more than 16 indexed columns'')
       else Inr ()))"

record publication_data_source =
  ds_format :: publication_data_format
  ds_content_base64 :: string
  ds_csv_schema :: "publication_csv_schema option"

definition csv_column_value :: "publication_csv_column \<Rightarrow> json" where
  "csv_column_value c = mk_obj
     [(''name'', always (JStr (col_name c))),
      (''type'', always (JStr (publication_csv_column_type_display (col_type c)))),
      (''nullable'', always (JBool (col_nullable c))),
      (''indexed'', always (JBool (col_indexed c)))]"

definition csv_schema_value :: "publication_csv_schema \<Rightarrow> json" where
  "csv_schema_value s = mk_obj
     [(''collection'', always (JStr (csv_collection s))),
      (''columns'', always (JArr (map csv_column_value (csv_columns s))))]"

definition data_source_value :: "publication_data_source \<Rightarrow> json" where
  "data_source_value d = mk_obj
     [(''format'', always (JStr (publication_data_format_display (ds_format d)))),
      (''content_base64'', always (JStr (ds_content_base64 d))),
      (''csv_schema'', unless_none csv_schema_value (ds_csv_schema d))]"

definition csv_package_digest :: "crypto_env \<Rightarrow> publication_data_source \<Rightarrow> string result" where
  "csv_package_digest cs d =
     (if ds_format d \<noteq> DfCsv then Inl ''csv_package_digest requires format=csv''
      else map_ok (sha256_hex cs) (canonical_json_to_vec cs (data_source_value d)))"

section \<open>Python locks and bundles\<close>

definition PYTHON_LOCK_SCHEMA_V1 :: string where
  "PYTHON_LOCK_SCHEMA_V1 = ''froglet.python-lock.v1''"

definition PYTHON_BUNDLE_SCHEMA_V1 :: string where
  "PYTHON_BUNDLE_SCHEMA_V1 = ''froglet.python-bundle.v1''"

record python_runtime_lock =
  prl_implementation :: string
  prl_version :: string
  prl_abi :: string

record python_locked_artifact =
  pla_name :: string
  pla_version :: string
  pla_filename :: string
  pla_sha256 :: string

record python_lock_manifest =
  plm_schema_version :: string
  plm_source_sha256 :: string
  plm_runtime :: python_runtime_lock
  plm_artifacts :: "python_locked_artifact list"

definition valid_python_version :: "string \<Rightarrow> bool" where
  "valid_python_version value =
     (let parts = split_char (CHR ''.'') value
      in length parts = 3 \<and> list_all (\<lambda>part. part \<noteq> [] \<and> list_all is_ascii_digit part) parts)"

definition valid_python_wheel_filename :: "string \<Rightarrow> bool" where
  "valid_python_wheel_filename value \<longleftrightarrow> value \<noteq> [] \<and> length value \<le> 255 \<and>
     \<not> str_contains value ''..'' \<and> ends_with value ''-none-any.whl'' \<and>
     list_all (\<lambda>c. is_ascii_alphanumeric c \<or> c = CHR ''-'' \<or> c = CHR ''_'' \<or> c = CHR ''.'') value"

definition name_separator :: "char \<Rightarrow> bool" where
  "name_separator c \<longleftrightarrow> c = CHR ''-'' \<or> c = CHR ''_'' \<or> c = CHR ''.''"

fun normalize_name_loop :: "string \<Rightarrow> bool \<Rightarrow> string \<Rightarrow> string" where
  "normalize_name_loop output separator [] = output"
| "normalize_name_loop output separator (c # s) =
     (if name_separator c then normalize_name_loop output True s
      else normalize_name_loop
        ((if separator \<and> output \<noteq> [] then output @ ''-'' else output) @ [c]) False s)"

definition normalize_python_distribution_name :: "string \<Rightarrow> string" where
  "normalize_python_distribution_name value =
     normalize_name_loop [] False (to_ascii_lowercase value)"

definition abi_char :: "char \<Rightarrow> bool" where
  "abi_char c \<longleftrightarrow> is_ascii_lowercase c \<or> is_ascii_digit c \<or> c = CHR ''-'' \<or> c = CHR ''_''"

fun check_lock_artifacts :: "string option \<Rightarrow> python_locked_artifact list \<Rightarrow> message + unit" where
  "check_lock_artifacts prior [] = Inr ()"
| "check_lock_artifacts prior (a # artifacts) =
     (if pla_name a = [] \<or> 128 < length (pla_name a) \<or>
        \<not> list_all (\<lambda>c. abi_char c \<or> c = CHR ''.'') (pla_name a)
      then Inl (Msg ''Python lock artifact name is invalid'')
      else if pla_version a = [] \<or> 128 < length (pla_version a) \<or> any_control (pla_version a)
      then Inl (Msg ''Python lock artifact version is invalid'')
      else if \<not> valid_python_wheel_filename (pla_filename a)
      then Inl (MsgDebug ''Python lock artifact '' (pla_filename a)
        '' must be a basename ending in -none-any.whl'')
      else if \<not> valid_hash (pla_sha256 a)
      then Inl (Msg ''Python lock artifact sha256 must be 64 lowercase hex characters'')
      else
        (let key = normalize_python_distribution_name (pla_name a)
         in if (case prior of None \<Rightarrow> False | Some previous \<Rightarrow> previous \<ge> key)
            then Inl (Msg ''Python lock artifacts must be sorted and unique'')
            else check_lock_artifacts (Some key) artifacts))"

definition python_lock_validate :: "python_lock_manifest \<Rightarrow> message + unit" where
  "python_lock_validate l =
     (if plm_schema_version l \<noteq> PYTHON_LOCK_SCHEMA_V1
      then Inl (Msg ''unsupported Python lock schema_version'')
      else if \<not> valid_hash (plm_source_sha256 l)
      then Inl (Msg ''Python lock source_sha256 must be 64 lowercase hex characters'')
      else if prl_implementation (plm_runtime l) \<noteq> ''cpython''
      then Inl (Msg ''Python lock runtime implementation must be cpython'')
      else if \<not> valid_python_version (prl_version (plm_runtime l))
      then Inl (Msg ''Python lock runtime version must be an exact major.minor.patch version'')
      else if prl_abi (plm_runtime l) = [] \<or> 32 < length (prl_abi (plm_runtime l)) \<or>
        \<not> list_all abi_char (prl_abi (plm_runtime l))
      then Inl (Msg ''Python lock runtime abi is invalid'')
      else if 256 < length (plm_artifacts l)
      then Inl (Msg ''Python lock cannot contain more than 256 artifacts'')
      else check_lock_artifacts None (plm_artifacts l))"

definition python_runtime_lock_value :: "python_runtime_lock \<Rightarrow> json" where
  "python_runtime_lock_value r = mk_obj
     [(''implementation'', always (JStr (prl_implementation r))),
      (''version'', always (JStr (prl_version r))),
      (''abi'', always (JStr (prl_abi r)))]"

definition python_locked_artifact_value :: "python_locked_artifact \<Rightarrow> json" where
  "python_locked_artifact_value a = mk_obj
     [(''name'', always (JStr (pla_name a))),
      (''version'', always (JStr (pla_version a))),
      (''filename'', always (JStr (pla_filename a))),
      (''sha256'', always (JStr (pla_sha256 a)))]"

definition python_locked_artifacts_value :: "python_locked_artifact list \<Rightarrow> json" where
  "python_locked_artifacts_value xs = JArr (map python_locked_artifact_value xs)"

definition python_lock_value :: "python_lock_manifest \<Rightarrow> json" where
  "python_lock_value l = mk_obj
     [(''schema_version'', always (JStr (plm_schema_version l))),
      (''source_sha256'', always (JStr (plm_source_sha256 l))),
      (''runtime'', always (python_runtime_lock_value (plm_runtime l))),
      (''artifacts'', unless_empty python_locked_artifacts_value (plm_artifacts l))]"

definition lock_sha256 :: "crypto_env \<Rightarrow> python_lock_manifest \<Rightarrow> message + string" where
  "lock_sha256 cs l =
     and_then (python_lock_validate l) (\<lambda>_.
     map_err Msg (map_ok (sha256_hex cs) (canonical_json_to_vec cs (python_lock_value l))))"

record locked_python_bundle_artifact =
  lba_locked :: python_locked_artifact
  lba_content_base64 :: string

record locked_python_bundle_envelope =
  lbe_schema_version :: string
  lbe_lock :: python_lock_manifest
  lbe_lock_sha256 :: string
  lbe_source_base64 :: string
  lbe_artifacts :: "locked_python_bundle_artifact list"

fun check_bundle_artifacts ::
  "(locked_python_bundle_artifact \<times> python_locked_artifact) list \<Rightarrow> message + unit" where
  "check_bundle_artifacts [] = Inr ()"
| "check_bundle_artifacts ((bundled, locked) # rest) =
     (if lba_locked bundled \<noteq> locked
      then Inl (Msg ''Python bundle artifact metadata does not match lock'')
      else if lba_content_base64 bundled = []
      then Inl (Msg ''Python bundle artifact content must not be empty'')
      else check_bundle_artifacts rest)"

definition bundle_validate_metadata ::
  "crypto_env \<Rightarrow> locked_python_bundle_envelope \<Rightarrow> message + unit" where
  "bundle_validate_metadata cs b =
     (if lbe_schema_version b \<noteq> PYTHON_BUNDLE_SCHEMA_V1
      then Inl (Msg ''unsupported Python bundle schema_version'')
      else
        and_then (python_lock_validate (lbe_lock b)) (\<lambda>_.
        and_then (lock_sha256 cs (lbe_lock b)) (\<lambda>expected.
        if expected \<noteq> lbe_lock_sha256 b
        then Inl (Msg ''Python bundle lock_sha256 does not match canonical lock'')
        else if length (lbe_artifacts b) \<noteq> length (plm_artifacts (lbe_lock b))
        then Inl (Msg ''Python bundle artifacts do not match lock entries'')
        else and_then (check_bundle_artifacts (zip (lbe_artifacts b) (plm_artifacts (lbe_lock b))))
          (\<lambda>_.
          if lbe_source_base64 b = [] then Inl (Msg ''Python bundle source must not be empty'')
          else Inr ()))))"

section \<open>Build evidence\<close>

definition PUBLICATION_BUILD_EVIDENCE_SCHEMA_V1 :: string where
  "PUBLICATION_BUILD_EVIDENCE_SCHEMA_V1 = ''froglet.publication-build-evidence.v1''"

record publication_dependency_component =
  pdc_role :: string
  pdc_name :: string
  pdc_version :: string
  pdc_digest :: string

record publication_build_evidence =
  pbe_schema_version :: string
  pbe_builder :: string
  pbe_builder_version :: string
  pbe_source_digest :: string
  pbe_artifact_digest :: string
  pbe_dependency_mode :: string
  pbe_components :: "publication_dependency_component list"
  pbe_hermetic :: bool

definition check_printable :: "string \<Rightarrow> string \<times> string \<Rightarrow> message + unit" where
  "check_printable what f =
     (if snd f = [] \<or> 128 < length (snd f) \<or> any_control (snd f)
      then Inl (Msg (what @ '' '' @ fst f @ '' must be 1-128 printable bytes''))
      else Inr ())"

definition check_digest :: "string \<times> string \<Rightarrow> message + unit" where
  "check_digest f =
     (if valid_hash (snd f) then Inr ()
      else Inl (Msg (''build evidence '' @ fst f @ '' must be 64 lowercase hex characters'')))"

definition check_dependency_mode :: "publication_build_evidence \<Rightarrow> message + unit" where
  "check_dependency_mode e =
     (if pbe_dependency_mode e = ''none'' \<and> pbe_components e \<noteq> []
      then Inl (Msg ''dependency_mode=none cannot include components'')
      else if pbe_dependency_mode e = ''locked'' \<and> pbe_components e = []
      then Inl (Msg ''dependency_mode=locked requires at least one component'')
      else if pbe_dependency_mode e = ''unresolved'' \<and> pbe_components e \<noteq> []
      then Inl (Msg ''dependency_mode=unresolved cannot claim locked components'')
      else if pbe_dependency_mode e \<in> {''none'', ''locked'', ''unresolved''} then Inr ()
      else Inl (Msg ''dependency_mode must be one of: none, locked, unresolved''))"

text \<open>Rust compares pairs lexicographically.\<close>

definition key_ge :: "string \<times> string \<Rightarrow> string \<times> string \<Rightarrow> bool" where
  "key_ge p q \<longleftrightarrow> fst q < fst p \<or> (fst p = fst q \<and> snd q \<le> snd p)"

fun check_components ::
  "(string \<times> string) option \<Rightarrow> publication_dependency_component list \<Rightarrow> message + unit" where
  "check_components prior [] = Inr ()"
| "check_components prior (c # cs) =
     and_then (for_each (check_printable ''build dependency'')
       [(''role'', pdc_role c), (''name'', pdc_name c), (''version'', pdc_version c)]) (\<lambda>_.
     if \<not> valid_hash (pdc_digest c)
     then Inl (Msg ''build dependency digest must be 64 lowercase hex characters'')
     else if (case prior of None \<Rightarrow> False | Some previous \<Rightarrow> key_ge previous (pdc_role c, pdc_name c))
     then Inl (Msg ''build dependency components must be sorted and unique'')
     else check_components (Some (pdc_role c, pdc_name c)) cs)"

definition build_evidence_validate :: "publication_build_evidence \<Rightarrow> message + unit" where
  "build_evidence_validate e =
     (if pbe_schema_version e \<noteq> PUBLICATION_BUILD_EVIDENCE_SCHEMA_V1
      then Inl (Msg ''unsupported publication build evidence schema_version'')
      else
        and_then (for_each (check_printable ''build evidence'')
          [(''builder'', pbe_builder e), (''builder_version'', pbe_builder_version e)]) (\<lambda>_.
        and_then (for_each check_digest
          [(''source_digest'', pbe_source_digest e), (''artifact_digest'', pbe_artifact_digest e)])
          (\<lambda>_.
        and_then (check_dependency_mode e) (\<lambda>_.
        and_then (check_components None (pbe_components e)) (\<lambda>_.
        if pbe_hermetic e \<and> pbe_dependency_mode e = ''unresolved''
        then Inl (Msg ''a hermetic build cannot have unresolved dependencies'')
        else Inr ())))))"

end
