(* ===== verification/Publication_Precondition.thy ===== *)
theory Publication_Precondition
  imports Publication_Types Reference_Env
begin

text \<open>
  Resource limits and the publication precondition of \<open>froglet-protocol/src/publication.rs\<close>. A
  precondition's token is the hash of everything else in it, so an approval that quotes the token
  is an approval of exactly that provider, intent, limits, configuration and backup state.
\<close>

section \<open>Limits\<close>

record publication_limits =
  pl_max_input_bytes :: "usize option"
  pl_max_runtime_ms :: "u64 option"
  pl_max_memory_bytes :: "usize option"
  pl_max_output_bytes :: "usize option"
  pl_fuel_limit :: "u64 option"

record resolved_publication_limits =
  rl_max_input_bytes :: usize
  rl_max_runtime_ms :: u64
  rl_max_memory_bytes :: usize
  rl_max_output_bytes :: usize
  rl_fuel_limit :: u64

definition unwrap_or :: "'a option \<Rightarrow> 'a \<Rightarrow> 'a" where
  "unwrap_or x d = (case x of None \<Rightarrow> d | Some y \<Rightarrow> y)"

definition check_limit :: "string \<times> u64 \<times> u64 \<Rightarrow> publication_intent_error + unit" where
  "check_limit f =
     (case f of (field, requested, maximum) \<Rightarrow>
        if (if maximum = 0 then requested \<noteq> 0 else requested = 0 \<or> requested > maximum)
        then Inl (InvalidLimit field (uint requested) (uint maximum))
        else Inr ())"

definition resolve_within ::
  "publication_limits \<Rightarrow> resolved_publication_limits
    \<Rightarrow> publication_intent_error + resolved_publication_limits" where
  "resolve_within l available =
     (let resolved =
        \<lparr>rl_max_input_bytes = unwrap_or (pl_max_input_bytes l) (rl_max_input_bytes available),
         rl_max_runtime_ms = unwrap_or (pl_max_runtime_ms l) (rl_max_runtime_ms available),
         rl_max_memory_bytes = unwrap_or (pl_max_memory_bytes l) (rl_max_memory_bytes available),
         rl_max_output_bytes = unwrap_or (pl_max_output_bytes l) (rl_max_output_bytes available),
         rl_fuel_limit = unwrap_or (pl_fuel_limit l) (rl_fuel_limit available)\<rparr>
      in and_then (for_each check_limit
        [(''max_input_bytes'', rl_max_input_bytes resolved, rl_max_input_bytes available),
         (''max_runtime_ms'', rl_max_runtime_ms resolved, rl_max_runtime_ms available),
         (''max_memory_bytes'', rl_max_memory_bytes resolved, rl_max_memory_bytes available),
         (''max_output_bytes'', rl_max_output_bytes resolved, rl_max_output_bytes available)])
        (\<lambda>_.
        if rl_fuel_limit resolved > rl_fuel_limit available \<and> rl_fuel_limit available \<noteq> 0
        then Inl (InvalidLimit ''fuel_limit'' (uint (rl_fuel_limit resolved))
          (uint (rl_fuel_limit available)))
        else Inr resolved))"

definition resolved_limits_value :: "resolved_publication_limits \<Rightarrow> json" where
  "resolved_limits_value l = mk_obj
     [(''max_input_bytes'', always (j_u64 (rl_max_input_bytes l))),
      (''max_runtime_ms'', always (j_u64 (rl_max_runtime_ms l))),
      (''max_memory_bytes'', always (j_u64 (rl_max_memory_bytes l))),
      (''max_output_bytes'', always (j_u64 (rl_max_output_bytes l))),
      (''fuel_limit'', always (j_u64 (rl_fuel_limit l)))]"

section \<open>Identity backup\<close>

definition PUBLICATION_IDENTITY_BACKUP_SCHEMA_V1 :: string where
  "PUBLICATION_IDENTITY_BACKUP_SCHEMA_V1 = ''froglet.publication-identity-backup.v1''"

datatype publication_identity_backup_state =
    IbCurrent
  | IbMissing
  | IbStaleIdentity
  | IbBackupMissing
  | IbBackupDigestMismatch
  | IbInvalidRecord
  | IbNotRequiredForPrivateLocalProof

fun backup_state_name :: "publication_identity_backup_state \<Rightarrow> string" where
  "backup_state_name IbCurrent = ''current''"
| "backup_state_name IbMissing = ''missing''"
| "backup_state_name IbStaleIdentity = ''stale_identity''"
| "backup_state_name IbBackupMissing = ''backup_missing''"
| "backup_state_name IbBackupDigestMismatch = ''backup_digest_mismatch''"
| "backup_state_name IbInvalidRecord = ''invalid_record''"
| "backup_state_name IbNotRequiredForPrivateLocalProof = ''not_required_for_private_local_proof''"

record publication_identity_backup =
  pib_schema_version :: string
  pib_state :: publication_identity_backup_state
  pib_backup_sha256 :: "string option"

definition identity_backup_validate :: "publication_identity_backup \<Rightarrow> message + unit" where
  "identity_backup_validate b =
     (if pib_schema_version b \<noteq> PUBLICATION_IDENTITY_BACKUP_SCHEMA_V1
      then Inl (MsgDebug ''unsupported publication identity-backup schema '' (pib_schema_version b) '''')
      else if (case pib_backup_sha256 b of None \<Rightarrow> False | Some digest \<Rightarrow> \<not> valid_hash digest)
      then Inl (Msg ''identity backup digest must be 64 lowercase hexadecimal characters'')
      else if pib_state b = IbCurrent \<and> pib_backup_sha256 b = None
      then Inl (Msg ''current identity backup state requires its exact digest'')
      else if pib_state b \<in> {IbMissing, IbNotRequiredForPrivateLocalProof} \<and>
        pib_backup_sha256 b \<noteq> None
      then Inl (Msg ''identity backup state must not carry a digest'')
      else Inr ())"

definition identity_backup_new ::
  "publication_identity_backup_state \<Rightarrow> string option \<Rightarrow> message + publication_identity_backup" where
  "identity_backup_new state backup_sha256 =
     (let value = \<lparr>pib_schema_version = PUBLICATION_IDENTITY_BACKUP_SCHEMA_V1,
            pib_state = state, pib_backup_sha256 = backup_sha256\<rparr>
      in and_then (identity_backup_validate value) (\<lambda>_. Inr value))"

definition not_required_for_private_local_proof :: publication_identity_backup where
  "not_required_for_private_local_proof =
     \<lparr>pib_schema_version = PUBLICATION_IDENTITY_BACKUP_SCHEMA_V1,
      pib_state = IbNotRequiredForPrivateLocalProof, pib_backup_sha256 = None\<rparr>"

definition identity_backup_value :: "publication_identity_backup \<Rightarrow> json" where
  "identity_backup_value b = mk_obj
     [(''schema_version'', always (JStr (pib_schema_version b))),
      (''state'', always (JStr (backup_state_name (pib_state b)))),
      (''backup_sha256'', unless_none JStr (pib_backup_sha256 b))]"

section \<open>Precondition\<close>

definition PUBLICATION_PRECONDITION_SCHEMA_V1 :: string where
  "PUBLICATION_PRECONDITION_SCHEMA_V1 = ''froglet.publication-precondition.v1''"

record publication_precondition =
  pp_schema_version :: string
  pp_provider_id :: string
  pp_intent_digest :: string
  pp_resolved_limits :: resolved_publication_limits
  pp_configuration_token :: string
  pp_identity_backup :: publication_identity_backup
  pp_precondition_token :: string

text \<open>\<open>PublicationPreconditionTokenPayload\<close>: everything but the token.\<close>

definition precondition_token_value :: "publication_precondition \<Rightarrow> json" where
  "precondition_token_value p = mk_obj
     [(''schema_version'', always (JStr (pp_schema_version p))),
      (''provider_id'', always (JStr (pp_provider_id p))),
      (''intent_digest'', always (JStr (pp_intent_digest p))),
      (''resolved_limits'', always (resolved_limits_value (pp_resolved_limits p))),
      (''configuration_token'', always (JStr (pp_configuration_token p))),
      (''identity_backup'', always (identity_backup_value (pp_identity_backup p)))]"

definition expected_token :: "crypto_env \<Rightarrow> publication_precondition \<Rightarrow> message + string" where
  "expected_token cs p =
     map_err Msg (map_ok (sha256_hex cs) (canonical_json_to_vec cs (precondition_token_value p)))"

definition check_hex64 :: "string \<times> string \<Rightarrow> message + unit" where
  "check_hex64 f =
     (if length (snd f) \<noteq> 64 \<or> \<not> list_all is_ascii_hexdigit (snd f)
      then Inl (Msg (fst f @ '' must be a 64-hex string''))
      else Inr ())"

definition precondition_validate ::
  "crypto_env \<Rightarrow> publication_precondition \<Rightarrow> message + unit" where
  "precondition_validate cs p =
     (if pp_schema_version p \<noteq> PUBLICATION_PRECONDITION_SCHEMA_V1
      then Inl (MsgDebug ''unsupported publication precondition schema '' (pp_schema_version p) '''')
      else
        and_then (for_each check_hex64
          [(''provider_id'', pp_provider_id p), (''intent_digest'', pp_intent_digest p),
           (''configuration_token'', pp_configuration_token p),
           (''precondition_token'', pp_precondition_token p)]) (\<lambda>_.
        and_then (identity_backup_validate (pp_identity_backup p)) (\<lambda>_.
        if pib_state (pp_identity_backup p) = IbNotRequiredForPrivateLocalProof
        then Inl (Msg ''public publication precondition requires observed provider backup state'')
        else and_then (expected_token cs p) (\<lambda>token.
          if pp_precondition_token p \<noteq> token
          then Inl (Msg ''publication precondition token does not match its payload'')
          else Inr ()))))"

definition precondition_new ::
  "crypto_env \<Rightarrow> string \<Rightarrow> string \<Rightarrow> resolved_publication_limits \<Rightarrow> string
    \<Rightarrow> publication_identity_backup \<Rightarrow> message + publication_precondition" where
  "precondition_new cs provider_id intent_digest resolved_limits configuration_token identity_backup =
     (let precondition = \<lparr>pp_schema_version = PUBLICATION_PRECONDITION_SCHEMA_V1,
            pp_provider_id = provider_id, pp_intent_digest = intent_digest,
            pp_resolved_limits = resolved_limits, pp_configuration_token = configuration_token,
            pp_identity_backup = identity_backup, pp_precondition_token = ''''\<rparr>
      in and_then (expected_token cs precondition) (\<lambda>token.
         let precondition = precondition\<lparr>pp_precondition_token := token\<rparr>
         in and_then (precondition_validate cs precondition) (\<lambda>_. Inr precondition)))"

section \<open>Limits never exceed what the provider has\<close>

text \<open>
  The fuel limit is the exception the code makes: an available limit of 0 does not bound it.
\<close>

definition limits_within :: "resolved_publication_limits \<Rightarrow> resolved_publication_limits \<Rightarrow> bool" where
  "limits_within r available \<longleftrightarrow>
     rl_max_input_bytes r \<le> rl_max_input_bytes available \<and>
     rl_max_runtime_ms r \<le> rl_max_runtime_ms available \<and>
     rl_max_memory_bytes r \<le> rl_max_memory_bytes available \<and>
     rl_max_output_bytes r \<le> rl_max_output_bytes available \<and>
     (rl_fuel_limit r \<le> rl_fuel_limit available \<or> rl_fuel_limit available = 0)"

lemma check_limit_Inr:
  "check_limit (f, r, m) = Inr () \<longleftrightarrow> r \<le> m \<and> (r = 0 \<longleftrightarrow> m = 0)"
  by (auto simp: check_limit_def not_less)

definition requested_limits ::
  "publication_limits \<Rightarrow> resolved_publication_limits \<Rightarrow> resolved_publication_limits" where
  "requested_limits l available =
     \<lparr>rl_max_input_bytes = unwrap_or (pl_max_input_bytes l) (rl_max_input_bytes available),
      rl_max_runtime_ms = unwrap_or (pl_max_runtime_ms l) (rl_max_runtime_ms available),
      rl_max_memory_bytes = unwrap_or (pl_max_memory_bytes l) (rl_max_memory_bytes available),
      rl_max_output_bytes = unwrap_or (pl_max_output_bytes l) (rl_max_output_bytes available),
      rl_fuel_limit = unwrap_or (pl_fuel_limit l) (rl_fuel_limit available)\<rparr>"

definition no_limit_vanishes ::
  "resolved_publication_limits \<Rightarrow> resolved_publication_limits \<Rightarrow> bool" where
  "no_limit_vanishes r available \<longleftrightarrow>
     (rl_max_input_bytes r = 0 \<longleftrightarrow> rl_max_input_bytes available = 0) \<and>
     (rl_max_runtime_ms r = 0 \<longleftrightarrow> rl_max_runtime_ms available = 0) \<and>
     (rl_max_memory_bytes r = 0 \<longleftrightarrow> rl_max_memory_bytes available = 0) \<and>
     (rl_max_output_bytes r = 0 \<longleftrightarrow> rl_max_output_bytes available = 0)"

lemma resolve_within_Inr:
  "resolve_within l a = Inr r \<longleftrightarrow>
     r = requested_limits l a \<and> limits_within r a \<and> no_limit_vanishes r a"
  unfolding resolve_within_def requested_limits_def [symmetric] Let_def limits_within_def
    no_limit_vanishes_def
  by (simp add: result_simps check_limit_Inr) (auto simp: not_less)

text \<open>A resolved request resolves to itself under the same limits.\<close>

definition exactly :: "resolved_publication_limits \<Rightarrow> publication_limits" where
  "exactly r = \<lparr>pl_max_input_bytes = Some (rl_max_input_bytes r),
     pl_max_runtime_ms = Some (rl_max_runtime_ms r),
     pl_max_memory_bytes = Some (rl_max_memory_bytes r),
     pl_max_output_bytes = Some (rl_max_output_bytes r), pl_fuel_limit = Some (rl_fuel_limit r)\<rparr>"

lemma requested_exactly [simp]: "requested_limits (exactly r) a = r"
  by (cases r) (simp add: requested_limits_def exactly_def unwrap_or_def)

lemma resolve_within_again:
  "resolve_within l a = Inr r \<Longrightarrow> resolve_within (exactly r) a = Inr r"
  by (auto simp: resolve_within_Inr)

section \<open>The token pins the precondition\<close>

lemma resolved_limits_value_inject [simp]:
  "resolved_limits_value x = resolved_limits_value y \<longleftrightarrow> x = y"
  by (cases x; cases y) (simp add: resolved_limits_value_def mk_obj_inject)

lemma backup_state_name_inject [simp]: "backup_state_name x = backup_state_name y \<longleftrightarrow> x = y"
  by (cases x; cases y) simp_all

lemma identity_backup_value_inject [simp]:
  "identity_backup_value x = identity_backup_value y \<longleftrightarrow> x = y"
  by (cases x; cases y) (simp add: identity_backup_value_def mk_obj_inject)

lemma precondition_token_value_inject:
  "precondition_token_value p = precondition_token_value q \<longleftrightarrow>
     p\<lparr>pp_precondition_token := []\<rparr> = q\<lparr>pp_precondition_token := []\<rparr>"
  by (cases p; cases q) (simp add: precondition_token_value_def mk_obj_inject)

lemma limits_value_wf [simp]: "wf_json (resolved_limits_value x)"
  by (simp add: resolved_limits_value_def wf_mk_obj)

lemma identity_backup_value_wf [simp]: "wf_json (identity_backup_value x)"
  by (simp add: identity_backup_value_def wf_mk_obj)

lemma precondition_token_value_wf [simp]: "wf_json (precondition_token_value x)"
  by (simp add: precondition_token_value_def wf_mk_obj)

definition exact_limits :: "resolved_publication_limits \<Rightarrow> bool" where
  "exact_limits l = exact_numbers (resolved_limits_value l)"

lemma exact_identity_backup [simp]: "exact_numbers (identity_backup_value b)"
  by (cases "pib_backup_sha256 b") (simp_all add: identity_backup_value_def exact_numbers_mk_obj)

lemma exact_precondition:
  "exact_numbers (precondition_token_value p) \<longleftrightarrow> exact_limits (pp_resolved_limits p)"
  by (simp add: precondition_token_value_def exact_numbers_mk_obj exact_limits_def)

lemma precondition_validateD:
  assumes "precondition_validate cs p = Inr ()"
  shows "\<exists>b. jcs_to_vec cs (precondition_token_value p) = Inr b \<and>
      pp_precondition_token p = sha256_hex cs b"
    and "pib_state (pp_identity_backup p) \<noteq> IbNotRequiredForPrivateLocalProof"
  using assms
  by (auto simp: precondition_validate_def result_simps expected_token_def
      canonical_json_to_vec_def split: if_splits)

lemma precondition_new_validates:
  assumes "precondition_new cs pid d l t ib = Inr p"
  shows "precondition_validate cs p = Inr ()" and "pp_provider_id p = pid"
    and "pp_intent_digest p = d" and "pp_resolved_limits p = l"
    and "pp_configuration_token p = t" and "pp_identity_backup p = ib"
  using assms by (auto simp: precondition_new_def Let_def result_simps)

end
