(* ===== verification/Publication_Revision.thy ===== *)
theory Publication_Revision
  imports Publication_Precondition
begin

text \<open>
  The provider-signed statements of \<open>froglet-protocol/src/publication.rs\<close> that are not kernel
  artifacts: the publication revision, which binds an offer to the bytes, price, limits and local
  verification behind it, and the canary result, which answers a marketplace challenge for one
  revision. Both are hashed over their canonical payload and signed over the same bytes behind a
  domain prefix; the locale \<open>signed_statement\<close> holds what follows from that construction.
\<close>

section \<open>Revision payload\<close>

definition PUBLICATION_REVISION_SCHEMA_V1 :: string where
  "PUBLICATION_REVISION_SCHEMA_V1 = ''froglet.publication-revision.v1''"

definition PUBLICATION_REVISION_SIGNATURE_DOMAIN :: bytes where
  "PUBLICATION_REVISION_SIGNATURE_DOMAIN = ''froglet-publication-revision-v1'' @ [CHR 0x0A]"

definition PUBLICATION_CANARY_SIGNATURE_DOMAIN :: bytes where
  "PUBLICATION_CANARY_SIGNATURE_DOMAIN = ''froglet-publication-canary-result-v1'' @ [CHR 0x0A]"

definition MAX_REVISION_SCHEMA_BYTES :: nat where
  "MAX_REVISION_SCHEMA_BYTES = 64 * 1024"

definition MAX_REVISION_TEXT_BYTES :: nat where
  "MAX_REVISION_TEXT_BYTES = 16 * 1024"

definition MAX_REVISION_MOUNTS :: nat where
  "MAX_REVISION_MOUNTS = 64"

definition MAX_REVISION_CAPABILITIES :: nat where
  "MAX_REVISION_CAPABILITIES = 128"

datatype publication_revision_error =
    RevInvalidPayload message
  | RevCanonical string
  | RevHashMismatch
  | RevSignatureInvalid

fun revision_error_display :: "(string \<Rightarrow> string) \<Rightarrow> publication_revision_error \<Rightarrow> string" where
  "revision_error_display dbg (RevInvalidPayload m) =
     ''invalid publication revision payload: '' @ render_message dbg m"
| "revision_error_display dbg (RevCanonical e) = ''publication revision canonicalization failed: '' @ e"
| "revision_error_display dbg RevHashMismatch = ''publication revision hash mismatch''"
| "revision_error_display dbg RevSignatureInvalid =
     ''publication revision signature verification failed''"

record local_verification_evidence =
  lve_input_hash :: string
  lve_result_hash :: string
  lve_expected_output_matched :: "bool option"

record publication_revision_price =
  prp_settlement_method :: publication_settlement
  prp_currency :: publication_currency
  prp_base_amount_minor :: u64
  prp_success_amount_minor :: u64
  prp_offer_settlement_method :: string

record publication_revision_service =
  prs_project_id :: "string option"
  prs_summary :: "string option"
  prs_starter :: "string option"
  prs_source_kind :: string
  prs_entrypoint_kind :: string
  prs_entrypoint :: string
  prs_contract_version :: string
  prs_mode :: string
  prs_mounts :: "publication_mount list"
  prs_capabilities :: "string list"
  prs_input_schema :: "json option"
  prs_output_schema :: "json option"

record publication_revision_payload =
  prv_schema_version :: string
  prv_provider_id :: string
  prv_service_id :: string
  prv_offer_id :: string
  prv_offer_hash :: string
  prv_binding_hash :: string
  prv_package_digest :: string
  prv_runtime :: string
  prv_package_kind :: string
  prv_build_evidence :: "publication_build_evidence option"
  prv_service :: publication_revision_service
  prv_limits :: resolved_publication_limits
  prv_price :: publication_revision_price
  prv_local_verification :: local_verification_evidence

record signed_publication_revision =
  spr_revision_hash :: string
  spr_signer_pubkey :: string
  spr_signature :: string
  spr_payload :: publication_revision_payload

section \<open>Validation\<close>

definition check_nonblank :: "string \<times> string \<Rightarrow> publication_revision_error + unit" where
  "check_nonblank f =
     (if trim (snd f) = [] then Inl (RevInvalidPayload (Msg (fst f @ '' must not be empty'')))
      else Inr ())"

definition check_revision_text :: "string \<times> string option \<Rightarrow> publication_revision_error + unit" where
  "check_revision_text f =
     (case snd f of
        None \<Rightarrow> Inr ()
      | Some value \<Rightarrow>
          if MAX_REVISION_TEXT_BYTES < length value
          then Inl (RevInvalidPayload
            (Msg (fst f @ '' exceeds '' @ nat_digits MAX_REVISION_TEXT_BYTES @ '' bytes'')))
          else Inr ())"

text \<open>\<open>Display\<close> of \<open>InvalidMount\<close>, the only error \<open>validate_authoring\<close> of a mount returns.\<close>

definition mount_error_message :: "publication_intent_error \<Rightarrow> message" where
  "mount_error_message e =
     (case e of InvalidMount m \<Rightarrow> prefixed ''invalid publication mount: '' m | _ \<Rightarrow> Msg '''')"

fun check_revision_mounts ::
  "string list \<Rightarrow> string list \<Rightarrow> publication_mount list \<Rightarrow> publication_revision_error + unit" where
  "check_revision_mounts capabilities mount_handles [] = Inr ()"
| "check_revision_mounts capabilities mount_handles (mount # mounts) =
     and_then (map_err (\<lambda>e. RevInvalidPayload (mount_error_message e))
       (mount_validate_authoring mount)) (\<lambda>_.
     if mnt_handle mount \<in> set mount_handles
     then Inl (RevInvalidPayload (MsgDebug ''duplicate service mount handle '' (mnt_handle mount) ''''))
     else if access_capability mount \<notin> set capabilities
     then Inl (RevInvalidPayload (MsgDebug
       ''service capabilities omit access declaration for mount '' (mnt_handle mount) ''''))
     else check_revision_mounts capabilities (mnt_handle mount # mount_handles) mounts)"

definition check_revision_schema ::
  "crypto_env \<Rightarrow> string \<times> json option \<Rightarrow> publication_revision_error + unit" where
  "check_revision_schema cs f =
     (case snd f of
        None \<Rightarrow> Inr ()
      | Some schema \<Rightarrow>
          and_then (map_err RevCanonical (canonical_json_to_vec cs schema)) (\<lambda>encoded.
          if MAX_REVISION_SCHEMA_BYTES < length encoded
          then Inl (RevInvalidPayload (Msg (fst f @ '' exceeds '' @
            nat_digits MAX_REVISION_SCHEMA_BYTES @ '' canonical JSON bytes'')))
          else Inr ()))"

definition revision_service_validate ::
  "crypto_env \<Rightarrow> publication_revision_service \<Rightarrow> publication_revision_error + unit" where
  "revision_service_validate cs s =
     and_then (for_each check_nonblank
       [(''service.source_kind'', prs_source_kind s),
        (''service.entrypoint_kind'', prs_entrypoint_kind s),
        (''service.entrypoint'', prs_entrypoint s),
        (''service.contract_version'', prs_contract_version s)]) (\<lambda>_.
     if prs_mode s \<noteq> ''sync'' \<and> prs_mode s \<noteq> ''async''
     then Inl (RevInvalidPayload (Msg ''service.mode must be sync or async''))
     else if (case prs_project_id s of None \<Rightarrow> False | Some value \<Rightarrow> trim value = [])
     then Inl (RevInvalidPayload (Msg ''service.project_id must not be empty when present''))
     else
       and_then (for_each check_revision_text
         [(''service.summary'', prs_summary s), (''service.starter'', prs_starter s)]) (\<lambda>_.
       if MAX_REVISION_MOUNTS < length (prs_mounts s)
       then Inl (RevInvalidPayload
         (Msg (''service.mounts exceeds '' @ nat_digits MAX_REVISION_MOUNTS @ '' entries'')))
       else
         and_then (check_revision_mounts (prs_capabilities s) [] (prs_mounts s)) (\<lambda>_.
         if MAX_REVISION_CAPABILITIES < length (prs_capabilities s)
         then Inl (RevInvalidPayload (Msg
           (''service.capabilities exceeds '' @ nat_digits MAX_REVISION_CAPABILITIES @ '' entries'')))
         else if list_ex (\<lambda>capability. \<not> valid_capability capability) (prs_capabilities s)
         then Inl (RevInvalidPayload (Msg ''service.capabilities contains an invalid capability''))
         else if \<not> strictly_sorted (prs_capabilities s)
         then Inl (RevInvalidPayload (Msg ''service.capabilities must be sorted and unique''))
         else for_each (check_revision_schema cs)
           [(''service.input_schema'', prs_input_schema s),
            (''service.output_schema'', prs_output_schema s)])))"

definition service_validate_canonical_for_signing ::
  "publication_revision_service \<Rightarrow> publication_revision_error + unit" where
  "service_validate_canonical_for_signing s =
     (if list_ex (\<lambda>mount. mnt_kind mount = LEGACY_S3_MOUNT_KIND) (prs_mounts s) \<or>
        list_ex (\<lambda>capability. starts_with capability ''mount.s3.'') (prs_capabilities s)
      then Inl (RevInvalidPayload (Msg
        ''new publication revisions must use object_store, not the legacy s3 alias''))
      else Inr ())"

definition check_revision_hash :: "string \<times> string \<Rightarrow> publication_revision_error + unit" where
  "check_revision_hash f =
     (if valid_hash (snd f) then Inr ()
      else Inl (RevInvalidPayload (Msg (fst f @ '' must be 64 lowercase hex characters''))))"

definition check_build_evidence ::
  "publication_revision_payload \<Rightarrow> publication_revision_error + unit" where
  "check_build_evidence p =
     (case prv_build_evidence p of
        None \<Rightarrow> Inr ()
      | Some build_evidence \<Rightarrow>
          and_then (map_err RevInvalidPayload (build_evidence_validate build_evidence)) (\<lambda>_.
          if pbe_artifact_digest build_evidence \<noteq> prv_package_digest p
          then Inl (RevInvalidPayload
            (Msg ''build evidence artifact_digest must equal package_digest''))
          else Inr ()))"

definition check_positive :: "string \<times> u64 \<Rightarrow> publication_revision_error + unit" where
  "check_positive f =
     (if snd f = 0 then Inl (RevInvalidPayload (Msg (fst f @ '' must be greater than zero'')))
      else Inr ())"

definition check_revision_price ::
  "publication_revision_price \<Rightarrow> publication_revision_error + unit" where
  "check_revision_price price =
     and_then (ok_or (RevInvalidPayload (Msg ''price total overflow''))
       (checked_add (prp_base_amount_minor price) (prp_success_amount_minor price))) (\<lambda>total.
     if prp_settlement_method price = PsNone \<and>
        (total \<noteq> 0 \<or> prp_offer_settlement_method price \<noteq> ''none'')
     then Inl (RevInvalidPayload
       (Msg ''free revision requires zero amounts and offer settlement none''))
     else if prp_settlement_method price = PsLightning \<and>
        (prp_currency price \<noteq> CurSat \<or>
         \<not> starts_with (prp_offer_settlement_method price) ''lightning.'')
     then Inl (RevInvalidPayload
       (Msg ''lightning revision requires sat currency and a Lightning offer method''))
     else if prp_settlement_method price = PsStripe \<and>
        (prp_currency price \<noteq> CurUsd \<or> prp_offer_settlement_method price \<noteq> ''stripe_mpp.v1'')
     then Inl (RevInvalidPayload (Msg ''Stripe revision requires usd currency and stripe_mpp.v1''))
     else Inr ())"

definition revision_validate ::
  "crypto_env \<Rightarrow> publication_revision_payload \<Rightarrow> publication_revision_error + unit" where
  "revision_validate cs p =
     (if prv_schema_version p \<noteq> PUBLICATION_REVISION_SCHEMA_V1
      then Inl (RevInvalidPayload (Msg ''unsupported schema_version''))
      else
        and_then (for_each check_revision_hash
          [(''provider_id'', prv_provider_id p), (''offer_hash'', prv_offer_hash p),
           (''binding_hash'', prv_binding_hash p), (''package_digest'', prv_package_digest p),
           (''local_verification.input_hash'', lve_input_hash (prv_local_verification p)),
           (''local_verification.result_hash'', lve_result_hash (prv_local_verification p))]) (\<lambda>_.
        and_then (for_each check_nonblank
          [(''service_id'', prv_service_id p), (''offer_id'', prv_offer_id p),
           (''runtime'', prv_runtime p), (''package_kind'', prv_package_kind p),
           (''price.offer_settlement_method'', prp_offer_settlement_method (prv_price p))]) (\<lambda>_.
        if lve_expected_output_matched (prv_local_verification p) = Some False
        then Inl (RevInvalidPayload
          (Msg ''a failed local verification cannot be signed as a revision''))
        else
          and_then (check_build_evidence p) (\<lambda>_.
          and_then (revision_service_validate cs (prv_service p)) (\<lambda>_.
          and_then (for_each check_positive
            [(''limits.max_input_bytes'', rl_max_input_bytes (prv_limits p)),
             (''limits.max_runtime_ms'', rl_max_runtime_ms (prv_limits p)),
             (''limits.max_output_bytes'', rl_max_output_bytes (prv_limits p))]) (\<lambda>_.
          if prv_runtime p \<noteq> ''builtin'' \<and> rl_max_memory_bytes (prv_limits p) = 0
          then Inl (RevInvalidPayload (Msg
            ''limits.max_memory_bytes must be greater than zero for non-builtin runtimes''))
          else check_revision_price (prv_price p)))))))"

definition revision_validate_canonical_for_signing ::
  "crypto_env \<Rightarrow> publication_revision_payload \<Rightarrow> publication_revision_error + unit" where
  "revision_validate_canonical_for_signing cs p =
     and_then (revision_validate cs p) (\<lambda>_.
     service_validate_canonical_for_signing (prv_service p))"

section \<open>Wire form\<close>

definition mount_value :: "publication_mount \<Rightarrow> json" where
  "mount_value m = mk_obj
     [(''handle'', always (JStr (mnt_handle m))),
      (''kind'', always (JStr (mnt_kind m))),
      (''read_only'', always (JBool (mnt_read_only m))),
      (''binding'', unless_none JStr (mnt_binding m))]"

definition mounts_value :: "publication_mount list \<Rightarrow> json" where
  "mounts_value ms = JArr (map mount_value ms)"

definition dependency_component_value :: "publication_dependency_component \<Rightarrow> json" where
  "dependency_component_value c = mk_obj
     [(''role'', always (JStr (pdc_role c))),
      (''name'', always (JStr (pdc_name c))),
      (''version'', always (JStr (pdc_version c))),
      (''digest'', always (JStr (pdc_digest c)))]"

definition dependency_components_value :: "publication_dependency_component list \<Rightarrow> json" where
  "dependency_components_value cs = JArr (map dependency_component_value cs)"

definition build_evidence_value :: "publication_build_evidence \<Rightarrow> json" where
  "build_evidence_value e = mk_obj
     [(''schema_version'', always (JStr (pbe_schema_version e))),
      (''builder'', always (JStr (pbe_builder e))),
      (''builder_version'', always (JStr (pbe_builder_version e))),
      (''source_digest'', always (JStr (pbe_source_digest e))),
      (''artifact_digest'', always (JStr (pbe_artifact_digest e))),
      (''dependency_mode'', always (JStr (pbe_dependency_mode e))),
      (''components'', unless_empty dependency_components_value (pbe_components e)),
      (''hermetic'', always (JBool (pbe_hermetic e)))]"

definition revision_service_value :: "publication_revision_service \<Rightarrow> json" where
  "revision_service_value s = mk_obj
     [(''project_id'', unless_none JStr (prs_project_id s)),
      (''summary'', unless_none JStr (prs_summary s)),
      (''starter'', unless_none JStr (prs_starter s)),
      (''source_kind'', always (JStr (prs_source_kind s))),
      (''entrypoint_kind'', always (JStr (prs_entrypoint_kind s))),
      (''entrypoint'', always (JStr (prs_entrypoint s))),
      (''contract_version'', always (JStr (prs_contract_version s))),
      (''mode'', always (JStr (prs_mode s))),
      (''mounts'', unless_empty mounts_value (prs_mounts s)),
      (''capabilities'', unless_empty j_strs (prs_capabilities s)),
      (''input_schema'', unless_none (\<lambda>v. v) (prs_input_schema s)),
      (''output_schema'', unless_none (\<lambda>v. v) (prs_output_schema s))]"

definition revision_price_value :: "publication_revision_price \<Rightarrow> json" where
  "revision_price_value p = mk_obj
     [(''settlement_method'', always (JStr (publication_settlement_display (prp_settlement_method p)))),
      (''currency'', always (JStr (publication_currency_display (prp_currency p)))),
      (''base_amount_minor'', always (j_u64 (prp_base_amount_minor p))),
      (''success_amount_minor'', always (j_u64 (prp_success_amount_minor p))),
      (''offer_settlement_method'', always (JStr (prp_offer_settlement_method p)))]"

definition local_verification_value :: "local_verification_evidence \<Rightarrow> json" where
  "local_verification_value v = mk_obj
     [(''input_hash'', always (JStr (lve_input_hash v))),
      (''result_hash'', always (JStr (lve_result_hash v))),
      (''expected_output_matched'', unless_none JBool (lve_expected_output_matched v))]"

definition revision_value :: "publication_revision_payload \<Rightarrow> json" where
  "revision_value p = mk_obj
     [(''schema_version'', always (JStr (prv_schema_version p))),
      (''provider_id'', always (JStr (prv_provider_id p))),
      (''service_id'', always (JStr (prv_service_id p))),
      (''offer_id'', always (JStr (prv_offer_id p))),
      (''offer_hash'', always (JStr (prv_offer_hash p))),
      (''binding_hash'', always (JStr (prv_binding_hash p))),
      (''package_digest'', always (JStr (prv_package_digest p))),
      (''runtime'', always (JStr (prv_runtime p))),
      (''package_kind'', always (JStr (prv_package_kind p))),
      (''build_evidence'', unless_none build_evidence_value (prv_build_evidence p)),
      (''service'', always (revision_service_value (prv_service p))),
      (''limits'', always (resolved_limits_value (prv_limits p))),
      (''price'', always (revision_price_value (prv_price p))),
      (''local_verification'', always (local_verification_value (prv_local_verification p)))]"

section \<open>Signing and verifying a revision\<close>

definition publication_revision_signing_bytes ::
  "crypto_env \<Rightarrow> publication_revision_payload \<Rightarrow> publication_revision_error + bytes" where
  "publication_revision_signing_bytes cs p =
     map_ok (\<lambda>canonical. PUBLICATION_REVISION_SIGNATURE_DOMAIN @ canonical)
       (map_err RevCanonical (canonical_json_to_vec cs (revision_value p)))"

definition sign_publication_revision ::
  "crypto_env \<Rightarrow> publication_revision_payload \<Rightarrow> (bytes \<Rightarrow> string)
    \<Rightarrow> publication_revision_error + signed_publication_revision" where
  "sign_publication_revision cs payload sign_message =
     and_then (revision_validate_canonical_for_signing cs payload) (\<lambda>_.
     and_then (map_err RevCanonical (canonical_json_to_vec cs (revision_value payload))) (\<lambda>canonical.
     and_then (publication_revision_signing_bytes cs payload) (\<lambda>signing_bytes.
     Inr \<lparr>spr_revision_hash = sha256_hex cs canonical,
          spr_signer_pubkey = prv_provider_id payload,
          spr_signature = sign_message signing_bytes,
          spr_payload = payload\<rparr>)))"

definition revision_verify ::
  "crypto_env \<Rightarrow> signed_publication_revision \<Rightarrow> publication_revision_error + unit" where
  "revision_verify cs r =
     and_then (revision_validate cs (spr_payload r)) (\<lambda>_.
     if spr_signer_pubkey r \<noteq> prv_provider_id (spr_payload r)
     then Inl (RevInvalidPayload (Msg ''signer_pubkey must equal payload.provider_id''))
     else
       and_then (map_err RevCanonical (canonical_json_to_vec cs (revision_value (spr_payload r))))
         (\<lambda>canonical.
       if spr_revision_hash r \<noteq> sha256_hex cs canonical then Inl RevHashMismatch
       else
         and_then (publication_revision_signing_bytes cs (spr_payload r)) (\<lambda>signing_bytes.
         if \<not> verify_message cs (spr_signer_pubkey r) (spr_signature r) signing_bytes
         then Inl RevSignatureInvalid
         else Inr ())))"

section \<open>Canary challenge and result\<close>

definition PUBLICATION_CANARY_REQUEST_SCHEMA_V1 :: string where
  "PUBLICATION_CANARY_REQUEST_SCHEMA_V1 = ''froglet.publication-canary-request.v1''"

definition PUBLICATION_CANARY_RESULT_SCHEMA_V1 :: string where
  "PUBLICATION_CANARY_RESULT_SCHEMA_V1 = ''froglet.publication-canary-result.v1''"

datatype publication_canary_error =
    CanInvalidPayload string
  | CanCanonical string
  | CanHashMismatch
  | CanSignatureInvalid

record publication_canary_request =
  pcr_schema_version :: string
  pcr_revision_hash :: string
  pcr_offer_hash :: string
  pcr_challenge :: string
  pcr_input :: json

record publication_canary_result_payload =
  pcp_schema_version :: string
  pcp_provider_id :: string
  pcp_revision_hash :: string
  pcp_offer_hash :: string
  pcp_challenge :: string
  pcp_input_hash :: string
  pcp_result_hash :: string
  pcp_status :: string

record signed_publication_canary_result =
  scr_payload_hash :: string
  scr_signer_pubkey :: string
  scr_signature :: string
  scr_payload :: publication_canary_result_payload

definition check_canary_hash :: "string \<times> string \<Rightarrow> publication_canary_error + unit" where
  "check_canary_hash f =
     (if valid_hash (snd f) then Inr ()
      else Inl (CanInvalidPayload (fst f @ '' must be 64 lowercase hex characters'')))"

definition canary_request_validate ::
  "crypto_env \<Rightarrow> publication_canary_request \<Rightarrow> publication_canary_error + unit" where
  "canary_request_validate cs r =
     (if pcr_schema_version r \<noteq> PUBLICATION_CANARY_REQUEST_SCHEMA_V1
      then Inl (CanInvalidPayload ''unsupported request schema_version'')
      else
        and_then (for_each check_canary_hash
          [(''revision_hash'', pcr_revision_hash r), (''offer_hash'', pcr_offer_hash r),
           (''challenge'', pcr_challenge r)]) (\<lambda>_.
        and_then (map_err CanCanonical (canonical_json_to_vec cs (pcr_input r))) (\<lambda>_. Inr ())))"

definition canary_result_validate ::
  "publication_canary_result_payload \<Rightarrow> publication_canary_error + unit" where
  "canary_result_validate p =
     (if pcp_schema_version p \<noteq> PUBLICATION_CANARY_RESULT_SCHEMA_V1
      then Inl (CanInvalidPayload ''unsupported result schema_version'')
      else
        and_then (for_each check_canary_hash
          [(''provider_id'', pcp_provider_id p), (''revision_hash'', pcp_revision_hash p),
           (''offer_hash'', pcp_offer_hash p), (''challenge'', pcp_challenge p),
           (''input_hash'', pcp_input_hash p), (''result_hash'', pcp_result_hash p)]) (\<lambda>_.
        if pcp_status p \<noteq> ''succeeded'' then Inl (CanInvalidPayload ''status must be succeeded'')
        else Inr ()))"

definition canary_result_value :: "publication_canary_result_payload \<Rightarrow> json" where
  "canary_result_value p = mk_obj
     [(''schema_version'', always (JStr (pcp_schema_version p))),
      (''provider_id'', always (JStr (pcp_provider_id p))),
      (''revision_hash'', always (JStr (pcp_revision_hash p))),
      (''offer_hash'', always (JStr (pcp_offer_hash p))),
      (''challenge'', always (JStr (pcp_challenge p))),
      (''input_hash'', always (JStr (pcp_input_hash p))),
      (''result_hash'', always (JStr (pcp_result_hash p))),
      (''status'', always (JStr (pcp_status p)))]"

definition publication_canary_signing_bytes ::
  "crypto_env \<Rightarrow> publication_canary_result_payload \<Rightarrow> publication_canary_error + bytes" where
  "publication_canary_signing_bytes cs p =
     map_ok (\<lambda>canonical. PUBLICATION_CANARY_SIGNATURE_DOMAIN @ canonical)
       (map_err CanCanonical (canonical_json_to_vec cs (canary_result_value p)))"

definition sign_publication_canary_result ::
  "crypto_env \<Rightarrow> publication_canary_result_payload \<Rightarrow> (bytes \<Rightarrow> string)
    \<Rightarrow> publication_canary_error + signed_publication_canary_result" where
  "sign_publication_canary_result cs payload sign_message =
     and_then (canary_result_validate payload) (\<lambda>_.
     and_then (map_err CanCanonical (canonical_json_to_vec cs (canary_result_value payload)))
       (\<lambda>canonical.
     and_then (publication_canary_signing_bytes cs payload) (\<lambda>signing_bytes.
     Inr \<lparr>scr_payload_hash = sha256_hex cs canonical,
          scr_signer_pubkey = pcp_provider_id payload,
          scr_signature = sign_message signing_bytes,
          scr_payload = payload\<rparr>)))"

definition canary_result_verify ::
  "crypto_env \<Rightarrow> signed_publication_canary_result \<Rightarrow> publication_canary_error + unit" where
  "canary_result_verify cs r =
     and_then (canary_result_validate (scr_payload r)) (\<lambda>_.
     if scr_signer_pubkey r \<noteq> pcp_provider_id (scr_payload r)
     then Inl (CanInvalidPayload ''signer_pubkey must equal payload.provider_id'')
     else
       and_then (map_err CanCanonical (canonical_json_to_vec cs (canary_result_value (scr_payload r))))
         (\<lambda>canonical.
       if scr_payload_hash r \<noteq> sha256_hex cs canonical then Inl CanHashMismatch
       else
         and_then (publication_canary_signing_bytes cs (scr_payload r)) (\<lambda>signing_bytes.
         if \<not> verify_message cs (scr_signer_pubkey r) (scr_signature r) signing_bytes
         then Inl CanSignatureInvalid
         else Inr ())))"

section \<open>The wire forms determine the payloads\<close>

lemma mount_value_inject [simp]: "mount_value x = mount_value y \<longleftrightarrow> x = y"
  by (cases x; cases y) (simp add: mount_value_def mk_obj_inject)

lemma unless_empty_mounts [simp]:
  "unless_empty mounts_value a = unless_empty mounts_value b \<longleftrightarrow> a = b"
  by (intro unless_empty_inject) (simp add: mounts_value_def map_json_inject)

lemma dependency_component_value_inject [simp]:
  "dependency_component_value x = dependency_component_value y \<longleftrightarrow> x = y"
  by (cases x; cases y) (simp add: dependency_component_value_def mk_obj_inject)

lemma unless_empty_components [simp]:
  "unless_empty dependency_components_value a = unless_empty dependency_components_value b \<longleftrightarrow> a = b"
  by (intro unless_empty_inject) (simp add: dependency_components_value_def map_json_inject)

lemma build_evidence_value_inject [simp]:
  "build_evidence_value x = build_evidence_value y \<longleftrightarrow> x = y"
  by (cases x; cases y) (simp add: build_evidence_value_def mk_obj_inject)

lemma revision_service_value_inject [simp]:
  "revision_service_value x = revision_service_value y \<longleftrightarrow> x = y"
  by (cases x; cases y) (simp add: revision_service_value_def mk_obj_inject unless_none_inject)

lemma display_inject [simp]:
  "publication_settlement_display a = publication_settlement_display b \<longleftrightarrow> a = b"
  "publication_currency_display c = publication_currency_display d \<longleftrightarrow> c = d"
  by (cases a; cases b; simp) (cases c; cases d; simp)

lemma revision_price_value_inject [simp]: "revision_price_value x = revision_price_value y \<longleftrightarrow> x = y"
  by (cases x; cases y) (simp add: revision_price_value_def mk_obj_inject)

lemma local_verification_value_inject [simp]:
  "local_verification_value x = local_verification_value y \<longleftrightarrow> x = y"
  by (cases x; cases y) (simp add: local_verification_value_def mk_obj_inject unless_none_inject)

lemma revision_value_inject [simp]: "revision_value x = revision_value y \<longleftrightarrow> x = y"
  by (cases x; cases y) (simp add: revision_value_def mk_obj_inject unless_none_inject)

lemma canary_result_value_inject [simp]: "canary_result_value x = canary_result_value y \<longleftrightarrow> x = y"
  by (cases x; cases y) (simp add: canary_result_value_def mk_obj_inject)

section \<open>The wire forms are well-formed values\<close>

text \<open>The schemas of a service are values of \<open>serde_json\<close>, so they are well-formed.\<close>

definition wf_revision :: "publication_revision_payload \<Rightarrow> bool" where
  "wf_revision p \<longleftrightarrow> wf_field (prs_input_schema (prv_service p)) \<and>
     wf_field (prs_output_schema (prv_service p))"

lemma unless_none_id [simp]: "unless_none (\<lambda>v. v) x = x"
  by (cases x) (simp_all add: unless_none_def)

lemma revision_parts_wf [simp]:
  "wf_json (mounts_value ms)" "wf_json (dependency_components_value cs)"
  "wf_json (build_evidence_value e)" "wf_json (revision_price_value pr)"
  "wf_json (local_verification_value v)"
proof -
  show c: "wf_json (dependency_components_value cs)" for cs
    by (simp add: dependency_components_value_def list_all_iff dependency_component_value_def wf_mk_obj)
  show "wf_json (build_evidence_value e)"
    by (simp add: build_evidence_value_def wf_mk_obj c)
qed (simp_all add: mounts_value_def mount_value_def list_all_iff wf_mk_obj revision_price_value_def
    local_verification_value_def)

lemma revision_value_wf: "wf_revision p \<Longrightarrow> wf_json (revision_value p)"
  by (simp add: wf_revision_def revision_value_def revision_service_value_def wf_mk_obj)

lemma canary_result_value_wf [simp]: "wf_json (canary_result_value p)"
  by (simp add: canary_result_value_def wf_mk_obj)

section \<open>The contract of a signed statement\<close>

locale signed_statement =
  fixes to_value :: "'p \<Rightarrow> json"
    and well_formed :: "'p \<Rightarrow> bool"
    and provider :: "'p \<Rightarrow> string"
    and domain :: bytes
    and accepts :: "crypto_env \<Rightarrow> 'p \<Rightarrow> bool"
    and signs :: "crypto_env \<Rightarrow> (bytes \<Rightarrow> string) \<Rightarrow> 'p \<Rightarrow> (string \<times> string \<times> string) option"
    and verifies :: "crypto_env \<Rightarrow> string \<times> string \<times> string \<Rightarrow> 'p \<Rightarrow> bool"
  assumes value_inject: "to_value p = to_value q \<longleftrightarrow> p = q"
    and value_wf: "well_formed p \<Longrightarrow> wf_json (to_value p)"
    and signs_Some: "signs cs sg p = Some (h, pk, sig) \<Longrightarrow>
      accepts cs p \<and> pk = provider p \<and>
      (\<exists>c. jcs_to_vec cs (to_value p) = Inr c \<and> h = sha256_hex cs c \<and> sig = sg (domain @ c))"
    and verifies_iff: "verifies cs (h, pk, sig) p \<longleftrightarrow>
      accepts cs p \<and> pk = provider p \<and>
      (\<exists>c. jcs_to_vec cs (to_value p) = Inr c \<and> h = sha256_hex cs c \<and>
         verify_message cs pk sig (domain @ c))"
begin

lemma signed_verifies:
  assumes "hex_laws cs" and "schnorr_laws cs" and "secret_key_ok cs sk"
    and "provider p = public_key_hex cs sk"
    and "signs cs (sign_message_hex cs sk) p = Some t"
  shows "verifies cs t p"
proof -
  obtain h pk sig where t: "t = (h, pk, sig)" by (cases t) auto
  from signs_Some [OF assms(5) [unfolded t]] assms(4) verify_sign_message [OF assms(1-3)]
  show ?thesis by (auto simp: t verifies_iff)
qed

text \<open>Two accepted statements with one hash carry one payload, or exhibit a collision.\<close>

lemma hash_binds_payload:
  assumes "jcs_laws cs" and "hex_laws cs"
    and "verifies cs (h, pk, sig) p" and "verifies cs (h, pk', sig') q"
    and "well_formed p" and "well_formed q"
    and "exact_numbers (to_value p)" and "exact_numbers (to_value q)"
  shows "p = q \<or> sha256_collision cs (ok_bytes (jcs_to_vec cs (to_value p)))
    (ok_bytes (jcs_to_vec cs (to_value q)))"
proof -
  from assms(3,4) obtain a b where
    ab: "jcs_to_vec cs (to_value p) = Inr a" "jcs_to_vec cs (to_value q) = Inr b"
    and h: "sha256_hex cs a = sha256_hex cs b" by (auto simp: verifies_iff)
  show ?thesis
  proof (cases "a = b")
    case True
    then have "to_value p = to_value q"
      using ab assms(1,7,8) value_wf [OF assms(5)] value_wf [OF assms(6)]
      unfolding jcs_laws_def by blast
    then show ?thesis by (simp add: value_inject)
  next
    case False
    with ab h assms(2) show ?thesis
      by (simp add: sha256_collision_def sha256_hex_collision ok_bytes_def)
  qed
qed

end

definition revision_signs ::
  "crypto_env \<Rightarrow> (bytes \<Rightarrow> string) \<Rightarrow> publication_revision_payload \<Rightarrow> (string \<times> string \<times> string) option" where
  "revision_signs cs sg p =
     (case sign_publication_revision cs p sg of
        Inl e \<Rightarrow> None
      | Inr r \<Rightarrow> Some (spr_revision_hash r, spr_signer_pubkey r, spr_signature r))"

definition revision_verifies ::
  "crypto_env \<Rightarrow> string \<times> string \<times> string \<Rightarrow> publication_revision_payload \<Rightarrow> bool" where
  "revision_verifies cs t p =
     (case t of (h, pk, sig) \<Rightarrow>
        revision_verify cs \<lparr>spr_revision_hash = h, spr_signer_pubkey = pk, spr_signature = sig,
          spr_payload = p\<rparr> = Inr ())"

lemma sign_publication_revision_Inr:
  "sign_publication_revision cs p sg = Inr r \<longleftrightarrow>
     revision_validate_canonical_for_signing cs p = Inr () \<and>
     (\<exists>c. jcs_to_vec cs (revision_value p) = Inr c \<and>
        r = \<lparr>spr_revision_hash = sha256_hex cs c, spr_signer_pubkey = prv_provider_id p,
             spr_signature = sg (PUBLICATION_REVISION_SIGNATURE_DOMAIN @ c), spr_payload = p\<rparr>)"
  by (auto simp: sign_publication_revision_def publication_revision_signing_bytes_def result_simps
      canonical_json_to_vec_def)

lemma revision_verify_Inr:
  "revision_verify cs r = Inr () \<longleftrightarrow>
     revision_validate cs (spr_payload r) = Inr () \<and>
     spr_signer_pubkey r = prv_provider_id (spr_payload r) \<and>
     (\<exists>c. jcs_to_vec cs (revision_value (spr_payload r)) = Inr c \<and>
        spr_revision_hash r = sha256_hex cs c \<and>
        verify_message cs (spr_signer_pubkey r) (spr_signature r)
          (PUBLICATION_REVISION_SIGNATURE_DOMAIN @ c))"
  by (auto simp: revision_verify_def publication_revision_signing_bytes_def result_simps
      canonical_json_to_vec_def split: if_splits)

interpretation revision_statement: signed_statement revision_value wf_revision prv_provider_id
  PUBLICATION_REVISION_SIGNATURE_DOMAIN "\<lambda>cs p. revision_validate cs p = Inr ()" revision_signs
  revision_verifies
  by unfold_locales
    (auto simp: revision_value_wf revision_signs_def sign_publication_revision_Inr
      revision_verifies_def revision_verify_Inr revision_validate_canonical_for_signing_def
      result_simps split: sum.splits)

definition canary_signs ::
  "crypto_env \<Rightarrow> (bytes \<Rightarrow> string) \<Rightarrow> publication_canary_result_payload
    \<Rightarrow> (string \<times> string \<times> string) option" where
  "canary_signs cs sg p =
     (case sign_publication_canary_result cs p sg of
        Inl e \<Rightarrow> None
      | Inr r \<Rightarrow> Some (scr_payload_hash r, scr_signer_pubkey r, scr_signature r))"

definition canary_verifies ::
  "crypto_env \<Rightarrow> string \<times> string \<times> string \<Rightarrow> publication_canary_result_payload \<Rightarrow> bool" where
  "canary_verifies cs t p =
     (case t of (h, pk, sig) \<Rightarrow>
        canary_result_verify cs \<lparr>scr_payload_hash = h, scr_signer_pubkey = pk, scr_signature = sig,
          scr_payload = p\<rparr> = Inr ())"

lemma sign_publication_canary_result_Inr:
  "sign_publication_canary_result cs p sg = Inr r \<longleftrightarrow>
     canary_result_validate p = Inr () \<and>
     (\<exists>c. jcs_to_vec cs (canary_result_value p) = Inr c \<and>
        r = \<lparr>scr_payload_hash = sha256_hex cs c, scr_signer_pubkey = pcp_provider_id p,
             scr_signature = sg (PUBLICATION_CANARY_SIGNATURE_DOMAIN @ c), scr_payload = p\<rparr>)"
  by (auto simp: sign_publication_canary_result_def publication_canary_signing_bytes_def
      result_simps canonical_json_to_vec_def)

lemma canary_result_verify_Inr:
  "canary_result_verify cs r = Inr () \<longleftrightarrow>
     canary_result_validate (scr_payload r) = Inr () \<and>
     scr_signer_pubkey r = pcp_provider_id (scr_payload r) \<and>
     (\<exists>c. jcs_to_vec cs (canary_result_value (scr_payload r)) = Inr c \<and>
        scr_payload_hash r = sha256_hex cs c \<and>
        verify_message cs (scr_signer_pubkey r) (scr_signature r)
          (PUBLICATION_CANARY_SIGNATURE_DOMAIN @ c))"
  by (auto simp: canary_result_verify_def publication_canary_signing_bytes_def result_simps
      canonical_json_to_vec_def split: if_splits)

interpretation canary_statement: signed_statement canary_result_value "\<lambda>_. True" pcp_provider_id
  PUBLICATION_CANARY_SIGNATURE_DOMAIN "\<lambda>cs p. canary_result_validate p = Inr ()" canary_signs
  canary_verifies
  by unfold_locales
    (auto simp: canary_signs_def sign_publication_canary_result_Inr
      canary_verifies_def canary_result_verify_Inr split: sum.splits)

text \<open>No message is both a revision's and a canary result's.\<close>

lemma signature_domains_disjoint:
  "PUBLICATION_REVISION_SIGNATURE_DOMAIN @ a \<noteq> PUBLICATION_CANARY_SIGNATURE_DOMAIN @ b"
  by (simp add: PUBLICATION_REVISION_SIGNATURE_DOMAIN_def PUBLICATION_CANARY_SIGNATURE_DOMAIN_def)

end
