(* ===== verification/Publications.thy ===== *)
theory Publications
  imports Database Publication_Revision
begin

text \<open>
  The publication tables of \<open>src/src/db.rs\<close>: managed offers, the immutable revisions, the lifecycle
  of each service (which revision is selected, whether it is advertised, and the token of the
  current activation), the operation log, and the transport grants that keep an active publication
  reachable. SQL constraints (primary keys, \<open>CHECK\<close>s, foreign keys) are the error branches of the
  statements that can meet them. The random activation token is an argument; \<open>serde_json\<close> is the
  record \<open>pub_text\<close>.
\<close>

section \<open>Tables\<close>

record managed_offer_row =
  mo_offer_id :: string
  mo_definition_json :: string
  mo_created_at :: i64
  mo_updated_at :: i64

record revision_row =
  rr_revision_hash :: string
  rr_service_id :: string
  rr_offer_id :: string
  rr_offer_hash :: string
  rr_binding_hash :: string
  rr_validation_status :: string
  rr_signed_revision_json :: string
  rr_definition_json :: string
  rr_created_at :: i64

record lifecycle_row =
  lc_service_id :: string
  lc_status :: string
  lc_active_revision_hash :: "string option"
  lc_selected_revision_hash :: string
  lc_activation_token :: string
  lc_created_at :: i64
  lc_updated_at :: i64

record pub_operation_row =
  po_operation_id :: i64
  po_service_id :: string
  po_revision_hash :: "string option"
  po_operation :: string
  po_status :: string
  po_evidence_json :: string
  po_created_at :: i64

record transport_grant_row =
  tg_transport :: string
  tg_service_id :: string
  tg_revision_hash :: string
  tg_activation_token :: string
  tg_public_url :: string
  tg_relay_control_url :: string
  tg_created_at :: i64
  tg_updated_at :: i64

record pub_db =
  pb_offers :: "managed_offer_row list"
  pb_revisions :: "revision_row list"
  pb_lifecycles :: "lifecycle_row list"
  pb_log :: "pub_operation_row list"
  pb_grants :: "transport_grant_row list"

definition empty_pub_db :: pub_db where
  "empty_pub_db = \<lparr>pb_offers = [], pb_revisions = [], pb_lifecycles = [], pb_log = [], pb_grants = []\<rparr>"

text \<open>\<open>serde_json::from_str\<close> and \<open>to_string\<close> at the types the store uses.\<close>

record pub_text =
  pt_json_from_str :: "string \<Rightarrow> json result"
  pt_json_to_string :: "json \<Rightarrow> string"
  pt_signed_revision_from_str :: "string \<Rightarrow> signed_publication_revision result"

section \<open>Decoded records\<close>

record provider_managed_offer_record =
  pmo_offer_id :: string
  pmo_definition :: json
  pmo_created_at :: i64
  pmo_updated_at :: i64

record publication_revision_record =
  prr_revision_hash :: string
  prr_service_id :: string
  prr_offer_id :: string
  prr_offer_hash :: string
  prr_binding_hash :: string
  prr_validation_status :: string
  prr_signed_revision :: json
  prr_definition :: json
  prr_created_at :: i64

record publication_lifecycle_record =
  plr_service_id :: string
  plr_status :: string
  plr_active_revision_hash :: "string option"
  plr_selected_revision_hash :: string
  plr_activation_token :: string
  plr_revision_count :: u64
  plr_created_at :: i64
  plr_updated_at :: i64

record publication_transport_grant_record =
  ptg_transport :: string
  ptg_service_id :: string
  ptg_revision_hash :: string
  ptg_offer_id :: string
  ptg_offer_hash :: string
  ptg_activation_token :: string
  ptg_public_url :: string
  ptg_relay_control_url :: string
  ptg_created_at :: i64
  ptg_updated_at :: i64

record publication_operation_record =
  por_operation_id :: i64
  por_service_id :: string
  por_revision_hash :: "string option"
  por_operation :: string
  por_status :: string
  por_evidence :: json
  por_created_at :: i64

record new_publication_revision =
  npr_revision_hash :: string
  npr_service_id :: string
  npr_offer_id :: string
  npr_offer_hash :: string
  npr_binding_hash :: string
  npr_signed_revision_json :: string
  npr_definition_json :: string

record new_publication_transport_grant =
  ntg_transport :: string
  ntg_service_id :: string
  ntg_revision_hash :: string
  ntg_activation_token :: string
  ntg_public_url :: string
  ntg_relay_control_url :: string
  ntg_now :: i64

definition is_publication_activation_token :: "string \<Rightarrow> bool" where
  "is_publication_activation_token value \<longleftrightarrow> length value = 64 \<and> list_all is_lower_hex_char value"

text \<open>The first row that fails to decode fails the whole query.\<close>

fun collect :: "('a \<Rightarrow> 'b result) \<Rightarrow> 'a list \<Rightarrow> 'b list result" where
  "collect f [] = Inr []"
| "collect f (x # xs) = and_then (f x) (\<lambda>y. map_ok (\<lambda>ys. y # ys) (collect f xs))"

text \<open>\<open>ORDER BY k DESC\<close> of an integer column.\<close>

definition sort_desc :: "('a \<Rightarrow> int) \<Rightarrow> 'a list \<Rightarrow> 'a list" where
  "sort_desc k xs = sort_key (\<lambda>x. - k x) xs"

section \<open>Managed offers\<close>

definition upsert_provider_managed_offer ::
  "string \<Rightarrow> string \<Rightarrow> i64 \<Rightarrow> (pub_db, unit) db_op" where
  "upsert_provider_managed_offer oid definition_json now db =
     (Inr (),
      if list_ex (\<lambda>o'. mo_offer_id o' = oid) (pb_offers db)
      then db\<lparr>pb_offers := fst (update_where (\<lambda>o'. mo_offer_id o' = oid)
        (\<lambda>o'. o'\<lparr>mo_definition_json := definition_json, mo_updated_at := now\<rparr>) (pb_offers db))\<rparr>
      else db\<lparr>pb_offers := pb_offers db @
        [\<lparr>mo_offer_id = oid, mo_definition_json = definition_json, mo_created_at = now,
          mo_updated_at = now\<rparr>]\<rparr>)"

definition decode_managed_offer ::
  "pub_text \<Rightarrow> managed_offer_row \<Rightarrow> provider_managed_offer_record result" where
  "decode_managed_offer tx row =
     and_then (pt_json_from_str tx (mo_definition_json row)) (\<lambda>definition'.
     Inr \<lparr>pmo_offer_id = mo_offer_id row, pmo_definition = definition',
          pmo_created_at = mo_created_at row, pmo_updated_at = mo_updated_at row\<rparr>)"

definition get_provider_managed_offer ::
  "pub_text \<Rightarrow> pub_db \<Rightarrow> string \<Rightarrow> provider_managed_offer_record option result" where
  "get_provider_managed_offer tx db oid =
     (case query_row (\<lambda>o'. mo_offer_id o' = oid) (pb_offers db) of
        None \<Rightarrow> Inr None
      | Some row \<Rightarrow> map_ok Some (decode_managed_offer tx row))"

definition list_provider_managed_offers ::
  "pub_text \<Rightarrow> pub_db \<Rightarrow> provider_managed_offer_record list result" where
  "list_provider_managed_offers tx db =
     collect (decode_managed_offer tx) (sort_desc mo_updated_at (sort_key mo_offer_id (pb_offers db)))"

section \<open>Reading revisions and lifecycles\<close>

definition decode_publication_revision_row ::
  "pub_text \<Rightarrow> revision_row \<Rightarrow> publication_revision_record result" where
  "decode_publication_revision_row tx row =
     and_then (pt_json_from_str tx (rr_signed_revision_json row)) (\<lambda>signed_revision.
     and_then (pt_json_from_str tx (rr_definition_json row)) (\<lambda>definition'.
     Inr \<lparr>prr_revision_hash = rr_revision_hash row, prr_service_id = rr_service_id row,
          prr_offer_id = rr_offer_id row, prr_offer_hash = rr_offer_hash row,
          prr_binding_hash = rr_binding_hash row,
          prr_validation_status = rr_validation_status row,
          prr_signed_revision = signed_revision, prr_definition = definition',
          prr_created_at = rr_created_at row\<rparr>))"

definition decode_publication_lifecycle_row ::
  "pub_db \<Rightarrow> lifecycle_row \<Rightarrow> publication_lifecycle_record result" where
  "decode_publication_lifecycle_row db row =
     (if \<not> is_publication_activation_token (lc_activation_token row)
      then Inl ''stored publication activation token is not 64 lowercase hexadecimal characters''
      else Inr \<lparr>plr_service_id = lc_service_id row, plr_status = lc_status row,
        plr_active_revision_hash = lc_active_revision_hash row,
        plr_selected_revision_hash = lc_selected_revision_hash row,
        plr_activation_token = lc_activation_token row,
        plr_revision_count = word_of_nat
          (length (filter (\<lambda>r. rr_service_id r = lc_service_id row) (pb_revisions db))),
        plr_created_at = lc_created_at row, plr_updated_at = lc_updated_at row\<rparr>)"

definition get_publication_revision ::
  "pub_text \<Rightarrow> pub_db \<Rightarrow> string \<Rightarrow> string \<Rightarrow> publication_revision_record option result" where
  "get_publication_revision tx db service_id revision_hash =
     (case query_row (\<lambda>r. rr_service_id r = service_id \<and> rr_revision_hash r = revision_hash)
             (pb_revisions db) of
        None \<Rightarrow> Inr None
      | Some row \<Rightarrow> map_ok Some (decode_publication_revision_row tx row))"

definition list_publication_revisions ::
  "pub_text \<Rightarrow> pub_db \<Rightarrow> string \<Rightarrow> nat \<Rightarrow> publication_revision_record list result" where
  "list_publication_revisions tx db service_id limit =
     collect (decode_publication_revision_row tx)
       (take (max 1 (min 100 limit)) (sort_desc rr_created_at (sort_key rr_revision_hash
         (filter (\<lambda>r. rr_service_id r = service_id) (pb_revisions db)))))"

definition get_publication_lifecycle ::
  "pub_db \<Rightarrow> string \<Rightarrow> publication_lifecycle_record option result" where
  "get_publication_lifecycle db service_id =
     (case query_row (\<lambda>l. lc_service_id l = service_id) (pb_lifecycles db) of
        None \<Rightarrow> Inr None
      | Some row \<Rightarrow> map_ok Some (decode_publication_lifecycle_row db row))"

definition list_publication_lifecycles :: "pub_db \<Rightarrow> publication_lifecycle_record list result" where
  "list_publication_lifecycles db =
     collect (decode_publication_lifecycle_row db)
       (sort_desc lc_updated_at (sort_key lc_service_id (pb_lifecycles db)))"

section \<open>Transport grants\<close>

text \<open>The lifecycle a grant has to match: the exact active revision under the exact token.\<close>

definition authorizes :: "transport_grant_row \<Rightarrow> lifecycle_row \<Rightarrow> bool" where
  "authorizes g l \<longleftrightarrow> lc_service_id l = tg_service_id g \<and> lc_status l = ''active'' \<and>
     lc_active_revision_hash l = Some (tg_revision_hash g) \<and>
     lc_activation_token l = tg_activation_token g"

definition revision_of_grant :: "transport_grant_row \<Rightarrow> revision_row \<Rightarrow> bool" where
  "revision_of_grant g r \<longleftrightarrow>
     rr_revision_hash r = tg_revision_hash g \<and> rr_service_id r = tg_service_id g"

definition decode_publication_transport_grant_row ::
  "transport_grant_row \<times> revision_row \<Rightarrow> publication_transport_grant_record result" where
  "decode_publication_transport_grant_row row =
     (case row of (g, r) \<Rightarrow>
        if \<not> is_publication_activation_token (tg_activation_token g)
        then Inl ''stored transport grant activation token is invalid''
        else Inr \<lparr>ptg_transport = tg_transport g, ptg_service_id = tg_service_id g,
          ptg_revision_hash = tg_revision_hash g, ptg_offer_id = rr_offer_id r,
          ptg_offer_hash = rr_offer_hash r, ptg_activation_token = tg_activation_token g,
          ptg_public_url = tg_public_url g, ptg_relay_control_url = tg_relay_control_url g,
          ptg_created_at = tg_created_at g, ptg_updated_at = tg_updated_at g\<rparr>)"

definition list_publication_transport_grants ::
  "pub_db \<Rightarrow> string \<Rightarrow> publication_transport_grant_record list result" where
  "list_publication_transport_grants db transport =
     collect decode_publication_transport_grant_row
       (concat (map (\<lambda>g. concat (map (\<lambda>l. map (\<lambda>r. (g, r))
            (filter (revision_of_grant g) (pb_revisions db)))
          (filter (authorizes g) (pb_lifecycles db))))
         (sort_key tg_updated_at (sort_key tg_service_id
           (filter (\<lambda>g. tg_transport g = transport) (pb_grants db))))))"

definition url_ok :: "string \<Rightarrow> bool" where
  "url_ok u \<longleftrightarrow> u \<noteq> [] \<and> length u \<le> 2048 \<and> \<not> any_control u"

definition upsert_grant :: "new_publication_transport_grant \<Rightarrow> pub_db \<Rightarrow> pub_db" where
  "upsert_grant grant db =
     (let P = (\<lambda>g. tg_transport g = ntg_transport grant \<and> tg_service_id g = ntg_service_id grant)
      in if list_ex P (pb_grants db)
         then db\<lparr>pb_grants := fst (update_where P
           (\<lambda>g. g\<lparr>tg_revision_hash := ntg_revision_hash grant,
                  tg_activation_token := ntg_activation_token grant,
                  tg_public_url := ntg_public_url grant,
                  tg_relay_control_url := ntg_relay_control_url grant,
                  tg_updated_at := ntg_now grant\<rparr>) (pb_grants db))\<rparr>
         else db\<lparr>pb_grants := pb_grants db @
           [\<lparr>tg_transport = ntg_transport grant, tg_service_id = ntg_service_id grant,
             tg_revision_hash = ntg_revision_hash grant,
             tg_activation_token = ntg_activation_token grant,
             tg_public_url = ntg_public_url grant,
             tg_relay_control_url = ntg_relay_control_url grant,
             tg_created_at = ntg_now grant, tg_updated_at = ntg_now grant\<rparr>]\<rparr>)"

definition persist_publication_transport_grant ::
  "new_publication_transport_grant \<Rightarrow> (pub_db, publication_transport_grant_record) db_op" where
  "persist_publication_transport_grant grant db =
     (if ntg_transport grant = [] \<or> 32 < length (ntg_transport grant) \<or>
        list_ex (\<lambda>c. 128 \<le> (of_char c :: nat)) (ntg_transport grant)
      then (Inl ''transport grant name must contain 1-32 ASCII bytes'', db)
      else if \<not> is_publication_activation_token (ntg_activation_token grant)
      then (Inl ''transport grant activation token is invalid'', db)
      else if \<not> url_ok (ntg_public_url grant)
      then (Inl ''transport grant public URL is invalid'', db)
      else if \<not> url_ok (ntg_relay_control_url grant)
      then (Inl ''transport grant relay control URL is invalid'', db)
      else with_immediate_transaction (\<lambda>db.
        case and_then (get_publication_lifecycle db (ntg_service_id grant))
               (ok_or (''publication service '' @ ntg_service_id grant @ '' was not found'')) of
          Inl e \<Rightarrow> (Inl e, db)
        | Inr lifecycle \<Rightarrow>
            if plr_status lifecycle \<noteq> ''active'' \<or>
              plr_active_revision_hash lifecycle \<noteq> Some (ntg_revision_hash grant) \<or>
              plr_activation_token lifecycle \<noteq> ntg_activation_token grant
            then (Inl (''transport grant precondition mismatch for publication service '' @
              ntg_service_id grant), db)
            else
              (let db' = upsert_grant grant db
               in (case concat (map (\<lambda>g. map (\<lambda>r. (g, r))
                           (filter (revision_of_grant g) (pb_revisions db')))
                         (filter (\<lambda>g. tg_transport g = ntg_transport grant \<and>
                            tg_service_id g = ntg_service_id grant) (pb_grants db'))) of
                     [] \<Rightarrow> Inl ''Query returned no rows''
                   | row # _ \<Rightarrow> decode_publication_transport_grant_row row, db'))) db)"

definition remove_publication_transport_grant_exact ::
  "string \<Rightarrow> string \<Rightarrow> string \<Rightarrow> string \<Rightarrow> string \<Rightarrow> string \<Rightarrow> (pub_db, bool) db_op" where
  "remove_publication_transport_grant_exact transport service_id revision_hash activation_token
     public_url relay_control_url =
     with_immediate_transaction (\<lambda>db.
       case delete_where (\<lambda>g. tg_transport g = transport \<and> tg_service_id g = service_id \<and>
              tg_revision_hash g = revision_hash \<and> tg_activation_token g = activation_token \<and>
              tg_public_url g = public_url \<and> tg_relay_control_url g = relay_control_url)
              (pb_grants db) of
         (gs, removed) \<Rightarrow> (Inr (removed > 0), db\<lparr>pb_grants := gs\<rparr>))"

definition delete_publication_transport_grants_for_service :: "string \<Rightarrow> (pub_db, unit) db_op" where
  "delete_publication_transport_grants_for_service service_id db =
     (Inr (), db\<lparr>pb_grants := fst (delete_where (\<lambda>g. tg_service_id g = service_id) (pb_grants db))\<rparr>)"

definition reconcile_publication_transport_grants ::
  "(pub_db, publication_transport_grant_record list) db_op" where
  "reconcile_publication_transport_grants =
     with_immediate_transaction (\<lambda>db.
       let db' = db\<lparr>pb_grants := fst (delete_where
             (\<lambda>g. \<not> list_ex (authorizes g) (pb_lifecycles db)) (pb_grants db))\<rparr>
       in (list_publication_transport_grants db' ''relay'', db'))"

section \<open>The operation log\<close>

definition list_publication_operations ::
  "pub_text \<Rightarrow> pub_db \<Rightarrow> string \<Rightarrow> nat \<Rightarrow> publication_operation_record list result" where
  "list_publication_operations tx db service_id limit =
     collect (\<lambda>row.
         and_then (pt_json_from_str tx (po_evidence_json row)) (\<lambda>evidence.
         Inr \<lparr>por_operation_id = po_operation_id row, por_service_id = po_service_id row,
              por_revision_hash = po_revision_hash row, por_operation = po_operation row,
              por_status = po_status row, por_evidence = evidence,
              por_created_at = po_created_at row\<rparr>))
       (take (max 1 (min 100 limit)) (sort_desc po_operation_id
         (filter (\<lambda>row. po_service_id row = service_id) (pb_log db))))"

text \<open>
  \<open>INSERT OR IGNORE\<close>: a row that would break the unique index on published revisions is skipped;
  foreign keys are still enforced. Rows are never deleted, so the next \<open>AUTOINCREMENT\<close> id is one
  more than their number.
\<close>

definition insert_publication_operation ::
  "string \<Rightarrow> string option \<Rightarrow> string \<Rightarrow> string \<Rightarrow> i64 \<Rightarrow> (pub_db, unit) db_op" where
  "insert_publication_operation service_id revision_hash operation evidence_json now db =
     (if operation = ''publish'' \<and> revision_hash \<noteq> None \<and>
        list_ex (\<lambda>row. po_service_id row = service_id \<and> po_revision_hash row = revision_hash \<and>
          po_operation row = ''publish'') (pb_log db)
      then (Inr (), db)
      else if (case revision_hash of None \<Rightarrow> False | Some h \<Rightarrow>
        \<not> list_ex (\<lambda>r. rr_revision_hash r = h) (pb_revisions db))
      then (Inl ''FOREIGN KEY constraint failed'', db)
      else (Inr (), db\<lparr>pb_log := pb_log db @
        [\<lparr>po_operation_id = int (length (pb_log db)) + 1, po_service_id = service_id,
          po_revision_hash = revision_hash, po_operation = operation, po_status = ''succeeded'',
          po_evidence_json = evidence_json, po_created_at = now\<rparr>]\<rparr>))"

section \<open>Publishing a revision\<close>

text \<open>\<open>INSERT OR IGNORE\<close> on the primary key, then the stored row is compared with the request.\<close>

definition same_revision :: "revision_row \<Rightarrow> new_publication_revision \<Rightarrow> bool" where
  "same_revision r n \<longleftrightarrow> rr_service_id r = npr_service_id n \<and> rr_offer_id r = npr_offer_id n \<and>
     rr_offer_hash r = npr_offer_hash n \<and> rr_binding_hash r = npr_binding_hash n \<and>
     rr_signed_revision_json r = npr_signed_revision_json n \<and>
     rr_definition_json r = npr_definition_json n"

definition insert_publication_revision ::
  "new_publication_revision \<Rightarrow> i64 \<Rightarrow> (pub_db, unit) db_op" where
  "insert_publication_revision n now db =
     (let db' = (if list_ex (\<lambda>r. rr_revision_hash r = npr_revision_hash n) (pb_revisions db) then db
            else db\<lparr>pb_revisions := pb_revisions db @
              [\<lparr>rr_revision_hash = npr_revision_hash n, rr_service_id = npr_service_id n,
                rr_offer_id = npr_offer_id n, rr_offer_hash = npr_offer_hash n,
                rr_binding_hash = npr_binding_hash n, rr_validation_status = ''validated'',
                rr_signed_revision_json = npr_signed_revision_json n,
                rr_definition_json = npr_definition_json n, rr_created_at = now\<rparr>]\<rparr>)
      in (case query_row (\<lambda>r. rr_revision_hash r = npr_revision_hash n) (pb_revisions db') of
            None \<Rightarrow> Inl ''Query returned no rows''
          | Some stored \<Rightarrow>
              if \<not> same_revision stored n
              then Inl (''publication revision '' @ npr_revision_hash n @
                '' conflicts with an existing immutable record'')
              else Inr (), db'))"

text \<open>The join of the active lifecycles with their revisions, by service.\<close>

definition active_revisions :: "pub_db \<Rightarrow> (lifecycle_row \<times> revision_row) list" where
  "active_revisions db =
     concat (map (\<lambda>l. map (\<lambda>r. (l, r))
         (filter (\<lambda>r. lc_active_revision_hash l = Some (rr_revision_hash r)) (pb_revisions db)))
       (sort_key lc_service_id (filter (\<lambda>l. lc_status l = ''active'') (pb_lifecycles db))))"

definition ensure_active_shared_offer_hash ::
  "pub_db \<Rightarrow> string \<Rightarrow> string \<Rightarrow> string \<Rightarrow> unit result" where
  "ensure_active_shared_offer_hash db service_id oid offer_hash =
     (case query_row (\<lambda>(l, r). lc_service_id l \<noteq> service_id \<and> rr_offer_id r = oid \<and>
             rr_offer_hash r \<noteq> offer_hash) (active_revisions db) of
        None \<Rightarrow> Inr ()
      | Some (l, r) \<Rightarrow>
          Inl (''shared offer invariant violation: service '' @ service_id @
            '' cannot activate offer_id '' @ oid @ '' with offer_hash '' @ offer_hash @
            ''; active sibling '' @ lc_service_id l @ '' uses '' @ rr_offer_hash r))"

text \<open>
  The lifecycle row under its constraints: a known status, an active revision exactly when the
  status is active, a well-formed token, and revisions that exist.
\<close>

definition lifecycle_constraints :: "pub_db \<Rightarrow> lifecycle_row \<Rightarrow> unit result" where
  "lifecycle_constraints db l =
     (if lc_status l \<notin> {''active'', ''paused'', ''unpublished''} \<or>
        \<not> is_publication_activation_token (lc_activation_token l) \<or>
        (lc_status l = ''active'') \<noteq> (lc_active_revision_hash l \<noteq> None)
      then Inl ''CHECK constraint failed''
      else if \<not> list_ex (\<lambda>r. rr_revision_hash r = lc_selected_revision_hash l) (pb_revisions db) \<or>
        (case lc_active_revision_hash l of None \<Rightarrow> False | Some h \<Rightarrow>
          \<not> list_ex (\<lambda>r. rr_revision_hash r = h) (pb_revisions db))
      then Inl ''FOREIGN KEY constraint failed''
      else Inr ())"

definition upsert_lifecycle :: "lifecycle_row \<Rightarrow> (pub_db, unit) db_op" where
  "upsert_lifecycle l db =
     (case lifecycle_constraints db l of
        Inl e \<Rightarrow> (Inl e, db)
      | Inr _ \<Rightarrow>
          (Inr (),
           if list_ex (\<lambda>x. lc_service_id x = lc_service_id l) (pb_lifecycles db)
           then db\<lparr>pb_lifecycles := fst (update_where (\<lambda>x. lc_service_id x = lc_service_id l)
             (\<lambda>x. l\<lparr>lc_created_at := lc_created_at x\<rparr>) (pb_lifecycles db))\<rparr>
           else db\<lparr>pb_lifecycles := pb_lifecycles db @ [l]\<rparr>))"

definition preserves_exact_activation ::
  "publication_lifecycle_record option \<Rightarrow> string \<Rightarrow> string \<Rightarrow> bool" where
  "preserves_exact_activation current initial_status revision_hash \<longleftrightarrow>
     (case current of
        None \<Rightarrow> False
      | Some c \<Rightarrow> plr_status c = initial_status \<and> plr_selected_revision_hash c = revision_hash)"

definition activation_token_for ::
  "string \<Rightarrow> publication_lifecycle_record option \<Rightarrow> string \<Rightarrow> string \<Rightarrow> string" where
  "activation_token_for fresh current initial_status revision_hash =
     (case current of
        None \<Rightarrow> fresh
      | Some c \<Rightarrow>
          if preserves_exact_activation current initial_status revision_hash
          then plr_activation_token c else fresh)"

definition persist_and_activate_publication_revision_in_transaction ::
  "string \<Rightarrow> new_publication_revision \<Rightarrow> string \<Rightarrow> string \<Rightarrow> i64
    \<Rightarrow> (pub_db, publication_lifecycle_record) db_op" where
  "persist_and_activate_publication_revision_in_transaction fresh n initial_status evidence_json now =
     (if initial_status \<noteq> ''active'' \<and> initial_status \<noteq> ''paused''
      then db_lift (Inl (''initial publication status must be active or paused, got '' @ initial_status))
      else
        db_then (insert_publication_revision n now) (\<lambda>_.
        db_then (\<lambda>db. if initial_status = ''active''
          then db_lift (ensure_active_shared_offer_hash db (npr_service_id n) (npr_offer_id n)
            (npr_offer_hash n)) db
          else (Inr (), db)) (\<lambda>_.
        db_then (upsert_provider_managed_offer (npr_offer_id n) (npr_definition_json n) now) (\<lambda>_.
        db_then (\<lambda>db. db_lift (get_publication_lifecycle db (npr_service_id n)) db) (\<lambda>current.
        db_then (upsert_lifecycle \<lparr>lc_service_id = npr_service_id n, lc_status = initial_status,
          lc_active_revision_hash =
            (if initial_status = ''active'' then Some (npr_revision_hash n) else None),
          lc_selected_revision_hash = npr_revision_hash n,
          lc_activation_token =
            activation_token_for fresh current initial_status (npr_revision_hash n),
          lc_created_at = now, lc_updated_at = now\<rparr>) (\<lambda>_.
        db_then (if \<not> preserves_exact_activation current initial_status (npr_revision_hash n)
          then delete_publication_transport_grants_for_service (npr_service_id n)
          else db_lift (Inr ())) (\<lambda>_.
        db_then (insert_publication_operation (npr_service_id n) (Some (npr_revision_hash n))
          ''publish'' evidence_json now) (\<lambda>_.
        (\<lambda>db. db_lift (and_then (get_publication_lifecycle db (npr_service_id n))
          (ok_or ''publication lifecycle missing after activation'')) db)))))))))"

definition persist_and_activate_publication_revision ::
  "string \<Rightarrow> new_publication_revision \<Rightarrow> string \<Rightarrow> string \<Rightarrow> i64
    \<Rightarrow> (pub_db, publication_lifecycle_record) db_op" where
  "persist_and_activate_publication_revision fresh n initial_status evidence_json now =
     with_immediate_transaction
       (persist_and_activate_publication_revision_in_transaction fresh n initial_status evidence_json
         now)"

section \<open>Changing a lifecycle\<close>

datatype publication_lifecycle_mutation =
    Pause
  | PauseExact string string
  | Resume
  | Unpublish
  | Rollback string

fun mutation_operation :: "publication_lifecycle_mutation \<Rightarrow> string" where
  "mutation_operation Pause = ''pause''"
| "mutation_operation (PauseExact h t) = ''pause''"
| "mutation_operation Resume = ''resume''"
| "mutation_operation Unpublish = ''unpublish''"
| "mutation_operation (Rollback h) = ''rollback''"

definition paused_from ::
  "publication_lifecycle_record \<Rightarrow> string \<Rightarrow> (string \<times> string \<times> bool \<times> bool) result" where
  "paused_from current revision_hash =
     (if plr_status current = ''active'' then Inr (''paused'', revision_hash, True, False)
      else if plr_status current = ''paused'' then Inr (''paused'', revision_hash, False, False)
      else if plr_status current = ''unpublished''
      then Inl ''an unpublished service cannot be resumed or paused; publish a new revision or roll back explicitly''
      else Inl (''invalid stored publication status '' @ plr_status current))"

text \<open>The target status and revision, whether the row changes, and whether the token is rotated.\<close>

fun mutation_target ::
  "pub_text \<Rightarrow> string \<Rightarrow> publication_lifecycle_record \<Rightarrow> i64 \<Rightarrow> publication_lifecycle_mutation
    \<Rightarrow> (pub_db, string \<times> string \<times> bool \<times> bool) db_op" where
  "mutation_target tx service_id current now Pause db =
     (paused_from current (plr_selected_revision_hash current), db)"
| "mutation_target tx service_id current now (PauseExact revision_hash activation_token) db =
     (if plr_selected_revision_hash current \<noteq> revision_hash
      then Inl (''publication revision precondition mismatch: service '' @ service_id @
        '' currently selects '' @ plr_selected_revision_hash current @ '', not '' @ revision_hash)
      else if plr_activation_token current \<noteq> activation_token
      then Inl (''publication activation token precondition mismatch: service '' @ service_id @
        '' revision '' @ revision_hash @ '' no longer identifies the requested activation'')
      else paused_from current revision_hash, db)"
| "mutation_target tx service_id current now Resume db =
     (if plr_status current = ''paused''
      then Inr (''active'', plr_selected_revision_hash current, True, True)
      else if plr_status current = ''active''
      then Inr (''active'', plr_selected_revision_hash current, False, True)
      else if plr_status current = ''unpublished''
      then Inl ''an unpublished service cannot be resumed; publish a new revision or roll back explicitly''
      else Inl (''invalid stored publication status '' @ plr_status current), db)"
| "mutation_target tx service_id current now Unpublish db =
     (Inr (''unpublished'', plr_selected_revision_hash current,
           plr_status current \<noteq> ''unpublished'', False), db)"
| "mutation_target tx service_id current now (Rollback revision_hash) db =
     (case and_then (get_publication_revision tx db service_id revision_hash)
             (ok_or (''validated local publication revision '' @ revision_hash @
                '' was not found for service '' @ service_id)) of
        Inl e \<Rightarrow> (Inl e, db)
      | Inr revision \<Rightarrow>
          if prr_validation_status revision \<noteq> ''validated''
          then (Inl (''publication revision '' @ revision_hash @ '' is not validated''), db)
          else db_then (upsert_provider_managed_offer (prr_offer_id revision)
              (pt_json_to_string tx (prr_definition revision)) now) (\<lambda>_.
            db_lift (Inr (''active'', revision_hash,
              plr_status current \<noteq> ''active'' \<or> plr_selected_revision_hash current \<noteq> revision_hash,
              True))) db)"

definition check_activation ::
  "pub_text \<Rightarrow> string \<Rightarrow> string \<Rightarrow> string \<Rightarrow> pub_db \<Rightarrow> unit result" where
  "check_activation tx service_id target_status target_revision_hash db =
     (if target_status = ''active''
      then and_then (and_then (get_publication_revision tx db service_id target_revision_hash)
          (ok_or (''selected publication revision '' @ target_revision_hash @
             '' is missing for service '' @ service_id))) (\<lambda>target.
        ensure_active_shared_offer_hash db service_id (prr_offer_id target) (prr_offer_hash target))
      else Inr ())"

definition update_lifecycle ::
  "string \<Rightarrow> string \<Rightarrow> string \<Rightarrow> string \<Rightarrow> i64 \<Rightarrow> (pub_db, unit) db_op" where
  "update_lifecycle service_id target_status target_revision_hash activation_token now db =
     (let f = (\<lambda>l. l\<lparr>lc_status := target_status,
            lc_active_revision_hash :=
              (if target_status = ''active'' then Some target_revision_hash else None),
            lc_selected_revision_hash := target_revision_hash,
            lc_activation_token := activation_token, lc_updated_at := now\<rparr>)
      in (case query_row (\<lambda>l. lc_service_id l = service_id) (pb_lifecycles db) of
            None \<Rightarrow> (Inr (), db)
          | Some l \<Rightarrow>
              (case lifecycle_constraints db (f l) of
                 Inl e \<Rightarrow> (Inl e, db)
               | Inr _ \<Rightarrow> (Inr (), db\<lparr>pb_lifecycles :=
                   fst (update_where (\<lambda>l. lc_service_id l = service_id) f (pb_lifecycles db))\<rparr>))))"

definition mutate_publication_lifecycle ::
  "pub_text \<Rightarrow> string \<Rightarrow> string \<Rightarrow> publication_lifecycle_mutation \<Rightarrow> string \<Rightarrow> i64
    \<Rightarrow> (pub_db, publication_lifecycle_record) db_op" where
  "mutate_publication_lifecycle tx fresh service_id mutation evidence_json now =
     with_immediate_transaction (
       db_then (\<lambda>db. db_lift (and_then (get_publication_lifecycle db service_id)
         (ok_or (''publication service '' @ service_id @ '' was not found''))) db) (\<lambda>current.
       db_then (mutation_target tx service_id current now mutation)
         (\<lambda>(target_status, target_revision_hash, changed, rotate).
       db_then (\<lambda>db. db_lift (check_activation tx service_id target_status target_revision_hash db) db)
         (\<lambda>_.
       if \<not> changed then db_lift (Inr current)
       else
         db_then (update_lifecycle service_id target_status target_revision_hash
           (if rotate then fresh else plr_activation_token current) now) (\<lambda>_.
         db_then (delete_publication_transport_grants_for_service service_id) (\<lambda>_.
         db_then (insert_publication_operation service_id (Some target_revision_hash)
           (mutation_operation mutation) evidence_json now) (\<lambda>_.
         (\<lambda>db. db_lift (and_then (get_publication_lifecycle db service_id)
           (ok_or ''publication lifecycle missing after mutation'')) db))))))))"

section \<open>A changed provider identity\<close>

definition check_active_revision ::
  "crypto_env \<Rightarrow> pub_text \<Rightarrow> (string \<Rightarrow> string) \<Rightarrow> lifecycle_row \<times> revision_row
    \<Rightarrow> signed_publication_revision result" where
  "check_active_revision cs tx dbg p =
     (case p of (l, r) \<Rightarrow>
        and_then (map_err (\<lambda>e. ''active publication '' @ lc_service_id l @ '' revision '' @
            rr_revision_hash r @ '' is invalid: '' @ e)
          (pt_signed_revision_from_str tx (rr_signed_revision_json r))) (\<lambda>signed.
        and_then (map_err (\<lambda>e. ''active publication '' @ lc_service_id l @ '' revision '' @
            rr_revision_hash r @ '' failed signature verification: '' @ revision_error_display dbg e)
          (revision_verify cs signed)) (\<lambda>_.
        if spr_revision_hash signed \<noteq> rr_revision_hash r
        then Inl (''active publication '' @ lc_service_id l @ '' selects revision '' @
          rr_revision_hash r @ '', but its signed document names '' @ spr_revision_hash signed)
        else Inr signed)))"

fun identity_mismatches ::
  "crypto_env \<Rightarrow> pub_text \<Rightarrow> (string \<Rightarrow> string) \<Rightarrow> string
    \<Rightarrow> (lifecycle_row \<times> revision_row) list \<Rightarrow> (string \<times> string \<times> string) list result" where
  "identity_mismatches cs tx dbg current_provider_id [] = Inr []"
| "identity_mismatches cs tx dbg current_provider_id (p # ps) =
     and_then (check_active_revision cs tx dbg p) (\<lambda>signed.
     and_then (identity_mismatches cs tx dbg current_provider_id ps) (\<lambda>rest.
     Inr (if prv_provider_id (spr_payload signed) = current_provider_id then rest
          else (lc_service_id (fst p), rr_revision_hash (snd p), prv_provider_id (spr_payload signed))
            # rest)))"

definition pause_row :: "string \<Rightarrow> string \<Rightarrow> i64 \<Rightarrow> (pub_db, unit) db_op" where
  "pause_row service_id revision_hash now db =
     (case update_where (\<lambda>l. lc_service_id l = service_id \<and> lc_status l = ''active'' \<and>
             lc_active_revision_hash l = Some revision_hash)
             (\<lambda>l. l\<lparr>lc_status := ''paused'', lc_active_revision_hash := None, lc_updated_at := now\<rparr>)
             (pb_lifecycles db) of
        (ls, changed) \<Rightarrow>
          (if changed \<noteq> 1
           then Inl (''active publication '' @ service_id @ '' changed during identity reconciliation'')
           else Inr (), db\<lparr>pb_lifecycles := ls\<rparr>))"

definition identity_evidence :: "string \<Rightarrow> string \<Rightarrow> json" where
  "identity_evidence revision_provider_id current_provider_id = mk_obj
     [(''schema_version'', always (JStr ''froglet.publication-identity-reconciliation.v1'')),
      (''reason'', always (JStr ''provider_identity_changed'')),
      (''revision_provider_id'', always (JStr revision_provider_id)),
      (''current_provider_id'', always (JStr current_provider_id)),
      (''required_action'', always (JStr ''republish''))]"

fun pause_mismatches ::
  "pub_text \<Rightarrow> string \<Rightarrow> i64 \<Rightarrow> (string \<times> string \<times> string) list \<Rightarrow> (pub_db, string list) db_op" where
  "pause_mismatches tx current_provider_id now [] = db_lift (Inr [])"
| "pause_mismatches tx current_provider_id now ((service_id, revision_hash, revision_provider_id) # ms) =
     db_then (pause_row service_id revision_hash now) (\<lambda>_.
     db_then (delete_publication_transport_grants_for_service service_id) (\<lambda>_.
     db_then (insert_publication_operation service_id (Some revision_hash) ''pause''
       (pt_json_to_string tx (identity_evidence revision_provider_id current_provider_id)) now) (\<lambda>_.
     db_then (pause_mismatches tx current_provider_id now ms) (\<lambda>paused.
     db_lift (Inr (service_id # paused))))))"

definition pause_active_publications_for_provider_identity ::
  "crypto_env \<Rightarrow> pub_text \<Rightarrow> (string \<Rightarrow> string) \<Rightarrow> string \<Rightarrow> i64
    \<Rightarrow> (pub_db, string list) db_op" where
  "pause_active_publications_for_provider_identity cs tx dbg current_provider_id now =
     (if length current_provider_id \<noteq> 64 \<or> \<not> list_all is_lower_hex_char current_provider_id
      then db_lift (Inl ''current provider identity must be 64 lowercase hex characters'')
      else with_immediate_transaction (
        db_then (\<lambda>db. db_lift (identity_mismatches cs tx dbg current_provider_id
          (active_revisions db)) db) (\<lambda>mismatches.
        pause_mismatches tx current_provider_id now mismatches)))"

end
