(* ===== verification/Publication_Lifecycle.thy ===== *)
theory Publication_Lifecycle
  imports Publications "HOL-Library.Sublist"
begin

text \<open>
  What the publication tables keep under every operation of \<open>Publications\<close>: the invariant
  \<open>pub_inv\<close> (keys, lifecycles that select a revision of their own service, one offer hash per
  advertised offer, grants that match the current activation), the history that only grows, and
  the abstract life of a service that the operations refine. The locale \<open>publication_op\<close> is the
  contract of one operation; every operation of the store provides it.
\<close>

section \<open>The invariant\<close>

definition serves :: "lifecycle_row \<Rightarrow> revision_row \<Rightarrow> bool" where
  "serves l r \<longleftrightarrow> lc_status l = ''active'' \<and> lc_active_revision_hash l = Some (rr_revision_hash r)"

definition lifecycle_ok :: "revision_row list \<Rightarrow> lifecycle_row \<Rightarrow> bool" where
  "lifecycle_ok rs l \<longleftrightarrow>
     lc_status l \<in> {''active'', ''paused'', ''unpublished''} \<and>
     is_publication_activation_token (lc_activation_token l) \<and>
     lc_active_revision_hash l =
       (if lc_status l = ''active'' then Some (lc_selected_revision_hash l) else None) \<and>
     (\<exists>r\<in>set rs. rr_revision_hash r = lc_selected_revision_hash l \<and>
        rr_service_id r = lc_service_id l)"

definition one_hash_per_offer :: "revision_row list \<Rightarrow> lifecycle_row list \<Rightarrow> bool" where
  "one_hash_per_offer rs ls \<longleftrightarrow>
     (\<forall>l\<in>set ls. \<forall>l'\<in>set ls. \<forall>r\<in>set rs. \<forall>r'\<in>set rs.
        serves l r \<longrightarrow> serves l' r' \<longrightarrow> rr_offer_id r = rr_offer_id r' \<longrightarrow>
        rr_offer_hash r = rr_offer_hash r')"

definition grants_authorized :: "lifecycle_row list \<Rightarrow> transport_grant_row list \<Rightarrow> bool" where
  "grants_authorized ls gs \<longleftrightarrow> (\<forall>g\<in>set gs. \<exists>l\<in>set ls. authorizes g l)"

definition keys_distinct :: "pub_db \<Rightarrow> bool" where
  "keys_distinct db \<longleftrightarrow>
     distinct (map mo_offer_id (pb_offers db)) \<and>
     distinct (map rr_revision_hash (pb_revisions db)) \<and>
     distinct (map lc_service_id (pb_lifecycles db)) \<and>
     distinct (map (\<lambda>g. (tg_transport g, tg_service_id g)) (pb_grants db))"

definition revisions_validated :: "pub_db \<Rightarrow> bool" where
  "revisions_validated db \<longleftrightarrow> (\<forall>r\<in>set (pb_revisions db). rr_validation_status r = ''validated'')"

definition pub_inv :: "pub_db \<Rightarrow> bool" where
  "pub_inv db \<longleftrightarrow> keys_distinct db \<and> revisions_validated db \<and>
     (\<forall>l\<in>set (pb_lifecycles db). lifecycle_ok (pb_revisions db) l) \<and>
     one_hash_per_offer (pb_revisions db) (pb_lifecycles db) \<and>
     grants_authorized (pb_lifecycles db) (pb_grants db)"

text \<open>Revisions are immutable and the log is append-only.\<close>

definition history_grows :: "pub_db \<Rightarrow> pub_db \<Rightarrow> bool" where
  "history_grows db db' \<longleftrightarrow> prefix (pb_revisions db) (pb_revisions db') \<and> prefix (pb_log db) (pb_log db')"

lemma history_grows_refl [simp]: "history_grows db db"
  by (simp add: history_grows_def)

lemma history_grows_trans: "history_grows a b \<Longrightarrow> history_grows b c \<Longrightarrow> history_grows a c"
  by (auto simp: history_grows_def)

lemma pub_inv_empty: "pub_inv empty_pub_db"
  by (simp add: pub_inv_def empty_pub_db_def keys_distinct_def revisions_validated_def
      one_hash_per_offer_def grants_authorized_def)

section \<open>What the statements read and write\<close>

lemma set_active_revisions:
  "set (active_revisions db) =
     {(l, r). l \<in> set (pb_lifecycles db) \<and> r \<in> set (pb_revisions db) \<and> serves l r}"
  by (auto simp: active_revisions_def serves_def)

lemma ensure_Inr:
  "ensure_active_shared_offer_hash db s oid oh = Inr () \<longleftrightarrow>
     (\<forall>l\<in>set (pb_lifecycles db). \<forall>r\<in>set (pb_revisions db).
        serves l r \<longrightarrow> lc_service_id l \<noteq> s \<longrightarrow> rr_offer_id r = oid \<longrightarrow> rr_offer_hash r = oh)"
proof (cases "query_row (\<lambda>(l, r). lc_service_id l \<noteq> s \<and> rr_offer_id r = oid \<and> rr_offer_hash r \<noteq> oh)
    (active_revisions db)")
  case None
  then have "ensure_active_shared_offer_hash db s oid oh = Inr ()"
    by (simp add: ensure_active_shared_offer_hash_def)
  moreover from None have "lc_service_id l \<noteq> s \<longrightarrow> rr_offer_id r = oid \<longrightarrow> rr_offer_hash r = oh"
    if "(l, r) \<in> set (active_revisions db)" for l r
    using that by (auto simp: query_row_None)
  ultimately show ?thesis by (auto simp: set_active_revisions)
next
  case (Some p)
  obtain l r where p: "p = (l, r)" by (cases p)
  with query_row_Some [OF Some] have "l \<in> set (pb_lifecycles db)" "r \<in> set (pb_revisions db)"
    "serves l r" "lc_service_id l \<noteq> s" "rr_offer_id r = oid" "rr_offer_hash r \<noteq> oh"
    by (auto simp: set_active_revisions)
  then show ?thesis
    by (auto simp: ensure_active_shared_offer_hash_def Some p intro!: bexI [of _ l] bexI [of _ r])
qed

lemma lifecycle_constraints_Inr:
  "lifecycle_constraints db l = Inr () \<longleftrightarrow>
     lc_status l \<in> {''active'', ''paused'', ''unpublished''} \<and>
     is_publication_activation_token (lc_activation_token l) \<and>
     (lc_status l = ''active'' \<longleftrightarrow> lc_active_revision_hash l \<noteq> None) \<and>
     (\<exists>r\<in>set (pb_revisions db). rr_revision_hash r = lc_selected_revision_hash l) \<and>
     (\<forall>h. lc_active_revision_hash l = Some h \<longrightarrow>
        (\<exists>r\<in>set (pb_revisions db). rr_revision_hash r = h))"
  unfolding lifecycle_constraints_def list_ex_iff
  by (cases "lc_active_revision_hash l") auto

lemma get_lifecycle_Some:
  assumes "get_publication_lifecycle db s = Inr (Some c)"
  obtains l where "l \<in> set (pb_lifecycles db)" "lc_service_id l = s" "plr_service_id c = s"
    "plr_status c = lc_status l" "plr_active_revision_hash c = lc_active_revision_hash l"
    "plr_selected_revision_hash c = lc_selected_revision_hash l"
    "plr_activation_token c = lc_activation_token l"
    "query_row (\<lambda>l. lc_service_id l = s) (pb_lifecycles db) = Some l"
  using assms
  by (auto simp: get_publication_lifecycle_def decode_publication_lifecycle_row_def
      split: option.splits if_splits dest: query_row_Some)

lemma upsert_offer_effect:
  assumes "upsert_provider_managed_offer oid d now db = (res, db')"
  shows "res = Inr ()" and "pb_revisions db' = pb_revisions db"
    and "pb_lifecycles db' = pb_lifecycles db" and "pb_grants db' = pb_grants db"
    and "pb_log db' = pb_log db"
    and "distinct (map mo_offer_id (pb_offers db)) \<Longrightarrow> distinct (map mo_offer_id (pb_offers db'))"
  using assms
  by (auto simp: upsert_provider_managed_offer_def list_ex_iff distinct_map_update
      split: if_splits)

lemma insert_operation_effect:
  assumes "insert_publication_operation s h op ev now db = (Inr x, db')"
  shows "pb_revisions db' = pb_revisions db" and "pb_lifecycles db' = pb_lifecycles db"
    and "pb_grants db' = pb_grants db" and "pb_offers db' = pb_offers db"
    and "prefix (pb_log db) (pb_log db')"
  using assms by (auto simp: insert_publication_operation_def split: if_splits)

text \<open>The keys of a table after the row of one key was replaced.\<close>

lemma set_update_key:
  assumes "distinct (map k t)" and "x \<in> set t" and "k x = c"
  shows "set (fst (update_where (\<lambda>y. k y = c) f t)) = insert (f x) {y \<in> set t. k y \<noteq> c}"
proof -
  have "y = x" if "y \<in> set t" "k y = c" for y
    by (rule inj_onD [of k "set t"]) (use that assms in \<open>simp_all add: distinct_map\<close>)
  then have "{y \<in> set t. k y = c} = {x}" using assms(2,3) by blast
  moreover have "set (fst (update_where (\<lambda>y. k y = c) f t)) =
      f ` {y \<in> set t. k y = c} \<union> {y \<in> set t. k y \<noteq> c}"
    by (auto simp: update_where_def)
  ultimately show ?thesis by simp
qed

lemma revision_key_unique:
  assumes "pub_inv db" and "r \<in> set (pb_revisions db)" and "q \<in> set (pb_revisions db)"
    and "rr_revision_hash r = rr_revision_hash q"
  shows "r = q"
proof -
  from assms(1) have "inj_on rr_revision_hash (set (pb_revisions db))"
    by (simp add: pub_inv_def keys_distinct_def distinct_map)
  from inj_onD [OF this assms(4,2,3)] show ?thesis .
qed

lemma lifecycle_key_unique:
  assumes "pub_inv db" and "l \<in> set (pb_lifecycles db)" and "k \<in> set (pb_lifecycles db)"
    and "lc_service_id l = lc_service_id k"
  shows "l = k"
proof -
  from assms(1) have "inj_on lc_service_id (set (pb_lifecycles db))"
    by (simp add: pub_inv_def keys_distinct_def distinct_map)
  from inj_onD [OF this assms(4,2,3)] show ?thesis .
qed

section \<open>Primitive changes of the store\<close>

text \<open>A new revision is not referred to by any lifecycle.\<close>

lemma inv_add_revision:
  assumes inv: "pub_inv db" and new: "\<forall>x\<in>set (pb_revisions db). rr_revision_hash x \<noteq> rr_revision_hash r"
    and "rr_validation_status r = ''validated''"
  shows "pub_inv (db\<lparr>pb_revisions := pb_revisions db @ [r]\<rparr>)"
proof -
  have not_served: "\<not> serves l r" if "l \<in> set (pb_lifecycles db)" for l
    using inv new that by (auto simp: pub_inv_def lifecycle_ok_def serves_def split: if_splits)
  have "one_hash_per_offer (pb_revisions db @ [r]) (pb_lifecycles db)"
    unfolding one_hash_per_offer_def
  proof (intro ballI impI)
    fix l l' q q'
    assume "l \<in> set (pb_lifecycles db)" "l' \<in> set (pb_lifecycles db)"
      and "q \<in> set (pb_revisions db @ [r])" "q' \<in> set (pb_revisions db @ [r])"
      and s: "serves l q" "serves l' q'" "rr_offer_id q = rr_offer_id q'"
    then have "q \<in> set (pb_revisions db)" "q' \<in> set (pb_revisions db)"
      using not_served by auto
    with inv s \<open>l \<in> _\<close> \<open>l' \<in> _\<close> show "rr_offer_hash q = rr_offer_hash q'"
      unfolding pub_inv_def one_hash_per_offer_def by blast
  qed
  moreover have "\<forall>l\<in>set (pb_lifecycles db). lifecycle_ok (pb_revisions db @ [r]) l"
    using inv by (auto simp: pub_inv_def lifecycle_ok_def)
  ultimately show ?thesis
    using inv new assms(3)
    by (auto simp: pub_inv_def keys_distinct_def revisions_validated_def)
qed

text \<open>
  The lifecycle of one service is replaced (or added), and only those of its grants are kept that
  match the new row.
\<close>

lemma inv_set_lifecycle:
  assumes inv: "pub_inv db" and revs: "pb_revisions db' = pb_revisions db"
    and offers: "distinct (map mo_offer_id (pb_offers db'))"
    and ls: "set (pb_lifecycles db') = insert l {x \<in> set (pb_lifecycles db). lc_service_id x \<noteq> lc_service_id l}"
    and keys: "distinct (map lc_service_id (pb_lifecycles db'))"
    and gkeys: "distinct (map (\<lambda>g. (tg_transport g, tg_service_id g)) (pb_grants db'))"
    and gs: "set (pb_grants db') \<subseteq> set (pb_grants db)"
    and auth: "\<forall>g\<in>set (pb_grants db'). tg_service_id g = lc_service_id l \<longrightarrow> authorizes g l"
    and ok: "lifecycle_ok (pb_revisions db) l"
    and one: "\<And>r. r \<in> set (pb_revisions db) \<Longrightarrow> serves l r \<Longrightarrow>
      ensure_active_shared_offer_hash db (lc_service_id l) (rr_offer_id r) (rr_offer_hash r) = Inr ()"
  shows "pub_inv db'"
proof -
  have rev_of: "r = q" if "r \<in> set (pb_revisions db)" "q \<in> set (pb_revisions db)"
      "serves l r" "serves l q" for r q
    by (rule revision_key_unique [OF inv that(1,2)]) (use that in \<open>simp add: serves_def\<close>)
  have "one_hash_per_offer (pb_revisions db') (pb_lifecycles db')"
    unfolding one_hash_per_offer_def revs
  proof (intro ballI impI)
    fix a b q q'
    assume ab: "a \<in> set (pb_lifecycles db')" "b \<in> set (pb_lifecycles db')"
      and qq: "q \<in> set (pb_revisions db)" "q' \<in> set (pb_revisions db)"
      and s: "serves a q" "serves b q'" "rr_offer_id q = rr_offer_id q'"
    have old: "rr_offer_hash x = rr_offer_hash y"
      if "x \<in> set (pb_revisions db)" "serves l x" "y \<in> set (pb_revisions db)" "serves c y"
        "c \<in> set (pb_lifecycles db')" "c \<noteq> l" "rr_offer_id x = rr_offer_id y" for x y c
    proof -
      from that(5,6) ls have "c \<in> set (pb_lifecycles db)" "lc_service_id c \<noteq> lc_service_id l" by auto
      with one [OF that(1,2)] that(3,4,7) show ?thesis unfolding ensure_Inr by metis
    qed
    consider "a = l" "b = l" | "a = l" "b \<noteq> l" | "a \<noteq> l" "b = l" | "a \<noteq> l" "b \<noteq> l" by blast
    then show "rr_offer_hash q = rr_offer_hash q'"
    proof cases
      case 1
      with s qq rev_of show ?thesis by blast
    next
      case 2
      with old [of q q' b] ab qq s show ?thesis by simp
    next
      case 3
      with old [of q' q a] ab qq s show ?thesis by simp
    next
      case 4
      with ab ls have "a \<in> set (pb_lifecycles db)" "b \<in> set (pb_lifecycles db)" by auto
      with inv qq s show ?thesis unfolding pub_inv_def one_hash_per_offer_def by blast
    qed
  qed
  moreover have "grants_authorized (pb_lifecycles db') (pb_grants db')"
    unfolding grants_authorized_def
  proof
    fix g assume g: "g \<in> set (pb_grants db')"
    with gs inv obtain x where x: "x \<in> set (pb_lifecycles db)" "authorizes g x"
      unfolding pub_inv_def grants_authorized_def by blast
    show "\<exists>x\<in>set (pb_lifecycles db'). authorizes g x"
    proof (cases "tg_service_id g = lc_service_id l")
      case True
      with auth g ls show ?thesis by blast
    next
      case False
      with x ls show ?thesis by (auto simp: authorizes_def)
    qed
  qed
  moreover have "\<forall>x\<in>set (pb_lifecycles db'). lifecycle_ok (pb_revisions db') x"
    using inv ok by (auto simp: ls revs pub_inv_def)
  ultimately show ?thesis
    using inv offers keys gkeys revs
    by (simp add: pub_inv_def keys_distinct_def revisions_validated_def)
qed

section \<open>The life of a service\<close>

text \<open>
  The abstract state of a service and what each mutation means for it; \<open>life\<close> reads it off the
  table.
\<close>

datatype service_life = Absent | Advertised string | Withheld string | Withdrawn string

definition life_of :: "lifecycle_row \<Rightarrow> service_life" where
  "life_of l =
     (if lc_status l = ''active'' then Advertised (lc_selected_revision_hash l)
      else if lc_status l = ''paused'' then Withheld (lc_selected_revision_hash l)
      else Withdrawn (lc_selected_revision_hash l))"

definition life :: "pub_db \<Rightarrow> string \<Rightarrow> service_life" where
  "life db s =
     (case query_row (\<lambda>l. lc_service_id l = s) (pb_lifecycles db) of
        None \<Rightarrow> Absent
      | Some l \<Rightarrow> life_of l)"

fun selected :: "service_life \<Rightarrow> string option" where
  "selected Absent = None"
| "selected (Advertised h) = Some h"
| "selected (Withheld h) = Some h"
| "selected (Withdrawn h) = Some h"

fun life_step :: "publication_lifecycle_mutation \<Rightarrow> service_life \<Rightarrow> service_life option" where
  "life_step Pause x =
     (case x of Advertised h \<Rightarrow> Some (Withheld h) | Withheld h \<Rightarrow> Some (Withheld h) | _ \<Rightarrow> None)"
| "life_step (PauseExact h' t) x =
     (if selected x = Some h'
      then (case x of Advertised h \<Rightarrow> Some (Withheld h) | Withheld h \<Rightarrow> Some (Withheld h) | _ \<Rightarrow> None)
      else None)"
| "life_step Resume x =
     (case x of Advertised h \<Rightarrow> Some (Advertised h) | Withheld h \<Rightarrow> Some (Advertised h) | _ \<Rightarrow> None)"
| "life_step Unpublish x = map_option Withdrawn (selected x)"
| "life_step (Rollback h') x = map_option (\<lambda>_. Advertised h') (selected x)"

lemma life_row:
  assumes "pub_inv db" and "l \<in> set (pb_lifecycles db)" and "lc_service_id l = s"
  shows "query_row (\<lambda>l. lc_service_id l = s) (pb_lifecycles db) = Some l" and "life db s = life_of l"
proof -
  show "query_row (\<lambda>l. lc_service_id l = s) (pb_lifecycles db) = Some l"
    using assms query_row_key [of lc_service_id "pb_lifecycles db" l]
    by (simp add: pub_inv_def keys_distinct_def)
  then show "life db s = life_of l" by (simp add: life_def)
qed

lemma life_set_lifecycle:
  assumes "pub_inv db" and "pub_inv db'"
    and ls: "set (pb_lifecycles db') = insert l {x \<in> set (pb_lifecycles db). lc_service_id x \<noteq> lc_service_id l}"
  shows "life db' = (life db)(lc_service_id l := life_of l)"
proof
  fix s
  show "life db' s = ((life db)(lc_service_id l := life_of l)) s"
  proof (cases "s = lc_service_id l")
    case True
    have "l \<in> set (pb_lifecycles db')" using ls by blast
    from life_row(2) [OF assms(2) this] True show ?thesis by simp
  next
    case False
    show ?thesis
    proof (cases "query_row (\<lambda>l. lc_service_id l = s) (pb_lifecycles db)")
      case None
      with False ls have "query_row (\<lambda>l. lc_service_id l = s) (pb_lifecycles db') = None"
        by (auto simp: query_row_None)
      with None False show ?thesis by (simp add: life_def)
    next
      case (Some k)
      with query_row_Some [OF Some] False ls have "k \<in> set (pb_lifecycles db')" "lc_service_id k = s"
        by auto
      from life_row(2) [OF assms(2) this] Some False show ?thesis by (simp add: life_def)
    qed
  qed
qed

section \<open>Publishing\<close>

lemma insert_revision_effect:
  assumes "insert_publication_revision n now db = (Inr x, db')" and inv: "pub_inv db"
  shows "pub_inv db'" and "pb_lifecycles db' = pb_lifecycles db" and "pb_grants db' = pb_grants db"
    and "pb_log db' = pb_log db" and "prefix (pb_revisions db) (pb_revisions db')"
    and "\<exists>r\<in>set (pb_revisions db'). rr_revision_hash r = npr_revision_hash n \<and> same_revision r n"
proof -
  from assms(1) show "pb_lifecycles db' = pb_lifecycles db" "pb_grants db' = pb_grants db"
    "pb_log db' = pb_log db" "prefix (pb_revisions db) (pb_revisions db')"
    by (auto simp: insert_publication_revision_def Let_def split: if_splits)
  from assms(1) show
    "\<exists>r\<in>set (pb_revisions db'). rr_revision_hash r = npr_revision_hash n \<and> same_revision r n"
    by (auto simp: insert_publication_revision_def Let_def split: option.splits if_splits
        dest: query_row_Some)
  show "pub_inv db'"
  proof (cases "list_ex (\<lambda>r. rr_revision_hash r = npr_revision_hash n) (pb_revisions db)")
    case True
    with assms show ?thesis by (simp add: insert_publication_revision_def)
  next
    case False
    with assms(1) inv_add_revision [OF inv] show ?thesis
      by (auto simp: insert_publication_revision_def Let_def list_ex_iff)
  qed
qed

text \<open>The row a lifecycle statement writes is the only row of its service.\<close>

lemma upsert_lifecycle_effect:
  assumes "upsert_lifecycle l db = (Inr x, db')" and keys: "distinct (map lc_service_id (pb_lifecycles db))"
  obtains t where "set (pb_lifecycles db') =
      insert (l\<lparr>lc_created_at := t\<rparr>) {y \<in> set (pb_lifecycles db). lc_service_id y \<noteq> lc_service_id l}"
    and "distinct (map lc_service_id (pb_lifecycles db'))"
    and "lifecycle_constraints db l = Inr ()"
    and "pb_revisions db' = pb_revisions db" and "pb_offers db' = pb_offers db"
    and "pb_grants db' = pb_grants db" and "pb_log db' = pb_log db"
proof (cases "list_ex (\<lambda>x. lc_service_id x = lc_service_id l) (pb_lifecycles db)")
  case True
  then obtain y where y: "y \<in> set (pb_lifecycles db)" "lc_service_id y = lc_service_id l"
    by (auto simp: list_ex_iff)
  from True assms(1) have "db' = db\<lparr>pb_lifecycles := fst (update_where
      (\<lambda>x. lc_service_id x = lc_service_id l) (\<lambda>x. l\<lparr>lc_created_at := lc_created_at x\<rparr>)
      (pb_lifecycles db))\<rparr>" and "lifecycle_constraints db l = Inr ()"
    by (auto simp: upsert_lifecycle_def split: sum.splits)
  then show ?thesis
    using that [of "lc_created_at y"] set_update_key [OF keys y, of "\<lambda>x. l\<lparr>lc_created_at := lc_created_at x\<rparr>"]
      keys
    by (simp add: update_where_def o_def if_distrib cong: if_cong)
next
  case False
  then have "{y \<in> set (pb_lifecycles db). lc_service_id y \<noteq> lc_service_id l} = set (pb_lifecycles db)"
    by (auto simp: list_ex_iff)
  moreover from False have "lc_service_id l \<notin> lc_service_id ` set (pb_lifecycles db)"
    by (auto simp: list_ex_iff)
  moreover from False assms(1) have "db' = db\<lparr>pb_lifecycles := pb_lifecycles db @ [l]\<rparr>"
    and "lifecycle_constraints db l = Inr ()"
    by (auto simp: upsert_lifecycle_def split: sum.splits)
  ultimately show ?thesis using keys that [of "lc_created_at l"] by simp
qed

abbreviation published_row ::
  "string \<Rightarrow> new_publication_revision \<Rightarrow> string \<Rightarrow> i64 \<Rightarrow> publication_lifecycle_record option \<Rightarrow> lifecycle_row"
where
  "published_row fresh n st now cur \<equiv>
     \<lparr>lc_service_id = npr_service_id n, lc_status = st,
      lc_active_revision_hash = (if st = ''active'' then Some (npr_revision_hash n) else None),
      lc_selected_revision_hash = npr_revision_hash n,
      lc_activation_token = activation_token_for fresh cur st (npr_revision_hash n),
      lc_created_at = now, lc_updated_at = now\<rparr>"

lemma publish_cases:
  assumes "persist_and_activate_publication_revision_in_transaction fresh n st ev now db = (Inr c, db')"
  obtains db1 db2 cur db3 db4 where "st = ''active'' \<or> st = ''paused''"
    and "insert_publication_revision n now db = (Inr (), db1)"
    and "st = ''active'' \<Longrightarrow> ensure_active_shared_offer_hash db1 (npr_service_id n) (npr_offer_id n)
      (npr_offer_hash n) = Inr ()"
    and "upsert_provider_managed_offer (npr_offer_id n) (npr_definition_json n) now db1 = (Inr (), db2)"
    and "get_publication_lifecycle db2 (npr_service_id n) = Inr cur"
    and "upsert_lifecycle (published_row fresh n st now cur) db2 = (Inr (), db3)"
    and "db4 = (if preserves_exact_activation cur st (npr_revision_hash n) then db3
      else snd (delete_publication_transport_grants_for_service (npr_service_id n) db3))"
    and "insert_publication_operation (npr_service_id n) (Some (npr_revision_hash n)) ''publish'' ev now
      db4 = (Inr (), db')"
    and "get_publication_lifecycle db' (npr_service_id n) = Inr (Some c)"
proof -
  from assms have st: "st = ''active'' \<or> st = ''paused''"
    by (auto simp: persist_and_activate_publication_revision_in_transaction_def split: if_splits)
  from assms st obtain db1 db2 cur db3 db4 where *:
    "insert_publication_revision n now db = (Inr (), db1)"
    "(if st = ''active'' then db_lift (ensure_active_shared_offer_hash db1 (npr_service_id n)
       (npr_offer_id n) (npr_offer_hash n)) db1 else (Inr (), db1)) = (Inr (), db1)"
    "upsert_provider_managed_offer (npr_offer_id n) (npr_definition_json n) now db1 = (Inr (), db2)"
    "get_publication_lifecycle db2 (npr_service_id n) = Inr cur"
    "upsert_lifecycle (published_row fresh n st now cur) db2 = (Inr (), db3)"
    "(if \<not> preserves_exact_activation cur st (npr_revision_hash n)
      then delete_publication_transport_grants_for_service (npr_service_id n)
      else db_lift (Inr ())) db3 = (Inr (), db4)"
    "insert_publication_operation (npr_service_id n) (Some (npr_revision_hash n)) ''publish'' ev now
      db4 = (Inr (), db')"
    "get_publication_lifecycle db' (npr_service_id n) = Inr (Some c)"
    by (fastforce simp: persist_and_activate_publication_revision_in_transaction_def db_then_Inr
        result_simps split: if_splits)
  show ?thesis
    by (rule that [OF st *(1) _ *(3-5) _ *(7,8)]) (use * in \<open>auto split: if_splits\<close>)
qed

lemma inv_change_offers:
  assumes "pub_inv db" and "distinct (map mo_offer_id (pb_offers db'))"
    and "pb_revisions db' = pb_revisions db" and "pb_lifecycles db' = pb_lifecycles db"
    and "pb_grants db' = pb_grants db"
  shows "pub_inv db'"
  using assms by (simp add: pub_inv_def keys_distinct_def revisions_validated_def)

lemma inv_upsert_offer:
  assumes "pub_inv db" and "upsert_provider_managed_offer oid d now db = (res, db')"
  shows "pub_inv db'"
  using inv_change_offers [OF assms(1)] upsert_offer_effect [OF assms(2)] assms(1)
  by (simp add: pub_inv_def keys_distinct_def)

lemma delete_grants_effect:
  "pb_revisions (snd (delete_publication_transport_grants_for_service s db)) = pb_revisions db"
  "pb_lifecycles (snd (delete_publication_transport_grants_for_service s db)) = pb_lifecycles db"
  "pb_offers (snd (delete_publication_transport_grants_for_service s db)) = pb_offers db"
  "pb_log (snd (delete_publication_transport_grants_for_service s db)) = pb_log db"
  "pb_grants (snd (delete_publication_transport_grants_for_service s db)) =
     filter (\<lambda>g. tg_service_id g \<noteq> s) (pb_grants db)"
  "fst (delete_publication_transport_grants_for_service s db) = Inr ()"
  by (simp_all add: delete_publication_transport_grants_for_service_def delete_where_def)

text \<open>Republishing the current activation keeps the token, so its grants still match.\<close>

lemma kept_grants_authorized:
  assumes inv: "pub_inv db" and cur: "get_publication_lifecycle db s = Inr cur"
    and keep: "preserves_exact_activation cur st h"
    and g: "g \<in> set (pb_grants db)" "tg_service_id g = s"
    and l: "lc_service_id l = s" "lc_status l = st" "lc_activation_token l = activation_token_for fresh cur st h"
      "lc_active_revision_hash l = (if st = ''active'' then Some h else None)"
  shows "authorizes g l"
proof -
  from keep obtain c where c: "cur = Some c" "plr_status c = st" "plr_selected_revision_hash c = h"
    by (auto simp: preserves_exact_activation_def split: option.splits)
  with cur obtain k where k: "k \<in> set (pb_lifecycles db)" "lc_service_id k = s" "lc_status k = st"
    "lc_selected_revision_hash k = h" "plr_activation_token c = lc_activation_token k"
    by (auto elim: get_lifecycle_Some)
  from inv g obtain k' where k': "k' \<in> set (pb_lifecycles db)" "authorizes g k'"
    by (auto simp: pub_inv_def grants_authorized_def)
  with k g have "k' = k" by (intro lifecycle_key_unique [OF inv]) (auto simp: authorizes_def)
  moreover have "lifecycle_ok (pb_revisions db) k" using inv k by (simp add: pub_inv_def)
  ultimately show ?thesis
    using k k' l keep c g
    by (auto simp: authorizes_def lifecycle_ok_def activation_token_for_def)
qed

lemma publish_effect:
  assumes pub: "persist_and_activate_publication_revision_in_transaction fresh n st ev now db = (Inr c, db')"
    and inv: "pub_inv db"
  shows "pub_inv db'" and "history_grows db db'"
    and "life db' = (life db)(npr_service_id n :=
      (if st = ''active'' then Advertised (npr_revision_hash n) else Withheld (npr_revision_hash n)))"
proof -
  obtain db1 db2 cur db3 db4 where st: "st = ''active'' \<or> st = ''paused''"
    and 1: "insert_publication_revision n now db = (Inr (), db1)"
    and ens: "st = ''active'' \<Longrightarrow> ensure_active_shared_offer_hash db1 (npr_service_id n)
      (npr_offer_id n) (npr_offer_hash n) = Inr ()"
    and 2: "upsert_provider_managed_offer (npr_offer_id n) (npr_definition_json n) now db1 = (Inr (), db2)"
    and cur: "get_publication_lifecycle db2 (npr_service_id n) = Inr cur"
    and 3: "upsert_lifecycle (published_row fresh n st now cur) db2 = (Inr (), db3)"
    and 4: "db4 = (if preserves_exact_activation cur st (npr_revision_hash n) then db3
      else snd (delete_publication_transport_grants_for_service (npr_service_id n) db3))"
    and 5: "insert_publication_operation (npr_service_id n) (Some (npr_revision_hash n)) ''publish'' ev
      now db4 = (Inr (), db')"
    using publish_cases [OF pub] by metis
  note e1 = insert_revision_effect [OF 1 inv] and e2 = upsert_offer_effect [OF 2]
    and e5 = insert_operation_effect [OF 5]
  have inv2: "pub_inv db2" by (rule inv_upsert_offer [OF e1(1) 2])
  then have keys: "distinct (map lc_service_id (pb_lifecycles db2))"
    by (simp add: pub_inv_def keys_distinct_def)
  obtain t where e3: "set (pb_lifecycles db3) =
      insert ((published_row fresh n st now cur)\<lparr>lc_created_at := t\<rparr>)
        {y \<in> set (pb_lifecycles db2). lc_service_id y \<noteq> npr_service_id n}"
    "distinct (map lc_service_id (pb_lifecycles db3))"
    "lifecycle_constraints db2 (published_row fresh n st now cur) = Inr ()"
    "pb_revisions db3 = pb_revisions db2" "pb_offers db3 = pb_offers db2"
    "pb_grants db3 = pb_grants db2" "pb_log db3 = pb_log db2"
    by (rule upsert_lifecycle_effect [OF 3 keys]) auto
  have e4: "pb_revisions db4 = pb_revisions db2" "pb_lifecycles db4 = pb_lifecycles db3"
    "pb_offers db4 = pb_offers db2" "pb_log db4 = pb_log db2"
    "pb_grants db4 = (if preserves_exact_activation cur st (npr_revision_hash n) then pb_grants db2
       else filter (\<lambda>g. tg_service_id g \<noteq> npr_service_id n) (pb_grants db2))"
    using e3 by (simp_all add: 4 delete_grants_effect)
  show "history_grows db db'"
    using e1 e2 e4 e5 by (simp add: history_grows_def)
  from e1(6) e2(2) obtain r where r: "r \<in> set (pb_revisions db2)"
    "rr_revision_hash r = npr_revision_hash n" "same_revision r n" by auto
  show inv': "pub_inv db'"
  proof (rule inv_set_lifecycle [OF inv2, of db' "(published_row fresh n st now cur)\<lparr>lc_created_at := t\<rparr>"])
    show "lifecycle_ok (pb_revisions db2) ((published_row fresh n st now cur)\<lparr>lc_created_at := t\<rparr>)"
      using e3(3) r by (auto simp: lifecycle_ok_def lifecycle_constraints_Inr same_revision_def)
    fix q assume "q \<in> set (pb_revisions db2)"
      "serves ((published_row fresh n st now cur)\<lparr>lc_created_at := t\<rparr>) q"
    then have "q = r" "st = ''active''"
      using revision_key_unique [OF inv2 _ r(1)] r(2) by (auto simp: serves_def split: if_splits)
    with ens r(3) e2 show "ensure_active_shared_offer_hash db2
        (lc_service_id ((published_row fresh n st now cur)\<lparr>lc_created_at := t\<rparr>))
        (rr_offer_id q) (rr_offer_hash q) = Inr ()"
      by (simp add: ensure_Inr same_revision_def)
  next
    show "\<forall>g\<in>set (pb_grants db'). tg_service_id g =
        lc_service_id ((published_row fresh n st now cur)\<lparr>lc_created_at := t\<rparr>) \<longrightarrow>
        authorizes g ((published_row fresh n st now cur)\<lparr>lc_created_at := t\<rparr>)"
      using kept_grants_authorized [OF inv2 cur] e4(5) e5(3) by (auto split: if_splits)
  qed (use e3 e4 e5 inv2 in \<open>auto simp: pub_inv_def keys_distinct_def distinct_map_filter\<close>)
  have "life db2 = life db" using e1(2) e2(3) by (simp add: life_def fun_eq_iff)
  with life_set_lifecycle [OF inv2 inv', of "(published_row fresh n st now cur)\<lparr>lc_created_at := t\<rparr>"]
    e3(1) e4(2) e5(2) st
  show "life db' = (life db)(npr_service_id n :=
      (if st = ''active'' then Advertised (npr_revision_hash n) else Withheld (npr_revision_hash n)))"
    by (auto simp: life_of_def)
qed

section \<open>Mutations\<close>

lemma get_lifecycle_unique:
  assumes "pub_inv db" and "get_publication_lifecycle db s = Inr (Some c)"
  obtains l where "l \<in> set (pb_lifecycles db)" "lc_service_id l = s" "lifecycle_ok (pb_revisions db) l"
    "plr_status c = lc_status l" "plr_active_revision_hash c = lc_active_revision_hash l"
    "plr_selected_revision_hash c = lc_selected_revision_hash l"
    "plr_activation_token c = lc_activation_token l" "life db s = life_of l"
  by (rule get_lifecycle_Some [OF assms(2)])
     (use assms(1) that life_row(2) in \<open>auto simp: pub_inv_def\<close>)

lemma get_revision_Some:
  assumes "get_publication_revision tx db s h = Inr (Some r)"
  obtains q where "q \<in> set (pb_revisions db)" "rr_service_id q = s" "rr_revision_hash q = h"
    "prr_offer_id r = rr_offer_id q" "prr_offer_hash r = rr_offer_hash q"
  using assms
  by (auto simp: get_publication_revision_def decode_publication_revision_row_def result_simps
      split: option.splits dest!: query_row_Some)

text \<open>What a mutation asks for: the abstract step, and no table but the managed offers touched.\<close>

lemma mutation_target_effect:
  assumes inv: "pub_inv db" and cur: "get_publication_lifecycle db s = Inr (Some c)"
    and t: "mutation_target tx s c now m db = (Inr (ts, th, ch, rot), db1)"
  shows "pub_inv db1" and "pb_revisions db1 = pb_revisions db" and "pb_lifecycles db1 = pb_lifecycles db"
    and "pb_grants db1 = pb_grants db" and "pb_log db1 = pb_log db"
    and "ts \<in> {''active'', ''paused'', ''unpublished''}"
    and "\<exists>q\<in>set (pb_revisions db). rr_revision_hash q = th \<and> rr_service_id q = s"
    and "life_step m (life db s) = Some (if ts = ''active'' then Advertised th
      else if ts = ''paused'' then Withheld th else Withdrawn th)"
    and "\<not> ch \<Longrightarrow> plr_status c = ts \<and> plr_selected_revision_hash c = th"
proof -
  obtain l where l: "l \<in> set (pb_lifecycles db)" "lc_service_id l = s" "lifecycle_ok (pb_revisions db) l"
    "plr_status c = lc_status l" "plr_selected_revision_hash c = lc_selected_revision_hash l"
    "life db s = life_of l"
    using get_lifecycle_unique [OF inv cur] by metis
  let ?concl = "pub_inv db1 \<and> pb_revisions db1 = pb_revisions db \<and> pb_lifecycles db1 = pb_lifecycles db \<and>
    pb_grants db1 = pb_grants db \<and> pb_log db1 = pb_log db \<and>
    ts \<in> {''active'', ''paused'', ''unpublished''} \<and>
    (\<exists>q\<in>set (pb_revisions db). rr_revision_hash q = th \<and> rr_service_id q = s) \<and>
    life_step m (life db s) = Some (if ts = ''active'' then Advertised th
      else if ts = ''paused'' then Withheld th else Withdrawn th) \<and>
    (\<not> ch \<longrightarrow> plr_status c = ts \<and> plr_selected_revision_hash c = th)"
  have sel: "\<exists>q\<in>set (pb_revisions db). rr_revision_hash q = lc_selected_revision_hash l \<and> rr_service_id q = s"
    using l by (auto simp: lifecycle_ok_def)
  have ?concl
  proof (cases m)
    case (Rollback h)
    with t obtain r where r: "get_publication_revision tx db s h = Inr (Some r)"
      and up: "upsert_provider_managed_offer (prr_offer_id r) (pt_json_to_string tx (prr_definition r)) now db
        = (Inr (), db1)"
      and eqs: "ts = ''active''" "th = h" "ch = (plr_status c \<noteq> ''active'' \<or> plr_selected_revision_hash c \<noteq> h)"
      by (auto simp: db_then_Inr result_simps split: sum.splits if_splits)
    obtain q where "q \<in> set (pb_revisions db)" "rr_service_id q = s" "rr_revision_hash q = h"
      by (rule get_revision_Some [OF r])
    with inv_upsert_offer [OF inv up] upsert_offer_effect [OF up] eqs l Rollback show ?thesis
      by (auto simp: life_of_def)
  qed (use t l sel inv in \<open>auto simp: paused_from_def life_of_def split: if_splits\<close>)
  then show "pub_inv db1" "pb_revisions db1 = pb_revisions db" "pb_lifecycles db1 = pb_lifecycles db"
    "pb_grants db1 = pb_grants db" "pb_log db1 = pb_log db"
    "ts \<in> {''active'', ''paused'', ''unpublished''}"
    "\<exists>q\<in>set (pb_revisions db). rr_revision_hash q = th \<and> rr_service_id q = s"
    "life_step m (life db s) = Some (if ts = ''active'' then Advertised th
      else if ts = ''paused'' then Withheld th else Withdrawn th)"
    "\<not> ch \<Longrightarrow> plr_status c = ts \<and> plr_selected_revision_hash c = th"
    by blast+
qed

lemma update_lifecycle_effect:
  assumes "update_lifecycle s ts th tok now db = (Inr x, db')" and inv: "pub_inv db"
    and l: "l \<in> set (pb_lifecycles db)" "lc_service_id l = s"
  defines "l' \<equiv> l\<lparr>lc_status := ts,
    lc_active_revision_hash := (if ts = ''active'' then Some th else None),
    lc_selected_revision_hash := th, lc_activation_token := tok, lc_updated_at := now\<rparr>"
  shows "set (pb_lifecycles db') = insert l' {y \<in> set (pb_lifecycles db). lc_service_id y \<noteq> s}"
    and "distinct (map lc_service_id (pb_lifecycles db'))" and "lifecycle_constraints db l' = Inr ()"
    and "pb_revisions db' = pb_revisions db" and "pb_offers db' = pb_offers db"
    and "pb_grants db' = pb_grants db" and "pb_log db' = pb_log db"
proof -
  let ?f = "\<lambda>l. l\<lparr>lc_status := ts,
    lc_active_revision_hash := (if ts = ''active'' then Some th else None),
    lc_selected_revision_hash := th, lc_activation_token := tok, lc_updated_at := now\<rparr>"
  from assms(1) life_row(1) [OF inv l] have
    db': "db' = db\<lparr>pb_lifecycles := fst (update_where (\<lambda>l. lc_service_id l = s) ?f (pb_lifecycles db))\<rparr>"
    and c: "lifecycle_constraints db l' = Inr ()"
    by (auto simp: update_lifecycle_def Let_def l'_def split: sum.splits)
  have keys: "distinct (map lc_service_id (pb_lifecycles db))"
    using inv by (simp add: pub_inv_def keys_distinct_def)
  show "set (pb_lifecycles db') = insert l' {y \<in> set (pb_lifecycles db). lc_service_id y \<noteq> s}"
    using set_update_key [OF keys l, of ?f] by (simp add: db' l'_def)
  show "distinct (map lc_service_id (pb_lifecycles db'))"
    using keys by (simp add: db' distinct_map_update)
  show "lifecycle_constraints db l' = Inr ()" by (rule c)
  show "pb_revisions db' = pb_revisions db" "pb_offers db' = pb_offers db"
    "pb_grants db' = pb_grants db" "pb_log db' = pb_log db" by (simp_all add: db')
qed

lemma mutate_cases:
  assumes "mutate_publication_lifecycle tx fresh s m ev now db = (Inr r, db')"
  obtains c ts th ch rot db1 where "get_publication_lifecycle db s = Inr (Some c)"
    and "mutation_target tx s c now m db = (Inr (ts, th, ch, rot), db1)"
    and "check_activation tx s ts th db1 = Inr ()"
    and "\<not> ch \<Longrightarrow> r = c \<and> db' = db1"
    and "ch \<Longrightarrow> \<exists>db2. update_lifecycle s ts th (if rot then fresh else plr_activation_token c) now db1
        = (Inr (), db2) \<and>
      insert_publication_operation s (Some th) (mutation_operation m) ev now
        (snd (delete_publication_transport_grants_for_service s db2)) = (Inr (), db') \<and>
      get_publication_lifecycle db' s = Inr (Some r)"
proof -
  from assms obtain c ts th ch rot db1 where *: "get_publication_lifecycle db s = Inr (Some c)"
    "mutation_target tx s c now m db = (Inr (ts, th, ch, rot), db1)"
    "check_activation tx s ts th db1 = Inr ()"
    and rest: "(if \<not> ch then db_lift (Inr c)
      else db_then (update_lifecycle s ts th (if rot then fresh else plr_activation_token c) now) (\<lambda>_.
         db_then (delete_publication_transport_grants_for_service s) (\<lambda>_.
         db_then (insert_publication_operation s (Some th) (mutation_operation m) ev now) (\<lambda>_.
         (\<lambda>db. db_lift (and_then (get_publication_lifecycle db s)
           (ok_or ''publication lifecycle missing after mutation'')) db))))) db1 = (Inr r, db')"
    by (force simp: mutate_publication_lifecycle_def with_immediate_transaction_Inr db_then_Inr
        result_simps)
  show ?thesis
  proof (rule that [OF *])
    assume "\<not> ch"
    with rest show "r = c \<and> db' = db1" by simp
  next
    assume ch
    with rest show "\<exists>db2. update_lifecycle s ts th (if rot then fresh else plr_activation_token c) now db1
        = (Inr (), db2) \<and>
      insert_publication_operation s (Some th) (mutation_operation m) ev now
        (snd (delete_publication_transport_grants_for_service s db2)) = (Inr (), db') \<and>
      get_publication_lifecycle db' s = Inr (Some r)"
      by (fastforce simp: db_then_Inr result_simps delete_publication_transport_grants_for_service_def)
  qed
qed

lemma check_activation_serves:
  assumes "pub_inv db" and "check_activation tx s ''active'' th db = Inr ()"
    and "q \<in> set (pb_revisions db)" and "rr_revision_hash q = th"
  shows "ensure_active_shared_offer_hash db s (rr_offer_id q) (rr_offer_hash q) = Inr ()"
proof -
  from assms(2) obtain r where r: "get_publication_revision tx db s th = Inr (Some r)"
    and e: "ensure_active_shared_offer_hash db s (prr_offer_id r) (prr_offer_hash r) = Inr ()"
    by (auto simp: check_activation_def result_simps)
  obtain q' where "q' \<in> set (pb_revisions db)" "rr_revision_hash q' = th"
    and o: "prr_offer_id r = rr_offer_id q'" "prr_offer_hash r = rr_offer_hash q'"
    by (rule get_revision_Some [OF r])
  with revision_key_unique [OF assms(1) _ assms(3)] assms(4) have "q' = q" by simp
  with e o show ?thesis by simp
qed

lemma mutate_effect:
  assumes mut: "mutate_publication_lifecycle tx fresh s m ev now db = (Inr r, db')"
    and inv: "pub_inv db"
  shows "pub_inv db'" and "history_grows db db'"
    and "\<exists>x. life_step m (life db s) = Some x \<and> life db' = (life db)(s := x)"
proof -
  obtain c ts th ch rot db1 where cur: "get_publication_lifecycle db s = Inr (Some c)"
    and t: "mutation_target tx s c now m db = (Inr (ts, th, ch, rot), db1)"
    and act: "check_activation tx s ts th db1 = Inr ()"
    and same: "\<not> ch \<Longrightarrow> db' = db1"
    and chg: "ch \<Longrightarrow> \<exists>db2. update_lifecycle s ts th (if rot then fresh else plr_activation_token c) now db1
        = (Inr (), db2) \<and>
      insert_publication_operation s (Some th) (mutation_operation m) ev now
        (snd (delete_publication_transport_grants_for_service s db2)) = (Inr (), db')"
    using mutate_cases [OF mut] by metis
  note e1 = mutation_target_effect [OF inv cur t]
  obtain l where l: "l \<in> set (pb_lifecycles db1)" "lc_service_id l = s" "plr_status c = lc_status l"
    "plr_selected_revision_hash c = lc_selected_revision_hash l" "life db s = life_of l"
    using get_lifecycle_unique [OF inv cur] e1(3) by metis
  have life1: "life db1 = life db" using e1(3) by (simp add: life_def fun_eq_iff)
  let ?x = "if ts = ''active'' then Advertised th else if ts = ''paused'' then Withheld th else Withdrawn th"
  have "pub_inv db' \<and> history_grows db db' \<and> life db' = (life db)(s := ?x)"
  proof (cases ch)
    case False
    then have "life db s = ?x" using e1(9) l by (auto simp: life_of_def)
    with False same e1 life1 show ?thesis by (auto simp: history_grows_def)
  next
    case True
    then obtain db2 where u: "update_lifecycle s ts th (if rot then fresh else plr_activation_token c) now db1
        = (Inr (), db2)"
      and ins: "insert_publication_operation s (Some th) (mutation_operation m) ev now
        (snd (delete_publication_transport_grants_for_service s db2)) = (Inr (), db')"
      using chg by blast
    note eu = update_lifecycle_effect [OF u e1(1) l(1,2)]
      and ei = insert_operation_effect [OF ins, unfolded delete_grants_effect]
    let ?l = "l\<lparr>lc_status := ts, lc_active_revision_hash := (if ts = ''active'' then Some th else None),
      lc_selected_revision_hash := th,
      lc_activation_token := (if rot then fresh else plr_activation_token c), lc_updated_at := now\<rparr>"
    have inv': "pub_inv db'"
    proof (rule inv_set_lifecycle [OF e1(1), of db' ?l])
      show "lifecycle_ok (pb_revisions db1) ?l"
        using eu(3) e1(2,7) l(2) by (auto simp: lifecycle_ok_def lifecycle_constraints_Inr)
      fix q assume "q \<in> set (pb_revisions db1)" "serves ?l q"
      with act check_activation_serves [OF e1(1)] l(2)
      show "ensure_active_shared_offer_hash db1 (lc_service_id ?l) (rr_offer_id q) (rr_offer_hash q) = Inr ()"
        by (auto simp: serves_def)
    qed (use eu ei l e1(1) in \<open>auto simp: pub_inv_def keys_distinct_def distinct_map_filter\<close>)
    moreover have "history_grows db db'" using eu ei e1 by (simp add: history_grows_def)
    moreover have "life db' = (life db1)(lc_service_id ?l := life_of ?l)"
      by (rule life_set_lifecycle [OF e1(1) inv']) (use eu ei l in simp)
    ultimately show ?thesis using l(2) life1 by (simp add: life_of_def)
  qed
  with e1(8) show "pub_inv db'" "history_grows db db'"
    "\<exists>x. life_step m (life db s) = Some x \<and> life db' = (life db)(s := x)" by auto
qed

end
