(* ===== verification/Publication_Steps.thy ===== *)
theory Publication_Steps
  imports Publication_Lifecycle
begin

text \<open>
  The remaining operations of the publication store (transport grants, the reconciliation after a
  change of the provider's identity), the contract \<open>publication_op\<close> that every operation provides,
  and the operations as one step relation with its reachable states.
\<close>

section \<open>Grants\<close>

lemma grants_subset_inv:
  assumes "pub_inv db" and "pb_offers db' = pb_offers db" and "pb_revisions db' = pb_revisions db"
    and "pb_lifecycles db' = pb_lifecycles db" and "set (pb_grants db') \<subseteq> set (pb_grants db)"
    and "distinct (map (\<lambda>g. (tg_transport g, tg_service_id g)) (pb_grants db'))"
  shows "pub_inv db'"
  using assms
  by (auto simp: pub_inv_def keys_distinct_def revisions_validated_def grants_authorized_def)

lemma upsert_grant_inv:
  assumes inv: "pub_inv db" and l: "l \<in> set (pb_lifecycles db)" "lc_service_id l = ntg_service_id grant"
    "lc_status l = ''active''" "lc_active_revision_hash l = Some (ntg_revision_hash grant)"
    "lc_activation_token l = ntg_activation_token grant"
  shows "pub_inv (upsert_grant grant db)" and "history_grows db (upsert_grant grant db)"
proof -
  let ?db = "upsert_grant grant db"
  have frame: "pb_offers ?db = pb_offers db" "pb_revisions ?db = pb_revisions db"
    "pb_lifecycles ?db = pb_lifecycles db" "pb_log ?db = pb_log db"
    by (simp_all add: upsert_grant_def Let_def)
  then show "history_grows db ?db" by (simp add: history_grows_def)
  have "\<exists>l\<in>set (pb_lifecycles db). authorizes g l" if "g \<in> set (pb_grants ?db)" for g
  proof (cases "g \<in> set (pb_grants db)")
    case True
    with inv show ?thesis by (simp add: pub_inv_def grants_authorized_def)
  next
    case False
    with that l have "authorizes g l"
      by (auto simp: upsert_grant_def Let_def update_where_def authorizes_def split: if_splits)
    with l(1) show ?thesis by blast
  qed
  moreover have "distinct (map (\<lambda>g. (tg_transport g, tg_service_id g)) (pb_grants ?db))"
    using inv
    by (auto simp: upsert_grant_def Let_def distinct_map_update list_ex_iff pub_inv_def keys_distinct_def)
  ultimately show "pub_inv ?db"
    using inv by (simp add: pub_inv_def keys_distinct_def revisions_validated_def frame
        grants_authorized_def)
qed

lemma persist_grant_effect:
  assumes "persist_publication_transport_grant grant db = (Inr x, db')" and inv: "pub_inv db"
  shows "pub_inv db'" and "history_grows db db'" and "life db' = life db"
proof -
  from assms(1) obtain c where c: "get_publication_lifecycle db (ntg_service_id grant) = Inr (Some c)"
    "plr_status c = ''active''" "plr_active_revision_hash c = Some (ntg_revision_hash grant)"
    "plr_activation_token c = ntg_activation_token grant" and db': "db' = upsert_grant grant db"
    unfolding persist_publication_transport_grant_def
    by (simp add: with_immediate_transaction_Inr Let_def result_simps split: if_splits sum.splits)
  obtain l where l: "l \<in> set (pb_lifecycles db)" "lc_service_id l = ntg_service_id grant"
    "plr_status c = lc_status l" "plr_active_revision_hash c = lc_active_revision_hash l"
    "plr_activation_token c = lc_activation_token l"
    using get_lifecycle_unique [OF inv c(1)] by metis
  show "pub_inv db'" "history_grows db db'"
    using upsert_grant_inv [OF inv l(1,2)] l c db' by simp_all
  show "life db' = life db"
    by (simp add: db' upsert_grant_def Let_def life_def fun_eq_iff)
qed

text \<open>In a state that satisfies the invariant, reconciliation has nothing to remove.\<close>

lemma reconcile_removes_nothing:
  assumes "pub_inv db"
  shows "snd (reconcile_publication_transport_grants db) = db"
    and "reconcile_publication_transport_grants db = (list_publication_transport_grants db ''relay'', db)"
proof -
  have "fst (delete_where (\<lambda>g. \<not> list_ex (authorizes g) (pb_lifecycles db)) (pb_grants db)) = pb_grants db"
    using assms by (auto simp: delete_where_def list_ex_iff pub_inv_def grants_authorized_def
        filter_id_conv)
  then have "db\<lparr>pb_grants := fst (delete_where (\<lambda>g. \<not> list_ex (authorizes g) (pb_lifecycles db))
      (pb_grants db))\<rparr> = db" by simp
  then show "reconcile_publication_transport_grants db =
      (list_publication_transport_grants db ''relay'', db)"
    by (simp add: reconcile_publication_transport_grants_def with_immediate_transaction_def Let_def
        split: sum.split)
  then show "snd (reconcile_publication_transport_grants db) = db" by simp
qed

lemma remove_grant_effect:
  assumes "pub_inv db"
  shows "pub_inv (snd (remove_publication_transport_grant_exact t s h tok u v db))"
    and "history_grows db (snd (remove_publication_transport_grant_exact t s h tok u v db))"
proof -
  let ?db = "snd (remove_publication_transport_grant_exact t s h tok u v db)"
  have f: "pb_offers ?db = pb_offers db" "pb_revisions ?db = pb_revisions db"
    "pb_lifecycles ?db = pb_lifecycles db" "pb_log ?db = pb_log db"
    "\<exists>P. pb_grants ?db = filter P (pb_grants db)"
    by (auto simp: remove_publication_transport_grant_exact_def with_immediate_transaction_def
        delete_where_def)
  then show "history_grows db ?db" by (simp add: history_grows_def)
  from f obtain P where "pb_grants ?db = filter P (pb_grants db)" by blast
  with grants_subset_inv [OF assms f(1-3)] assms show "pub_inv ?db"
    by (auto simp: pub_inv_def keys_distinct_def distinct_map_filter)
qed

section \<open>A changed identity\<close>

lemma pause_row_effect:
  assumes "pause_row s h now db = (Inr x, db')" and inv: "pub_inv db"
  obtains l where "l \<in> set (pb_lifecycles db)" "lc_service_id l = s" "lc_status l = ''active''"
    "lc_active_revision_hash l = Some h"
    "set (pb_lifecycles db') = insert (l\<lparr>lc_status := ''paused'', lc_active_revision_hash := None,
       lc_updated_at := now\<rparr>) {y \<in> set (pb_lifecycles db). lc_service_id y \<noteq> s}"
    "distinct (map lc_service_id (pb_lifecycles db'))" "pb_revisions db' = pb_revisions db"
    "pb_offers db' = pb_offers db" "pb_grants db' = pb_grants db" "pb_log db' = pb_log db"
proof -
  let ?P = "\<lambda>l. lc_service_id l = s \<and> lc_status l = ''active'' \<and> lc_active_revision_hash l = Some h"
  let ?f = "\<lambda>l. l\<lparr>lc_status := ''paused'', lc_active_revision_hash := None, lc_updated_at := now\<rparr>"
  from assms(1) have n: "length (filter ?P (pb_lifecycles db)) = 1"
    and db': "db' = db\<lparr>pb_lifecycles := fst (update_where ?P ?f (pb_lifecycles db))\<rparr>"
    by (auto simp: pause_row_def update_where_def split: if_splits)
  from n have "filter ?P (pb_lifecycles db) \<noteq> []" by (metis length_0_conv zero_neq_one)
  then obtain l where "l \<in> set (filter ?P (pb_lifecycles db))" by (meson list.set_sel(1))
  then have l: "l \<in> set (pb_lifecycles db)" "?P l" by simp_all
  have keys: "distinct (map lc_service_id (pb_lifecycles db))"
    using inv by (simp add: pub_inv_def keys_distinct_def)
  have "?P y \<longleftrightarrow> lc_service_id y = s" if "y \<in> set (pb_lifecycles db)" for y
  proof
    assume "lc_service_id y = s"
    with l(2) have "y = l" by (intro lifecycle_key_unique [OF inv that l(1)]) simp
    with l(2) show "?P y" by simp
  qed simp
  then have "update_where ?P ?f (pb_lifecycles db) =
      update_where (\<lambda>y. lc_service_id y = s) ?f (pb_lifecycles db)"
    by (auto simp: update_where_def intro!: arg_cong [of _ _ length] filter_cong)
  with set_update_key [OF keys l(1), of s ?f] l(2) db' keys that [of l] show ?thesis
    by (simp add: l(1) distinct_map_update)
qed

text \<open>One service paused: its row, its grants, and the log entry.\<close>

lemma pause_one_effect:
  assumes p: "pause_row s h now db = (Inr x, db1)" and inv: "pub_inv db"
    and i: "insert_publication_operation s (Some h) ''pause'' ev now
      (snd (delete_publication_transport_grants_for_service s db1)) = (Inr y, db2)"
  shows "pub_inv db2" and "history_grows db db2" and "pb_revisions db2 = pb_revisions db"
    and "life db s = Advertised h" and "life db2 = (life db)(s := Withheld h)"
proof -
  obtain l where l: "l \<in> set (pb_lifecycles db)" "lc_service_id l = s" "lc_status l = ''active''"
    "lc_active_revision_hash l = Some h"
    and e: "set (pb_lifecycles db1) = insert (l\<lparr>lc_status := ''paused'', lc_active_revision_hash := None,
       lc_updated_at := now\<rparr>) {y \<in> set (pb_lifecycles db). lc_service_id y \<noteq> s}"
    "distinct (map lc_service_id (pb_lifecycles db1))" "pb_revisions db1 = pb_revisions db"
    "pb_offers db1 = pb_offers db" "pb_grants db1 = pb_grants db" "pb_log db1 = pb_log db"
    by (rule pause_row_effect [OF p inv])
  note ei = insert_operation_effect [OF i, unfolded delete_grants_effect]
  let ?l = "l\<lparr>lc_status := ''paused'', lc_active_revision_hash := None, lc_updated_at := now\<rparr>"
  have ok: "lifecycle_ok (pb_revisions db) l" using inv l by (simp add: pub_inv_def)
  with l have sel: "lc_selected_revision_hash l = h" by (simp add: lifecycle_ok_def)
  show "life db s = Advertised h" using life_row(2) [OF inv l(1,2)] l sel by (simp add: life_of_def)
  show "pb_revisions db2 = pb_revisions db" "history_grows db db2"
    using e ei by (simp_all add: history_grows_def)
  show inv2: "pub_inv db2"
    by (rule inv_set_lifecycle [OF inv, of db2 ?l])
       (use ok e ei l inv in \<open>auto simp: lifecycle_ok_def serves_def pub_inv_def keys_distinct_def
          distinct_map_filter\<close>)
  have "life db2 = (life db)(lc_service_id ?l := life_of ?l)"
    by (rule life_set_lifecycle [OF inv inv2]) (use e ei l in simp)
  then show "life db2 = (life db)(s := Withheld h)" using l sel by (simp add: life_of_def)
qed

lemma pause_mismatches_effect:
  assumes "pause_mismatches tx pid now ms db = (Inr paused, db')" and "pub_inv db"
  shows "pub_inv db' \<and> history_grows db db' \<and> pb_revisions db' = pb_revisions db \<and>
    paused = map fst ms \<and>
    (\<forall>s. life db' s = (if s \<in> set paused then (case life db s of Advertised h \<Rightarrow> Withheld h | x \<Rightarrow> x)
       else life db s))"
  using assms
proof (induction tx pid now ms arbitrary: db paused rule: pause_mismatches.induct)
  case (1 tx pid now)
  then show ?case by simp
next
  case (2 tx pid now s h rp ms)
  then obtain db1 db2 rest where p: "pause_row s h now db = (Inr (), db1)"
    and i: "insert_publication_operation s (Some h) ''pause''
      (pt_json_to_string tx (identity_evidence rp pid)) now
      (snd (delete_publication_transport_grants_for_service s db1)) = (Inr (), db2)"
    and r: "pause_mismatches tx pid now ms db2 = (Inr rest, db')" and paused: "paused = s # rest"
    by (auto simp: db_then_Inr delete_publication_transport_grants_for_service_def)
  note e = pause_one_effect [OF p 2(3) i]
  from 2(1) [OF r e(1)] e show ?case
    by (auto simp: paused intro: history_grows_trans)
qed

text \<open>Every advertised revision was checked, and belongs to the current identity or is a mismatch.\<close>

lemma identity_mismatches_Inr:
  assumes "identity_mismatches cs tx dbg pid ps = Inr ms" and "(l, r) \<in> set ps"
  shows "\<exists>sr. check_active_revision cs tx dbg (l, r) = Inr sr \<and>
    (prv_provider_id (spr_payload sr) = pid \<or> lc_service_id l \<in> fst ` set ms)"
  using assms
proof (induction ps arbitrary: ms)
  case (Cons p ps)
  then obtain sr rest where c: "check_active_revision cs tx dbg p = Inr sr"
    and rest: "identity_mismatches cs tx dbg pid ps = Inr rest"
    and ms: "ms = (if prv_provider_id (spr_payload sr) = pid then rest
      else (lc_service_id (fst p), rr_revision_hash (snd p), prv_provider_id (spr_payload sr)) # rest)"
    by (auto simp: result_simps)
  have sub: "fst ` set rest \<subseteq> fst ` set ms" by (auto simp: ms)
  show ?case
  proof (cases "p = (l, r)")
    case True
    with c ms show ?thesis by auto
  next
    case False
    with Cons.prems(2) have "(l, r) \<in> set ps" by simp
    from Cons.IH [OF rest this] sub show ?thesis by blast
  qed
qed simp

lemma check_active_revision_Inr:
  "check_active_revision cs tx dbg (l, r) = Inr sr \<longleftrightarrow>
     pt_signed_revision_from_str tx (rr_signed_revision_json r) = Inr sr \<and>
     revision_verify cs sr = Inr () \<and> spr_revision_hash sr = rr_revision_hash r"
  by (auto simp: check_active_revision_def result_simps split: if_splits)

lemma advertised_row:
  assumes "pub_inv db" and "life db s = Advertised h"
  obtains l r where "l \<in> set (pb_lifecycles db)" "lc_service_id l = s" "r \<in> set (pb_revisions db)"
    "rr_revision_hash r = h" "rr_service_id r = s" "serves l r"
proof -
  from assms(2) obtain l where q: "query_row (\<lambda>l. lc_service_id l = s) (pb_lifecycles db) = Some l"
    and a: "lc_status l = ''active''" "lc_selected_revision_hash l = h"
    by (auto simp: life_def life_of_def split: option.splits if_splits)
  from query_row_Some [OF q] have l: "l \<in> set (pb_lifecycles db)" "lc_service_id l = s" by auto
  with assms(1) have "lifecycle_ok (pb_revisions db) l" by (simp add: pub_inv_def)
  with a l that show ?thesis by (auto simp: lifecycle_ok_def serves_def)
qed

lemma identity_pause_effect:
  assumes run: "pause_active_publications_for_provider_identity cs tx dbg pid now db = (Inr paused, db')"
    and inv: "pub_inv db"
  shows "pub_inv db'" and "history_grows db db'"
    and "life db' s = (if s \<in> set paused then (case life db s of Advertised h \<Rightarrow> Withheld h | x \<Rightarrow> x)
      else life db s)"
    and "life db' s = Advertised h \<Longrightarrow> \<exists>r\<in>set (pb_revisions db'). rr_revision_hash r = h \<and>
      rr_service_id r = s \<and> (\<exists>sr.
        pt_signed_revision_from_str tx (rr_signed_revision_json r) = Inr sr \<and>
        revision_verify cs sr = Inr () \<and> spr_revision_hash sr = h \<and>
        prv_provider_id (spr_payload sr) = pid)"
proof -
  from run obtain ms where ms: "identity_mismatches cs tx dbg pid (active_revisions db) = Inr ms"
    and p: "pause_mismatches tx pid now ms db = (Inr paused, db')"
    by (auto simp: pause_active_publications_for_provider_identity_def with_immediate_transaction_Inr
        db_then_Inr split: if_splits)
  note e = pause_mismatches_effect [OF p inv]
  from e show "pub_inv db'" "history_grows db db'" by auto
  from e show l: "life db' s = (if s \<in> set paused
      then (case life db s of Advertised h \<Rightarrow> Withheld h | x \<Rightarrow> x) else life db s)" for s by blast
  assume adv: "life db' s = Advertised h"
  with l [of s] have s: "s \<notin> set paused" "life db s = Advertised h"
    by (auto split: if_splits service_life.splits)
  obtain k r where k: "k \<in> set (pb_lifecycles db)" "lc_service_id k = s" "r \<in> set (pb_revisions db)"
    "rr_revision_hash r = h" "rr_service_id r = s" "serves k r"
    by (rule advertised_row [OF inv s(2)])
  from identity_mismatches_Inr [OF ms, of k r] k s e obtain sr where
    "check_active_revision cs tx dbg (k, r) = Inr sr" "prv_provider_id (spr_payload sr) = pid"
    by (auto simp: set_active_revisions)
  with k e show "\<exists>r\<in>set (pb_revisions db'). rr_revision_hash r = h \<and>
      rr_service_id r = s \<and> (\<exists>sr.
        pt_signed_revision_from_str tx (rr_signed_revision_json r) = Inr sr \<and>
        revision_verify cs sr = Inr () \<and> spr_revision_hash sr = h \<and>
        prv_provider_id (spr_payload sr) = pid)"
    by (auto simp: check_active_revision_Inr intro!: bexI [of _ r])
qed

section \<open>The contract of a store operation\<close>

locale publication_op =
  fixes op :: "pub_db \<Rightarrow> 'a result \<times> pub_db"
  assumes keeps_inv: "pub_inv db \<Longrightarrow> pub_inv (snd (op db))"
    and keeps_history: "pub_inv db \<Longrightarrow> history_grows db (snd (op db))"
begin

lemma keeps_revision:
  "pub_inv db \<Longrightarrow> r \<in> set (pb_revisions db) \<Longrightarrow> r \<in> set (pb_revisions (snd (op db)))"
  using keeps_history [of db] by (auto simp: history_grows_def dest: set_mono_prefix)

text \<open>A revision hash never comes to name another record.\<close>

lemma revision_immutable:
  assumes "pub_inv db" and "r \<in> set (pb_revisions db)" and "q \<in> set (pb_revisions (snd (op db)))"
    and "rr_revision_hash q = rr_revision_hash r"
  shows "q = r"
  using revision_key_unique [OF keeps_inv [OF assms(1)] assms(3) keeps_revision [OF assms(1,2)]] assms(4)
  by simp

end

lemma transaction_keeps:
  assumes "pub_inv db" and "\<And>x db'. op db = (Inr x, db') \<Longrightarrow> pub_inv db' \<and> history_grows db db'"
  shows "pub_inv (snd (with_immediate_transaction op db))"
    and "history_grows db (snd (with_immediate_transaction op db))"
  using assms
  by (cases "op db"; auto simp: with_immediate_transaction_def split: sum.split)+

lemma result_keeps:
  assumes "pub_inv db" and "\<And>x db'. op db = (Inr x, db') \<Longrightarrow> pub_inv db' \<and> history_grows db db'"
    and "\<And>e db'. op db = (Inl e, db') \<Longrightarrow> db' = db"
  shows "pub_inv (snd (op db))" and "history_grows db (snd (op db))"
  using assms by (cases "op db"; cases "fst (op db)"; auto)+

lemma with_transaction_Inl: "with_immediate_transaction op db = (Inl e, db') \<Longrightarrow> db' = db"
  by (auto simp: with_immediate_transaction_def split: prod.splits sum.splits)

lemma failed_operations_change_nothing:
  "mutate_publication_lifecycle tx fresh s m ev now db = (Inl e, db') \<Longrightarrow> db' = db"
  "pause_active_publications_for_provider_identity cs tx dbg pid now db = (Inl e, db') \<Longrightarrow> db' = db"
  "persist_publication_transport_grant grant db = (Inl e, db') \<Longrightarrow> db' = db"
  unfolding mutate_publication_lifecycle_def pause_active_publications_for_provider_identity_def
    persist_publication_transport_grant_def
  by (auto simp: db_lift_def dest: with_transaction_Inl split: if_splits)

interpretation publish_op: publication_op "persist_and_activate_publication_revision fresh n st ev now"
  by unfold_locales
    (auto simp: persist_and_activate_publication_revision_def intro!: transaction_keeps dest: publish_effect)

interpretation mutate_op: publication_op "mutate_publication_lifecycle tx fresh s m ev now"
  by unfold_locales
    (rule result_keeps; auto dest: mutate_effect failed_operations_change_nothing)+

interpretation identity_op: publication_op
  "pause_active_publications_for_provider_identity cs tx dbg pid now"
  by unfold_locales
    (rule result_keeps; auto dest: identity_pause_effect failed_operations_change_nothing)+

interpretation grant_op: publication_op "persist_publication_transport_grant grant"
  by unfold_locales
    (rule result_keeps; auto dest: persist_grant_effect failed_operations_change_nothing)+

interpretation remove_grant_op: publication_op
  "remove_publication_transport_grant_exact t s h tok u v"
  by unfold_locales (auto dest: remove_grant_effect)

interpretation reconcile_op: publication_op reconcile_publication_transport_grants
  by unfold_locales (simp_all add: reconcile_removes_nothing)

lemma upsert_offer_history: "history_grows db (snd (upsert_provider_managed_offer oid d now db))"
  using upsert_offer_effect [of oid d now db] by (cases "upsert_provider_managed_offer oid d now db")
    (simp add: history_grows_def)

interpretation offer_op: publication_op "upsert_provider_managed_offer oid d now"
  by unfold_locales
    (auto simp: upsert_offer_history intro: inv_upsert_offer [OF _ prod.collapse [symmetric]])

section \<open>Steps and reachable states\<close>

inductive pub_step :: "crypto_env \<Rightarrow> pub_text \<Rightarrow> (string \<Rightarrow> string) \<Rightarrow> pub_db \<Rightarrow> pub_db \<Rightarrow> bool"
  for cs tx dbg where
  step_publish: "pub_step cs tx dbg db
    (snd (persist_and_activate_publication_revision fresh n st ev now db))"
| step_mutate: "pub_step cs tx dbg db (snd (mutate_publication_lifecycle tx fresh s m ev now db))"
| step_identity: "pub_step cs tx dbg db
    (snd (pause_active_publications_for_provider_identity cs tx dbg pid now db))"
| step_grant: "pub_step cs tx dbg db (snd (persist_publication_transport_grant grant db))"
| step_remove: "pub_step cs tx dbg db
    (snd (remove_publication_transport_grant_exact t s h tok u v db))"
| step_reconcile: "pub_step cs tx dbg db (snd (reconcile_publication_transport_grants db))"
| step_offer: "pub_step cs tx dbg db (snd (upsert_provider_managed_offer oid d now db))"

inductive pub_steps :: "crypto_env \<Rightarrow> pub_text \<Rightarrow> (string \<Rightarrow> string) \<Rightarrow> pub_db \<Rightarrow> pub_db \<Rightarrow> bool"
  for cs tx dbg where
  steps_refl: "pub_steps cs tx dbg db db"
| steps_step: "pub_steps cs tx dbg db db' \<Longrightarrow> pub_step cs tx dbg db' db'' \<Longrightarrow> pub_steps cs tx dbg db db''"

lemma pub_step_keeps:
  assumes "pub_step cs tx dbg db db'" and "pub_inv db"
  shows "pub_inv db' \<and> history_grows db db'"
  using assms
  by cases
    (simp_all add: publish_op.keeps_inv publish_op.keeps_history mutate_op.keeps_inv
      mutate_op.keeps_history identity_op.keeps_inv identity_op.keeps_history grant_op.keeps_inv
      grant_op.keeps_history remove_grant_op.keeps_inv remove_grant_op.keeps_history
      reconcile_op.keeps_inv reconcile_op.keeps_history offer_op.keeps_inv offer_op.keeps_history)

lemma pub_steps_keep:
  assumes "pub_steps cs tx dbg db db'" and "pub_inv db"
  shows "pub_inv db' \<and> history_grows db db'"
  using assms by induction (auto dest: pub_step_keeps intro: history_grows_trans)

end
