(* ===== verification/Publication_Intent.thy ===== *)
theory Publication_Intent
  imports Publication_Revision
begin

text \<open>
  \<open>PublicationIntent\<close> of \<open>froglet-protocol/src/publication.rs\<close>: the request every authoring path
  hands to the provider, its normalization (canonical mount kinds, trimmed, lower-cased, sorted
  and deduplicated capabilities) and its validation, including the price schedule. Building an
  intent from a TOML manifest is not modelled.
\<close>

section \<open>Definitions\<close>

definition PUBLICATION_INTENT_SCHEMA_V1 :: string where
  "PUBLICATION_INTENT_SCHEMA_V1 = ''froglet.publication-intent.v1''"

record verification_fixture =
  vf_input :: json
  vf_expected_output :: "json option"

record publication_intent =
  pi_schema_version :: "string option"
  pi_service_id :: string
  pi_offer_id :: "string option"
  pi_project_id :: "string option"
  pi_artifact_path :: "string option"
  pi_wasm_module_hex :: "string option"
  pi_oci_reference :: "string option"
  pi_oci_digest :: "string option"
  pi_runtime :: "string option"
  pi_package_kind :: "string option"
  pi_entrypoint_kind :: "string option"
  pi_entrypoint :: "string option"
  pi_contract_version :: "string option"
  pi_mounts :: "publication_mount list option"
  pi_capabilities :: "string list option"
  pi_inline_source :: "string option"
  pi_python_bundle :: "locked_python_bundle_envelope option"
  pi_data_source :: "publication_data_source option"
  pi_build_evidence :: "publication_build_evidence option"
  pi_source_kind :: "string option"
  pi_summary :: "string option"
  pi_starter :: "string option"
  pi_mode :: "string option"
  pi_price_sats :: u64
  pi_base_fee_msat :: "u64 option"
  pi_success_fee_msat :: "u64 option"
  pi_settlement_method :: "publication_settlement option"
  pi_price_currency :: "publication_currency option"
  pi_limits :: "publication_limits option"
  pi_publication_state :: "string option"
  pi_input_schema :: "json option"
  pi_output_schema :: "json option"
  pi_verification :: "verification_fixture option"

definition requested_price_schedule :: "publication_intent \<Rightarrow> publication_intent_error + u64 \<times> u64" where
  "requested_price_schedule i =
     (if pi_settlement_method i = Some PsNone then Inr (0, 0)
      else
        and_then
          (case pi_success_fee_msat i of
             Some value \<Rightarrow> Inr value
           | None \<Rightarrow> ok_or PriceScheduleOverflow (checked_mul (pi_price_sats i) 1000)) (\<lambda>success.
        Inr (unwrap_or (pi_base_fee_msat i) 0, success)))"

fun check_intent_mounts ::
  "string list \<Rightarrow> publication_mount list \<Rightarrow> publication_intent_error + unit" where
  "check_intent_mounts handles [] = Inr ()"
| "check_intent_mounts handles (mount # mounts) =
     and_then (mount_validate_authoring mount) (\<lambda>_.
     if mnt_handle mount \<in> set handles
     then Inl (InvalidMount (MsgDebug ''duplicate mount handle '' (mnt_handle mount) ''''))
     else check_intent_mounts (mnt_handle mount # handles) mounts)"

definition check_data_source :: "publication_intent \<Rightarrow> publication_intent_error + unit" where
  "check_data_source i =
     (case pi_data_source i of
        None \<Rightarrow> Inr ()
      | Some data_source \<Rightarrow>
          if trim (ds_content_base64 data_source) = []
          then Inl (InvalidDataSource (Msg ''content_base64 must be non-empty''))
          else if pi_runtime i \<noteq> Some ''builtin'' \<or> pi_package_kind i \<noteq> Some ''builtin''
          then Inl (InvalidDataSource
            (Msg ''data_source requires runtime=builtin and package_kind=builtin''))
          else if pi_artifact_path i \<noteq> None \<or> pi_wasm_module_hex i \<noteq> None \<or>
            pi_inline_source i \<noteq> None \<or> pi_python_bundle i \<noteq> None \<or> pi_oci_reference i \<noteq> None \<or>
            pi_oci_digest i \<noteq> None
          then Inl (InvalidDataSource
            (Msg ''data_source is mutually exclusive with executable artifact fields''))
          else if unwrap_or (pi_mounts i) [] \<noteq> [] \<or> unwrap_or (pi_capabilities i) [] \<noteq> []
          then Inl (InvalidDataSource
            (Msg ''the v1 read-only data lane does not accept mounts or capabilities''))
          else
            (case (ds_format data_source, ds_csv_schema data_source) of
               (DfCsv, Some schema) \<Rightarrow> map_err InvalidDataSource (csv_schema_validate schema)
             | (DfCsv, None) \<Rightarrow> Inl (InvalidDataSource (Msg ''CSV data_source requires csv_schema''))
             | (_, Some _) \<Rightarrow>
                 Inl (InvalidDataSource (Msg ''csv_schema is only valid for CSV data sources''))
             | (_, None) \<Rightarrow> Inr ()))"

definition check_python_bundle ::
  "crypto_env \<Rightarrow> publication_intent \<Rightarrow> publication_intent_error + unit" where
  "check_python_bundle cs i =
     (case pi_python_bundle i of
        None \<Rightarrow> Inr ()
      | Some python_bundle \<Rightarrow>
          and_then (map_err InvalidBuildEvidence (bundle_validate_metadata cs python_bundle)) (\<lambda>_.
          if pi_runtime i \<noteq> Some ''python'' \<or> pi_package_kind i \<noteq> Some ''inline_source''
          then Inl (InvalidBuildEvidence
            (Msg ''python_bundle requires runtime=python and package_kind=inline_source''))
          else if pi_inline_source i \<noteq> None \<or> pi_artifact_path i \<noteq> None \<or>
            pi_wasm_module_hex i \<noteq> None \<or> pi_data_source i \<noteq> None \<or> pi_oci_reference i \<noteq> None \<or>
            pi_oci_digest i \<noteq> None
          then Inl (InvalidBuildEvidence
            (Msg ''python_bundle is mutually exclusive with other executable artifact fields''))
          else Inr ()))"

definition whole_minor_units :: "u64 \<Rightarrow> bool" where
  "whole_minor_units msat \<longleftrightarrow> unat msat mod 1000 = 0"

definition check_payment :: "publication_intent \<Rightarrow> publication_intent_error + unit" where
  "check_payment i =
     and_then (requested_price_schedule i) (\<lambda>(base_fee_msat, success_fee_msat).
     and_then (ok_or PriceScheduleOverflow (checked_add base_fee_msat success_fee_msat))
       (\<lambda>total_msat.
     if \<not> whole_minor_units base_fee_msat \<or> \<not> whole_minor_units success_fee_msat
     then Inl (FractionalPriceLeg base_fee_msat success_fee_msat)
     else
       and_then
         (case pi_success_fee_msat i of
            None \<Rightarrow> Inr ()
          | Some explicit \<Rightarrow>
              and_then (ok_or PriceScheduleOverflow (checked_mul (pi_price_sats i) 1000)) (\<lambda>legacy.
              if explicit \<noteq> legacy then Inl (AmbiguousPricing (pi_price_sats i) explicit)
              else Inr ())) (\<lambda>_.
       if total_msat \<noteq> 0 \<and> pi_settlement_method i = None
       then Inl (IncompatiblePayment ''paid publication requires an explicit settlement method'')
       else if pi_settlement_method i = Some PsNone \<and>
         (pi_price_sats i \<noteq> 0 \<or> unwrap_or (pi_base_fee_msat i) 0 \<noteq> 0 \<or>
          unwrap_or (pi_success_fee_msat i) 0 \<noteq> 0)
       then Inl (IncompatiblePayment ''settlement method none requires a zero price schedule'')
       else if pi_settlement_method i = Some PsLightning \<and> pi_price_currency i = Some CurUsd
       then Inl (IncompatiblePayment ''lightning settlement requires sat currency'')
       else if pi_settlement_method i = Some PsStripe \<and> pi_price_currency i \<noteq> Some CurUsd
       then Inl (IncompatiblePayment ''stripe settlement requires explicit usd currency'')
       else Inr ())))"

definition intent_validate_authoring ::
  "crypto_env \<Rightarrow> publication_intent \<Rightarrow> publication_intent_error + unit" where
  "intent_validate_authoring cs i =
     and_then
       (case pi_schema_version i of
          None \<Rightarrow> Inr ()
        | Some v \<Rightarrow> if v \<noteq> PUBLICATION_INTENT_SCHEMA_V1 then Inl (InvalidSchemaVersion v) else Inr ())
       (\<lambda>_.
     and_then (check_intent_mounts [] (unwrap_or (pi_mounts i) [])) (\<lambda>_.
     if list_ex (\<lambda>capability. trim capability = []) (unwrap_or (pi_capabilities i) [])
     then Inl (InvalidCapability '''')
     else
       and_then (check_data_source i) (\<lambda>_.
       and_then (check_python_bundle cs i) (\<lambda>_.
       and_then
         (case pi_build_evidence i of
            None \<Rightarrow> Inr ()
          | Some e \<Rightarrow> map_err InvalidBuildEvidence (build_evidence_validate e)) (\<lambda>_.
       check_payment i)))))"

fun normalize_mounts ::
  "publication_mount list \<Rightarrow> publication_intent_error + publication_mount list" where
  "normalize_mounts [] = Inr []"
| "normalize_mounts (mount # mounts) =
     and_then (ok_or (InvalidMount (MsgDebug ''unsupported mount kind '' (mnt_kind mount)
         ''; allowed: postgres, sqlite, object_store, redis (legacy alias: s3)''))
       (canonical_mount_kind (mnt_kind mount))) (\<lambda>kind.
     map_ok (\<lambda>rest. mount\<lparr>mnt_kind := kind\<rparr> # rest) (normalize_mounts mounts))"

definition normalize_capability :: "string \<Rightarrow> string" where
  "normalize_capability capability =
     canonical_mount_capability (to_ascii_lowercase (trim capability))"

fun normalize_capabilities :: "string list \<Rightarrow> publication_intent_error + string list" where
  "normalize_capabilities [] = Inr []"
| "normalize_capabilities (c # capabilities) =
     (let capability = normalize_capability c
      in if \<not> valid_capability capability then Inl (InvalidCapability capability)
         else map_ok (\<lambda>rest. capability # rest) (normalize_capabilities capabilities))"

definition normalized ::
  "crypto_env \<Rightarrow> publication_intent \<Rightarrow> publication_intent_error + publication_intent" where
  "normalized cs i =
     and_then
       (case pi_mounts i of
          None \<Rightarrow> Inr None
        | Some mounts \<Rightarrow> map_ok Some (normalize_mounts mounts)) (\<lambda>mounts.
     and_then
       (case pi_capabilities i of
          None \<Rightarrow> Inr None
        | Some capabilities \<Rightarrow>
            map_ok (\<lambda>cs. let cs = remdups_adj (sort cs) in if cs = [] then None else Some cs)
              (normalize_capabilities capabilities)) (\<lambda>capabilities.
     let j = i\<lparr>pi_mounts := mounts, pi_capabilities := capabilities\<rparr>
     in and_then (intent_validate_authoring cs j) (\<lambda>_. Inr j)))"

section \<open>Normal forms\<close>

definition normal_capability :: "string \<Rightarrow> bool" where
  "normal_capability c \<longleftrightarrow> valid_capability c \<and> normalize_capability c = c \<and>
     \<not> starts_with c ''mount.s3.''"

definition normal_mount :: "publication_mount \<Rightarrow> bool" where
  "normal_mount m \<longleftrightarrow> canonical_mount_kind (mnt_kind m) = Some (mnt_kind m)"

lemma canonical_mount_kind_idem:
  "canonical_mount_kind k = Some k' \<Longrightarrow> canonical_mount_kind k' = Some k'"
  by (auto simp: canonical_mount_kind_def OBJECT_STORE_MOUNT_KIND_def LEGACY_S3_MOUNT_KIND_def
      split: if_splits)

lemma normal_mount_not_legacy: "normal_mount m \<Longrightarrow> mnt_kind m \<noteq> LEGACY_S3_MOUNT_KIND"
  by (auto simp: normal_mount_def canonical_mount_kind_def OBJECT_STORE_MOUNT_KIND_def
      LEGACY_S3_MOUNT_KIND_def)

lemma split_char_chars:
  "x \<in> set s \<Longrightarrow> x = c \<or> (\<exists>w\<in>set (split_char c s). x \<in> set w)"
proof (induction s)
  case (Cons y s)
  show ?case
  proof (cases "split_char c s")
    case Nil
    with Cons show ?thesis by auto
  next
    case (Cons w ws)
    with Cons.IH Cons.prems show ?thesis by auto
  qed
qed simp

lemma valid_capability_chars:
  assumes "valid_capability c" and "x \<in> set c"
  shows "capability_char x \<or> x = CHR ''.''"
  using assms split_char_chars [OF assms(2), of "CHR ''.''"]
  by (auto simp: valid_capability_def list_all_iff)

lemma capability_char_printable: "capability_char x \<or> x = CHR ''.'' \<Longrightarrow> printable_ascii x"
  by (auto simp: capability_char_def is_ascii_alphanumeric_def is_ascii_digit_def
      is_ascii_uppercase_def is_ascii_lowercase_def printable_ascii_def Let_def)

lemma trim_valid_capability: "valid_capability c \<Longrightarrow> trim c = c"
  using valid_capability_chars capability_char_printable
  by (intro trim_printable) (auto simp: valid_capability_def list_all_iff)

lemma canonical_capability_idem:
  "\<not> starts_with (canonical_mount_capability c) ''mount.s3.''"
  "canonical_mount_capability (canonical_mount_capability c) = canonical_mount_capability c"
  by (auto simp: canonical_mount_capability_def strip_prefix_def starts_with_def
      OBJECT_STORE_MOUNT_KIND_def)

lemma lowercase_canonical_capability:
  assumes "to_ascii_lowercase c = c"
  shows "to_ascii_lowercase (canonical_mount_capability c) = canonical_mount_capability c"
proof (cases "starts_with c ''mount.s3.''")
  case True
  then obtain s where c: "c = ''mount.s3.'' @ s"
    by (metis append_take_drop_id starts_with_def)
  have "to_ascii_lowercase s = s"
    using assms by (simp add: c to_ascii_lowercase_def)
  moreover have "to_ascii_lowercase ''mount.object_store.'' = ''mount.object_store.''"
    by (simp add: to_ascii_lowercase_def ascii_lower_def is_ascii_uppercase_def)
  ultimately show ?thesis
    by (simp add: c canonical_mount_capability_def OBJECT_STORE_MOUNT_KIND_def strip_prefix_def
        starts_with_def to_ascii_lowercase_def)
qed (use assms in \<open>simp add: canonical_mount_capability_def strip_prefix_def\<close>)

lemma normalize_capability_normal:
  assumes "valid_capability (normalize_capability c)"
  shows "normal_capability (normalize_capability c)"
  using assms trim_valid_capability [OF assms]
    lowercase_canonical_capability [OF to_ascii_lowercase_idem, of "trim c"]
  by (simp add: normal_capability_def normalize_capability_def canonical_capability_idem)

lemma normalize_mounts_Inr:
  "normalize_mounts ms = Inr ns \<Longrightarrow> list_all normal_mount ns"
  by (induction ms arbitrary: ns)
    (auto simp: result_simps normal_mount_def dest: canonical_mount_kind_idem)

lemma normalize_mounts_normal: "list_all normal_mount ms \<Longrightarrow> normalize_mounts ms = Inr ms"
  by (induction ms) (auto simp: normal_mount_def)

lemma normalize_capabilities_Inr:
  "normalize_capabilities cs = Inr ds \<Longrightarrow> list_all normal_capability ds"
  by (induction cs arbitrary: ds)
    (auto simp: Let_def dest: normalize_capability_normal split: if_splits)

lemma normalize_capabilities_normal:
  "list_all normal_capability cs \<Longrightarrow> normalize_capabilities cs = Inr cs"
  by (induction cs) (auto simp: normal_capability_def Let_def)

lemma sorted_remdups_adj_distinct: "sorted xs \<Longrightarrow> distinct (remdups_adj xs)"
  by (induction xs rule: remdups_adj.induct) (auto simp: order_antisym)

lemma remdups_adj_sort:
  "sorted (remdups_adj (sort xs))" "distinct (remdups_adj (sort xs))"
  "set (remdups_adj (sort xs)) = set xs"
  by (simp_all add: sorted_remdups_adj sorted_remdups_adj_distinct)

text \<open>What the capabilities and mounts of a normalized intent look like.\<close>

definition normal_intent :: "publication_intent \<Rightarrow> bool" where
  "normal_intent i \<longleftrightarrow>
     list_all normal_mount (unwrap_or (pi_mounts i) []) \<and>
     list_all normal_capability (unwrap_or (pi_capabilities i) []) \<and>
     strictly_sorted (unwrap_or (pi_capabilities i) []) \<and> pi_capabilities i \<noteq> Some []"

lemma normalized_Inr_cases:
  assumes "normalized cs i = Inr j"
  shows "normal_intent j" and "intent_validate_authoring cs j = Inr ()"
proof -
  from assms obtain ms ds where j: "j = i\<lparr>pi_mounts := ms, pi_capabilities := ds\<rparr>"
    and v: "intent_validate_authoring cs j = Inr ()"
    and ms: "(case pi_mounts i of None \<Rightarrow> Inr None | Some m \<Rightarrow> map_ok Some (normalize_mounts m)) = Inr ms"
    and ds: "(case pi_capabilities i of None \<Rightarrow> Inr None | Some c \<Rightarrow>
      map_ok (\<lambda>cs. let cs = remdups_adj (sort cs) in if cs = [] then None else Some cs)
        (normalize_capabilities c)) = Inr ds"
    by (auto simp: normalized_def result_simps Let_def)
  show "intent_validate_authoring cs j = Inr ()" by (rule v)
  have "list_all normal_mount (unwrap_or ms [])"
    using ms by (auto simp: unwrap_or_def dest: normalize_mounts_Inr split: option.splits)
  moreover have "list_all normal_capability (unwrap_or ds []) \<and> strictly_sorted (unwrap_or ds []) \<and>
    ds \<noteq> Some []"
    using ds remdups_adj_sort
    by (auto simp: unwrap_or_def Let_def strictly_sorted_iff list_all_iff split: option.splits if_splits
        dest!: normalize_capabilities_Inr)
  ultimately show "normal_intent j" by (simp add: normal_intent_def j)
qed

lemma normalized_normal:
  assumes "normal_intent i" and v: "intent_validate_authoring cs i = Inr ()"
  shows "normalized cs i = Inr i"
proof -
  have "(case pi_mounts i of None \<Rightarrow> Inr None | Some m \<Rightarrow> map_ok Some (normalize_mounts m))
      = Inr (pi_mounts i)"
    using assms(1)
    by (cases "pi_mounts i") (simp_all add: normal_intent_def unwrap_or_def normalize_mounts_normal)
  moreover have "(case pi_capabilities i of None \<Rightarrow> Inr None | Some c \<Rightarrow>
      map_ok (\<lambda>cs. let cs = remdups_adj (sort cs) in if cs = [] then None else Some cs)
        (normalize_capabilities c)) = Inr (pi_capabilities i)"
    using assms(1)
    by (cases "pi_capabilities i")
      (simp_all add: normal_intent_def unwrap_or_def normalize_capabilities_normal Let_def
        strictly_sorted_iff sorted_sort_id remdups_adj_distinct)
  moreover have "i\<lparr>pi_mounts := pi_mounts i, pi_capabilities := pi_capabilities i\<rparr> = i" by simp
  ultimately show ?thesis using v by (simp add: normalized_def Let_def)
qed

end
