(* ===== verification/Publication_Properties.thy ===== *)
theory Publication_Properties
  imports Publication_Steps Publication_Intent
begin

text \<open>
  The properties of publication: the consistency of the store in every reachable state, the
  refinement of the abstract life of a service, immutability of revisions, the reconciliation with
  the provider's identity, and the statements, preconditions and intents that authors and providers
  exchange.
\<close>

section \<open>A concrete publication\<close>

definition hex64 :: "char \<Rightarrow> string" where
  "hex64 c = replicate 64 c"

definition provider_key :: bytes where
  "provider_key = replicate 32 (CHR 0x11)"

definition small_limits :: resolved_publication_limits where
  "small_limits = \<lparr>rl_max_input_bytes = 1024, rl_max_runtime_ms = 500, rl_max_memory_bytes = 4096,
     rl_max_output_bytes = 2048, rl_fuel_limit = 1000\<rparr>"

definition sample_service :: publication_revision_service where
  "sample_service = \<lparr>prs_project_id = None, prs_summary = None, prs_starter = None,
     prs_source_kind = ''wasm'', prs_entrypoint_kind = ''export'', prs_entrypoint = ''run'',
     prs_contract_version = ''v1'', prs_mode = ''sync'',
     prs_mounts = [\<lparr>mnt_handle = ''data'', mnt_kind = ''sqlite'', mnt_read_only = True, mnt_binding = None\<rparr>],
     prs_capabilities = [''mount.sqlite.read.data''], prs_input_schema = None, prs_output_schema = None\<rparr>"

definition sample_payload :: publication_revision_payload where
  "sample_payload = \<lparr>prv_schema_version = PUBLICATION_REVISION_SCHEMA_V1,
     prv_provider_id = public_key_hex reference_env provider_key, prv_service_id = ''svc'',
     prv_offer_id = ''offer'', prv_offer_hash = hex64 (CHR ''a''), prv_binding_hash = hex64 (CHR ''b''),
     prv_package_digest = hex64 (CHR ''c''), prv_runtime = ''wasm'', prv_package_kind = ''inline_module'',
     prv_build_evidence = None, prv_service = sample_service, prv_limits = small_limits,
     prv_price = \<lparr>prp_settlement_method = PsLightning, prp_currency = CurSat,
       prp_base_amount_minor = 1, prp_success_amount_minor = 2,
       prp_offer_settlement_method = ''lightning.prepaid.v1''\<rparr>,
     prv_local_verification = \<lparr>lve_input_hash = hex64 (CHR ''d''), lve_result_hash = hex64 (CHR ''e''),
       lve_expected_output_matched = Some True\<rparr>\<rparr>"

definition sample_signed :: signed_publication_revision where
  "sample_signed = \<lparr>spr_revision_hash = sha256_hex reference_env (ref_json (revision_value sample_payload)),
     spr_signer_pubkey = prv_provider_id sample_payload,
     spr_signature = sign_message_hex reference_env provider_key
       (PUBLICATION_REVISION_SIGNATURE_DOMAIN @ ref_json (revision_value sample_payload)),
     spr_payload = sample_payload\<rparr>"

definition sample_tx :: pub_text where
  "sample_tx = \<lparr>pt_json_from_str = (\<lambda>_. Inr JNull), pt_json_to_string = (\<lambda>_. ''null''),
     pt_signed_revision_from_str = (\<lambda>_. Inr sample_signed)\<rparr>"

definition sample_new :: new_publication_revision where
  "sample_new = \<lparr>npr_revision_hash = spr_revision_hash sample_signed, npr_service_id = ''svc'',
     npr_offer_id = ''offer'', npr_offer_hash = hex64 (CHR ''a''), npr_binding_hash = hex64 (CHR ''b''),
     npr_signed_revision_json = ''signed'', npr_definition_json = ''definition''\<rparr>"

definition sample_token :: string where
  "sample_token = hex64 (CHR ''0'')"

definition published_db :: pub_db where
  "published_db = snd (persist_and_activate_publication_revision sample_token sample_new ''active'' ''{}'' 100
     empty_pub_db)"

definition sample_grant :: new_publication_transport_grant where
  "sample_grant = \<lparr>ntg_transport = ''relay'', ntg_service_id = ''svc'',
     ntg_revision_hash = spr_revision_hash sample_signed, ntg_activation_token = sample_token,
     ntg_public_url = ''https://p'', ntg_relay_control_url = ''https://r'', ntg_now = 110\<rparr>"

definition granted_db :: pub_db where
  "granted_db = snd (persist_publication_transport_grant sample_grant published_db)"

definition plain_debug :: "string \<Rightarrow> string" where
  "plain_debug s = s"

lemma hex64_valid:
  "is_lower_hex_char c \<Longrightarrow> valid_hash (hex64 c)"
  "is_lower_hex_char c \<Longrightarrow> is_publication_activation_token (hex64 c)"
  by (simp_all add: hex64_def valid_hash_def is_publication_activation_token_def list_all_iff)

lemma sample_hex [simp]:
  "is_lower_hex_char (CHR ''0'')" "is_lower_hex_char (CHR ''a'')" "is_lower_hex_char (CHR ''b'')"
  "is_lower_hex_char (CHR ''c'')" "is_lower_hex_char (CHR ''d'')" "is_lower_hex_char (CHR ''e'')"
  by code_simp+

lemma provider_id_valid: "valid_hash (public_key_hex reference_env provider_key)"
  using crypto_lawsD(1) [OF reference_crypto_laws]
  by (simp add: valid_hash_def public_key_hex_def hex_laws_def)
     (simp add: reference_env_def provider_key_def)

lemma nonblank:
  assumes "s \<noteq> []" and "list_all printable_ascii s"
  shows "check_nonblank (f, s) = Inr ()"
proof -
  have "trim s = s" by (rule trim_printable) (use assms in \<open>auto simp: list_all_iff\<close>)
  with assms(1) show ?thesis by (simp add: check_nonblank_def)
qed

lemma sample_service_valid: "revision_service_validate reference_env sample_service = Inr ()"
  by (simp add: revision_service_validate_def sample_service_def result_simps nonblank
      printable_ascii_def check_revision_text_def check_revision_schema_def MAX_REVISION_MOUNTS_def
      MAX_REVISION_CAPABILITIES_def mount_validate_authoring_def canonical_mount_kind_def
      mount_handle_char_def access_capability_def valid_capability_def capability_char_def
      is_ascii_alphanumeric_def is_ascii_lowercase_def OBJECT_STORE_MOUNT_KIND_def LEGACY_S3_MOUNT_KIND_def)

lemma sample_payload_valid:
  "revision_validate_canonical_for_signing reference_env sample_payload = Inr ()"
proof -
  have "checked_add (1 :: u64) 2 = Some 3" by (simp add: checked_add_def)
  then have "check_revision_price (prv_price sample_payload) = Inr ()"
    by (simp add: check_revision_price_def sample_payload_def starts_with_def)
  moreover have "revision_validate reference_env sample_payload = Inr ()"
    unfolding revision_validate_def
    using calculation
    by (simp add: sample_payload_def result_simps check_revision_hash_def hex64_valid
        provider_id_valid nonblank printable_ascii_def check_build_evidence_def sample_service_valid
        check_positive_def small_limits_def)
  ultimately show ?thesis
    by (simp add: revision_validate_canonical_for_signing_def sample_payload_def sample_service_def
        service_validate_canonical_for_signing_def LEGACY_S3_MOUNT_KIND_def starts_with_def)
qed

lemma granted_reachable: "pub_steps reference_env sample_tx plain_debug empty_pub_db granted_db"
proof -
  have "pub_steps reference_env sample_tx plain_debug empty_pub_db published_db"
    unfolding published_db_def by (rule steps_step [OF steps_refl step_publish])
  then show ?thesis unfolding granted_db_def by (rule steps_step [OF _ step_grant])
qed

lemmas store_defs = db_then_def db_lift_def with_immediate_transaction_def
  persist_and_activate_publication_revision_def
  persist_and_activate_publication_revision_in_transaction_def insert_publication_revision_def
  ensure_active_shared_offer_hash_def active_revisions_def upsert_provider_managed_offer_def
  get_publication_lifecycle_def upsert_lifecycle_def lifecycle_constraints_def query_row_def
  same_revision_def preserves_exact_activation_def activation_token_for_def
  delete_publication_transport_grants_for_service_def delete_where_def insert_publication_operation_def
  decode_publication_lifecycle_row_def persist_publication_transport_grant_def upsert_grant_def
  update_where_def revision_of_grant_def decode_publication_transport_grant_row_def

lemma published_db_eq:
  "published_db =
     \<lparr>pb_offers = [\<lparr>mo_offer_id = ''offer'', mo_definition_json = ''definition'', mo_created_at = 100,
        mo_updated_at = 100\<rparr>],
      pb_revisions = [\<lparr>rr_revision_hash = spr_revision_hash sample_signed, rr_service_id = ''svc'',
        rr_offer_id = ''offer'', rr_offer_hash = hex64 (CHR ''a''), rr_binding_hash = hex64 (CHR ''b''),
        rr_validation_status = ''validated'', rr_signed_revision_json = ''signed'',
        rr_definition_json = ''definition'', rr_created_at = 100\<rparr>],
      pb_lifecycles = [\<lparr>lc_service_id = ''svc'', lc_status = ''active'',
        lc_active_revision_hash = Some (spr_revision_hash sample_signed),
        lc_selected_revision_hash = spr_revision_hash sample_signed,
        lc_activation_token = sample_token, lc_created_at = 100, lc_updated_at = 100\<rparr>],
      pb_log = [\<lparr>po_operation_id = 1, po_service_id = ''svc'',
        po_revision_hash = Some (spr_revision_hash sample_signed), po_operation = ''publish'',
        po_status = ''succeeded'', po_evidence_json = ''{}'', po_created_at = 100\<rparr>],
      pb_grants = []\<rparr>"
  by (simp add: published_db_def empty_pub_db_def sample_new_def store_defs Let_def sample_token_def hex64_valid)

lemma granted_db_grant:
  "pb_grants granted_db = [\<lparr>tg_transport = ''relay'', tg_service_id = ''svc'',
     tg_revision_hash = spr_revision_hash sample_signed, tg_activation_token = sample_token,
     tg_public_url = ''https://p'', tg_relay_control_url = ''https://r'', tg_created_at = 110,
     tg_updated_at = 110\<rparr>]"
  "life granted_db ''svc'' = Advertised (spr_revision_hash sample_signed)"
  by (simp_all add: granted_db_def sample_grant_def published_db_eq store_defs Let_def sample_token_def
      hex64_valid url_ok_def life_def life_of_def)

section \<open>The publication store\<close>



text \<open>
  Whatever operations run, a publication revision that was once recorded stays recorded
  unchanged: no later record ever carries its hash with other content, and no entry of the
  operation log is changed or removed.
\<close>

theorem revision_records_are_immutable:
  assumes "pub_steps cs tx dbg empty_pub_db db" and "pub_steps cs tx dbg db db'"
    and "r \<in> set (pb_revisions db)"
  shows "r \<in> set (pb_revisions db') \<and>
    (\<forall>q\<in>set (pb_revisions db'). rr_revision_hash q = rr_revision_hash r \<longrightarrow> q = r) \<and>
    take (length (pb_log db)) (pb_log db') = pb_log db"
proof -
  have "pub_inv db" using pub_steps_keep [OF assms(1) pub_inv_empty] by blast
  with pub_steps_keep [OF assms(2)] have inv': "pub_inv db'" and h: "history_grows db db'" by auto
  from h assms(3) have r: "r \<in> set (pb_revisions db')"
    by (auto simp: history_grows_def dest: set_mono_prefix)
  have "q = r" if "q \<in> set (pb_revisions db')" "rr_revision_hash q = rr_revision_hash r" for q
    by (rule revision_key_unique [OF inv' that(1) r that(2)])
  moreover from h have "take (length (pb_log db)) (pb_log db') = pb_log db"
    by (auto simp: history_grows_def prefix_def)
  ultimately show ?thesis using r by blast
qed

lemma published_reachable: "pub_steps reference_env sample_tx plain_debug empty_pub_db published_db"
  unfolding published_db_def by (rule steps_step [OF steps_refl step_publish])

lemma published_to_granted: "pub_steps reference_env sample_tx plain_debug published_db granted_db"
  unfolding granted_db_def by (rule steps_step [OF steps_refl step_grant])

theorem revision_records_are_immutable_witness:
  "hd (pb_revisions published_db) \<in> set (pb_revisions granted_db) \<and>
   take 1 (pb_log granted_db) = pb_log published_db"
  using revision_records_are_immutable
    [OF published_reachable published_to_granted, of "hd (pb_revisions published_db)"]
  by (simp add: published_db_eq)

text \<open>
  C25. The store refines the abstract life of a service. Publishing a revision makes it the
  advertised or the withheld one; every lifecycle mutation that succeeds is the corresponding
  abstract step (pause withholds, resume advertises what was withheld, unpublish withdraws,
  roll back advertises the named revision); other services are untouched; and a mutation that
  fails changes nothing.
\<close>

theorem store_refines_service_life:
  assumes "pub_steps cs tx dbg empty_pub_db db"
  shows "(mutate_publication_lifecycle tx fresh s m ev now db = (Inr r, db') \<longrightarrow>
      (\<exists>x. life_step m (life db s) = Some x \<and> life db' = (life db)(s := x))) \<and>
    (mutate_publication_lifecycle tx fresh s m ev now db = (Inl e, db') \<longrightarrow> db' = db) \<and>
    (persist_and_activate_publication_revision fresh n st ev now db = (Inr r, db') \<longrightarrow>
      life db' = (life db)(npr_service_id n :=
        (if st = ''active'' then Advertised (npr_revision_hash n) else Withheld (npr_revision_hash n))))"
proof -
  have inv: "pub_inv db" using pub_steps_keep [OF assms pub_inv_empty] by blast
  have "life db' = (life db)(npr_service_id n :=
      (if st = ''active'' then Advertised (npr_revision_hash n) else Withheld (npr_revision_hash n)))"
    if "persist_and_activate_publication_revision fresh n st ev now db = (Inr r, db')"
    using publish_effect(3) [OF _ inv] that
    by (simp add: persist_and_activate_publication_revision_def with_immediate_transaction_Inr)
  then show ?thesis
    using mutate_effect(3) [OF _ inv] failed_operations_change_nothing(1) by blast
qed

lemma pause_granted:
  "fst (mutate_publication_lifecycle sample_tx sample_token ''svc'' Pause ''{}'' 120 granted_db) =
     Inr \<lparr>plr_service_id = ''svc'', plr_status = ''paused'', plr_active_revision_hash = None,
        plr_selected_revision_hash = spr_revision_hash sample_signed,
        plr_activation_token = sample_token, plr_revision_count = 1, plr_created_at = 100,
        plr_updated_at = 120\<rparr>"
  by (simp add: granted_db_def sample_grant_def published_db_eq store_defs Let_def sample_token_def
      hex64_valid url_ok_def mutate_publication_lifecycle_def paused_from_def check_activation_def
      update_lifecycle_def)

theorem store_refines_service_life_witness:
  "life (snd (mutate_publication_lifecycle sample_tx sample_token ''svc'' Pause ''{}'' 120 granted_db)) ''svc''
     = Withheld (spr_revision_hash sample_signed)"
proof -
  let ?m = "mutate_publication_lifecycle sample_tx sample_token ''svc'' Pause ''{}'' 120 granted_db"
  obtain r where "?m = (Inr r, snd ?m)" using pause_granted by (metis prod.collapse)
  then have "\<exists>x. life_step Pause (life granted_db ''svc'') = Some x \<and>
      life (snd ?m) = (life granted_db)(''svc'' := x)"
    using store_refines_service_life [OF granted_reachable] by blast
  then show ?thesis by (auto simp: granted_db_grant)
qed

text \<open>
  C26. After a successful reconciliation with the provider's identity, every revision that is still
  advertised carries a signature that verifies, names its own hash, and was made by the current
  identity; exactly the services reported as paused are withheld, and no other service changes.
\<close>

theorem advertised_revisions_are_signed_by_provider:
  assumes "pub_steps cs tx dbg empty_pub_db db"
    and "pause_active_publications_for_provider_identity cs tx dbg pid now db = (Inr paused, db')"
  shows "(life db' s = Advertised h \<longrightarrow> (\<exists>r\<in>set (pb_revisions db'). rr_revision_hash r = h \<and>
      rr_service_id r = s \<and> (\<exists>sr.
        pt_signed_revision_from_str tx (rr_signed_revision_json r) = Inr sr \<and>
        revision_verify cs sr = Inr () \<and> spr_revision_hash sr = h \<and>
        prv_provider_id (spr_payload sr) = pid))) \<and>
    life db' s = (if s \<in> set paused then (case life db s of Advertised h \<Rightarrow> Withheld h | x \<Rightarrow> x)
      else life db s)"
proof -
  have inv: "pub_inv db" using pub_steps_keep [OF assms(1) pub_inv_empty] by blast
  show ?thesis
    using identity_pause_effect(3,4) [OF assms(2) inv] by blast
qed

lemma sample_signed_verifies: "revision_verify reference_env sample_signed = Inr ()"
proof -
  have "revision_validate reference_env sample_payload = Inr ()"
    using sample_payload_valid by (simp add: revision_validate_canonical_for_signing_def result_simps)
  moreover have "secret_key_ok reference_env provider_key"
    by (simp add: secret_key_ok_def reference_env_def provider_key_def)
  ultimately show ?thesis
    using verify_sign_message [OF crypto_lawsD(1,3) [OF reference_crypto_laws]]
    by (simp add: revision_verify_Inr sample_signed_def)
       (simp add: sample_payload_def reference_env_def)
qed

lemma keep_published:
  "pause_active_publications_for_provider_identity reference_env sample_tx plain_debug
     (public_key_hex reference_env provider_key) 130 published_db = (Inr [], published_db)"
  using provider_id_valid
  by (simp add: pause_active_publications_for_provider_identity_def valid_hash_def store_defs
      check_active_revision_def sample_tx_def sample_signed_verifies published_db_eq)
     (simp add: sample_signed_def sample_payload_def)

lemma published_life: "life published_db ''svc'' = Advertised (spr_revision_hash sample_signed)"
  by (simp add: published_db_eq life_def life_of_def query_row_def)

theorem advertised_revisions_are_signed_by_provider_witness:
  "\<exists>r\<in>set (pb_revisions published_db). rr_service_id r = ''svc'' \<and>
     (\<exists>sr. pt_signed_revision_from_str sample_tx (rr_signed_revision_json r) = Inr sr \<and>
        revision_verify reference_env sr = Inr () \<and>
        prv_provider_id (spr_payload sr) = public_key_hex reference_env provider_key)"
  using advertised_revisions_are_signed_by_provider [OF published_reachable keep_published]
    published_life by blast

end
