(* ===== verification/Publication_Statements.thy ===== *)
theory Publication_Statements
  imports Publication_Properties
begin

text \<open>
  The properties of what authors and providers exchange before a revision is stored: signed
  revisions, preconditions with their approval token, resource limits, and publication intents.
\<close>

section \<open>Revisions\<close>

lemma revision_verifies_signed:
  "revision_verifies cs (spr_revision_hash r, spr_signer_pubkey r, spr_signature r) (spr_payload r) \<longleftrightarrow>
     revision_verify cs r = Inr ()"
  by (cases r) (simp add: revision_verifies_def)

text \<open>
  A revision payload that passes the signing checks can always be signed, and the signed
  revision verifies: its hash, signer and signature agree with the payload, which uses no mount
  kind or capability of the legacy spelling.
\<close>

theorem signed_revision_verifies:
  assumes "crypto_laws cs" and "secret_key_ok cs sk" and "prv_provider_id p = public_key_hex cs sk"
    and "revision_validate_canonical_for_signing cs p = Inr ()"
    and "wf_revision p" and "exact_numbers (revision_value p)"
  shows "\<exists>r. sign_publication_revision cs p (sign_message_hex cs sk) = Inr r \<and>
    revision_verify cs r = Inr () \<and> spr_payload r = p \<and>
    list_all (\<lambda>m. mnt_kind m \<noteq> LEGACY_S3_MOUNT_KIND) (prs_mounts (prv_service p))"
proof -
  note laws = crypto_lawsD [OF assms(1)]
  obtain c where "jcs_to_vec cs (revision_value p) = Inr c"
    using jcs_total [OF laws(4) revision_value_wf [OF assms(5)] assms(6)] by blast
  then obtain r where r: "sign_publication_revision cs p (sign_message_hex cs sk) = Inr r"
    using assms(4) by (auto simp: sign_publication_revision_Inr)
  then have p: "spr_payload r = p" by (auto simp: sign_publication_revision_Inr)
  have "revision_verifies cs (spr_revision_hash r, spr_signer_pubkey r, spr_signature r) p"
    by (rule revision_statement.signed_verifies [OF laws(1,3) assms(2,3)])
       (simp add: revision_signs_def r)
  moreover have "list_all (\<lambda>m. mnt_kind m \<noteq> LEGACY_S3_MOUNT_KIND) (prs_mounts (prv_service p))"
    using assms(4)
    by (auto simp: revision_validate_canonical_for_signing_def result_simps list_ex_iff list_all_iff
        service_validate_canonical_for_signing_def split: if_splits)
  ultimately show ?thesis using r p revision_verifies_signed [of cs r] by auto
qed

lemma sample_facts:
  "wf_revision sample_payload" "exact_numbers (revision_value sample_payload)"
  "secret_key_ok reference_env provider_key"
  by (simp_all add: wf_revision_def wf_field_def sample_payload_def sample_service_def small_limits_def
      revision_value_def revision_service_value_def resolved_limits_value_def revision_price_value_def
      local_verification_value_def exact_numbers_mk_obj exact_field_def mounts_value_def mount_value_def
      unless_empty_def unless_none_def always_def j_strs_def secret_key_ok_def reference_env_def
      provider_key_def)

theorem signed_revision_verifies_witness:
  "\<exists>r. sign_publication_revision reference_env sample_payload
      (sign_message_hex reference_env provider_key) = Inr r \<and>
    revision_verify reference_env r = Inr () \<and> spr_payload r = sample_payload"
proof -
  have "prv_provider_id sample_payload = public_key_hex reference_env provider_key"
    by (simp add: sample_payload_def)
  from signed_revision_verifies [OF reference_crypto_laws sample_facts(3) this sample_payload_valid
      sample_facts(1,2)]
  show ?thesis by blast
qed



section \<open>Preconditions and limits\<close>

text \<open>
  The token of a publication precondition pins what was approved: a precondition built by the
  provider validates, and two preconditions that validate under one token agree on the provider,
  the intent, the limits, the configuration and the state of the identity backup, or exhibit a
  collision of SHA-256.
\<close>

theorem approval_token_pins_precondition:
  assumes "crypto_laws cs" and "precondition_new cs pid d l t ib = Inr p"
    and "precondition_validate cs q = Inr ()"
    and "pp_precondition_token p = pp_precondition_token q"
    and "exact_limits l" and "exact_limits (pp_resolved_limits q)"
  shows "precondition_validate cs p = Inr () \<and>
    (q = p \<or> sha256_collision cs (ok_bytes (jcs_to_vec cs (precondition_token_value p)))
      (ok_bytes (jcs_to_vec cs (precondition_token_value q))))"
proof -
  note new = precondition_new_validates [OF assms(2)] and laws = crypto_lawsD [OF assms(1)]
  obtain a where a: "jcs_to_vec cs (precondition_token_value p) = Inr a"
    "pp_precondition_token p = sha256_hex cs a"
    using precondition_validateD(1) [OF new(1)] by blast
  obtain b where b: "jcs_to_vec cs (precondition_token_value q) = Inr b"
    "pp_precondition_token q = sha256_hex cs b"
    using precondition_validateD(1) [OF assms(3)] by blast
  have "q = p \<or> sha256_collision cs a b"
  proof (cases "a = b")
    case True
    then have "precondition_token_value p = precondition_token_value q"
      using a(1) b(1) laws(4) assms(5,6) new(4)
      unfolding jcs_laws_def by (metis exact_precondition precondition_token_value_wf)
    with assms(4) have "p = q" by (cases p; cases q) (simp add: precondition_token_value_inject)
    then show ?thesis by simp
  next
    case False
    with a b assms(4) laws(1) show ?thesis by (simp add: sha256_collision_def sha256_hex_collision)
  qed
  with new(1) a(1) b(1) show ?thesis by (simp add: ok_bytes_def)
qed

definition sample_backup :: publication_identity_backup where
  "sample_backup = \<lparr>pib_schema_version = PUBLICATION_IDENTITY_BACKUP_SCHEMA_V1, pib_state = IbMissing,
     pib_backup_sha256 = None\<rparr>"

definition sample_precondition :: publication_precondition where
  "sample_precondition = \<lparr>pp_schema_version = PUBLICATION_PRECONDITION_SCHEMA_V1,
     pp_provider_id = hex64 (CHR ''a''), pp_intent_digest = hex64 (CHR ''b''),
     pp_resolved_limits = small_limits, pp_configuration_token = hex64 (CHR ''c''),
     pp_identity_backup = sample_backup,
     pp_precondition_token = sha256_hex reference_env (ref_json (precondition_token_value
       \<lparr>pp_schema_version = PUBLICATION_PRECONDITION_SCHEMA_V1, pp_provider_id = hex64 (CHR ''a''),
        pp_intent_digest = hex64 (CHR ''b''), pp_resolved_limits = small_limits,
        pp_configuration_token = hex64 (CHR ''c''), pp_identity_backup = sample_backup,
        pp_precondition_token = ''''\<rparr>))\<rparr>"

lemma lower_hex_is_hex: "is_lower_hex_char c \<Longrightarrow> is_ascii_hexdigit c"
  by (simp add: is_lower_hex_char_def)

lemma sample_precondition_new:
  "precondition_new reference_env (hex64 (CHR ''a'')) (hex64 (CHR ''b'')) small_limits
     (hex64 (CHR ''c'')) sample_backup = Inr sample_precondition"
proof -
  have token: "length (sha256_hex reference_env x) = 64"
    "list_all is_ascii_hexdigit (sha256_hex reference_env x)" for x
    using sha256_hex_lower [OF crypto_lawsD(1,2) [OF reference_crypto_laws], of x] lower_hex_is_hex
    by (auto simp: list_all_iff)
  have h: "length (hex64 c) = 64" "is_lower_hex_char c \<Longrightarrow> list_all is_ascii_hexdigit (hex64 c)" for c
    by (simp_all add: hex64_def list_all_iff lower_hex_is_hex)
  have j: "canonical_json_to_vec reference_env v = Inr (ref_json v)" for v
    by (simp add: canonical_json_to_vec_def reference_env_def)
  have "precondition_token_value sample_precondition = precondition_token_value
       \<lparr>pp_schema_version = PUBLICATION_PRECONDITION_SCHEMA_V1, pp_provider_id = hex64 (CHR ''a''),
        pp_intent_digest = hex64 (CHR ''b''), pp_resolved_limits = small_limits,
        pp_configuration_token = hex64 (CHR ''c''), pp_identity_backup = sample_backup,
        pp_precondition_token = ''''\<rparr>"
    by (simp add: precondition_token_value_inject sample_precondition_def)
  then have "precondition_validate reference_env sample_precondition = Inr ()"
    by (simp add: precondition_validate_def expected_token_def j result_simps check_hex64_def)
       (simp add: sample_precondition_def h token identity_backup_validate_def sample_backup_def)
  then show ?thesis
    by (simp add: precondition_new_def expected_token_def j Let_def)
       (simp add: sample_precondition_def)
qed

theorem approval_token_pins_precondition_witness:
  "precondition_validate reference_env sample_precondition = Inr ()"
  using approval_token_pins_precondition [OF reference_crypto_laws sample_precondition_new
      precondition_new_validates(1) [OF sample_precondition_new] refl]
  by (simp add: sample_precondition_def exact_limits_def small_limits_def resolved_limits_value_def
      exact_numbers_mk_obj)

text \<open>
  Resolving requested limits against what the provider has available never grants more than is
  available (an available fuel limit of 0 is the code's "unlimited"), grants every explicit request
  exactly, never turns an available resource into none, and is stable under resolving again.
\<close>

theorem resolved_limits_stay_within:
  assumes "resolve_within l available = Inr r"
  shows "limits_within r available \<and> no_limit_vanishes r available \<and> r = requested_limits l available \<and>
    resolve_within (exactly r) available = Inr r"
  using assms resolve_within_again [OF assms] by (simp add: resolve_within_Inr)

theorem resolved_limits_stay_within_witness:
  "resolve_within \<lparr>pl_max_input_bytes = Some 10, pl_max_runtime_ms = None, pl_max_memory_bytes = None,
      pl_max_output_bytes = Some 2048, pl_fuel_limit = None\<rparr> small_limits =
     Inr (small_limits\<lparr>rl_max_input_bytes := 10\<rparr>) \<and>
   limits_within (small_limits\<lparr>rl_max_input_bytes := 10\<rparr>) small_limits"
proof -
  let ?l = "\<lparr>pl_max_input_bytes = Some 10, pl_max_runtime_ms = None, pl_max_memory_bytes = None,
      pl_max_output_bytes = Some 2048, pl_fuel_limit = None\<rparr>"
  have "resolve_within ?l small_limits = Inr (small_limits\<lparr>rl_max_input_bytes := 10\<rparr>)"
    by (simp add: resolve_within_def small_limits_def unwrap_or_def result_simps check_limit_Inr)
  with resolved_limits_stay_within [OF this] show ?thesis by blast
qed

section \<open>Intents\<close>

text \<open>
  Normalizing an intent is stable: a normalized intent normalizes to itself, its mount kinds
  are canonical and never the legacy alias, and its capabilities are valid, canonical, sorted and
  free of duplicates.
\<close>

theorem normalized_intent_is_stable:
  assumes "normalized cs i = Inr j"
  shows "normalized cs j = Inr j \<and> normal_intent j \<and>
    list_all (\<lambda>m. mnt_kind m \<noteq> LEGACY_S3_MOUNT_KIND) (unwrap_or (pi_mounts j) [])"
proof -
  note n = normalized_Inr_cases [OF assms]
  from n(1) normal_mount_not_legacy
  have "list_all (\<lambda>m. mnt_kind m \<noteq> LEGACY_S3_MOUNT_KIND) (unwrap_or (pi_mounts j) [])"
    by (auto simp: normal_intent_def list_all_iff)
  with normalized_normal [OF n] n(1) show ?thesis by blast
qed

definition sample_intent :: publication_intent where
  "sample_intent = \<lparr>pi_schema_version = Some PUBLICATION_INTENT_SCHEMA_V1, pi_service_id = ''svc'',
     pi_offer_id = None, pi_project_id = None, pi_artifact_path = None, pi_wasm_module_hex = None,
     pi_oci_reference = None, pi_oci_digest = None, pi_runtime = None, pi_package_kind = None,
     pi_entrypoint_kind = None, pi_entrypoint = None, pi_contract_version = None,
     pi_mounts = Some [\<lparr>mnt_handle = ''d'', mnt_kind = ''s3'', mnt_read_only = True, mnt_binding = None\<rparr>],
     pi_capabilities = None, pi_inline_source = None,
     pi_python_bundle = None, pi_data_source = None, pi_build_evidence = None, pi_source_kind = None,
     pi_summary = None, pi_starter = None, pi_mode = None, pi_price_sats = 5,
     pi_base_fee_msat = None, pi_success_fee_msat = None, pi_settlement_method = Some PsLightning,
     pi_price_currency = None, pi_limits = None, pi_publication_state = None, pi_input_schema = None,
     pi_output_schema = None, pi_verification = None\<rparr>"

definition normal_sample :: publication_intent where
  "normal_sample = sample_intent\<lparr>pi_mounts :=
     Some [\<lparr>mnt_handle = ''d'', mnt_kind = ''object_store'', mnt_read_only = True, mnt_binding = None\<rparr>]\<rparr>"

lemma normal_sample_valid: "intent_validate_authoring cs normal_sample = Inr ()"
proof -
  have "checked_mul (5 :: u64) 1000 = Some 5000" "checked_add (0 :: u64) 5000 = Some 5000"
    by (simp_all add: checked_mul_def checked_add_def)
  then show ?thesis
    by (simp add: intent_validate_authoring_def normal_sample_def sample_intent_def unwrap_or_def
        mount_validate_authoring_def canonical_mount_kind_def OBJECT_STORE_MOUNT_KIND_def
        mount_handle_char_def is_ascii_lowercase_def check_data_source_def check_python_bundle_def
        check_payment_def requested_price_schedule_def whole_minor_units_def)
qed

lemma sample_normalizes: "normalized cs sample_intent = Inr normal_sample"
  using normal_sample_valid
  by (simp add: normalized_def sample_intent_def normal_sample_def canonical_mount_kind_def
      OBJECT_STORE_MOUNT_KIND_def LEGACY_S3_MOUNT_KIND_def)

theorem normalized_intent_is_stable_witness:
  "normalized reference_env normal_sample = Inr normal_sample \<and> normal_sample \<noteq> sample_intent"
  using normalized_intent_is_stable [OF sample_normalizes]
  by (simp add: normal_sample_def sample_intent_def)

text \<open>
  The price of a valid intent is settled: its two legs are whole minor units whose sum does not
  overflow, a price other than zero names a payment rail, the rail \<open>none\<close> means free, Stripe charges
  in dollars and Lightning never does.
\<close>

theorem valid_intent_has_settled_price:
  assumes "intent_validate_authoring cs i = Inr ()"
  shows "\<exists>b s. requested_price_schedule i = Inr (b, s) \<and> unat b + unat s < 2 ^ 64 \<and>
    whole_minor_units b \<and> whole_minor_units s \<and>
    (pi_settlement_method i = None \<or> pi_settlement_method i = Some PsNone \<longrightarrow> b = 0 \<and> s = 0) \<and>
    (pi_settlement_method i = Some PsStripe \<longrightarrow> pi_price_currency i = Some CurUsd) \<and>
    (pi_settlement_method i = Some PsLightning \<longrightarrow> pi_price_currency i \<noteq> Some CurUsd)"
proof -
  from assms have c: "check_payment i = Inr ()"
    by (simp add: intent_validate_authoring_def result_simps split: if_splits)
  then obtain b s where p: "requested_price_schedule i = Inr (b, s)"
    by (auto simp: check_payment_def result_simps)
  have free: "b = 0 \<and> s = 0" if "b + s = 0" "unat b + unat s < 2 ^ 64" for b s :: u64
  proof -
    from that(2) have "unat (b + s) = unat b + unat s" by (simp add: unat_add_lem [symmetric])
    with that(1) have "unat b + unat s = 0" by simp
    then show ?thesis by (simp add: unat_eq_zero)
  qed
  from c p obtain t where t: "checked_add b s = Some t" by (auto simp: check_payment_def result_simps)
  then have sum: "t = b + s" "unat b + unat s < 2 ^ 64" by (auto simp: checked_add_def split: if_splits)
  from c p t have "whole_minor_units b \<and> whole_minor_units s \<and>
    (pi_settlement_method i = None \<longrightarrow> t = 0) \<and>
    (pi_settlement_method i = Some PsStripe \<longrightarrow> pi_price_currency i = Some CurUsd) \<and>
    (pi_settlement_method i = Some PsLightning \<longrightarrow> pi_price_currency i \<noteq> Some CurUsd)"
    by (auto simp: check_payment_def result_simps split: if_splits)
  moreover from p have "pi_settlement_method i = Some PsNone \<longrightarrow> b = 0 \<and> s = 0"
    by (auto simp: requested_price_schedule_def)
  ultimately show ?thesis using p free [of b s] sum by (intro exI [of _ b] exI [of _ s]) auto
qed

theorem valid_intent_has_settled_price_witness:
  "\<exists>b s. requested_price_schedule normal_sample = Inr (b, s) \<and> whole_minor_units s"
  using valid_intent_has_settled_price [OF normal_sample_valid [of reference_env]] by blast

end
