(* ===== verification/Float64.thy ===== *)
theory Float64
  imports Prelude
begin

text \<open>
  The IEEE 754 doubles (\<open>f64\<close>) the data-query sources read and write, by their 64 bits: the
  classification \<open>is_finite\<close>, the comparison \<open>==\<close>, rounding to nearest with ties to even, the
  conversion of integers (\<open>as f64\<close>) and \<open>str::parse::<f64>\<close> with the grammar of the standard
  library.
\<close>

type_synonym f64 = "64 word"

section \<open>Definitions\<close>

definition f64_magnitude :: "f64 \<Rightarrow> nat" where
  "f64_magnitude w = unat w mod 2 ^ 63"

definition f64_infinite_magnitude :: nat where
  "f64_infinite_magnitude = 2047 * 2 ^ 52"

definition is_finite_f64 :: "f64 \<Rightarrow> bool" where
  "is_finite_f64 w = (f64_magnitude w < f64_infinite_magnitude)"

definition is_nan_f64 :: "f64 \<Rightarrow> bool" where
  "is_nan_f64 w = (f64_infinite_magnitude < f64_magnitude w)"

definition f64_eq :: "f64 \<Rightarrow> f64 \<Rightarrow> bool" where
  "f64_eq a b = (\<not> is_nan_f64 a \<and> \<not> is_nan_f64 b \<and>
     (a = b \<or> f64_magnitude a = 0 \<and> f64_magnitude b = 0))"

definition f64_with_sign :: "bool \<Rightarrow> nat \<Rightarrow> f64" where
  "f64_with_sign negative magnitude = of_nat (magnitude + (if negative then 2 ^ 63 else 0))"

fun bit_length :: "nat \<Rightarrow> nat" where
  "bit_length n = (if n = 0 then 0 else Suc (bit_length (n div 2)))"

declare bit_length.simps [simp del]

definition round_half_even :: "nat \<Rightarrow> nat \<Rightarrow> nat" where
  "round_half_even n d =
     (let q = n div d; r = n mod d
      in if 2 * r < d \<or> 2 * r = d \<and> even q then q else Suc q)"

text \<open>The exponent of the leading bit of the positive fraction \<open>n / d\<close>.\<close>

definition binary_exponent :: "nat \<Rightarrow> nat \<Rightarrow> int" where
  "binary_exponent n d =
     (let k = int (bit_length n) - int (bit_length d)
      in if d * 2 ^ nat k \<le> n * 2 ^ nat (- k) then k else k - 1)"

text \<open>
  The magnitude of the double nearest to \<open>n / d\<close>. The quantum is \<open>2 ^ (e - 52)\<close> with the exponent
  held at \<open>-1022\<close> for subnormal numbers; a significand that rounds up to \<open>2 ^ 53\<close> carries into
  the exponent field by the addition itself.
\<close>

definition f64_round :: "nat \<Rightarrow> nat \<Rightarrow> nat" where
  "f64_round n d =
     (if n = 0 then 0
      else
        let e = max (binary_exponent n d) (- 1022);
            q = e - 52;
            m = round_half_even (n * 2 ^ nat (- q)) (d * 2 ^ nat q)
        in min (nat (e + 1022) * 2 ^ 52 + m) f64_infinite_magnitude)"

definition f64_of_int :: "int \<Rightarrow> f64" where
  "f64_of_int i = f64_with_sign (i < 0) (f64_round (nat \<bar>i\<bar>) 1)"

definition is_exponent_mark :: "char \<Rightarrow> bool" where
  "is_exponent_mark c = (c = CHR ''e'' \<or> c = CHR ''E'')"

definition parse_exponent :: "string \<Rightarrow> int option" where
  "parse_exponent s =
     (case s of
        [] \<Rightarrow> None
      | c # r \<Rightarrow>
          if c = CHR ''-'' then map_option (\<lambda>n. - int n) (parse_digits r)
          else if c = CHR ''+'' then map_option int (parse_digits r)
          else map_option int (parse_digits s))"

definition parse_decimal :: "string \<Rightarrow> nat option" where
  "parse_decimal s =
     (let mantissa = takeWhile (Not \<circ> is_exponent_mark) s;
          rest = dropWhile (Not \<circ> is_exponent_mark) s;
          whole = takeWhile is_ascii_digit mantissa;
          tail = dropWhile is_ascii_digit mantissa;
          fraction = (case tail of [] \<Rightarrow> [] | _ # f \<Rightarrow> f);
          exponent = (case rest of [] \<Rightarrow> Some 0 | _ # e \<Rightarrow> parse_exponent e)
      in if \<not> (tail = [] \<or> hd tail = CHR ''.'') \<or> \<not> list_all is_ascii_digit fraction \<or>
            whole @ fraction = [] then None
         else map_option (\<lambda>e.
             let scale = e - int (length fraction)
             in f64_round (digits_value (whole @ fraction) * 10 ^ nat scale) (10 ^ nat (- scale)))
           exponent)"

definition parse_f64_magnitude :: "string \<Rightarrow> nat option" where
  "parse_f64_magnitude s =
     (if to_ascii_lowercase s = ''inf'' \<or> to_ascii_lowercase s = ''infinity''
      then Some f64_infinite_magnitude
      else if to_ascii_lowercase s = ''nan'' then Some (f64_infinite_magnitude + 2 ^ 51)
      else parse_decimal s)"

definition parse_f64 :: "string \<Rightarrow> f64 option" where
  "parse_f64 s =
     (case s of
        [] \<Rightarrow> None
      | c # r \<Rightarrow>
          if c = CHR ''-'' then map_option (f64_with_sign True) (parse_f64_magnitude r)
          else if c = CHR ''+'' then map_option (f64_with_sign False) (parse_f64_magnitude r)
          else map_option (f64_with_sign False) (parse_f64_magnitude s))"

section \<open>Lemmas\<close>

lemma f64_round_bounded: "f64_round n d \<le> f64_infinite_magnitude"
  by (simp add: f64_round_def Let_def)

lemma f64_magnitude_with_sign:
  "m < 2 ^ 63 \<Longrightarrow> f64_magnitude (f64_with_sign negative m) = m"
  unfolding f64_magnitude_def f64_with_sign_def unat_of_nat by (cases negative) simp_all

lemma f64_infinite_magnitude_small: "f64_infinite_magnitude < 2 ^ 63"
  by (simp add: f64_infinite_magnitude_def)

lemma f64_of_int_not_nan: "\<not> is_nan_f64 (f64_of_int i)"
  using f64_round_bounded [of "nat \<bar>i\<bar>" 1] f64_infinite_magnitude_small
  by (simp add: is_nan_f64_def f64_of_int_def f64_magnitude_with_sign)

lemma f64_eq_refl: "is_finite_f64 a \<Longrightarrow> f64_eq a a"
  by (simp add: is_finite_f64_def f64_eq_def is_nan_f64_def)

end
