(* ===== verification/Csv_Source.thy ===== *)
theory Csv_Source
  imports Float64 Publication_Types
begin

text \<open>
  CSV sources of the data service (\<open>src/src/builtins/data_query.rs\<close>): the record parser
  \<open>CsvRecords\<close>, the typed cells, the visit of all rows and the digest of the typed content. The
  parser's cursor is the rest of the bytes; every loop is a total function. The row visitor is an
  argument that threads a state, as the closure of the code does.
\<close>

section \<open>Records\<close>

definition decode_csv_field :: "bytes \<Rightarrow> string result" where
  "decode_csv_field bytes =
     (if utf8_valid bytes then Inr bytes else Inl ''CSV fields must be valid UTF-8'')"

record csv_scan =
  sc_record :: "string list"
  sc_field :: bytes
  sc_in_quotes :: bool
  sc_after_quote :: bool
  sc_field_started :: bool

definition scan_start :: csv_scan where
  "scan_start = \<lparr>sc_record = [], sc_field = [], sc_in_quotes = False, sc_after_quote = False,
     sc_field_started = False\<rparr>"

definition csv_end_field :: "csv_scan \<Rightarrow> csv_scan result" where
  "csv_end_field s = map_ok (\<lambda>field.
     s\<lparr>sc_record := sc_record s @ [field], sc_field := [], sc_after_quote := False,
       sc_field_started := False\<rparr>) (decode_csv_field (sc_field s))"

datatype csv_step = Continue csv_scan bytes | Finished "string list" bytes

definition csv_end_record :: "csv_scan \<Rightarrow> bytes \<Rightarrow> csv_step result" where
  "csv_end_record s rest = map_ok (\<lambda>s. Finished (sc_record s) rest) (csv_end_field s)"

definition csv_in_quotes :: "csv_scan \<Rightarrow> char \<Rightarrow> bytes \<Rightarrow> csv_step" where
  "csv_in_quotes s byte rest =
     (if byte = CHR 0x22 then
        if rest \<noteq> [] \<and> hd rest = CHR 0x22
        then Continue (s\<lparr>sc_field := sc_field s @ [CHR 0x22]\<rparr>) (tl rest)
        else Continue (s\<lparr>sc_in_quotes := False, sc_after_quote := True\<rparr>) rest
      else Continue (s\<lparr>sc_field := sc_field s @ [byte]\<rparr>) rest)"

definition csv_after_quote :: "csv_scan \<Rightarrow> char \<Rightarrow> bytes \<Rightarrow> csv_step result" where
  "csv_after_quote s byte rest =
     (if byte = CHR '','' then map_ok (\<lambda>s. Continue s rest) (csv_end_field s)
      else if byte = CHR 0x0A then csv_end_record s rest
      else if byte = CHR 0x0D \<and> rest \<noteq> [] \<and> hd rest = CHR 0x0A then csv_end_record s (tl rest)
      else Inl ''CSV quoted field must be followed by a comma or line ending'')"

definition csv_unquoted :: "csv_scan \<Rightarrow> char \<Rightarrow> bytes \<Rightarrow> csv_step result" where
  "csv_unquoted s byte rest =
     (if byte = CHR 0x22 then
        if \<not> sc_field_started s \<and> sc_field s = []
        then Inr (Continue (s\<lparr>sc_in_quotes := True, sc_field_started := True\<rparr>) rest)
        else Inl ''CSV quote appeared inside an unquoted field''
      else if byte = CHR '','' then map_ok (\<lambda>s. Continue s rest) (csv_end_field s)
      else if byte = CHR 0x0A then csv_end_record s rest
      else if byte = CHR 0x0D then
        if rest \<noteq> [] \<and> hd rest = CHR 0x0A then csv_end_record s (tl rest)
        else Inl ''CSV uses a bare carriage return''
      else Inr (Continue (s\<lparr>sc_field := sc_field s @ [byte], sc_field_started := True\<rparr>) rest))"

text \<open>One turn of the loop on the byte at the cursor, without the length check at its end.\<close>

definition csv_turn :: "csv_scan \<Rightarrow> char \<Rightarrow> bytes \<Rightarrow> csv_step result" where
  "csv_turn s byte rest =
     (if sc_in_quotes s then Inr (csv_in_quotes s byte rest)
      else if sc_after_quote s then csv_after_quote s byte rest
      else csv_unquoted s byte rest)"

lemma csv_turn_Continue: "csv_turn s byte rest = Inr (Continue s' r) \<Longrightarrow> length r \<le> length rest"
  by (auto simp: csv_turn_def csv_in_quotes_def csv_after_quote_def csv_unquoted_def csv_end_record_def
      split: if_splits)

lemma csv_turn_Finished: "csv_turn s byte rest = Inr (Finished row r) \<Longrightarrow> length r \<le> length rest"
  by (auto simp: csv_turn_def csv_in_quotes_def csv_after_quote_def csv_unquoted_def csv_end_record_def
      split: if_splits)

function csv_loop :: "usize \<Rightarrow> csv_scan \<Rightarrow> bytes \<Rightarrow> (string list \<times> bytes) result" where
  "csv_loop max_cell_bytes s [] =
     (if sc_in_quotes s then Inl ''CSV ended inside a quoted field''
      else map_ok (\<lambda>s. (sc_record s, [])) (csv_end_field s))"
| "csv_loop max_cell_bytes s (byte # rest) =
     (case csv_turn s byte rest of
        Inl e \<Rightarrow> Inl e
      | Inr (Finished record rest) \<Rightarrow> Inr (record, rest)
      | Inr (Continue s rest) \<Rightarrow>
          if length (sc_field s) > unat max_cell_bytes
          then Inl (''CSV cell exceeds '' @ nat_digits (unat max_cell_bytes) @ '' byte limit'')
          else csv_loop max_cell_bytes s rest)"
  by pat_completeness auto
termination
  by (relation "measure (\<lambda>(_, _, rest). length rest)") (auto dest: csv_turn_Continue)

definition next_record :: "usize \<Rightarrow> bytes \<Rightarrow> (string list \<times> bytes) option result" where
  "next_record max_cell_bytes rest =
     (if rest = [] then Inr None
      else map_ok Some (csv_loop max_cell_bytes scan_start rest))"

lemma csv_loop_consumes:
  "csv_loop m s rest = Inr (row, r) \<Longrightarrow> length r \<le> length rest - 1"
proof (induction m s rest rule: csv_loop.induct)
  case (2 m s byte rest)
  show ?case
  proof (cases "csv_turn s byte rest")
    case (Inr step)
    then show ?thesis
    proof (cases step)
      case (Continue s' rest')
      with 2 Inr csv_turn_Continue [of s byte rest s' rest'] show ?thesis
        by (auto split: if_splits)
    next
      case (Finished row' rest')
      with 2 Inr csv_turn_Finished [of s byte rest row' rest'] show ?thesis by simp
    qed
  qed (use 2 in simp)
qed (auto split: if_splits)

lemma next_record_consumes:
  "next_record m rest = Inr (Some (row, r)) \<Longrightarrow> length r < length rest"
  using csv_loop_consumes [of m scan_start rest row r]
  by (cases rest) (auto simp: next_record_def)

section \<open>Cells\<close>

datatype sql_cell = CellNull | CellInteger i64 | CellReal f64 | CellText string | CellBlob bytes

fun csv_sql_type :: "publication_csv_column_type \<Rightarrow> string" where
  "csv_sql_type CtString = ''TEXT''"
| "csv_sql_type CtInteger = ''INTEGER''"
| "csv_sql_type CtBoolean = ''INTEGER''"
| "csv_sql_type CtNumber = ''REAL''"

definition csv_cell_to_sql :: "string \<Rightarrow> publication_csv_column \<Rightarrow> message + sql_cell" where
  "csv_cell_to_sql value column =
     (if value = [] \<and> col_nullable column then Inr CellNull
      else
        (case col_type column of
           CtString \<Rightarrow> Inr (CellText value)
         | CtInteger \<Rightarrow>
             ok_or (MsgDebug ''CSV column '' (col_name column) '' requires an i64 integer'')
               (map_option CellInteger (parse_i64 value))
         | CtNumber \<Rightarrow>
             and_then
               (ok_or (MsgDebug ''CSV column '' (col_name column) '' requires a finite number'')
                  (parse_f64 value)) (\<lambda>value.
             if is_finite_f64 value then Inr (CellReal value)
             else Inl (MsgDebug ''CSV column '' (col_name column) '' requires a finite number''))
         | CtBoolean \<Rightarrow>
             if value = ''true'' then Inr (CellInteger 1)
             else if value = ''false'' then Inr (CellInteger 0)
             else Inl (MsgDebug ''CSV column '' (col_name column) '' requires true or false'')))"

fun collect_ok :: "('e + 'a) list \<Rightarrow> 'e + 'a list" where
  "collect_ok [] = Inr []"
| "collect_ok (r # rs) = and_then r (\<lambda>x. map_ok ((#) x) (collect_ok rs))"

definition csv_row_to_sql ::
  "string list \<Rightarrow> publication_csv_column list \<Rightarrow> message + sql_cell list" where
  "csv_row_to_sql record columns = collect_ok (map2 csv_cell_to_sql record columns)"

section \<open>Rows\<close>

record data_query_limits =
  dl_max_json_bytes :: usize
  dl_max_json_rows :: usize
  dl_max_csv_bytes :: usize
  dl_max_csv_rows :: usize
  dl_max_collections :: usize
  dl_max_columns_per_collection :: usize
  dl_max_query_columns :: usize
  dl_max_equality_filters :: usize
  dl_max_rows_per_query :: usize
  dl_max_offset :: usize
  dl_max_cell_bytes :: usize
  dl_max_result_bytes :: usize
  dl_max_query_ms :: u64

text \<open>
  The loop over the records after the header. The visitor gets the number of the row and its
  cells, and a state that it may update.
\<close>

function visit_rows ::
  "data_query_limits \<Rightarrow> publication_csv_column list \<Rightarrow> (usize \<Rightarrow> sql_cell list \<Rightarrow> 's \<Rightarrow> message + 's)
    \<Rightarrow> usize \<Rightarrow> 's \<Rightarrow> bytes \<Rightarrow> message + usize \<times> 's" where
  "visit_rows limits columns visit row_count st rest =
     (case next_record (dl_max_cell_bytes limits) rest of
        Inl e \<Rightarrow> Inl (Msg e)
      | Inr None \<Rightarrow> Inr (row_count, st)
      | Inr (Some (row, rest)) \<Rightarrow>
          if length row \<noteq> length columns
          then Inl (Msg (''CSV row '' @ nat_digits (unat row_count + 2) @ '' has '' @
            nat_digits (length row) @ '' cells; expected '' @ nat_digits (length columns)))
          else
            (case checked_add row_count 1 of
               None \<Rightarrow> Inl (Msg ''CSV row count overflow'')
             | Some row_count \<Rightarrow>
                 if row_count > dl_max_csv_rows limits
                 then Inl (Msg (''CSV data source exceeds '' @
                   nat_digits (unat (dl_max_csv_rows limits)) @ '' row limit''))
                 else
                   (case csv_row_to_sql row columns of
                      Inl e \<Rightarrow> Inl e
                    | Inr values \<Rightarrow>
                        (case visit row_count values st of
                           Inl e \<Rightarrow> Inl e
                         | Inr st \<Rightarrow> visit_rows limits columns visit row_count st rest))))"
  by pat_completeness auto
termination
  by (relation "measure (\<lambda>(_, _, _, _, _, rest). length rest)") (auto dest: next_record_consumes)

declare visit_rows.simps [simp del]

definition visit_csv_rows ::
  "bytes \<Rightarrow> publication_csv_schema \<Rightarrow> data_query_limits
    \<Rightarrow> (usize \<Rightarrow> sql_cell list \<Rightarrow> 's \<Rightarrow> message + 's) \<Rightarrow> 's \<Rightarrow> message + usize \<times> 's" where
  "visit_csv_rows source_bytes schema limits visit st =
     and_then (map_err Msg (next_record (dl_max_cell_bytes limits) source_bytes)) (\<lambda>first.
     and_then (ok_or (Msg ''CSV data source is empty'') first) (\<lambda>(header, rest).
     let expected_header = map col_name (csv_columns schema)
     in if header \<noteq> expected_header
        then Inl (MsgDebugs ''CSV header does not match explicit schema; expected '' expected_header)
        else visit_rows limits (csv_columns schema) visit 0 st rest))"

section \<open>The digest of the typed content\<close>

definition CSV_CACHE_CONTENT_DIGEST_DOMAIN :: bytes where
  "CSV_CACHE_CONTENT_DIGEST_DOMAIN = ''froglet.csv-query-cache.content.v1'' @ [CHR 0x00]"

definition u64_to_be_bytes :: "u64 \<Rightarrow> bytes" where
  "u64_to_be_bytes w = map (\<lambda>i. char_of (unat w div 256 ^ (7 - i) mod 256)) [0..<8]"

definition canonical_csv_f64_bits :: "f64 \<Rightarrow> u64" where
  "canonical_csv_f64_bits value = (if f64_eq value 0 then 0 else value)"

text \<open>The hasher is represented by the bytes it has been fed.\<close>

definition update_digest_bytes :: "bytes \<Rightarrow> bytes \<Rightarrow> bytes" where
  "update_digest_bytes hasher bytes = hasher @ u64_to_be_bytes (of_nat (length bytes)) @ bytes"

definition csv_content_digest_new :: "(publication_csv_schema \<Rightarrow> bytes result) \<Rightarrow> string
    \<Rightarrow> publication_csv_schema \<Rightarrow> message + bytes" where
  "csv_content_digest_new schema_to_vec package_digest schema =
     map_ok (\<lambda>schema_json.
         update_digest_bytes (update_digest_bytes CSV_CACHE_CONTENT_DIGEST_DOMAIN package_digest)
           schema_json)
       (map_err (\<lambda>e. Msg (''failed to encode CSV schema for cache binding: '' @ e))
         (schema_to_vec schema))"

fun digest_cell :: "sql_cell \<Rightarrow> bytes \<Rightarrow> bytes" where
  "digest_cell CellNull hasher = hasher @ [CHR 0x00]"
| "digest_cell (CellInteger value) hasher = hasher @ CHR 0x01 # u64_to_be_bytes (word_of_int value)"
| "digest_cell (CellReal value) hasher =
     hasher @ CHR 0x02 # u64_to_be_bytes (canonical_csv_f64_bits value)"
| "digest_cell (CellText value) hasher = update_digest_bytes (hasher @ [CHR 0x03]) value"
| "digest_cell (CellBlob value) hasher = update_digest_bytes (hasher @ [CHR 0x04]) value"

definition update_owned_row :: "sql_cell list \<Rightarrow> bytes \<Rightarrow> bytes" where
  "update_owned_row values hasher =
     fold digest_cell values (hasher @ CHR 0x52 # u64_to_be_bytes (of_nat (length values)))"

text \<open>The variant for the borrowed values of a query does the same on the same data.\<close>

definition update_borrowed_row :: "sql_cell list \<Rightarrow> bytes \<Rightarrow> bytes" where
  "update_borrowed_row values hasher =
     fold digest_cell values (hasher @ CHR 0x52 # u64_to_be_bytes (of_nat (length values)))"

definition csv_content_digest_finish :: "crypto_env \<Rightarrow> bytes \<Rightarrow> usize \<Rightarrow> string" where
  "csv_content_digest_finish cs hasher row_count =
     sha256_hex cs (hasher @ CHR 0x45 # u64_to_be_bytes row_count)"

definition CSV_CACHE_SCHEMA_V2 :: string where
  "CSV_CACHE_SCHEMA_V2 = ''froglet.csv-query-cache.v2''"

record csv_cache_metadata =
  cm_schema_version :: string
  cm_package_digest :: string
  cm_row_count :: usize
  cm_content_digest :: string
  cm_schema :: publication_csv_schema

definition inspect_csv_source ::
  "crypto_env \<Rightarrow> (publication_csv_schema \<Rightarrow> bytes result) \<Rightarrow> bytes \<Rightarrow> publication_csv_schema \<Rightarrow> string
    \<Rightarrow> data_query_limits \<Rightarrow> message + csv_cache_metadata" where
  "inspect_csv_source cs schema_to_vec source_bytes schema package_digest limits =
     and_then (csv_content_digest_new schema_to_vec package_digest schema) (\<lambda>digest.
     and_then (visit_csv_rows source_bytes schema limits
         (\<lambda>_ values digest. Inr (update_owned_row values digest)) digest) (\<lambda>(row_count, digest).
     Inr \<lparr>cm_schema_version = CSV_CACHE_SCHEMA_V2, cm_package_digest = package_digest,
          cm_row_count = row_count,
          cm_content_digest = csv_content_digest_finish cs digest row_count,
          cm_schema = schema\<rparr>))"

end
