(* ===== verification/Csv_Round_Trip.thy ===== *)
theory Csv_Round_Trip
  imports Csv_Source
begin

text \<open>
  What the CSV parser accepts and returns. A reference writer renders records with any mix of
  quoted and plain fields and either line ending; the parser reads every document it writes back
  field by field. Typed rows fit their columns, and parsing always ends.
\<close>

section \<open>The reference writer\<close>

fun escape_quotes :: "string \<Rightarrow> bytes" where
  "escape_quotes [] = []"
| "escape_quotes (c # s) = (if c = CHR 0x22 then [CHR 0x22, CHR 0x22] else [c]) @ escape_quotes s"

text \<open>A field and whether it is written in quotes.\<close>

type_synonym csv_field = "bool \<times> string"

definition render_field :: "csv_field \<Rightarrow> bytes" where
  "render_field f = (if fst f then CHR 0x22 # escape_quotes (snd f) @ [CHR 0x22] else snd f)"

fun render_fields :: "csv_field list \<Rightarrow> bytes" where
  "render_fields [] = []"
| "render_fields [f] = render_field f"
| "render_fields (f # fs) = render_field f @ CHR '','' # render_fields fs"

text \<open>A record and whether its line ends with a carriage return.\<close>

definition render_record :: "bool \<times> csv_field list \<Rightarrow> bytes" where
  "render_record r = render_fields (snd r) @ (if fst r then [CHR 0x0D, CHR 0x0A] else [CHR 0x0A])"

definition plain_char :: "char \<Rightarrow> bool" where
  "plain_char c \<longleftrightarrow> c \<noteq> CHR 0x22 \<and> c \<noteq> CHR '','' \<and> c \<noteq> CHR 0x0A \<and> c \<noteq> CHR 0x0D"

definition writable_field :: "usize \<Rightarrow> csv_field \<Rightarrow> bool" where
  "writable_field m f \<longleftrightarrow> utf8_valid (snd f) \<and> length (snd f) \<le> unat m \<and>
     (\<not> fst f \<longrightarrow> list_all plain_char (snd f))"

definition writable_record :: "usize \<Rightarrow> bool \<times> csv_field list \<Rightarrow> bool" where
  "writable_record m r \<longleftrightarrow> snd r \<noteq> [] \<and> list_all (writable_field m) (snd r)"

section \<open>One field\<close>

lemma csv_loop_plain:
  "\<lbrakk>list_all plain_char t; \<not> sc_in_quotes s; \<not> sc_after_quote s;
    length (sc_field s @ t) \<le> unat m\<rbrakk>
   \<Longrightarrow> csv_loop m s (t @ rest) =
     csv_loop m (s\<lparr>sc_field := sc_field s @ t, sc_field_started := sc_field_started s \<or> t \<noteq> []\<rparr>) rest"
proof (induction t arbitrary: s)
  case (Cons c t)
  have "csv_turn s c (t @ rest) =
      Inr (Continue (s\<lparr>sc_field := sc_field s @ [c], sc_field_started := True\<rparr>) (t @ rest))"
    using Cons.prems by (simp add: csv_turn_def csv_unquoted_def plain_char_def)
  with Cons.prems Cons.IH [of "s\<lparr>sc_field := sc_field s @ [c], sc_field_started := True\<rparr>"]
  show ?case by simp
qed simp

lemma csv_loop_quoted:
  "\<lbrakk>sc_in_quotes s; rest \<noteq> []; hd rest \<noteq> CHR 0x22; length (sc_field s @ t) \<le> unat m\<rbrakk>
   \<Longrightarrow> csv_loop m s (escape_quotes t @ CHR 0x22 # rest) =
     csv_loop m (s\<lparr>sc_field := sc_field s @ t, sc_in_quotes := False, sc_after_quote := True\<rparr>) rest"
proof (induction t arbitrary: s)
  case Nil
  then show ?case by (simp add: csv_turn_def csv_in_quotes_def)
next
  case (Cons c t)
  have "csv_loop m s (escape_quotes (c # t) @ CHR 0x22 # rest) =
      csv_loop m (s\<lparr>sc_field := sc_field s @ [c]\<rparr>) (escape_quotes t @ CHR 0x22 # rest)"
    using Cons.prems by (simp add: csv_turn_def csv_in_quotes_def)
  with Cons.prems Cons.IH [of "s\<lparr>sc_field := sc_field s @ [c]\<rparr>"] show ?case by simp
qed

definition field_start :: "string list \<Rightarrow> csv_scan" where
  "field_start prior = scan_start\<lparr>sc_record := prior\<rparr>"

definition field_read :: "csv_field \<Rightarrow> string list \<Rightarrow> csv_scan" where
  "field_read f prior = \<lparr>sc_record = prior, sc_field = snd f, sc_in_quotes = False,
     sc_after_quote = fst f, sc_field_started = (fst f \<or> snd f \<noteq> [])\<rparr>"

lemma csv_loop_field:
  assumes "writable_field m f" and "rest \<noteq> []" and "hd rest \<noteq> CHR 0x22"
  shows "csv_loop m (field_start prior) (render_field f @ rest) = csv_loop m (field_read f prior) rest"
proof (cases "fst f")
  case True
  have "csv_turn (field_start prior) (CHR 0x22) r =
      Inr (Continue ((field_start prior)\<lparr>sc_in_quotes := True, sc_field_started := True\<rparr>) r)" for r
    by (simp add: csv_turn_def csv_unquoted_def field_start_def scan_start_def)
  then have "csv_loop m (field_start prior) (render_field f @ rest) =
      csv_loop m ((field_start prior)\<lparr>sc_in_quotes := True, sc_field_started := True\<rparr>)
        (escape_quotes (snd f) @ CHR 0x22 # rest)"
    using True by (simp add: render_field_def field_start_def scan_start_def)
  also have "\<dots> = csv_loop m (field_read f prior) rest"
    using assms True by (subst csv_loop_quoted)
      (simp_all add: field_start_def scan_start_def field_read_def writable_field_def)
  finally show ?thesis .
next
  case False
  with assms(1) show ?thesis
    by (simp add: render_field_def csv_loop_plain field_start_def scan_start_def field_read_def
        writable_field_def)
qed

lemma csv_loop_separator:
  assumes "writable_field m f"
  shows "csv_loop m (field_read f prior) (CHR '','' # rest) =
      csv_loop m (field_start (prior @ [snd f])) rest"
    and "csv_loop m (field_read f prior) (CHR 0x0A # rest) = Inr (prior @ [snd f], rest)"
    and "csv_loop m (field_read f prior) (CHR 0x0D # CHR 0x0A # rest) = Inr (prior @ [snd f], rest)"
  using assms
  by (simp_all add: field_read_def csv_turn_def csv_after_quote_def csv_unquoted_def csv_end_field_def
      csv_end_record_def decode_csv_field_def writable_field_def field_start_def scan_start_def)

section \<open>Records and documents\<close>

lemma csv_loop_record:
  "\<lbrakk>fs \<noteq> []; list_all (writable_field m) fs\<rbrakk>
   \<Longrightarrow> csv_loop m (field_start prior) (render_record (crlf, fs) @ rest) =
     Inr (prior @ map snd fs, rest)"
proof (induction fs arbitrary: prior rule: render_fields.induct)
  case (2 f)
  then show ?case
    by (simp add: render_record_def csv_loop_field csv_loop_separator del: csv_loop.simps)
next
  case (3 f g fs)
  have "csv_loop m (field_start prior) (render_record (crlf, f # g # fs) @ rest) =
      csv_loop m (field_start prior)
        (render_field f @ (CHR '','' # render_record (crlf, g # fs) @ rest))"
    by (simp add: render_record_def)
  also have "\<dots> = csv_loop m (field_start (prior @ [snd f])) (render_record (crlf, g # fs) @ rest)"
    using 3 by (subst csv_loop_field) (simp_all add: csv_loop_separator del: csv_loop.simps)
  finally show ?case using 3 by simp
qed simp

lemma next_record_reads:
  assumes "writable_record m r"
  shows "next_record m (render_record r @ rest) = Inr (Some (map snd (snd r), rest))"
proof -
  have "render_record r @ rest \<noteq> []" by (simp add: render_record_def)
  moreover have "csv_loop m (field_start []) (render_record (fst r, snd r) @ rest) =
      Inr ([] @ map snd (snd r), rest)"
    using assms by (intro csv_loop_record) (auto simp: writable_record_def)
  moreover have "field_start [] = scan_start" by (simp add: field_start_def scan_start_def)
  ultimately show ?thesis by (simp add: next_record_def)
qed

definition render_document :: "(bool \<times> csv_field list) list \<Rightarrow> bytes" where
  "render_document rs = concat (map render_record rs)"

text \<open>The visitor that keeps the rows it is given.\<close>

definition keep_rows :: "usize \<Rightarrow> sql_cell list \<Rightarrow> sql_cell list list \<Rightarrow> message + sql_cell list list" where
  "keep_rows n values rows = Inr (rows @ [values])"

definition typed_record :: "publication_csv_column list \<Rightarrow> bool \<times> csv_field list \<Rightarrow> bool" where
  "typed_record columns r \<longleftrightarrow> length (snd r) = length columns \<and>
     is_ok (csv_row_to_sql (map snd (snd r)) columns)"

definition typed_values ::
  "publication_csv_column list \<Rightarrow> bool \<times> csv_field list \<Rightarrow> sql_cell list" where
  "typed_values columns r = projr (csv_row_to_sql (map snd (snd r)) columns)"

lemma visit_rows_reads:
  "\<lbrakk>list_all (writable_record (dl_max_cell_bytes limits)) rs; list_all (typed_record columns) rs;
    unat n + length rs \<le> unat (dl_max_csv_rows limits)\<rbrakk>
   \<Longrightarrow> visit_rows limits columns keep_rows n rows (render_document rs) =
     Inr (n + of_nat (length rs), rows @ map (typed_values columns) rs)"
proof (induction rs arbitrary: n rows)
  case Nil
  then show ?case
    by (subst visit_rows.simps) (simp add: render_document_def next_record_def)
next
  case (Cons r rs)
  then have lim: "unat n + 1 \<le> unat (dl_max_csv_rows limits)" by simp
  have small: "unat n + 1 < 2 ^ 64"
    using lim unsigned_less [of "dl_max_csv_rows limits", where ?'a = nat] by simp
  then have n1: "unat (n + 1) = unat n + 1" by (simp add: unat_add_lem [THEN iffD1])
  then have add: "checked_add n 1 = Some (n + 1)" using small by (simp add: checked_add_def)
  obtain vs where v: "csv_row_to_sql (map snd (snd r)) columns = Inr vs"
    using Cons.prems(2) by (cases "csv_row_to_sql (map snd (snd r)) columns") (auto simp: typed_record_def)
  have "visit_rows limits columns keep_rows n rows (render_document (r # rs)) =
      visit_rows limits columns keep_rows (n + 1) (rows @ [vs]) (render_document rs)"
    using Cons.prems add v n1 lim
    by (subst visit_rows.simps)
      (simp add: render_document_def next_record_reads typed_record_def keep_rows_def word_less_nat_alt)
  also have "\<dots> = Inr (n + 1 + of_nat (length rs), rows @ [vs] @ map (typed_values columns) rs)"
    using Cons.IH [of "n + 1" "rows @ [vs]"] Cons.prems n1 by simp
  finally show ?case using v by (simp add: typed_values_def)
qed

lemma visit_document:
  assumes "writable_record (dl_max_cell_bytes limits) header"
    and "map snd (snd header) = map col_name (csv_columns schema)"
  shows "visit_csv_rows (render_document (header # rs)) schema limits visit st =
    visit_rows limits (csv_columns schema) visit 0 st (render_document rs)"
  using next_record_reads [OF assms(1)] assms(2)
  by (simp add: visit_csv_rows_def render_document_def)

text \<open>
  C30. A CSV document written by the reference writer, with any mix of quoted and plain fields and
  of line endings, is read back exactly: when its header names the columns and its fields fit
  them and the limits, the visit hands over one typed row per record, in order, each the typed
  form of the fields that were written.
\<close>

theorem written_csv_reads_back:
  assumes "list_all (writable_record (dl_max_cell_bytes limits)) (header # rs)"
    and "map snd (snd header) = map col_name (csv_columns schema)"
    and "list_all (typed_record (csv_columns schema)) rs"
    and "length rs \<le> unat (dl_max_csv_rows limits)"
  shows "visit_csv_rows (render_document (header # rs)) schema limits keep_rows [] =
    Inr (of_nat (length rs), map (typed_values (csv_columns schema)) rs)"
  using assms visit_rows_reads [of limits rs "csv_columns schema" 0 "[]"]
  by (simp add: visit_document)

section \<open>Typed rows\<close>

text \<open>The cells a column may hold.\<close>

definition cell_fits :: "publication_csv_column \<Rightarrow> sql_cell \<Rightarrow> bool" where
  "cell_fits column cell =
     (case cell of
        CellNull \<Rightarrow> col_nullable column
      | CellInteger i \<Rightarrow> col_type column = CtInteger \<and> in_i64 i \<or>
          col_type column = CtBoolean \<and> (i = 0 \<or> i = 1)
      | CellReal x \<Rightarrow> col_type column = CtNumber \<and> is_finite_f64 x
      | CellText s \<Rightarrow> col_type column = CtString \<and> (s = [] \<longrightarrow> \<not> col_nullable column)
      | CellBlob b \<Rightarrow> False)"

lemma parse_i64_in_range: "parse_i64 s = Some i \<Longrightarrow> in_i64 i"
  by (auto simp: parse_i64_def in_i64_def Let_def split: if_splits option.splits)

lemma csv_cell_fits: "csv_cell_to_sql v column = Inr cell \<Longrightarrow> cell_fits column cell"
  by (auto simp: csv_cell_to_sql_def cell_fits_def result_simps dest: parse_i64_in_range
      split: if_splits publication_csv_column_type.splits)

lemma csv_cell_text: "csv_cell_to_sql v column = Inr (CellText s) \<Longrightarrow> s = v"
  by (auto simp: csv_cell_to_sql_def result_simps split: if_splits publication_csv_column_type.splits)

lemma collect_ok_Inr: "collect_ok rs = Inr xs \<longleftrightarrow> list_all2 (\<lambda>r x. r = Inr x) rs xs"
  by (induction rs arbitrary: xs) (auto simp: list_all2_Cons1 result_simps)

lemma csv_row_fits:
  assumes "csv_row_to_sql row columns = Inr vs" and "length row = length columns"
  shows "list_all2 cell_fits columns vs"
proof -
  have "list_all2 (\<lambda>r x. r = Inr x) (map2 csv_cell_to_sql row columns) vs"
    using assms(1) by (simp add: csv_row_to_sql_def collect_ok_Inr)
  with assms(2) show ?thesis
    by (auto simp: list_all2_conv_all_nth intro: csv_cell_fits)
qed

text \<open>The rows a source consists of, and every visit as a fold over them.\<close>

definition csv_rows ::
  "bytes \<Rightarrow> publication_csv_schema \<Rightarrow> data_query_limits \<Rightarrow> message + usize \<times> sql_cell list list" where
  "csv_rows source_bytes schema limits = visit_csv_rows source_bytes schema limits keep_rows []"

lemma visit_rows_fold:
  "visit_rows limits columns (\<lambda>_ vs st. Inr (f vs st)) n (fold f rows st) rest =
     map_ok (\<lambda>(n, rows). (n, fold f rows st)) (visit_rows limits columns keep_rows n rows rest)"
proof (induction limits columns "keep_rows" n rows rest rule: visit_rows.induct)
  case (1 limits columns n rows rest)
  show ?case
  proof (cases "next_record (dl_max_cell_bytes limits) rest")
    case Inl
    then show ?thesis by (subst (1 2) visit_rows.simps) simp
  next
    case (Inr nx)
    show ?thesis
    proof (cases "\<exists>row r m vs. nx = Some (row, r) \<and> length row = length columns \<and>
        checked_add n 1 = Some m \<and> m \<le> dl_max_csv_rows limits \<and> csv_row_to_sql row columns = Inr vs")
      case True
      then obtain row r m vs where *: "nx = Some (row, r)" "length row = length columns"
        "checked_add n 1 = Some m" "m \<le> dl_max_csv_rows limits" "csv_row_to_sql row columns = Inr vs"
        by blast
      have "visit_rows limits columns (\<lambda>_ vs st. Inr (f vs st)) m (fold f (rows @ [vs]) st) r =
          map_ok (\<lambda>(n, rows). (n, fold f rows st)) (visit_rows limits columns keep_rows m (rows @ [vs]) r)"
        using 1 [of "Some (row, r)" "(row, r)" row r m vs "rows @ [vs]"] Inr * by (simp add: keep_rows_def)
      with Inr * show ?thesis
        by (subst (1 2) visit_rows.simps) (simp add: keep_rows_def)
    next
      case False
      with Inr show ?thesis
        by (subst (1 2) visit_rows.simps) (auto simp: not_less split: option.splits sum.splits)
    qed
  qed
qed

text \<open>Every field that was read is valid UTF-8 and within the cell limit.\<close>

definition field_ok :: "usize \<Rightarrow> string \<Rightarrow> bool" where
  "field_ok m f \<longleftrightarrow> utf8_valid f \<and> length f \<le> unat m"

definition scan_ok :: "usize \<Rightarrow> csv_scan \<Rightarrow> bool" where
  "scan_ok m s \<longleftrightarrow> list_all (field_ok m) (sc_record s) \<and> length (sc_field s) \<le> unat m"

lemma csv_end_field_ok: "\<lbrakk>csv_end_field s = Inr s'; scan_ok m s\<rbrakk> \<Longrightarrow> list_all (field_ok m) (sc_record s')"
  by (auto simp: csv_end_field_def decode_csv_field_def scan_ok_def field_ok_def split: if_splits)

lemma csv_turn_ok:
  assumes "scan_ok m s"
  shows "csv_turn s byte rest = Inr (Continue s' r) \<Longrightarrow> list_all (field_ok m) (sc_record s')"
    and "csv_turn s byte rest = Inr (Finished row r) \<Longrightarrow> list_all (field_ok m) row"
  using assms csv_end_field_ok [of s _ m]
  by (auto simp: csv_turn_def csv_in_quotes_def csv_after_quote_def csv_unquoted_def csv_end_record_def
      scan_ok_def split: if_splits)

lemma csv_loop_fields: "\<lbrakk>csv_loop m s rest = Inr (row, r); scan_ok m s\<rbrakk> \<Longrightarrow> list_all (field_ok m) row"
proof (induction m s rest rule: csv_loop.induct)
  case (1 m s)
  then show ?case using csv_end_field_ok by (auto split: if_splits)
next
  case (2 m s byte rest)
  from 2(2) obtain step where step: "csv_turn s byte rest = Inr step"
    by (cases "csv_turn s byte rest") auto
  show ?case
  proof (cases step)
    case (Continue s' rest')
    with 2 step csv_turn_ok(1) [OF 2(3), of byte rest s' rest'] show ?thesis
      by (auto simp: scan_ok_def split: if_splits)
  next
    case (Finished row' rest')
    with 2(2) step csv_turn_ok(2) [OF 2(3)] show ?thesis by simp
  qed
qed

lemma next_record_fields: "next_record m rest = Inr (Some (row, r)) \<Longrightarrow> list_all (field_ok m) row"
  by (auto simp: next_record_def scan_ok_def scan_start_def split: if_splits intro: csv_loop_fields)

definition cell_within :: "usize \<Rightarrow> sql_cell \<Rightarrow> bool" where
  "cell_within m cell = (case cell of CellText s \<Rightarrow> field_ok m s | _ \<Rightarrow> True)"

definition row_ok :: "usize \<Rightarrow> publication_csv_column list \<Rightarrow> sql_cell list \<Rightarrow> bool" where
  "row_ok m columns vs \<longleftrightarrow> list_all2 cell_fits columns vs \<and> list_all (cell_within m) vs"

lemma csv_row_within:
  assumes "csv_row_to_sql row columns = Inr vs" and "list_all (field_ok m) row"
  shows "list_all (cell_within m) vs"
proof -
  have *: "list_all2 (\<lambda>r x. r = Inr x) (map2 csv_cell_to_sql row columns) vs"
    using assms(1) by (simp add: csv_row_to_sql_def collect_ok_Inr)
  have "cell_within m (vs ! i)" if "i < length vs" for i
  proof -
    from * that have i: "i < length row" "csv_cell_to_sql (row ! i) (columns ! i) = Inr (vs ! i)"
      by (auto simp: list_all2_conv_all_nth min_def split: if_splits)
    with assms(2) show ?thesis
      by (auto simp: cell_within_def list_all_length dest!: csv_cell_text split: sql_cell.splits)
  qed
  then show ?thesis by (simp add: list_all_length)
qed

lemma visit_rows_keep:
  "visit_rows limits columns keep_rows n rows rest = Inr (n', rows') \<Longrightarrow>
   \<exists>new. rows' = rows @ new \<and> unat n' = unat n + length new \<and> length new \<le> length rest \<and>
     (new \<noteq> [] \<longrightarrow> n' \<le> dl_max_csv_rows limits) \<and>
     list_all (row_ok (dl_max_cell_bytes limits) columns) new"
proof (induction limits columns "keep_rows" n rows rest rule: visit_rows.induct)
  case (1 limits columns n rows rest)
  show ?case
  proof (cases "next_record (dl_max_cell_bytes limits) rest = Inr None")
    case True
    with 1(2) show ?thesis by (subst (asm) visit_rows.simps) simp
  next
    case False
    with 1(2) obtain row r m vs where *: "next_record (dl_max_cell_bytes limits) rest = Inr (Some (row, r))"
        "length row = length columns" "checked_add n 1 = Some m" "m \<le> dl_max_csv_rows limits"
        "csv_row_to_sql row columns = Inr vs"
        "visit_rows limits columns keep_rows m (rows @ [vs]) r = Inr (n', rows')"
      by (subst (asm) visit_rows.simps)
        (auto simp: not_less keep_rows_def split: sum.splits option.splits if_splits)
    obtain new where new: "rows' = (rows @ [vs]) @ new" "unat n' = unat m + length new"
        "length new \<le> length r" "new \<noteq> [] \<longrightarrow> n' \<le> dl_max_csv_rows limits"
        "list_all (row_ok (dl_max_cell_bytes limits) columns) new"
      using 1(1) [of "Some (row, r)" "(row, r)" row r m vs "rows @ [vs]"] *
      by (auto simp: keep_rows_def not_less)
    moreover have "row_ok (dl_max_cell_bytes limits) columns vs"
      using csv_row_fits [OF *(5) *(2)] csv_row_within [OF *(5) next_record_fields [OF *(1)]]
      by (simp add: row_ok_def)
    moreover have "unat m = unat n + 1" using *(3) by (auto simp: checked_add_Some)
    moreover have "n' \<le> dl_max_csv_rows limits" if "new = []"
      using that new(2) *(4) by (simp add: word_le_nat_alt)
    ultimately show ?thesis
      using next_record_consumes [OF *(1)] by (intro exI [of _ "vs # new"]) auto
  qed
qed

lemma csv_rows_keep:
  assumes "csv_rows source_bytes schema limits = Inr (n, rows)"
  obtains header rest where
    "next_record (dl_max_cell_bytes limits) source_bytes = Inr (Some (header, rest))"
    "visit_rows limits (csv_columns schema) keep_rows 0 [] rest = Inr (n, rows)"
  using assms
  by (auto simp: csv_rows_def visit_csv_rows_def result_simps Let_def split: prod.splits if_splits)

lemma csv_rows_count: "csv_rows source_bytes schema limits = Inr (n, rows) \<Longrightarrow> length rows = unat n"
  by (erule csv_rows_keep) (auto dest: visit_rows_keep)

text \<open>
  C31. Reading a CSV source ends after at most one row per byte and within the configured number
  of rows, and every row it hands over fits the schema: one cell per column, null only where the
  column is nullable, integers in the \<open>i64\<close> range, finite numbers, booleans as 0 or 1, and texts
  of valid UTF-8 within the cell limit.
\<close>

theorem csv_rows_fit_the_schema:
  assumes "csv_rows source_bytes schema limits = Inr (n, rows)"
  shows "unat n = length rows \<and> length rows \<le> length source_bytes \<and>
    unat n \<le> unat (dl_max_csv_rows limits) \<and>
    (\<forall>row\<in>set rows. list_all2 cell_fits (csv_columns schema) row \<and>
       list_all (cell_within (dl_max_cell_bytes limits)) row)"
proof -
  from assms obtain header rest where
      h: "next_record (dl_max_cell_bytes limits) source_bytes = Inr (Some (header, rest))"
    and v: "visit_rows limits (csv_columns schema) keep_rows 0 [] rest = Inr (n, rows)"
    by (rule csv_rows_keep)
  from visit_rows_keep [OF v] next_record_consumes [OF h] show ?thesis
    by (cases "rows = []") (auto simp: list_all_iff row_ok_def word_le_nat_alt)
qed

lemma visit_csv_rows_fold:
  "visit_csv_rows source_bytes schema limits (\<lambda>_ vs st. Inr (f vs st)) st =
     map_ok (\<lambda>(n, rows). (n, fold f rows st)) (csv_rows source_bytes schema limits)"
  using visit_rows_fold [where rows = "[]" and st = st and f = f]
  by (auto simp: csv_rows_def visit_csv_rows_def Let_def and_then_def map_ok_def split: sum.splits)

end
