(* ===== verification/Csv_Cache.thy ===== *)
theory Csv_Cache
  imports Csv_Round_Trip
begin

text \<open>
  The content-addressed SQLite cache of a CSV source (\<open>src/src/builtins/data_query.rs\<close>): its
  validation on opening, its construction, and the decision between the two. SQLite and the file
  system are arguments: a cache file is what SQLite answers about it, a failure carries the text
  of the error with the prefix the code gives it, and each file-system step succeeds or fails.
\<close>

section \<open>What SQLite answers about a cache file\<close>

record csv_database =
  ca_open :: "message + unit"
  ca_is_readonly :: "message + bool"
  ca_integrity_check :: "message + string"
  ca_metadata_json :: "message + string"
  ca_table_info :: "message + (i64 \<times> string \<times> string \<times> i64 \<times> string option \<times> i64) list"
  ca_index_list :: "message + (string \<times> i64 \<times> string \<times> i64) list"
  ca_index_info :: "string \<Rightarrow> message + string list"
  ca_rows :: "message + (message + sql_cell list) list"
  ca_harden :: "message + unit"

text \<open>The entry at the cache path; the first two carry the text of the operating system's error.\<close>

datatype cache_entry = CacheMissing string | CacheUnreadable string | CacheNotRegular | CacheFile csv_database

text \<open>The JSON text of the metadata (\<open>serde_json\<close>).\<close>

record csv_text =
  ct_schema_to_vec :: "publication_csv_schema \<Rightarrow> bytes result"
  ct_metadata_to_string :: "csv_cache_metadata \<Rightarrow> string result"
  ct_metadata_from_str :: "string \<Rightarrow> csv_cache_metadata result"

section \<open>Opening\<close>

definition csv_cache_metadata_load ::
  "csv_text \<Rightarrow> csv_database \<Rightarrow> csv_cache_metadata \<Rightarrow> message + csv_cache_metadata" where
  "csv_cache_metadata_load tx connection expected =
     and_then (ca_metadata_json connection) (\<lambda>encoded.
     and_then (map_err (\<lambda>e. Msg (''invalid CSV query cache metadata: '' @ e))
       (ct_metadata_from_str tx encoded)) (\<lambda>metadata.
     if metadata \<noteq> expected
     then Inl (Msg ''CSV query cache metadata does not match the publication'')
     else Inr metadata))"

definition expected_table_info ::
  "publication_csv_schema \<Rightarrow> (i64 \<times> string \<times> string \<times> i64 \<times> string option \<times> i64) list" where
  "expected_table_info schema =
     map (\<lambda>(index, column).
         (int index, col_name column, csv_sql_type (col_type column),
          if col_nullable column then 0 else 1, None, 0))
       (zip [0..<length (csv_columns schema)] (csv_columns schema))"

definition validate_csv_cache_table_schema ::
  "csv_database \<Rightarrow> publication_csv_schema \<Rightarrow> message + unit" where
  "validate_csv_cache_table_schema connection schema =
     and_then (ca_table_info connection) (\<lambda>actual.
     if actual \<noteq> expected_table_info schema
     then Inl (Msg ''CSV query cache table schema does not match the publication'')
     else Inr ())"

definition index_name :: "publication_csv_schema \<Rightarrow> publication_csv_column \<Rightarrow> string" where
  "index_name schema column = ''idx_'' @ csv_collection schema @ ''_'' @ col_name column"

definition expected_indexes :: "publication_csv_schema \<Rightarrow> string \<rightharpoonup> string" where
  "expected_indexes schema =
     fold (\<lambda>column m. m(index_name schema column \<mapsto> col_name column))
       (filter col_indexed (csv_columns schema)) Map.empty"

fun actual_indexes ::
  "csv_database \<Rightarrow> (string \<times> i64 \<times> string \<times> i64) list \<Rightarrow> (string \<rightharpoonup> string)
    \<Rightarrow> message + (string \<rightharpoonup> string)" where
  "actual_indexes connection [] actual = Inr actual"
| "actual_indexes connection ((name, unique, origin, partial) # indexes) actual =
     (if unique \<noteq> 0 \<or> origin \<noteq> ''c'' \<or> partial \<noteq> 0
      then Inl (Msg ''CSV query cache contains an unexpected index'')
      else and_then (ca_index_info connection name) (\<lambda>columns.
        if length columns \<noteq> 1 \<or> actual name \<noteq> None
        then Inl (Msg ''CSV query cache contains an invalid index definition'')
        else actual_indexes connection indexes (actual(name \<mapsto> columns ! 0))))"

definition validate_csv_cache_indexes ::
  "csv_database \<Rightarrow> publication_csv_schema \<Rightarrow> message + unit" where
  "validate_csv_cache_indexes connection schema =
     and_then (ca_index_list connection) (\<lambda>indexes.
     and_then (actual_indexes connection indexes Map.empty) (\<lambda>actual.
     if actual \<noteq> expected_indexes schema
     then Inl (Msg ''CSV query cache indexes do not match the publication schema'')
     else Inr ()))"

fun digest_cached_rows ::
  "usize \<Rightarrow> (message + sql_cell list) list \<Rightarrow> usize \<Rightarrow> bytes \<Rightarrow> message + usize \<times> bytes" where
  "digest_cached_rows expected [] row_count digest = Inr (row_count, digest)"
| "digest_cached_rows expected (row # rows) row_count digest =
     and_then row (\<lambda>row.
     and_then (ok_or (Msg ''CSV query cache row count overflow'') (checked_add row_count 1))
       (\<lambda>row_count.
     if row_count > expected then Inl (Msg ''CSV query cache contains unexpected rows'')
     else digest_cached_rows expected rows row_count (update_borrowed_row row digest)))"

definition validate_csv_cache_content ::
  "crypto_env \<Rightarrow> csv_text \<Rightarrow> csv_database \<Rightarrow> publication_csv_schema \<Rightarrow> csv_cache_metadata
    \<Rightarrow> message + unit" where
  "validate_csv_cache_content cs tx connection schema expected_metadata =
     and_then (ca_rows connection) (\<lambda>rows.
     and_then (csv_content_digest_new (ct_schema_to_vec tx) (cm_package_digest expected_metadata) schema)
       (\<lambda>digest.
     and_then (digest_cached_rows (cm_row_count expected_metadata) rows 0 digest) (\<lambda>(row_count, digest).
     if row_count \<noteq> cm_row_count expected_metadata \<or>
        csv_content_digest_finish cs digest row_count \<noteq> cm_content_digest expected_metadata
     then Inl (Msg ''CSV query cache content does not match the published source'')
     else Inr ())))"

record sqlite_dataset =
  sq_connection :: csv_database
  sq_schema :: "(string \<times> string list) list"

definition open_csv_cache ::
  "crypto_env \<Rightarrow> csv_text \<Rightarrow> cache_entry \<Rightarrow> publication_csv_schema \<Rightarrow> csv_cache_metadata
    \<Rightarrow> message + sqlite_dataset" where
  "open_csv_cache cs tx entry csv_schema expected_metadata =
     (case entry of
        CacheMissing e \<Rightarrow> Inl (Msg (''failed to inspect CSV query cache path: '' @ e))
      | CacheUnreadable e \<Rightarrow> Inl (Msg (''failed to inspect CSV query cache path: '' @ e))
      | CacheNotRegular \<Rightarrow> Inl (Msg ''CSV query cache path must be a regular non-symlink file'')
      | CacheFile connection \<Rightarrow>
          and_then (ca_open connection) (\<lambda>_.
          and_then (ca_is_readonly connection) (\<lambda>readonly.
          if \<not> readonly then Inl (Msg ''CSV query cache did not open read-only'')
          else
          and_then (ca_integrity_check connection) (\<lambda>integrity.
          if integrity \<noteq> ''ok''
          then Inl (Msg (''CSV query cache failed SQLite integrity validation: '' @ integrity))
          else
          and_then (csv_cache_metadata_load tx connection expected_metadata) (\<lambda>_.
          and_then (validate_csv_cache_table_schema connection csv_schema) (\<lambda>_.
          and_then (validate_csv_cache_indexes connection csv_schema) (\<lambda>_.
          and_then (validate_csv_cache_content cs tx connection csv_schema expected_metadata) (\<lambda>_.
          and_then (ca_harden connection) (\<lambda>_.
          Inr \<lparr>sq_connection = connection,
               sq_schema = [(csv_collection csv_schema, map col_name (csv_columns csv_schema))]\<rparr>)))))))))"

section \<open>Building\<close>

text \<open>
  The steps of the construction that may fail, each with the message the code gives it:
  creating and configuring the temporary database, its tables, the transaction and the prepared
  insert, the inserts, the indexes, the metadata row and the commit, then permissions, flush,
  directory sync, rename and sync. \<open>bi_database\<close> is the file that results.
\<close>

record cache_build =
  bi_create :: "message + unit"
  bi_configure :: "message + unit"
  bi_create_tables :: "message + unit"
  bi_begin :: "message + unit"
  bi_prepare :: "message + unit"
  bi_insert :: "usize \<Rightarrow> sql_cell list \<Rightarrow> message + unit"
  bi_create_index :: "publication_csv_column \<Rightarrow> message + unit"
  bi_insert_metadata :: "message + unit"
  bi_commit :: "message + unit"
  bi_permissions :: "message + unit"
  bi_flush :: "message + unit"
  bi_sync_before :: "message + unit"
  bi_rename :: "message + unit"
  bi_sync_after :: "message + unit"
  bi_database :: "publication_csv_schema \<Rightarrow> sql_cell list list \<Rightarrow> string \<Rightarrow> csv_database"

definition import_row ::
  "cache_build \<Rightarrow> usize \<Rightarrow> sql_cell list \<Rightarrow> sql_cell list list \<Rightarrow> message + sql_cell list list" where
  "import_row io row_count row table = map_ok (\<lambda>_. table @ [row]) (bi_insert io row_count row)"

text \<open>The closure up to the rename: the database that would be installed.\<close>

definition prepare_csv_cache ::
  "csv_text \<Rightarrow> cache_build \<Rightarrow> bytes \<Rightarrow> publication_csv_schema \<Rightarrow> csv_cache_metadata
    \<Rightarrow> data_query_limits \<Rightarrow> message + csv_database" where
  "prepare_csv_cache tx io source_bytes schema expected_metadata limits =
     and_then (bi_create io) (\<lambda>_.
     and_then (bi_configure io) (\<lambda>_.
     and_then (bi_create_tables io) (\<lambda>_.
     and_then (bi_begin io) (\<lambda>_.
     and_then (bi_prepare io) (\<lambda>_.
     and_then (visit_csv_rows source_bytes schema limits (import_row io) []) (\<lambda>(row_count, table).
     if row_count \<noteq> cm_row_count expected_metadata
     then Inl (Msg ''CSV source changed while its query cache was being built'')
     else
     and_then (for_each (bi_create_index io) (filter col_indexed (csv_columns schema))) (\<lambda>_.
     and_then (map_err (\<lambda>e. Msg (''failed to encode CSV cache metadata: '' @ e))
       (ct_metadata_to_string tx expected_metadata)) (\<lambda>metadata_json.
     and_then (bi_insert_metadata io) (\<lambda>_.
     and_then (bi_commit io) (\<lambda>_.
     and_then (bi_permissions io) (\<lambda>_.
     and_then (bi_flush io) (\<lambda>_.
     and_then (bi_sync_before io) (\<lambda>_.
     and_then (bi_rename io) (\<lambda>_.
     Inr (bi_database io schema table metadata_json)))))))))))))))"

definition build_csv_cache ::
  "csv_text \<Rightarrow> cache_build \<Rightarrow> bytes \<Rightarrow> publication_csv_schema \<Rightarrow> csv_cache_metadata
    \<Rightarrow> data_query_limits \<Rightarrow> cache_entry \<Rightarrow> (message + unit) \<times> cache_entry" where
  "build_csv_cache tx io source_bytes schema expected_metadata limits entry =
     (case prepare_csv_cache tx io source_bytes schema expected_metadata limits of
        Inl e \<Rightarrow> (Inl e, entry)
      | Inr database \<Rightarrow> (bi_sync_after io, CacheFile database))"

text \<open>Removing the entry: the outcome of \<open>remove_file\<close> and of the directory sync after it.\<close>

datatype removal = Removed "message + unit" | RemovalNotFound | RemovalFailed string

definition discard_csv_cache :: "removal \<Rightarrow> string \<Rightarrow> cache_entry \<Rightarrow> (message + unit) \<times> cache_entry" where
  "discard_csv_cache outcome not_found entry =
     (case outcome of
        Removed synced \<Rightarrow> (synced, CacheMissing not_found)
      | RemovalNotFound \<Rightarrow> (Inr (), entry)
      | RemovalFailed e \<Rightarrow> (Inl (Msg (''failed to discard invalid CSV query cache: '' @ e)), entry))"

text \<open>The second half of \<open>open_or_rebuild_csv_cache\<close>: build, open, and discard on failure.\<close>

definition rebuild_csv_cache ::
  "crypto_env \<Rightarrow> csv_text \<Rightarrow> cache_build \<Rightarrow> removal \<Rightarrow> string \<Rightarrow> bytes \<Rightarrow> publication_csv_schema
    \<Rightarrow> csv_cache_metadata \<Rightarrow> data_query_limits \<Rightarrow> cache_entry
    \<Rightarrow> (message + sqlite_dataset) \<times> cache_entry" where
  "rebuild_csv_cache cs tx io removal not_found source_bytes schema expected_metadata limits entry =
     (case build_csv_cache tx io source_bytes schema expected_metadata limits entry of
        (Inl e, entry) \<Rightarrow> (Inl e, entry)
      | (Inr _, entry) \<Rightarrow>
          (case open_csv_cache cs tx entry schema expected_metadata of
             Inr dataset \<Rightarrow> (Inr dataset, entry)
           | Inl e \<Rightarrow>
               (case discard_csv_cache removal not_found entry of
                  (Inl e', entry) \<Rightarrow> (Inl e', entry)
                | (Inr _, entry) \<Rightarrow>
                    (Inl (prefixed ''rebuilt CSV query cache failed integrity validation: '' e), entry))))"

definition open_or_rebuild_csv_cache ::
  "crypto_env \<Rightarrow> csv_text \<Rightarrow> cache_build \<Rightarrow> removal \<times> removal \<Rightarrow> string \<Rightarrow> bytes
    \<Rightarrow> publication_csv_schema \<Rightarrow> csv_cache_metadata \<Rightarrow> data_query_limits \<Rightarrow> cache_entry
    \<Rightarrow> (message + sqlite_dataset) \<times> cache_entry" where
  "open_or_rebuild_csv_cache cs tx io removals not_found source_bytes schema expected_metadata limits entry =
     (let rebuild = rebuild_csv_cache cs tx io (snd removals) not_found source_bytes schema
            expected_metadata limits
      in case entry of
           CacheMissing _ \<Rightarrow> rebuild entry
         | CacheUnreadable e \<Rightarrow> (Inl (Msg (''failed to inspect CSV query cache: '' @ e)), entry)
         | _ \<Rightarrow>
             (case open_csv_cache cs tx entry schema expected_metadata of
                Inr dataset \<Rightarrow> (Inr dataset, entry)
              | Inl _ \<Rightarrow>
                  (case discard_csv_cache (fst removals) not_found entry of
                     (Inl e, entry) \<Rightarrow> (Inl e, entry)
                   | (Inr _, entry) \<Rightarrow> rebuild entry)))"

section \<open>The bytes that are hashed determine the rows\<close>

lemma length_be_bytes [simp]: "length (u64_to_be_bytes w) = 8"
  by (simp add: u64_to_be_bytes_def)

lemma digits_determine:
  "\<lbrakk>\<And>j. j < k \<Longrightarrow> m div 256 ^ j mod 256 = n div 256 ^ j mod 256; m < 256 ^ k; n < 256 ^ k\<rbrakk>
   \<Longrightarrow> m = (n :: nat)"
proof (induction k arbitrary: m n)
  case (Suc k)
  have "m div 256 = n div 256"
  proof (rule Suc.IH)
    show "m div 256 < 256 ^ k" "n div 256 < 256 ^ k"
      using Suc.prems(2,3) by (simp_all add: less_mult_imp_div_less mult.commute)
    show "m div 256 div 256 ^ j mod 256 = n div 256 div 256 ^ j mod 256" if "j < k" for j
      using Suc.prems(1) [of "Suc j"] that by (simp add: div_mult2_eq)
  qed
  moreover have "m mod 256 = n mod 256" using Suc.prems(1) [of 0] by simp
  ultimately show ?case by (metis div_mult_mod_eq)
qed simp

lemma be_bytes_inject [simp]: "u64_to_be_bytes a = u64_to_be_bytes b \<longleftrightarrow> a = b"
proof
  assume "u64_to_be_bytes a = u64_to_be_bytes b"
  then have "\<forall>i<8. char_of (unat a div 256 ^ (7 - i) mod 256) = (char_of (unat b div 256 ^ (7 - i) mod 256) :: char)"
    by (simp add: u64_to_be_bytes_def)
  then have d: "unat a div 256 ^ j mod 256 = unat b div 256 ^ j mod 256" if "j < 8" for j
    using that by (auto simp: char_of_mod_256 dest!: spec [of _ "7 - j"] arg_cong [where f = "of_char :: char \<Rightarrow> nat"])
  have "unat a < 256 ^ 8" "unat b < 256 ^ 8"
    using unsigned_less [of a, where ?'a = nat] unsigned_less [of b, where ?'a = nat] by simp_all
  from digits_determine [OF _ this] d have "unat a = unat b" by blast
  then show "a = b" by (simp add: word_unat_eq_iff)
qed simp

fun cell_bytes :: "sql_cell \<Rightarrow> bytes" where
  "cell_bytes CellNull = [CHR 0x00]"
| "cell_bytes (CellInteger value) = CHR 0x01 # u64_to_be_bytes (word_of_int value)"
| "cell_bytes (CellReal value) = CHR 0x02 # u64_to_be_bytes (canonical_csv_f64_bits value)"
| "cell_bytes (CellText value) = CHR 0x03 # u64_to_be_bytes (of_nat (length value)) @ value"
| "cell_bytes (CellBlob value) = CHR 0x04 # u64_to_be_bytes (of_nat (length value)) @ value"

definition row_bytes :: "sql_cell list \<Rightarrow> bytes" where
  "row_bytes row = CHR 0x52 # u64_to_be_bytes (of_nat (length row)) @ concat (map cell_bytes row)"

lemma digest_cell_append: "digest_cell c h = h @ cell_bytes c"
  by (cases c) (simp_all add: update_digest_bytes_def)

lemma fold_digest_cell: "fold digest_cell cs h = h @ concat (map cell_bytes cs)"
  by (induction cs arbitrary: h) (simp_all add: digest_cell_append)

lemma update_row_append: "update_owned_row row h = h @ row_bytes row" "update_borrowed_row row h = h @ row_bytes row"
  by (simp_all add: update_owned_row_def update_borrowed_row_def fold_digest_cell row_bytes_def)

lemma fold_update_rows: "fold update_owned_row rows h = h @ concat (map row_bytes rows)"
  by (induction rows arbitrary: h) (simp_all add: update_row_append)

text \<open>A cell up to the sign of zero, and cells that exist in memory.\<close>

fun canonical_cell :: "sql_cell \<Rightarrow> sql_cell" where
  "canonical_cell (CellReal value) = CellReal (canonical_csv_f64_bits value)"
| "canonical_cell cell = cell"

fun cell_in_memory :: "sql_cell \<Rightarrow> bool" where
  "cell_in_memory (CellInteger i) = in_i64 i"
| "cell_in_memory (CellText s) = (length s < 2 ^ 64)"
| "cell_in_memory (CellBlob s) = (length s < 2 ^ 64)"
| "cell_in_memory _ = True"

definition row_in_memory :: "sql_cell list \<Rightarrow> bool" where
  "row_in_memory row \<longleftrightarrow> length row < 2 ^ 64 \<and> list_all cell_in_memory row"

lemma of_nat_word64_inject:
  assumes "m < 2 ^ 64" and "n < 2 ^ 64" and "(of_nat m :: u64) = of_nat n"
  shows "m = n"
proof -
  have "unat (of_nat m :: u64) = unat (of_nat n :: u64)" using assms(3) by simp
  then have "m mod 2 ^ 64 = n mod 2 ^ 64" by (simp add: unat_of_nat)
  with assms(1,2) show ?thesis by simp
qed

lemma word_of_int64_inject:
  assumes "in_i64 i" and "in_i64 j" and "(word_of_int i :: u64) = word_of_int j"
  shows "i = j"
proof -
  have "uint (word_of_int i :: u64) = uint (word_of_int j :: u64)" using assms(3) by simp
  then have eq: "i mod 2 ^ 64 = j mod 2 ^ 64" by (simp add: uint_word_of_int)
  have "sint (word_of_int i :: u64) = sint (word_of_int j :: u64)" using assms(3) by simp
  then have "signed_take_bit 63 i = signed_take_bit 63 j" by (simp add: sint_sbintrunc')
  moreover have "signed_take_bit 63 k = k" if "in_i64 k" for k
    using that by (intro signed_take_bit_int_eq_self) (simp_all add: in_i64_def)
  ultimately show ?thesis using assms(1,2) by simp
qed

lemma sized_prefix:
  assumes "s @ r = t @ q" and "(of_nat (length s) :: u64) = of_nat (length t)"
    and "length s < 2 ^ 64" and "length t < 2 ^ 64"
  shows "s = t \<and> r = q"
  using of_nat_word64_inject [OF assms(3,4,2)] assms(1) by simp

lemma cell_bytes_prefix:
  assumes "cell_bytes a @ r = cell_bytes b @ q" and "cell_in_memory a" and "cell_in_memory b"
  shows "canonical_cell a = canonical_cell b \<and> r = q"
proof (cases a)
  case CellNull
  with assms show ?thesis by (cases b) simp_all
next
  case a: (CellInteger i)
  with assms obtain j where b: "b = CellInteger j" by (cases b) simp_all
  with a assms show ?thesis using word_of_int64_inject [of i j] by simp
next
  case (CellReal x)
  with assms show ?thesis by (cases b) simp_all
next
  case a: (CellText s)
  with assms obtain t where b: "b = CellText t" by (cases b) simp_all
  with a assms show ?thesis using sized_prefix [of s r t q] by simp
next
  case a: (CellBlob s)
  with assms obtain t where b: "b = CellBlob t" by (cases b) simp_all
  with a assms show ?thesis using sized_prefix [of s r t q] by simp
qed

lemma cells_bytes_prefix:
  "\<lbrakk>concat (map cell_bytes as) @ r = concat (map cell_bytes bs) @ q; length as = length bs;
    list_all cell_in_memory as; list_all cell_in_memory bs\<rbrakk>
   \<Longrightarrow> map canonical_cell as = map canonical_cell bs \<and> r = q"
proof (induction as arbitrary: bs)
  case (Cons a as)
  then obtain b bs' where bs: "bs = b # bs'" by (cases bs) auto
  with Cons.prems have "canonical_cell a = canonical_cell b \<and>
      concat (map cell_bytes as) @ r = concat (map cell_bytes bs') @ q"
    by (intro cell_bytes_prefix) simp_all
  with Cons bs show ?case by simp
qed simp

lemma row_bytes_prefix:
  assumes "row_bytes a @ r = row_bytes b @ q" and "row_in_memory a" and "row_in_memory b"
  shows "map canonical_cell a = map canonical_cell b \<and> r = q"
proof -
  have "length a = length b"
    using assms by (intro of_nat_word64_inject) (simp_all add: row_bytes_def row_in_memory_def)
  with assms show ?thesis
    by (intro cells_bytes_prefix) (simp_all add: row_bytes_def row_in_memory_def)
qed

lemma rows_bytes_prefix:
  "\<lbrakk>concat (map row_bytes as) @ CHR 0x45 # r = concat (map row_bytes bs) @ CHR 0x45 # q;
    list_all row_in_memory as; list_all row_in_memory bs\<rbrakk>
   \<Longrightarrow> map (map canonical_cell) as = map (map canonical_cell) bs"
proof (induction as arbitrary: bs)
  case Nil
  then show ?case by (cases bs) (simp_all add: row_bytes_def)
next
  case (Cons a as)
  show ?case
  proof (cases bs)
    case Nil
    with Cons.prems show ?thesis by (simp add: row_bytes_def)
  next
    case bs: (Cons b bs')
    with Cons.prems have "map canonical_cell a = map canonical_cell b \<and>
        concat (map row_bytes as) @ CHR 0x45 # r = concat (map row_bytes bs') @ CHR 0x45 # q"
      by (intro row_bytes_prefix) simp_all
    with Cons bs show ?thesis by simp
  qed
qed

section \<open>A cache that opens holds the published rows\<close>

lemma digest_cached_rows_Inr:
  "digest_cached_rows n rows k h = Inr (k', h') \<Longrightarrow>
   list_all (\<lambda>r. is_ok r) rows \<and> h' = h @ concat (map (row_bytes \<circ> projr) rows)"
  by (induction n rows k h rule: digest_cached_rows.induct)
    (auto simp: result_simps update_row_append split: if_splits)

definition cached_rows :: "csv_database \<Rightarrow> sql_cell list list" where
  "cached_rows connection = (case ca_rows connection of Inl _ \<Rightarrow> [] | Inr rows \<Rightarrow> map projr rows)"

text \<open>The bytes hashed for a source and for a cache.\<close>

definition source_stream :: "bytes \<Rightarrow> sql_cell list list \<Rightarrow> usize \<Rightarrow> bytes" where
  "source_stream start rows n = start @ concat (map row_bytes rows) @ CHR 0x45 # u64_to_be_bytes n"

lemma inspect_csv_source_Inr:
  assumes "inspect_csv_source cs schema_to_vec source_bytes schema digest limits = Inr meta"
  obtains start rows where "csv_content_digest_new schema_to_vec digest schema = Inr start"
    "csv_rows source_bytes schema limits = Inr (cm_row_count meta, rows)"
    "cm_content_digest meta = sha256_hex cs (source_stream start rows (cm_row_count meta))"
    "cm_package_digest meta = digest" "cm_schema meta = schema"
  using assms
  by (auto simp: inspect_csv_source_def result_simps visit_csv_rows_fold fold_update_rows
      csv_content_digest_finish_def source_stream_def split: prod.splits)

lemma validate_content_Inr:
  assumes "validate_csv_cache_content cs tx connection schema meta = Inr ()"
  obtains start n where "csv_content_digest_new (ct_schema_to_vec tx) (cm_package_digest meta) schema = Inr start"
    "cm_content_digest meta = sha256_hex cs (source_stream start (cached_rows connection) (cm_row_count meta))"
    "is_ok (ca_rows connection)"
proof -
  from assms obtain rows start h where *: "ca_rows connection = Inr rows"
      "csv_content_digest_new (ct_schema_to_vec tx) (cm_package_digest meta) schema = Inr start"
      "digest_cached_rows (cm_row_count meta) rows 0 start = Inr (cm_row_count meta, h)"
      "csv_content_digest_finish cs h (cm_row_count meta) = cm_content_digest meta"
    by (auto simp: validate_csv_cache_content_def result_simps split: prod.splits if_splits)
  with digest_cached_rows_Inr [OF *(3)] that show thesis
    by (simp add: csv_content_digest_finish_def source_stream_def cached_rows_def)
qed

lemma open_csv_cache_Inr:
  assumes "open_csv_cache cs tx entry schema meta = Inr ds"
  shows "entry = CacheFile (sq_connection ds)"
    and "validate_csv_cache_content cs tx (sq_connection ds) schema meta = Inr ()"
    and "sq_schema ds = [(csv_collection schema, map col_name (csv_columns schema))]"
  using assms by (auto simp: open_csv_cache_def result_simps split: cache_entry.splits if_splits)

lemma rebuild_Inr:
  "rebuild_csv_cache cs tx io rm nf src schema meta limits entry = (Inr ds, entry') \<Longrightarrow>
   open_csv_cache cs tx entry' schema meta = Inr ds"
  by (auto simp: rebuild_csv_cache_def split: prod.splits sum.splits)

lemma open_or_rebuild_Inr:
  "open_or_rebuild_csv_cache cs tx io rms nf src schema meta limits entry = (Inr ds, entry') \<Longrightarrow>
   open_csv_cache cs tx entry' schema meta = Inr ds"
  using rebuild_Inr
  by (fastforce simp: open_or_rebuild_csv_cache_def Let_def split: prod.splits sum.splits cache_entry.splits)

lemma check_csv_columns_distinct:
  "check_csv_columns names k columns = Inr n \<Longrightarrow>
   distinct (map col_name columns) \<and> set (map col_name columns) \<inter> set names = {}"
  by (induction names k columns rule: check_csv_columns.induct) (auto simp: result_simps split: if_splits)

lemma csv_schema_validate_Inr:
  assumes "csv_schema_validate schema = Inr ()"
  shows "length (csv_columns schema) \<le> 256" "distinct (map col_name (csv_columns schema))"
  using assms check_csv_columns_distinct [of "[]" 0 "csv_columns schema"]
  by (auto simp: csv_schema_validate_def result_simps not_less split: if_splits)

lemma cell_fits_in_memory: "\<lbrakk>cell_fits column cell; cell_within m cell\<rbrakk> \<Longrightarrow> cell_in_memory cell"
  using unsigned_less [of m, where ?'a = nat]
  by (auto simp: cell_fits_def cell_within_def field_ok_def in_i64_def split: sql_cell.splits)

lemma row_ok_in_memory:
  assumes "row_ok m columns row" and "length columns \<le> 256"
  shows "row_in_memory row"
proof -
  have "cell_in_memory (row ! i)" if "i < length row" for i
    using assms(1) that cell_fits_in_memory [of "columns ! i" "row ! i" m]
    by (simp add: row_ok_def list_all2_conv_all_nth list_all_length)
  then show ?thesis
    using assms by (auto simp: row_ok_def row_in_memory_def list_all_length dest: list_all2_lengthD)
qed

lemma csv_rows_in_memory:
  assumes "csv_rows source_bytes schema limits = Inr (n, rows)" and "length (csv_columns schema) \<le> 256"
  shows "list_all row_in_memory rows"
proof -
  from assms(1) obtain rest where
    "visit_rows limits (csv_columns schema) keep_rows 0 [] rest = Inr (n, rows)"
    by (rule csv_rows_keep)
  from visit_rows_keep [OF this] assms(2) show ?thesis
    by (auto simp: list_all_iff intro: row_ok_in_memory)
qed

text \<open>
  C28. Whatever file lies at the cache path, a CSV data set that opens serves the published rows:
  the rows SQLite returns are the typed rows of the source, in order and up to the sign of a zero,
  unless the two row sequences are a SHA-256 collision of the content digest.
\<close>

theorem opened_cache_serves_the_source:
  assumes "hex_laws cs" and "csv_schema_validate schema = Inr ()"
    and "inspect_csv_source cs (ct_schema_to_vec tx) source_bytes schema digest limits = Inr meta"
    and "csv_rows source_bytes schema limits = Inr (n, rows)"
    and "open_or_rebuild_csv_cache cs tx io removals not_found source_bytes schema meta limits entry
      = (Inr ds, entry')"
    and "list_all row_in_memory (cached_rows (sq_connection ds))"
  shows "map (map canonical_cell) (cached_rows (sq_connection ds)) = map (map canonical_cell) rows \<or>
    (\<exists>start. csv_content_digest_new (ct_schema_to_vec tx) digest schema = Inr start \<and>
       source_stream start (cached_rows (sq_connection ds)) n \<noteq> source_stream start rows n \<and>
       sha256 cs (source_stream start (cached_rows (sq_connection ds)) n) =
         sha256 cs (source_stream start rows n))"
proof -
  obtain start where s: "csv_content_digest_new (ct_schema_to_vec tx) digest schema = Inr start"
      "cm_row_count meta = n" "cm_content_digest meta = sha256_hex cs (source_stream start rows n)"
      "cm_package_digest meta = digest"
    using inspect_csv_source_Inr [OF assms(3)] assms(4) by (metis Inr_inject prod.inject)
  have "validate_csv_cache_content cs tx (sq_connection ds) schema meta = Inr ()"
    by (rule open_csv_cache_Inr(2) [OF open_or_rebuild_Inr [OF assms(5)]])
  then have "sha256_hex cs (source_stream start (cached_rows (sq_connection ds)) n) =
      sha256_hex cs (source_stream start rows n)"
    by (rule validate_content_Inr) (use s in auto)
  then have same: "sha256 cs (source_stream start (cached_rows (sq_connection ds)) n) =
      sha256 cs (source_stream start rows n)"
    using assms(1) by (simp add: sha256_hex_collision)
  show ?thesis
  proof (cases "source_stream start (cached_rows (sq_connection ds)) n = source_stream start rows n")
    case True
    then have "concat (map row_bytes (cached_rows (sq_connection ds))) @ CHR 0x45 # u64_to_be_bytes n =
        concat (map row_bytes rows) @ CHR 0x45 # u64_to_be_bytes n"
      by (simp add: source_stream_def)
    from rows_bytes_prefix [OF this assms(6) csv_rows_in_memory [OF assms(4)]]
      csv_schema_validate_Inr(1) [OF assms(2)] show ?thesis by simp
  qed (use s(1) same in blast)
qed

section \<open>A cache can always be rebuilt\<close>

text \<open>
  What SQLite does for a file it has written: it answers with what was declared and inserted. The
  indexes are listed in some order, and a negative zero may come back as zero.
\<close>

definition faithful_store :: "cache_build \<Rightarrow> publication_csv_schema \<Rightarrow> bool" where
  "faithful_store io schema \<longleftrightarrow> (\<forall>rows metadata_json.
     let db = bi_database io schema rows metadata_json; indexed = filter col_indexed (csv_columns schema)
     in ca_open db = Inr () \<and> ca_is_readonly db = Inr True \<and> ca_integrity_check db = Inr ''ok'' \<and>
        ca_metadata_json db = Inr metadata_json \<and> ca_table_info db = Inr (expected_table_info schema) \<and>
        (\<exists>listed. mset listed = mset indexed \<and>
           ca_index_list db = Inr (map (\<lambda>c. (index_name schema c, 0, ''c'', 0)) listed)) \<and>
        (\<forall>c\<in>set indexed. ca_index_info db (index_name schema c) = Inr [col_name c]) \<and>
        (\<exists>stored. ca_rows db = Inr (map Inr stored) \<and>
           map (map canonical_cell) stored = map (map canonical_cell) rows) \<and>
        ca_harden db = Inr ())"

definition build_succeeds :: "cache_build \<Rightarrow> bool" where
  "build_succeeds io \<longleftrightarrow> bi_create io = Inr () \<and> bi_configure io = Inr () \<and>
     bi_create_tables io = Inr () \<and> bi_begin io = Inr () \<and> bi_prepare io = Inr () \<and>
     (\<forall>n row. bi_insert io n row = Inr ()) \<and> (\<forall>c. bi_create_index io c = Inr ()) \<and>
     bi_insert_metadata io = Inr () \<and> bi_commit io = Inr () \<and> bi_permissions io = Inr () \<and>
     bi_flush io = Inr () \<and> bi_sync_before io = Inr () \<and> bi_rename io = Inr () \<and>
     bi_sync_after io = Inr ()"

lemma cell_bytes_canonical: "cell_bytes (canonical_cell c) = cell_bytes c"
  by (cases c) (simp_all add: canonical_csv_f64_bits_def)

lemma row_bytes_canonical:
  assumes "map canonical_cell a = map canonical_cell b"
  shows "row_bytes a = row_bytes b"
proof -
  have "length a = length b" using assms by (metis length_map)
  moreover have "map cell_bytes a = map cell_bytes b"
    using arg_cong [OF assms, of "map cell_bytes"] by (simp add: cell_bytes_canonical comp_def)
  ultimately show ?thesis by (simp add: row_bytes_def)
qed

lemma rows_bytes_canonical:
  "map (map canonical_cell) as = map (map canonical_cell) bs \<Longrightarrow> map row_bytes as = map row_bytes bs"
  by (induction as bs rule: list_induct2') (auto intro: row_bytes_canonical)

lemma digest_cached_rows_stored:
  "unat k + length rows \<le> unat n \<Longrightarrow>
   digest_cached_rows n (map Inr rows) k h = Inr (k + of_nat (length rows), h @ concat (map row_bytes rows))"
proof (induction rows arbitrary: k h)
  case (Cons row rows)
  have small: "unat k + 1 < 2 ^ 64"
    using Cons.prems unsigned_less [of n, where ?'a = nat] by simp
  then have k1: "unat (k + 1) = unat k + 1" by (simp add: unat_add_lem [THEN iffD1])
  with small have "checked_add k 1 = Some (k + 1)" by (simp add: checked_add_def)
  with Cons.IH [of "k + 1" "h @ row_bytes row"] Cons.prems k1 show ?case
    by (simp add: update_row_append word_less_nat_alt algebra_simps)
qed simp

lemma fold_index_map:
  "distinct (map f cs) \<Longrightarrow>
   fold (\<lambda>c m. m(f c \<mapsto> g c)) cs m = m ++ map_of (map (\<lambda>c. (f c, g c)) cs)"
proof (induction cs arbitrary: m)
  case (Cons c cs)
  have "m(f c \<mapsto> g c) ++ map_of (map (\<lambda>c. (f c, g c)) cs) =
      m ++ map_of (map (\<lambda>c. (f c, g c)) (c # cs))"
    using Cons.prems
    by (intro ext) (auto simp: map_add_def map_of_eq_None_iff image_iff split: option.splits dest: map_of_SomeD)
  moreover have "fold (\<lambda>c m. m(f c \<mapsto> g c)) cs (m(f c \<mapsto> g c)) =
      m(f c \<mapsto> g c) ++ map_of (map (\<lambda>c. (f c, g c)) cs)"
    by (rule Cons.IH) (use Cons.prems in simp)
  ultimately show ?case by (simp only: fold_simps)
qed simp

lemma actual_indexes_listed:
  "\<lbrakk>\<forall>c\<in>set cs. ca_index_info db (index_name schema c) = Inr [col_name c];
    distinct (map (index_name schema) cs); \<forall>c\<in>set cs. m (index_name schema c) = None\<rbrakk>
   \<Longrightarrow> actual_indexes db (map (\<lambda>c. (index_name schema c, 0, ''c'', 0)) cs) m =
     Inr (fold (\<lambda>c m. m(index_name schema c \<mapsto> col_name c)) cs m)"
proof (induction cs arbitrary: m)
  case (Cons c cs)
  have "\<forall>c'\<in>set cs. (m(index_name schema c \<mapsto> col_name c)) (index_name schema c') = None"
    using Cons.prems by (simp, metis image_eqI)
  with Cons show ?case by (simp del: fun_upd_apply)
qed simp

lemma validate_indexes_faithful:
  assumes "csv_schema_validate schema = Inr ()" and "mset listed = mset (filter col_indexed (csv_columns schema))"
    and "ca_index_list db = Inr (map (\<lambda>c. (index_name schema c, 0, ''c'', 0)) listed)"
    and "\<forall>c\<in>set (filter col_indexed (csv_columns schema)). ca_index_info db (index_name schema c) = Inr [col_name c]"
  shows "validate_csv_cache_indexes db schema = Inr ()"
proof -
  let ?ix = "filter col_indexed (csv_columns schema)"
  have "distinct (map (index_name schema) (csv_columns schema))"
    using csv_schema_validate_Inr(2) [OF assms(1)]
    by (auto simp: distinct_map index_name_def inj_on_def)
  then have d: "distinct (map (index_name schema) ?ix)" by (simp add: distinct_map_filter)
  have set: "set listed = set ?ix" using mset_eq_setD [OF assms(2)] .
  have "mset (map (index_name schema) listed) = mset (map (index_name schema) ?ix)"
    using assms(2) by simp
  then have dl: "distinct (map (index_name schema) listed)" using d mset_eq_imp_distinct_iff by blast
  have "map_of (map (\<lambda>c. (index_name schema c, col_name c)) listed) =
      map_of (map (\<lambda>c. (index_name schema c, col_name c)) ?ix)"
    using dl d set by (subst map_of_inject_set) (auto simp: comp_def)
  then show ?thesis
    using assms(3,4) d dl set
    by (simp add: validate_csv_cache_indexes_def actual_indexes_listed expected_indexes_def fold_index_map)
qed

lemma validate_content_faithful:
  assumes "inspect_csv_source cs (ct_schema_to_vec tx) source_bytes schema digest limits = Inr meta"
    and "csv_rows source_bytes schema limits = Inr (cm_row_count meta, rows)"
    and "ca_rows db = Inr (map Inr stored)"
    and "map (map canonical_cell) stored = map (map canonical_cell) rows"
  shows "validate_csv_cache_content cs tx db schema meta = Inr ()"
proof -
  obtain start where s: "csv_content_digest_new (ct_schema_to_vec tx) digest schema = Inr start"
      "cm_content_digest meta = sha256_hex cs (source_stream start rows (cm_row_count meta))"
      "cm_package_digest meta = digest"
    using inspect_csv_source_Inr [OF assms(1)] assms(2) by (metis Inr_inject prod.inject)
  have len: "length stored = unat (cm_row_count meta)"
    using csv_rows_count [OF assms(2)] arg_cong [OF assms(4), of length] by simp
  then have "(of_nat (length stored) :: usize) = cm_row_count meta" by simp
  with s rows_bytes_canonical [OF assms(4)] assms(3) len show ?thesis
    by (simp add: validate_csv_cache_content_def digest_cached_rows_stored csv_content_digest_finish_def
        source_stream_def)
qed

lemma build_faithful:
  assumes "build_succeeds io" and "csv_rows source_bytes schema limits = Inr (cm_row_count meta, rows)"
    and "ct_metadata_to_string tx meta = Inr metadata_json"
  shows "build_csv_cache tx io source_bytes schema meta limits entry =
    (Inr (), CacheFile (bi_database io schema rows metadata_json))"
proof -
  have "import_row io = keep_rows"
    using assms(1) by (intro ext) (simp add: import_row_def keep_rows_def build_succeeds_def)
  moreover have "for_each (bi_create_index io) (filter col_indexed (csv_columns schema)) = Inr ()"
    using assms(1) by (simp add: for_each_Inr build_succeeds_def)
  ultimately show ?thesis
    using assms by (simp add: build_csv_cache_def prepare_csv_cache_def build_succeeds_def csv_rows_def)
qed


end
