(* ===== verification/Data_Query.thy ===== *)
theory Data_Query
  imports Csv_Cache
begin

text \<open>
  The read-only data service (\<open>src/src/builtins/data_query.rs\<close>): limits, the JSON data set, the
  validation of a selection, the selection over JSON rows and over SQLite, and the response. A
  \<open>BTreeMap\<close> is a list of pairs sorted by key. The clock of the deadline, the JSON printer
  (\<open>serde_json::to_vec\<close>) and SQLite's answer to a statement are arguments.
\<close>

section \<open>Kinds and limits\<close>

definition DATA_QUERY_CONTRACT_V1 :: string where
  "DATA_QUERY_CONTRACT_V1 = ''froglet.builtin.data_query.v1''"

definition JSON_ARRAY_COLLECTION :: string where
  "JSON_ARRAY_COLLECTION = ''rows''"

datatype data_query_source_kind = SkJson | SkCsv | SkSqlite

definition data_query_source_kind_from_str :: "string \<Rightarrow> message + data_query_source_kind" where
  "data_query_source_kind_from_str value =
     (let other = to_ascii_lowercase (trim value)
      in if other = ''json'' then Inr SkJson
         else if other = ''csv'' then Inr SkCsv
         else if other = ''sqlite'' \<or> other = ''sqlite3'' \<or> other = ''db'' then Inr SkSqlite
         else Inl (MsgDebug ''unsupported data query source kind '' other
           ''; allowed: json, csv, sqlite''))"

fun data_query_source_kind_display :: "data_query_source_kind \<Rightarrow> string" where
  "data_query_source_kind_display SkJson = ''json''"
| "data_query_source_kind_display SkCsv = ''csv''"
| "data_query_source_kind_display SkSqlite = ''sqlite''"

definition data_query_limits_default :: data_query_limits where
  "data_query_limits_default =
     \<lparr>dl_max_json_bytes = 16 * 1024 * 1024, dl_max_json_rows = 100000,
      dl_max_csv_bytes = 16 * 1024 * 1024, dl_max_csv_rows = 1000000,
      dl_max_collections = 128, dl_max_columns_per_collection = 256, dl_max_query_columns = 64,
      dl_max_equality_filters = 16, dl_max_rows_per_query = 100, dl_max_offset = 100000,
      dl_max_cell_bytes = 64 * 1024, dl_max_result_bytes = 1024 * 1024, dl_max_query_ms = 500\<rparr>"

definition limits_validate :: "data_query_limits \<Rightarrow> message + data_query_limits" where
  "limits_validate l =
     and_then (for_each (\<lambda>(name, value).
         if value = 0 then Inl (Msg (''data query limit '' @ name @ '' must be greater than zero''))
         else Inr ())
       [(''max_json_bytes'', dl_max_json_bytes l), (''max_json_rows'', dl_max_json_rows l),
        (''max_csv_bytes'', dl_max_csv_bytes l), (''max_csv_rows'', dl_max_csv_rows l),
        (''max_collections'', dl_max_collections l),
        (''max_columns_per_collection'', dl_max_columns_per_collection l),
        (''max_query_columns'', dl_max_query_columns l),
        (''max_equality_filters'', dl_max_equality_filters l),
        (''max_rows_per_query'', dl_max_rows_per_query l),
        (''max_cell_bytes'', dl_max_cell_bytes l), (''max_result_bytes'', dl_max_result_bytes l)])
     (\<lambda>_. if dl_max_query_ms l = 0
          then Inl (Msg ''data query limit max_query_ms must be greater than zero'') else Inr l)"

section \<open>The JSON data set\<close>

definition validate_name :: "string \<Rightarrow> string \<Rightarrow> message + unit" where
  "validate_name label value =
     (if value = [] \<or> 128 < length value
      then Inl (Msg (''data '' @ label @ '' name must be 1-128 bytes''))
      else if any_control value
      then Inl (Msg (''data '' @ label @ '' name must not contain control characters''))
      else Inr ())"

type_synonym json_row = "(string \<times> json) list"

fun json_rows_from :: "string \<Rightarrow> nat \<Rightarrow> json list \<Rightarrow> message + json_row list" where
  "json_rows_from collection index [] = Inr []"
| "json_rows_from collection index (JObj row # rows) =
     map_ok ((#) row) (json_rows_from collection (index + 1) rows)"
| "json_rows_from collection index (_ # rows) =
     Inl (MsgDebug ''JSON collection '' collection ('' row '' @ nat_digits index @ '' must be an object''))"

definition json_rows :: "string \<Rightarrow> json list \<Rightarrow> message + json_row list" where
  "json_rows collection rows = json_rows_from collection 0 rows"

definition json_collection :: "string \<times> json \<Rightarrow> message + string \<times> json_row list" where
  "json_collection f =
     (case snd f of
        JArr rows \<Rightarrow> map_ok (Pair (fst f)) (json_rows (fst f) rows)
      | _ \<Rightarrow> Inl (MsgDebug ''JSON collection '' (fst f) '' must be an array of objects''))"

definition json_collections :: "json \<Rightarrow> message + (string \<times> json_row list) list" where
  "json_collections value =
     (case value of
        JArr rows \<Rightarrow>
          map_ok (\<lambda>rows. [(JSON_ARRAY_COLLECTION, rows)]) (json_rows JSON_ARRAY_COLLECTION rows)
      | JObj [] \<Rightarrow> Inl (Msg ''JSON data source must contain at least one collection'')
      | JObj collections \<Rightarrow> collect_ok (map json_collection collections)
      | _ \<Rightarrow> Inl (Msg ''JSON data source must be an array of objects or an object of named arrays''))"

type_synonym collection_schema = "(string \<times> string list) list"

record json_dataset =
  jd_collections :: "(string \<times> json_row list) list"
  jd_schema :: collection_schema

text \<open>The loop over the collections: row count, column names, schema.\<close>

fun json_schema ::
  "data_query_limits \<Rightarrow> usize \<Rightarrow> (string \<times> json_row list) list \<Rightarrow> message + collection_schema" where
  "json_schema limits total_rows [] = Inr []"
| "json_schema limits total_rows ((collection, rows) # collections) =
     and_then (validate_name ''collection'' collection) (\<lambda>_.
     and_then (ok_or (Msg ''JSON row count overflow'') (checked_add total_rows (of_nat (length rows))))
       (\<lambda>total_rows.
     if total_rows > dl_max_json_rows limits
     then Inl (Msg (''JSON data source exceeds '' @ nat_digits (unat (dl_max_json_rows limits)) @
       '' row limit''))
     else
     let keys = map fst (concat rows); columns = sort (remdups keys)
     in and_then (for_each (validate_name ''column'') keys) (\<lambda>_.
     if length columns > unat (dl_max_columns_per_collection limits)
     then Inl (MsgDebug ''JSON collection '' collection ('' has '' @ nat_digits (length columns) @
       '' columns; limit is '' @ nat_digits (unat (dl_max_columns_per_collection limits))))
     else map_ok ((#) (collection, columns)) (json_schema limits total_rows collections))))"

text \<open>A file to read: opening, its length in the metadata, and its bytes.\<close>

record data_file =
  df_open :: "unit result"
  df_metadata_len :: "u64 result"
  df_read :: "bytes result"

definition read_limited :: "data_file \<Rightarrow> string \<Rightarrow> usize \<Rightarrow> message + bytes" where
  "read_limited file label max_bytes =
     and_then (map_err (\<lambda>e. Msg (''failed to open '' @ label @ '': '' @ e)) (df_open file)) (\<lambda>_.
     and_then (map_err (\<lambda>e. Msg (''failed to inspect '' @ label @ '': '' @ e)) (df_metadata_len file))
       (\<lambda>len.
     if len > max_bytes
     then Inl (Msg (label @ '' exceeds '' @ nat_digits (unat max_bytes) @ '' byte limit''))
     else
     and_then (map_err (\<lambda>e. Msg (''failed to read '' @ label @ '': '' @ e)) (df_read file)) (\<lambda>content.
     let bytes = take (unat (saturating_add max_bytes 1)) content
     in if length bytes > unat max_bytes
        then Inl (Msg (label @ '' exceeds '' @ nat_digits (unat max_bytes) @ '' byte limit''))
        else Inr bytes)))"

definition read_bounded_file :: "data_file \<Rightarrow> usize \<Rightarrow> string \<Rightarrow> message + bytes" where
  "read_bounded_file file max_bytes label = read_limited file label max_bytes"

definition json_dataset_load ::
  "(bytes \<Rightarrow> json result) \<Rightarrow> data_file \<Rightarrow> data_query_limits \<Rightarrow> message + json_dataset" where
  "json_dataset_load from_slice file limits =
     and_then (read_limited file ''JSON data source'' (dl_max_json_bytes limits)) (\<lambda>encoded.
     and_then (map_err (\<lambda>e. Msg (''invalid JSON data source: '' @ e)) (from_slice encoded)) (\<lambda>value.
     and_then (json_collections value) (\<lambda>collections.
     if length collections > unat (dl_max_collections limits)
     then Inl (Msg (''JSON data source has '' @ nat_digits (length collections) @
       '' collections; limit is '' @ nat_digits (unat (dl_max_collections limits))))
     else map_ok (\<lambda>schema. \<lparr>jd_collections = collections, jd_schema = schema\<rparr>)
       (json_schema limits 0 collections))))"

section \<open>Selections\<close>

datatype data_query_request =
    Describe
  | Select string "string list" "(string \<times> json) list" usize usize

record validated_select =
  vs_collection :: string
  vs_columns :: "string list"
  vs_equals :: "(string \<times> json) list"
  vs_limit :: usize
  vs_offset :: usize

definition require_column :: "string list \<Rightarrow> string \<Rightarrow> message + unit" where
  "require_column available column =
     and_then (validate_name ''column'' column) (\<lambda>_.
     if column \<in> set available then Inr () else Inl (MsgDebug ''unknown data column '' column ''''))"

fun json_scalar :: "json \<Rightarrow> bool" where
  "json_scalar (JArr _) = False"
| "json_scalar (JObj _) = False"
| "json_scalar _ = True"

definition check_filter :: "string list \<Rightarrow> string \<times> json \<Rightarrow> message + unit" where
  "check_filter available f =
     and_then (require_column available (fst f)) (\<lambda>_.
     if json_scalar (snd f) then Inr ()
     else Inl (MsgDebug ''equality filter '' (fst f) '' must be a JSON scalar''))"

definition selected_columns :: "string list \<Rightarrow> string list \<Rightarrow> message + string list" where
  "selected_columns available columns =
     (if columns = [] then Inr available
      else if card (set columns) \<noteq> length columns
      then Inl (Msg ''select columns must not contain duplicates'')
      else map_ok (\<lambda>_. columns) (for_each (require_column available) columns))"

definition validate_select ::
  "collection_schema \<Rightarrow> string \<Rightarrow> string list \<Rightarrow> (string \<times> json) list \<Rightarrow> usize \<Rightarrow> usize
    \<Rightarrow> data_query_limits \<Rightarrow> message + validated_select" where
  "validate_select schema collection columns equals limit offset limits =
     and_then (validate_name ''collection'' collection) (\<lambda>_.
     and_then (ok_or (MsgDebug ''unknown data collection '' collection '''') (map_of schema collection))
       (\<lambda>available.
     if limit = 0 \<or> limit > dl_max_rows_per_query limits
     then Inl (Msg (''select limit must be between 1 and '' @
       nat_digits (unat (dl_max_rows_per_query limits))))
     else if offset > dl_max_offset limits
     then Inl (Msg (''select offset exceeds '' @ nat_digits (unat (dl_max_offset limits))))
     else if length columns > unat (dl_max_query_columns limits)
     then Inl (Msg (''select requests at most '' @ nat_digits (unat (dl_max_query_columns limits)) @
       '' columns''))
     else if length equals > unat (dl_max_equality_filters limits)
     then Inl (Msg (''select requests at most '' @ nat_digits (unat (dl_max_equality_filters limits)) @
       '' equality filters''))
     else
     and_then (selected_columns available columns) (\<lambda>columns.
     map_ok (\<lambda>_. \<lparr>vs_collection = collection, vs_columns = columns, vs_equals = equals,
         vs_limit = limit, vs_offset = offset\<rparr>)
       (for_each (check_filter available) equals))))"

section \<open>Responses\<close>

definition ensure_result_bound :: "(json \<Rightarrow> bytes result) \<Rightarrow> json \<Rightarrow> usize \<Rightarrow> message + unit" where
  "ensure_result_bound to_vec value max_result_bytes =
     and_then (map_err (\<lambda>e. Msg (''failed to encode data query result: '' @ e)) (to_vec value)) (\<lambda>encoded.
     if length encoded > unat max_result_bytes
     then Inl (Msg (''data query result exceeds '' @ nat_digits (unat max_result_bytes) @ '' byte limit''))
     else Inr ())"

definition ensure_partial_rows_bound :: "(json \<Rightarrow> bytes result) \<Rightarrow> json list \<Rightarrow> usize \<Rightarrow> message + unit" where
  "ensure_partial_rows_bound to_vec rows max_result_bytes =
     and_then (map_err (\<lambda>e. Msg (''failed to encode data query rows: '' @ e)) (to_vec (JArr rows)))
       (\<lambda>encoded.
     if length encoded > unat max_result_bytes
     then Inl (Msg (''data query result exceeds '' @ nat_digits (unat max_result_bytes) @ '' byte limit''))
     else Inr ())"

definition select_value :: "data_query_source_kind \<Rightarrow> validated_select \<Rightarrow> json list \<Rightarrow> bool \<Rightarrow> json" where
  "select_value source_kind query rows has_more = mk_obj
     [(''contract_version'', always (JStr DATA_QUERY_CONTRACT_V1)),
      (''source_kind'', always (JStr (data_query_source_kind_display source_kind))),
      (''collection'', always (JStr (vs_collection query))),
      (''columns'', always (j_strs (vs_columns query))),
      (''rows'', always (JArr rows)),
      (''returned'', always (JNum (int (length rows)))),
      (''limit'', always (j_u64 (vs_limit query))),
      (''offset'', always (j_u64 (vs_offset query))),
      (''has_more'', always (JBool has_more))]"

definition select_response ::
  "(json \<Rightarrow> bytes result) \<Rightarrow> data_query_source_kind \<Rightarrow> validated_select \<Rightarrow> json list \<Rightarrow> usize
    \<Rightarrow> message + json" where
  "select_response to_vec source_kind query rows max_result_bytes =
     (let has_more = length rows > unat (vs_limit query);
          rows = take (unat (vs_limit query)) rows;
          response = select_value source_kind query rows has_more
      in map_ok (\<lambda>_. response) (ensure_result_bound to_vec response max_result_bytes))"

section \<open>Selecting from JSON\<close>

text \<open>\<open>serde_json\<close> compares numbers of the same variant; doubles compare as doubles.\<close>

fun json_canonical :: "json \<Rightarrow> json" where
  "json_canonical (JFloat x) = JFloat (canonical_csv_f64_bits x)"
| "json_canonical (JArr vs) = JArr (map json_canonical vs)"
| "json_canonical (JObj fs) = JObj (map (\<lambda>f. (fst f, json_canonical (snd f))) fs)"
| "json_canonical v = v"

definition json_eq :: "json \<Rightarrow> json \<Rightarrow> bool" where
  "json_eq v w = (json_canonical v = json_canonical w)"

definition row_matches :: "(string \<times> json) list \<Rightarrow> json_row \<Rightarrow> bool" where
  "row_matches equals row =
     list_all (\<lambda>(column, expected). case map_of row column of None \<Rightarrow> False | Some v \<Rightarrow> json_eq v expected)
       equals"

definition project_row :: "string list \<Rightarrow> json_row \<Rightarrow> json" where
  "project_row columns row = mk_obj
     (map (\<lambda>column. (column, Some (case map_of row column of None \<Rightarrow> JNull | Some v \<Rightarrow> v))) columns)"

text \<open>The loop over the rows; \<open>expired i\<close> is the clock's answer before the \<open>i\<close>-th row.\<close>

fun json_scan ::
  "(nat \<Rightarrow> bool) \<Rightarrow> validated_select \<Rightarrow> nat \<Rightarrow> json_row list \<Rightarrow> nat \<Rightarrow> json list
    \<Rightarrow> message + json list" where
  "json_scan expired query i [] matched selected = Inr selected"
| "json_scan expired query i (row # rows) matched selected =
     (if expired i then Inl (Msg ''JSON data query deadline exceeded'')
      else if \<not> row_matches (vs_equals query) row
      then json_scan expired query (i + 1) rows matched selected
      else if matched < unat (vs_offset query)
      then json_scan expired query (i + 1) rows (matched + 1) selected
      else if length selected > unat (vs_limit query) then Inr selected
      else json_scan expired query (i + 1) rows matched
        (selected @ [project_row (vs_columns query) row]))"

definition query_json ::
  "(json \<Rightarrow> bytes result) \<Rightarrow> (nat \<Rightarrow> bool) \<Rightarrow> json_dataset \<Rightarrow> validated_select \<Rightarrow> data_query_limits
    \<Rightarrow> message + json" where
  "query_json to_vec expired dataset query limits =
     and_then (ok_or (MsgDebug ''unknown data collection '' (vs_collection query) '''')
       (map_of (jd_collections dataset) (vs_collection query))) (\<lambda>rows.
     and_then (json_scan expired query 0 rows 0 []) (\<lambda>selected.
     select_response to_vec SkJson query selected (dl_max_result_bytes limits)))"

section \<open>Selecting from SQLite\<close>

definition quote_identifier :: "string \<Rightarrow> string" where
  "quote_identifier value = CHR 0x22 # escape_quotes value @ [CHR 0x22]"

fun str_join :: "string \<Rightarrow> string list \<Rightarrow> string" where
  "str_join sep [] = []"
| "str_join sep [x] = x"
| "str_join sep (x # xs) = x @ sep @ str_join sep xs"

definition select_sql :: "string \<Rightarrow> string list \<Rightarrow> string list \<Rightarrow> string" where
  "select_sql collection columns filtered =
     (let predicates = map (\<lambda>column. quote_identifier column @ '' IS ?'') filtered;
          where_clause = (if predicates = [] then [] else '' WHERE '' @ str_join '' AND '' predicates)
      in ''SELECT '' @ str_join '', '' (map quote_identifier columns) @ '' FROM '' @
         quote_identifier collection @ where_clause @ '' LIMIT ? OFFSET ?'')"

fun json_as_i64 :: "json \<Rightarrow> i64 option" where
  "json_as_i64 (JNum i) = (if in_i64 i then Some i else None)"
| "json_as_i64 _ = None"

fun json_as_f64 :: "json \<Rightarrow> f64 option" where
  "json_as_f64 (JNum i) = Some (f64_of_int i)"
| "json_as_f64 (JFloat x) = Some x"
| "json_as_f64 _ = None"

fun json_scalar_to_sql :: "json \<Rightarrow> message + sql_cell" where
  "json_scalar_to_sql JNull = Inr CellNull"
| "json_scalar_to_sql (JBool b) = Inr (CellInteger (if b then 1 else 0))"
| "json_scalar_to_sql (JNum i) =
     (if in_i64 i then Inr (CellInteger i)
      else Inl (Msg ''SQLite equality integer exceeds i64 range''))"
| "json_scalar_to_sql (JFloat x) = Inr (CellReal x)"
| "json_scalar_to_sql (JStr s) = Inr (CellText s)"
| "json_scalar_to_sql _ = Inl (Msg ''SQLite equality values must be JSON scalars'')"

definition csv_column :: "publication_csv_schema \<Rightarrow> string \<Rightarrow> message + publication_csv_column" where
  "csv_column schema name =
     ok_or (MsgDebug ''unknown CSV column '' name '''')
       (find (\<lambda>column. col_name column = name) (csv_columns schema))"

definition validate_csv_indexed_selection ::
  "publication_csv_schema \<Rightarrow> validated_select \<Rightarrow> message + unit" where
  "validate_csv_indexed_selection schema query =
     (if vs_equals query \<noteq> [] \<and>
         \<not> list_ex (\<lambda>(name, _). list_ex (\<lambda>column. col_name column = name \<and> col_indexed column)
            (csv_columns schema)) (vs_equals query)
      then Inl (Msg ''CSV equality selection must include at least one indexed column'')
      else Inr ())"

definition filter_type_error :: "string \<Rightarrow> publication_csv_column_type \<Rightarrow> message" where
  "filter_type_error name expected = MsgDebug ''CSV filter '' name
     ('' requires a '' @ publication_csv_column_type_display expected @ '' value'')"

definition csv_filter_to_sql ::
  "publication_csv_schema \<Rightarrow> string \<Rightarrow> json \<Rightarrow> message + sql_cell" where
  "csv_filter_to_sql schema name value =
     and_then (csv_column schema name) (\<lambda>column.
     if value = JNull
     then if col_nullable column then Inr CellNull
          else Inl (MsgDebug ''CSV column '' name '' is not nullable'')
     else
       (case (col_type column, value) of
          (CtString, JStr s) \<Rightarrow> Inr (CellText s)
        | (CtInteger, JNum i) \<Rightarrow>
            ok_or (MsgDebug ''CSV filter '' name '' requires an i64 integer'')
              (map_option CellInteger (json_as_i64 value))
        | (CtInteger, JFloat x) \<Rightarrow>
            ok_or (MsgDebug ''CSV filter '' name '' requires an i64 integer'')
              (map_option CellInteger (json_as_i64 value))
        | (CtNumber, JNum i) \<Rightarrow>
            ok_or (MsgDebug ''CSV filter '' name '' requires a finite number'')
              (if is_finite_f64 (f64_of_int i) then Some (CellReal (f64_of_int i)) else None)
        | (CtNumber, JFloat x) \<Rightarrow>
            ok_or (MsgDebug ''CSV filter '' name '' requires a finite number'')
              (if is_finite_f64 x then Some (CellReal x) else None)
        | (CtBoolean, JBool b) \<Rightarrow> Inr (CellInteger (if b then 1 else 0))
        | (expected, _) \<Rightarrow> Inl (filter_type_error name expected)))"

definition text_to_json :: "string \<Rightarrow> usize \<Rightarrow> string \<Rightarrow> message \<Rightarrow> message + json" where
  "text_to_json label max_cell_bytes value invalid =
     (if length value > unat max_cell_bytes
      then Inl (Msg (label @ '' text cell exceeds '' @ nat_digits (unat max_cell_bytes) @ '' byte limit''))
      else if utf8_valid value then Inr (JStr value) else Inl invalid)"

definition csv_sqlite_value_to_json ::
  "publication_csv_schema \<Rightarrow> string \<Rightarrow> sql_cell \<Rightarrow> usize \<Rightarrow> message + json" where
  "csv_sqlite_value_to_json schema name value max_cell_bytes =
     and_then (csv_column schema name) (\<lambda>column.
     if value = CellNull
     then if col_nullable column then Inr JNull
          else Inl (MsgDebug ''CSV cache returned null for non-nullable column '' name '''')
     else
       (case (col_type column, value) of
          (CtString, CellText s) \<Rightarrow>
            text_to_json ''CSV'' max_cell_bytes s (Msg ''CSV cache returned non-UTF-8 text'')
        | (CtInteger, CellInteger i) \<Rightarrow> Inr (JNum i)
        | (CtNumber, CellReal x) \<Rightarrow>
            if is_finite_f64 x then Inr (JFloat x)
            else Inl (Msg ''CSV cache returned a non-finite number'')
        | (CtBoolean, CellInteger i) \<Rightarrow>
            if i = 0 then Inr (JBool False) else if i = 1 then Inr (JBool True)
            else Inl (MsgDebug ''CSV cache value for '' name
              '' does not match declared boolean type'')
        | (expected, _) \<Rightarrow> Inl (MsgDebug ''CSV cache value for '' name
            ('' does not match declared '' @ publication_csv_column_type_display expected @ '' type''))))"

definition sqlite_value_to_json :: "crypto_env \<Rightarrow> sql_cell \<Rightarrow> usize \<Rightarrow> message + json" where
  "sqlite_value_to_json cs value max_cell_bytes =
     (case value of
        CellNull \<Rightarrow> Inr JNull
      | CellInteger i \<Rightarrow> Inr (JNum i)
      | CellReal x \<Rightarrow>
          if is_finite_f64 x then Inr (JFloat x) else Inl (Msg ''SQLite returned a non-finite real'')
      | CellText s \<Rightarrow>
          text_to_json ''SQLite'' max_cell_bytes s (Msg ''SQLite returned non-UTF-8 text'')
      | CellBlob b \<Rightarrow>
          if length b > unat max_cell_bytes
          then Inl (Msg (''SQLite blob cell exceeds '' @ nat_digits (unat max_cell_bytes) @ '' byte limit''))
          else Inr (mk_obj [(''$blob_hex'', always (JStr (hex_encode cs b)))]))"

text \<open>
  SQLite's answer to a statement with its parameters, the texts of its errors already mapped, the
  lock on the connection, and the answers to installing and clearing the deadline handler.
\<close>

record sql_engine =
  en_query :: "csv_database \<Rightarrow> string \<Rightarrow> sql_cell list \<Rightarrow> message + (message + sql_cell list) list"
  en_lock :: "message + unit"
  en_set_deadline :: "message + unit"
  en_clear_deadline :: "message + unit"

fun project_cells ::
  "(string \<Rightarrow> sql_cell \<Rightarrow> message + json) \<Rightarrow> nat \<Rightarrow> string list \<Rightarrow> sql_cell list
    \<Rightarrow> message + (string \<times> json) list" where
  "project_cells to_json index [] cells = Inr []"
| "project_cells to_json index (column # columns) cells =
     (if index \<ge> length cells
      then Inl (Msg (''SQLite column decode failed: Invalid column index: '' @ nat_digits index))
      else and_then (to_json column (cells ! index)) (\<lambda>value.
        map_ok ((#) (column, value)) (project_cells to_json (index + 1) columns cells)))"

fun sqlite_scan ::
  "(json \<Rightarrow> bytes result) \<Rightarrow> (string \<Rightarrow> sql_cell \<Rightarrow> message + json) \<Rightarrow> validated_select
    \<Rightarrow> data_query_limits \<Rightarrow> (message + sql_cell list) list \<Rightarrow> json list \<Rightarrow> message + json list" where
  "sqlite_scan to_vec to_json query limits [] selected = Inr selected"
| "sqlite_scan to_vec to_json query limits (row # rows) selected =
     and_then row (\<lambda>cells.
     and_then (project_cells to_json 0 (vs_columns query) cells) (\<lambda>projected.
     let selected = selected @ [mk_obj (map (\<lambda>(c, v). (c, Some v)) projected)]
     in if length selected > unat (vs_limit query) then Inr selected
        else and_then (ensure_partial_rows_bound to_vec selected (dl_max_result_bytes limits)) (\<lambda>_.
          sqlite_scan to_vec to_json query limits rows selected)))"

definition cell_to_json ::
  "crypto_env \<Rightarrow> publication_csv_schema option \<Rightarrow> data_query_limits \<Rightarrow> string \<Rightarrow> sql_cell
    \<Rightarrow> message + json" where
  "cell_to_json cs csv_schema limits column value =
     (case csv_schema of
        Some schema \<Rightarrow> csv_sqlite_value_to_json schema column value (dl_max_cell_bytes limits)
      | None \<Rightarrow> sqlite_value_to_json cs value (dl_max_cell_bytes limits))"

definition filter_to_sql ::
  "publication_csv_schema option \<Rightarrow> string \<times> json \<Rightarrow> message + sql_cell" where
  "filter_to_sql csv_schema f =
     (case csv_schema of
        Some schema \<Rightarrow> csv_filter_to_sql schema (fst f) (snd f)
      | None \<Rightarrow> json_scalar_to_sql (snd f))"

definition query_sqlite_inner ::
  "crypto_env \<Rightarrow> (json \<Rightarrow> bytes result) \<Rightarrow> sql_engine \<Rightarrow> csv_database \<Rightarrow> validated_select
    \<Rightarrow> data_query_limits \<Rightarrow> data_query_source_kind \<Rightarrow> publication_csv_schema option
    \<Rightarrow> message + json" where
  "query_sqlite_inner cs to_vec engine connection query limits source_kind csv_schema =
     and_then (collect_ok (map (filter_to_sql csv_schema) (vs_equals query))) (\<lambda>params.
     and_then (ok_or (Msg ''select limit is too large'')
       (i64_of_u64 (saturating_add (vs_limit query) 1))) (\<lambda>limit.
     and_then (ok_or (Msg ''select offset is too large'') (i64_of_u64 (vs_offset query))) (\<lambda>offset.
     and_then (en_query engine connection
         (select_sql (vs_collection query) (vs_columns query) (map fst (vs_equals query)))
         (params @ [CellInteger limit, CellInteger offset])) (\<lambda>rows.
     and_then (sqlite_scan to_vec (cell_to_json cs csv_schema limits) query limits rows []) (\<lambda>selected.
     select_response to_vec source_kind query selected (dl_max_result_bytes limits))))))"

text \<open>A failure to clear the deadline handler replaces the result of the query.\<close>

definition query_sqlite ::
  "crypto_env \<Rightarrow> (json \<Rightarrow> bytes result) \<Rightarrow> sql_engine \<Rightarrow> sqlite_dataset \<Rightarrow> validated_select
    \<Rightarrow> data_query_limits \<Rightarrow> data_query_source_kind \<Rightarrow> publication_csv_schema option
    \<Rightarrow> message + json" where
  "query_sqlite cs to_vec engine dataset query limits source_kind csv_schema =
     and_then (en_lock engine) (\<lambda>_.
     and_then (en_set_deadline engine) (\<lambda>_.
     let result = query_sqlite_inner cs to_vec engine (sq_connection dataset) query limits source_kind
           csv_schema
     in and_then (en_clear_deadline engine) (\<lambda>_. result)))"

section \<open>Requests\<close>

datatype data_source =
    DsJson json_dataset
  | DsCsv sqlite_dataset publication_csv_schema usize
  | DsSqlite sqlite_dataset

fun source_kind :: "data_source \<Rightarrow> data_query_source_kind" where
  "source_kind (DsJson _) = SkJson"
| "source_kind (DsCsv _ _ _) = SkCsv"
| "source_kind (DsSqlite _) = SkSqlite"

fun source_schema :: "data_source \<Rightarrow> collection_schema" where
  "source_schema (DsJson dataset) = jd_schema dataset"
| "source_schema (DsCsv dataset _ _) = sq_schema dataset"
| "source_schema (DsSqlite dataset) = sq_schema dataset"

fun csv_metadata :: "data_source \<Rightarrow> (publication_csv_schema \<times> usize) option" where
  "csv_metadata (DsCsv _ schema row_count) = Some (schema, row_count)"
| "csv_metadata _ = None"

definition describe_value :: "data_source \<Rightarrow> json" where
  "describe_value source = mk_obj
     [(''contract_version'', always (JStr DATA_QUERY_CONTRACT_V1)),
      (''source_kind'', always (JStr (data_query_source_kind_display (source_kind source)))),
      (''collections'', always (JObj (map (\<lambda>(name, columns). (name, j_strs columns)) (source_schema source)))),
      (''csv_schema'', map_option (\<lambda>(schema, _). csv_schema_value schema) (csv_metadata source)),
      (''row_counts'', map_option (\<lambda>(schema, row_count).
         mk_obj [(csv_collection schema, always (j_u64 row_count))]) (csv_metadata source))]"

definition execute_select ::
  "crypto_env \<Rightarrow> (json \<Rightarrow> bytes result) \<Rightarrow> sql_engine \<Rightarrow> (nat \<Rightarrow> bool) \<Rightarrow> data_source
    \<Rightarrow> validated_select \<Rightarrow> data_query_limits \<Rightarrow> message + json" where
  "execute_select cs to_vec engine expired source query limits =
     (case source of
        DsJson dataset \<Rightarrow> query_json to_vec expired dataset query limits
      | DsCsv dataset schema _ \<Rightarrow>
          and_then (validate_csv_indexed_selection schema query) (\<lambda>_.
          query_sqlite cs to_vec engine dataset query limits SkCsv (Some schema))
      | DsSqlite dataset \<Rightarrow> query_sqlite cs to_vec engine dataset query limits SkSqlite None)"

definition execute_request ::
  "crypto_env \<Rightarrow> (json \<Rightarrow> bytes result) \<Rightarrow> sql_engine \<Rightarrow> (nat \<Rightarrow> bool) \<Rightarrow> data_source
    \<Rightarrow> data_query_request \<Rightarrow> data_query_limits \<Rightarrow> message + json" where
  "execute_request cs to_vec engine expired source request limits =
     and_then
       (case request of
          Describe \<Rightarrow> Inr (describe_value source)
        | Select collection columns equals limit offset \<Rightarrow>
            and_then (validate_select (source_schema source) collection columns equals limit offset limits)
              (\<lambda>query. execute_select cs to_vec engine expired source query limits))
       (\<lambda>response. map_ok (\<lambda>_. response)
         (ensure_result_bound to_vec response (dl_max_result_bytes limits)))"

section \<open>What SQLite may read\<close>

datatype auth_action = AuthSelect | AuthRead string string | AuthOther

record auth_context =
  au_action :: auth_action
  au_database_name :: "string option"
  au_accessor :: "string option"

definition authorize :: "collection_schema \<Rightarrow> auth_context \<Rightarrow> bool" where
  "authorize schema context =
     (case au_action context of
        AuthSelect \<Rightarrow> True
      | AuthRead table_name column_name \<Rightarrow>
          au_database_name context = Some ''main'' \<and> au_accessor context = None \<and>
          (case map_of schema table_name of None \<Rightarrow> False | Some columns \<Rightarrow> column_name \<in> set columns)
      | AuthOther \<Rightarrow> False)"

section \<open>Source paths\<close>

datatype path_component = NormalComponent string | ParentDir | CurDir | RootDir | PrefixComponent string

text \<open>
  The file system under the root: the canonical form of the root and of a path below it, and the
  kind of each prefix of the relative path.
\<close>

record source_files =
  sf_root :: "string list result"
  sf_root_is_dir :: bool
  sf_is_symlink :: "string list \<Rightarrow> bool result"
  sf_canonical :: "string list \<Rightarrow> string list result"
  sf_is_file :: "string list \<Rightarrow> bool"

definition normal_names :: "path_component list \<Rightarrow> string list option" where
  "normal_names path =
     those (map (\<lambda>c. case c of NormalComponent s \<Rightarrow> Some s | _ \<Rightarrow> None) path)"

fun check_segments :: "source_files \<Rightarrow> string list \<Rightarrow> string list \<Rightarrow> message + string list" where
  "check_segments fs candidate [] = Inr candidate"
| "check_segments fs candidate (segment # segments) =
     and_then (map_err (\<lambda>e. Msg (''failed to inspect data source path: '' @ e))
       (sf_is_symlink fs (candidate @ [segment]))) (\<lambda>symlink.
     if symlink then Inl (Msg ''data source path must not contain symlinks'')
     else check_segments fs (candidate @ [segment]) segments)"

definition resolve_source_path ::
  "source_files \<Rightarrow> bool \<Rightarrow> path_component list \<Rightarrow> message + string list" where
  "resolve_source_path fs is_absolute relative_path =
     (if relative_path = [] then Inl (Msg ''data source path must not be empty'')
      else if is_absolute
      then Inl (Msg ''data source path must be relative to its publication root'')
      else
        (case normal_names relative_path of
           None \<Rightarrow> Inl (Msg
             ''data source path must not contain parent, current-directory, root, or prefix components'')
         | Some segments \<Rightarrow>
             and_then (map_err (\<lambda>e. Msg (''failed to resolve data source root: '' @ e)) (sf_root fs))
               (\<lambda>root.
             if \<not> sf_root_is_dir fs then Inl (Msg ''data source root must be a directory'')
             else
             and_then (check_segments fs root segments) (\<lambda>candidate.
             and_then (map_err (\<lambda>e. Msg (''failed to resolve data source path: '' @ e))
               (sf_canonical fs candidate)) (\<lambda>candidate.
             if take (length root) candidate \<noteq> root
             then Inl (Msg ''data source path escapes its publication root'')
             else if \<not> sf_is_file fs candidate
             then Inl (Msg ''data source path must identify a regular file'')
             else Inr candidate)))))"

section \<open>Opening a SQLite file\<close>

text \<open>
  What SQLite answers about a file that the provider published: its ordinary tables by name, the
  columns of each, and the connection that later answers the selections.
\<close>

record sqlite_file =
  sl_open :: "message + unit"
  sl_is_readonly :: "message + bool"
  sl_tables :: "message + string list"
  sl_columns :: "string \<Rightarrow> message + string list"
  sl_connection :: csv_database

fun sqlite_tables ::
  "sqlite_file \<Rightarrow> data_query_limits \<Rightarrow> string list \<Rightarrow> collection_schema \<Rightarrow> message + collection_schema" where
  "sqlite_tables file limits [] schema = Inr schema"
| "sqlite_tables file limits (table # tables) schema =
     and_then (validate_name ''table'' table) (\<lambda>_.
     and_then (sl_columns file table) (\<lambda>columns.
     if length columns > unat (dl_max_columns_per_collection limits)
     then Inl (MsgDebug ''SQLite table '' table ('' has '' @ nat_digits (length columns) @
       '' columns; limit is '' @ nat_digits (unat (dl_max_columns_per_collection limits))))
     else
     and_then (for_each (validate_name ''column'') columns) (\<lambda>_.
     sqlite_tables file limits tables
       (insort_key fst (table, columns) (filter (\<lambda>t. fst t \<noteq> table) schema)))))"

definition load_sqlite_schema :: "sqlite_file \<Rightarrow> data_query_limits \<Rightarrow> message + collection_schema" where
  "load_sqlite_schema file limits =
     and_then (sl_tables file) (\<lambda>table_names.
     if length table_names > unat (dl_max_collections limits)
     then Inl (Msg (''SQLite data source has '' @ nat_digits (length table_names) @ '' tables; limit is '' @
       nat_digits (unat (dl_max_collections limits))))
     else
     and_then (sqlite_tables file limits table_names []) (\<lambda>schema.
     if schema = [] then Inl (Msg ''SQLite data source contains no ordinary tables'') else Inr schema))"

definition sqlite_dataset_open :: "sqlite_file \<Rightarrow> data_query_limits \<Rightarrow> message + sqlite_dataset" where
  "sqlite_dataset_open file limits =
     and_then (sl_open file) (\<lambda>_.
     and_then (sl_is_readonly file) (\<lambda>readonly.
     if \<not> readonly then Inl (Msg ''SQLite data source did not open read-only'')
     else
     and_then (load_sqlite_schema file limits) (\<lambda>schema.
     map_ok (\<lambda>_. \<lparr>sq_connection = sl_connection file, sq_schema = schema\<rparr>)
       (ca_harden (sl_connection file)))))"

end
