(* ===== verification/Data_Handler.thy ===== *)
theory Data_Handler
  imports Data_Query
begin

text \<open>
  Opening a data source and the per-node cache of opened handlers
  (\<open>src/src/builtins/data_query.rs\<close>). The cache is a list of entries, each pointing to a cell that
  is filled at most once (\<open>Arc<OnceCell<_>>\<close>); cells live in a store addressed by number, so that
  callers which still hold an evicted cell can be described.
\<close>

section \<open>Opening a source\<close>

record data_query_handler =
  dh_source :: data_source
  dh_limits :: data_query_limits

text \<open>
  The world a handler is opened in: the files below the root, their content by path, the JSON
  parser, SQLite's answers about a database file, base64, and the cache directory.
\<close>

record data_env =
  dv_files :: source_files
  dv_file :: "string list \<Rightarrow> data_file"
  dv_from_slice :: "bytes \<Rightarrow> json result"
  dv_sqlite :: "string list \<Rightarrow> sqlite_file"
  dv_base64 :: "bytes \<Rightarrow> string"
  dv_text :: csv_text
  dv_build :: cache_build
  dv_removals :: "removal \<times> removal"
  dv_not_found :: string

definition open_with_limits ::
  "data_env \<Rightarrow> bool \<Rightarrow> path_component list \<Rightarrow> data_query_source_kind \<Rightarrow> data_query_limits
    \<Rightarrow> message + data_query_handler" where
  "open_with_limits env is_absolute relative_path kind limits =
     and_then (limits_validate limits) (\<lambda>limits.
     and_then (resolve_source_path (dv_files env) is_absolute relative_path) (\<lambda>source_path.
     map_ok (\<lambda>source. \<lparr>dh_source = source, dh_limits = limits\<rparr>)
       (case kind of
          SkJson \<Rightarrow> map_ok DsJson (json_dataset_load (dv_from_slice env) (dv_file env source_path) limits)
        | SkCsv \<Rightarrow> Inl (Msg ''CSV sources require open_csv_indexed with an explicit schema'')
        | SkSqlite \<Rightarrow> map_ok DsSqlite (sqlite_dataset_open (dv_sqlite env source_path) limits))))"

definition valid_lower_hex_digest :: "string \<Rightarrow> bool" where
  "valid_lower_hex_digest value \<longleftrightarrow> length value = 64 \<and> list_all is_lower_hex_char value"

definition csv_package ::
  "(bytes \<Rightarrow> string) \<Rightarrow> bytes \<Rightarrow> publication_csv_schema \<Rightarrow> publication_data_source" where
  "csv_package base64 source_bytes schema =
     \<lparr>ds_format = DfCsv, ds_content_base64 = base64 source_bytes, ds_csv_schema = Some schema\<rparr>"

definition open_csv_indexed_with_limits ::
  "crypto_env \<Rightarrow> data_env \<Rightarrow> bool \<Rightarrow> path_component list \<Rightarrow> publication_csv_schema \<Rightarrow> string
    \<Rightarrow> data_query_limits \<Rightarrow> cache_entry \<Rightarrow> (message + data_query_handler) \<times> cache_entry" where
  "open_csv_indexed_with_limits cs env is_absolute relative_path schema package_digest limits entry =
     (let inspected =
        and_then (limits_validate limits) (\<lambda>limits.
        and_then (csv_schema_validate schema) (\<lambda>_.
        if \<not> valid_lower_hex_digest package_digest
        then Inl (Msg ''CSV package digest must be 64 lowercase hex characters'')
        else
        and_then (resolve_source_path (dv_files env) is_absolute relative_path) (\<lambda>source_path.
        and_then (read_bounded_file (dv_file env source_path) (dl_max_csv_bytes limits) ''CSV'')
          (\<lambda>source_bytes.
        and_then (map_err Msg (csv_package_digest cs (csv_package (dv_base64 env) source_bytes schema)))
          (\<lambda>digest.
        if digest \<noteq> package_digest
        then Inl (Msg ''CSV bytes or explicit schema no longer match the publication binding'')
        else map_ok (Pair source_bytes)
          (inspect_csv_source cs (ct_schema_to_vec (dv_text env)) source_bytes schema package_digest limits))))))
      in case inspected of
           Inl e \<Rightarrow> (Inl e, entry)
         | Inr (source_bytes, expected_metadata) \<Rightarrow>
             map_prod (map_ok (\<lambda>dataset.
                 \<lparr>dh_source = DsCsv dataset schema (cm_row_count expected_metadata), dh_limits = limits\<rparr>))
               id
               (open_or_rebuild_csv_cache cs (dv_text env) (dv_build env) (dv_removals env)
                 (dv_not_found env) source_bytes schema expected_metadata limits entry))"

section \<open>The cache of handlers\<close>

type_synonym cache_key = "string \<times> string"

record handler_entry =
  he_key :: cache_key
  he_cell :: nat
  he_last_access :: u64

record 'h handler_cache =
  hc_entries :: "handler_entry list"
  hc_access_clock :: u64
  hc_capacity :: usize
  hc_cells :: "nat \<Rightarrow> 'h option"
  hc_next_cell :: nat

definition with_capacity :: "usize \<Rightarrow> 'h handler_cache" where
  "with_capacity capacity =
     \<lparr>hc_entries = [], hc_access_clock = 0, hc_capacity = max capacity 1, hc_cells = (\<lambda>_. None),
      hc_next_cell = 0\<rparr>"

text \<open>\<open>min_by_key\<close>: the entry that was used longest ago.\<close>

fun oldest_entry :: "handler_entry list \<Rightarrow> handler_entry option" where
  "oldest_entry [] = None"
| "oldest_entry (e # es) =
     (case oldest_entry es of
        None \<Rightarrow> Some e
      | Some e' \<Rightarrow> if he_last_access e' < he_last_access e then Some e' else Some e)"

definition evict_oldest :: "handler_entry list \<Rightarrow> handler_entry list" where
  "evict_oldest entries =
     (case oldest_entry entries of
        None \<Rightarrow> entries
      | Some e \<Rightarrow> filter (\<lambda>x. he_key x \<noteq> he_key e) entries)"

text \<open>The locked section: the cell of the key, found or freshly made.\<close>

definition cache_cell :: "cache_key \<Rightarrow> 'h handler_cache \<Rightarrow> nat \<times> 'h handler_cache" where
  "cache_cell key state =
     (let access = hc_access_clock state + 1; state = state\<lparr>hc_access_clock := access\<rparr>
      in case query_row (\<lambda>e. he_key e = key) (hc_entries state) of
           Some entry \<Rightarrow>
             (he_cell entry,
              state\<lparr>hc_entries := fst (update_where (\<lambda>e. he_key e = key)
                (\<lambda>e. e\<lparr>he_last_access := access\<rparr>) (hc_entries state))\<rparr>)
         | None \<Rightarrow>
             let entries = (if length (hc_entries state) \<ge> unat (hc_capacity state)
                   then evict_oldest (hc_entries state) else hc_entries state);
                 cell = hc_next_cell state
             in (cell,
                 state\<lparr>hc_entries := entries @ [\<lparr>he_key = key, he_cell = cell, he_last_access = access\<rparr>],
                   hc_cells := (hc_cells state)(cell := None), hc_next_cell := cell + 1\<rparr>))"

text \<open>\<open>OnceCell::get_or_try_init\<close>: the value if there is one, else what the initializer returns.\<close>

definition once_cell_init :: "nat \<Rightarrow> 'h result \<Rightarrow> 'h handler_cache \<Rightarrow> 'h result \<times> 'h handler_cache" where
  "once_cell_init cell initialize state =
     (case hc_cells state cell of
        Some handler \<Rightarrow> (Inr handler, state)
      | None \<Rightarrow>
          (case initialize of
             Inl e \<Rightarrow> (Inl e, state)
           | Inr handler \<Rightarrow> (Inr handler, state\<lparr>hc_cells := (hc_cells state)(cell \<mapsto> handler)\<rparr>)))"

definition get_or_try_init ::
  "string \<Rightarrow> string \<Rightarrow> 'h result \<Rightarrow> 'h handler_cache \<Rightarrow> 'h result \<times> 'h handler_cache" where
  "get_or_try_init contract_version package_digest initialize state =
     (case cache_cell (contract_version, package_digest) state of
        (cell, state) \<Rightarrow> once_cell_init cell initialize state)"

end
