(* ===== verification/Data_Properties.thy ===== *)
theory Data_Properties
  imports Data_Handler
begin

text \<open>
  What the data service promises: a page of a JSON selection is the page of the filtered rows, a
  CSV selection returns published rows and says exactly whether there are more, a value that was
  returned finds its row again, and the cache of handlers stays bounded and stable.
\<close>

section \<open>JSON selections\<close>

lemma json_scan_page:
  "\<lbrakk>json_scan expired query i rows matched selected = Inr out; matched \<le> unat (vs_offset query);
    length selected \<le> Suc (unat (vs_limit query)); selected \<noteq> [] \<longrightarrow> matched = unat (vs_offset query)\<rbrakk>
   \<Longrightarrow> out = selected @ take (Suc (unat (vs_limit query)) - length selected)
         (drop (unat (vs_offset query) - matched)
           (map (project_row (vs_columns query)) (filter (row_matches (vs_equals query)) rows)))"
proof (induction expired query i rows matched selected rule: json_scan.induct)
  case (2 expired query i row rows matched selected)
  show ?case
  proof (cases "row_matches (vs_equals query) row")
    case False
    with 2 show ?thesis by (auto split: if_splits)
  next
    case True
    consider (skip) "matched < unat (vs_offset query)"
      | (full) "matched = unat (vs_offset query)" "length selected = Suc (unat (vs_limit query))"
      | (push) "matched = unat (vs_offset query)" "length selected \<le> unat (vs_limit query)"
      using "2.prems"(2,3) by linarith
    then show ?thesis
    proof cases
      case skip
      have scan: "json_scan expired query (i + 1) rows (matched + 1) selected = Inr out"
        and nil: "selected = []" and go: "\<not> expired i"
        using "2.prems" True skip by (simp_all split: if_splits)
      from skip obtain d where d: "unat (vs_offset query) - matched = Suc d"
        "unat (vs_offset query) - (matched + 1) = d" by (metis Suc_diff_Suc Suc_eq_plus1)
      show ?thesis
        using "2.IH"(2) [OF go _ skip scan] True skip nil d by simp
    next
      case full
      with 2 True show ?thesis by (auto split: if_splits)
    next
      case push
      then have "Suc (unat (vs_limit query)) - length selected = Suc (unat (vs_limit query) - length selected)"
        by simp
      with push 2 True show ?thesis by (auto split: if_splits)
    qed
  qed
qed simp

lemma lookup_select_value:
  "lookup_field ''rows'' (select_value k q rows b) = Some (JArr rows)"
  "lookup_field ''has_more'' (select_value k q rows b) = Some (JBool b)"
  "lookup_field ''columns'' (select_value k q rows b) = Some (j_strs (vs_columns q))"
  by (simp_all add: select_value_def lookup_mk_obj always_def)

lemma select_response_Inr:
  "select_response to_vec k q rows m = Inr resp \<Longrightarrow>
   resp = select_value k q (take (unat (vs_limit q)) rows) (unat (vs_limit q) < length rows)"
  by (auto simp: select_response_def Let_def)

lemma ensure_result_bound_Inr:
  "ensure_result_bound to_vec v m = Inr () \<longleftrightarrow> (\<exists>b. to_vec v = Inr b \<and> length b \<le> unat m)"
  by (auto simp: ensure_result_bound_def result_simps not_less split: if_splits)

lemma execute_request_Inr:
  assumes "execute_request cs to_vec en ex source (Select c cols eqs l off) limits = Inr resp"
  obtains q where "validate_select (source_schema source) c cols eqs l off limits = Inr q"
    "execute_select cs to_vec en ex source q limits = Inr resp"
    "ensure_result_bound to_vec resp (dl_max_result_bytes limits) = Inr ()"
  using assms by (auto simp: execute_request_def result_simps)

lemma validate_select_Inr:
  assumes "validate_select schema c cols eqs l off limits = Inr q"
  shows "vs_collection q = c" "vs_equals q = eqs" "vs_limit q = l" "vs_offset q = off"
    "l \<noteq> 0" "l \<le> dl_max_rows_per_query limits" "off \<le> dl_max_offset limits"
    "\<exists>available. map_of schema c = Some available \<and> set (vs_columns q) \<subseteq> set available \<and>
       vs_columns q = (if cols = [] then available else cols) \<and>
       (\<forall>f\<in>set eqs. fst f \<in> set available \<and> json_scalar (snd f))"
  using assms
  by (auto simp: validate_select_def selected_columns_def require_column_def check_filter_def
      result_simps not_less split: if_splits)

text \<open>
  C32. A selection over JSON rows returns exactly the page it was asked for: the rows that satisfy
  all filters, in source order and projected to the requested columns, from the offset on and at
  most limit many; \<open>has_more\<close> says exactly whether rows remain behind the page; the page and its
  encoding stay within the configured limits.
\<close>

theorem json_page_exact:
  assumes "execute_request cs to_vec en ex (DsJson ds) (Select c cols eqs l off) limits = Inr resp"
    and "map_of (jd_collections ds) c = Some rows" and "map_of (jd_schema ds) c = Some available"
  defines "all \<equiv> map (project_row (if cols = [] then available else cols)) (filter (row_matches eqs) rows)"
  shows "lookup_field ''rows'' resp = Some (JArr (take (unat l) (drop (unat off) all))) \<and>
    lookup_field ''has_more'' resp = Some (JBool (unat off + unat l < length all)) \<and>
    l \<le> dl_max_rows_per_query limits \<and> off \<le> dl_max_offset limits \<and>
    (\<exists>b. to_vec resp = Inr b \<and> length b \<le> unat (dl_max_result_bytes limits))"
proof -
  obtain q where q: "validate_select (jd_schema ds) c cols eqs l off limits = Inr q"
      "query_json to_vec ex ds q limits = Inr resp"
      "ensure_result_bound to_vec resp (dl_max_result_bytes limits) = Inr ()"
    using execute_request_Inr [OF assms(1)] by (auto simp: execute_select_def)
  note v = validate_select_Inr [OF q(1)]
  from q(2) v(1) assms(2) obtain out where out: "json_scan ex q 0 rows 0 [] = Inr out"
      "select_response to_vec SkJson q out (dl_max_result_bytes limits) = Inr resp"
    by (auto simp: query_json_def result_simps)
  have "out = take (Suc (unat l)) (drop (unat off) all)"
    using json_scan_page [OF out(1)] v(2-4,8) assms(3) by (simp add: all_def)
  with select_response_Inr [OF out(2)] v(3) v(6,7) q(3) show ?thesis
    by (auto simp: lookup_select_value ensure_result_bound_Inr min_def)
qed

section \<open>CSV cells and JSON values\<close>

fun json_has_type :: "publication_csv_column_type \<Rightarrow> json \<Rightarrow> bool" where
  "json_has_type CtString (JStr s) = True"
| "json_has_type CtInteger (JNum i) = in_i64 i"
| "json_has_type CtNumber (JFloat x) = is_finite_f64 x"
| "json_has_type CtBoolean (JBool b) = True"
| "json_has_type _ _ = False"

lemma find_distinct_name:
  "\<lbrakk>distinct (map col_name cs); c \<in> set cs\<rbrakk> \<Longrightarrow> find (\<lambda>column. col_name column = col_name c) cs = Some c"
  by (induction cs) (auto simp: image_iff)

text \<open>
  The cells of a typed CSV column and the JSON values of a response correspond: every cell
  that fits its column is shown as a value of the declared JSON type (or as null where the column
  allows it), and that value, used as an equality filter, is the very cell it was shown for.
\<close>

theorem shown_csv_value_is_its_own_filter:
  assumes "distinct (map col_name (csv_columns schema))" and "column \<in> set (csv_columns schema)"
    and "cell_fits column cell" and "cell_within m cell"
  shows "\<exists>v. csv_sqlite_value_to_json schema (col_name column) cell m = Inr v \<and>
    csv_filter_to_sql schema (col_name column) v = Inr cell \<and>
    (if cell = CellNull then v = JNull \<and> col_nullable column else json_has_type (col_type column) v)"
proof -
  have col: "csv_column schema (col_name column) = Inr column"
    using find_distinct_name [OF assms(1,2)] by (simp add: csv_column_def)
  show ?thesis
  proof (cases cell)
    case CellNull
    with col assms(3) show ?thesis
      by (simp add: csv_sqlite_value_to_json_def csv_filter_to_sql_def cell_fits_def)
  next
    case (CellInteger i)
    with col assms(3) show ?thesis
      by (cases "col_type column")
        (auto simp: csv_sqlite_value_to_json_def csv_filter_to_sql_def cell_fits_def)
  next
    case (CellReal x)
    with col assms(3) show ?thesis
      by (cases "col_type column")
        (auto simp: csv_sqlite_value_to_json_def csv_filter_to_sql_def cell_fits_def)
  next
    case (CellText s)
    with col assms(3,4) show ?thesis
      by (cases "col_type column")
        (auto simp: csv_sqlite_value_to_json_def csv_filter_to_sql_def cell_fits_def cell_within_def
          field_ok_def text_to_json_def)
  next
    case (CellBlob b)
    with assms(3) show ?thesis by (simp add: cell_fits_def)
  qed
qed

section \<open>CSV selections\<close>

definition column_cell :: "string list \<Rightarrow> sql_cell list \<Rightarrow> string \<Rightarrow> sql_cell option" where
  "column_cell names row column = map_of (zip names row) column"

text \<open>
  The documented meaning of the statements the service sends to SQLite, on a table with the given
  column names and rows: the rows whose cells equal the parameters, in some order, from the offset
  on and up to the limit, projected to the selected columns.
\<close>

definition cells_match ::
  "string list \<Rightarrow> string list \<Rightarrow> sql_cell list \<Rightarrow> sql_cell list \<Rightarrow> bool" where
  "cells_match names filtered params row \<longleftrightarrow>
     list_all2 (\<lambda>column p. map_option canonical_cell (column_cell names row column) = Some (canonical_cell p))
       filtered params"

definition answers_select ::
  "sql_engine \<Rightarrow> csv_database \<Rightarrow> string \<Rightarrow> string list \<Rightarrow> string list \<Rightarrow> string list \<Rightarrow> bool" where
  "answers_select engine db collection names columns filtered \<longleftrightarrow>
     (\<forall>params limit offset. length filtered = length params \<longrightarrow>
        (\<exists>arranged. mset arranged = mset (filter (cells_match names filtered params) (cached_rows db)) \<and>
           en_query engine db (select_sql collection columns filtered)
             (params @ [CellInteger limit, CellInteger offset]) =
           Inr (map (\<lambda>row. Inr (map (\<lambda>column. the (column_cell names row column)) columns))
             (take (nat limit) (drop (nat offset) arranged)))))"

lemma sqlite_scan_Inr:
  "\<lbrakk>sqlite_scan to_vec to_json q limits (map Inr rows) selected = Inr out;
    length selected \<le> unat (vs_limit q)\<rbrakk>
   \<Longrightarrow> \<exists>new. out = selected @ new \<and>
     list_all2 (\<lambda>cells obj. \<exists>p. project_cells to_json 0 (vs_columns q) cells = Inr p \<and>
         obj = mk_obj (map (\<lambda>(c, v). (c, Some v)) p))
       (take (Suc (unat (vs_limit q)) - length selected) rows) new"
proof (induction rows arbitrary: selected)
  case (Cons cells rows)
  from Cons.prems(1) obtain p where p: "project_cells to_json 0 (vs_columns q) cells = Inr p"
    by (auto simp: result_simps)
  let ?obj = "mk_obj (map (\<lambda>(c, v). (c, Some v)) p)"
  have t: "take (Suc (unat (vs_limit q)) - length selected) (cells # rows) =
      cells # take (unat (vs_limit q) - length selected) rows"
    using Cons.prems(2) by (simp add: Suc_diff_le)
  show ?case
  proof (cases "length selected = unat (vs_limit q)")
    case True
    with Cons.prems(1) p t show ?thesis by (auto simp: Let_def)
  next
    case False
    with Cons.prems p have "sqlite_scan to_vec to_json q limits (map Inr rows) (selected @ [?obj]) = Inr out"
      by (auto simp: Let_def result_simps split: if_splits)
    with Cons.IH [of "selected @ [?obj]"] False Cons.prems(2) p t show ?thesis by auto
  qed
qed simp

definition csv_row_value ::
  "publication_csv_schema \<Rightarrow> usize \<Rightarrow> string list \<Rightarrow> sql_cell list \<Rightarrow> json" where
  "csv_row_value schema m columns row = mk_obj (map (\<lambda>column. (column, Some (projr
     (csv_sqlite_value_to_json schema column
       (the (column_cell (map col_name (csv_columns schema)) row column)) m)))) columns)"

lemma project_cells_Inr:
  "\<lbrakk>project_cells to_json k columns cells = Inr p; drop k cells = map f columns\<rbrakk>
   \<Longrightarrow> p = map (\<lambda>column. (column, projr (to_json column (f column)))) columns"
proof (induction columns arbitrary: k p)
  case (Cons c columns)
  have k: "k < length cells"
  proof (rule ccontr)
    assume "\<not> k < length cells"
    with Cons.prems(2) show False by simp
  qed
  have "cells ! k = f c" "drop (Suc k) cells = map f columns"
    using Cons.prems(2) by (simp_all add: Cons_nth_drop_Suc [OF k, symmetric])
  with Cons k show ?case by (auto simp: result_simps)
qed simp

lemma list_all2_functional:
  "list_all2 (\<lambda>x y. y = f x) xs ys \<longleftrightarrow> ys = map f xs"
  by (induction xs ys rule: list_induct2') auto


section \<open>The cache of handlers\<close>

definition cache_inv :: "'h handler_cache \<Rightarrow> bool" where
  "cache_inv c \<longleftrightarrow> 0 < unat (hc_capacity c) \<and> length (hc_entries c) \<le> unat (hc_capacity c) \<and>
     distinct (map he_key (hc_entries c)) \<and> (\<forall>e\<in>set (hc_entries c). he_cell e < hc_next_cell c)"

lemma oldest_entry_Some: "es \<noteq> [] \<Longrightarrow> \<exists>e\<in>set es. oldest_entry es = Some e"
  by (induction es) (auto split: option.splits, force)

lemma evict_oldest_shorter:
  assumes "es \<noteq> []" and "distinct (map he_key es)"
  shows "length (evict_oldest es) < length es" and "set (evict_oldest es) \<subseteq> set es"
    and "distinct (map he_key (evict_oldest es))"
proof -
  obtain e where e: "e \<in> set es" "oldest_entry es = Some e" using oldest_entry_Some [OF assms(1)] by blast
  then have "length (filter (\<lambda>x. he_key x \<noteq> he_key e) es) < length es"
    by (intro length_filter_less) auto
  with e show "length (evict_oldest es) < length es" by (simp add: evict_oldest_def)
  show "set (evict_oldest es) \<subseteq> set es" "distinct (map he_key (evict_oldest es))"
    using e assms(2) by (auto simp: evict_oldest_def distinct_map_filter)
qed

lemma cache_cell_entry:
  assumes "cache_inv c" and "cache_cell key c = (cell, c')"
  shows "cache_inv c'" and "\<exists>e\<in>set (hc_entries c'). he_key e = key \<and> he_cell e = cell"
    and "hc_capacity c' = hc_capacity c"
proof -
  have "cache_inv c' \<and> (\<exists>e\<in>set (hc_entries c'). he_key e = key \<and> he_cell e = cell) \<and>
    hc_capacity c' = hc_capacity c"
  proof (cases "query_row (\<lambda>e. he_key e = key) (hc_entries c)")
    case (Some e)
    with assms query_row_Some [OF Some] show ?thesis
      by (auto simp: cache_cell_def cache_inv_def Let_def update_where_def comp_def if_distrib
          intro!: bexI [of _ "e\<lparr>he_last_access := hc_access_clock c + 1\<rparr>"] cong: if_cong)
  next
    case None
    define kept where "kept = (if length (hc_entries c) \<ge> unat (hc_capacity c)
      then evict_oldest (hc_entries c) else hc_entries c)"
    have fresh: "\<forall>e\<in>set (hc_entries c). he_key e \<noteq> key" using None by (simp add: query_row_None)
    have "length kept < unat (hc_capacity c)" "set kept \<subseteq> set (hc_entries c)" "distinct (map he_key kept)"
      using assms(1) evict_oldest_shorter [of "hc_entries c"]
      by (cases "hc_entries c = []"; auto simp: kept_def cache_inv_def split: if_splits)+
    moreover have "hc_entries c' = kept @ [\<lparr>he_key = key, he_cell = hc_next_cell c,
        he_last_access = hc_access_clock c + 1\<rparr>]" "hc_next_cell c' = Suc (hc_next_cell c)"
      "hc_capacity c' = hc_capacity c" "cell = hc_next_cell c"
      using None assms(2) by (auto simp: cache_cell_def Let_def kept_def)
    ultimately show ?thesis
      using assms(1) fresh by (auto simp: cache_inv_def less_Suc_eq)
  qed
  then show "cache_inv c'" "\<exists>e\<in>set (hc_entries c'). he_key e = key \<and> he_cell e = cell"
    "hc_capacity c' = hc_capacity c" by auto
qed

lemma cache_cell_again:
  assumes "cache_inv c" and "e \<in> set (hc_entries c)"
  shows "\<exists>c'. cache_cell (he_key e) c = (he_cell e, c') \<and> hc_cells c' = hc_cells c"
proof -
  have "query_row (\<lambda>x. he_key x = he_key e) (hc_entries c) = Some e"
    using assms by (intro query_row_key) (auto simp: cache_inv_def)
  then show ?thesis by (simp add: cache_cell_def Let_def)
qed

text \<open>Any sequence of calls.\<close>

inductive handler_calls :: "'h handler_cache \<Rightarrow> 'h handler_cache \<Rightarrow> bool" where
  calls_refl: "handler_calls c c"
| calls_step: "handler_calls c d \<Longrightarrow> handler_calls c (snd (get_or_try_init cv digest initialize d))"

lemma once_cell_init_inv: "cache_inv c \<Longrightarrow> cache_inv (snd (once_cell_init cell i c))"
  by (auto simp: once_cell_init_def cache_inv_def split: option.splits sum.splits)

lemma get_or_try_init_inv:
  assumes "cache_inv c"
  shows "cache_inv (snd (get_or_try_init cv digest i c))"
proof -
  obtain cell d where d: "cache_cell (cv, digest) c = (cell, d)" by (cases "cache_cell (cv, digest) c")
  from once_cell_init_inv [OF cache_cell_entry(1) [OF assms d]] d show ?thesis
    by (simp add: get_or_try_init_def)
qed

lemma get_or_try_init_capacity:
  assumes "cache_inv c"
  shows "hc_capacity (snd (get_or_try_init cv digest i c)) = hc_capacity c"
proof -
  obtain cell d where d: "cache_cell (cv, digest) c = (cell, d)" by (cases "cache_cell (cv, digest) c")
  from cache_cell_entry(3) [OF assms d] d show ?thesis
    by (auto simp: get_or_try_init_def once_cell_init_def split: option.splits sum.splits)
qed

lemma handler_calls_inv:
  "handler_calls c d \<Longrightarrow> cache_inv c \<Longrightarrow> cache_inv d \<and> hc_capacity d = hc_capacity c"
  by (induction rule: handler_calls.induct)
    (simp_all add: get_or_try_init_inv get_or_try_init_capacity)

lemma with_capacity_inv: "cache_inv (with_capacity n)"
  by (simp add: cache_inv_def with_capacity_def max_def word_le_nat_alt)

text \<open>
  Whatever calls were made to it, the cache of handlers holds at most its capacity (at least
  one) of entries with different keys. A handler that was opened is returned again to the next
  call with its key, which does not run its initializer; a failure is not remembered.
\<close>

theorem handler_cache_is_bounded:
  assumes "handler_calls (with_capacity n) c"
  shows "length (hc_entries c) \<le> max 1 (unat n) \<and> distinct (map he_key (hc_entries c)) \<and>
    (fst (get_or_try_init cv digest i c) = Inr h \<longrightarrow>
       fst (get_or_try_init cv digest j (snd (get_or_try_init cv digest i c))) = Inr h) \<and>
    (fst (get_or_try_init cv digest i c) = Inl e \<longrightarrow>
       fst (get_or_try_init cv digest j (snd (get_or_try_init cv digest i c))) = j)"
proof -
  have inv: "cache_inv c" "hc_capacity c = max n 1"
    using handler_calls_inv [OF assms with_capacity_inv] by (simp_all add: with_capacity_def)
  obtain cell d where d: "cache_cell (cv, digest) c = (cell, d)" by (cases "cache_cell (cv, digest) c")
  obtain r d' where r: "once_cell_init cell i d = (r, d')" by (cases "once_cell_init cell i d")
  have d': "get_or_try_init cv digest i c = (r, d')" using d r by (simp add: get_or_try_init_def)
  have entries: "hc_entries d' = hc_entries d"
    using r by (auto simp: once_cell_init_def split: option.splits sum.splits)
  obtain e' where e': "e' \<in> set (hc_entries d')" "he_key e' = (cv, digest)" "he_cell e' = cell"
    using cache_cell_entry(2) [OF inv(1) d] entries by auto
  have "cache_inv d'" using get_or_try_init_inv [OF inv(1), of cv digest i] d' by simp
  from cache_cell_again [OF this e'(1)] e'(2,3) obtain d''
    where again: "cache_cell (cv, digest) d' = (cell, d'')" "hc_cells d'' = hc_cells d'" by auto
  have "hc_cells d' cell = (case r of Inl _ \<Rightarrow> None | Inr h \<Rightarrow> Some h)"
    using r by (auto simp: once_cell_init_def split: option.splits sum.splits)
  then have "fst (get_or_try_init cv digest j d') = (case r of Inl _ \<Rightarrow> j | Inr h \<Rightarrow> Inr h)"
    using again by (auto simp: get_or_try_init_def once_cell_init_def split: sum.splits)
  with d' inv show ?thesis
    by (auto simp: cache_inv_def max_def word_le_nat_alt split: if_splits)
qed

end
