(* ===== verification/Data_Witnesses.thy ===== *)
theory Data_Witnesses
  imports Data_Properties Reference_Env
begin

text \<open>
  Concrete instances of the theorems on the data service: a two-column CSV source, a database
  that answers as SQLite is documented to, a small JSON data set, and the handler cache.
\<close>

section \<open>A CSV source\<close>

definition sample_csv_columns :: "publication_csv_column list" where
  "sample_csv_columns =
     [\<lparr>col_name = ''id'', col_type = CtInteger, col_nullable = False, col_indexed = True\<rparr>,
      \<lparr>col_name = ''name'', col_type = CtString, col_nullable = True, col_indexed = False\<rparr>]"

definition sample_csv_schema :: publication_csv_schema where
  "sample_csv_schema = \<lparr>csv_collection = ''people'', csv_columns = sample_csv_columns\<rparr>"

definition sample_csv_header :: "bool \<times> csv_field list" where
  "sample_csv_header = (False, [(False, ''id''), (False, ''name'')])"

definition sample_csv_record :: "bool \<times> csv_field list" where
  "sample_csv_record = (True, [(False, ''7''), (True, ''a,b'')])"

definition sample_csv_source :: bytes where
  "sample_csv_source = render_document [sample_csv_header, sample_csv_record]"

definition sample_csv_cells :: "sql_cell list" where
  "sample_csv_cells = [CellInteger 7, CellText ''a,b'']"

lemma sample_writable:
  "list_all (writable_record (dl_max_cell_bytes data_query_limits_default))
     [sample_csv_header, sample_csv_record]"
  by (simp add: data_query_limits_default_def sample_csv_header_def sample_csv_record_def
      writable_record_def writable_field_def plain_char_def)

lemma sample_row_typed:
  "csv_row_to_sql [''7'', ''a,b''] sample_csv_columns = Inr sample_csv_cells"
  by (simp add: csv_row_to_sql_def sample_csv_columns_def sample_csv_cells_def csv_cell_to_sql_def
      parse_i64_def parse_digits_def digits_value_def is_ascii_digit_def starts_with_def)

lemma sample_records_typed:
  "list_all (typed_record (csv_columns sample_csv_schema)) [sample_csv_record]"
  using sample_row_typed
  by (simp add: typed_record_def sample_csv_record_def sample_csv_schema_def sample_csv_columns_def)

theorem written_csv_reads_back_witness:
  "visit_csv_rows sample_csv_source sample_csv_schema data_query_limits_default keep_rows [] =
     Inr (1, [sample_csv_cells])"
  using written_csv_reads_back [OF sample_writable _ sample_records_typed] sample_row_typed
  by (simp add: sample_csv_source_def sample_csv_header_def sample_csv_schema_def sample_csv_columns_def
      sample_csv_record_def typed_values_def data_query_limits_default_def)

lemma sample_csv_rows:
  "csv_rows sample_csv_source sample_csv_schema data_query_limits_default = Inr (1, [sample_csv_cells])"
proof -
  have "map snd (snd sample_csv_header) = map col_name (csv_columns sample_csv_schema)"
    by (simp add: sample_csv_header_def sample_csv_schema_def sample_csv_columns_def)
  then have "csv_rows sample_csv_source sample_csv_schema data_query_limits_default =
      visit_rows data_query_limits_default (csv_columns sample_csv_schema) keep_rows 0 []
        (render_document [sample_csv_record])"
    using sample_writable by (simp add: csv_rows_def sample_csv_source_def visit_document)
  also have "\<dots> = Inr (1, [sample_csv_cells])"
    using visit_rows_reads [of data_query_limits_default "[sample_csv_record]"
        "csv_columns sample_csv_schema" 0 "[]"] sample_writable sample_records_typed sample_row_typed
    by (simp add: data_query_limits_default_def typed_values_def sample_csv_record_def sample_csv_schema_def)
  finally show ?thesis .
qed

theorem csv_rows_fit_the_schema_witness:
  "list_all2 cell_fits (csv_columns sample_csv_schema) sample_csv_cells \<and>
   (1::nat) \<le> length sample_csv_source"
  using csv_rows_fit_the_schema [OF sample_csv_rows] by simp

section \<open>A database that answers as documented\<close>

definition sample_csv_database ::
  "publication_csv_schema \<Rightarrow> sql_cell list list \<Rightarrow> string \<Rightarrow> csv_database" where
  "sample_csv_database schema rows metadata_json =
     \<lparr>ca_open = Inr (), ca_is_readonly = Inr True, ca_integrity_check = Inr ''ok'',
      ca_metadata_json = Inr metadata_json, ca_table_info = Inr (expected_table_info schema),
      ca_index_list = Inr (map (\<lambda>c. (index_name schema c, 0, ''c'', 0))
        (filter col_indexed (csv_columns schema))),
      ca_index_info = (\<lambda>name.
        case find (\<lambda>c. index_name schema c = name) (filter col_indexed (csv_columns schema)) of
          None \<Rightarrow> Inl (Msg ''no such index'') | Some c \<Rightarrow> Inr [col_name c]),
      ca_rows = Inr (map Inr rows), ca_harden = Inr ()\<rparr>"

definition sample_cache_build :: cache_build where
  "sample_cache_build =
     \<lparr>bi_create = Inr (), bi_configure = Inr (), bi_create_tables = Inr (), bi_begin = Inr (),
      bi_prepare = Inr (), bi_insert = (\<lambda>_ _. Inr ()), bi_create_index = (\<lambda>_. Inr ()),
      bi_insert_metadata = Inr (), bi_commit = Inr (), bi_permissions = Inr (), bi_flush = Inr (),
      bi_sync_before = Inr (), bi_rename = Inr (), bi_sync_after = Inr (),
      bi_database = sample_csv_database\<rparr>"

definition sample_cache_metadata :: csv_cache_metadata where
  "sample_cache_metadata = projr (inspect_csv_source reference_env (\<lambda>_. Inr ''schema'') sample_csv_source
     sample_csv_schema ''digest'' data_query_limits_default)"

definition sample_csv_text :: csv_text where
  "sample_csv_text =
     \<lparr>ct_schema_to_vec = (\<lambda>_. Inr ''schema''), ct_metadata_to_string = (\<lambda>_. Inr ''metadata''),
      ct_metadata_from_str = (\<lambda>_. Inr sample_cache_metadata)\<rparr>"

lemma sample_schema_valid: "csv_schema_validate sample_csv_schema = Inr ()"
  by (simp add: csv_schema_validate_def sample_csv_schema_def sample_csv_columns_def validate_data_name_def)

lemma sample_inspection:
  "inspect_csv_source reference_env (ct_schema_to_vec sample_csv_text) sample_csv_source sample_csv_schema
     ''digest'' data_query_limits_default = Inr sample_cache_metadata"
  "cm_row_count sample_cache_metadata = 1"
proof -
  have "\<exists>m. inspect_csv_source reference_env (\<lambda>_. Inr ''schema'') sample_csv_source sample_csv_schema
      ''digest'' data_query_limits_default = Inr m \<and> cm_row_count m = 1"
    using sample_csv_rows by (simp add: inspect_csv_source_def csv_content_digest_new_def visit_csv_rows_fold)
  then show "inspect_csv_source reference_env (ct_schema_to_vec sample_csv_text) sample_csv_source
      sample_csv_schema ''digest'' data_query_limits_default = Inr sample_cache_metadata"
    "cm_row_count sample_cache_metadata = 1"
    by (auto simp: sample_csv_text_def sample_cache_metadata_def)
qed

lemma sample_text_round_trip:
  "ct_metadata_to_string sample_csv_text m = Inr ''metadata''"
  "ct_metadata_from_str sample_csv_text s = Inr sample_cache_metadata"
  by (simp_all add: sample_csv_text_def)

lemma sample_build_succeeds: "build_succeeds sample_cache_build"
  by (simp add: build_succeeds_def sample_cache_build_def)

lemma sample_store_faithful: "faithful_store sample_cache_build sample_csv_schema"
  by (auto simp: faithful_store_def sample_cache_build_def sample_csv_database_def Let_def
      sample_csv_schema_def sample_csv_columns_def index_name_def)


definition sample_csv_dataset :: sqlite_dataset where
  "sample_csv_dataset = \<lparr>sq_connection = sample_csv_database sample_csv_schema [sample_csv_cells] ''metadata'',
     sq_schema = [(''people'', [''id'', ''name''])]\<rparr>"

lemma sample_database_opens:
  "open_csv_cache reference_env sample_csv_text (CacheFile (sq_connection sample_csv_dataset))
     sample_csv_schema sample_cache_metadata = Inr sample_csv_dataset"
proof -
  let ?db = "sample_csv_database sample_csv_schema [sample_csv_cells] ''metadata''"
  have rows: "csv_rows sample_csv_source sample_csv_schema data_query_limits_default =
      Inr (cm_row_count sample_cache_metadata, [sample_csv_cells])"
    using sample_csv_rows sample_inspection(2) by simp
  have "validate_csv_cache_indexes ?db sample_csv_schema = Inr ()"
    by (rule validate_indexes_faithful [OF sample_schema_valid,
          of "filter col_indexed (csv_columns sample_csv_schema)"])
      (auto simp: sample_csv_database_def sample_csv_schema_def sample_csv_columns_def index_name_def)
  moreover have "validate_csv_cache_content reference_env sample_csv_text ?db sample_csv_schema
      sample_cache_metadata = Inr ()"
    by (rule validate_content_faithful [OF sample_inspection(1) rows, of _ "[sample_csv_cells]"])
      (simp_all add: sample_csv_database_def)
  ultimately show ?thesis
    by (simp add: open_csv_cache_def sample_csv_dataset_def sample_csv_database_def sample_text_round_trip
        csv_cache_metadata_load_def validate_csv_cache_table_schema_def)
      (simp add: sample_csv_schema_def sample_csv_columns_def)
qed

theorem opened_cache_serves_the_source_witness:
  "map (map canonical_cell) (cached_rows (sq_connection sample_csv_dataset)) = [sample_csv_cells] \<or>
   (\<exists>start. csv_content_digest_new (ct_schema_to_vec sample_csv_text) ''digest'' sample_csv_schema = Inr start \<and>
      source_stream start (cached_rows (sq_connection sample_csv_dataset)) 1 \<noteq>
        source_stream start [sample_csv_cells] 1)"
proof -
  have "open_or_rebuild_csv_cache reference_env sample_csv_text sample_cache_build
      (RemovalNotFound, RemovalNotFound) ''missing'' sample_csv_source sample_csv_schema
      sample_cache_metadata data_query_limits_default (CacheFile (sq_connection sample_csv_dataset)) =
    (Inr sample_csv_dataset, CacheFile (sq_connection sample_csv_dataset))"
    using sample_database_opens by (simp add: open_or_rebuild_csv_cache_def)
  moreover have "list_all row_in_memory (cached_rows (sq_connection sample_csv_dataset))"
    by (simp add: cached_rows_def sample_csv_dataset_def sample_csv_database_def row_in_memory_def
        sample_csv_cells_def in_i64_def)
  moreover have "map (map canonical_cell) [sample_csv_cells] = [sample_csv_cells]"
    by (simp add: sample_csv_cells_def)
  ultimately show ?thesis
    using opened_cache_serves_the_source [OF crypto_lawsD(1) [OF reference_crypto_laws] sample_schema_valid
        sample_inspection(1) sample_csv_rows] by metis
qed

section \<open>Selections\<close>

definition sample_json_rows :: "json_row list" where
  "sample_json_rows = [[(''id'', JNum 1)], [(''id'', JNum 2)], [(''id'', JNum 2), (''x'', JBool True)]]"

definition sample_json_dataset :: json_dataset where
  "sample_json_dataset = \<lparr>jd_collections = [(''rows'', sample_json_rows)],
     jd_schema = [(''rows'', [''id'', ''x''])]\<rparr>"

definition sample_engine :: sql_engine where
  "sample_engine =
     \<lparr>en_query = (\<lambda>db _ params. Inr (map (\<lambda>row. Inr row)
        (take 2 (cached_rows db)))),
      en_lock = Inr (), en_set_deadline = Inr (), en_clear_deadline = Inr ()\<rparr>"

definition sample_json_query :: validated_select where
  "sample_json_query = \<lparr>vs_collection = ''rows'', vs_columns = [''id''], vs_equals = [(''id'', JNum 2)],
     vs_limit = 1, vs_offset = 0\<rparr>"

lemma sample_json_answer:
  "\<exists>resp. execute_request reference_env (\<lambda>_. Inr ''short'') sample_engine (\<lambda>_. False)
     (DsJson sample_json_dataset) (Select ''rows'' [''id''] [(''id'', JNum 2)] 1 0)
     data_query_limits_default = Inr resp"
proof -
  have "validate_select (jd_schema sample_json_dataset) ''rows'' [''id''] [(''id'', JNum 2)] 1 0
      data_query_limits_default = Inr sample_json_query"
    by (simp add: validate_select_def sample_json_dataset_def validate_name_def selected_columns_def
        require_column_def check_filter_def data_query_limits_default_def sample_json_query_def
        word_less_nat_alt)
  moreover have "\<exists>out. json_scan (\<lambda>_. False) sample_json_query 0 sample_json_rows 0 [] = Inr out"
    by (simp add: sample_json_rows_def sample_json_query_def)
  ultimately show ?thesis
    by (auto simp: execute_request_def execute_select_def query_json_def sample_json_dataset_def
        select_response_def ensure_result_bound_def data_query_limits_default_def Let_def
        sample_json_query_def)
qed

theorem json_page_exact_witness:
  "\<exists>resp. execute_request reference_env (\<lambda>_. Inr ''short'') sample_engine (\<lambda>_. False)
     (DsJson sample_json_dataset) (Select ''rows'' [''id''] [(''id'', JNum 2)] 1 0)
     data_query_limits_default = Inr resp \<and>
     lookup_field ''rows'' resp = Some (JArr [JObj [(''id'', JNum 2)]]) \<and>
     lookup_field ''has_more'' resp = Some (JBool True)"
proof -
  obtain resp where resp: "execute_request reference_env (\<lambda>_. Inr ''short'') sample_engine (\<lambda>_. False)
     (DsJson sample_json_dataset) (Select ''rows'' [''id''] [(''id'', JNum 2)] 1 0)
     data_query_limits_default = Inr resp" using sample_json_answer by blast
  from json_page_exact [OF this, of sample_json_rows "[''id'', ''x'']"] resp show ?thesis
    by (simp add: sample_json_dataset_def)
      (simp add: sample_json_rows_def row_matches_def json_eq_def project_row_def mk_obj_def)
qed

theorem shown_csv_value_is_its_own_filter_witness:
  "\<exists>v. csv_sqlite_value_to_json sample_csv_schema ''name'' (CellText ''a,b'') 100 = Inr v \<and>
     csv_filter_to_sql sample_csv_schema ''name'' v = Inr (CellText ''a,b'') \<and>
     json_has_type CtString v"
  using shown_csv_value_is_its_own_filter [of sample_csv_schema
      "\<lparr>col_name = ''name'', col_type = CtString, col_nullable = True, col_indexed = False\<rparr>"
      "CellText ''a,b''" 100]
  by (simp add: sample_csv_schema_def sample_csv_columns_def cell_fits_def cell_within_def field_ok_def)

text \<open>An engine that answers one form of selection as documented.\<close>

definition sample_csv_engine :: "string list \<Rightarrow> string list \<Rightarrow> string list \<Rightarrow> sql_engine" where
  "sample_csv_engine names columns filtered =
     \<lparr>en_query = (\<lambda>db _ params.
        case drop (length filtered) params of
          [CellInteger limit, CellInteger offset] \<Rightarrow>
            Inr (map (\<lambda>row. Inr (map (\<lambda>column. the (column_cell names row column)) columns))
              (take (nat limit) (drop (nat offset)
                (filter (cells_match names filtered (take (length filtered) params)) (cached_rows db)))))
        | _ \<Rightarrow> Inl (Msg ''bad parameters'')),
      en_lock = Inr (), en_set_deadline = Inr (), en_clear_deadline = Inr ()\<rparr>"

lemma sample_csv_engine_answers:
  "answers_select (sample_csv_engine names columns filtered) db c names columns filtered"
  unfolding answers_select_def
proof (intro allI impI)
  fix params :: "sql_cell list" and limit offset assume "length filtered = length params"
  then show "\<exists>arranged. mset arranged = mset (filter (cells_match names filtered params) (cached_rows db)) \<and>
      en_query (sample_csv_engine names columns filtered) db (select_sql c columns filtered)
        (params @ [CellInteger limit, CellInteger offset]) =
      Inr (map (\<lambda>row. Inr (map (\<lambda>column. the (column_cell names row column)) columns))
        (take (nat limit) (drop (nat offset) arranged)))"
    by (intro exI [of _ "filter (cells_match names filtered params) (cached_rows db)"])
      (simp add: sample_csv_engine_def)
qed

definition sample_csv_query :: validated_select where
  "sample_csv_query = \<lparr>vs_collection = ''people'', vs_columns = [''name''], vs_equals = [(''id'', JNum 7)],
     vs_limit = 1, vs_offset = 0\<rparr>"

lemma sample_csv_answer:
  "\<exists>resp. execute_request reference_env (\<lambda>_. Inr ''short'')
     (sample_csv_engine [''id'', ''name''] [''name''] [''id'']) (\<lambda>_. False)
     (DsCsv sample_csv_dataset sample_csv_schema 1) (Select ''people'' [''name''] [(''id'', JNum 7)] 1 0)
     data_query_limits_default = Inr resp"
proof -
  have "validate_select (sq_schema sample_csv_dataset) ''people'' [''name''] [(''id'', JNum 7)] 1 0
      data_query_limits_default = Inr sample_csv_query"
    by (simp add: validate_select_def sample_csv_dataset_def validate_name_def selected_columns_def
        require_column_def check_filter_def data_query_limits_default_def sample_csv_query_def
        word_less_nat_alt)
  moreover have "filter_to_sql (Some sample_csv_schema) (''id'', JNum 7) = Inr (CellInteger 7)"
    by (simp add: filter_to_sql_def csv_filter_to_sql_def csv_column_def sample_csv_schema_def
        sample_csv_columns_def in_i64_def)
  moreover have "cached_rows (sq_connection sample_csv_dataset) = [sample_csv_cells]"
    by (simp add: cached_rows_def sample_csv_dataset_def sample_csv_database_def)
  moreover have "csv_sqlite_value_to_json sample_csv_schema ''name'' (CellText ''a,b'') 65536 = Inr (JStr ''a,b'')"
    by (simp add: csv_sqlite_value_to_json_def csv_column_def sample_csv_schema_def sample_csv_columns_def
        text_to_json_def)
  moreover have "validate_csv_indexed_selection sample_csv_schema sample_csv_query = Inr ()"
    by (simp add: validate_csv_indexed_selection_def sample_csv_query_def sample_csv_schema_def
        sample_csv_columns_def)
  ultimately show ?thesis
    by (simp add: execute_request_def execute_select_def query_sqlite_def query_sqlite_inner_def
        sample_csv_engine_def sample_csv_query_def i64_of_u64_def saturating_add_def cells_match_def
        column_cell_def sample_csv_cells_def cell_to_json_def data_query_limits_default_def
        ensure_partial_rows_bound_def select_response_def ensure_result_bound_def Let_def)
qed


theorem handler_cache_is_bounded_witness:
  "length (hc_entries (snd (get_or_try_init ''v1'' ''d'' (Inr (5::nat)) (with_capacity 1)))) \<le> 1 \<and>
   fst (get_or_try_init ''v1'' ''d'' (Inl ''unused'')
     (snd (get_or_try_init ''v1'' ''d'' (Inr (5::nat)) (with_capacity 1)))) = Inr 5"
  using handler_cache_is_bounded [OF calls_refl, of 1 "''v1''" "''d''" "Inr (5::nat)"]
    handler_cache_is_bounded [OF calls_step [OF calls_refl], of "''v1''" "''d''" "Inr (5::nat)" 1]
  by (simp add: get_or_try_init_def cache_cell_def with_capacity_def once_cell_init_def Let_def query_row_def)

end
