(* ===== verification/Managed_Deployment.thy ===== *)
theory Managed_Deployment
  imports Crypto
begin

text \<open>
  \<open>froglet-protocol/src/managed_deployment.rs\<close>: the provider-neutral desired state of a managed
  deployment and its validation (which collects every violation instead of stopping at the first),
  the capabilities an adapter has to declare for a plan of each scope, plans with their approval
  hash, and the normalized results of the operations. A \<open>BTreeMap\<close> is its list of entries in key
  order, a \<open>BTreeSet\<close> of capabilities is a set.
\<close>

section \<open>Constants\<close>

definition DESIRED_STATE_SCHEMA_V1 :: string where
  "DESIRED_STATE_SCHEMA_V1 = ''froglet.managed-deployment.desired-state.v1''"

definition ADAPTER_CAPABILITIES_SCHEMA_V1 :: string where
  "ADAPTER_CAPABILITIES_SCHEMA_V1 = ''froglet.managed-deployment.adapter-capabilities.v1''"

definition PLAN_SCHEMA_V1 :: string where
  "PLAN_SCHEMA_V1 = ''froglet.managed-deployment.plan.v1''"

definition RESULT_SCHEMA_V1 :: string where
  "RESULT_SCHEMA_V1 = ''froglet.managed-deployment.result.v1''"

section \<open>Desired state\<close>

type_synonym u16 = "16 word"

record oci_image =
  oci_repository :: string
  oci_digest :: string

record deployment_revision =
  drv_revision_id :: string
  drv_release_bundle_digest :: string
  drv_image :: oci_image

record destroy_confirmation =
  dcf_deployment_id :: string
  dcf_adapter_id :: string

record logical_secret_reference =
  lsr_environment_name :: string
  lsr_reference :: string

datatype workload_architecture = Amd64 | Arm64

record resource_intent =
  rsi_cpu_millis :: u32
  rsi_memory_bytes :: u64
  rsi_architecture :: workload_architecture

datatype port_protocol = PortTcp | PortUdp

record port_intent =
  pti_name :: string
  pti_container_port :: u16
  pti_protocol :: port_protocol

datatype volume_access_mode = SingleWriter | MultiReader

record persistent_volume_intent =
  pvi_name :: string
  pvi_mount_path :: string
  pvi_minimum_bytes :: u64
  pvi_access_mode :: volume_access_mode

record http_health_check =
  hhc_port_name :: string
  hhc_path :: string
  hhc_interval_seconds :: u32
  hhc_timeout_seconds :: u32

datatype ingress_transport = IngressHttps

record ingress_intent =
  igi_port_name :: string
  igi_transport :: ingress_transport
  igi_requested_hostname :: "string option"

record observability_intent =
  obi_structured_logs :: bool

record lifecycle_intent =
  lci_rollback_required :: bool

record desired_state =
  ds_schema_version :: string
  ds_deployment_id :: string
  ds_revision :: deployment_revision
  ds_environment :: "(string \<times> string) list"
  ds_secrets :: "logical_secret_reference list"
  ds_resources :: resource_intent
  ds_ports :: "port_intent list"
  ds_persistent_volumes :: "persistent_volume_intent list"
  ds_health_check :: http_health_check
  ds_ingress :: "ingress_intent option"
  ds_observability :: observability_intent
  ds_lifecycle :: lifecycle_intent

section \<open>Violations\<close>

record contract_violation =
  cv_path :: string
  cv_code :: string
  cv_message :: string

definition violation :: "string \<Rightarrow> string \<Rightarrow> string \<Rightarrow> contract_violation" where
  "violation path code message = \<lparr>cv_path = path, cv_code = code, cv_message = message\<rparr>"

text \<open>The violations a check adds: one when its condition holds.\<close>

definition violated :: "bool \<Rightarrow> string \<Rightarrow> string \<Rightarrow> string \<Rightarrow> contract_violation list" where
  "violated b path code message = (if b then [violation path code message] else [])"

definition v_require_schema :: "string \<Rightarrow> string \<Rightarrow> string \<Rightarrow> contract_violation list" where
  "v_require_schema path actual expected =
     violated (actual \<noteq> expected) path ''unsupported_schema_version''
       (''expected '' @ expected @ '', got '' @ actual)"

definition identifier_char :: "char \<Rightarrow> bool" where
  "identifier_char c \<longleftrightarrow>
     is_ascii_alphanumeric c \<or> c = CHR ''-'' \<or> c = CHR ''_'' \<or> c = CHR ''.''"

definition v_require_identifier :: "string \<Rightarrow> string \<Rightarrow> contract_violation list" where
  "v_require_identifier path value =
     violated (value = [] \<or> 128 < length value \<or> \<not> list_all identifier_char value)
       path ''invalid_identifier''
       ''identifier must contain 1-128 ASCII letters, digits, dots, hyphens, or underscores''"

definition v_require_environment_name :: "string \<Rightarrow> string \<Rightarrow> contract_violation list" where
  "v_require_environment_name path value =
     violated
       (\<not> (case value of [] \<Rightarrow> False | c # _ \<Rightarrow> is_ascii_uppercase c \<or> c = CHR ''_'') \<or>
        128 < length value \<or>
        \<not> list_all (\<lambda>c. is_ascii_uppercase c \<or> is_ascii_digit c \<or> c = CHR ''_'') (tl value))
       path ''invalid_environment_name''
       ''environment name must use uppercase ASCII letters, digits, and underscores''"

definition hash_char :: "char \<Rightarrow> bool" where
  "hash_char c \<longleftrightarrow> is_ascii_digit c \<or> (97 \<le> (of_char c :: nat) \<and> (of_char c :: nat) \<le> 102)"

definition v_require_digest :: "string \<Rightarrow> string \<Rightarrow> contract_violation list" where
  "v_require_digest path value =
     (let bad = violation path ''invalid_digest''
            ''digest must use sha256:<64 lowercase hexadecimal characters>''
      in case strip_prefix value ''sha256:'' of
           None \<Rightarrow> [bad]
         | Some hex \<Rightarrow> if length hex \<noteq> 64 \<or> \<not> list_all hash_char hex then [bad] else [])"

section \<open>Validation of a desired state\<close>

text \<open>
  \<open>chars().any(char::is_whitespace)\<close> on valid UTF-8, where an encoding occurs only at a character
  boundary, and \<open>trim_end_matches\<close> and \<open>trim_matches\<close> with one ASCII character.
\<close>

definition any_whitespace :: "string \<Rightarrow> bool" where
  "any_whitespace s = list_ex (str_contains s) white_space_encodings"

definition trim_end_matches :: "string \<Rightarrow> char \<Rightarrow> string" where
  "trim_end_matches s c = rev (dropWhile (\<lambda>x. x = c) (rev s))"

definition trim_matches :: "string \<Rightarrow> char \<Rightarrow> string" where
  "trim_matches s c = trim_end_matches (dropWhile (\<lambda>x. x = c) s) c"

definition indexed :: "string \<Rightarrow> nat \<Rightarrow> string \<Rightarrow> string" where
  "indexed what index field = what @ ''['' @ nat_digits index @ ''].'' @ field"

fun secret_violations ::
  "(string \<times> string) list \<Rightarrow> nat \<Rightarrow> string list \<Rightarrow> logical_secret_reference list
    \<Rightarrow> contract_violation list" where
  "secret_violations environment index names [] = []"
| "secret_violations environment index names (secret # secrets) =
     (let name = lsr_environment_name secret
      in v_require_environment_name (indexed ''secrets'' index ''environment_name'') name @
         violated
           (case strip_prefix (lsr_reference secret) ''secret://'' of
              None \<Rightarrow> True | Some reference \<Rightarrow> trim_matches reference (CHR ''/'') = [])
           (indexed ''secrets'' index ''reference'') ''invalid_logical_secret_reference''
           ''secret reference must use a non-empty secret:// logical reference'' @
         violated (name \<in> set names) (indexed ''secrets'' index ''environment_name'') ''duplicate''
           ''secret environment names must be unique'' @
         violated (name \<in> fst ` set environment) (indexed ''secrets'' index ''environment_name'')
           ''secret_value_collision''
           ''a secret binding must not also appear in plain environment values'' @
         secret_violations environment (Suc index) (name # names) secrets)"

definition environment_violations :: "string \<times> string \<Rightarrow> contract_violation list" where
  "environment_violations e =
     v_require_environment_name (''environment.'' @ fst e) (fst e) @
     violated (starts_with (snd e) ''secret://'') (''environment.'' @ fst e)
       ''logical_secret_must_use_binding''
       ''logical secret references belong in secrets, not plain environment values''"

fun port_violations :: "nat \<Rightarrow> string list \<Rightarrow> port_intent list \<Rightarrow> contract_violation list" where
  "port_violations index names [] = []"
| "port_violations index names (port # ports) =
     v_require_identifier (indexed ''ports'' index ''name'') (pti_name port) @
     violated (pti_container_port port = 0) (indexed ''ports'' index ''container_port'')
       ''must_be_positive'' ''container port must be greater than zero'' @
     violated (pti_name port \<in> set names) (indexed ''ports'' index ''name'') ''duplicate''
       ''port names must be unique'' @
     port_violations (Suc index) (pti_name port # names) ports"

fun volume_violations ::
  "nat \<Rightarrow> string list \<Rightarrow> string list \<Rightarrow> persistent_volume_intent list \<Rightarrow> contract_violation list" where
  "volume_violations index names paths [] = []"
| "volume_violations index names paths (volume # volumes) =
     v_require_identifier (indexed ''persistent_volumes'' index ''name'') (pvi_name volume) @
     violated (\<not> starts_with (pvi_mount_path volume) ''/'')
       (indexed ''persistent_volumes'' index ''mount_path'') ''must_be_absolute''
       ''persistent volume mount path must be absolute'' @
     violated (pvi_minimum_bytes volume = 0)
       (indexed ''persistent_volumes'' index ''minimum_bytes'') ''must_be_positive''
       ''persistent volume size must be greater than zero'' @
     violated (pvi_name volume \<in> set names) (indexed ''persistent_volumes'' index ''name'')
       ''duplicate'' ''persistent volume names must be unique'' @
     violated (pvi_mount_path volume \<in> set paths)
       (indexed ''persistent_volumes'' index ''mount_path'') ''duplicate''
       ''persistent volume mount paths must be unique'' @
     volume_violations (Suc index) (pvi_name volume # names) (pvi_mount_path volume # paths) volumes"

definition revision_violations :: "deployment_revision \<Rightarrow> contract_violation list" where
  "revision_violations r =
     (let repository = oci_repository (drv_image r)
      in v_require_digest ''revision.revision_id'' (drv_revision_id r) @
         v_require_digest ''revision.release_bundle_digest'' (drv_release_bundle_digest r) @
         violated (trim repository = [] \<or> any_whitespace repository)
           ''revision.image.repository'' ''invalid_repository''
           ''OCI repository must be non-empty and contain no whitespace'' @
         violated (CHR ''@'' \<in> set repository) ''revision.image.repository''
           ''digest_must_be_separate'' ''OCI repository must not embed a digest; use image.digest'' @
         violated (CHR '':'' \<in> set (last (split_char (CHR ''/'') repository)))
           ''revision.image.repository'' ''mutable_tag_forbidden''
           ''OCI repository must not include a tag; deploy image.digest'' @
         v_require_digest ''revision.image.digest'' (oci_digest (drv_image r)))"

definition health_violations :: "string list \<Rightarrow> http_health_check \<Rightarrow> contract_violation list" where
  "health_violations port_names h =
     violated (hhc_port_name h \<notin> set port_names) ''health_check.port_name'' ''unknown_port''
       ''health check must reference a declared port'' @
     violated (\<not> starts_with (hhc_path h) ''/'') ''health_check.path'' ''invalid_http_path''
       ''HTTP health-check path must start with /'' @
     violated (hhc_interval_seconds h = 0 \<or> hhc_timeout_seconds h = 0 \<or>
         hhc_interval_seconds h < hhc_timeout_seconds h)
       ''health_check'' ''invalid_timing''
       ''health-check timeout and interval must be positive and timeout must not exceed interval''"

definition ingress_violations :: "string list \<Rightarrow> ingress_intent option \<Rightarrow> contract_violation list" where
  "ingress_violations port_names i =
     (case i of
        None \<Rightarrow> []
      | Some ingress \<Rightarrow>
          violated (igi_port_name ingress \<notin> set port_names) ''ingress.port_name'' ''unknown_port''
            ''ingress must reference a declared port'' @
          (case igi_requested_hostname ingress of
             None \<Rightarrow> []
           | Some hostname \<Rightarrow>
               violated (trim hostname = [] \<or> CHR ''/'' \<in> set hostname \<or> CHR '':'' \<in> set hostname \<or>
                   any_whitespace hostname)
                 ''ingress.requested_hostname'' ''invalid_hostname''
                 ''requested hostname must be a bare DNS hostname without scheme, port, path, or whitespace''))"

definition desired_state_violations :: "desired_state \<Rightarrow> contract_violation list" where
  "desired_state_violations d =
     (let port_names = map pti_name (ds_ports d)
      in v_require_schema ''schema_version'' (ds_schema_version d) DESIRED_STATE_SCHEMA_V1 @
         v_require_identifier ''deployment_id'' (ds_deployment_id d) @
         revision_violations (ds_revision d) @
         violated (rsi_cpu_millis (ds_resources d) = 0) ''resources.cpu_millis''
           ''must_be_positive'' ''CPU intent must be greater than zero'' @
         violated (rsi_memory_bytes (ds_resources d) = 0) ''resources.memory_bytes''
           ''must_be_positive'' ''memory intent must be greater than zero'' @
         secret_violations (ds_environment d) 0 [] (ds_secrets d) @
         concat (map environment_violations (ds_environment d)) @
         port_violations 0 [] (ds_ports d) @
         volume_violations 0 [] [] (ds_persistent_volumes d) @
         health_violations port_names (ds_health_check d) @
         ingress_violations port_names (ds_ingress d))"

definition desired_state_validate :: "desired_state \<Rightarrow> contract_violation list + unit" where
  "desired_state_validate d =
     (let violations = desired_state_violations d
      in if violations = [] then Inr () else Inl violations)"

section \<open>Capabilities and plans\<close>

datatype adapter_capability =
    ImmutableOciImage | ResourceIntent | ContainerPorts | HttpHealthCheck
  | LogicalSecretReferences | PersistentVolumes | PublicHttpsIngress | StructuredLogs
  | RevisionRollback | DeploymentHistory | DeploymentDestroy

record adapter_capabilities =
  adc_schema_version :: string
  adc_adapter_id :: string
  adc_capabilities :: "adapter_capability set"

definition adapter_capabilities_new :: "string \<Rightarrow> adapter_capability list \<Rightarrow> adapter_capabilities" where
  "adapter_capabilities_new adapter_id capabilities =
     \<lparr>adc_schema_version = ADAPTER_CAPABILITIES_SCHEMA_V1, adc_adapter_id = adapter_id,
      adc_capabilities = set capabilities\<rparr>"

definition adapter_validate :: "adapter_capabilities \<Rightarrow> contract_violation list + unit" where
  "adapter_validate a =
     (let violations =
        v_require_schema ''schema_version'' (adc_schema_version a) ADAPTER_CAPABILITIES_SCHEMA_V1 @
        v_require_identifier ''adapter_id'' (adc_adapter_id a)
      in if violations = [] then Inr () else Inl violations)"

datatype approval_scope =
    ScopeProvision
  | ScopeDeploy
  | ScopeRollback deployment_revision
  | ScopeDestroy destroy_confirmation

datatype plan_context = Inspection | Mutation approval_scope

fun context_approval_scope :: "plan_context \<Rightarrow> approval_scope option" where
  "context_approval_scope Inspection = None"
| "context_approval_scope (Mutation scope) = Some scope"

definition required_capabilities :: "desired_state \<Rightarrow> adapter_capability set" where
  "required_capabilities d =
     {ImmutableOciImage, ResourceIntent, HttpHealthCheck} \<union>
     (if ds_ports d \<noteq> [] then {ContainerPorts} else {}) \<union>
     (if ds_secrets d \<noteq> [] then {LogicalSecretReferences} else {}) \<union>
     (if ds_persistent_volumes d \<noteq> [] then {PersistentVolumes} else {}) \<union>
     (if ds_ingress d \<noteq> None then {PublicHttpsIngress} else {}) \<union>
     (if obi_structured_logs (ds_observability d) then {StructuredLogs} else {}) \<union>
     (if lci_rollback_required (ds_lifecycle d) then {RevisionRollback} else {})"

fun required_capabilities_for_plan :: "desired_state \<Rightarrow> plan_context \<Rightarrow> adapter_capability set" where
  "required_capabilities_for_plan d Inspection = required_capabilities d"
| "required_capabilities_for_plan d (Mutation ScopeDeploy) = required_capabilities d"
| "required_capabilities_for_plan d (Mutation (ScopeRollback _)) =
     insert RevisionRollback (required_capabilities d)"
| "required_capabilities_for_plan d (Mutation ScopeProvision) =
     {ResourceIntent} \<union> (if ds_persistent_volumes d \<noteq> [] then {PersistentVolumes} else {})"
| "required_capabilities_for_plan d (Mutation (ScopeDestroy _)) = {DeploymentDestroy}"

text \<open>An approval hash is its 32 bytes.\<close>

type_synonym plan_approval_hash = bytes

datatype recurring_cost_unit = PerHour | PerDay | PerMonth | PerYear

record recurring_cost_interval =
  rci_count :: u32
  rci_unit :: recurring_cost_unit

datatype recurring_cost =
    CostKnown u64 string recurring_cost_interval
  | CostUnknown

datatype plan_action =
    AcquireCompute | ConfigureEnvironment | ResolveSecrets | AttachStorage | DeployRevision
  | ConfigureIngress | VerifyHealth | RecordRollbackReference | DestroyDeployment

record plan_step =
  pls_sequence :: u32
  pls_action :: plan_action
  pls_summary :: string

text \<open>
  \<open>NoMutation\<close> and \<open>RequiredApproval\<close> have one value each: a plan has no field for the first, and
  an unknown cost none for the second; their wire forms are the constants \<open>false\<close> and \<open>true\<close>.
\<close>

datatype plan_outcome =
    Applicable "plan_step list" "string list" recurring_cost "plan_approval_hash option"
      "approval_scope option"
  | UnsupportedCapability "adapter_capability set"

record deployment_plan =
  dpl_schema_version :: string
  dpl_desired_state_schema_version :: string
  dpl_deployment_id :: string
  dpl_revision_id :: string
  dpl_adapter :: adapter_capabilities
  dpl_outcome :: plan_outcome

definition NoMutation_as_bool :: bool where
  "NoMutation_as_bool = False"

record applicable_deployment_plan =
  adp_steps :: "plan_step list"
  adp_warnings :: "string list"
  adp_recurring_cost :: recurring_cost

definition plan_with_outcome ::
  "desired_state \<Rightarrow> adapter_capabilities \<Rightarrow> plan_outcome \<Rightarrow> deployment_plan" where
  "plan_with_outcome desired adapter outcome =
     \<lparr>dpl_schema_version = PLAN_SCHEMA_V1,
      dpl_desired_state_schema_version = ds_schema_version desired,
      dpl_deployment_id = ds_deployment_id desired,
      dpl_revision_id = drv_revision_id (ds_revision desired),
      dpl_adapter = adapter,
      dpl_outcome = outcome\<rparr>"

definition unsupported_capability ::
  "desired_state \<Rightarrow> adapter_capabilities \<Rightarrow> adapter_capability set \<Rightarrow> deployment_plan" where
  "unsupported_capability desired adapter missing =
     plan_with_outcome desired adapter (UnsupportedCapability missing)"

definition applicable ::
  "desired_state \<Rightarrow> adapter_capabilities \<Rightarrow> applicable_deployment_plan
    \<Rightarrow> (approval_scope \<times> plan_approval_hash) option \<Rightarrow> deployment_plan" where
  "applicable desired adapter a approval =
     plan_with_outcome desired adapter
       (Applicable (adp_steps a) (adp_warnings a) (adp_recurring_cost a)
          (map_option snd approval) (map_option fst approval))"

definition approval_hash_for_scope ::
  "deployment_plan \<Rightarrow> approval_scope \<Rightarrow> plan_approval_hash option" where
  "approval_hash_for_scope p scope =
     (case dpl_outcome p of
        Applicable _ _ _ (Some h) (Some approved) \<Rightarrow> if approved = scope then Some h else None
      | _ \<Rightarrow> None)"

section \<open>Approval hashes\<close>

definition hex_nibble :: "nat \<Rightarrow> char" where
  "hex_nibble n = ''0123456789abcdef'' ! n"

definition encode_lower_hex :: "bytes \<Rightarrow> string" where
  "encode_lower_hex bs =
     concat (map (\<lambda>b. let n = (of_char b :: nat) in [hex_nibble (n div 16), hex_nibble (n mod 16)]) bs)"

definition lower_hex_nibble :: "char \<Rightarrow> nat" where
  "lower_hex_nibble c = (if is_ascii_digit c then of_char c - 48 else of_char c - 97 + 10)"

fun decode_pairs :: "string \<Rightarrow> bytes" where
  "decode_pairs (c # d # s) = char_of (lower_hex_nibble c * 16 + lower_hex_nibble d) # decode_pairs s"
| "decode_pairs _ = []"

definition plan_approval_hash_from_str :: "string \<Rightarrow> plan_approval_hash option" where
  "plan_approval_hash_from_str value =
     (if length value \<noteq> 64 \<or> \<not> list_all hash_char value then None else Some (decode_pairs value))"

text \<open>\<open>fold(0, |difference, (left, right)| difference | (left ^ right)) == 0\<close> on bytes.\<close>

definition constant_time_eq :: "plan_approval_hash \<Rightarrow> plan_approval_hash \<Rightarrow> bool" where
  "constant_time_eq a b \<longleftrightarrow>
     foldl (\<lambda>difference (left, right).
         or difference (xor (of_char left) (of_char right))) (0 :: 8 word) (zip a b) = 0"

section \<open>Results\<close>

datatype deployment_operation =
    OpProvision | OpDeploy | OpStatus | OpHistory | OpLogs | OpRollback | OpDestroy

fun scope_operation :: "approval_scope \<Rightarrow> deployment_operation" where
  "scope_operation ScopeProvision = OpProvision"
| "scope_operation ScopeDeploy = OpDeploy"
| "scope_operation (ScopeRollback _) = OpRollback"
| "scope_operation (ScopeDestroy _) = OpDestroy"

datatype operation_status = InProgress | Succeeded | OperationFailed

datatype endpoint_transport = EndpointHttps | EndpointTcp

record deployment_endpoint =
  dep_name :: string
  dep_url :: string
  dep_transport :: endpoint_transport

datatype health_status = HealthUnknown | HealthStarting | Healthy | Unhealthy

record deployment_health =
  dhe_status :: health_status
  dhe_checked_url :: "string option"
  dhe_detail :: "string option"

record rollback_reference =
  rbr_revision_id :: string

record deployment_failure =
  dfa_code :: string
  dfa_message :: string
  dfa_retryable :: bool

record deployment_result =
  drs_schema_version :: string
  drs_operation :: deployment_operation
  drs_deployment_id :: string
  drs_revision_id :: string
  drs_adapter_id :: string
  drs_status :: operation_status
  drs_image_digests :: "oci_image list"
  drs_endpoints :: "deployment_endpoint list"
  drs_health :: deployment_health
  drs_rollback :: "rollback_reference option"
  drs_failure :: "deployment_failure option"
  drs_observed_at_epoch_seconds :: i64

definition deployment_result_new ::
  "deployment_operation \<Rightarrow> string \<Rightarrow> string \<Rightarrow> string \<Rightarrow> operation_status \<Rightarrow> oci_image list
    \<Rightarrow> deployment_health \<Rightarrow> i64 \<Rightarrow> deployment_result" where
  "deployment_result_new operation deployment_id revision_id adapter_id status image_digests health
     observed_at =
     \<lparr>drs_schema_version = RESULT_SCHEMA_V1, drs_operation = operation,
      drs_deployment_id = deployment_id, drs_revision_id = revision_id,
      drs_adapter_id = adapter_id, drs_status = status, drs_image_digests = image_digests,
      drs_endpoints = [], drs_health = health, drs_rollback = None, drs_failure = None,
      drs_observed_at_epoch_seconds = observed_at\<rparr>"

section \<open>Wire form\<close>

definition j_u16 :: "u16 \<Rightarrow> json" where
  "j_u16 w = JNum (uint w)"

definition j_list :: "('a \<Rightarrow> json) \<Rightarrow> 'a list \<Rightarrow> json" where
  "j_list f xs = JArr (map f xs)"

definition oci_image_value :: "oci_image \<Rightarrow> json" where
  "oci_image_value x = mk_obj
     [(''repository'', always (JStr (oci_repository x))),
      (''digest'', always (JStr (oci_digest x)))]"

definition deployment_revision_value :: "deployment_revision \<Rightarrow> json" where
  "deployment_revision_value x = mk_obj
     [(''revision_id'', always (JStr (drv_revision_id x))),
      (''release_bundle_digest'', always (JStr (drv_release_bundle_digest x))),
      (''image'', always (oci_image_value (drv_image x)))]"

definition destroy_confirmation_value :: "destroy_confirmation \<Rightarrow> json" where
  "destroy_confirmation_value x = mk_obj
     [(''deployment_id'', always (JStr (dcf_deployment_id x))),
      (''adapter_id'', always (JStr (dcf_adapter_id x)))]"

definition secret_value :: "logical_secret_reference \<Rightarrow> json" where
  "secret_value x = mk_obj
     [(''environment_name'', always (JStr (lsr_environment_name x))),
      (''reference'', always (JStr (lsr_reference x)))]"

fun architecture_name :: "workload_architecture \<Rightarrow> string" where
  "architecture_name Amd64 = ''amd64''"
| "architecture_name Arm64 = ''arm64''"

definition resource_intent_value :: "resource_intent \<Rightarrow> json" where
  "resource_intent_value x = mk_obj
     [(''cpu_millis'', always (j_u32 (rsi_cpu_millis x))),
      (''memory_bytes'', always (j_u64 (rsi_memory_bytes x))),
      (''architecture'', always (JStr (architecture_name (rsi_architecture x))))]"

fun port_protocol_name :: "port_protocol \<Rightarrow> string" where
  "port_protocol_name PortTcp = ''tcp''"
| "port_protocol_name PortUdp = ''udp''"

definition port_intent_value :: "port_intent \<Rightarrow> json" where
  "port_intent_value x = mk_obj
     [(''name'', always (JStr (pti_name x))),
      (''container_port'', always (j_u16 (pti_container_port x))),
      (''protocol'', always (JStr (port_protocol_name (pti_protocol x))))]"

fun volume_access_mode_name :: "volume_access_mode \<Rightarrow> string" where
  "volume_access_mode_name SingleWriter = ''single_writer''"
| "volume_access_mode_name MultiReader = ''multi_reader''"

definition volume_value :: "persistent_volume_intent \<Rightarrow> json" where
  "volume_value x = mk_obj
     [(''name'', always (JStr (pvi_name x))),
      (''mount_path'', always (JStr (pvi_mount_path x))),
      (''minimum_bytes'', always (j_u64 (pvi_minimum_bytes x))),
      (''access_mode'', always (JStr (volume_access_mode_name (pvi_access_mode x))))]"

definition health_check_value :: "http_health_check \<Rightarrow> json" where
  "health_check_value x = mk_obj
     [(''port_name'', always (JStr (hhc_port_name x))),
      (''path'', always (JStr (hhc_path x))),
      (''interval_seconds'', always (j_u32 (hhc_interval_seconds x))),
      (''timeout_seconds'', always (j_u32 (hhc_timeout_seconds x)))]"

fun ingress_transport_name :: "ingress_transport \<Rightarrow> string" where
  "ingress_transport_name IngressHttps = ''https''"

definition ingress_value :: "ingress_intent \<Rightarrow> json" where
  "ingress_value x = mk_obj
     [(''port_name'', always (JStr (igi_port_name x))),
      (''transport'', always (JStr (ingress_transport_name (igi_transport x)))),
      (''requested_hostname'', always (j_opt JStr (igi_requested_hostname x)))]"

definition desired_state_value :: "desired_state \<Rightarrow> json" where
  "desired_state_value x = mk_obj
     [(''schema_version'', always (JStr (ds_schema_version x))),
      (''deployment_id'', always (JStr (ds_deployment_id x))),
      (''revision'', always (deployment_revision_value (ds_revision x))),
      (''environment'', always (JObj (map (\<lambda>e. (fst e, JStr (snd e))) (ds_environment x)))),
      (''secrets'', always (j_list secret_value (ds_secrets x))),
      (''resources'', always (resource_intent_value (ds_resources x))),
      (''ports'', always (j_list port_intent_value (ds_ports x))),
      (''persistent_volumes'', always (j_list volume_value (ds_persistent_volumes x))),
      (''health_check'', always (health_check_value (ds_health_check x))),
      (''ingress'', always (j_opt ingress_value (ds_ingress x))),
      (''observability'', always (mk_obj
         [(''structured_logs'', always (JBool (obi_structured_logs (ds_observability x))))])),
      (''lifecycle'', always (mk_obj
         [(''rollback_required'', always (JBool (lci_rollback_required (ds_lifecycle x))))]))]"

fun capability_name :: "adapter_capability \<Rightarrow> string" where
  "capability_name ImmutableOciImage = ''immutable_oci_image''"
| "capability_name ResourceIntent = ''resource_intent''"
| "capability_name ContainerPorts = ''container_ports''"
| "capability_name HttpHealthCheck = ''http_health_check''"
| "capability_name LogicalSecretReferences = ''logical_secret_references''"
| "capability_name PersistentVolumes = ''persistent_volumes''"
| "capability_name PublicHttpsIngress = ''public_https_ingress''"
| "capability_name StructuredLogs = ''structured_logs''"
| "capability_name RevisionRollback = ''revision_rollback''"
| "capability_name DeploymentHistory = ''deployment_history''"
| "capability_name DeploymentDestroy = ''deployment_destroy''"

text \<open>A \<open>BTreeSet\<close> is written in the order of the constructors.\<close>

definition all_capabilities :: "adapter_capability list" where
  "all_capabilities =
     [ImmutableOciImage, ResourceIntent, ContainerPorts, HttpHealthCheck, LogicalSecretReferences,
      PersistentVolumes, PublicHttpsIngress, StructuredLogs, RevisionRollback, DeploymentHistory,
      DeploymentDestroy]"

definition capabilities_value :: "adapter_capability set \<Rightarrow> json" where
  "capabilities_value s = j_strs (map capability_name (filter (\<lambda>c. c \<in> s) all_capabilities))"

definition adapter_value :: "adapter_capabilities \<Rightarrow> json" where
  "adapter_value x = mk_obj
     [(''schema_version'', always (JStr (adc_schema_version x))),
      (''adapter_id'', always (JStr (adc_adapter_id x))),
      (''capabilities'', always (capabilities_value (adc_capabilities x)))]"

fun scope_value :: "approval_scope \<Rightarrow> json" where
  "scope_value ScopeProvision =
     mk_obj [(''operation'', always (JStr ''provision'')), (''target_revision'', None),
       (''confirmation'', None)]"
| "scope_value ScopeDeploy =
     mk_obj [(''operation'', always (JStr ''deploy'')), (''target_revision'', None),
       (''confirmation'', None)]"
| "scope_value (ScopeRollback r) =
     mk_obj [(''operation'', always (JStr ''rollback'')),
       (''target_revision'', always (deployment_revision_value r)), (''confirmation'', None)]"
| "scope_value (ScopeDestroy c) =
     mk_obj [(''operation'', always (JStr ''destroy'')), (''target_revision'', None),
       (''confirmation'', always (destroy_confirmation_value c))]"

fun cost_unit_name :: "recurring_cost_unit \<Rightarrow> string" where
  "cost_unit_name PerHour = ''hour''"
| "cost_unit_name PerDay = ''day''"
| "cost_unit_name PerMonth = ''month''"
| "cost_unit_name PerYear = ''year''"

definition cost_interval_value :: "recurring_cost_interval \<Rightarrow> json" where
  "cost_interval_value x = mk_obj
     [(''count'', always (j_u32 (rci_count x))),
      (''unit'', always (JStr (cost_unit_name (rci_unit x))))]"

fun recurring_cost_value :: "recurring_cost \<Rightarrow> json" where
  "recurring_cost_value (CostKnown amount currency interval) = mk_obj
     [(''status'', always (JStr ''known'')),
      (''amount_minor_units'', always (j_u64 amount)),
      (''currency'', always (JStr currency)),
      (''interval'', always (cost_interval_value interval)),
      (''operator_approval_required'', None)]"
| "recurring_cost_value CostUnknown = mk_obj
     [(''status'', always (JStr ''unknown'')),
      (''amount_minor_units'', None), (''currency'', None), (''interval'', None),
      (''operator_approval_required'', always (JBool True))]"

fun plan_action_name :: "plan_action \<Rightarrow> string" where
  "plan_action_name AcquireCompute = ''acquire_compute''"
| "plan_action_name ConfigureEnvironment = ''configure_environment''"
| "plan_action_name ResolveSecrets = ''resolve_secrets''"
| "plan_action_name AttachStorage = ''attach_storage''"
| "plan_action_name DeployRevision = ''deploy_revision''"
| "plan_action_name ConfigureIngress = ''configure_ingress''"
| "plan_action_name VerifyHealth = ''verify_health''"
| "plan_action_name RecordRollbackReference = ''record_rollback_reference''"
| "plan_action_name DestroyDeployment = ''destroy_deployment''"

definition plan_step_value :: "plan_step \<Rightarrow> json" where
  "plan_step_value x = mk_obj
     [(''sequence'', always (j_u32 (pls_sequence x))),
      (''action'', always (JStr (plan_action_name (pls_action x)))),
      (''summary'', always (JStr (pls_summary x)))]"

fun plan_outcome_value :: "plan_outcome \<Rightarrow> json" where
  "plan_outcome_value (Applicable steps warnings cost approval_hash approval_scope) = mk_obj
     [(''status'', always (JStr ''applicable'')),
      (''steps'', always (j_list plan_step_value steps)),
      (''warnings'', always (j_strs warnings)),
      (''recurring_cost'', always (recurring_cost_value cost)),
      (''approval_hash'', unless_none (\<lambda>h. JStr (encode_lower_hex h)) approval_hash),
      (''approval_scope'', unless_none scope_value approval_scope),
      (''missing_capabilities'', None)]"
| "plan_outcome_value (UnsupportedCapability missing) = mk_obj
     [(''status'', always (JStr ''unsupported_capability'')),
      (''steps'', None), (''warnings'', None), (''recurring_cost'', None),
      (''approval_hash'', None), (''approval_scope'', None),
      (''missing_capabilities'', always (capabilities_value missing))]"

definition deployment_plan_value :: "deployment_plan \<Rightarrow> json" where
  "deployment_plan_value x = mk_obj
     [(''schema_version'', always (JStr (dpl_schema_version x))),
      (''desired_state_schema_version'', always (JStr (dpl_desired_state_schema_version x))),
      (''deployment_id'', always (JStr (dpl_deployment_id x))),
      (''revision_id'', always (JStr (dpl_revision_id x))),
      (''adapter'', always (adapter_value (dpl_adapter x))),
      (''mutation_performed'', always (JBool NoMutation_as_bool)),
      (''outcome'', always (plan_outcome_value (dpl_outcome x)))]"

fun deployment_operation_name :: "deployment_operation \<Rightarrow> string" where
  "deployment_operation_name OpProvision = ''provision''"
| "deployment_operation_name OpDeploy = ''deploy''"
| "deployment_operation_name OpStatus = ''status''"
| "deployment_operation_name OpHistory = ''history''"
| "deployment_operation_name OpLogs = ''logs''"
| "deployment_operation_name OpRollback = ''rollback''"
| "deployment_operation_name OpDestroy = ''destroy''"

fun operation_status_name :: "operation_status \<Rightarrow> string" where
  "operation_status_name InProgress = ''in_progress''"
| "operation_status_name Succeeded = ''succeeded''"
| "operation_status_name OperationFailed = ''failed''"

fun endpoint_transport_name :: "endpoint_transport \<Rightarrow> string" where
  "endpoint_transport_name EndpointHttps = ''https''"
| "endpoint_transport_name EndpointTcp = ''tcp''"

definition endpoint_value :: "deployment_endpoint \<Rightarrow> json" where
  "endpoint_value x = mk_obj
     [(''name'', always (JStr (dep_name x))),
      (''url'', always (JStr (dep_url x))),
      (''transport'', always (JStr (endpoint_transport_name (dep_transport x))))]"

fun health_status_name :: "health_status \<Rightarrow> string" where
  "health_status_name HealthUnknown = ''unknown''"
| "health_status_name HealthStarting = ''starting''"
| "health_status_name Healthy = ''healthy''"
| "health_status_name Unhealthy = ''unhealthy''"

definition health_value :: "deployment_health \<Rightarrow> json" where
  "health_value x = mk_obj
     [(''status'', always (JStr (health_status_name (dhe_status x)))),
      (''checked_url'', always (j_opt JStr (dhe_checked_url x))),
      (''detail'', always (j_opt JStr (dhe_detail x)))]"

definition rollback_reference_value :: "rollback_reference \<Rightarrow> json" where
  "rollback_reference_value x = mk_obj [(''revision_id'', always (JStr (rbr_revision_id x)))]"

definition failure_value :: "deployment_failure \<Rightarrow> json" where
  "failure_value x = mk_obj
     [(''code'', always (JStr (dfa_code x))),
      (''message'', always (JStr (dfa_message x))),
      (''retryable'', always (JBool (dfa_retryable x)))]"

definition deployment_result_value :: "deployment_result \<Rightarrow> json" where
  "deployment_result_value x = mk_obj
     [(''schema_version'', always (JStr (drs_schema_version x))),
      (''operation'', always (JStr (deployment_operation_name (drs_operation x)))),
      (''deployment_id'', always (JStr (drs_deployment_id x))),
      (''revision_id'', always (JStr (drs_revision_id x))),
      (''adapter_id'', always (JStr (drs_adapter_id x))),
      (''status'', always (JStr (operation_status_name (drs_status x)))),
      (''image_digests'', always (j_list oci_image_value (drs_image_digests x))),
      (''endpoints'', always (j_list endpoint_value (drs_endpoints x))),
      (''health'', always (health_value (drs_health x))),
      (''rollback'', always (j_opt rollback_reference_value (drs_rollback x))),
      (''failure'', always (j_opt failure_value (drs_failure x))),
      (''observed_at_epoch_seconds'', always (j_i64 (drs_observed_at_epoch_seconds x)))]"

section \<open>Lemmas on approval hashes\<close>

lemma hex_nibble_props:
  assumes "n < 16"
  shows "hash_char (hex_nibble n)" and "lower_hex_nibble (hex_nibble n) = n"
proof -
  have "\<forall>n\<in>{..<16}. hash_char (hex_nibble n) \<and> lower_hex_nibble (hex_nibble n) = n"
    by code_simp
  with assms show "hash_char (hex_nibble n)" "lower_hex_nibble (hex_nibble n) = n" by auto
qed

lemma encode_lower_hex_Cons:
  "encode_lower_hex (b # bs) =
     hex_nibble (of_char b div 16) # hex_nibble (of_char b mod 16) # encode_lower_hex bs"
  by (simp add: encode_lower_hex_def Let_def)

lemma of_char_div_16: "(of_char b :: nat) div 16 < 16"
  by (rule less_mult_imp_div_less) (use nat_of_char_less_256 [of b] in simp)

lemma decode_encode_lower_hex: "decode_pairs (encode_lower_hex bs) = bs"
proof (induction bs)
  case (Cons b bs)
  then show ?case
    using hex_nibble_props(2) [OF of_char_div_16 [of b]] hex_nibble_props(2) [of "of_char b mod 16"]
    by (simp add: encode_lower_hex_Cons div_mult_mod_eq)
qed (simp add: encode_lower_hex_def)

lemma encode_lower_hex_inject [simp]: "encode_lower_hex a = encode_lower_hex b \<longleftrightarrow> a = b"
  by (metis decode_encode_lower_hex)

lemma encode_lower_hex_form:
  "length (encode_lower_hex bs) = 2 * length bs \<and> list_all hash_char (encode_lower_hex bs)"
proof (induction bs)
  case (Cons b bs)
  then show ?case
    using hex_nibble_props(1) [OF of_char_div_16 [of b]] hex_nibble_props(1) [of "of_char b mod 16"]
    by (simp add: encode_lower_hex_Cons)
qed (simp add: encode_lower_hex_def)

lemma approval_hash_round_trip:
  "length h = 32 \<Longrightarrow> plan_approval_hash_from_str (encode_lower_hex h) = Some h"
  using encode_lower_hex_form [of h]
  by (simp add: plan_approval_hash_from_str_def decode_encode_lower_hex)

lemma of_char_word_eq: "(of_char a :: 8 word) = of_char b \<longleftrightarrow> a = b"
proof
  assume "(of_char a :: 8 word) = of_char b"
  then have "unat (word_of_nat (of_char a) :: 8 word) = unat (word_of_nat (of_char b) :: 8 word)"
    by (simp add: of_nat_of_char)
  then have "(of_char a :: nat) = of_char b"
    using nat_of_char_less_256 [of a] nat_of_char_less_256 [of b] by (simp add: unat_of_nat)
  then show "a = b" by simp
qed simp

lemma xor_eq_0: "xor (v :: 8 word) w = 0 \<longleftrightarrow> v = w"
  by (metis xor.assoc xor.right_neutral xor_self_eq)

lemma fold_difference:
  "foldl (\<lambda>difference (left, right). or difference (xor (of_char left) (of_char right)))
     (d :: 8 word) ps = 0 \<longleftrightarrow> d = 0 \<and> (\<forall>p\<in>set ps. fst p = snd p)"
proof (induction ps arbitrary: d)
  case (Cons p ps)
  then show ?case by (cases p) (auto simp: or_eq_0_iff xor_eq_0 of_char_word_eq)
qed simp

lemma constant_time_eq_iff:
  "length a = length b \<Longrightarrow> constant_time_eq a b \<longleftrightarrow> a = b"
  unfolding constant_time_eq_def fold_difference by (induction a b rule: list_induct2) auto

section \<open>The wire forms determine the documents\<close>

lemma j_u16_inject [simp]: "j_u16 a = j_u16 b \<longleftrightarrow> a = b"
  by (simp add: j_u16_def word_uint_eq_iff)

lemma j_list_inject: "(\<And>x y. f x = f y \<longleftrightarrow> x = y) \<Longrightarrow> j_list f xs = j_list f ys \<longleftrightarrow> xs = ys"
  by (simp add: j_list_def map_json_inject)

lemma mk_obj_not_JNull [simp]: "mk_obj fs \<noteq> JNull" "JNull \<noteq> mk_obj fs"
  by (simp_all add: mk_obj_def)

lemma j_opt_inject:
  "(\<And>x y. f x = f y \<longleftrightarrow> x = y) \<Longrightarrow> (\<And>x. f x \<noteq> JNull) \<Longrightarrow> j_opt f a = j_opt f b \<longleftrightarrow> a = b"
  by (auto simp: j_opt_def split: option.splits) metis

lemma architecture_name_inject [simp]: "architecture_name a = architecture_name b \<longleftrightarrow> a = b"
  by (cases a; cases b; simp)

lemma port_protocol_name_inject [simp]: "port_protocol_name a = port_protocol_name b \<longleftrightarrow> a = b"
  by (cases a; cases b; simp)

lemma volume_access_mode_name_inject [simp]: "volume_access_mode_name a = volume_access_mode_name b \<longleftrightarrow> a = b"
  by (cases a; cases b; simp)

lemma ingress_transport_name_inject [simp]: "ingress_transport_name a = ingress_transport_name b \<longleftrightarrow> a = b"
  by (cases a; cases b; simp)

lemma cost_unit_name_inject [simp]: "cost_unit_name a = cost_unit_name b \<longleftrightarrow> a = b"
  by (cases a; cases b; simp)

lemma capability_name_inject [simp]: "capability_name a = capability_name b \<longleftrightarrow> a = b"
  by (cases a; cases b; simp)

lemma plan_action_name_inject [simp]: "plan_action_name a = plan_action_name b \<longleftrightarrow> a = b"
  by (cases a; cases b; simp)

lemma all_capabilities_set: "set all_capabilities = UNIV"
proof -
  have "c \<in> set all_capabilities" for c by (cases c) (simp_all add: all_capabilities_def)
  then show ?thesis by auto
qed

lemma capabilities_value_inject [simp]: "capabilities_value s = capabilities_value t \<longleftrightarrow> s = t"
proof
  assume "capabilities_value s = capabilities_value t"
  then have "filter (\<lambda>c. c \<in> s) all_capabilities = filter (\<lambda>c. c \<in> t) all_capabilities"
    by (simp add: capabilities_value_def map_json_inject)
  then have "set (filter (\<lambda>c. c \<in> s) all_capabilities) = set (filter (\<lambda>c. c \<in> t) all_capabilities)"
    by simp
  then show "s = t" by (auto simp: all_capabilities_set)
qed simp

lemma oci_image_value_inject [simp]: "oci_image_value x = oci_image_value y \<longleftrightarrow> x = y"
  by (cases x; cases y) (simp add: oci_image_value_def mk_obj_inject)

lemma deployment_revision_value_inject [simp]:
  "deployment_revision_value x = deployment_revision_value y \<longleftrightarrow> x = y"
  by (cases x; cases y) (simp add: deployment_revision_value_def mk_obj_inject)

lemma destroy_confirmation_value_inject [simp]:
  "destroy_confirmation_value x = destroy_confirmation_value y \<longleftrightarrow> x = y"
  by (cases x; cases y) (simp add: destroy_confirmation_value_def mk_obj_inject)

lemma secret_value_inject [simp]: "secret_value x = secret_value y \<longleftrightarrow> x = y"
  by (cases x; cases y) (simp add: secret_value_def mk_obj_inject)

lemma resource_intent_value_inject [simp]:
  "resource_intent_value x = resource_intent_value y \<longleftrightarrow> x = y"
  by (cases x; cases y) (simp add: resource_intent_value_def mk_obj_inject)

lemma port_intent_value_inject [simp]: "port_intent_value x = port_intent_value y \<longleftrightarrow> x = y"
  by (cases x; cases y) (simp add: port_intent_value_def mk_obj_inject)

lemma volume_value_inject [simp]: "volume_value x = volume_value y \<longleftrightarrow> x = y"
  by (cases x; cases y) (simp add: volume_value_def mk_obj_inject)

lemma health_check_value_inject [simp]: "health_check_value x = health_check_value y \<longleftrightarrow> x = y"
  by (cases x; cases y) (simp add: health_check_value_def mk_obj_inject)

lemma ingress_value_inject [simp]: "ingress_value x = ingress_value y \<longleftrightarrow> x = y"
  by (cases x; cases y) (simp add: ingress_value_def mk_obj_inject j_opt_inject)

lemma map_fst_JStr_inject [simp]:
  "map (\<lambda>e. (fst e, JStr (snd e))) xs = map (\<lambda>e. (fst e, JStr (snd e))) ys \<longleftrightarrow> xs = ys"
  by (rule inj_map_eq_map) (auto simp: inj_on_def)

lemma ingress_option_inject [simp]: "j_opt ingress_value a = j_opt ingress_value b \<longleftrightarrow> a = b"
  by (rule j_opt_inject, simp, simp add: ingress_value_def)

lemma desired_state_value_inject [simp]: "desired_state_value x = desired_state_value y \<longleftrightarrow> x = y"
  by (cases x; cases y)
    (auto simp: desired_state_value_def mk_obj_inject j_list_inject intro: observability_intent.equality
      lifecycle_intent.equality)

lemma adapter_value_inject [simp]: "adapter_value x = adapter_value y \<longleftrightarrow> x = y"
  by (cases x; cases y) (simp add: adapter_value_def mk_obj_inject)

lemma scope_value_inject [simp]: "scope_value x = scope_value y \<longleftrightarrow> x = y"
  by (cases x; cases y) (simp_all add: mk_obj_inject always_def)

lemma cost_interval_value_inject [simp]: "cost_interval_value x = cost_interval_value y \<longleftrightarrow> x = y"
  by (cases x; cases y) (simp add: cost_interval_value_def mk_obj_inject)

lemma recurring_cost_value_inject [simp]:
  "recurring_cost_value x = recurring_cost_value y \<longleftrightarrow> x = y"
  by (cases x; cases y) (simp_all add: mk_obj_inject always_def)

lemma plan_step_value_inject [simp]: "plan_step_value x = plan_step_value y \<longleftrightarrow> x = y"
  by (cases x; cases y) (simp add: plan_step_value_def mk_obj_inject)

lemma plan_outcome_value_inject [simp]: "plan_outcome_value x = plan_outcome_value y \<longleftrightarrow> x = y"
  by (cases x; cases y)
    (simp_all add: mk_obj_inject j_list_inject unless_none_inject always_def)

lemma deployment_plan_value_inject [simp]:
  "deployment_plan_value x = deployment_plan_value y \<longleftrightarrow> x = y"
  by (cases x; cases y) (simp add: deployment_plan_value_def mk_obj_inject)

section \<open>The wire forms are well-formed values\<close>

text \<open>The invariant of a \<open>BTreeMap\<close>.\<close>

definition wf_environment :: "desired_state \<Rightarrow> bool" where
  "wf_environment d \<longleftrightarrow>
     sorted (map fst (ds_environment d)) \<and> distinct (map fst (ds_environment d))"

lemma wf_j_u16 [simp]: "wf_json (j_u16 w)"
  by (simp add: j_u16_def)

lemma wf_j_list [simp]: "(\<And>x. wf_json (f x)) \<Longrightarrow> wf_json (j_list f xs)"
  by (simp add: j_list_def list_all_iff)

lemma wf_j_opt [simp]: "(\<And>x. wf_json (f x)) \<Longrightarrow> wf_json (j_opt f x)"
  by (simp add: j_opt_def split: option.split)

lemma wf_field_None [simp]: "wf_field None"
  by (simp add: wf_field_def)

lemma deployment_parts_wf [simp]:
  "wf_json (oci_image_value a)" "wf_json (destroy_confirmation_value c)" "wf_json (secret_value d)"
  "wf_json (resource_intent_value e)" "wf_json (port_intent_value f)" "wf_json (volume_value g)"
  "wf_json (health_check_value h)" "wf_json (ingress_value i)" "wf_json (capabilities_value j)"
  "wf_json (cost_interval_value k)" "wf_json (plan_step_value l)"
  by (simp_all add: oci_image_value_def destroy_confirmation_value_def secret_value_def
      resource_intent_value_def port_intent_value_def volume_value_def health_check_value_def
      ingress_value_def capabilities_value_def cost_interval_value_def plan_step_value_def wf_mk_obj)

lemma deployment_revision_value_wf [simp]: "wf_json (deployment_revision_value x)"
  by (simp add: deployment_revision_value_def wf_mk_obj)

lemma desired_state_value_wf [simp]: "wf_environment x \<Longrightarrow> wf_json (desired_state_value x)"
  by (simp add: desired_state_value_def wf_mk_obj wf_environment_def comp_def list_all_iff)

lemma adapter_value_wf [simp]: "wf_json (adapter_value x)"
  by (simp add: adapter_value_def wf_mk_obj)

lemma scope_value_wf [simp]: "wf_json (scope_value x)"
  by (cases x) (simp_all add: wf_mk_obj)

lemma recurring_cost_value_wf [simp]: "wf_json (recurring_cost_value x)"
  by (cases x) (simp_all add: wf_mk_obj)

lemma plan_outcome_value_wf [simp]: "wf_json (plan_outcome_value x)"
  by (cases x) (simp_all add: wf_mk_obj)

lemma deployment_plan_value_wf [simp]: "wf_json (deployment_plan_value x)"
  by (simp add: deployment_plan_value_def wf_mk_obj)

section \<open>What validation establishes\<close>

lemma violated_Nil [simp]: "violated b p c m = [] \<longleftrightarrow> \<not> b"
  by (simp add: violated_def)

lemma port_violations_Nil:
  "port_violations i names ps = [] \<Longrightarrow>
     distinct (map pti_name ps) \<and> set names \<inter> set (map pti_name ps) = {} \<and>
     (\<forall>p\<in>set ps. pti_container_port p \<noteq> 0)"
proof (induction ps arbitrary: i names)
  case (Cons p ps)
  then have "pti_name p \<notin> set names" "pti_container_port p \<noteq> 0"
    and tl: "port_violations (Suc i) (pti_name p # names) ps = []" by simp_all
  with Cons.IH [OF tl] show ?case by auto
qed simp

lemma secret_violations_Nil:
  "secret_violations env i names ss = [] \<Longrightarrow>
     distinct (map lsr_environment_name ss) \<and>
     set names \<inter> set (map lsr_environment_name ss) = {} \<and>
     set (map lsr_environment_name ss) \<inter> fst ` set env = {}"
proof (induction ss arbitrary: i names)
  case (Cons s ss)
  then have "lsr_environment_name s \<notin> set names" "lsr_environment_name s \<notin> fst ` set env"
    and tl: "secret_violations env (Suc i) (lsr_environment_name s # names) ss = []"
    by (simp_all add: Let_def)
  with Cons.IH [OF tl] show ?case by auto
qed simp

lemma volume_violations_Nil:
  "volume_violations i names paths vs = [] \<Longrightarrow>
     distinct (map pvi_name vs) \<and> distinct (map pvi_mount_path vs) \<and>
     set names \<inter> set (map pvi_name vs) = {} \<and> set paths \<inter> set (map pvi_mount_path vs) = {}"
proof (induction vs arbitrary: i names paths)
  case (Cons v vs)
  then have "pvi_name v \<notin> set names" "pvi_mount_path v \<notin> set paths"
    and tl: "volume_violations (Suc i) (pvi_name v # names) (pvi_mount_path v # paths) vs = []"
    by simp_all
  with Cons.IH [OF tl] show ?case by auto
qed simp

text \<open>
  What a valid desired state promises an adapter: no name is bound twice (in particular no variable
  is both a secret and a plain value), no plain value is a secret reference, every port and path is
  unambiguous, and the health check and the ingress name declared ports.
\<close>

definition deployable :: "desired_state \<Rightarrow> bool" where
  "deployable d \<longleftrightarrow>
     distinct (map lsr_environment_name (ds_secrets d)) \<and>
     set (map lsr_environment_name (ds_secrets d)) \<inter> fst ` set (ds_environment d) = {} \<and>
     (\<forall>e\<in>set (ds_environment d). \<not> starts_with (snd e) ''secret://'') \<and>
     distinct (map pti_name (ds_ports d)) \<and>
     (\<forall>p\<in>set (ds_ports d). pti_container_port p \<noteq> 0) \<and>
     distinct (map pvi_name (ds_persistent_volumes d)) \<and>
     distinct (map pvi_mount_path (ds_persistent_volumes d)) \<and>
     hhc_port_name (ds_health_check d) \<in> pti_name ` set (ds_ports d) \<and>
     0 < hhc_timeout_seconds (ds_health_check d) \<and>
     hhc_timeout_seconds (ds_health_check d) \<le> hhc_interval_seconds (ds_health_check d) \<and>
     (\<forall>i. ds_ingress d = Some i \<longrightarrow> igi_port_name i \<in> pti_name ` set (ds_ports d))"

lemma valid_desired_state_is_deployable:
  assumes "desired_state_validate d = Inr ()"
  shows "deployable d"
proof -
  have ok: "desired_state_violations d = []"
    using assms by (auto simp: desired_state_validate_def Let_def split: if_splits)
  from ok have s: "secret_violations (ds_environment d) 0 [] (ds_secrets d) = []"
    and p: "port_violations 0 [] (ds_ports d) = []"
    and v: "volume_violations 0 [] [] (ds_persistent_volumes d) = []"
    and env: "\<forall>e\<in>set (ds_environment d). environment_violations e = []"
    and h: "health_violations (map pti_name (ds_ports d)) (ds_health_check d) = []"
    and i: "ingress_violations (map pti_name (ds_ports d)) (ds_ingress d) = []"
    by (auto simp: desired_state_violations_def Let_def)
  have "hhc_port_name (ds_health_check d) \<in> pti_name ` set (ds_ports d) \<and>
    0 < hhc_timeout_seconds (ds_health_check d) \<and>
    hhc_timeout_seconds (ds_health_check d) \<le> hhc_interval_seconds (ds_health_check d)"
    using h by (auto simp: health_violations_def word_neq_0_conv)
  moreover have "\<forall>j. ds_ingress d = Some j \<longrightarrow> igi_port_name j \<in> pti_name ` set (ds_ports d)"
    using i by (auto simp: ingress_violations_def)
  moreover have "\<forall>e\<in>set (ds_environment d). \<not> starts_with (snd e) ''secret://''"
    using env by (auto simp: environment_violations_def)
  ultimately show ?thesis
    using secret_violations_Nil [OF s] port_violations_Nil [OF p] volume_violations_Nil [OF v]
    by (simp add: deployable_def)
qed

end
