(* ===== verification/Managed_Publication.thy ===== *)
theory Managed_Publication
  imports Managed_Deployment Publication_Intent Kernel
begin

text \<open>
  \<open>froglet-protocol/src/managed_publication.rs\<close>: the contract that joins a publication to a managed
  deployment. A plan binds the package, the desired state, the operator plans (provision, deploy
  and the compensation approved in advance), the provider and the public endpoint under one hash;
  a capsule carries the signed revision derived from it with its descriptor and offer; an operation
  is the durable state of carrying a plan out, with the evidence each phase requires.
  \<open>url::Url::parse\<close> is the argument \<open>up\<close>, the decoding of artifacts the argument \<open>dec\<close>.
\<close>

section \<open>Constants\<close>

definition MANAGED_PUBLICATION_PLAN_SCHEMA_V1 :: string where
  "MANAGED_PUBLICATION_PLAN_SCHEMA_V1 = ''froglet.managed-publication.plan.v1''"

definition MANAGED_PUBLICATION_PACKAGE_SCHEMA_V1 :: string where
  "MANAGED_PUBLICATION_PACKAGE_SCHEMA_V1 = ''froglet.managed-publication.package.v1''"

definition MANAGED_PUBLICATION_PACKAGE_REQUEST_SCHEMA_V1 :: string where
  "MANAGED_PUBLICATION_PACKAGE_REQUEST_SCHEMA_V1 =
     ''froglet.managed-publication.package-request.v1''"

definition MANAGED_PUBLICATION_CAPSULE_SCHEMA_V1 :: string where
  "MANAGED_PUBLICATION_CAPSULE_SCHEMA_V1 = ''froglet.managed-publication.capsule.v1''"

definition MANAGED_PUBLICATION_BUNDLE_SCHEMA_V1 :: string where
  "MANAGED_PUBLICATION_BUNDLE_SCHEMA_V1 = ''froglet.managed-publication.bundle.v1''"

definition MANAGED_PUBLICATION_OPERATION_SCHEMA_V1 :: string where
  "MANAGED_PUBLICATION_OPERATION_SCHEMA_V1 = ''froglet.managed-publication.operation.v1''"

definition MANAGED_PUBLICATION_RUNNER_CONTRACT_V1 :: string where
  "MANAGED_PUBLICATION_RUNNER_CONTRACT_V1 = ''froglet.managed-runner.v1''"

definition PLAN_HASH_DOMAIN_V1 :: string where
  "PLAN_HASH_DOMAIN_V1 = ''froglet.managed-publication.plan-hash.v1''"

definition OPERATION_ID_DOMAIN_V1 :: string where
  "OPERATION_ID_DOMAIN_V1 = ''froglet.managed-publication.operation-id.v1''"

definition CAPSULE_HASH_DOMAIN_V1 :: string where
  "CAPSULE_HASH_DOMAIN_V1 = ''froglet.managed-publication.capsule-hash.v1''"

section \<open>Phases and errors\<close>

datatype phase =
    Planned | LocalRevisionReady | Provisioning | Deploying | Reconciling | Deployed
  | CanaryVerified | Registering | Active | Compensating | Compensated
  | ReconciliationRequired | Failed

definition can_transition_to :: "phase \<Rightarrow> phase \<Rightarrow> bool" where
  "can_transition_to self to \<longleftrightarrow>
     self = to \<or>
     (case self of
        Planned \<Rightarrow> to \<in> {LocalRevisionReady, Failed}
      | LocalRevisionReady \<Rightarrow> to \<in> {Provisioning, Deploying, Compensating, Failed}
      | Provisioning \<Rightarrow> to \<in> {Deploying, Compensating, ReconciliationRequired, Failed}
      | Deploying \<Rightarrow> to \<in> {Reconciling, Deployed, Compensating, ReconciliationRequired, Failed}
      | Reconciling \<Rightarrow> to \<in> {Reconciling, Deployed, Compensating, ReconciliationRequired, Failed}
      | Deployed \<Rightarrow> to \<in> {CanaryVerified, Compensating, ReconciliationRequired, Failed}
      | CanaryVerified \<Rightarrow> to \<in> {Registering, Compensating, Failed}
      | Registering \<Rightarrow> to \<in> {Active, Compensating, ReconciliationRequired, Failed}
      | Compensating \<Rightarrow> to \<in> {Compensated, ReconciliationRequired, Failed}
      | ReconciliationRequired \<Rightarrow> to \<in> {Reconciling, Compensating, Failed}
      | Active \<Rightarrow> False
      | Compensated \<Rightarrow> False
      | Failed \<Rightarrow> False)"

datatype contract_error =
    InvalidField string message
  | HashMismatch string
  | InvalidTransition phase phase
  | Canonicalization

text \<open>The derived \<open>Debug\<close> of a phase is the name of its constructor.\<close>

fun phase_debug :: "phase \<Rightarrow> string" where
  "phase_debug Planned = ''Planned''"
| "phase_debug LocalRevisionReady = ''LocalRevisionReady''"
| "phase_debug Provisioning = ''Provisioning''"
| "phase_debug Deploying = ''Deploying''"
| "phase_debug Reconciling = ''Reconciling''"
| "phase_debug Deployed = ''Deployed''"
| "phase_debug CanaryVerified = ''CanaryVerified''"
| "phase_debug Registering = ''Registering''"
| "phase_debug Active = ''Active''"
| "phase_debug Compensating = ''Compensating''"
| "phase_debug Compensated = ''Compensated''"
| "phase_debug ReconciliationRequired = ''ReconciliationRequired''"
| "phase_debug Failed = ''Failed''"

fun contract_error_display :: "(string \<Rightarrow> string) \<Rightarrow> contract_error \<Rightarrow> string" where
  "contract_error_display dbg (InvalidField field reason) =
     ''invalid '' @ field @ '': '' @ render_message dbg reason"
| "contract_error_display dbg (HashMismatch field) = field @ '' does not match its canonical digest''"
| "contract_error_display dbg (InvalidTransition from to) =
     ''managed publication cannot transition from '' @ phase_debug from @ '' to '' @ phase_debug to"
| "contract_error_display dbg Canonicalization = ''managed publication canonicalization failed''"

text \<open>\<open>Display\<close> of the errors of publication documents that become a \<open>reason\<close>.\<close>

fun intent_error_message :: "publication_intent_error \<Rightarrow> message" where
  "intent_error_message (InvalidSchemaVersion v) =
     MsgDebug ''unsupported publication intent schema version '' v ''''"
| "intent_error_message (InvalidSettlement v) =
     MsgDebug ''unsupported publication settlement method '' v ''''"
| "intent_error_message (InvalidCurrency v) =
     MsgDebug ''unsupported publication price currency '' v ''''"
| "intent_error_message (InvalidMount m) = prefixed ''invalid publication mount: '' m"
| "intent_error_message (InvalidCapability v) =
     MsgDebug ''invalid publication capability '' v ''''"
| "intent_error_message (InvalidDataSource m) = prefixed ''invalid publication data source: '' m"
| "intent_error_message (InvalidBuildEvidence m) =
     prefixed ''invalid publication build evidence: '' m"
| "intent_error_message (IncompatiblePayment v) =
     Msg (''incompatible publication payment intent: '' @ v)"
| "intent_error_message (AmbiguousPricing p s) =
     Msg (''ambiguous publication pricing: price_sats='' @ nat_digits (unat p) @
       '' conflicts with explicit success_fee_msat='' @ nat_digits (unat s))"
| "intent_error_message PriceScheduleOverflow =
     Msg ''publication price schedule overflows u64 millisatoshis''"
| "intent_error_message (FractionalPriceLeg b s) =
     Msg (''publication price legs ('' @ nat_digits (unat b) @ '', '' @ nat_digits (unat s) @
       '') msat must each be representable as whole currency minor units'')"
| "intent_error_message (InvalidLimit f r m) =
     Msg (''publication limit '' @ f @ ''='' @ int_to_string r @ '' exceeds available maximum '' @
       int_to_string m)"

fun revision_error_message :: "publication_revision_error \<Rightarrow> message" where
  "revision_error_message (RevInvalidPayload m) = prefixed ''invalid publication revision payload: '' m"
| "revision_error_message (RevCanonical e) =
     Msg (''publication revision canonicalization failed: '' @ e)"
| "revision_error_message RevHashMismatch = Msg ''publication revision hash mismatch''"
| "revision_error_message RevSignatureInvalid =
     Msg ''publication revision signature verification failed''"

section \<open>Field checks\<close>

record url =
  url_scheme :: string
  url_host_str :: "string option"
  url_username :: string
  url_password :: "string option"
  url_path :: string
  url_query :: "string option"
  url_fragment :: "string option"

type_synonym url_parser = "string \<Rightarrow> url option"

definition require :: "bool \<Rightarrow> string \<Rightarrow> string \<Rightarrow> contract_error + unit" where
  "require b field reason = (if b then Inr () else Inl (InvalidField field (Msg reason)))"

definition require_schema :: "string \<Rightarrow> string \<Rightarrow> string \<Rightarrow> contract_error + unit" where
  "require_schema field actual expected = require (actual = expected) field (''expected '' @ expected)"

definition require_nonempty :: "string \<times> string \<Rightarrow> contract_error + unit" where
  "require_nonempty f =
     require (trim (snd f) \<noteq> [] \<and> length (snd f) \<le> 512 \<and> \<not> any_control (snd f)) (fst f)
       ''must be non-empty, bounded text without control characters''"

definition require_identifier :: "string \<Rightarrow> string \<Rightarrow> contract_error + unit" where
  "require_identifier field value =
     require (value \<noteq> [] \<and> length value \<le> 128 \<and> list_all identifier_char value) field
       ''must contain 1-128 ASCII letters, digits, dots, hyphens, or underscores''"

definition is_hash :: "string \<Rightarrow> bool" where
  "is_hash value \<longleftrightarrow> length value = 64 \<and> list_all hash_char value"

definition require_hash :: "string \<Rightarrow> string \<Rightarrow> contract_error + unit" where
  "require_hash field value =
     require (is_hash value) field ''must be exactly 64 lowercase hexadecimal characters''"

definition require_digest :: "string \<Rightarrow> string \<Rightarrow> contract_error + unit" where
  "require_digest field value =
     (case strip_prefix value ''sha256:'' of
        None \<Rightarrow> Inl (InvalidField field
          (Msg ''must use sha256:<64 lowercase hexadecimal characters>''))
      | Some hash \<Rightarrow> require_hash field hash)"

definition split_once :: "string \<Rightarrow> char \<Rightarrow> (string \<times> string) option" where
  "split_once s c =
     (case dropWhile (\<lambda>x. x \<noteq> c) s of
        [] \<Rightarrow> None
      | _ # rest \<Rightarrow> Some (takeWhile (\<lambda>x. x \<noteq> c) s, rest))"

definition root_origin :: "url \<Rightarrow> bool" where
  "root_origin u \<longleftrightarrow>
     url_host_str u \<noteq> None \<and> url_username u = [] \<and> url_password u = None \<and> url_path u = ''/'' \<and>
     url_query u = None \<and> url_fragment u = None"

definition repository_segment :: "string \<Rightarrow> bool" where
  "repository_segment segment \<longleftrightarrow>
     segment \<noteq> [] \<and> segment \<noteq> ''.'' \<and> segment \<noteq> ''..'' \<and> list_all identifier_char segment"

definition require_oci_repository :: "url_parser \<Rightarrow> string \<Rightarrow> string \<Rightarrow> contract_error + unit" where
  "require_oci_repository up field value =
     require
       (length value \<le> 512 \<and> CHR ''@'' \<notin> set value \<and> \<not> any_whitespace value \<and> \<not> any_control value \<and>
        (case split_once value (CHR ''/'') of
           None \<Rightarrow> False
         | Some (registry, repository) \<Rightarrow>
             registry \<noteq> [] \<and> repository \<noteq> [] \<and>
             list_all repository_segment (split_char (CHR ''/'') repository) \<and>
             (case up (''https://'' @ registry @ ''/'') of None \<Rightarrow> False | Some u \<Rightarrow> root_origin u)))
       field
       ''must include an explicit credential-free registry and repository path without a tag or digest''"

definition require_public_https_url :: "url_parser \<Rightarrow> string \<Rightarrow> string \<Rightarrow> contract_error + unit" where
  "require_public_https_url up field value =
     require
       (length value \<le> 2048 \<and> \<not> any_whitespace value \<and> \<not> any_control value \<and>
        (case up value of None \<Rightarrow> False | Some u \<Rightarrow> url_scheme u = ''https'' \<and> root_origin u))
       field ''must be a bounded credential-free HTTPS root origin''"

definition canonical_hash :: "crypto_env \<Rightarrow> json \<Rightarrow> contract_error + string" where
  "canonical_hash cs v =
     map_err (\<lambda>_. Canonicalization) (map_ok (sha256_hex cs) (canonical_json_to_vec cs v))"

definition domain_separated_hash :: "crypto_env \<Rightarrow> string \<Rightarrow> json \<Rightarrow> contract_error + string" where
  "domain_separated_hash cs domain v =
     map_err (\<lambda>_. Canonicalization)
       (map_ok (\<lambda>canonical. sha256_hex cs (domain @ [CHR 0x0A] @ canonical))
          (canonical_json_to_vec cs v))"

section \<open>Package and bundle\<close>

datatype content_visibility = PrivateRegistryRequired

record bundle_manifest =
  bm_schema_version :: string
  bm_service_id :: string
  bm_publish_request_digest :: string
  bm_source_package_digest :: string
  bm_content_visibility :: content_visibility
  bm_intent :: publication_intent

record managed_package =
  pk_schema_version :: string
  pk_source_package_digest :: string
  pk_build_evidence_digest :: string
  pk_bundle_manifest_digest :: string
  pk_release_bundle_digest :: string
  pk_base_runner_image :: oci_image
  pk_image :: oci_image
  pk_content_visibility :: content_visibility
  pk_runtime :: string
  pk_package_kind :: string
  pk_builder_id :: string
  pk_builder_fingerprint :: string
  pk_runner_contract :: string

record package_request =
  prq_schema_version :: string
  prq_operation_id :: string
  prq_bundle :: bundle_manifest
  prq_output_repository :: string
  prq_base_runner_image :: oci_image
  prq_release_bundle_digest :: string

text \<open>The wire form of an intent.\<close>

definition limits_value :: "publication_limits \<Rightarrow> json" where
  "limits_value l = mk_obj
     [(''max_input_bytes'', unless_none j_u64 (pl_max_input_bytes l)),
      (''max_runtime_ms'', unless_none j_u64 (pl_max_runtime_ms l)),
      (''max_memory_bytes'', unless_none j_u64 (pl_max_memory_bytes l)),
      (''max_output_bytes'', unless_none j_u64 (pl_max_output_bytes l)),
      (''fuel_limit'', unless_none j_u64 (pl_fuel_limit l))]"

definition bundle_artifact_value :: "locked_python_bundle_artifact \<Rightarrow> json" where
  "bundle_artifact_value a = mk_obj
     [(''locked'', always (python_locked_artifact_value (lba_locked a))),
      (''content_base64'', always (JStr (lba_content_base64 a)))]"

definition bundle_envelope_value :: "locked_python_bundle_envelope \<Rightarrow> json" where
  "bundle_envelope_value b = mk_obj
     [(''schema_version'', always (JStr (lbe_schema_version b))),
      (''lock'', always (python_lock_value (lbe_lock b))),
      (''lock_sha256'', always (JStr (lbe_lock_sha256 b))),
      (''source_base64'', always (JStr (lbe_source_base64 b))),
      (''artifacts'', unless_empty (j_list bundle_artifact_value) (lbe_artifacts b))]"

definition fixture_value :: "verification_fixture \<Rightarrow> json" where
  "fixture_value f = mk_obj
     [(''input'', always (vf_input f)),
      (''expected_output'', unless_none (\<lambda>v. v) (vf_expected_output f))]"

definition intent_value :: "publication_intent \<Rightarrow> json" where
  "intent_value i = mk_obj
     [(''schema_version'', unless_none JStr (pi_schema_version i)),
      (''service_id'', always (JStr (pi_service_id i))),
      (''offer_id'', unless_none JStr (pi_offer_id i)),
      (''project_id'', unless_none JStr (pi_project_id i)),
      (''artifact_path'', unless_none JStr (pi_artifact_path i)),
      (''wasm_module_hex'', unless_none JStr (pi_wasm_module_hex i)),
      (''oci_reference'', unless_none JStr (pi_oci_reference i)),
      (''oci_digest'', unless_none JStr (pi_oci_digest i)),
      (''runtime'', unless_none JStr (pi_runtime i)),
      (''package_kind'', unless_none JStr (pi_package_kind i)),
      (''entrypoint_kind'', unless_none JStr (pi_entrypoint_kind i)),
      (''entrypoint'', unless_none JStr (pi_entrypoint i)),
      (''contract_version'', unless_none JStr (pi_contract_version i)),
      (''mounts'', unless_none mounts_value (pi_mounts i)),
      (''capabilities'', unless_none j_strs (pi_capabilities i)),
      (''inline_source'', unless_none JStr (pi_inline_source i)),
      (''python_bundle'', unless_none bundle_envelope_value (pi_python_bundle i)),
      (''data_source'', unless_none data_source_value (pi_data_source i)),
      (''build_evidence'', unless_none build_evidence_value (pi_build_evidence i)),
      (''source_kind'', unless_none JStr (pi_source_kind i)),
      (''summary'', unless_none JStr (pi_summary i)),
      (''starter'', unless_none JStr (pi_starter i)),
      (''mode'', unless_none JStr (pi_mode i)),
      (''price_sats'', always (j_u64 (pi_price_sats i))),
      (''base_fee_msat'', unless_none j_u64 (pi_base_fee_msat i)),
      (''success_fee_msat'', unless_none j_u64 (pi_success_fee_msat i)),
      (''settlement_method'',
         unless_none (\<lambda>s. JStr (publication_settlement_display s)) (pi_settlement_method i)),
      (''price_currency'',
         unless_none (\<lambda>c. JStr (publication_currency_display c)) (pi_price_currency i)),
      (''limits'', unless_none limits_value (pi_limits i)),
      (''publication_state'', unless_none JStr (pi_publication_state i)),
      (''input_schema'', unless_none (\<lambda>v. v) (pi_input_schema i)),
      (''output_schema'', unless_none (\<lambda>v. v) (pi_output_schema i)),
      (''verification'', unless_none fixture_value (pi_verification i))]"

fun content_visibility_name :: "content_visibility \<Rightarrow> string" where
  "content_visibility_name PrivateRegistryRequired = ''private_registry_required''"

definition bundle_value :: "bundle_manifest \<Rightarrow> json" where
  "bundle_value b = mk_obj
     [(''schema_version'', always (JStr (bm_schema_version b))),
      (''service_id'', always (JStr (bm_service_id b))),
      (''publish_request_digest'', always (JStr (bm_publish_request_digest b))),
      (''source_package_digest'', always (JStr (bm_source_package_digest b))),
      (''content_visibility'', always (JStr (content_visibility_name (bm_content_visibility b)))),
      (''intent'', always (intent_value (bm_intent b)))]"

definition bundle_validate :: "crypto_env \<Rightarrow> bundle_manifest \<Rightarrow> contract_error + unit" where
  "bundle_validate cs b =
     and_then (require_schema ''bundle.schema_version'' (bm_schema_version b)
       MANAGED_PUBLICATION_BUNDLE_SCHEMA_V1) (\<lambda>_.
     and_then (require_identifier ''bundle.service_id'' (bm_service_id b)) (\<lambda>_.
     and_then (require_hash ''bundle.publish_request_digest'' (bm_publish_request_digest b)) (\<lambda>_.
     and_then (require_hash ''bundle.source_package_digest'' (bm_source_package_digest b)) (\<lambda>_.
     and_then (require
       (\<not> (pi_service_id (bm_intent b) \<noteq> bm_service_id b \<or> pi_verification (bm_intent b) \<noteq> None \<or>
         pi_artifact_path (bm_intent b) \<noteq> None \<or> pi_publication_state (bm_intent b) \<noteq> None))
       ''bundle.intent'' ''runtime intent must match the service and omit authoring-only state'') (\<lambda>_.
     and_then (map_err (\<lambda>e. InvalidField ''bundle.intent'' (intent_error_message e))
       (intent_validate_authoring cs (bm_intent b))) (\<lambda>_.
     and_then (ok_or (InvalidField ''bundle.intent.build_evidence''
       (Msg ''runtime intent omitted immutable build evidence''))
       (pi_build_evidence (bm_intent b))) (\<lambda>build_evidence.
     and_then (map_err (InvalidField ''bundle.intent.build_evidence'')
       (build_evidence_validate build_evidence)) (\<lambda>_.
     if pbe_artifact_digest build_evidence \<noteq> bm_source_package_digest b
     then Inl (HashMismatch ''bundle.source_package_digest'')
     else Inr ()))))))))"

definition from_intent :: "crypto_env \<Rightarrow> publication_intent \<Rightarrow> contract_error + bundle_manifest" where
  "from_intent cs intent =
     and_then (map_err (\<lambda>e. InvalidField ''bundle.intent'' (intent_error_message e))
       (normalized cs intent)) (\<lambda>normalized.
     and_then (require (pi_artifact_path normalized = None) ''bundle.intent.artifact_path''
       ''managed packages require portable inline or bundled bytes; a daemon-local path cannot be transferred to the managed runner'')
       (\<lambda>_.
     and_then (canonical_hash cs (intent_value normalized)) (\<lambda>publish_request_digest.
     and_then (ok_or (InvalidField ''bundle.intent.build_evidence''
       (Msg ''managed packages require immutable build evidence''))
       (pi_build_evidence normalized)) (\<lambda>build_evidence.
     and_then (map_err (InvalidField ''bundle.intent.build_evidence'')
       (build_evidence_validate build_evidence)) (\<lambda>_.
     let manifest =
       \<lparr>bm_schema_version = MANAGED_PUBLICATION_BUNDLE_SCHEMA_V1,
        bm_service_id = pi_service_id normalized,
        bm_publish_request_digest = publish_request_digest,
        bm_source_package_digest = pbe_artifact_digest build_evidence,
        bm_content_visibility = PrivateRegistryRequired,
        bm_intent = normalized\<lparr>pi_verification := None, pi_artifact_path := None,
          pi_publication_state := None\<rparr>\<rparr>
     in and_then (bundle_validate cs manifest) (\<lambda>_. Inr manifest))))))"

definition bundle_canonical_bytes :: "crypto_env \<Rightarrow> bundle_manifest \<Rightarrow> contract_error + bytes" where
  "bundle_canonical_bytes cs b =
     and_then (bundle_validate cs b) (\<lambda>_.
     map_err (\<lambda>_. Canonicalization) (canonical_json_to_vec cs (bundle_value b)))"

definition bundle_manifest_digest :: "crypto_env \<Rightarrow> bundle_manifest \<Rightarrow> contract_error + string" where
  "bundle_manifest_digest cs b =
     map_ok (\<lambda>bytes. ''sha256:'' @ sha256_hex cs bytes) (bundle_canonical_bytes cs b)"

definition package_validate :: "url_parser \<Rightarrow> managed_package \<Rightarrow> contract_error + unit" where
  "package_validate up p =
     and_then (require_schema ''package.schema_version'' (pk_schema_version p)
       MANAGED_PUBLICATION_PACKAGE_SCHEMA_V1) (\<lambda>_.
     and_then (require_hash ''package.source_package_digest'' (pk_source_package_digest p)) (\<lambda>_.
     and_then (require_hash ''package.build_evidence_digest'' (pk_build_evidence_digest p)) (\<lambda>_.
     and_then (require_digest ''package.bundle_manifest_digest'' (pk_bundle_manifest_digest p)) (\<lambda>_.
     and_then (require_digest ''package.release_bundle_digest'' (pk_release_bundle_digest p)) (\<lambda>_.
     and_then (require_oci_repository up ''package.base_runner_image.repository''
       (oci_repository (pk_base_runner_image p))) (\<lambda>_.
     and_then (require_digest ''package.base_runner_image.digest''
       (oci_digest (pk_base_runner_image p))) (\<lambda>_.
     and_then (require_oci_repository up ''package.image.repository''
       (oci_repository (pk_image p))) (\<lambda>_.
     and_then (require_digest ''package.image.digest'' (oci_digest (pk_image p))) (\<lambda>_.
     and_then (for_each require_nonempty
       [(''package.runtime'', pk_runtime p), (''package.package_kind'', pk_package_kind p),
        (''package.builder_id'', pk_builder_id p)]) (\<lambda>_.
     and_then (require_hash ''package.builder_fingerprint'' (pk_builder_fingerprint p)) (\<lambda>_.
     require (pk_runner_contract p = MANAGED_PUBLICATION_RUNNER_CONTRACT_V1)
       ''package.runner_contract'' ''unsupported managed runner contract'')))))))))))"

definition package_request_validate ::
  "crypto_env \<Rightarrow> url_parser \<Rightarrow> package_request \<Rightarrow> contract_error + unit" where
  "package_request_validate cs up r =
     and_then (require_schema ''package_request.schema_version'' (prq_schema_version r)
       MANAGED_PUBLICATION_PACKAGE_REQUEST_SCHEMA_V1) (\<lambda>_.
     and_then (require_hash ''package_request.operation_id'' (prq_operation_id r)) (\<lambda>_.
     and_then (bundle_validate cs (prq_bundle r)) (\<lambda>_.
     and_then (require_oci_repository up ''package_request.output_repository''
       (prq_output_repository r)) (\<lambda>_.
     and_then (require_oci_repository up ''package_request.base_runner_image.repository''
       (oci_repository (prq_base_runner_image r))) (\<lambda>_.
     and_then (require_digest ''package_request.base_runner_image.digest''
       (oci_digest (prq_base_runner_image r))) (\<lambda>_.
     require_digest ''package_request.release_bundle_digest'' (prq_release_bundle_digest r)))))))"

definition validate_output ::
  "crypto_env \<Rightarrow> url_parser \<Rightarrow> package_request \<Rightarrow> managed_package \<Rightarrow> contract_error + unit" where
  "validate_output cs up r package =
     and_then (package_request_validate cs up r) (\<lambda>_.
     and_then (package_validate up package) (\<lambda>_.
     and_then (ok_or (InvalidField ''package_request.bundle.intent.build_evidence''
       (Msg ''managed bundle omitted build evidence''))
       (pi_build_evidence (bm_intent (prq_bundle r)))) (\<lambda>build_evidence.
     let runtime = unwrap_or (pi_runtime (bm_intent (prq_bundle r))) [];
         package_kind = unwrap_or (pi_package_kind (bm_intent (prq_bundle r))) []
     in and_then
       (if pk_source_package_digest package \<noteq> bm_source_package_digest (prq_bundle r) then Inr True
        else
          and_then (canonical_hash cs (build_evidence_value build_evidence)) (\<lambda>evidence_digest.
          if pk_build_evidence_digest package \<noteq> evidence_digest then Inr True
          else
            and_then (bundle_manifest_digest cs (prq_bundle r)) (\<lambda>manifest_digest.
            Inr (pk_bundle_manifest_digest package \<noteq> manifest_digest \<or>
              pk_release_bundle_digest package \<noteq> prq_release_bundle_digest r \<or>
              pk_base_runner_image package \<noteq> prq_base_runner_image r \<or>
              oci_repository (pk_image package) \<noteq> prq_output_repository r \<or>
              pk_runtime package \<noteq> runtime \<or> pk_package_kind package \<noteq> package_kind \<or>
              pk_content_visibility package \<noteq> PrivateRegistryRequired)))) (\<lambda>mismatch.
     require (\<not> mismatch) ''package''
       ''packager output does not match its exact immutable request''))))"

section \<open>Operation identity\<close>

record operation_identity =
  oid_service_id :: string
  oid_provider_id :: string
  oid_publish_request_digest :: string
  oid_source_package_digest :: string
  oid_base_runner_image :: oci_image
  oid_release_bundle_digest :: string
  oid_output_repository :: string
  oid_target :: string
  oid_profile :: string

definition operation_identity_value :: "operation_identity \<Rightarrow> json" where
  "operation_identity_value x = mk_obj
     [(''schema_version'', always (JStr MANAGED_PUBLICATION_OPERATION_SCHEMA_V1)),
      (''service_id'', always (JStr (oid_service_id x))),
      (''provider_id'', always (JStr (oid_provider_id x))),
      (''publish_request_digest'', always (JStr (oid_publish_request_digest x))),
      (''source_package_digest'', always (JStr (oid_source_package_digest x))),
      (''base_runner_image'', always (oci_image_value (oid_base_runner_image x))),
      (''release_bundle_digest'', always (JStr (oid_release_bundle_digest x))),
      (''output_repository'', always (JStr (oid_output_repository x))),
      (''target'', always (JStr (oid_target x))),
      (''profile'', always (JStr (oid_profile x)))]"

definition managed_publication_operation_id ::
  "crypto_env \<Rightarrow> url_parser \<Rightarrow> operation_identity \<Rightarrow> contract_error + string" where
  "managed_publication_operation_id cs up x =
     and_then (require_identifier ''operation_id.service_id'' (oid_service_id x)) (\<lambda>_.
     and_then (require_hash ''operation_id.provider_id'' (oid_provider_id x)) (\<lambda>_.
     and_then (require_hash ''operation_id.publish_request_digest'' (oid_publish_request_digest x)) (\<lambda>_.
     and_then (require_hash ''operation_id.source_package_digest'' (oid_source_package_digest x)) (\<lambda>_.
     and_then (require_oci_repository up ''operation_id.base_runner_image.repository''
       (oci_repository (oid_base_runner_image x))) (\<lambda>_.
     and_then (require_digest ''operation_id.base_runner_image.digest''
       (oci_digest (oid_base_runner_image x))) (\<lambda>_.
     and_then (require_digest ''operation_id.release_bundle_digest'' (oid_release_bundle_digest x)) (\<lambda>_.
     and_then (require_oci_repository up ''operation_id.output_repository''
       (oid_output_repository x)) (\<lambda>_.
     and_then (require_identifier ''operation_id.target'' (oid_target x)) (\<lambda>_.
     and_then (require_identifier ''operation_id.profile'' (oid_profile x)) (\<lambda>_.
     domain_separated_hash cs OPERATION_ID_DOMAIN_V1 (operation_identity_value x)))))))))))"

section \<open>Plan\<close>

record plan_payload =
  pp_schema_version :: string
  pp_operation_id :: string
  pp_service_id :: string
  pp_target :: string
  pp_profile :: string
  pp_expected_provider_id :: string
  pp_publish_request_digest :: string
  pp_package :: managed_package
  pp_desired_state :: desired_state
  pp_provision_plan :: "deployment_plan option"
  pp_deploy_plan :: deployment_plan
  pp_compensation_plan :: deployment_plan
  pp_public_url :: string

record managed_plan =
  mpl_plan_hash :: string
  mpl_payload :: plan_payload

definition package_value :: "managed_package \<Rightarrow> json" where
  "package_value x = mk_obj
     [(''schema_version'', always (JStr (pk_schema_version x))),
      (''source_package_digest'', always (JStr (pk_source_package_digest x))),
      (''build_evidence_digest'', always (JStr (pk_build_evidence_digest x))),
      (''bundle_manifest_digest'', always (JStr (pk_bundle_manifest_digest x))),
      (''release_bundle_digest'', always (JStr (pk_release_bundle_digest x))),
      (''base_runner_image'', always (oci_image_value (pk_base_runner_image x))),
      (''image'', always (oci_image_value (pk_image x))),
      (''content_visibility'', always (JStr (content_visibility_name (pk_content_visibility x)))),
      (''runtime'', always (JStr (pk_runtime x))),
      (''package_kind'', always (JStr (pk_package_kind x))),
      (''builder_id'', always (JStr (pk_builder_id x))),
      (''builder_fingerprint'', always (JStr (pk_builder_fingerprint x))),
      (''runner_contract'', always (JStr (pk_runner_contract x)))]"

definition plan_payload_value :: "plan_payload \<Rightarrow> json" where
  "plan_payload_value x = mk_obj
     [(''schema_version'', always (JStr (pp_schema_version x))),
      (''operation_id'', always (JStr (pp_operation_id x))),
      (''service_id'', always (JStr (pp_service_id x))),
      (''target'', always (JStr (pp_target x))),
      (''profile'', always (JStr (pp_profile x))),
      (''expected_provider_id'', always (JStr (pp_expected_provider_id x))),
      (''publish_request_digest'', always (JStr (pp_publish_request_digest x))),
      (''package'', always (package_value (pp_package x))),
      (''desired_state'', always (desired_state_value (pp_desired_state x))),
      (''provision_plan'', unless_none deployment_plan_value (pp_provision_plan x)),
      (''deploy_plan'', always (deployment_plan_value (pp_deploy_plan x))),
      (''compensation_plan'', always (deployment_plan_value (pp_compensation_plan x))),
      (''public_url'', always (JStr (pp_public_url x)))]"

definition managed_plan_value :: "managed_plan \<Rightarrow> json" where
  "managed_plan_value x = mk_obj
     [(''plan_hash'', always (JStr (mpl_plan_hash x))),
      (''payload'', always (plan_payload_value (mpl_payload x)))]"

definition contract_violations_message :: "contract_violation list \<Rightarrow> message" where
  "contract_violations_message vs = Msg (nat_digits (length vs) @ '' contract violation(s)'')"

definition validate_operator_plan ::
  "deployment_plan \<Rightarrow> desired_state \<Rightarrow> approval_scope \<Rightarrow> contract_error + unit" where
  "validate_operator_plan plan desired expected_scope =
     and_then (require
       (\<not> (dpl_schema_version plan \<noteq> PLAN_SCHEMA_V1 \<or>
         dpl_deployment_id plan \<noteq> ds_deployment_id desired \<or>
         dpl_revision_id plan \<noteq> drv_revision_id (ds_revision desired) \<or>
         dpl_desired_state_schema_version plan \<noteq> ds_schema_version desired \<or>
         NoMutation_as_bool))
       ''plan.operator_plan''
       ''operator plan does not match desired state or claims a planning mutation'') (\<lambda>_.
     and_then (map_err (\<lambda>vs. InvalidField ''plan.operator_plan.adapter''
       (contract_violations_message vs)) (adapter_validate (dpl_adapter plan))) (\<lambda>_.
     and_then (require
       (required_capabilities_for_plan desired (Mutation expected_scope)
          \<subseteq> adc_capabilities (dpl_adapter plan))
       ''plan.operator_plan.adapter.capabilities''
       ''operator plan does not declare every capability required by desired state'') (\<lambda>_.
     require
       (case dpl_outcome plan of
          Applicable steps _ _ (Some _) (Some scope) \<Rightarrow> steps \<noteq> [] \<and> scope = expected_scope
        | _ \<Rightarrow> False)
       ''plan.operator_plan''
       ''operator plan must be applicable, operation-scoped, non-empty, and approval-bound'')))"

definition plan_approval_scope :: "deployment_plan \<Rightarrow> contract_error + approval_scope" where
  "plan_approval_scope plan =
     (case dpl_outcome plan of
        Applicable _ _ _ (Some _) (Some scope) \<Rightarrow> Inr scope
      | _ \<Rightarrow> Inl (InvalidField ''plan.operator_plan''
          (Msg ''operator plan has no exact approval scope'')))"

definition plan_approval_hash_of :: "deployment_plan \<Rightarrow> plan_approval_hash option" where
  "plan_approval_hash_of plan =
     (case dpl_outcome plan of Applicable _ _ _ approval_hash _ \<Rightarrow> approval_hash | _ \<Rightarrow> None)"

fun compensates :: "approval_scope \<Rightarrow> bool" where
  "compensates (ScopeRollback _) = True"
| "compensates (ScopeDestroy _) = True"
| "compensates _ = False"

definition payload_identity :: "plan_payload \<Rightarrow> operation_identity" where
  "payload_identity p =
     \<lparr>oid_service_id = pp_service_id p, oid_provider_id = pp_expected_provider_id p,
      oid_publish_request_digest = pp_publish_request_digest p,
      oid_source_package_digest = pk_source_package_digest (pp_package p),
      oid_base_runner_image = pk_base_runner_image (pp_package p),
      oid_release_bundle_digest = pk_release_bundle_digest (pp_package p),
      oid_output_repository = oci_repository (pk_image (pp_package p)),
      oid_target = pp_target p, oid_profile = pp_profile p\<rparr>"

definition check_operator_plans :: "plan_payload \<Rightarrow> contract_error + unit" where
  "check_operator_plans p =
     and_then
       (case pp_provision_plan p of
          None \<Rightarrow> Inr ()
        | Some plan \<Rightarrow> validate_operator_plan plan (pp_desired_state p) ScopeProvision) (\<lambda>_.
     and_then (validate_operator_plan (pp_deploy_plan p) (pp_desired_state p) ScopeDeploy) (\<lambda>_.
     and_then (plan_approval_scope (pp_compensation_plan p)) (\<lambda>compensation_scope.
     and_then (require (compensates compensation_scope) ''plan.compensation_plan''
       ''compensation must approve an exact rollback or destroy operation'') (\<lambda>_.
     and_then (validate_operator_plan (pp_compensation_plan p) (pp_desired_state p)
       compensation_scope) (\<lambda>_.
     let expected_adapter = adc_adapter_id (dpl_adapter (pp_deploy_plan p))
     in require
       (\<not> list_ex (\<lambda>plan. adc_adapter_id (dpl_adapter plan) \<noteq> expected_adapter)
         ((case pp_provision_plan p of None \<Rightarrow> [] | Some plan \<Rightarrow> [plan]) @
          [pp_compensation_plan p]))
       ''plan.operator_plans''
       ''provision, deploy, and compensation must use one exact adapter'')))))"

definition payload_validate :: "crypto_env \<Rightarrow> url_parser \<Rightarrow> plan_payload \<Rightarrow> contract_error + unit" where
  "payload_validate cs up p =
     and_then (require_schema ''plan.schema_version'' (pp_schema_version p)
       MANAGED_PUBLICATION_PLAN_SCHEMA_V1) (\<lambda>_.
     and_then (require_hash ''plan.operation_id'' (pp_operation_id p)) (\<lambda>_.
     and_then (require_identifier ''plan.service_id'' (pp_service_id p)) (\<lambda>_.
     and_then (require_identifier ''plan.target'' (pp_target p)) (\<lambda>_.
     and_then (require_identifier ''plan.profile'' (pp_profile p)) (\<lambda>_.
     and_then (require_hash ''plan.expected_provider_id'' (pp_expected_provider_id p)) (\<lambda>_.
     and_then (require_hash ''plan.publish_request_digest'' (pp_publish_request_digest p)) (\<lambda>_.
     and_then (managed_publication_operation_id cs up (payload_identity p)) (\<lambda>expected_operation_id.
     if pp_operation_id p \<noteq> expected_operation_id then Inl (HashMismatch ''plan.operation_id'')
     else
       and_then (require_public_https_url up ''plan.public_url'' (pp_public_url p)) (\<lambda>_.
       and_then (package_validate up (pp_package p)) (\<lambda>_.
       and_then (map_err (\<lambda>vs. InvalidField ''plan.desired_state'' (contract_violations_message vs))
         (desired_state_validate (pp_desired_state p))) (\<lambda>_.
       and_then (require
         (\<not> (drv_image (ds_revision (pp_desired_state p)) \<noteq> pk_image (pp_package p) \<or>
           drv_release_bundle_digest (ds_revision (pp_desired_state p))
             \<noteq> pk_release_bundle_digest (pp_package p) \<or>
           drv_revision_id (ds_revision (pp_desired_state p))
             \<noteq> pk_bundle_manifest_digest (pp_package p)))
         ''plan.desired_state.revision''
         ''desired revision must exactly match the approved managed package'') (\<lambda>_.
       check_operator_plans p))))))))))))"

definition plan_new :: "crypto_env \<Rightarrow> url_parser \<Rightarrow> plan_payload \<Rightarrow> contract_error + managed_plan" where
  "plan_new cs up payload =
     and_then (payload_validate cs up payload) (\<lambda>_.
     and_then (domain_separated_hash cs PLAN_HASH_DOMAIN_V1 (plan_payload_value payload))
       (\<lambda>plan_hash. Inr \<lparr>mpl_plan_hash = plan_hash, mpl_payload = payload\<rparr>))"

definition plan_validate :: "crypto_env \<Rightarrow> url_parser \<Rightarrow> managed_plan \<Rightarrow> contract_error + unit" where
  "plan_validate cs up plan =
     and_then (payload_validate cs up (mpl_payload plan)) (\<lambda>_.
     and_then (require_hash ''plan_hash'' (mpl_plan_hash plan)) (\<lambda>_.
     and_then (domain_separated_hash cs PLAN_HASH_DOMAIN_V1 (plan_payload_value (mpl_payload plan)))
       (\<lambda>expected.
     if expected \<noteq> mpl_plan_hash plan then Inl (HashMismatch ''plan_hash'') else Inr ())))"

definition deploy_approval_hash ::
  "crypto_env \<Rightarrow> url_parser \<Rightarrow> managed_plan \<Rightarrow> contract_error + plan_approval_hash" where
  "deploy_approval_hash cs up plan =
     and_then (plan_validate cs up plan) (\<lambda>_.
     ok_or (InvalidField ''plan.deploy_plan''
       (Msg ''validated deploy plan omitted its approval hash''))
       (plan_approval_hash_of (pp_deploy_plan (mpl_payload plan))))"

section \<open>Capsule\<close>

record capsule =
  cap_schema_version :: string
  cap_operation_id :: string
  cap_plan_hash :: string
  cap_consent_hash :: string
  cap_plan :: managed_plan
  cap_source_revision_hash :: string
  cap_revision :: signed_publication_revision
  cap_verification_fixture :: verification_fixture
  cap_descriptor :: json
  cap_offer :: json

definition signed_revision_value :: "signed_publication_revision \<Rightarrow> json" where
  "signed_revision_value x = mk_obj
     [(''revision_hash'', always (JStr (spr_revision_hash x))),
      (''signer_pubkey'', always (JStr (spr_signer_pubkey x))),
      (''signature'', always (JStr (spr_signature x))),
      (''payload'', always (revision_value (spr_payload x)))]"

definition capsule_value :: "capsule \<Rightarrow> json" where
  "capsule_value x = mk_obj
     [(''schema_version'', always (JStr (cap_schema_version x))),
      (''operation_id'', always (JStr (cap_operation_id x))),
      (''plan_hash'', always (JStr (cap_plan_hash x))),
      (''consent_hash'', always (JStr (cap_consent_hash x))),
      (''plan'', always (managed_plan_value (cap_plan x))),
      (''source_revision_hash'', always (JStr (cap_source_revision_hash x))),
      (''revision'', always (signed_revision_value (cap_revision x))),
      (''verification_fixture'', always (fixture_value (cap_verification_fixture x))),
      (''descriptor'', always (cap_descriptor x)),
      (''offer'', always (cap_offer x))]"

fun runtime_as_str :: "execution_runtime \<Rightarrow> string" where
  "runtime_as_str RtAny = ''any''"
| "runtime_as_str RtWasm = ''wasm''"
| "runtime_as_str RtPython = ''python''"
| "runtime_as_str RtContainer = ''container''"
| "runtime_as_str RtBuiltin = ''builtin''"
| "runtime_as_str RtTeeService = ''tee.service''"
| "runtime_as_str RtTeeWasm = ''tee.wasm''"
| "runtime_as_str RtTeePython = ''tee.python''"

definition invalid_artifact :: "string \<Rightarrow> string \<Rightarrow> contract_error" where
  "invalid_artifact field reason = InvalidField field (Msg reason)"

definition verify_bound_artifacts ::
  "crypto_env \<Rightarrow> descriptor_artifact \<Rightarrow> offer_artifact \<Rightarrow> signed_publication_revision \<Rightarrow> managed_plan
    \<Rightarrow> contract_error + unit" where
  "verify_bound_artifacts cs descriptor offer revision plan =
     (if \<not> verify_artifact cs descriptor_value descriptor
      then Inl (invalid_artifact ''capsule.descriptor'' ''signature verification failed'')
      else and_then (map_err (invalid_artifact ''capsule.descriptor'')
        (validate_descriptor_artifact cs descriptor)) (\<lambda>_.
      if \<not> verify_artifact cs offer_value offer
      then Inl (invalid_artifact ''capsule.offer'' ''signature verification failed'')
      else and_then (map_err (invalid_artifact ''capsule.offer'') (validate_offer_artifact offer)) (\<lambda>_.
      and_then (map_err (invalid_artifact ''capsule.descriptor'')
        (artifact_hash cs descriptor_value descriptor)) (\<lambda>descriptor_hash.
      and_then (map_err (invalid_artifact ''capsule.offer'')
        (artifact_hash cs offer_value offer)) (\<lambda>offer_hash.
      require
        (\<not> (descriptor_hash \<noteq> art_hash descriptor \<or> offer_hash \<noteq> art_hash offer \<or>
          offer_hash \<noteq> prv_offer_hash (spr_payload revision) \<or>
          offer_descriptor_hash (art_payload offer) \<noteq> descriptor_hash \<or>
          desc_provider_id (art_payload descriptor) \<noteq> pp_expected_provider_id (mpl_payload plan) \<or>
          offer_provider_id (art_payload offer) \<noteq> pp_expected_provider_id (mpl_payload plan) \<or>
          offer_id (art_payload offer) \<noteq> prv_offer_id (spr_payload revision) \<or>
          runtime_as_str (prof_runtime (offer_execution_profile (art_payload offer)))
            \<noteq> prv_runtime (spr_payload revision) \<or>
          prof_package_kind (offer_execution_profile (art_payload offer))
            \<noteq> prv_package_kind (spr_payload revision)))
        ''capsule.artifact_chain''
        ''Descriptor, Offer, and Publication Revision are not one exact Provider-bound chain'')))))"

definition same_origin :: "string \<Rightarrow> string \<Rightarrow> bool" where
  "same_origin a b \<longleftrightarrow> trim_end_matches a (CHR ''/'') = trim_end_matches b (CHR ''/'')"

definition check_managed_endpoint :: "descriptor_payload \<Rightarrow> string \<Rightarrow> contract_error + unit" where
  "check_managed_endpoint descriptor public_url =
     require
       (case desc_transport_endpoints descriptor of
          [endpoint] \<Rightarrow> te_transport endpoint = ''https'' \<and> same_origin (te_uri endpoint) public_url
        | _ \<Rightarrow> False)
       ''capsule.descriptor.transport_endpoints''
       ''managed Descriptor must advertise only the exact approved HTTPS endpoint''"

definition capsule_validate_against ::
  "crypto_env \<Rightarrow> url_parser \<Rightarrow> decoders \<Rightarrow> capsule \<Rightarrow> managed_plan \<Rightarrow> contract_error + unit" where
  "capsule_validate_against cs up dec c plan =
     and_then (plan_validate cs up plan) (\<lambda>_.
     and_then (require (cap_plan c = plan) ''capsule.plan''
       ''embedded plan differs from the expected approved plan'') (\<lambda>_.
     and_then (require_schema ''capsule.schema_version'' (cap_schema_version c)
       MANAGED_PUBLICATION_CAPSULE_SCHEMA_V1) (\<lambda>_.
     and_then (require_hash ''capsule.consent_hash'' (cap_consent_hash c)) (\<lambda>_.
     and_then (require_hash ''capsule.source_revision_hash'' (cap_source_revision_hash c)) (\<lambda>_.
     and_then (require
       (\<not> (cap_operation_id c \<noteq> pp_operation_id (mpl_payload plan) \<or>
         cap_plan_hash c \<noteq> mpl_plan_hash plan))
       ''capsule.plan'' ''capsule does not belong to the approved Managed Publication plan'') (\<lambda>_.
     and_then (map_err (\<lambda>e. InvalidField ''capsule.revision'' (revision_error_message e))
       (revision_verify cs (cap_revision c))) (\<lambda>_.
     let payload = spr_payload (cap_revision c); package = pp_package (mpl_payload plan)
     in and_then (require
       (\<not> (prv_provider_id payload \<noteq> pp_expected_provider_id (mpl_payload plan) \<or>
         prv_service_id payload \<noteq> pp_service_id (mpl_payload plan) \<or>
         prv_package_digest payload \<noteq> pk_source_package_digest package \<or>
         prv_runtime payload \<noteq> pk_runtime package \<or>
         prv_package_kind payload \<noteq> pk_package_kind package))
       ''capsule.revision''
       ''revision does not match the approved Provider, service, package, or runtime'') (\<lambda>_.
     and_then (ok_or (InvalidField ''capsule.revision.payload.build_evidence''
       (Msg ''managed publication requires current immutable build evidence''))
       (prv_build_evidence payload)) (\<lambda>build_evidence.
     and_then (canonical_hash cs (build_evidence_value build_evidence)) (\<lambda>build_evidence_hash.
     if build_evidence_hash \<noteq> pk_build_evidence_digest package
     then Inl (HashMismatch ''capsule.revision.payload.build_evidence'')
     else
       and_then (canonical_hash cs (vf_input (cap_verification_fixture c))) (\<lambda>fixture_input_hash.
       if fixture_input_hash \<noteq> lve_input_hash (prv_local_verification payload)
       then Inl (HashMismatch ''capsule.verification_fixture.input'')
       else
         and_then (map_err (\<lambda>e. InvalidField ''capsule.descriptor'' (Msg e))
           (decode_descriptor dec (cap_descriptor c))) (\<lambda>descriptor.
         and_then (map_err (\<lambda>e. InvalidField ''capsule.offer'' (Msg e))
           (decode_offer dec (cap_offer c))) (\<lambda>offer.
         and_then (verify_bound_artifacts cs descriptor offer (cap_revision c) plan) (\<lambda>_.
         check_managed_endpoint (art_payload descriptor)
           (pp_public_url (mpl_payload plan))))))))))))))))"

definition capsule_validate ::
  "crypto_env \<Rightarrow> url_parser \<Rightarrow> decoders \<Rightarrow> capsule \<Rightarrow> contract_error + unit" where
  "capsule_validate cs up dec c = capsule_validate_against cs up dec c (cap_plan c)"

definition capsule_hash :: "crypto_env \<Rightarrow> capsule \<Rightarrow> contract_error + string" where
  "capsule_hash cs c = domain_separated_hash cs CAPSULE_HASH_DOMAIN_V1 (capsule_value c)"

section \<open>Evidence\<close>

record remote_canary =
  rc_provider_id :: string
  rc_revision_hash :: string
  rc_public_url :: string
  rc_observed_at_epoch_seconds :: i64

record registration =
  rg_marketplace_url :: string
  rg_status :: string
  rg_provider_id :: string
  rg_validated_offer_hash :: string
  rg_validated_revision_hash :: string
  rg_registered_at_epoch_seconds :: i64

definition registration_validate_against ::
  "url_parser \<Rightarrow> registration \<Rightarrow> managed_plan \<Rightarrow> string \<Rightarrow> contract_error + unit" where
  "registration_validate_against up r plan revision_hash =
     and_then (require_public_https_url up ''registration.marketplace_url'' (rg_marketplace_url r)) (\<lambda>_.
     and_then (require_hash ''registration.provider_id'' (rg_provider_id r)) (\<lambda>_.
     and_then (require_hash ''registration.validated_offer_hash'' (rg_validated_offer_hash r)) (\<lambda>_.
     and_then (require_hash ''registration.validated_revision_hash''
       (rg_validated_revision_hash r)) (\<lambda>_.
     require
       (\<not> (rg_status r \<noteq> ''active'' \<and> rg_status r \<noteq> ''pending_review'' \<or>
         rg_provider_id r \<noteq> pp_expected_provider_id (mpl_payload plan) \<or>
         rg_validated_revision_hash r \<noteq> revision_hash \<or>
         rg_registered_at_epoch_seconds r < 0))
       ''registration''
       ''marketplace registration does not match the approved Provider and Revision''))))"

definition canary_validate_against ::
  "url_parser \<Rightarrow> remote_canary \<Rightarrow> managed_plan \<Rightarrow> string \<Rightarrow> contract_error + unit" where
  "canary_validate_against up r plan revision_hash =
     and_then (require_hash ''remote_canary.provider_id'' (rc_provider_id r)) (\<lambda>_.
     and_then (require_hash ''remote_canary.revision_hash'' (rc_revision_hash r)) (\<lambda>_.
     and_then (require_public_https_url up ''remote_canary.public_url'' (rc_public_url r)) (\<lambda>_.
     require
       (\<not> (rc_observed_at_epoch_seconds r < 0 \<or>
         rc_provider_id r \<noteq> pp_expected_provider_id (mpl_payload plan) \<or>
         rc_revision_hash r \<noteq> revision_hash \<or>
         \<not> same_origin (rc_public_url r) (pp_public_url (mpl_payload plan))))
       ''remote_canary''
       ''remote canary does not prove the exact approved Provider, revision, and endpoint'')))"

definition validate_deploy_result ::
  "deployment_result \<Rightarrow> managed_plan \<Rightarrow> contract_error + unit" where
  "validate_deploy_result result plan =
     (let desired = pp_desired_state (mpl_payload plan)
      in require
       (\<not> (drs_schema_version result \<noteq> RESULT_SCHEMA_V1 \<or>
         drs_operation result \<notin> {OpDeploy, OpStatus} \<or>
         drs_failure result \<noteq> None \<or>
         drs_deployment_id result \<noteq> ds_deployment_id desired \<or>
         drs_revision_id result \<noteq> drv_revision_id (ds_revision desired) \<or>
         drs_adapter_id result
           \<noteq> adc_adapter_id (dpl_adapter (pp_deploy_plan (mpl_payload plan))) \<or>
         drs_status result \<noteq> Succeeded \<or>
         dhe_status (drs_health result) \<noteq> Healthy \<or>
         drs_image_digests result \<noteq> [drv_image (ds_revision desired)] \<or>
         \<not> list_ex (\<lambda>endpoint. same_origin (dep_url endpoint) (pp_public_url (mpl_payload plan)))
           (drs_endpoints result)))
       ''operation.deploy_result''
       ''deployment result does not prove the exact healthy image and approved endpoint'')"

definition expected_adapter :: "plan_payload \<Rightarrow> approval_scope \<Rightarrow> string option" where
  "expected_adapter p scope =
     (case scope of
        ScopeProvision \<Rightarrow> map_option (\<lambda>plan. adc_adapter_id (dpl_adapter plan)) (pp_provision_plan p)
      | ScopeDeploy \<Rightarrow> Some (adc_adapter_id (dpl_adapter (pp_deploy_plan p)))
      | _ \<Rightarrow> Some (adc_adapter_id (dpl_adapter (pp_compensation_plan p))))"

definition validate_result_for_scope ::
  "deployment_result \<Rightarrow> managed_plan \<Rightarrow> approval_scope \<Rightarrow> contract_error + unit" where
  "validate_result_for_scope result plan scope =
     require
       (\<not> (drs_schema_version result \<noteq> RESULT_SCHEMA_V1 \<or>
         drs_operation result \<noteq> scope_operation scope \<or>
         drs_deployment_id result \<noteq> ds_deployment_id (pp_desired_state (mpl_payload plan)) \<or>
         drs_adapter_id result \<noteq> unwrap_or (expected_adapter (mpl_payload plan) scope) [] \<or>
         drs_status result \<noteq> Succeeded \<or>
         drs_failure result \<noteq> None))
       ''operation.operator_result''
       ''operator result does not prove the exact approved successful operation''"

section \<open>Operation\<close>

record operation =
  op_schema_version :: string
  op_operation_id :: string
  op_plan_hash :: string
  op_consent_hash :: string
  op_phase :: phase
  op_revision_hash :: "string option"
  op_provision_result :: "deployment_result option"
  op_deploy_result :: "deployment_result option"
  op_compensation_result :: "deployment_result option"
  op_remote_canary :: "remote_canary option"
  op_registration :: "registration option"
  op_last_error :: "string option"
  op_attempt_count :: u32
  op_updated_at_epoch_seconds :: i64

definition transition :: "phase \<Rightarrow> i64 \<Rightarrow> operation \<Rightarrow> contract_error + operation" where
  "transition to updated_at op =
     (if updated_at < op_updated_at_epoch_seconds op
      then Inl (InvalidField ''operation.updated_at_epoch_seconds''
        (Msg ''operation timestamps must be monotonic''))
      else if \<not> can_transition_to (op_phase op) to then Inl (InvalidTransition (op_phase op) to)
      else Inr (op\<lparr>op_phase := to, op_updated_at_epoch_seconds := updated_at\<rparr>))"

definition deployed_phases :: "phase set" where
  "deployed_phases = {Deployed, CanaryVerified, Registering, Active}"

definition canary_phases :: "phase set" where
  "canary_phases = {CanaryVerified, Registering, Active}"

definition check_operation_canary ::
  "url_parser \<Rightarrow> operation \<Rightarrow> managed_plan \<Rightarrow> contract_error + unit" where
  "check_operation_canary up op plan =
     (if op_phase op \<in> canary_phases
      then
        and_then (ok_or (InvalidField ''operation.revision_hash''
          (Msg ''remote canary requires an exact revision'')) (op_revision_hash op)) (\<lambda>revision_hash.
        and_then (ok_or (InvalidField ''operation.remote_canary''
          (Msg ''phase requires exact requester-side canary evidence'')) (op_remote_canary op))
          (\<lambda>canary. canary_validate_against up canary plan revision_hash))
      else Inr ())"

definition check_operation_registration ::
  "url_parser \<Rightarrow> operation \<Rightarrow> managed_plan \<Rightarrow> contract_error + unit" where
  "check_operation_registration up op plan =
     (if op_phase op = Active
      then
        and_then (ok_or (InvalidField ''operation.revision_hash''
          (Msg ''active registration requires an exact revision'')) (op_revision_hash op))
          (\<lambda>revision_hash.
        and_then (ok_or (InvalidField ''operation.registration''
          (Msg ''active phase requires normalized marketplace registration evidence''))
          (op_registration op))
          (\<lambda>registration. registration_validate_against up registration plan revision_hash))
      else Inr ())"

definition check_operation_results :: "operation \<Rightarrow> managed_plan \<Rightarrow> contract_error + unit" where
  "check_operation_results op plan =
     and_then
       (case op_deploy_result op of None \<Rightarrow> Inr () | Some r \<Rightarrow> validate_deploy_result r plan) (\<lambda>_.
     and_then
       (case op_provision_result op of
          None \<Rightarrow> Inr () | Some r \<Rightarrow> validate_result_for_scope r plan ScopeProvision) (\<lambda>_.
     and_then (require
       (\<not> (pp_provision_plan (mpl_payload plan) = None \<and> op_provision_result op \<noteq> None))
       ''operation.provision_result''
       ''operation carries provision evidence without an approved provision plan'') (\<lambda>_.
     and_then (require
       (\<not> (pp_provision_plan (mpl_payload plan) \<noteq> None \<and>
         op_phase op \<in> {Deploying, Reconciling} \<union> deployed_phases \<and>
         op_provision_result op = None))
       ''operation.provision_result''
       ''phase requires normalized successful provision evidence'') (\<lambda>_.
     require (\<not> (op_phase op \<in> deployed_phases \<and> op_deploy_result op = None))
       ''operation.deploy_result'' ''phase requires normalized deployment evidence''))))"

definition check_operation_compensation :: "operation \<Rightarrow> managed_plan \<Rightarrow> contract_error + unit" where
  "check_operation_compensation op plan =
     and_then (require (\<not> (op_phase op = Compensated \<and> op_compensation_result op = None))
       ''operation.compensation_result''
       ''compensated phase requires normalized compensation evidence'') (\<lambda>_.
     case op_compensation_result op of
       None \<Rightarrow> Inr ()
     | Some result \<Rightarrow>
         and_then (plan_approval_scope (pp_compensation_plan (mpl_payload plan)))
           (validate_result_for_scope result plan))"

definition operation_validate_against ::
  "crypto_env \<Rightarrow> url_parser \<Rightarrow> operation \<Rightarrow> managed_plan \<Rightarrow> contract_error + unit" where
  "operation_validate_against cs up op plan =
     and_then (plan_validate cs up plan) (\<lambda>_.
     and_then (require_schema ''operation.schema_version'' (op_schema_version op)
       MANAGED_PUBLICATION_OPERATION_SCHEMA_V1) (\<lambda>_.
     and_then (require_hash ''operation.consent_hash'' (op_consent_hash op)) (\<lambda>_.
     and_then (require
       (\<not> (op_operation_id op \<noteq> pp_operation_id (mpl_payload plan) \<or>
         op_plan_hash op \<noteq> mpl_plan_hash plan))
       ''operation.plan'' ''operation does not belong to the approved plan'') (\<lambda>_.
     and_then (require (\<not> op_updated_at_epoch_seconds op < 0)
       ''operation.updated_at_epoch_seconds'' ''timestamp must be non-negative'') (\<lambda>_.
     and_then
       (case op_revision_hash op of
          None \<Rightarrow> Inr () | Some h \<Rightarrow> require_hash ''operation.revision_hash'' h) (\<lambda>_.
     and_then (require (\<not> (op_phase op \<notin> {Planned, Failed} \<and> op_revision_hash op = None))
       ''operation.revision_hash''
       ''phase requires the exact managed Publication Revision'') (\<lambda>_.
     and_then (check_operation_results op plan) (\<lambda>_.
     and_then (check_operation_canary up op plan) (\<lambda>_.
     and_then (check_operation_compensation op plan) (\<lambda>_.
     check_operation_registration up op plan))))))))))"

fun phase_name :: "phase \<Rightarrow> string" where
  "phase_name Planned = ''planned''"
| "phase_name LocalRevisionReady = ''local_revision_ready''"
| "phase_name Provisioning = ''provisioning''"
| "phase_name Deploying = ''deploying''"
| "phase_name Reconciling = ''reconciling''"
| "phase_name Deployed = ''deployed''"
| "phase_name CanaryVerified = ''canary_verified''"
| "phase_name Registering = ''registering''"
| "phase_name Active = ''active''"
| "phase_name Compensating = ''compensating''"
| "phase_name Compensated = ''compensated''"
| "phase_name ReconciliationRequired = ''reconciliation_required''"
| "phase_name Failed = ''failed''"

definition remote_canary_value :: "remote_canary \<Rightarrow> json" where
  "remote_canary_value x = mk_obj
     [(''provider_id'', always (JStr (rc_provider_id x))),
      (''revision_hash'', always (JStr (rc_revision_hash x))),
      (''public_url'', always (JStr (rc_public_url x))),
      (''observed_at_epoch_seconds'', always (j_i64 (rc_observed_at_epoch_seconds x)))]"

definition registration_value :: "registration \<Rightarrow> json" where
  "registration_value x = mk_obj
     [(''marketplace_url'', always (JStr (rg_marketplace_url x))),
      (''status'', always (JStr (rg_status x))),
      (''provider_id'', always (JStr (rg_provider_id x))),
      (''validated_offer_hash'', always (JStr (rg_validated_offer_hash x))),
      (''validated_revision_hash'', always (JStr (rg_validated_revision_hash x))),
      (''registered_at_epoch_seconds'', always (j_i64 (rg_registered_at_epoch_seconds x)))]"

definition operation_value :: "operation \<Rightarrow> json" where
  "operation_value x = mk_obj
     [(''schema_version'', always (JStr (op_schema_version x))),
      (''operation_id'', always (JStr (op_operation_id x))),
      (''plan_hash'', always (JStr (op_plan_hash x))),
      (''consent_hash'', always (JStr (op_consent_hash x))),
      (''phase'', always (JStr (phase_name (op_phase x)))),
      (''revision_hash'', unless_none JStr (op_revision_hash x)),
      (''provision_result'', unless_none deployment_result_value (op_provision_result x)),
      (''deploy_result'', unless_none deployment_result_value (op_deploy_result x)),
      (''compensation_result'', unless_none deployment_result_value (op_compensation_result x)),
      (''remote_canary'', unless_none remote_canary_value (op_remote_canary x)),
      (''registration'', unless_none registration_value (op_registration x)),
      (''last_error'', unless_none JStr (op_last_error x)),
      (''attempt_count'', always (j_u32 (op_attempt_count x))),
      (''updated_at_epoch_seconds'', always (j_i64 (op_updated_at_epoch_seconds x)))]"

section \<open>Lemmas on the checks\<close>

lemma require_Inr [simp]: "require b field reason = Inr x \<longleftrightarrow> b"
  by (cases x) (simp add: require_def)

lemma require_schema_Inr [simp]: "require_schema field a e = Inr x \<longleftrightarrow> a = e"
  by (simp add: require_schema_def)

lemma require_hash_Inr [simp]: "require_hash field v = Inr x \<longleftrightarrow> is_hash v"
  by (simp add: require_hash_def)

lemma hash_char_iff: "hash_char c \<longleftrightarrow> is_lower_hex_char c"
  by (auto simp: hash_char_def is_lower_hex_char_def is_ascii_digit_def is_ascii_hexdigit_def
      is_ascii_uppercase_def Let_def)

lemma sha256_hex_is_hash: "hex_laws cs \<Longrightarrow> sha256_laws cs \<Longrightarrow> is_hash (sha256_hex cs m)"
  using sha256_hex_lower [of cs m]
  by (auto simp: is_hash_def hash_char_iff [abs_def])

lemma map_err_const_Inr: "map_err (\<lambda>_. e) r = Inr x \<longleftrightarrow> r = Inr x"
  by simp

lemma domain_separated_hash_Inr:
  "domain_separated_hash cs domain v = Inr h \<longleftrightarrow>
     (\<exists>b. jcs_to_vec cs v = Inr b \<and> h = sha256_hex cs (domain @ CHR 0x0A # b))"
  by (auto simp: domain_separated_hash_def canonical_json_to_vec_def)

lemma canonical_hash_Inr:
  "canonical_hash cs v = Inr h \<longleftrightarrow> (\<exists>b. jcs_to_vec cs v = Inr b \<and> h = sha256_hex cs b)"
  by (auto simp: canonical_hash_def canonical_json_to_vec_def)

section \<open>The wire forms determine the documents\<close>

lemma content_visibility_name_inject [simp]:
  "content_visibility_name a = content_visibility_name b \<longleftrightarrow> a = b"
  by (cases a; cases b; simp)

lemma package_value_inject [simp]: "package_value x = package_value y \<longleftrightarrow> x = y"
  by (cases x; cases y) (simp add: package_value_def mk_obj_inject)

lemma operation_identity_value_inject [simp]:
  "operation_identity_value x = operation_identity_value y \<longleftrightarrow> x = y"
  by (cases x; cases y) (simp add: operation_identity_value_def mk_obj_inject)

lemma plan_payload_value_inject [simp]: "plan_payload_value x = plan_payload_value y \<longleftrightarrow> x = y"
  by (cases x; cases y) (simp add: plan_payload_value_def mk_obj_inject unless_none_inject)

lemma operation_identity_value_wf [simp]: "wf_json (operation_identity_value x)"
  by (simp add: operation_identity_value_def wf_mk_obj)

lemma package_value_wf [simp]: "wf_json (package_value x)"
  by (simp add: package_value_def wf_mk_obj)

lemma plan_payload_value_wf [simp]:
  "wf_environment (pp_desired_state x) \<Longrightarrow> wf_json (plan_payload_value x)"
  by (simp add: plan_payload_value_def wf_mk_obj)

text \<open>
  Hashing behind a domain prefix pins the document, up to a SHA-256 collision that the statement
  exhibits.
\<close>

lemma domain_separated_hash_pins:
  assumes "hex_laws cs" and "jcs_laws cs"
    and "wf_json v" "wf_json w" "exact_numbers v" "exact_numbers w"
    and "domain_separated_hash cs domain v = Inr h" and "domain_separated_hash cs domain w = Inr h"
  shows "v = w \<or> (\<exists>x y. sha256_collision cs x y)"
proof -
  obtain a b where a: "jcs_to_vec cs v = Inr a" "h = sha256_hex cs (domain @ CHR 0x0A # a)"
    and b: "jcs_to_vec cs w = Inr b" "h = sha256_hex cs (domain @ CHR 0x0A # b)"
    using assms(7,8) by (auto simp: domain_separated_hash_Inr)
  show ?thesis
  proof (cases "a = b")
    case True
    with a b assms show ?thesis by (auto simp: jcs_laws_def)
  next
    case False
    then have "sha256_collision cs (domain @ CHR 0x0A # a) (domain @ CHR 0x0A # b)"
      using a b sha256_hex_collision [OF assms(1)] by (auto simp: sha256_collision_def)
    then show ?thesis by blast
  qed
qed

section \<open>Plans\<close>

lemma plan_validate_Inr:
  "plan_validate cs up plan = Inr () \<longleftrightarrow>
     payload_validate cs up (mpl_payload plan) = Inr () \<and> is_hash (mpl_plan_hash plan) \<and>
     domain_separated_hash cs PLAN_HASH_DOMAIN_V1 (plan_payload_value (mpl_payload plan))
       = Inr (mpl_plan_hash plan)"
  by (auto simp: plan_validate_def result_simps split: if_splits)

lemma payload_validateD:
  assumes "payload_validate cs up p = Inr ()"
  shows "is_hash (pp_operation_id p)"
    and "managed_publication_operation_id cs up (payload_identity p) = Inr (pp_operation_id p)"
    and "is_hash (pp_expected_provider_id p)"
    and "desired_state_validate (pp_desired_state p) = Inr ()"
    and "drv_image (ds_revision (pp_desired_state p)) = pk_image (pp_package p)"
    and "drv_revision_id (ds_revision (pp_desired_state p)) = pk_bundle_manifest_digest (pp_package p)"
    and "check_operator_plans p = Inr ()"
  using assms by (auto simp: payload_validate_def result_simps split: if_splits)

lemma operation_id_hash:
  "managed_publication_operation_id cs up x = Inr h \<Longrightarrow>
     domain_separated_hash cs OPERATION_ID_DOMAIN_V1 (operation_identity_value x) = Inr h"
  by (auto simp: managed_publication_operation_id_def result_simps)

lemma validate_operator_plan_Inr:
  "validate_operator_plan plan desired scope = Inr () \<Longrightarrow>
     dpl_deployment_id plan = ds_deployment_id desired \<and>
     dpl_revision_id plan = drv_revision_id (ds_revision desired) \<and>
     required_capabilities_for_plan desired (Mutation scope) \<subseteq> adc_capabilities (dpl_adapter plan) \<and>
     (\<exists>h. approval_hash_for_scope plan scope = Some h)"
  by (auto simp: validate_operator_plan_def approval_hash_for_scope_def result_simps
      split: plan_outcome.splits option.splits)

lemma plan_new_validates:
  assumes "hex_laws cs" and "sha256_laws cs" and "plan_new cs up payload = Inr plan"
  shows "plan_validate cs up plan = Inr ()"
  using assms
  by (auto simp: plan_new_def plan_validate_Inr result_simps domain_separated_hash_Inr
      sha256_hex_is_hash)

section \<open>Operations\<close>

lemma operation_validateD:
  assumes "operation_validate_against cs up op plan = Inr ()"
  shows "plan_validate cs up plan = Inr ()" and "is_hash (op_consent_hash op)"
    and "op_operation_id op = pp_operation_id (mpl_payload plan)"
    and "op_plan_hash op = mpl_plan_hash plan"
    and "0 \<le> op_updated_at_epoch_seconds op"
    and "op_phase op \<notin> {Planned, Failed} \<longrightarrow> op_revision_hash op \<noteq> None"
    and "check_operation_results op plan = Inr ()"
    and "check_operation_canary up op plan = Inr ()"
    and "check_operation_compensation op plan = Inr ()"
    and "check_operation_registration up op plan = Inr ()"
  using assms by (auto simp: operation_validate_against_def result_simps)

end
