(* ===== verification/Managed_Store.thy ===== *)
theory Managed_Store
  imports Managed_Publication Publications
begin

text \<open>
  The durable records of \<open>src/managed_publication.rs\<close> over the table
  \<open>managed_publication_operations\<close> of \<open>src/db.rs\<close>: an operation is created from an approved plan,
  receives its capsule once, and is then advanced by compare-and-swap on its state version. Every
  read decodes the stored documents again, revalidates them and compares them with the columns;
  every write reads its row back inside the transaction. \<open>serde_json::from_str\<close> and the text of a
  UTF-8 error are the fields of \<open>managed_text\<close>.
\<close>

section \<open>Definitions\<close>

record managed_row =
  mr_operation_id :: string
  mr_service_id :: string
  mr_plan_hash :: string
  mr_consent_hash :: string
  mr_phase :: string
  mr_revision_hash :: "string option"
  mr_plan_json :: string
  mr_operation_json :: string
  mr_capsule_json :: "string option"
  mr_state_version :: int
  mr_created_at :: i64
  mr_updated_at :: i64

type_synonym managed_db = "managed_row list"

record managed_text =
  mt_plan_from_str :: "string \<Rightarrow> managed_plan result"
  mt_operation_from_str :: "string \<Rightarrow> operation result"
  mt_capsule_from_str :: "string \<Rightarrow> capsule result"
  mt_utf8_error :: "bytes \<Rightarrow> string"

text \<open>What every operation of the store takes beside the connection.\<close>

record managed_ctx =
  mc_crypto :: crypto_env
  mc_url :: url_parser
  mc_dec :: decoders
  mc_text :: managed_text
  mc_debug :: "string \<Rightarrow> string"

record managed_record =
  mrec_plan :: managed_plan
  mrec_operation :: operation
  mrec_capsule :: "capsule option"
  mrec_state_version :: u64
  mrec_created_at_epoch_seconds :: i64

definition contract_text :: "managed_ctx \<Rightarrow> contract_error + 'a \<Rightarrow> 'a result" where
  "contract_text cx r = map_err (contract_error_display (mc_debug cx)) r"

definition canonical_string :: "managed_ctx \<Rightarrow> json \<Rightarrow> string result" where
  "canonical_string cx v =
     and_then (canonical_json_to_vec (mc_crypto cx) v) (\<lambda>bytes.
     if utf8_valid bytes then Inr bytes else Inl (mt_utf8_error (mc_text cx) bytes))"

definition phase_requires_capsule :: "phase \<Rightarrow> bool" where
  "phase_requires_capsule p \<longleftrightarrow>
     p \<in> {LocalRevisionReady, Provisioning, Deploying, Reconciling, Deployed, CanaryVerified,
          Registering, Active, Compensating, Compensated, ReconciliationRequired}"

text \<open>\<open>rusqlite::Error::FromSqlConversionFailure\<close> at column 0, as it is displayed.\<close>

definition invalid_record :: "string \<Rightarrow> string" where
  "invalid_record message = ''Conversion error from type Text at index: 0, '' @ message"

definition capsule_columns_differ ::
  "managed_row \<Rightarrow> operation \<Rightarrow> capsule \<Rightarrow> bool" where
  "capsule_columns_differ row op c \<longleftrightarrow>
     cap_operation_id c \<noteq> mr_operation_id row \<or>
     cap_plan_hash c \<noteq> mr_plan_hash row \<or>
     cap_consent_hash c \<noteq> mr_consent_hash row \<or>
     Some (spr_revision_hash (cap_revision c)) \<noteq> mr_revision_hash row \<or>
     (case op_registration op of
        None \<Rightarrow> False
      | Some registration \<Rightarrow>
          rg_validated_offer_hash registration \<noteq> prv_offer_hash (spr_payload (cap_revision c)))"

definition columns_differ ::
  "managed_row \<Rightarrow> managed_plan \<Rightarrow> operation \<Rightarrow> capsule option \<Rightarrow> bool" where
  "columns_differ row plan op c \<longleftrightarrow>
     mr_operation_id row \<noteq> pp_operation_id (mpl_payload plan) \<or>
     mr_operation_id row \<noteq> op_operation_id op \<or>
     mr_service_id row \<noteq> pp_service_id (mpl_payload plan) \<or>
     mr_plan_hash row \<noteq> mpl_plan_hash plan \<or>
     mr_plan_hash row \<noteq> op_plan_hash op \<or>
     mr_consent_hash row \<noteq> op_consent_hash op \<or>
     mr_phase row \<noteq> phase_name (op_phase op) \<or>
     mr_revision_hash row \<noteq> op_revision_hash op \<or>
     mr_updated_at row \<noteq> op_updated_at_epoch_seconds op \<or>
     mr_state_version row < 1 \<or>
     (case c of None \<Rightarrow> False | Some x \<Rightarrow> capsule_columns_differ row op x) \<or>
     (phase_requires_capsule (op_phase op) \<and> c = None)"

definition decode_capsule ::
  "managed_ctx \<Rightarrow> managed_row \<Rightarrow> managed_plan \<Rightarrow> capsule option result" where
  "decode_capsule cx row plan =
     (case mr_capsule_json row of
        None \<Rightarrow> Inr None
      | Some json \<Rightarrow>
          and_then (map_err (\<lambda>e. invalid_record (''stored Managed Publication capsule is invalid: '' @ e))
            (mt_capsule_from_str (mc_text cx) json)) (\<lambda>c.
          and_then (map_err (\<lambda>e. invalid_record
              (''stored Managed Publication capsule failed validation: '' @ e))
            (contract_text cx
              (capsule_validate_against (mc_crypto cx) (mc_url cx) (mc_dec cx) c plan))) (\<lambda>_.
          Inr (Some c))))"

text \<open>
  A version beyond the range of \<open>i64\<close> is what SQLite stores as a real number, which \<open>row.get\<close>
  refuses; its error text names the column.
\<close>

definition decode_record :: "managed_ctx \<Rightarrow> managed_row \<Rightarrow> managed_record result" where
  "decode_record cx row =
     (if \<not> in_i64 (mr_state_version row)
      then Inl ''Invalid column type Real at index: 9, name: state_version''
      else
        and_then (map_err (\<lambda>e. invalid_record (''stored Managed Publication plan is invalid: '' @ e))
          (mt_plan_from_str (mc_text cx) (mr_plan_json row))) (\<lambda>plan.
        and_then (map_err (\<lambda>e. invalid_record
            (''stored Managed Publication plan failed validation: '' @ e))
          (contract_text cx (plan_validate (mc_crypto cx) (mc_url cx) plan))) (\<lambda>_.
        and_then (map_err (\<lambda>e. invalid_record (''stored Managed Publication operation is invalid: '' @ e))
          (mt_operation_from_str (mc_text cx) (mr_operation_json row))) (\<lambda>op.
        and_then (map_err (\<lambda>e. invalid_record
            (''stored Managed Publication operation failed validation: '' @ e))
          (contract_text cx (operation_validate_against (mc_crypto cx) (mc_url cx) op plan))) (\<lambda>_.
        and_then (decode_capsule cx row plan) (\<lambda>c.
        if columns_differ row plan op c
        then Inl (invalid_record
          ''stored Managed Publication columns do not match their validated documents'')
        else
          and_then (ok_or (invalid_record ''stored state_version is out of range'')
            (u64_of_i64 (mr_state_version row))) (\<lambda>state_version.
          Inr \<lparr>mrec_plan = plan, mrec_operation = op, mrec_capsule = c,
               mrec_state_version = state_version,
               mrec_created_at_epoch_seconds = mr_created_at row\<rparr>)))))))"

definition get :: "managed_ctx \<Rightarrow> managed_db \<Rightarrow> string \<Rightarrow> managed_record option result" where
  "get cx db operation_id =
     (case query_row (\<lambda>r. mr_operation_id r = operation_id) db of
        None \<Rightarrow> Inr None
      | Some row \<Rightarrow> map_ok Some (decode_record cx row))"

definition get_or :: "string \<Rightarrow> managed_ctx \<Rightarrow> string \<Rightarrow> (managed_db, managed_record) db_op" where
  "get_or missing cx operation_id db =
     db_lift (and_then (get cx db operation_id) (ok_or missing)) db"

text \<open>
  The \<open>CHECK\<close>s of the table on a new row; \<open>INSERT OR IGNORE\<close> skips a row that violates one or
  whose key exists.
\<close>

definition row_checks :: "managed_row \<Rightarrow> bool" where
  "row_checks r \<longleftrightarrow>
     is_hash (mr_operation_id r) \<and> is_hash (mr_plan_hash r) \<and> is_hash (mr_consent_hash r) \<and>
     1 \<le> mr_state_version r"

definition insert_or_ignore :: "managed_row \<Rightarrow> managed_db \<Rightarrow> managed_db" where
  "insert_or_ignore r db =
     (if list_ex (\<lambda>x. mr_operation_id x = mr_operation_id r) db \<or> \<not> row_checks r then db
      else db @ [r])"

definition planned_operation :: "managed_plan \<Rightarrow> string \<Rightarrow> i64 \<Rightarrow> operation" where
  "planned_operation plan consent_hash now =
     \<lparr>op_schema_version = MANAGED_PUBLICATION_OPERATION_SCHEMA_V1,
      op_operation_id = pp_operation_id (mpl_payload plan),
      op_plan_hash = mpl_plan_hash plan, op_consent_hash = consent_hash,
      op_phase = Planned, op_revision_hash = None, op_provision_result = None,
      op_deploy_result = None, op_compensation_result = None, op_remote_canary = None,
      op_registration = None, op_last_error = None, op_attempt_count = 0,
      op_updated_at_epoch_seconds = now\<rparr>"

definition create_planned ::
  "managed_ctx \<Rightarrow> managed_plan \<Rightarrow> string \<Rightarrow> i64 \<Rightarrow> (managed_db, managed_record) db_op" where
  "create_planned cx plan consent_hash now =
     db_then (db_lift (contract_text cx (plan_validate (mc_crypto cx) (mc_url cx) plan))) (\<lambda>_.
     if now < 0 then db_lift (Inl ''Managed Publication timestamp must be non-negative'')
     else
       let op = planned_operation plan consent_hash now
       in db_then (db_lift (contract_text cx
            (operation_validate_against (mc_crypto cx) (mc_url cx) op plan))) (\<lambda>_.
          db_then (db_lift (canonical_string cx (managed_plan_value plan))) (\<lambda>plan_json.
          db_then (db_lift (canonical_string cx (operation_value op))) (\<lambda>operation_json.
          with_immediate_transaction (\<lambda>db.
            db_then
              (get_or ''Managed Publication operation missing after insert'' cx
                (pp_operation_id (mpl_payload plan)))
              (\<lambda>stored.
                if mrec_plan stored \<noteq> plan \<or> op_consent_hash (mrec_operation stored) \<noteq> consent_hash
                then db_lift (Inl (''Managed Publication operation '' @
                  pp_operation_id (mpl_payload plan) @
                  '' conflicts with an existing immutable plan or consent''))
                else db_lift (Inr stored))
              (insert_or_ignore
                \<lparr>mr_operation_id = pp_operation_id (mpl_payload plan),
                 mr_service_id = pp_service_id (mpl_payload plan),
                 mr_plan_hash = mpl_plan_hash plan, mr_consent_hash = consent_hash,
                 mr_phase = phase_name (op_phase op), mr_revision_hash = None,
                 mr_plan_json = plan_json, mr_operation_json = operation_json,
                 mr_capsule_json = None, mr_state_version = 1, mr_created_at = now,
                 mr_updated_at = now\<rparr> db))))))"

text \<open>The \<open>UPDATE ... WHERE operation_id = ?1 AND state_version = ?2\<close> of both writers.\<close>

definition cas_update ::
  "string \<Rightarrow> u64 \<Rightarrow> (managed_row \<Rightarrow> managed_row) \<Rightarrow> (managed_db, unit) db_op" where
  "cas_update operation_id expected f db =
     (case i64_of_u64 expected of
        None \<Rightarrow> (Inl ''Managed Publication state version exceeds SQLite range'', db)
      | Some version \<Rightarrow>
          let (db', updated) = update_where
            (\<lambda>r. mr_operation_id r = operation_id \<and> mr_state_version r = version)
            (\<lambda>r. (f r)\<lparr>mr_state_version := mr_state_version r + 1\<rparr>) db
          in (if updated \<noteq> 1 then Inl ''Managed Publication compare-and-swap update failed''
              else Inr (), db'))"

definition current_at ::
  "managed_ctx \<Rightarrow> string \<Rightarrow> u64 \<Rightarrow> (managed_db, managed_record) db_op" where
  "current_at cx operation_id expected_state_version =
     db_then (get_or (''Managed Publication operation '' @ operation_id @ '' was not found'') cx
       operation_id) (\<lambda>current.
     if mrec_state_version current \<noteq> expected_state_version
     then db_lift (Inl (''Managed Publication state version mismatch: expected '' @
       nat_digits (unat expected_state_version) @ '', current '' @
       nat_digits (unat (mrec_state_version current))))
     else db_lift (Inr current))"

definition attach_capsule ::
  "managed_ctx \<Rightarrow> string \<Rightarrow> u64 \<Rightarrow> capsule \<Rightarrow> i64 \<Rightarrow> (managed_db, managed_record) db_op" where
  "attach_capsule cx operation_id expected_state_version c now =
     db_then (db_lift (contract_text cx
       (capsule_validate (mc_crypto cx) (mc_url cx) (mc_dec cx) c))) (\<lambda>_.
     with_immediate_transaction (
       db_then (current_at cx operation_id expected_state_version) (\<lambda>current.
       db_then (db_lift (contract_text cx
         (capsule_validate_against (mc_crypto cx) (mc_url cx) (mc_dec cx) c (mrec_plan current))))
         (\<lambda>_.
       if cap_consent_hash c \<noteq> op_consent_hash (mrec_operation current)
       then db_lift (Inl ''Managed Publication capsule consent does not match durable consent'')
       else if op_phase (mrec_operation current) = LocalRevisionReady
       then
         (if mrec_capsule current = Some c then db_lift (Inr current)
          else db_lift (Inl ''Managed Publication already has a different immutable capsule''))
       else if op_phase (mrec_operation current) \<noteq> Planned
       then db_lift (Inl (''Managed Publication capsule cannot be attached in phase '' @
         phase_name (op_phase (mrec_operation current))))
       else
         db_then (db_lift (contract_text cx (transition LocalRevisionReady now
           ((mrec_operation current)
             \<lparr>op_revision_hash := Some (spr_revision_hash (cap_revision c))\<rparr>)))) (\<lambda>op.
         db_then (db_lift (contract_text cx
           (operation_validate_against (mc_crypto cx) (mc_url cx) op (mrec_plan current)))) (\<lambda>_.
         db_then (db_lift (canonical_string cx (operation_value op))) (\<lambda>operation_json.
         db_then (db_lift (canonical_string cx (capsule_value c))) (\<lambda>capsule_json.
         db_then (cas_update operation_id expected_state_version (\<lambda>r.
           r\<lparr>mr_phase := phase_name (op_phase op), mr_revision_hash := op_revision_hash op,
             mr_operation_json := operation_json, mr_capsule_json := Some capsule_json,
             mr_updated_at := now\<rparr>)) (\<lambda>_.
         get_or ''Managed Publication operation missing after capsule attach'' cx operation_id)))))))))"

definition coordinates :: "operation \<Rightarrow> string \<times> string \<times> string \<times> string option" where
  "coordinates op = (op_operation_id op, op_plan_hash op, op_consent_hash op, op_revision_hash op)"

definition update_operation ::
  "managed_ctx \<Rightarrow> string \<Rightarrow> u64 \<Rightarrow> operation \<Rightarrow> (managed_db, managed_record) db_op" where
  "update_operation cx operation_id expected_state_version op =
     with_immediate_transaction (
       db_then (current_at cx operation_id expected_state_version) (\<lambda>current.
       if coordinates op \<noteq> coordinates (mrec_operation current)
       then db_lift (Inl ''Managed Publication update changed immutable operation coordinates'')
       else if \<not> can_transition_to (op_phase (mrec_operation current)) (op_phase op)
       then db_lift (Inl (''Managed Publication invalid durable transition from '' @
         phase_name (op_phase (mrec_operation current)) @ '' to '' @ phase_name (op_phase op)))
       else
         db_then (db_lift (contract_text cx
           (operation_validate_against (mc_crypto cx) (mc_url cx) op (mrec_plan current)))) (\<lambda>_.
         db_then (db_lift (canonical_string cx (operation_value op))) (\<lambda>operation_json.
         db_then (cas_update operation_id expected_state_version (\<lambda>r.
           r\<lparr>mr_phase := phase_name (op_phase op), mr_revision_hash := op_revision_hash op,
             mr_operation_json := operation_json,
             mr_updated_at := op_updated_at_epoch_seconds op\<rparr>)) (\<lambda>_.
         get_or ''Managed Publication operation missing after update'' cx operation_id)))))"

definition list_recoverable :: "managed_ctx \<Rightarrow> managed_db \<Rightarrow> managed_record list result" where
  "list_recoverable cx db =
     collect (decode_record cx)
       (sort_key mr_updated_at (sort_key mr_operation_id
         (filter (\<lambda>r. mr_phase r \<notin> {''active'', ''compensated'', ''failed''}) db)))"

definition in_flight :: "phase \<Rightarrow> bool" where
  "in_flight p \<longleftrightarrow> p \<in> {Provisioning, Deploying, Reconciling, Registering, Compensating}"

definition interrupted_operation :: "i64 \<Rightarrow> managed_record \<Rightarrow> contract_error + operation" where
  "interrupted_operation now current =
     transition ReconciliationRequired now
       ((mrec_operation current)\<lparr>op_last_error := Some
         (''node restarted while Managed Publication was in '' @
          phase_name (op_phase (mrec_operation current)))\<rparr>)"

fun recover_each ::
  "managed_ctx \<Rightarrow> i64 \<Rightarrow> managed_record list \<Rightarrow> managed_record list
    \<Rightarrow> (managed_db, managed_record list) db_op" where
  "recover_each cx now recovered [] = db_lift (Inr recovered)"
| "recover_each cx now recovered (current # rest) =
     (if \<not> in_flight (op_phase (mrec_operation current)) then recover_each cx now recovered rest
      else
        db_then (db_lift (contract_text cx (interrupted_operation now current))) (\<lambda>op.
        db_then (update_operation cx (op_operation_id (mrec_operation current))
          (mrec_state_version current) op) (\<lambda>updated.
        recover_each cx now (recovered @ [updated]) rest)))"

definition recover_interrupted ::
  "managed_ctx \<Rightarrow> i64 \<Rightarrow> (managed_db, managed_record list) db_op" where
  "recover_interrupted cx now db =
     db_then (\<lambda>db. db_lift (list_recoverable cx db) db) (recover_each cx now []) db"

section \<open>Decoded rows\<close>

lemma contract_text_simps [simp]:
  "contract_text cx (Inl e) = Inl (contract_error_display (mc_debug cx) e)"
  "contract_text cx (Inr x) = Inr x"
  by (simp_all add: contract_text_def)

lemma contract_text_Inr [simp]: "contract_text cx r = Inr x \<longleftrightarrow> r = Inr x"
  by (simp add: contract_text_def)

lemma phase_name_inject [simp]: "phase_name a = phase_name b \<longleftrightarrow> a = b"
  by (cases a; cases b; simp)

text \<open>What reading a row establishes.\<close>

definition row_decodes :: "managed_ctx \<Rightarrow> managed_row \<Rightarrow> managed_record \<Rightarrow> bool" where
  "row_decodes cx row r \<longleftrightarrow>
     mt_plan_from_str (mc_text cx) (mr_plan_json row) = Inr (mrec_plan r) \<and>
     mt_operation_from_str (mc_text cx) (mr_operation_json row) = Inr (mrec_operation r) \<and>
     (case mr_capsule_json row of
        None \<Rightarrow> mrec_capsule r = None
      | Some json \<Rightarrow> \<exists>c. mt_capsule_from_str (mc_text cx) json = Inr c \<and> mrec_capsule r = Some c) \<and>
     plan_validate (mc_crypto cx) (mc_url cx) (mrec_plan r) = Inr () \<and>
     operation_validate_against (mc_crypto cx) (mc_url cx) (mrec_operation r) (mrec_plan r)
       = Inr () \<and>
     (\<forall>c. mrec_capsule r = Some c \<longrightarrow>
        capsule_validate_against (mc_crypto cx) (mc_url cx) (mc_dec cx) c (mrec_plan r) = Inr ()) \<and>
     \<not> columns_differ row (mrec_plan r) (mrec_operation r) (mrec_capsule r) \<and>
     mr_state_version row < 2 ^ 63 \<and>
     mrec_state_version r = word_of_int (mr_state_version row) \<and>
     mrec_created_at_epoch_seconds r = mr_created_at row"

lemma decode_capsule_Inr:
  "decode_capsule cx row plan = Inr c \<longleftrightarrow>
     (case mr_capsule_json row of
        None \<Rightarrow> c = None
      | Some json \<Rightarrow> \<exists>x. mt_capsule_from_str (mc_text cx) json = Inr x \<and> c = Some x \<and>
          capsule_validate_against (mc_crypto cx) (mc_url cx) (mc_dec cx) x plan = Inr ())"
  by (auto simp: decode_capsule_def result_simps split: option.split)

lemma decode_record_Inr: "decode_record cx row = Inr r \<longleftrightarrow> row_decodes cx row r"
proof
  assume "decode_record cx row = Inr r"
  then show "row_decodes cx row r"
    by (auto simp: decode_record_def row_decodes_def result_simps decode_capsule_Inr u64_of_i64_def
        in_i64_def split: if_splits option.splits)
next
  assume "row_decodes cx row r"
  moreover from this have "1 \<le> mr_state_version row" by (simp add: row_decodes_def columns_differ_def)
  ultimately show "decode_record cx row = Inr r"
    by (cases r)
      (auto simp: decode_record_def row_decodes_def result_simps decode_capsule_Inr u64_of_i64_def
        in_i64_def split: option.splits)
qed

section \<open>The invariant of the table\<close>

definition managed_inv :: "managed_ctx \<Rightarrow> managed_db \<Rightarrow> bool" where
  "managed_inv cx db \<longleftrightarrow>
     distinct (map mr_operation_id db) \<and>
     (\<forall>row\<in>set db. (\<exists>r. row_decodes cx row r) \<and>
        (mr_phase row = phase_name Planned \<longrightarrow> mr_revision_hash row = None))"

text \<open>How a row may change: forward along the phases, with everything that was approved kept.\<close>

definition name_step :: "string \<Rightarrow> string \<Rightarrow> bool" where
  "name_step a b \<longleftrightarrow> (\<exists>p q. a = phase_name p \<and> b = phase_name q \<and> can_transition_to p q)"

definition kept :: "'a option \<Rightarrow> 'a option \<Rightarrow> bool" where
  "kept a b \<longleftrightarrow> a = None \<or> b = a"

definition row_evolves :: "managed_row \<Rightarrow> managed_row \<Rightarrow> bool" where
  "row_evolves row row' \<longleftrightarrow>
     mr_operation_id row' = mr_operation_id row \<and> mr_service_id row' = mr_service_id row \<and>
     mr_plan_hash row' = mr_plan_hash row \<and> mr_consent_hash row' = mr_consent_hash row \<and>
     mr_plan_json row' = mr_plan_json row \<and> mr_created_at row' = mr_created_at row \<and>
     kept (mr_revision_hash row) (mr_revision_hash row') \<and>
     kept (mr_capsule_json row) (mr_capsule_json row') \<and>
     name_step\<^sup>*\<^sup>* (mr_phase row) (mr_phase row') \<and>
     (row' = row \<or> mr_state_version row < mr_state_version row')"

definition db_evolves :: "managed_db \<Rightarrow> managed_db \<Rightarrow> bool" where
  "db_evolves db db' \<longleftrightarrow> (\<forall>row\<in>set db. \<exists>row'\<in>set db'. row_evolves row row')"

lemma row_evolves_refl [simp]: "row_evolves row row"
  by (simp add: row_evolves_def kept_def)

lemma row_evolves_trans: "row_evolves a b \<Longrightarrow> row_evolves b c \<Longrightarrow> row_evolves a c"
  by (auto simp: row_evolves_def kept_def)

lemma db_evolves_refl [simp]: "db_evolves db db"
  unfolding db_evolves_def using row_evolves_refl by blast

lemma db_evolves_trans: "db_evolves a b \<Longrightarrow> db_evolves b c \<Longrightarrow> db_evolves a c"
  unfolding db_evolves_def by (meson row_evolves_trans)

lemma empty_managed_inv [simp]: "managed_inv cx []"
  by (simp add: managed_inv_def)

lemma row_decodesD:
  assumes "row_decodes cx row r"
  shows "mr_operation_id row = op_operation_id (mrec_operation r)"
    and "mr_phase row = phase_name (op_phase (mrec_operation r))"
    and "mr_revision_hash row = op_revision_hash (mrec_operation r)"
    and "mr_updated_at row = op_updated_at_epoch_seconds (mrec_operation r)"
    and "mr_consent_hash row = op_consent_hash (mrec_operation r)"
    and "1 \<le> mr_state_version row" and "mr_state_version row < 2 ^ 63"
    and "mrec_capsule r = Some c \<Longrightarrow> mr_revision_hash row = Some (spr_revision_hash (cap_revision c))"
  using assms by (auto simp: row_decodes_def columns_differ_def capsule_columns_differ_def)

lemma uint_state_version:
  "row_decodes cx row r \<Longrightarrow> uint (mrec_state_version r) = mr_state_version row"
  using row_decodesD(6,7) [of cx row r] by (simp add: row_decodes_def uint_word_of_int)

lemma get_or_Inr:
  "get_or m cx k db = (Inr r, db') \<longleftrightarrow>
     db' = db \<and> (\<exists>row. query_row (\<lambda>x. mr_operation_id x = k) db = Some row \<and> row_decodes cx row r)"
  by (auto simp: get_or_def get_def result_simps decode_record_Inr split: option.splits)

lemma current_at_Inr:
  "current_at cx k v db = (Inr r, db') \<longleftrightarrow>
     db' = db \<and> mrec_state_version r = v \<and>
     (\<exists>row. query_row (\<lambda>x. mr_operation_id x = k) db = Some row \<and> row_decodes cx row r)"
  by (auto simp: current_at_def db_then_Inr get_or_Inr split: if_splits)

lemma cas_update_Inr:
  "cas_update k v f db = (Inr u, db') \<Longrightarrow>
     db' = fst (update_where (\<lambda>r. mr_operation_id r = k \<and> mr_state_version r = uint v)
       (\<lambda>r. (f r)\<lparr>mr_state_version := mr_state_version r + 1\<rparr>) db)"
  by (auto simp: cas_update_def i64_of_u64_Some split: option.splits prod.splits if_splits)

text \<open>
  A compare-and-swap on a well-formed table replaces the one row of that key, and the row that is
  read back decodes.
\<close>

lemma cas_update_row:
  assumes inv: "managed_inv cx db"
    and row: "query_row (\<lambda>x. mr_operation_id x = k) db = Some row" "row_decodes cx row r"
    and cas: "cas_update k (mrec_state_version r) f db = (Inr u, db1)"
    and key: "\<And>x. mr_operation_id (f x) = mr_operation_id x"
    and reread: "get_or m cx k db1 = (Inr r', db')"
  shows "db' = map (\<lambda>x. if x = row then (f row)\<lparr>mr_state_version := mr_state_version row + 1\<rparr> else x) db"
    and "row_decodes cx ((f row)\<lparr>mr_state_version := mr_state_version row + 1\<rparr>) r'"
    and "row \<in> set db" and "mr_operation_id row = k"
proof -
  let ?g = "\<lambda>x. (f x)\<lparr>mr_state_version := mr_state_version x + 1\<rparr>"
  show mem: "row \<in> set db" "mr_operation_id row = k" using query_row_Some [OF row(1)] by simp_all
  have inj: "inj_on mr_operation_id (set db)" using inv by (simp add: managed_inv_def distinct_map)
  have only: "x = row" if "x \<in> set db" "mr_operation_id x = k" for x
    using that mem inj_onD [OF inj, of x row] by simp
  have hit: "mr_operation_id x = k \<and> mr_state_version x = uint (mrec_state_version r) \<longleftrightarrow> x = row"
    if "x \<in> set db" for x
    using only [OF that] mem uint_state_version [OF row(2)] by (cases "x = row") auto
  have db1: "db1 = map (\<lambda>x. if x = row then ?g row else x) db"
    unfolding cas_update_Inr [OF cas] update_where_def fst_conv by (rule map_cong) (simp_all add: hit)
  with reread show "db' = map (\<lambda>x. if x = row then ?g row else x) db" by (simp add: get_or_Inr)
  have keys: "map mr_operation_id db1 = map mr_operation_id db" by (auto simp: db1 key)
  have "?g row \<in> set db1" using mem by (auto simp: db1)
  then have "query_row (\<lambda>x. mr_operation_id x = mr_operation_id (?g row)) db1 = Some (?g row)"
    using inv keys by (intro query_row_key) (auto simp: managed_inv_def)
  with reread mem key show "row_decodes cx (?g row) r'" by (auto simp: get_or_Inr)
qed

lemma replaced_row_ok:
  assumes inv: "managed_inv cx db" and mem: "row \<in> set db"
    and new: "row_decodes cx row' r'" "row_evolves row row'"
    and planned: "mr_phase row' = phase_name Planned \<longrightarrow> mr_revision_hash row' = None"
  shows "managed_inv cx (map (\<lambda>x. if x = row then row' else x) db)"
    and "db_evolves db (map (\<lambda>x. if x = row then row' else x) db)"
proof -
  let ?h = "\<lambda>x. if x = row then row' else x"
  have "map mr_operation_id (map ?h db) = map mr_operation_id db"
    using new(2) by (auto simp: row_evolves_def)
  then have "distinct (map mr_operation_id (map ?h db))"
    using inv by (simp only: managed_inv_def)
  moreover have "(\<exists>r. row_decodes cx x r) \<and>
      (mr_phase x = phase_name Planned \<longrightarrow> mr_revision_hash x = None)" if "x \<in> set (map ?h db)" for x
    using that inv new(1) planned by (auto simp: managed_inv_def split: if_splits)
  ultimately show "managed_inv cx (map ?h db)" unfolding managed_inv_def by blast
  show "db_evolves db (map (\<lambda>x. if x = row then row' else x) db)"
    unfolding db_evolves_def
  proof
    fix x assume "x \<in> set db"
    then have "?h x \<in> set (map ?h db)" by (simp only: set_map) (rule imageI)
    moreover have "row_evolves x (?h x)" using new(2) by simp
    ultimately show "\<exists>y\<in>set (map ?h db). row_evolves x y" by blast
  qed
qed

end
