(* ===== verification/Managed_Steps.thy ===== *)
theory Managed_Steps
  imports Managed_Store
begin

text \<open>
  What the operations of the managed publication store preserve. Every operation keeps the table
  readable and moves a row only forward: the locale \<open>managed_op\<close> states the contract, each
  operation is an interpretation of it, and the step relation \<open>managed_step\<close> carries it along any
  interleaving of operations (each is one immediate transaction; recovery is a sequence of them).
\<close>

section \<open>The effect of each operation\<close>

lemma name_step_phases: "can_transition_to p q \<Longrightarrow> name_step (phase_name p) (phase_name q)"
  by (auto simp: name_step_def)

lemma update_effect:
  assumes inv: "managed_inv cx db"
    and upd: "update_operation cx k v op db = (Inr r', db')"
  shows "\<exists>row r. query_row (\<lambda>x. mr_operation_id x = k) db = Some row \<and> row_decodes cx row r \<and>
    mrec_state_version r = v \<and> coordinates op = coordinates (mrec_operation r) \<and>
    can_transition_to (op_phase (mrec_operation r)) (op_phase op) \<and>
    (\<exists>json. canonical_string cx (operation_value op) = Inr json \<and>
      (let row' = row\<lparr>mr_phase := phase_name (op_phase op), mr_revision_hash := op_revision_hash op,
             mr_operation_json := json, mr_updated_at := op_updated_at_epoch_seconds op,
             mr_state_version := mr_state_version row + 1\<rparr>
       in row_decodes cx row' r' \<and> db' = map (\<lambda>x. if x = row then row' else x) db))"
proof -
  from upd obtain row r json u db1 where
    row: "query_row (\<lambda>x. mr_operation_id x = k) db = Some row" "row_decodes cx row r"
    and v: "mrec_state_version r = v"
    and co: "coordinates op = coordinates (mrec_operation r)"
    and tr: "can_transition_to (op_phase (mrec_operation r)) (op_phase op)"
    and json: "canonical_string cx (operation_value op) = Inr json"
    and cas: "cas_update k v (\<lambda>r. r\<lparr>mr_phase := phase_name (op_phase op),
      mr_revision_hash := op_revision_hash op, mr_operation_json := json,
      mr_updated_at := op_updated_at_epoch_seconds op\<rparr>) db = (Inr u, db1)"
    and reread: "get_or ''Managed Publication operation missing after update'' cx k db1 = (Inr r', db')"
    by (auto simp: update_operation_def with_immediate_transaction_Inr db_then_Inr current_at_Inr
        split: if_splits)
  note upd' = cas_update_row [OF inv row cas [folded v] _ reread]
  show ?thesis
    using row v co tr json upd'(1,2) by (auto simp: Let_def)
qed

lemma to_Planned: "can_transition_to p Planned \<longleftrightarrow> p = Planned"
  by (cases p) (simp_all add: can_transition_to_def)

lemma update_keeps:
  assumes inv: "managed_inv cx db"
    and upd: "update_operation cx k v op db = (Inr r', db')"
  shows "managed_inv cx db' \<and> db_evolves db db'"
proof -
  from update_effect [OF assms] obtain row r json row' where
    row: "query_row (\<lambda>x. mr_operation_id x = k) db = Some row" "row_decodes cx row r"
    and co: "coordinates op = coordinates (mrec_operation r)"
    and tr: "can_transition_to (op_phase (mrec_operation r)) (op_phase op)"
    and row': "row' = row\<lparr>mr_phase := phase_name (op_phase op),
      mr_revision_hash := op_revision_hash op, mr_operation_json := json,
      mr_updated_at := op_updated_at_epoch_seconds op, mr_state_version := mr_state_version row + 1\<rparr>"
    and dec: "row_decodes cx row' r'" and db': "db' = map (\<lambda>x. if x = row then row' else x) db"
    by (auto simp: Let_def)
  have mem: "row \<in> set db" using query_row_Some [OF row(1)] by simp
  have rev: "op_revision_hash op = mr_revision_hash row"
    using co row_decodesD(3) [OF row(2)] by (simp add: coordinates_def)
  have "row_evolves row row'"
    using rev name_step_phases [OF tr] row_decodesD(2) [OF row(2)]
    by (simp add: row_evolves_def row' kept_def)
  moreover have "mr_phase row' = phase_name Planned \<longrightarrow> mr_revision_hash row' = None"
    using tr inv mem rev row_decodesD(2) [OF row(2)]
    by (auto simp: row' managed_inv_def to_Planned phase_name_inject [of _ Planned, simplified])
  ultimately show ?thesis using replaced_row_ok [OF inv mem dec] by (simp add: db')
qed

text \<open>Attaching a capsule: a repeated call finds it, a first one moves the row out of \<open>Planned\<close>.\<close>

lemma attach_cases:
  assumes "attach_capsule cx k v c now db = (Inr r', db')"
  shows "\<exists>row r. query_row (\<lambda>x. mr_operation_id x = k) db = Some row \<and> row_decodes cx row r \<and>
    mrec_state_version r = v \<and> cap_consent_hash c = op_consent_hash (mrec_operation r) \<and>
    (op_phase (mrec_operation r) = LocalRevisionReady \<and> mrec_capsule r = Some c \<and> r' = r \<and> db' = db \<or>
     op_phase (mrec_operation r) = Planned \<and>
     (\<exists>op json cjson u db1. op_phase op = LocalRevisionReady \<and>
        op_revision_hash op = Some (spr_revision_hash (cap_revision c)) \<and>
        canonical_string cx (operation_value op) = Inr json \<and>
        canonical_string cx (capsule_value c) = Inr cjson \<and>
        cas_update k v (\<lambda>r. r\<lparr>mr_phase := phase_name LocalRevisionReady,
          mr_revision_hash := Some (spr_revision_hash (cap_revision c)), mr_operation_json := json,
          mr_capsule_json := Some cjson, mr_updated_at := now\<rparr>) db = (Inr u, db1) \<and>
        get_or ''Managed Publication operation missing after capsule attach'' cx k db1
          = (Inr r', db')))"
proof -
  have tr: "op_phase op = LocalRevisionReady \<and>
      op_revision_hash op = Some (spr_revision_hash (cap_revision c))"
    if "transition LocalRevisionReady now
      ((mrec_operation r)\<lparr>op_revision_hash := Some (spr_revision_hash (cap_revision c))\<rparr>) = Inr op" for r op
    using that by (auto simp: transition_def split: if_splits)
  show ?thesis
    using assms
    by (auto simp: attach_capsule_def with_immediate_transaction_Inr db_then_Inr current_at_Inr
        dest!: tr split: if_splits) blast+
qed

lemma capsule_column: "row_decodes cx row r \<Longrightarrow> mr_capsule_json row = None \<longleftrightarrow> mrec_capsule r = None"
  by (auto simp: row_decodes_def split: option.splits)

lemma planned_row_has_no_capsule:
  assumes "managed_inv cx db" and "row \<in> set db" and "row_decodes cx row r"
    and "op_phase (mrec_operation r) = Planned"
  shows "mr_capsule_json row = None" and "mr_revision_hash row = None"
proof -
  show rev: "mr_revision_hash row = None"
    using assms row_decodesD(2) [OF assms(3)] by (auto simp: managed_inv_def)
  show "mr_capsule_json row = None"
    using rev row_decodesD(8) [OF assms(3)] capsule_column [OF assms(3)] by (cases "mrec_capsule r") auto
qed

lemma attach_keeps:
  assumes inv: "managed_inv cx db" and att: "attach_capsule cx k v c now db = (Inr r', db')"
  shows "managed_inv cx db' \<and> db_evolves db db'"
proof -
  from attach_cases [OF att] obtain row r where
    row: "query_row (\<lambda>x. mr_operation_id x = k) db = Some row" "row_decodes cx row r"
    and v: "mrec_state_version r = v"
    and alt: "db' = db \<or> op_phase (mrec_operation r) = Planned \<and> (\<exists>json cjson u db1.
        cas_update k v (\<lambda>r. r\<lparr>mr_phase := phase_name LocalRevisionReady,
          mr_revision_hash := Some (spr_revision_hash (cap_revision c)), mr_operation_json := json,
          mr_capsule_json := Some cjson, mr_updated_at := now\<rparr>) db = (Inr u, db1) \<and>
        get_or ''Managed Publication operation missing after capsule attach'' cx k db1
          = (Inr r', db'))" by blast
  have mem: "row \<in> set db" using query_row_Some [OF row(1)] by simp
  from alt show ?thesis
  proof (elim disjE conjE exE)
    assume "db' = db"
    with inv show ?thesis by simp
  next
    fix json cjson u db1
    assume planned: "op_phase (mrec_operation r) = Planned"
      and cas: "cas_update k v (\<lambda>r. r\<lparr>mr_phase := phase_name LocalRevisionReady,
          mr_revision_hash := Some (spr_revision_hash (cap_revision c)), mr_operation_json := json,
          mr_capsule_json := Some cjson, mr_updated_at := now\<rparr>) db = (Inr u, db1)"
      and reread: "get_or ''Managed Publication operation missing after capsule attach'' cx k db1
          = (Inr r', db')"
    define row' where "row' = row\<lparr>mr_phase := phase_name LocalRevisionReady,
      mr_revision_hash := Some (spr_revision_hash (cap_revision c)), mr_operation_json := json,
      mr_capsule_json := Some cjson, mr_updated_at := now, mr_state_version := mr_state_version row + 1\<rparr>"
    have new: "db' = map (\<lambda>x. if x = row then row' else x) db" "row_decodes cx row' r'"
      using cas_update_row(1,2) [OF inv row cas [folded v] _ reread] by (simp_all add: row'_def)
    have "can_transition_to Planned LocalRevisionReady" by (simp add: can_transition_to_def)
    then have "row_evolves row row'"
      using planned row_decodesD(2) [OF row(2)] planned_row_has_no_capsule [OF inv mem row(2) planned]
        name_step_phases [of Planned LocalRevisionReady]
      by (simp add: row_evolves_def kept_def row'_def r_into_rtranclp)
    then show ?thesis
      using replaced_row_ok [OF inv mem new(2)] by (simp add: new(1) row'_def)
  qed
qed

lemma create_keeps:
  assumes inv: "managed_inv cx db" and cr: "create_planned cx plan consent now db = (Inr r, db')"
  shows "managed_inv cx db' \<and> db_evolves db db'"
proof -
  from cr obtain new where db': "db' = insert_or_ignore new db"
    and new: "mr_operation_id new = pp_operation_id (mpl_payload plan)" "mr_revision_hash new = None"
    and reread: "get_or ''Managed Publication operation missing after insert'' cx
      (pp_operation_id (mpl_payload plan)) db' = (Inr r, db')"
    by (auto simp: create_planned_def with_immediate_transaction_Inr db_then_Inr Let_def get_or_Inr
        split: if_splits)
  show ?thesis
  proof (cases "db' = db")
    case True
    with inv show ?thesis by simp
  next
    case False
    then have fresh: "\<forall>x\<in>set db. mr_operation_id x \<noteq> mr_operation_id new" and app: "db' = db @ [new]"
      by (auto simp: db' insert_or_ignore_def list_ex_iff split: if_splits)
    then have "query_row (\<lambda>x. mr_operation_id x = mr_operation_id new) db' = Some new"
      using query_row_None [of "\<lambda>x. mr_operation_id x = mr_operation_id new" db]
      by (simp add: query_row_append)
    with reread new have "row_decodes cx new r" by (simp add: get_or_Inr)
    moreover have "db_evolves db db'" unfolding app db_evolves_def using row_evolves_refl by fastforce
    ultimately show ?thesis using inv fresh new(2) by (auto simp: managed_inv_def app)
  qed
qed

lemma transaction_Inl: "with_immediate_transaction f db = (Inl e, db') \<Longrightarrow> db' = db"
  by (auto simp: with_immediate_transaction_def split: prod.splits sum.splits)

text \<open>A failed operation leaves the table as it was.\<close>

lemma failed_managed_operation:
  "update_operation cx k v op db = (Inl e, db') \<Longrightarrow> db' = db"
  "attach_capsule cx k v c now db = (Inl e, db') \<Longrightarrow> db' = db"
  "create_planned cx plan consent now db = (Inl e, db') \<Longrightarrow> db' = db"
  by (auto simp: update_operation_def attach_capsule_def create_planned_def db_then_def db_lift_def
      Let_def dest!: transaction_Inl split: sum.splits prod.splits if_splits)

lemma update_any_keeps:
  assumes "managed_inv cx db" and "update_operation cx k v op db = (res, db')"
  shows "managed_inv cx db' \<and> db_evolves db db'"
  using assms update_keeps failed_managed_operation(1) by (cases res) fastforce+

lemma recover_each_keeps:
  assumes "managed_inv cx db" and "recover_each cx now acc rs db = (res, db')"
  shows "managed_inv cx db' \<and> db_evolves db db'"
  using assms
proof (induction rs arbitrary: acc db)
  case (Cons current rest)
  show ?case
  proof (cases "in_flight (op_phase (mrec_operation current))")
    case False
    with Cons show ?thesis by simp
  next
    case True
    show ?thesis
    proof (cases "interrupted_operation now current")
      case (Inl e)
      with True Cons.prems show ?thesis by (auto simp: db_then_def db_lift_def)
    next
      case op: (Inr op)
      obtain res1 db1 where u: "update_operation cx (op_operation_id (mrec_operation current))
        (mrec_state_version current) op db = (res1, db1)" by fastforce
      note k = update_any_keeps [OF Cons.prems(1) u]
      show ?thesis
      proof (cases res1)
        case (Inl e)
        with True op u k Cons.prems(2) show ?thesis by (simp add: db_then_def db_lift_def)
      next
        case (Inr updated)
        with True op u Cons.prems(2)
        have "recover_each cx now (acc @ [updated]) rest db1 = (res, db')"
          by (simp add: db_then_def db_lift_def)
        with Cons.IH [of db1 "acc @ [updated]"] k True show ?thesis
          by (meson db_evolves_trans)
      qed
    qed
  qed
qed (simp add: db_lift_def)

section \<open>The contract of a store operation\<close>

locale managed_op =
  fixes cx :: managed_ctx and run :: "(managed_db, 'a) db_op"
  assumes keeps: "managed_inv cx db \<Longrightarrow> run db = (res, db') \<Longrightarrow> managed_inv cx db' \<and> db_evolves db db'"
begin

lemma keeps_readable:
  assumes "managed_inv cx db" and "row \<in> set (snd (run db))"
  shows "\<exists>r. get cx (snd (run db)) (mr_operation_id row) = Inr (Some r)"
proof -
  have inv: "managed_inv cx (snd (run db))" using keeps [OF assms(1) prod.collapse [symmetric]] by simp
  then obtain r where "row_decodes cx row r" using assms(2) by (auto simp: managed_inv_def)
  moreover have "query_row (\<lambda>x. mr_operation_id x = mr_operation_id row) (snd (run db)) = Some row"
    using inv assms(2) by (intro query_row_key) (auto simp: managed_inv_def)
  ultimately show ?thesis by (auto simp: get_def decode_record_Inr)
qed

lemma keeps_rows:
  assumes "managed_inv cx db" and "row \<in> set db"
  shows "\<exists>row'\<in>set (snd (run db)). row_evolves row row'"
  using keeps [OF assms(1) prod.collapse [symmetric]] assms(2) by (auto simp: db_evolves_def)

end

interpretation create_op: managed_op cx "create_planned cx plan consent now"
  by unfold_locales (metis create_keeps failed_managed_operation(3) db_evolves_refl sum.exhaust)

interpretation attach_op: managed_op cx "attach_capsule cx k v c now"
  by unfold_locales (metis attach_keeps failed_managed_operation(2) db_evolves_refl sum.exhaust)

interpretation update_op: managed_op cx "update_operation cx k v op"
  by unfold_locales (rule update_any_keeps)

lemma recover_keeps:
  assumes "managed_inv cx db" and "recover_interrupted cx now db = (res, db')"
  shows "managed_inv cx db' \<and> db_evolves db db'"
  using assms recover_each_keeps
  by (auto simp: recover_interrupted_def db_then_def db_lift_def split: sum.splits)

interpretation recover_op: managed_op cx "recover_interrupted cx now"
  by unfold_locales (rule recover_keeps)

section \<open>Steps and reachable tables\<close>

inductive managed_step :: "managed_ctx \<Rightarrow> managed_db \<Rightarrow> managed_db \<Rightarrow> bool" for cx where
  step_create: "managed_step cx db (snd (create_planned cx plan consent now db))"
| step_attach: "managed_step cx db (snd (attach_capsule cx k v c now db))"
| step_update: "managed_step cx db (snd (update_operation cx k v op db))"
| step_recover: "managed_step cx db (snd (recover_interrupted cx now db))"

lemma managed_step_keeps:
  assumes "managed_step cx db db'" and "managed_inv cx db"
  shows "managed_inv cx db' \<and> db_evolves db db'"
  using assms
  by cases (metis create_op.keeps attach_op.keeps update_op.keeps recover_op.keeps prod.collapse)+

lemma managed_steps_keep:
  assumes "(managed_step cx)\<^sup>*\<^sup>* db db'" and "managed_inv cx db"
  shows "managed_inv cx db' \<and> db_evolves db db'"
  using assms by induction (auto dest: managed_step_keeps intro: db_evolves_trans)

lemma readable:
  assumes "managed_inv cx db" and "row \<in> set db"
  shows "\<exists>r. row_decodes cx row r \<and> get cx db (mr_operation_id row) = Inr (Some r)"
proof -
  obtain r where "row_decodes cx row r" using assms by (auto simp: managed_inv_def)
  moreover have "query_row (\<lambda>x. mr_operation_id x = mr_operation_id row) db = Some row"
    using assms by (intro query_row_key) (auto simp: managed_inv_def)
  ultimately show ?thesis by (auto simp: get_def decode_record_Inr)
qed

lemma collect_total: "\<forall>x\<in>set xs. \<exists>y. f x = Inr y \<Longrightarrow> \<exists>ys. collect f xs = Inr ys"
  by (induction xs) auto

lemma collect_Inr: "collect f xs = Inr ys \<longleftrightarrow> list_all2 (\<lambda>x y. f x = Inr y) xs ys"
  by (induction xs arbitrary: ys) (auto simp: result_simps list_all2_Cons1)

lemma list_recoverable_total:
  assumes "managed_inv cx db"
  shows "\<exists>rs. list_recoverable cx db = Inr rs"
  unfolding list_recoverable_def
  using assms by (intro collect_total) (auto simp: managed_inv_def decode_record_Inr)

end
