(* ===== verification/Managed_Properties.thy ===== *)
theory Managed_Properties
  imports Managed_Steps
begin

text \<open>
  What the managed publication contract and its store promise: an active record carries its whole
  chain of evidence, rows only move forward with everything that was approved kept, of two writers
  at one state version one loses, recovery leaves nothing in flight, the phases cannot run forever
  without reconciliation, and a plan hash and an operation id pin what they name.
\<close>

section \<open>Evidence of an active record\<close>

definition deployed_exactly :: "plan_payload \<Rightarrow> deployment_result \<Rightarrow> bool" where
  "deployed_exactly p d \<longleftrightarrow>
     drs_status d = Succeeded \<and> drs_failure d = None \<and> dhe_status (drs_health d) = Healthy \<and>
     drs_image_digests d = [pk_image (pp_package p)] \<and>
     (\<exists>e\<in>set (drs_endpoints d). same_origin (dep_url e) (pp_public_url p))"

definition evidenced :: "managed_ctx \<Rightarrow> managed_record \<Rightarrow> bool" where
  "evidenced cx r \<longleftrightarrow>
     (let p = mpl_payload (mrec_plan r); op = mrec_operation r in
      \<exists>c d canary reg.
        mrec_capsule r = Some c \<and> op_revision_hash op = Some (spr_revision_hash (cap_revision c)) \<and>
        cap_consent_hash c = op_consent_hash op \<and>
        revision_verify (mc_crypto cx) (cap_revision c) = Inr () \<and>
        prv_provider_id (spr_payload (cap_revision c)) = pp_expected_provider_id p \<and>
        prv_package_digest (spr_payload (cap_revision c)) = pk_source_package_digest (pp_package p) \<and>
        op_deploy_result op = Some d \<and> deployed_exactly p d \<and>
        op_remote_canary op = Some canary \<and> rc_provider_id canary = pp_expected_provider_id p \<and>
        rc_revision_hash canary = spr_revision_hash (cap_revision c) \<and>
        same_origin (rc_public_url canary) (pp_public_url p) \<and>
        op_registration op = Some reg \<and> rg_provider_id reg = pp_expected_provider_id p \<and>
        rg_validated_revision_hash reg = spr_revision_hash (cap_revision c) \<and>
        rg_validated_offer_hash reg = prv_offer_hash (spr_payload (cap_revision c)))"

lemma capsule_validateD:
  assumes "capsule_validate_against cs up dec c plan = Inr ()"
  shows "revision_verify cs (cap_revision c) = Inr ()"
    and "prv_provider_id (spr_payload (cap_revision c)) = pp_expected_provider_id (mpl_payload plan)"
    and "prv_package_digest (spr_payload (cap_revision c))
      = pk_source_package_digest (pp_package (mpl_payload plan))"
  using assms
  by (auto simp: capsule_validate_against_def Let_def result_simps split: if_splits)

lemma validate_deploy_result_Inr:
  assumes "validate_deploy_result d plan = Inr ()"
    and "drv_image (ds_revision (pp_desired_state (mpl_payload plan))) = pk_image (pp_package (mpl_payload plan))"
  shows "deployed_exactly (mpl_payload plan) d"
  using assms by (simp add: validate_deploy_result_def deployed_exactly_def Let_def list_ex_iff)

text \<open>
  C34. Whatever the table contains, a record that is read in phase \<open>Active\<close> carries its whole chain
  of evidence: the capsule's revision verifies and is the approved provider's, for the approved
  package; the deployment succeeded, is healthy, runs exactly the approved image and serves the
  approved endpoint; the requester-side canary and the marketplace registration are of that
  provider, that revision and that offer.
\<close>

theorem active_record_is_evidenced:
  assumes "get cx db k = Inr (Some r)" and "op_phase (mrec_operation r) = Active"
  shows "evidenced cx r"
proof -
  let ?plan = "mrec_plan r" and ?op = "mrec_operation r"
  from assms(1) obtain row where dec: "row_decodes cx row r"
    by (auto simp: get_def decode_record_Inr split: option.splits)
  then have val: "operation_validate_against (mc_crypto cx) (mc_url cx) ?op ?plan = Inr ()"
    and cols: "\<not> columns_differ row ?plan ?op (mrec_capsule r)" by (simp_all add: row_decodes_def)
  obtain c where c: "mrec_capsule r = Some c"
    using cols assms(2) by (auto simp: columns_differ_def phase_requires_capsule_def)
  then have cap: "capsule_validate_against (mc_crypto cx) (mc_url cx) (mc_dec cx) c ?plan = Inr ()"
    and ccols: "\<not> capsule_columns_differ row ?op c"
    using dec cols by (auto simp: row_decodes_def columns_differ_def)
  have img: "drv_image (ds_revision (pp_desired_state (mpl_payload ?plan)))
      = pk_image (pp_package (mpl_payload ?plan))"
    using operation_validateD(1) [OF val] payload_validateD(5) by (auto simp: plan_validate_Inr)
  have rev: "op_revision_hash ?op = Some (spr_revision_hash (cap_revision c))"
    using ccols row_decodesD(3) [OF dec] by (simp add: capsule_columns_differ_def)
  obtain d where d: "op_deploy_result ?op = Some d" "validate_deploy_result d ?plan = Inr ()"
    using operation_validateD(7) [OF val] assms(2)
    by (auto simp: check_operation_results_def deployed_phases_def result_simps split: option.splits)
  obtain canary where canary: "op_remote_canary ?op = Some canary"
    "canary_validate_against (mc_url cx) canary ?plan (spr_revision_hash (cap_revision c)) = Inr ()"
    using operation_validateD(8) [OF val] assms(2) rev
    by (auto simp: check_operation_canary_def canary_phases_def result_simps)
  obtain reg where reg: "op_registration ?op = Some reg"
    "registration_validate_against (mc_url cx) reg ?plan (spr_revision_hash (cap_revision c)) = Inr ()"
    using operation_validateD(10) [OF val] assms(2) rev
    by (auto simp: check_operation_registration_def result_simps)
  show ?thesis
    using c rev d(1) canary reg ccols row_decodesD(5) [OF dec] capsule_validateD [OF cap]
      validate_deploy_result_Inr [OF d(2) img]
    by (simp add: evidenced_def Let_def canary_validate_against_def registration_validate_against_def
        capsule_columns_differ_def result_simps)
qed

section \<open>History\<close>

text \<open>
  C35. Between any two tables that the store's operations lead through, every row of the earlier one
  is still there and has only moved forward: its plan, consent, service and creation time are the
  same, its revision and its capsule are kept once they are set, its phase moved along the
  transitions of the phase machine, and its state version grew if anything changed.
\<close>

theorem managed_rows_only_evolve:
  assumes "(managed_step cx)\<^sup>*\<^sup>* [] db" and "(managed_step cx)\<^sup>*\<^sup>* db db'" and "row \<in> set db"
  shows "\<exists>row'\<in>set db'. row_evolves row row'"
proof -
  have "managed_inv cx db" using managed_steps_keep [OF assms(1)] by simp
  then have "db_evolves db db'" using managed_steps_keep [OF assms(2)] by simp
  with assms(3) show ?thesis by (auto simp: db_evolves_def)
qed

text \<open>
  Every row that the store's operations leave in the table can be read: its documents decode,
  validate and agree with its columns.
\<close>

theorem stored_operations_are_readable:
  assumes "(managed_step cx)\<^sup>*\<^sup>* [] db" and "row \<in> set db"
  shows "\<exists>r. get cx db (mr_operation_id row) = Inr (Some r)"
proof -
  have "managed_inv cx db" using managed_steps_keep [OF assms(1)] by simp
  then show ?thesis using readable assms(2) by blast
qed

section \<open>Concurrent writers\<close>

lemma replaced_lookup:
  assumes "managed_inv cx db'" and "row' \<in> set db'" and "row_decodes cx row' r'"
  shows "get_or m cx (mr_operation_id row') db' = (Inr r', db')"
proof -
  have "query_row (\<lambda>x. mr_operation_id x = mr_operation_id row') db' = Some row'"
    using assms by (intro query_row_key) (auto simp: managed_inv_def)
  with assms(3) show ?thesis by (auto simp: get_or_Inr)
qed

lemma update_advances_version:
  assumes inv: "managed_inv cx db" and upd: "update_operation cx k v a db = (Inr r', db')"
  shows "get_or m cx k db' = (Inr r', db')" and "mrec_state_version r' = v + 1" and "v + 1 \<noteq> v"
proof -
  from update_effect [OF assms] obtain row r json row' where
    row: "query_row (\<lambda>x. mr_operation_id x = k) db = Some row" "row_decodes cx row r"
    and v: "mrec_state_version r = v"
    and row': "row' = row\<lparr>mr_phase := phase_name (op_phase a),
      mr_revision_hash := op_revision_hash a, mr_operation_json := json,
      mr_updated_at := op_updated_at_epoch_seconds a, mr_state_version := mr_state_version row + 1\<rparr>"
    and dec: "row_decodes cx row' r'" and db': "db' = map (\<lambda>x. if x = row then row' else x) db"
    by (auto simp: Let_def)
  have mem: "row \<in> set db" "mr_operation_id row = k" using query_row_Some [OF row(1)] by simp_all
  then have "row' \<in> set db'" by (auto simp: db')
  moreover have "mr_operation_id row' = k" using mem by (simp add: row')
  ultimately show "get_or m cx k db' = (Inr r', db')"
    using replaced_lookup [OF _ _ dec] update_keeps [OF assms] by blast
  have "uint (mrec_state_version r') = uint v + 1"
    using uint_state_version [OF dec] uint_state_version [OF row(2)] v by (simp add: row')
  then show "mrec_state_version r' = v + 1"
    by (metis of_int_1 of_int_add word_of_int_uint)
  show "v + 1 \<noteq> v" by simp
qed

text \<open>
  C37. Of two writers that read an operation at the same state version at most one succeeds: after
  one update the other is refused with the version it lost to, and changes nothing.
\<close>

theorem one_update_per_version:
  assumes "(managed_step cx)\<^sup>*\<^sup>* [] db" and "update_operation cx k v a db = (Inr r, db')"
  shows "update_operation cx k v b db' =
    (Inl (''Managed Publication state version mismatch: expected '' @ nat_digits (unat v) @
       '', current '' @ nat_digits (unat (v + 1))), db')"
proof -
  have inv: "managed_inv cx db" using managed_steps_keep [OF assms(1)] by simp
  note adv = update_advances_version [OF inv assms(2)]
  then have "current_at cx k v db' = (Inl (''Managed Publication state version mismatch: expected '' @
      nat_digits (unat v) @ '', current '' @ nat_digits (unat (v + 1))), db')"
    by (simp add: current_at_def db_then_def db_lift_def)
  then show ?thesis
    by (simp add: update_operation_def with_immediate_transaction_def db_then_def)
qed

section \<open>Phases end\<close>

text \<open>A sequence of phase changes, each to another phase.\<close>

fun phase_run :: "phase list \<Rightarrow> bool" where
  "phase_run (p # q # ps) \<longleftrightarrow> p \<noteq> q \<and> can_transition_to p q \<and> phase_run (q # ps)"
| "phase_run _ \<longleftrightarrow> True"

fun phase_rank :: "phase \<Rightarrow> nat" where
  "phase_rank Planned = 10"
| "phase_rank LocalRevisionReady = 9"
| "phase_rank Provisioning = 8"
| "phase_rank Deploying = 7"
| "phase_rank Reconciling = 6"
| "phase_rank Deployed = 5"
| "phase_rank CanaryVerified = 4"
| "phase_rank Registering = 3"
| "phase_rank Compensating = 2"
| "phase_rank ReconciliationRequired = 2"
| "phase_rank _ = 1"

lemma rank_decreases:
  "can_transition_to p q \<Longrightarrow> p \<noteq> q \<Longrightarrow> p \<noteq> ReconciliationRequired \<Longrightarrow> q \<noteq> ReconciliationRequired \<Longrightarrow>
     phase_rank q < phase_rank p"
  by (cases p; cases q) (simp_all add: can_transition_to_def)

lemma run_shorter_than_rank:
  "phase_run (p # ps) \<Longrightarrow> ReconciliationRequired \<notin> set (p # ps) \<Longrightarrow> length ps < phase_rank p"
proof (induction ps arbitrary: p)
  case Nil
  then show ?case by (cases p) simp_all
next
  case (Cons q ps)
  then have "length ps < phase_rank q" by simp
  moreover have "phase_rank q < phase_rank p" using Cons.prems by (intro rank_decreases) auto
  ultimately show ?case by simp
qed

text \<open>
  C40. The phase machine ends: an operation that never stops for reconciliation changes its phase at
  most nine times, whatever the order of the updates.
\<close>

theorem phase_changes_are_bounded:
  assumes "phase_run (p # ps)" and "ReconciliationRequired \<notin> set (p # ps)"
  shows "length ps \<le> 9"
proof -
  have "phase_rank p \<le> 10" by (cases p) simp_all
  with run_shorter_than_rank [OF assms] show ?thesis by simp
qed

section \<open>Recovery\<close>

lemma filter_key: "distinct (map k t) \<Longrightarrow> r \<in> set t \<Longrightarrow> filter (\<lambda>x. k x = k r) t = [r]"
proof (induction t)
  case (Cons x t)
  show ?case
  proof (cases "x = r")
    case True
    then have "\<forall>y\<in>set t. k y \<noteq> k r" using Cons.prems(1) by (auto simp: image_iff)
    then have "filter (\<lambda>x. k x = k r) t = []" by (simp add: filter_empty_conv)
    with True show ?thesis by simp
  next
    case False
    with Cons.prems have "r \<in> set t" "k x \<noteq> k r" by auto
    with Cons show ?thesis by simp
  qed
qed simp

lemma cas_update_success:
  assumes inv: "managed_inv cx db" and mem: "row \<in> set db" and dec: "row_decodes cx row r"
  shows "cas_update (mr_operation_id row) (mrec_state_version r) f db =
    (Inr (), map (\<lambda>x. if x = row then (f row)\<lparr>mr_state_version := mr_state_version row + 1\<rparr> else x) db)"
proof -
  let ?P = "\<lambda>x. mr_operation_id x = mr_operation_id row \<and>
    mr_state_version x = uint (mrec_state_version r)"
  have inj: "inj_on mr_operation_id (set db)" using inv by (simp add: managed_inv_def distinct_map)
  have hit: "?P x \<longleftrightarrow> x = row" if "x \<in> set db" for x
    using inj_onD [OF inj, of x row] that mem uint_state_version [OF dec] by auto
  then have "filter ?P db = filter (\<lambda>x. mr_operation_id x = mr_operation_id row) db"
    using inj_onD [OF inj, of _ row] mem by (intro filter_cong) auto
  then have len: "length (filter ?P db) = 1"
    using filter_key [of mr_operation_id db row] inv mem by (simp add: managed_inv_def)
  have fits: "i64_of_u64 (mrec_state_version r) = Some (uint (mrec_state_version r))"
    using row_decodesD(7) [OF dec] uint_state_version [OF dec] by (simp add: i64_of_u64_Some)
  show ?thesis
    using len hit by (simp add: cas_update_def fits update_where_def)
qed

text \<open>The text of an operation is read back as it was written (serde's round trip).\<close>

definition op_text_ok :: "managed_ctx \<Rightarrow> operation \<Rightarrow> bool" where
  "op_text_ok cx op \<longleftrightarrow>
     (\<exists>json. canonical_string cx (operation_value op) = Inr json \<and>
        mt_operation_from_str (mc_text cx) json = Inr op)"

lemma update_succeeds:
  assumes inv: "managed_inv cx db" and mem: "row \<in> set db" and dec: "row_decodes cx row r"
    and rt: "op_text_ok cx op" and room: "mr_state_version row + 1 < 2 ^ 63"
    and co: "coordinates op = coordinates (mrec_operation r)"
    and tr: "can_transition_to (op_phase (mrec_operation r)) (op_phase op)"
    and val: "operation_validate_against (mc_crypto cx) (mc_url cx) op (mrec_plan r) = Inr ()"
    and cap: "phase_requires_capsule (op_phase op) \<Longrightarrow> mrec_capsule r \<noteq> None"
    and reg: "op_registration op = op_registration (mrec_operation r)"
  shows "\<exists>row' r'. update_operation cx (mr_operation_id row) (mrec_state_version r) op db =
      (Inr r', map (\<lambda>x. if x = row then row' else x) db) \<and>
    row_decodes cx row' r' \<and> mr_operation_id row' = mr_operation_id row \<and>
    mr_phase row' = phase_name (op_phase op)"
proof -
  obtain json where json: "canonical_string cx (operation_value op) = Inr json"
    "mt_operation_from_str (mc_text cx) json = Inr op" using rt by (auto simp: op_text_ok_def)
  define row' where "row' = row\<lparr>mr_phase := phase_name (op_phase op),
    mr_revision_hash := op_revision_hash op, mr_operation_json := json,
    mr_updated_at := op_updated_at_epoch_seconds op, mr_state_version := mr_state_version row + 1\<rparr>"
  define r' where "r' = r\<lparr>mrec_operation := op,
    mrec_state_version := word_of_int (mr_state_version row + 1)\<rparr>"
  let ?db' = "map (\<lambda>x. if x = row then row' else x) db"
  have "row_decodes cx row' r'"
    using dec json val room co cap reg row_decodesD(6) [OF dec]
    by (auto simp: row_decodes_def row'_def r'_def columns_differ_def capsule_columns_differ_def
        coordinates_def split: option.splits)
  moreover have key: "mr_operation_id row' = mr_operation_id row" by (simp add: row'_def)
  moreover have "row_evolves row row'"
    using co row_decodesD(2,3) [OF dec] name_step_phases [OF tr]
    by (simp add: row_evolves_def row'_def kept_def coordinates_def r_into_rtranclp)
  moreover have "mr_phase row' = phase_name Planned \<longrightarrow> mr_revision_hash row' = None"
    using tr co inv mem row_decodesD(2,3) [OF dec]
    by (auto simp: row'_def managed_inv_def to_Planned coordinates_def
        phase_name_inject [of _ Planned, simplified])
  ultimately have inv': "managed_inv cx ?db'" and dec': "row_decodes cx row' r'"
    using replaced_row_ok(1) [OF inv mem] by blast+
  have "row' \<in> set ?db'" using mem by auto
  note reread = replaced_lookup [OF inv' this dec', of "''Managed Publication operation missing after update''"]
  have "current_at cx (mr_operation_id row) (mrec_state_version r) db = (Inr r, db)"
    using replaced_lookup [OF inv mem dec] by (simp add: current_at_def db_then_def db_lift_def)
  moreover have "cas_update (mr_operation_id row) (mrec_state_version r) (\<lambda>r.
      r\<lparr>mr_phase := phase_name (op_phase op), mr_revision_hash := op_revision_hash op,
        mr_operation_json := json, mr_updated_at := op_updated_at_epoch_seconds op\<rparr>) db = (Inr (), ?db')"
    by (simp add: cas_update_success [OF inv mem dec] row'_def)
  ultimately have "update_operation cx (mr_operation_id row) (mrec_state_version r) op db = (Inr r', ?db')"
    using co tr val json(1) reread key
    by (simp add: update_operation_def with_immediate_transaction_Inr db_then_def db_lift_def)
  then show ?thesis using dec' key by (auto simp: row'_def)
qed

lemma in_flight_can_stop: "in_flight p \<Longrightarrow> can_transition_to p ReconciliationRequired"
  by (auto simp: in_flight_def can_transition_to_def)

text \<open>An interrupted operation needs no evidence that the phase it leaves did not need.\<close>

lemma interrupted_operation_valid:
  assumes dec: "row_decodes cx row r" and fl: "in_flight (op_phase (mrec_operation r))"
    and op: "interrupted_operation now r = Inr op"
  shows "operation_validate_against (mc_crypto cx) (mc_url cx) op (mrec_plan r) = Inr ()"
    and "coordinates op = coordinates (mrec_operation r)" and "op_phase op = ReconciliationRequired"
    and "op_registration op = op_registration (mrec_operation r)" and "mrec_capsule r \<noteq> None"
proof -
  obtain e where e: "op = (mrec_operation r)\<lparr>op_last_error := Some e,
      op_phase := ReconciliationRequired, op_updated_at_epoch_seconds := now\<rparr>"
    "op_updated_at_epoch_seconds (mrec_operation r) \<le> now"
    using op by (auto simp: interrupted_operation_def transition_def split: if_splits)
  have val: "operation_validate_against (mc_crypto cx) (mc_url cx) (mrec_operation r) (mrec_plan r) = Inr ()"
    using dec by (simp add: row_decodes_def)
  show "operation_validate_against (mc_crypto cx) (mc_url cx) op (mrec_plan r) = Inr ()"
    using val e(2) fl
    by (auto simp: e(1) operation_validate_against_def result_simps check_operation_results_def
        check_operation_canary_def check_operation_compensation_def check_operation_registration_def
        deployed_phases_def canary_phases_def in_flight_def split: option.splits)
  show "coordinates op = coordinates (mrec_operation r)" "op_phase op = ReconciliationRequired"
    "op_registration op = op_registration (mrec_operation r)" by (simp_all add: e(1) coordinates_def)
  show "mrec_capsule r \<noteq> None"
    using dec fl by (auto simp: row_decodes_def columns_differ_def phase_requires_capsule_def in_flight_def)
qed

definition row_in_flight :: "managed_row \<Rightarrow> bool" where
  "row_in_flight row \<longleftrightarrow> (\<exists>p. in_flight p \<and> mr_phase row = phase_name p)"

text \<open>
  What recovery needs of a row that is in flight: the clock has not gone back behind its last
  update, its version has room, and the text of the updated operation is read back as written.
\<close>

definition recoverable :: "managed_ctx \<Rightarrow> i64 \<Rightarrow> managed_row \<Rightarrow> bool" where
  "recoverable cx now row \<longleftrightarrow>
     (\<forall>r. row_decodes cx row r \<longrightarrow> in_flight (op_phase (mrec_operation r)) \<longrightarrow>
        mr_updated_at row \<le> now \<and> mr_state_version row + 1 < 2 ^ 63 \<and>
        (\<forall>op. interrupted_operation now r = Inr op \<longrightarrow> op_text_ok cx op))"

lemma row_in_flight_decoded:
  "row_decodes cx row r \<Longrightarrow> row_in_flight row \<longleftrightarrow> in_flight (op_phase (mrec_operation r))"
  by (auto simp: row_in_flight_def row_decodesD(2))

lemma interrupted_operation_Inr:
  assumes "in_flight (op_phase (mrec_operation r))"
    and "op_updated_at_epoch_seconds (mrec_operation r) \<le> now"
  shows "\<exists>op. interrupted_operation now r = Inr op"
  using assms in_flight_can_stop by (simp add: interrupted_operation_def transition_def)

lemma recover_one:
  assumes inv: "managed_inv cx db" and mem: "row \<in> set db" and dec: "row_decodes cx row r"
    and fl: "in_flight (op_phase (mrec_operation r))" and ok: "recoverable cx now row"
  shows "\<exists>op row' r'. interrupted_operation now r = Inr op \<and>
    update_operation cx (op_operation_id (mrec_operation r)) (mrec_state_version r) op db =
      (Inr r', map (\<lambda>x. if x = row then row' else x) db) \<and> \<not> row_in_flight row'"
proof -
  have now: "op_updated_at_epoch_seconds (mrec_operation r) \<le> now"
    and room: "mr_state_version row + 1 < 2 ^ 63"
    and rt: "\<And>op. interrupted_operation now r = Inr op \<Longrightarrow> op_text_ok cx op"
    using ok dec fl row_decodesD(4) [OF dec] by (auto simp: recoverable_def)
  obtain op where op: "interrupted_operation now r = Inr op"
    using interrupted_operation_Inr [OF fl now] by blast
  note v = interrupted_operation_valid [OF dec fl op]
  obtain row' r' where u: "update_operation cx (mr_operation_id row) (mrec_state_version r) op db =
      (Inr r', map (\<lambda>x. if x = row then row' else x) db)"
    and dec': "row_decodes cx row' r'" and ph: "mr_phase row' = phase_name (op_phase op)"
    using update_succeeds [OF inv mem dec rt [OF op] room v(2) _ v(1) v(5) v(4)] v(3)
      in_flight_can_stop [OF fl] by auto
  have "\<not> row_in_flight row'"
    using ph v(3) by (auto simp: row_in_flight_def in_flight_def)
  with op u row_decodesD(1) [OF dec] show ?thesis by auto
qed

text \<open>The records still to visit cover the rows still in flight.\<close>

definition pending :: "managed_ctx \<Rightarrow> i64 \<Rightarrow> managed_record list \<Rightarrow> managed_db \<Rightarrow> bool" where
  "pending cx now rs db \<longleftrightarrow>
     managed_inv cx db \<and> distinct (map (\<lambda>r. op_operation_id (mrec_operation r)) rs) \<and>
     (\<forall>r\<in>set rs. \<exists>row\<in>set db. row_decodes cx row r \<and> recoverable cx now row) \<and>
     (\<forall>row\<in>set db. row_in_flight row \<longrightarrow> (\<exists>r\<in>set rs. row_decodes cx row r))"

lemma pending_skip:
  assumes "pending cx now (r # rs) db" and "\<not> in_flight (op_phase (mrec_operation r))"
  shows "pending cx now rs db"
proof -
  have "\<exists>s\<in>set rs. row_decodes cx x s" if "x \<in> set db" "row_in_flight x" for x
    using assms that row_in_flight_decoded [of cx x r] by (auto simp: pending_def)
  with assms(1) show ?thesis by (auto simp: pending_def)
qed

lemma pending_replaced:
  assumes p: "pending cx now (r # rs) db" and row: "row \<in> set db" "row_decodes cx row r"
    and nf: "\<not> row_in_flight row'"
    and inv: "managed_inv cx (map (\<lambda>x. if x = row then row' else x) db)"
  shows "pending cx now rs (map (\<lambda>x. if x = row then row' else x) db)"
proof -
  let ?db1 = "map (\<lambda>x. if x = row then row' else x) db"
  have inj: "inj_on mr_operation_id (set db)" using p by (simp add: pending_def managed_inv_def distinct_map)
  have same: "x = row" if "x \<in> set db" "row_decodes cx x r" for x
    using inj_onD [OF inj _ that(1) row(1)] row_decodesD(1) [OF row(2)] row_decodesD(1) [OF that(2)]
    by simp
  have other: "x \<noteq> row" if "row_decodes cx x s" "s \<in> set rs" for x s
    using that p row_decodesD(1) [OF row(2)] row_decodesD(1) [OF that(1)]
    by (auto simp: pending_def image_iff)
  have "\<exists>x\<in>set ?db1. row_decodes cx x s \<and> recoverable cx now x" if s: "s \<in> set rs" for s
  proof -
    obtain x where x: "x \<in> set db" "row_decodes cx x s" "recoverable cx now x"
      using p s by (auto simp: pending_def)
    with other [OF x(2) s] have "x \<in> set ?db1" by auto
    with x show ?thesis by blast
  qed
  moreover have "\<exists>s\<in>set rs. row_decodes cx x s" if x1: "x \<in> set ?db1" and fl: "row_in_flight x" for x
  proof -
    have x: "x \<in> set db" "x \<noteq> row" using x1 fl nf by (auto split: if_splits)
    then obtain s where "s \<in> set (r # rs)" "row_decodes cx x s"
      using p fl unfolding pending_def by blast
    with same x show ?thesis by auto
  qed
  ultimately show ?thesis using p inv by (simp add: pending_def)
qed

lemma recover_each_succeeds:
  "pending cx now rs db \<Longrightarrow>
     \<exists>out db'. recover_each cx now acc rs db = (Inr out, db') \<and> (\<forall>row\<in>set db'. \<not> row_in_flight row)"
proof (induction rs arbitrary: acc db)
  case Nil
  then show ?case by (auto simp: pending_def db_lift_def)
next
  case (Cons r rs)
  show ?case
  proof (cases "in_flight (op_phase (mrec_operation r))")
    case False
    with Cons.IH [OF pending_skip [OF Cons.prems False]] show ?thesis by simp
  next
    case fl: True
    from Cons.prems obtain row where inv: "managed_inv cx db"
      and row: "row \<in> set db" "row_decodes cx row r" "recoverable cx now row"
      by (auto simp: pending_def)
    obtain op row' r' where op: "interrupted_operation now r = Inr op"
      and u: "update_operation cx (op_operation_id (mrec_operation r)) (mrec_state_version r) op db =
        (Inr r', map (\<lambda>x. if x = row then row' else x) db)" and nf: "\<not> row_in_flight row'"
      using recover_one [OF inv row(1,2) fl row(3)] by blast
    have "pending cx now rs (map (\<lambda>x. if x = row then row' else x) db)"
      using pending_replaced [OF Cons.prems row(1,2) nf] update_keeps [OF inv u] by blast
    from Cons.IH [OF this, of "acc @ [r']"] fl op u show ?thesis
      by (simp add: db_then_def db_lift_def)
  qed
qed

lemma decoded_keys:
  "list_all2 (row_decodes cx) rows rs \<Longrightarrow>
     map mr_operation_id rows = map (\<lambda>r. op_operation_id (mrec_operation r)) rs"
  by (induction rule: list_all2_induct) (simp_all add: row_decodesD(1))

lemma list_all2_partners:
  assumes "list_all2 P xs ys"
  shows "y \<in> set ys \<Longrightarrow> \<exists>x\<in>set xs. P x y" and "x \<in> set xs \<Longrightarrow> \<exists>y\<in>set ys. P x y"
  using assms by (induction rule: list_all2_induct) auto

lemma pending_listed:
  assumes inv: "managed_inv cx db" and rs: "list_recoverable cx db = Inr rs"
    and rec: "\<forall>row\<in>set db. recoverable cx now row"
  shows "pending cx now rs db"
proof -
  let ?rows = "sort_key mr_updated_at (sort_key mr_operation_id
    (filter (\<lambda>r. mr_phase r \<notin> {''active'', ''compensated'', ''failed''}) db))"
  have sub: "set ?rows \<subseteq> set db" by auto
  have all: "list_all2 (row_decodes cx) ?rows rs"
    using rs by (simp add: list_recoverable_def collect_Inr decode_record_Inr)
  have "inj_on mr_operation_id (set db)" "distinct db"
    using inv by (simp_all add: managed_inv_def distinct_map)
  then have "distinct (map mr_operation_id ?rows)"
    unfolding distinct_map using inj_on_subset [OF _ sub] by simp
  then have "distinct (map (\<lambda>r. op_operation_id (mrec_operation r)) rs)"
    by (simp only: decoded_keys [OF all])
  moreover have "\<exists>row\<in>set db. row_decodes cx row r \<and> recoverable cx now row" if "r \<in> set rs" for r
    using list_all2_partners(1) [OF all that] sub rec by blast
  moreover have "\<exists>r\<in>set rs. row_decodes cx row r" if "row \<in> set db" "row_in_flight row" for row
  proof (rule list_all2_partners(2) [OF all])
    show "row \<in> set ?rows" using that by (auto simp: row_in_flight_def in_flight_def)
  qed
  ultimately show ?thesis using inv by (simp add: pending_def)
qed


section \<open>What the hashes pin and what a plan approves\<close>


definition approved :: "plan_payload \<Rightarrow> bool" where
  "approved p \<longleftrightarrow>
     deployable (pp_desired_state p) \<and>
     drv_image (ds_revision (pp_desired_state p)) = pk_image (pp_package p) \<and>
     (\<exists>h. approval_hash_for_scope (pp_deploy_plan p) ScopeDeploy = Some h) \<and>
     required_capabilities (pp_desired_state p) \<subseteq> adc_capabilities (dpl_adapter (pp_deploy_plan p)) \<and>
     (\<exists>scope h. compensates scope \<and>
        approval_hash_for_scope (pp_compensation_plan p) scope = Some h \<and>
        required_capabilities_for_plan (pp_desired_state p) (Mutation scope)
          \<subseteq> adc_capabilities (dpl_adapter (pp_compensation_plan p))) \<and>
     adc_adapter_id (dpl_adapter (pp_compensation_plan p))
       = adc_adapter_id (dpl_adapter (pp_deploy_plan p)) \<and>
     (\<forall>plan. pp_provision_plan p = Some plan \<longrightarrow>
        (\<exists>h. approval_hash_for_scope plan ScopeProvision = Some h) \<and>
        adc_adapter_id (dpl_adapter plan) = adc_adapter_id (dpl_adapter (pp_deploy_plan p)))"

lemma check_operator_plansD:
  assumes "check_operator_plans p = Inr ()"
  shows "validate_operator_plan (pp_deploy_plan p) (pp_desired_state p) ScopeDeploy = Inr ()"
    and "\<exists>scope. compensates scope \<and>
      validate_operator_plan (pp_compensation_plan p) (pp_desired_state p) scope = Inr ()"
    and "pp_provision_plan p = Some plan \<Longrightarrow>
      validate_operator_plan plan (pp_desired_state p) ScopeProvision = Inr () \<and>
      adc_adapter_id (dpl_adapter plan) = adc_adapter_id (dpl_adapter (pp_deploy_plan p))"
    and "adc_adapter_id (dpl_adapter (pp_compensation_plan p))
      = adc_adapter_id (dpl_adapter (pp_deploy_plan p))"
  using assms by (auto simp: check_operator_plans_def Let_def result_simps split: option.splits)

text \<open>
  C39. A plan that validates is one an operator can be asked to carry out and undo: its desired state
  is unambiguous and runs exactly the package's image, the deploy plan and the compensation (a
  rollback or a destroy) carry an approval hash for exactly their scope from adapters that declare
  the capabilities the scope needs, and all operator plans use one adapter.
\<close>

theorem valid_plan_is_approved:
  assumes "plan_validate cs up plan = Inr ()"
  shows "approved (mpl_payload plan)"
proof -
  let ?p = "mpl_payload plan"
  have v: "payload_validate cs up ?p = Inr ()" using assms by (simp add: plan_validate_Inr)
  note ops = check_operator_plansD [OF payload_validateD(7) [OF v]]
  obtain scope where scope: "compensates scope"
    "validate_operator_plan (pp_compensation_plan ?p) (pp_desired_state ?p) scope = Inr ()"
    using ops(2) by blast
  show ?thesis
    using valid_desired_state_is_deployable [OF payload_validateD(4) [OF v]] payload_validateD(5) [OF v]
      validate_operator_plan_Inr [OF ops(1)] scope(1) validate_operator_plan_Inr [OF scope(2)] ops(3,4)
      validate_operator_plan_Inr
    unfolding approved_def by (metis required_capabilities_for_plan.simps(2))
qed

end
