(* ===== verification/Managed_Witnesses.thy ===== *)
theory Managed_Witnesses
  imports Managed_Properties Samples Publication_Properties
begin

text \<open>
  A managed publication plan in the reference environment, with its package, desired state and
  operator plans. The properties of plans and phases are applied to it; \<open>Managed_Run\<close> takes it
  through the store.
\<close>

section \<open>The plan\<close>

text \<open>A parser of \<open>https\<close> origins with a path.\<close>

definition origin_parser :: url_parser where
  "origin_parser s =
     (case strip_prefix s ''https://'' of
        None \<Rightarrow> None
      | Some rest \<Rightarrow> Some
          \<lparr>url_scheme = ''https'', url_host_str = Some (takeWhile (\<lambda>c. c \<noteq> CHR ''/'') rest),
           url_username = [], url_password = None,
           url_path = (case dropWhile (\<lambda>c. c \<noteq> CHR ''/'') rest of [] \<Rightarrow> ''/'' | p \<Rightarrow> p),
           url_query = None, url_fragment = None\<rparr>)"

definition digest64 :: "char \<Rightarrow> string" where
  "digest64 c = ''sha256:'' @ hex64 c"

definition m_image :: oci_image where
  "m_image = \<lparr>oci_repository = ''r.io/app'', oci_digest = digest64 (CHR ''a'')\<rparr>"

definition m_desired :: desired_state where
  "m_desired =
     \<lparr>ds_schema_version = DESIRED_STATE_SCHEMA_V1, ds_deployment_id = ''dep'',
      ds_revision = \<lparr>drv_revision_id = digest64 (CHR ''b''),
        drv_release_bundle_digest = digest64 (CHR ''c''), drv_image = m_image\<rparr>,
      ds_environment = [(''MODE'', ''live'')],
      ds_secrets = [\<lparr>lsr_environment_name = ''KEY'', lsr_reference = ''secret://key''\<rparr>],
      ds_resources = \<lparr>rsi_cpu_millis = 100, rsi_memory_bytes = 1024, rsi_architecture = Amd64\<rparr>,
      ds_ports = [\<lparr>pti_name = ''http'', pti_container_port = 80, pti_protocol = PortTcp\<rparr>],
      ds_persistent_volumes = [],
      ds_health_check = \<lparr>hhc_port_name = ''http'', hhc_path = ''/'', hhc_interval_seconds = 10,
        hhc_timeout_seconds = 5\<rparr>,
      ds_ingress = Some \<lparr>igi_port_name = ''http'', igi_transport = IngressHttps,
        igi_requested_hostname = None\<rparr>,
      ds_observability = \<lparr>obi_structured_logs = False\<rparr>,
      ds_lifecycle = \<lparr>lci_rollback_required = False\<rparr>\<rparr>"

definition m_adapter :: adapter_capabilities where
  "m_adapter = adapter_capabilities_new ''ops''
     [ImmutableOciImage, ResourceIntent, HttpHealthCheck, ContainerPorts, LogicalSecretReferences,
      PublicHttpsIngress, DeploymentDestroy]"

definition m_operator_plan :: "plan_action \<Rightarrow> approval_scope \<Rightarrow> deployment_plan" where
  "m_operator_plan action scope = applicable m_desired m_adapter
     \<lparr>adp_steps = [\<lparr>pls_sequence = 1, pls_action = action, pls_summary = ''step''\<rparr>],
      adp_warnings = [], adp_recurring_cost = CostUnknown\<rparr>
     (Some (scope, replicate 32 (CHR ''h'')))"

definition m_evidence :: publication_build_evidence where
  "m_evidence =
     \<lparr>pbe_schema_version = PUBLICATION_BUILD_EVIDENCE_SCHEMA_V1, pbe_builder = ''froglet'',
      pbe_builder_version = ''1'', pbe_source_digest = hex64 (CHR ''0''),
      pbe_artifact_digest = hex64 (CHR ''d''), pbe_dependency_mode = ''none'',
      pbe_components = [], pbe_hermetic = True\<rparr>"

definition m_package :: managed_package where
  "m_package =
     \<lparr>pk_schema_version = MANAGED_PUBLICATION_PACKAGE_SCHEMA_V1,
      pk_source_package_digest = hex64 (CHR ''d''),
      pk_build_evidence_digest = sha256_hex reference_env (ref_json (build_evidence_value m_evidence)),
      pk_bundle_manifest_digest = digest64 (CHR ''b''),
      pk_release_bundle_digest = digest64 (CHR ''c''),
      pk_base_runner_image = \<lparr>oci_repository = ''r.io/base'', oci_digest = digest64 (CHR ''e'')\<rparr>,
      pk_image = m_image, pk_content_visibility = PrivateRegistryRequired, pk_runtime = ''wasm'',
      pk_package_kind = ''inline_module'', pk_builder_id = ''builder'',
      pk_builder_fingerprint = hex64 (CHR ''e''),
      pk_runner_contract = MANAGED_PUBLICATION_RUNNER_CONTRACT_V1\<rparr>"

definition m_operation_id :: string where
  "m_operation_id = ref_hex_encode (take 32 OPERATION_ID_DOMAIN_V1)"

definition m_plan_hash :: string where
  "m_plan_hash = ref_hex_encode (take 32 PLAN_HASH_DOMAIN_V1)"

definition m_payload :: "string \<Rightarrow> plan_payload" where
  "m_payload profile =
     \<lparr>pp_schema_version = MANAGED_PUBLICATION_PLAN_SCHEMA_V1, pp_operation_id = m_operation_id,
      pp_service_id = ''svc'', pp_target = ''host'', pp_profile = profile,
      pp_expected_provider_id = provider_pk, pp_publish_request_digest = hex64 (CHR ''c''),
      pp_package = m_package, pp_desired_state = m_desired, pp_provision_plan = None,
      pp_deploy_plan = m_operator_plan DeployRevision ScopeDeploy,
      pp_compensation_plan = m_operator_plan DestroyDeployment
        (ScopeDestroy \<lparr>dcf_deployment_id = ''dep'', dcf_adapter_id = ''ops''\<rparr>),
      pp_public_url = ''https://app.example''\<rparr>"

definition m_plan :: "string \<Rightarrow> managed_plan" where
  "m_plan profile = \<lparr>mpl_plan_hash = m_plan_hash, mpl_payload = m_payload profile\<rparr>"

text \<open>The reference digest keeps 32 bytes, so it sees only the domain prefix.\<close>

lemma reference_domain_hash:
  "32 \<le> length domain \<Longrightarrow>
     domain_separated_hash reference_env domain v = Inr (ref_hex_encode (take 32 domain))"
  by (simp add: domain_separated_hash_Inr)
    (simp add: reference_env_def sha256_hex_def ref_digest_def)

lemma m_hashes [simp]:
  "domain_separated_hash reference_env OPERATION_ID_DOMAIN_V1 v = Inr m_operation_id"
  "domain_separated_hash reference_env PLAN_HASH_DOMAIN_V1 v = Inr m_plan_hash"
  by (simp_all add: reference_domain_hash m_operation_id_def m_plan_hash_def OPERATION_ID_DOMAIN_V1_def
      PLAN_HASH_DOMAIN_V1_def)

lemma is_hash_hex [simp]: "is_lower_hex_char c \<Longrightarrow> is_hash (hex64 c)"
  by (simp add: is_hash_def hash_char_iff [abs_def] hex64_def list_all_iff)

lemma is_hash_encoded: "length b = 32 \<Longrightarrow> is_hash (ref_hex_encode b)"
  using ref_hex_encode_shape [of b] by (auto simp: is_hash_def hash_char_iff [abs_def])

lemma m_is_hash [simp]: "is_hash m_operation_id" "is_hash m_plan_hash" "is_hash provider_pk"
  "is_hash (sha256_hex reference_env m)"
proof -
  show "is_hash m_operation_id" "is_hash m_plan_hash"
    unfolding m_operation_id_def m_plan_hash_def OPERATION_ID_DOMAIN_V1_def PLAN_HASH_DOMAIN_V1_def
    by (rule is_hash_encoded, simp)+
  show "is_hash provider_pk"
    unfolding provider_pk_def public_key_hex_def provider_sk_def reference_env_def
    using is_hash_encoded [of "replicate 32 (CHR ''P'')"] by simp
qed (simp add: sha256_hex_is_hash)

lemma strip_digest64 [simp]: "strip_prefix (digest64 c) ''sha256:'' = Some (hex64 c)"
  unfolding digest64_def by (rule strip_prefix_append)

lemma digest64_ok [simp]:
  "is_lower_hex_char c \<Longrightarrow> require_digest field (digest64 c) = Inr x"
  "is_lower_hex_char c \<Longrightarrow> v_require_digest field (digest64 c) = []"
  using is_hash_hex [of c] by (simp_all add: require_digest_def v_require_digest_def is_hash_def)

lemma name_ok [simp]: "require_identifier field s = Inr x \<longleftrightarrow>
    s \<noteq> [] \<and> length s \<le> 128 \<and> list_all identifier_char s"
  by (simp add: require_identifier_def)

lemma m_desired_valid: "desired_state_validate m_desired = Inr ()"
proof -
  have r: "revision_violations (ds_revision m_desired) = []"
  proof -
    have "trim ''r.io/app'' = ''r.io/app''" by (simp add: trim_printable printable_ascii_def)
    moreover have "\<not> any_whitespace ''r.io/app''" "last (split_char (CHR ''/'') ''r.io/app'') = ''app''"
      by code_simp+
    ultimately show ?thesis by (simp add: revision_violations_def m_desired_def m_image_def Let_def)
  qed
  have "secret_violations (ds_environment m_desired) 0 [] (ds_secrets m_desired) = []"
    "concat (map environment_violations (ds_environment m_desired)) = []"
    "port_violations 0 [] (ds_ports m_desired) = []"
    "v_require_identifier ''deployment_id'' (ds_deployment_id m_desired) = []"
    by code_simp+
  then show ?thesis
    using r unfolding desired_state_validate_def desired_state_violations_def
    by (simp add: m_desired_def health_violations_def ingress_violations_def v_require_schema_def
        starts_with_def)
qed

lemma repository_ok [simp]:
  "require_oci_repository origin_parser field ''r.io/app'' = Inr ()"
  "require_oci_repository origin_parser field ''r.io/base'' = Inr ()"
proof -
  have "\<not> any_whitespace ''r.io/app'' \<and> \<not> any_control ''r.io/app'' \<and>
     split_once ''r.io/app'' (CHR ''/'') = Some (''r.io'', ''app'') \<and>
     \<not> any_whitespace ''r.io/base'' \<and> \<not> any_control ''r.io/base'' \<and>
     split_once ''r.io/base'' (CHR ''/'') = Some (''r.io'', ''base'') \<and>
     list_all repository_segment (split_char (CHR ''/'') ''app'') \<and>
     list_all repository_segment (split_char (CHR ''/'') ''base'') \<and>
     (case origin_parser ''https://r.io/'' of None \<Rightarrow> False | Some u \<Rightarrow> root_origin u)"
    by code_simp
  then show "require_oci_repository origin_parser field ''r.io/app'' = Inr ()"
    "require_oci_repository origin_parser field ''r.io/base'' = Inr ()"
    by (auto simp: require_oci_repository_def)
qed

lemma public_url_ok [simp]:
  "require_public_https_url origin_parser field ''https://app.example'' = Inr ()"
proof -
  have "\<not> any_whitespace ''https://app.example'' \<and> \<not> any_control ''https://app.example'' \<and>
     (case origin_parser ''https://app.example'' of
        None \<Rightarrow> False | Some u \<Rightarrow> url_scheme u = ''https'' \<and> root_origin u)"
    by code_simp
  then show ?thesis by (simp add: require_public_https_url_def)
qed

lemma m_package_valid: "package_validate origin_parser m_package = Inr ()"
proof -
  have "trim ''wasm'' = ''wasm''" "trim ''inline_module'' = ''inline_module''" "trim ''builder'' = ''builder''"
    by (simp_all add: trim_printable printable_ascii_def)
  moreover have "\<not> any_control ''wasm''" "\<not> any_control ''inline_module''" "\<not> any_control ''builder''"
    by code_simp+
  ultimately show ?thesis
    by (simp add: package_validate_def m_package_def m_image_def result_simps require_nonempty_def)
qed

lemma m_operator_plan_valid:
  assumes "required_capabilities_for_plan m_desired (Mutation scope) \<subseteq> adc_capabilities m_adapter"
  shows "validate_operator_plan (m_operator_plan action scope) m_desired scope = Inr ()"
proof -
  have "adapter_validate m_adapter = Inr ()" by code_simp
  with assms show ?thesis
    by (simp add: validate_operator_plan_def m_operator_plan_def applicable_def plan_with_outcome_def
        NoMutation_as_bool_def result_simps)
qed

lemma m_capabilities:
  "required_capabilities_for_plan m_desired (Mutation ScopeDeploy) \<subseteq> adc_capabilities m_adapter"
  "required_capabilities_for_plan m_desired (Mutation (ScopeDestroy c)) \<subseteq> adc_capabilities m_adapter"
  by (simp_all add: required_capabilities_def m_desired_def m_adapter_def adapter_capabilities_new_def)

lemma m_operator_plans_ok: "check_operator_plans (m_payload profile) = Inr ()"
proof -
  have "plan_approval_scope (m_operator_plan action scope) = Inr scope" for action scope
    by (simp add: plan_approval_scope_def m_operator_plan_def applicable_def plan_with_outcome_def)
  moreover have "dpl_adapter (m_operator_plan action scope) = m_adapter" for action scope
    by (simp add: m_operator_plan_def applicable_def plan_with_outcome_def)
  ultimately show ?thesis
    by (simp add: check_operator_plans_def m_payload_def m_operator_plan_valid [OF m_capabilities(1)]
        m_operator_plan_valid [OF m_capabilities(2)] result_simps)
qed

lemma m_names:
  "list_all identifier_char ''svc''" "list_all identifier_char ''host''"
  "list_all identifier_char ''a''" "list_all identifier_char ''b''"
  by code_simp+

lemma m_payload_valid:
  assumes "profile \<noteq> []" and "length profile \<le> 128" and "list_all identifier_char profile"
  shows "payload_validate reference_env origin_parser (m_payload profile) = Inr ()"
proof -
  have "managed_publication_operation_id reference_env origin_parser (payload_identity (m_payload profile))
      = Inr m_operation_id"
    using assms m_names
    by (simp add: managed_publication_operation_id_def payload_identity_def m_payload_def m_package_def
        m_image_def result_simps)
  moreover have "drv_image (ds_revision m_desired) = pk_image m_package"
    "drv_release_bundle_digest (ds_revision m_desired) = pk_release_bundle_digest m_package"
    "drv_revision_id (ds_revision m_desired) = pk_bundle_manifest_digest m_package"
    by (simp_all add: m_desired_def m_package_def)
  moreover have "pp_schema_version (m_payload profile) = MANAGED_PUBLICATION_PLAN_SCHEMA_V1"
    "pp_operation_id (m_payload profile) = m_operation_id" "pp_service_id (m_payload profile) = ''svc''"
    "pp_target (m_payload profile) = ''host''" "pp_profile (m_payload profile) = profile"
    "pp_expected_provider_id (m_payload profile) = provider_pk"
    "pp_publish_request_digest (m_payload profile) = hex64 (CHR ''c'')"
    "pp_package (m_payload profile) = m_package" "pp_desired_state (m_payload profile) = m_desired"
    "pp_public_url (m_payload profile) = ''https://app.example''"
    by (simp_all add: m_payload_def)
  ultimately show ?thesis
    using assms m_names m_package_valid m_desired_valid m_operator_plans_ok
    by (simp add: payload_validate_def result_simps)
qed

lemma m_plan_valid [simp]:
  "plan_validate reference_env origin_parser (m_plan ''a'') = Inr ()"
  "plan_validate reference_env origin_parser (m_plan ''b'') = Inr ()"
  using m_payload_valid [of "''a''"] m_payload_valid [of "''b''"] m_names
  by (simp_all add: plan_validate_Inr m_plan_def)

section \<open>Statements on plans\<close>

theorem valid_plan_is_approved_witness: "approved (m_payload ''a'')"
  using valid_plan_is_approved [OF m_plan_valid(1)] by (simp add: m_plan_def)

lemma m_plan_exact: "exact_numbers (plan_payload_value (m_payload profile))"
  by (simp add: plan_payload_value_def m_payload_def exact_numbers_mk_obj package_value_def m_package_def
      oci_image_value_def desired_state_value_def m_desired_def deployment_revision_value_def
      secret_value_def resource_intent_value_def port_intent_value_def health_check_value_def
      ingress_value_def j_list_def j_u16_def j_opt_def m_operator_plan_def applicable_def
      plan_with_outcome_def deployment_plan_value_def adapter_value_def capabilities_value_def j_strs_def
      list_all_iff plan_step_value_def destroy_confirmation_value_def exact_field_def [of None])


theorem phase_changes_are_bounded_witness:
  "phase_run [Planned, LocalRevisionReady, Deploying, Reconciling, Deployed, CanaryVerified, Registering,
      Compensating, Compensated] \<and>
   length [LocalRevisionReady, Deploying, Reconciling, Deployed, CanaryVerified, Registering, Compensating,
      Compensated] \<le> 9"
proof -
  have run: "phase_run [Planned, LocalRevisionReady, Deploying, Reconciling, Deployed, CanaryVerified,
      Registering, Compensating, Compensated]"
    by (simp add: can_transition_to_def)
  from phase_changes_are_bounded [OF run] run show ?thesis by simp
qed

end
