(* ===== verification/Managed_Run.thy ===== *)
theory Managed_Run
  imports Managed_Witnesses
begin

text \<open>
  One managed publication of the plan of \<open>Managed_Witnesses\<close>, run with the store's own calls: the
  operation is created, receives its capsule (a signed revision with descriptor and offer), starts
  deploying and is recovered after a restart; a second run ends at once in \<open>Failed\<close>, and a third
  table holds the active operation. The properties of the store are applied to these tables.
\<close>

section \<open>Texts of the reference environment\<close>

definition ascii :: "string \<Rightarrow> bool" where
  "ascii s \<longleftrightarrow> list_all (\<lambda>c. (of_char c :: nat) < 128) s"

lemma ascii_utf8: "ascii s \<Longrightarrow> utf8_valid s"
  by (induction s) (auto simp: ascii_def Let_def)

lemma ascii_simps [simp]:
  "ascii []" "ascii (c # s) \<longleftrightarrow> (of_char c :: nat) < 128 \<and> ascii s" "ascii (s @ t) \<longleftrightarrow> ascii s \<and> ascii t"
  by (simp_all add: ascii_def)

lemma lower_hex_is_ascii: "list_all is_lower_hex_char s \<Longrightarrow> ascii s"
  unfolding ascii_def
  by (erule list.pred_mono_strong)
    (auto simp: is_lower_hex_char_def is_ascii_hexdigit_def Let_def)

lemma ascii_int [simp]: "ascii (int_to_string i)"
  unfolding ascii_def
  by (rule list.pred_mono_strong [OF int_to_string_chars]) (auto simp: is_ascii_digit_def Let_def)

lemma ascii_digits [simp]: "ascii (nat_digits n)"
  unfolding ascii_def
  by (rule list.pred_mono_strong [OF nat_digits_ascii]) (auto simp: is_ascii_digit_def Let_def)

lemma ascii_ref_string [simp]: "ascii (ref_string s) \<longleftrightarrow> ascii s"
  by (induction s) simp_all

fun ascii_json :: "json \<Rightarrow> bool" where
  "ascii_json (JStr s) \<longleftrightarrow> ascii s"
| "ascii_json (JArr vs) \<longleftrightarrow> list_all ascii_json vs"
| "ascii_json (JObj fs) \<longleftrightarrow> list_all (\<lambda>f. ascii (fst f) \<and> ascii_json (snd f)) fs"
| "ascii_json _ \<longleftrightarrow> True"

lemma ascii_concat: "(\<And>x. x \<in> set xs \<Longrightarrow> ascii (f x)) \<Longrightarrow> ascii (concat (map f xs))"
  by (induction xs) simp_all

lemma ascii_ref_json: "ascii_json v \<Longrightarrow> ascii (ref_json v)"
proof (induction v)
  case (JArr vs)
  then show ?case by (auto simp: list_all_iff intro!: ascii_concat)
next
  case (JObj fs)
  then show ?case by (fastforce simp: list_all_iff intro!: ascii_concat)
qed simp_all

definition ascii_field :: "string \<times> json option \<Rightarrow> bool" where
  "ascii_field f \<longleftrightarrow> (case snd f of None \<Rightarrow> True | Some v \<Rightarrow> ascii (fst f) \<and> ascii_json v)"

lemma ascii_present:
  "list_all (\<lambda>f. ascii (fst f) \<and> ascii_json (snd f)) (present fs) \<longleftrightarrow> list_all ascii_field fs"
  by (induction fs rule: present.induct) (auto simp: ascii_field_def)

lemma ascii_mk_obj [simp]: "ascii_json (mk_obj fs) \<longleftrightarrow> list_all ascii_field fs"
  unfolding ascii_present [symmetric] by (simp add: mk_obj_def list_all_iff)

lemma ascii_field_simps [simp]:
  "ascii_field (k, always v) \<longleftrightarrow> ascii k \<and> ascii_json v" "ascii_field (k, None)"
  "ascii_field (k, unless_none f None)"
  "ascii_field (k, unless_none f (Some x)) \<longleftrightarrow> ascii k \<and> ascii_json (f x)"
  "ascii_field (k, unless_empty g []) "
  "ascii_field (k, unless_empty h (y # ys)) \<longleftrightarrow> ascii k \<and> ascii_json (h (y # ys))"
  by (simp_all add: ascii_field_def always_def unless_none_def unless_empty_def)

lemma ascii_encoders [simp]:
  "ascii_json (j_u64 a)" "ascii_json (j_u32 b)" "ascii_json (j_i64 c)" "ascii_json (j_u16 d)"
  "ascii_json (j_strs ss) \<longleftrightarrow> list_all ascii ss" "ascii_json (j_opt f None)"
  "ascii_json (j_opt f (Some x)) \<longleftrightarrow> ascii_json (f x)"
  by (simp_all add: j_u64_def j_u32_def j_i64_def j_u16_def j_strs_def j_opt_def list_all_iff)

lemma ascii_hex64 [simp]: "is_lower_hex_char c \<Longrightarrow> ascii (hex64 c)"
  by (rule lower_hex_is_ascii) (simp add: hex64_def list_all_iff)

lemma ascii_hash: "is_hash h \<Longrightarrow> ascii h"
  by (rule lower_hex_is_ascii) (simp add: is_hash_def hash_char_iff [abs_def])

lemma ascii_digest64 [simp]: "is_lower_hex_char c \<Longrightarrow> ascii (digest64 c)"
  by (simp add: digest64_def)

lemma ascii_capability [simp]: "ascii (capability_name x)"
  by (cases x) simp_all

lemma ascii_lower_hex_encoding [simp]: "ascii (encode_lower_hex bs)"
  using encode_lower_hex_form [of bs] by (simp add: lower_hex_is_ascii hash_char_iff [abs_def])

lemma ascii_plan: "ascii_json (managed_plan_value (m_plan ''a''))"
  by (simp add: managed_plan_value_def m_plan_def ascii_hash
      plan_payload_value_def m_payload_def package_value_def m_package_def
      oci_image_value_def desired_state_value_def m_desired_def deployment_revision_value_def m_image_def
      secret_value_def resource_intent_value_def port_intent_value_def health_check_value_def
      ingress_value_def j_list_def m_operator_plan_def applicable_def
      plan_with_outcome_def deployment_plan_value_def adapter_value_def capabilities_value_def
      list_all_iff plan_step_value_def destroy_confirmation_value_def m_adapter_def
      adapter_capabilities_new_def MANAGED_PUBLICATION_PLAN_SCHEMA_V1_def
      MANAGED_PUBLICATION_PACKAGE_SCHEMA_V1_def MANAGED_PUBLICATION_RUNNER_CONTRACT_V1_def
      DESIRED_STATE_SCHEMA_V1_def PLAN_SCHEMA_V1_def ADAPTER_CAPABILITIES_SCHEMA_V1_def)

section \<open>The capsule\<close>

definition m_descriptor :: descriptor_artifact where
  "m_descriptor = sample_sign descriptor_value provider_sk ARTIFACT_TYPE_DESCRIPTOR
     ((art_payload sample_descriptor)\<lparr>desc_transport_endpoints :=
        [\<lparr>te_transport = ''https'', te_uri = ''https://app.example/'', te_created_at = None,
          te_expires_at = None, te_priority = 1, te_features = []\<rparr>]\<rparr>)"

definition m_offer :: offer_artifact where
  "m_offer = sample_sign offer_value provider_sk ARTIFACT_TYPE_OFFER
     ((art_payload sample_offer)\<lparr>offer_descriptor_hash := art_hash m_descriptor,
        offer_execution_profile :=
          (offer_execution_profile (art_payload sample_offer))\<lparr>prof_package_kind := ''inline_module''\<rparr>\<rparr>)"

definition m_revision_payload :: publication_revision_payload where
  "m_revision_payload = sample_payload\<lparr>prv_provider_id := provider_pk, prv_offer_id := ''offer-1'',
     prv_offer_hash := art_hash m_offer, prv_package_digest := hex64 (CHR ''d''),
     prv_build_evidence := Some m_evidence,
     prv_local_verification := \<lparr>lve_input_hash = sha256_hex reference_env (ref_json JNull),
       lve_result_hash = hex64 (CHR ''e''), lve_expected_output_matched = None\<rparr>\<rparr>"

definition m_revision :: signed_publication_revision where
  "m_revision =
     \<lparr>spr_revision_hash = sha256_hex reference_env (ref_json (revision_value m_revision_payload)),
      spr_signer_pubkey = provider_pk,
      spr_signature = sign_message_hex reference_env provider_sk
        (PUBLICATION_REVISION_SIGNATURE_DOMAIN @ ref_json (revision_value m_revision_payload)),
      spr_payload = m_revision_payload\<rparr>"

definition m_consent :: string where
  "m_consent = hex64 (CHR ''0'')"

definition m_capsule :: capsule where
  "m_capsule =
     \<lparr>cap_schema_version = MANAGED_PUBLICATION_CAPSULE_SCHEMA_V1, cap_operation_id = m_operation_id,
      cap_plan_hash = m_plan_hash, cap_consent_hash = m_consent, cap_plan = m_plan ''a'',
      cap_source_revision_hash = hex64 (CHR ''a''), cap_revision = m_revision,
      cap_verification_fixture = \<lparr>vf_input = JNull, vf_expected_output = None\<rparr>,
      cap_descriptor = artifact_value descriptor_value m_descriptor,
      cap_offer = artifact_value offer_value m_offer\<rparr>"

definition known :: "('a \<Rightarrow> 'b) \<Rightarrow> 'a list \<Rightarrow> 'b \<Rightarrow> 'a result" where
  "known write xs t = ok_or ''unknown'' (List.find (\<lambda>x. write x = t) xs)"

definition m_dec :: decoders where
  "m_dec =
     \<lparr>decode_descriptor = known (artifact_value descriptor_value) [m_descriptor],
      decode_offer = known (artifact_value offer_value) [m_offer], decode_quote = known (artifact_value quote_value) [],
      decode_deal = known (artifact_value deal_value) [],
      decode_invoice_bundle = known (artifact_value invoice_bundle_value) [],
      decode_receipt = known (artifact_value receipt_value) []\<rparr>"

lemma known_first [simp]: "known write (x # xs) (write x) = Inr x"
  by (simp add: known_def ok_or_def)

lemma m_artifacts_verified:
  "verify_artifact reference_env descriptor_value m_descriptor"
  "verify_artifact reference_env offer_value m_offer"
  unfolding m_descriptor_def m_offer_def
  using sample_sign_verifies [of provider_sk] by (simp_all add: verified_as_def)

lemma m_artifact_facts [simp]:
  "desc_provider_id (art_payload m_descriptor) = provider_pk"
  "desc_transport_endpoints (art_payload m_descriptor) =
     [\<lparr>te_transport = ''https'', te_uri = ''https://app.example/'', te_created_at = None,
       te_expires_at = None, te_priority = 1, te_features = []\<rparr>]"
  "offer_provider_id (art_payload m_offer) = provider_pk"
  "offer_id (art_payload m_offer) = ''offer-1''"
  "offer_descriptor_hash (art_payload m_offer) = art_hash m_descriptor"
  "prof_runtime (offer_execution_profile (art_payload m_offer)) = RtWasm"
  "prof_package_kind (offer_execution_profile (art_payload m_offer)) = ''inline_module''"
  by (simp_all add: m_descriptor_def m_offer_def sample_descriptor_def sample_offer_def)

lemma m_artifacts_valid:
  "validate_descriptor_artifact reference_env m_descriptor = Inr ()"
  "validate_offer_artifact m_offer = Inr ()"
proof -
  show "validate_descriptor_artifact reference_env m_descriptor = Inr ()"
    unfolding m_descriptor_def sample_descriptor_def by (simp add: validate_descriptor_ok)
  have "trim (art_hash m_descriptor) \<noteq> []" by (simp add: m_descriptor_def sample_sign_hash)
  then show "validate_offer_artifact m_offer = Inr ()"
    unfolding m_offer_def sample_offer_def
    by (simp add: validate_offer_ok is_paid_settlement_method_def)
qed

lemma m_offer_hash: "is_hash (art_hash m_offer)"
  using sample_sign_hash(1) [of provider_sk]
  by (simp add: m_offer_def is_hash_def is_lower_hex_len_def hash_char_iff [abs_def])

lemma valid_hash_is_hash: "valid_hash h \<longleftrightarrow> is_hash h"
  by (simp add: valid_hash_def is_hash_def hash_char_iff [abs_def])

lemma m_evidence_valid: "build_evidence_validate m_evidence = Inr ()"
  by code_simp

lemma m_revision_valid: "revision_validate reference_env m_revision_payload = Inr ()"
proof -
  have "check_revision_price (prv_price sample_payload) = Inr ()"
    using sample_payload_valid
    by (simp add: revision_validate_canonical_for_signing_def revision_validate_def result_simps
        split: if_splits)
  then show ?thesis
    unfolding revision_validate_def
    by (simp add: m_revision_payload_def sample_payload_def result_simps check_revision_hash_def
        valid_hash_is_hash m_offer_hash nonblank printable_ascii_def check_build_evidence_def
        m_evidence_valid sample_service_valid check_positive_def small_limits_def)
      (simp add: m_evidence_def)
qed

lemma m_revision_verifies: "revision_verify reference_env m_revision = Inr ()"
proof -
  have "verify_message reference_env provider_pk (sign_message_hex reference_env provider_sk m) m" for m
    using verify_sign_message [OF crypto_lawsD(1,3) [OF reference_crypto_laws] sample_keys_ok(1)] by simp
  moreover have "prv_provider_id m_revision_payload = provider_pk" by (simp add: m_revision_payload_def)
  moreover have "jcs_to_vec reference_env v = Inr (ref_json v)" for v by (simp add: reference_env_def)
  ultimately show ?thesis
    using m_revision_valid by (simp add: revision_verify_Inr m_revision_def)
qed

lemma m_endpoint_ok: "check_managed_endpoint (art_payload m_descriptor) ''https://app.example'' = Inr ()"
proof -
  have "same_origin ''https://app.example/'' ''https://app.example''" by code_simp
  then show ?thesis by (simp add: check_managed_endpoint_def)
qed

lemma m_plan_facts [simp]:
  "pp_operation_id (mpl_payload (m_plan p)) = m_operation_id" "mpl_plan_hash (m_plan p) = m_plan_hash"
  "pp_service_id (mpl_payload (m_plan p)) = ''svc''" "pp_provision_plan (mpl_payload (m_plan p)) = None"
  "pp_desired_state (mpl_payload (m_plan p)) = m_desired"
  "pp_public_url (mpl_payload (m_plan p)) = ''https://app.example''"
  "pp_expected_provider_id (mpl_payload (m_plan p)) = provider_pk"
  "adc_adapter_id (dpl_adapter (pp_deploy_plan (mpl_payload (m_plan p)))) = ''ops''"
  by (simp_all add: m_plan_def m_payload_def m_operator_plan_def applicable_def plan_with_outcome_def
      m_adapter_def adapter_capabilities_new_def)

lemma m_revision_facts [simp]:
  "prv_provider_id (spr_payload m_revision) = provider_pk" "prv_service_id (spr_payload m_revision) = ''svc''"
  "prv_package_digest (spr_payload m_revision) = hex64 (CHR ''d'')"
  "prv_runtime (spr_payload m_revision) = ''wasm''"
  "prv_package_kind (spr_payload m_revision) = ''inline_module''"
  "pk_source_package_digest (pp_package (mpl_payload (m_plan p))) = hex64 (CHR ''d'')"
  "prv_build_evidence (spr_payload m_revision) = Some m_evidence"
  "lve_input_hash (prv_local_verification (spr_payload m_revision)) = sha256_hex reference_env (ref_json JNull)"
  "prv_offer_hash (spr_payload m_revision) = art_hash m_offer"
  "prv_offer_id (spr_payload m_revision) = ''offer-1''"
  "pk_runtime (pp_package (mpl_payload (m_plan p))) = ''wasm''"
  "pk_package_kind (pp_package (mpl_payload (m_plan p))) = ''inline_module''"
  "pk_build_evidence_digest (pp_package (mpl_payload (m_plan p))) =
     sha256_hex reference_env (ref_json (build_evidence_value m_evidence))"
  by (simp_all add: m_revision_def m_revision_payload_def sample_payload_def m_plan_def m_payload_def
      m_package_def)

lemma m_capsule_valid:
  "capsule_validate_against reference_env origin_parser m_dec m_capsule (m_plan ''a'') = Inr ()"
proof -
  have "verify_bound_artifacts reference_env m_descriptor m_offer m_revision (m_plan ''a'') = Inr ()"
    using m_artifacts_verified m_artifacts_valid
    by (simp add: verify_bound_artifacts_def artifact_hash_of_verified result_simps)
  moreover have "canonical_hash reference_env v = Inr (sha256_hex reference_env (ref_json v))" for v
    by (simp add: canonical_hash_def canonical_json_to_vec_def result_simps reference_env_def)
  ultimately show ?thesis
    using m_revision_verifies m_endpoint_ok
    by (simp add: capsule_validate_against_def m_capsule_def m_consent_def result_simps m_dec_def)
qed

section \<open>The operations and their texts\<close>

definition m_op :: "string option \<Rightarrow> phase \<Rightarrow> i64 \<Rightarrow> operation" where
  "m_op revision_hash phase now = (planned_operation (m_plan ''a'') m_consent now)
     \<lparr>op_revision_hash := revision_hash, op_phase := phase\<rparr>"

definition m_bound :: "phase \<Rightarrow> i64 \<Rightarrow> operation" where
  "m_bound phase now = m_op (Some (spr_revision_hash m_revision)) phase now"

definition m_stopped :: operation where
  "m_stopped = (m_bound ReconciliationRequired 130)
     \<lparr>op_last_error := Some ''node restarted while Managed Publication was in deploying''\<rparr>"

definition m_result :: deployment_result where
  "m_result = \<lparr>drs_schema_version = RESULT_SCHEMA_V1, drs_operation = OpDeploy,
     drs_deployment_id = ''dep'', drs_revision_id = digest64 (CHR ''b''), drs_adapter_id = ''ops'',
     drs_status = Succeeded, drs_image_digests = [m_image],
     drs_endpoints = [\<lparr>dep_name = ''http'', dep_url = ''https://app.example'',
       dep_transport = EndpointHttps\<rparr>],
     drs_health = \<lparr>dhe_status = Healthy, dhe_checked_url = None, dhe_detail = None\<rparr>,
     drs_rollback = None, drs_failure = None, drs_observed_at_epoch_seconds = 125\<rparr>"

definition m_active :: operation where
  "m_active = (m_bound Active 140)
     \<lparr>op_deploy_result := Some m_result,
      op_remote_canary := Some \<lparr>rc_provider_id = provider_pk,
        rc_revision_hash = spr_revision_hash m_revision, rc_public_url = ''https://app.example'',
        rc_observed_at_epoch_seconds = 130\<rparr>,
      op_registration := Some \<lparr>rg_marketplace_url = ''https://app.example'', rg_status = ''active'',
        rg_provider_id = provider_pk, rg_validated_offer_hash = art_hash m_offer,
        rg_validated_revision_hash = spr_revision_hash m_revision,
        rg_registered_at_epoch_seconds = 135\<rparr>\<rparr>"

definition m_operations :: "operation list" where
  "m_operations = [m_op None Planned 100, m_op None Failed 105, m_bound LocalRevisionReady 110,
     m_bound Deploying 120, m_stopped, m_active]"

definition m_cx :: managed_ctx where
  "m_cx =
     \<lparr>mc_crypto = reference_env, mc_url = origin_parser, mc_dec = m_dec,
      mc_text = \<lparr>mt_plan_from_str = known (\<lambda>p. ref_json (managed_plan_value p)) [m_plan ''a''],
        mt_operation_from_str = known (\<lambda>op. ref_json (operation_value op)) m_operations,
        mt_capsule_from_str = known (\<lambda>c. ref_json (capsule_value c)) [m_capsule],
        mt_utf8_error = (\<lambda>_. ''invalid utf-8'')\<rparr>,
      mc_debug = plain_debug\<rparr>"

definition m_row :: "operation \<Rightarrow> string option \<Rightarrow> int \<Rightarrow> managed_row" where
  "m_row op capsule_json v =
     \<lparr>mr_operation_id = m_operation_id, mr_service_id = ''svc'', mr_plan_hash = m_plan_hash,
      mr_consent_hash = m_consent, mr_phase = phase_name (op_phase op),
      mr_revision_hash = op_revision_hash op, mr_plan_json = ref_json (managed_plan_value (m_plan ''a'')),
      mr_operation_json = ref_json (operation_value op), mr_capsule_json = capsule_json,
      mr_state_version = v, mr_created_at = 100, mr_updated_at = op_updated_at_epoch_seconds op\<rparr>"

definition m_record :: "operation \<Rightarrow> capsule option \<Rightarrow> int \<Rightarrow> managed_record" where
  "m_record op c v =
     \<lparr>mrec_plan = m_plan ''a'', mrec_operation = op, mrec_capsule = c,
      mrec_state_version = word_of_int v, mrec_created_at_epoch_seconds = 100\<rparr>"

lemma known_in:
  "x \<in> set xs \<Longrightarrow> (\<And>y. y \<in> set xs \<Longrightarrow> write y = write x \<Longrightarrow> y = x) \<Longrightarrow> known write xs (write x) = Inr x"
  by (induction xs) (auto simp: known_def ok_or_def)

lemma operation_value_phase: "operation_value a = operation_value b \<Longrightarrow> op_phase a = op_phase b"
  by (simp add: operation_value_def mk_obj_inject)

lemma m_phases [simp]:
  "op_phase (m_op h p t) = p" "op_phase (m_bound p t) = p"
  "op_phase m_stopped = ReconciliationRequired" "op_phase m_active = Active"
  by (simp_all add: m_op_def m_bound_def m_stopped_def m_active_def)

lemma m_operation_text:
  assumes "op \<in> set m_operations"
  shows "known (\<lambda>op. ref_json (operation_value op)) m_operations (ref_json (operation_value op)) = Inr op"
proof (rule known_in [OF assms])
  fix y assume "y \<in> set m_operations" "ref_json (operation_value y) = ref_json (operation_value op)"
  then show "y = op"
    using assms operation_value_phase [of y op] by (auto simp: m_operations_def ref_json_inject)
qed

lemma m_bound_rev [simp]: "is_hash (spr_revision_hash m_revision)"
  by (simp add: m_revision_def)

lemma m_consent_ok [simp]: "is_hash m_consent"
  by (simp add: m_consent_def)

lemmas operation_checks = operation_validate_against_def check_operation_results_def
  check_operation_canary_def check_operation_compensation_def check_operation_registration_def
  deployed_phases_def canary_phases_def result_simps

lemma m_op_valid:
  "0 \<le> now \<Longrightarrow> p = Planned \<or> p = Failed \<Longrightarrow>
     operation_validate_against reference_env origin_parser (m_op None p now) (m_plan ''a'') = Inr ()"
  by (auto simp: operation_checks m_op_def planned_operation_def)

lemma m_bound_valid:
  "0 \<le> now \<Longrightarrow> p \<in> {LocalRevisionReady, Deploying} \<Longrightarrow>
     operation_validate_against reference_env origin_parser (m_bound p now) (m_plan ''a'') = Inr ()"
  by (auto simp: operation_checks m_bound_def m_op_def planned_operation_def)

lemma m_stopped_valid:
  "operation_validate_against reference_env origin_parser m_stopped (m_plan ''a'') = Inr ()"
  by (simp add: operation_checks m_stopped_def m_bound_def m_op_def planned_operation_def)

lemma m_active_valid:
  "operation_validate_against reference_env origin_parser m_active (m_plan ''a'') = Inr ()"
proof -
  have "validate_deploy_result m_result (m_plan ''a'') = Inr ()"
    by (simp add: validate_deploy_result_def m_result_def m_desired_def same_origin_def Let_def)
  then show ?thesis
    by (simp add: operation_checks m_active_def m_bound_def m_op_def planned_operation_def
        canary_validate_against_def registration_validate_against_def m_offer_hash same_origin_def)
qed

lemma m_operations_valid:
  "op \<in> set m_operations \<Longrightarrow>
     operation_validate_against reference_env origin_parser op (m_plan ''a'') = Inr ()"
  using m_op_valid m_bound_valid m_stopped_valid m_active_valid by (auto simp: m_operations_def)

section \<open>Rows\<close>

lemma m_cx_fields [simp]:
  "mc_crypto m_cx = reference_env" "mc_url m_cx = origin_parser" "mc_dec m_cx = m_dec"
  "mt_plan_from_str (mc_text m_cx) (ref_json (managed_plan_value (m_plan ''a''))) = Inr (m_plan ''a'')"
  "mt_capsule_from_str (mc_text m_cx) (ref_json (capsule_value m_capsule)) = Inr m_capsule"
  "op \<in> set m_operations \<Longrightarrow>
     mt_operation_from_str (mc_text m_cx) (ref_json (operation_value op)) = Inr op"
  using known_first [of "\<lambda>p. ref_json (managed_plan_value p)"]
    known_first [of "\<lambda>c. ref_json (capsule_value c)"]
  by (simp_all add: m_cx_def m_operation_text)

lemma m_operations_fields:
  assumes "op \<in> set m_operations"
  shows "op_operation_id op = m_operation_id" "op_plan_hash op = m_plan_hash" "op_consent_hash op = m_consent"
    "op_registration op = None \<or> rg_validated_offer_hash (the (op_registration op)) = art_hash m_offer"
  using assms
  by (auto simp: m_operations_def m_op_def m_bound_def m_stopped_def m_active_def planned_operation_def)

lemma m_capsule_fields [simp]:
  "cap_operation_id m_capsule = m_operation_id" "cap_plan_hash m_capsule = m_plan_hash"
  "cap_consent_hash m_capsule = m_consent" "cap_plan m_capsule = m_plan ''a''"
  "cap_revision m_capsule = m_revision"
  by (simp_all add: m_capsule_def)

lemma m_row_decodes:
  assumes op: "op \<in> set m_operations" and v: "1 \<le> v" "v < 2 ^ 63"
  shows "op_revision_hash op = None \<Longrightarrow> \<not> phase_requires_capsule (op_phase op) \<Longrightarrow>
      row_decodes m_cx (m_row op None v) (m_record op None v)"
    and "op_revision_hash op = Some (spr_revision_hash m_revision) \<Longrightarrow>
      row_decodes m_cx (m_row op (Some (ref_json (capsule_value m_capsule))) v) (m_record op (Some m_capsule) v)"
  using v m_operations_fields [OF op] m_operations_valid [OF op] m_capsule_valid op
  by (auto simp: row_decodes_def m_row_def m_record_def columns_differ_def capsule_columns_differ_def
      split: option.splits)

lemma m_canonical: "ascii_json v \<Longrightarrow> canonical_string m_cx v = Inr (ref_json v)"
  using ascii_utf8 [OF ascii_ref_json]
  by (simp add: canonical_string_def canonical_json_to_vec_def)
    (simp add: reference_env_def)

text \<open>One table of one row, as the store's operations change it.\<close>

lemma m_get:
  assumes "row_decodes m_cx (m_row op j v) r"
  shows "get_or m m_cx m_operation_id [m_row op j v] = (Inr r, [m_row op j v])"
  using assms by (simp add: get_or_Inr query_row_def m_row_def)

lemma m_version: "1 \<le> v \<Longrightarrow> v < 2 ^ 63 \<Longrightarrow> i64_of_u64 (word_of_int v) = Some v"
  by (simp add: i64_of_u64_Some uint_word_of_int)

lemma m_cas:
  assumes "1 \<le> v" "v < 2 ^ 63"
  shows "cas_update m_operation_id (word_of_int v) f [m_row op j v] =
    (Inr (), [(f (m_row op j v))\<lparr>mr_state_version := v + 1\<rparr>])"
  using m_version [OF assms] by (simp add: cas_update_def update_where_def m_row_def)

lemma m_record_fields [simp]:
  "mrec_operation (m_record op c v) = op" "mrec_plan (m_record op c v) = m_plan ''a''"
  "mrec_state_version (m_record op c v) = word_of_int v" "mrec_capsule (m_record op c v) = c"
  by (simp_all add: m_record_def)

lemma m_update:
  assumes dec: "row_decodes m_cx (m_row op j v) (m_record op c v)"
    "row_decodes m_cx (m_row op' j (v + 1)) (m_record op' c (v + 1))"
    and v: "1 \<le> v" "v < 2 ^ 63" and ops: "op' \<in> set m_operations"
    and co: "coordinates op' = coordinates op" "can_transition_to (op_phase op) (op_phase op')"
    and json: "ascii_json (operation_value op')"
  shows "update_operation m_cx m_operation_id (word_of_int v) op' [m_row op j v] =
    (Inr (m_record op' c (v + 1)), [m_row op' j (v + 1)])"
proof -
  have row: "(m_row op j v)\<lparr>mr_phase := phase_name (op_phase op'), mr_revision_hash := op_revision_hash op',
      mr_operation_json := ref_json (operation_value op'),
      mr_updated_at := op_updated_at_epoch_seconds op', mr_state_version := v + 1\<rparr> = m_row op' j (v + 1)"
    by (simp add: m_row_def)
  show ?thesis
    using co m_operations_valid [OF ops] m_canonical [OF json] m_get [OF dec(1)] m_get [OF dec(2)] row
    by (simp add: update_operation_def current_at_def with_immediate_transaction_def db_then_def db_lift_def
        m_cas [OF v])
qed

lemma m_op_ascii [simp]:
  "ascii_json (operation_value (m_op None p t))" "ascii_json (operation_value (m_bound p t))"
proof -
  have "ascii (phase_name p)" for p by (cases p) simp_all
  then show "ascii_json (operation_value (m_op None p t))" "ascii_json (operation_value (m_bound p t))"
    by (simp_all add: operation_value_def m_op_def m_bound_def planned_operation_def ascii_hash
        MANAGED_PUBLICATION_OPERATION_SCHEMA_V1_def)
qed

lemma m_stopped_ascii: "ascii_json (operation_value m_stopped)"
  by (simp add: operation_value_def m_stopped_def m_op_def m_bound_def planned_operation_def ascii_hash
      MANAGED_PUBLICATION_OPERATION_SCHEMA_V1_def)

section \<open>The run\<close>

lemma ascii_crypto [simp]:
  "ascii (hex_encode reference_env b)" "ascii (sha256_hex reference_env b)"
  "ascii (sign_message_hex reference_env sk b)" "ascii provider_pk"
proof -
  show e: "ascii (hex_encode reference_env b)" for b
    using ref_hex_encode_shape [of b] by (simp add: reference_env_def lower_hex_is_ascii)
  show "ascii (sha256_hex reference_env b)" "ascii (sign_message_hex reference_env sk b)"
    using e by (simp_all add: sha256_hex_def sign_message_hex_def)
  show "ascii provider_pk" by (simp add: ascii_hash)
qed

lemma ascii_unless_empty [simp]: "ascii k \<Longrightarrow> ascii s \<Longrightarrow> ascii_field (k, unless_empty JStr s)"
  by (simp add: ascii_field_def unless_empty_def)

lemma sample_sign_ascii:
  assumes "ascii ty" and "ascii_json (to_value p)"
  shows "ascii_json (artifact_value to_value (sample_sign to_value provider_sk ty p))"
    and "ascii (art_hash (sample_sign to_value provider_sk ty p))"
proof -
  have jcs: "canonical_json_to_vec reference_env v = Inr (ref_json v)" for v
    by (simp add: canonical_json_to_vec_def reference_env_def)
  show "ascii_json (artifact_value to_value (sample_sign to_value provider_sk ty p))"
    "ascii (art_hash (sample_sign to_value provider_sk ty p))"
    using assms
    by (simp_all add: artifact_value_def)
      (simp_all add: sample_sign_def sign_artifact_def payload_hash_def canonical_signing_bytes_def jcs)
qed

lemma m_descriptor_ascii:
  "ascii_json (artifact_value descriptor_value m_descriptor)" "ascii (art_hash m_descriptor)"
  unfolding m_descriptor_def
  by (rule sample_sign_ascii; simp add: descriptor_value_def sample_descriptor_def
      transport_endpoints_value_def transport_endpoint_value_def descriptor_capabilities_value_def)+

lemma m_offer_ascii: "ascii_json (artifact_value offer_value m_offer)" "ascii (art_hash m_offer)"
  unfolding m_offer_def
  by (rule sample_sign_ascii; simp add: offer_value_def sample_offer_def m_descriptor_ascii
      offer_execution_profile_value_def offer_price_schedule_value_def)+

lemma m_revision_ascii: "ascii_json (signed_revision_value m_revision)"
  by (simp add: signed_revision_value_def m_revision_def revision_value_def m_revision_payload_def
      sample_payload_def PUBLICATION_REVISION_SCHEMA_V1_def build_evidence_value_def m_evidence_def
      PUBLICATION_BUILD_EVIDENCE_SCHEMA_V1_def revision_service_value_def sample_service_def
      mounts_value_def mount_value_def resolved_limits_value_def revision_price_value_def
      local_verification_value_def m_offer_ascii)

lemma m_capsule_ascii: "ascii_json (capsule_value m_capsule)"
  using ascii_plan m_revision_ascii m_descriptor_ascii m_offer_ascii
  by (simp add: capsule_value_def m_capsule_def MANAGED_PUBLICATION_CAPSULE_SCHEMA_V1_def ascii_hash
      m_consent_def fixture_value_def)

abbreviation m_capsule_json :: "string option" where
  "m_capsule_json \<equiv> Some (ref_json (capsule_value m_capsule))"

lemma m_members:
  "m_op None Planned 100 \<in> set m_operations" "m_op None Failed 105 \<in> set m_operations"
  "m_bound LocalRevisionReady 110 \<in> set m_operations" "m_bound Deploying 120 \<in> set m_operations"
  "m_stopped \<in> set m_operations" "m_active \<in> set m_operations"
  by (simp_all add: m_operations_def)

lemma m_revisions [simp]:
  "op_revision_hash (m_op h p t) = h" "op_revision_hash (m_bound p t) = Some (spr_revision_hash m_revision)"
  "op_revision_hash m_stopped = Some (spr_revision_hash m_revision)"
  "op_revision_hash m_active = Some (spr_revision_hash m_revision)"
  by (simp_all add: m_op_def m_bound_def m_stopped_def m_active_def)

lemma m_coordinates [simp]:
  "coordinates (m_op h p t) = (m_operation_id, m_plan_hash, m_consent, h)"
  "coordinates (m_bound p t) = (m_operation_id, m_plan_hash, m_consent, Some (spr_revision_hash m_revision))"
  by (simp_all add: coordinates_def m_bound_def m_op_def planned_operation_def)

lemma m_decodes:
  "row_decodes m_cx (m_row (m_op None Planned 100) None 1) (m_record (m_op None Planned 100) None 1)"
  "row_decodes m_cx (m_row (m_op None Failed 105) None 2) (m_record (m_op None Failed 105) None 2)"
  "row_decodes m_cx (m_row (m_bound LocalRevisionReady 110) m_capsule_json 2)
     (m_record (m_bound LocalRevisionReady 110) (Some m_capsule) 2)"
  "row_decodes m_cx (m_row (m_bound Deploying 120) m_capsule_json 3)
     (m_record (m_bound Deploying 120) (Some m_capsule) 3)"
  "row_decodes m_cx (m_row m_active m_capsule_json 9) (m_record m_active (Some m_capsule) 9)"
  using m_row_decodes(1) [OF m_members(1), of 1] m_row_decodes(1) [OF m_members(2), of 2]
    m_row_decodes(2) [OF m_members(3), of 2] m_row_decodes(2) [OF m_members(4), of 3]
    m_row_decodes(2) [OF m_members(6), of 9]
  by (simp_all add: phase_requires_capsule_def)

lemma m_create:
  "create_planned m_cx (m_plan ''a'') m_consent 100 [] =
     (Inr (m_record (m_op None Planned 100) None 1), [m_row (m_op None Planned 100) None 1])"
proof -
  have op: "planned_operation (m_plan ''a'') m_consent 100 = m_op None Planned 100"
    by (simp add: m_op_def planned_operation_def)
  let ?row = "m_row (m_op None Planned 100) None 1"
  have row: "\<lparr>mr_operation_id = m_operation_id, mr_service_id = ''svc'', mr_plan_hash = m_plan_hash,
      mr_consent_hash = m_consent, mr_phase = phase_name Planned, mr_revision_hash = None,
      mr_plan_json = ref_json (managed_plan_value (m_plan ''a'')),
      mr_operation_json = ref_json (operation_value (m_op None Planned 100)), mr_capsule_json = None,
      mr_state_version = 1, mr_created_at = 100, mr_updated_at = 100\<rparr> = ?row"
    by (simp add: m_row_def) (simp add: m_op_def planned_operation_def)
  have "row_checks ?row" by (simp add: row_checks_def m_row_def)
  moreover have "op_consent_hash (m_op None Planned 100) = m_consent"
    by (simp add: m_op_def planned_operation_def)
  ultimately show ?thesis
    using m_op_valid [of 100 Planned] m_canonical [OF ascii_plan] m_canonical [OF m_op_ascii(1)]
      m_get [OF m_decodes(1)] row [simplified]
    by (simp add: create_planned_def op db_then_def db_lift_def with_immediate_transaction_def
        insert_or_ignore_def Let_def)
qed

lemma m_fail:
  "update_operation m_cx m_operation_id 1 (m_op None Failed 105) [m_row (m_op None Planned 100) None 1] =
     (Inr (m_record (m_op None Failed 105) None 2), [m_row (m_op None Failed 105) None 2])"
  using m_update [OF m_decodes(1), of "m_op None Failed 105"] m_decodes(2) m_members(2)
  by (simp add: can_transition_to_def)

lemma m_attach:
  "attach_capsule m_cx m_operation_id 1 m_capsule 110 [m_row (m_op None Planned 100) None 1] =
     (Inr (m_record (m_bound LocalRevisionReady 110) (Some m_capsule) 2),
      [m_row (m_bound LocalRevisionReady 110) m_capsule_json 2])"
proof -
  let ?row = "m_row (m_bound LocalRevisionReady 110) m_capsule_json 2"
  have row: "(m_row (m_op None Planned 100) None 1)\<lparr>mr_phase := phase_name LocalRevisionReady,
      mr_revision_hash := Some (spr_revision_hash m_revision),
      mr_operation_json := ref_json (operation_value (m_bound LocalRevisionReady 110)),
      mr_capsule_json := m_capsule_json, mr_updated_at := 110, mr_state_version := 2\<rparr> = ?row"
    by (simp add: m_row_def) (simp add: m_bound_def m_op_def planned_operation_def)
  have tr: "transition LocalRevisionReady 110 ((m_op None Planned 100)
      \<lparr>op_revision_hash := Some (spr_revision_hash m_revision)\<rparr>) = Inr (m_bound LocalRevisionReady 110)"
    by (simp add: transition_def can_transition_to_def m_bound_def m_op_def planned_operation_def)
  have "op_consent_hash (m_op None Planned 100) = m_consent"
    by (simp add: m_op_def planned_operation_def)
  then show ?thesis
    using m_capsule_valid tr m_operations_valid [OF m_members(3)] m_canonical [OF m_op_ascii(2)]
      m_canonical [OF m_capsule_ascii] m_get [OF m_decodes(1)] m_get [OF m_decodes(3)] row [simplified]
      m_cas [of 1]
    by (simp add: attach_capsule_def capsule_validate_def current_at_def with_immediate_transaction_def
        db_then_def db_lift_def)
qed

lemma m_deploy:
  "update_operation m_cx m_operation_id 2 (m_bound Deploying 120)
     [m_row (m_bound LocalRevisionReady 110) m_capsule_json 2] =
     (Inr (m_record (m_bound Deploying 120) (Some m_capsule) 3),
      [m_row (m_bound Deploying 120) m_capsule_json 3])"
  using m_update [OF m_decodes(3), of "m_bound Deploying 120"] m_decodes(4) m_members(4)
  by (simp add: can_transition_to_def)

lemma m_planned_reachable: "(managed_step m_cx)\<^sup>*\<^sup>* [] [m_row (m_op None Planned 100) None 1]"
  using step_create [of m_cx "[]" "m_plan ''a''" m_consent 100] by (simp add: m_create r_into_rtranclp)

lemma m_steps:
  "managed_step m_cx [m_row (m_op None Planned 100) None 1]
     [m_row (m_bound LocalRevisionReady 110) m_capsule_json 2]"
  "managed_step m_cx [m_row (m_bound LocalRevisionReady 110) m_capsule_json 2]
     [m_row (m_bound Deploying 120) m_capsule_json 3]"
  using step_attach [of m_cx "[m_row (m_op None Planned 100) None 1]" m_operation_id 1 m_capsule 110]
    step_update [of m_cx "[m_row (m_bound LocalRevisionReady 110) m_capsule_json 2]" m_operation_id 2
      "m_bound Deploying 120"]
  by (simp_all add: m_attach m_deploy)

lemma m_deploying_reachable: "(managed_step m_cx)\<^sup>*\<^sup>* [] [m_row (m_bound Deploying 120) m_capsule_json 3]"
  by (rule rtranclp.rtrancl_into_rtrancl [OF rtranclp.rtrancl_into_rtrancl
      [OF m_planned_reachable m_steps(1)] m_steps(2)])

section \<open>Statements on the store\<close>

theorem active_record_is_evidenced_witness: "evidenced m_cx (m_record m_active (Some m_capsule) 9)"
proof -
  have "get m_cx [m_row m_active m_capsule_json 9] m_operation_id
      = Inr (Some (m_record m_active (Some m_capsule) 9))"
    using m_decodes(5) by (simp add: get_def query_row_def m_row_def decode_record_Inr)
  then show ?thesis by (rule active_record_is_evidenced) simp
qed

theorem managed_rows_only_evolve_witness:
  "row_evolves (m_row (m_op None Planned 100) None 1) (m_row (m_bound Deploying 120) m_capsule_json 3)"
proof -
  have "(managed_step m_cx)\<^sup>*\<^sup>* [m_row (m_op None Planned 100) None 1]
      [m_row (m_bound Deploying 120) m_capsule_json 3]"
    using m_steps by (metis converse_rtranclp_into_rtranclp rtranclp.rtrancl_refl)
  from managed_rows_only_evolve [OF m_planned_reachable this] show ?thesis by simp
qed

theorem one_update_per_version_witness:
  "update_operation m_cx m_operation_id 1 (m_op None Failed 106) [m_row (m_op None Failed 105) None 2] =
     (Inl ''Managed Publication state version mismatch: expected 1, current 2'',
      [m_row (m_op None Failed 105) None 2])"
proof -
  have "nat_digits 1 = ''1''" "nat_digits 2 = ''2''" by code_simp+
  with one_update_per_version [OF m_planned_reachable m_fail, of "m_op None Failed 106"]
  show ?thesis by simp
qed


end
