(* ===== verification/Spec2Isabelle.thy ===== *)
theory Spec2Isabelle
  imports Protocol_Properties Deal_Lifecycle Settlement_Store Lightning_Properties Spend_Ledger Provider_Policy
    Session_Pool Public_Quota Publication_Statements Data_Witnesses Managed_Run
begin

text \<open>
  A verification library for froglet, a node that sells the execution of services for signed
  offers and settles over Lightning and other rails.

  \<^bold>\<open>The program.\<close> A provider publishes services and signs a descriptor and offers; a requester
  asks for a quote, signs a deal, pays, and receives a signed receipt. The crate
  \<open>froglet-protocol\<close> defines the artifacts, their signatures and the validation of whole chains;
  the node (\<open>src/src\<close>) keeps quotes, deals, settlements, budgets, policies, sessions and
  publications in SQLite and executes the work, among it a read-only data service.

  \<^bold>\<open>Conventions.\<close> A Rust \<open>String\<close> is a byte string, \<open>u64\<close>, \<open>usize\<close> and \<open>u32\<close> are words, \<open>i64\<close> is an
  integer with its range written out where it matters, \<open>f64\<close> is its 64 bits; a \<open>Result\<close> is a sum
  whose left side is the error and \<open>?\<close> is \<open>and_then\<close>. A SQL table is a list of rows, a statement a
  function on it (\<open>update_where\<close>, \<open>delete_where\<close>, \<open>query_row\<close>), an operation on the database a
  function from the database to a result and the new database, and a transaction restores the
  database on an error (\<open>with_immediate_transaction\<close>). Code of other crates is a parameter: the
  record \<open>crypto_env\<close> for SHA-256, BIP-340, hex and RFC 8785 with its documented laws, records of
  functions for the JSON text of stored columns, for Lightning wallets, for SQLite's answers, for
  the parsing of URLs and for the file system. \<open>Reference_Env\<close> is an environment that satisfies the laws, on which the
  concrete instances of the theorems run.

  \<^bold>\<open>Shared theories.\<close> \<open>Prelude\<close>: results, strings, machine integers, tables. \<open>Json\<close>: JSON values and
  the injectivity of objects. \<open>Float64\<close>: doubles, their rounding and parsing. \<open>Crypto\<close>: the
  primitives of \<open>crypto.rs\<close> and \<open>canonical_json.rs\<close>. \<open>Database\<close>: transactions.

  \<^bold>\<open>Protocol kernel and chains.\<close> \<open>Artifacts\<close>, \<open>Wire\<close>, \<open>Envelope\<close> and \<open>Kernel\<close> are
  \<open>froglet-protocol/src/protocol/kernel.rs\<close>: the payload structs, their JSON values, signing and
  verification, the validators of the six artifact kinds and \<open>verify_typed_document\<close>. \<open>Chain\<close> is
  \<open>chain.rs\<close>. \<open>Protocol_Properties\<close> shows that validation accepts exactly a declarative predicate,
  that signing and verifying are inverse, that a receipt hash pins the whole chain up to a
  collision of SHA-256, that success on a paid offer is paid in full, and that a valid chain
  agrees end to end.

  \<^bold>\<open>Deals.\<close> \<open>Deals\<close> is \<open>src/src/deals.rs\<close> on the tables of \<open>db.rs\<close>; \<open>Deal_Store\<close> and
  \<open>Deal_Lifecycle\<close> give the step relation of all its operations and its invariants: a quote funds
  one deal, finished deals are final, receipts belong to finished deals, one completion wins, and
  what the start-up quarantine does.

  \<^bold>\<open>Settlement.\<close> \<open>Settlement_Store\<close> holds the materialization claims, prepaid invoices and bundles
  of \<open>db.rs\<close>; \<open>Lightning_Invoices\<close>, \<open>Lightning_Bundles\<close> and \<open>Lightning_Issue\<close> are
  \<open>settlement/lightning.rs\<close> against an arbitrary wallet; \<open>Lightning_Properties\<close> shows that issued
  bundles validate, that a validated bundle binds its invoices, that a failed creation cancels
  what it created and that leg states only move forward.

  \<^bold>\<open>Admission and budgets.\<close> \<open>Spend_Ledger\<close> (\<open>requester_budget.rs\<close>), \<open>Provider_Policy\<close>
  (\<open>provider_policy.rs\<close> and the admission of new work in \<open>api/mod.rs\<close>), \<open>Session_Pool\<close> and
  \<open>Public_Quota\<close>, each with its bounds under every sequence of operations.

  \<^bold>\<open>Publications.\<close> \<open>Publication_Types\<close>, \<open>Publication_Precondition\<close>, \<open>Publication_Revision\<close> and
  \<open>Publication_Intent\<close> are the documents of \<open>froglet-protocol/src/publication.rs\<close>; \<open>Publications\<close>
  is the publication store of \<open>db.rs\<close>; \<open>Publication_Lifecycle\<close> and \<open>Publication_Steps\<close> give the
  abstract life of a service, the invariant and the step relation; \<open>Publication_Properties\<close> and
  \<open>Publication_Statements\<close> show consistency, the refinement of the abstract life, the immutability
  of revisions and what signatures and tokens pin.

  \<^bold>\<open>Managed publications.\<close> \<open>Managed_Deployment\<close> is \<open>froglet-protocol/src/managed_deployment.rs\<close>
  (desired state, adapters, approved plans, results), \<open>Managed_Publication\<close> is
  \<open>froglet-protocol/src/managed_publication.rs\<close> (bundles, packages, plans, capsules, operations, the
  phase machine and all validators) and \<open>Managed_Store\<close> the durable records of
  \<open>src/src/managed_publication.rs\<close>. \<open>Managed_Steps\<close> gives the invariant and the step relation of the
  store; \<open>Managed_Properties\<close> shows that an active record carries its whole chain of evidence, that
  rows only move forward, that one writer wins per state version, that recovery leaves nothing in
  flight, that the phases end, and what plans approve and plan hashes pin. \<open>Managed_Witnesses\<close> and
  \<open>Managed_Run\<close> take one publication through the store.

  \<^bold>\<open>The data service.\<close> \<open>Csv_Source\<close> (parser, typed cells, content digest), \<open>Csv_Cache\<close> (the SQLite
  cache of a CSV source), \<open>Data_Query\<close> (limits, JSON data sets, selections, responses, source
  paths) and \<open>Data_Handler\<close> (opening, the handler cache) are \<open>src/src/builtins/data_query.rs\<close>.
  \<open>Csv_Round_Trip\<close>, \<open>Csv_Cache\<close> and \<open>Data_Properties\<close> show that written CSV reads back, that rows
  fit the schema, that a cache which opens holds the published rows and can always be rebuilt,
  and that pages are exact. \<open>Data_Witnesses\<close> instantiates them.

  \<^bold>\<open>Interfaces.\<close> A contract that several operations share is a locale, interpreted on the model's
  definitions: payload codecs, report checks, compare-and-set status updates, ledger updates,
  provider operations, leases, forward-only operations, signed statements, publication
  operations and managed store operations.

  \<^bold>\<open>Termination and bounds.\<close> Every loop of the model is a total function: loops over tables and
  lists are structural, the CSV parser and the visit of its rows decrease the rest of the input.
  No fuel is used. Word arithmetic wraps, saturates or is checked as the code does.

  \<^bold>\<open>Not modelled.\<close> The HTTP handlers and background tasks of \<open>api/mod.rs\<close> and \<open>server.rs\<close> beyond the
  admission of work, network transports, key custody, configuration, the drivers of payment
  services, sandboxes and container engines, the target registry and the operator process of
  managed deployments with their history and log documents, the command line, the publish engine
  and the packages around the node: they are input and output around the modelled stores or call code
  that is not part of the repository. The text layer of serde, SQLite itself and the operating
  system are parameters. Concurrency appears as the interleaving of whole database operations,
  which the node serialises through one connection.
\<close>

end
